(* ===== verification/Prelude.thy ===== *)
theory Prelude
  imports Main "HOL-Library.Word" "HOL-Library.Monad_Syntax" "HOL-Library.AList"
begin

text \<open>
  Shared vocabulary of the development: the machine types of the Go code, the value a Go
  function that may panic has, byte strings in big-endian order, and the generic lemmas on
  lists, words and association lists that the components use.

  A Go function that can panic (index out of range, nil dereference, failed type assertion,
  explicit \<^verbatim>\<open>panic\<close>) is a function into \<open>'a option\<close>; \<open>None\<close> is the panic. A recursive
  interpreter that takes fuel also answers \<open>None\<close> when the fuel runs out, so a theorem
  \<open>\<exists>r. f x = Some r\<close> always says both that the code returns and that it does not panic.
\<close>

unbundle bit_operations_syntax

section \<open>Machine types\<close>

type_synonym u8 = "8 word"
type_synonym u16 = "16 word"
type_synonym u32 = "32 word"
type_synonym u64 = "64 word"
type_synonym u256 = "256 word"
type_synonym bytes = "u8 list"
type_synonym address = "160 word"
type_synonym hash = "256 word"

named_theorems panics \<open>equations that say when an operation of the code panics\<close>
named_theorems step_simps \<open>unfoldings of single operations of the machine\<close>
named_theorems gas_simps \<open>unfoldings of gas formulas\<close>

abbreviation max_u64 :: u64 where
  "max_u64 \<equiv> - 1"

section \<open>Options as computations that may panic\<close>

definition guard :: "bool \<Rightarrow> unit option" where
  "guard b = (if b then Some () else None)"

lemma guard_simps [simp]: "guard True = Some ()" "guard False = None"
  by (simp_all add: guard_def)

lemma bind_guard_Some_iff [simp]:
  "(guard b \<bind> f = Some y) \<longleftrightarrow> b \<and> f () = Some y"
  by (cases b) simp_all

lemma bind_Some_iff: "(x \<bind> f = Some y) \<longleftrightarrow> (\<exists>z. x = Some z \<and> f z = Some y)"
  by (cases x) simp_all

lemma bind_None_iff: "(x \<bind> f = None) \<longleftrightarrow> (x = None \<or> (\<exists>z. x = Some z \<and> f z = None))"
  by (cases x) simp_all

text \<open>\<open>yields P m\<close>: if the computation does not panic, its result satisfies \<open>P\<close>.\<close>

definition yields :: "('a \<Rightarrow> bool) \<Rightarrow> 'a option \<Rightarrow> bool" where
  "yields P m \<longleftrightarrow> (\<forall>x. m = Some x \<longrightarrow> P x)"

lemma yields_simps [simp]:
  "yields P (Some x) = P x" "yields P None"
  "yields P (if b then m else n) = ((b \<longrightarrow> yields P m) \<and> (\<not> b \<longrightarrow> yields P n))"
  by (simp_all add: yields_def)

lemma yields_bind [simp]: "yields P (m \<bind> k) = yields (\<lambda>x. yields P (k x)) m"
  by (auto simp: yields_def bind_Some_iff)

lemma yields_map [simp]: "yields P (map_option g m) = yields (\<lambda>x. P (g x)) m"
  by (auto simp: yields_def)

lemma yields_any: "(\<And>x. P x) \<Longrightarrow> yields P m"
  by (simp add: yields_def)

lemma yields_mono: "yields P m \<Longrightarrow> (\<And>x. P x \<Longrightarrow> Q x) \<Longrightarrow> yields Q m"
  by (simp add: yields_def)

lemma yieldsD: "yields P m \<Longrightarrow> m = Some x \<Longrightarrow> P x"
  by (simp add: yields_def)

section \<open>Lists\<close>

lemma split_last1: "1 \<le> length xs \<Longrightarrow> \<exists>r a. xs = r @ [a]"
  by (cases xs rule: rev_cases) auto

lemma split_last2: "2 \<le> length xs \<Longrightarrow> \<exists>r b a. xs = r @ [b, a]"
proof -
  assume l: "2 \<le> length xs"
  then obtain r a where "xs = r @ [a]" using split_last1 [of xs] by auto
  moreover from this l have "1 \<le> length r" by simp
  then obtain r' b where "r = r' @ [b]" using split_last1 by blast
  ultimately show ?thesis by simp
qed

lemma split_lastn: "n \<le> length xs \<Longrightarrow> \<exists>r ys. xs = r @ ys \<and> length ys = n"
  by (rule exI [of _ "take (length xs - n) xs"], rule exI [of _ "drop (length xs - n) xs"]) simp

text \<open>A slice expression \<^verbatim>\<open>xs[a:b]\<close>: it panics unless \<open>0 \<le> a \<le> b \<le> length xs\<close> (the capacity
  of a slice is taken to be its length). \<open>go_copy\<close> is the built-in \<^verbatim>\<open>copy\<close> into \<^verbatim>\<open>xs[o:o+n]\<close>, an
  interval the caller has checked.\<close>

definition go_slice :: "'a list \<Rightarrow> nat \<Rightarrow> nat \<Rightarrow> 'a list option" where
  "go_slice xs a b = (if a \<le> b \<and> b \<le> length xs then Some (take (b - a) (drop a xs)) else None)"

definition go_copy :: "'a list \<Rightarrow> nat \<Rightarrow> nat \<Rightarrow> 'a list \<Rightarrow> 'a list" where
  "go_copy xs k n ys = take k xs @ take n ys @ drop (k + min n (length ys)) xs"

definition go_index :: "'a list \<Rightarrow> nat \<Rightarrow> 'a option" where
  "go_index xs i = (if i < length xs then Some (xs ! i) else None)"

definition go_update :: "'a list \<Rightarrow> nat \<Rightarrow> 'a \<Rightarrow> 'a list option" where
  "go_update xs i v = (if i < length xs then Some (xs[i := v]) else None)"

lemma go_slice_Some_iff [simp]:
  "(go_slice xs a b = Some ys) \<longleftrightarrow> a \<le> b \<and> b \<le> length xs \<and> ys = take (b - a) (drop a xs)"
  by (auto simp: go_slice_def)

lemma go_slice_None_iff [panics]: "(go_slice xs a b = None) \<longleftrightarrow> b < a \<or> length xs < b"
  by (auto simp: go_slice_def)

lemma go_index_Some_iff [simp]: "(go_index xs i = Some v) \<longleftrightarrow> i < length xs \<and> v = xs ! i"
  by (auto simp: go_index_def)

lemma go_index_None_iff [panics]: "(go_index xs i = None) \<longleftrightarrow> length xs \<le> i"
  by (auto simp: go_index_def)

lemma go_update_Some_iff [simp]:
  "(go_update xs i v = Some ys) \<longleftrightarrow> i < length xs \<and> ys = xs[i := v]"
  by (auto simp: go_update_def)

lemma length_go_copy [simp]: "k + n \<le> length xs \<Longrightarrow> length (go_copy xs k n ys) = length xs"
  by (simp add: go_copy_def)

lemma nth_go_copy:
  assumes "k + n \<le> length xs" and "i < length xs"
  shows "go_copy xs k n ys ! i = (if k \<le> i \<and> i < k + min n (length ys) then ys ! (i - k) else xs ! i)"
  using assms by (auto simp: go_copy_def nth_append min_def)

section \<open>Words\<close>

lemma unat_ucast_u64: "unat (ucast (x :: 'a :: len word) :: u64) = unat x mod 2 ^ 64"
  by (simp add: unsigned_ucast_eq take_bit_eq_mod)

lemma sint_u64_small:
  assumes "unat (x :: u64) < 2 ^ 63"
  shows "sint x = int (unat x)"
proof -
  have "int (unat x) < int (2 ^ 63)" using assms by (simp only: of_nat_less_iff)
  then have "uint x < 2 ^ 63" by simp
  moreover have "- (2 ^ 63) \<le> uint x" using order_trans [of "- (2 ^ 63)" 0 "uint x"] by simp
  ultimately have "signed_take_bit 63 (uint x) = uint x"
    by (simp add: signed_take_bit_int_eq_self_iff)
  then show ?thesis by (simp add: sint_uint)
qed

lemma unat_add_u64_no_wrap:
  "unat (x :: u64) + unat y < 2 ^ 64 \<Longrightarrow> unat (x + y) = unat x + unat y"
  using unat_word_ariths(1) [of x y] by simp

lemma unat_mult_u64_no_wrap:
  "unat (x :: u64) * unat y < 2 ^ 64 \<Longrightarrow> unat (x * y) = unat x * unat y"
  using unat_word_ariths(2) [of x y] by simp

lemma unat_sub_u64: "y \<le> x \<Longrightarrow> unat ((x :: u64) - y) = unat x - unat y"
  by (rule unat_sub)

lemma add_u64_overflow_iff:
  "((x :: u64) + y < x) \<longleftrightarrow> 2 ^ 64 \<le> unat x + unat y"
proof -
  have "x \<le> x + y \<longleftrightarrow> unat x + unat y < 2 ^ 64"
    using no_plus_overflow_unat_size [of x y] by (simp add: word_size)
  then show ?thesis by (simp add: not_less not_le flip: linorder_not_le)
qed

section \<open>Big-endian byte strings\<close>

text \<open>\<open>be_nat\<close> reads a byte string as an unsigned big-endian number, \<open>be_bytes n x\<close> writes
  the low \<open>n\<close> bytes of \<open>x\<close>, \<open>min_bytes x\<close> the shortest byte string that reads as \<open>x\<close>.\<close>

fun be_nat :: "bytes \<Rightarrow> nat" where
  "be_nat [] = 0"
| "be_nat (b # bs) = unat b * 256 ^ length bs + be_nat bs"

fun be_bytes :: "nat \<Rightarrow> nat \<Rightarrow> bytes" where
  "be_bytes 0 x = []"
| "be_bytes (Suc n) x = be_bytes n (x div 256) @ [of_nat (x mod 256)]"

fun min_bytes :: "nat \<Rightarrow> bytes" where
  "min_bytes x = (if x = 0 then [] else min_bytes (x div 256) @ [of_nat (x mod 256)])"

declare min_bytes.simps [simp del]

lemma length_be_bytes [simp]: "length (be_bytes n x) = n"
  by (induction n arbitrary: x) simp_all

lemma be_nat_append: "be_nat (xs @ ys) = be_nat xs * 256 ^ length ys + be_nat ys"
  by (induction xs) (simp_all add: algebra_simps power_add)

lemma be_nat_snoc [simp]: "be_nat (xs @ [b]) = be_nat xs * 256 + unat b"
  by (simp add: be_nat_append)

lemma unat_of_nat_byte [simp]: "unat (of_nat (x mod 256) :: u8) = x mod 256"
  by (simp add: unat_of_nat)

lemma be_nat_be_bytes: "be_nat (be_bytes n x) = x mod 256 ^ n"
proof (induction n arbitrary: x)
  case 0
  then show ?case by simp
next
  case (Suc n)
  have "be_nat (be_bytes (Suc n) x) = (x div 256 mod 256 ^ n) * 256 + x mod 256"
    by (simp add: Suc.IH)
  also have "\<dots> = x mod (256 * 256 ^ n)"
    by (simp add: mod_mult2_eq)
  finally show ?case by simp
qed

lemma be_nat_less: "be_nat bs < 256 ^ length bs"
proof (induction bs)
  case Nil
  then show ?case by simp
next
  case (Cons b bs)
  have "unat b < 256" using unsigned_less [of b] by simp
  then have "(unat b + 1) * 256 ^ length bs \<le> 256 * 256 ^ length bs"
    by (intro mult_le_mono1) simp
  then have "unat b * 256 ^ length bs + 256 ^ length bs \<le> 256 * 256 ^ length bs"
    by (simp only: add_mult_distrib mult_1)
  with Cons.IH have "unat b * 256 ^ length bs + be_nat bs < 256 * 256 ^ length bs"
    by linarith
  then show ?case by (simp only: be_nat.simps length_Cons power_Suc)
qed

lemma be_bytes_be_nat: "be_bytes (length bs) (be_nat bs) = bs"
proof (induction bs rule: rev_induct)
  case Nil
  then show ?case by simp
next
  case (snoc b bs)
  have "unat b < 256" using unsigned_less [of b] by simp
  then have "(be_nat bs * 256 + unat b) div 256 = be_nat bs"
    and "(be_nat bs * 256 + unat b) mod 256 = unat b" by simp_all
  with snoc.IH show ?case by simp
qed

lemma be_nat_min_bytes: "be_nat (min_bytes x) = x"
proof (induction x rule: min_bytes.induct)
  case (1 x)
  then show ?case by (cases "x = 0") (simp_all add: min_bytes.simps [of 0] min_bytes.simps [of x])
qed

section \<open>Association lists as Go maps\<close>

text \<open>A Go map is an association list with distinct keys: \<open>map_of\<close> looks a key up,
  \<open>AList.update\<close> stores, \<open>AList.delete\<close> deletes. The list order stands for one iteration
  order; Go leaves that order open.\<close>

type_synonym ('k, 'v) gomap = "('k \<times> 'v) list"

abbreviation lookup :: "('k, 'v) gomap \<Rightarrow> 'k \<Rightarrow> 'v option" where
  "lookup m k \<equiv> map_of m k"

definition wf_map :: "('k, 'v) gomap \<Rightarrow> bool" where
  "wf_map m \<longleftrightarrow> distinct (map fst m)"

lemma wf_map_Nil [simp]: "wf_map []"
  by (simp add: wf_map_def)

lemma wf_map_update [simp]: "wf_map m \<Longrightarrow> wf_map (AList.update k v m)"
  by (simp add: wf_map_def distinct_update)

lemma wf_map_delete [simp]: "wf_map m \<Longrightarrow> wf_map (AList.delete k m)"
  by (simp add: wf_map_def distinct_delete)

lemma lookup_update [simp]:
  "lookup (AList.update k v m) k' = (if k' = k then Some v else lookup m k')"
  by (simp add: update_conv)

lemma length_update:
  "length (AList.update k v m) = (if k \<in> fst ` set m then length m else Suc (length m))"
  by (induction m) auto

lemma keys_update: "fst ` set (AList.update k v m) = insert k (fst ` set m)"
  by (induction m) auto

lemma in_keys_iff_lookup: "k \<in> fst ` set m \<longleftrightarrow> lookup m k \<noteq> None"
  by (metis map_of_eq_None_iff)

end
