(* ===== verification/External.thy ===== *)
theory External
  imports Prelude
begin

text \<open>
  The code that is not in the repository and that the components call: the 256-bit integers of
  \<^verbatim>\<open>holiman/uint256\<close>, helpers of \<^verbatim>\<open>go-ethereum\<close> and \<^verbatim>\<open>MetaTypes\<close> (checked arithmetic, padding,
  hashes, address derivation); the state database has its own theory.
  Each is a record of functions that the model's definitions take as an argument.
  \<open>uint256_spec\<close> and \<open>geth_spec\<close> state the documented behaviour that theorems assume;
  \<open>uint256_std\<close> and \<open>geth_std\<close> are concrete functions that satisfy them, used to evaluate witnesses.
\<close>

section \<open>The integer library uint256\<close>

record uint256_ops =
  u_Add :: "u256 \<Rightarrow> u256 \<Rightarrow> u256"
  u_Sub :: "u256 \<Rightarrow> u256 \<Rightarrow> u256"
  u_Mul :: "u256 \<Rightarrow> u256 \<Rightarrow> u256"
  u_Div :: "u256 \<Rightarrow> u256 \<Rightarrow> u256"
  u_SDiv :: "u256 \<Rightarrow> u256 \<Rightarrow> u256"
  u_Mod :: "u256 \<Rightarrow> u256 \<Rightarrow> u256"
  u_SMod :: "u256 \<Rightarrow> u256 \<Rightarrow> u256"
  u_Exp :: "u256 \<Rightarrow> u256 \<Rightarrow> u256"
  u_ExtendSign :: "u256 \<Rightarrow> u256 \<Rightarrow> u256"
  u_Not :: "u256 \<Rightarrow> u256"
  u_And :: "u256 \<Rightarrow> u256 \<Rightarrow> u256"
  u_Or :: "u256 \<Rightarrow> u256 \<Rightarrow> u256"
  u_Xor :: "u256 \<Rightarrow> u256 \<Rightarrow> u256"
  u_Byte :: "u256 \<Rightarrow> u256 \<Rightarrow> u256"
  u_AddMod :: "u256 \<Rightarrow> u256 \<Rightarrow> u256 \<Rightarrow> u256"
  u_MulMod :: "u256 \<Rightarrow> u256 \<Rightarrow> u256 \<Rightarrow> u256"
  u_Lsh :: "u256 \<Rightarrow> nat \<Rightarrow> u256"
  u_Rsh :: "u256 \<Rightarrow> nat \<Rightarrow> u256"
  u_SRsh :: "u256 \<Rightarrow> nat \<Rightarrow> u256"
  u_Lt :: "u256 \<Rightarrow> u256 \<Rightarrow> bool"
  u_Gt :: "u256 \<Rightarrow> u256 \<Rightarrow> bool"
  u_Slt :: "u256 \<Rightarrow> u256 \<Rightarrow> bool"
  u_Sgt :: "u256 \<Rightarrow> u256 \<Rightarrow> bool"
  u_Eq :: "u256 \<Rightarrow> u256 \<Rightarrow> bool"
  u_IsZero :: "u256 \<Rightarrow> bool"
  u_Sign :: "u256 \<Rightarrow> int"
  u_LtUint64 :: "u256 \<Rightarrow> u64 \<Rightarrow> bool"
  u_GtUint64 :: "u256 \<Rightarrow> u64 \<Rightarrow> bool"
  u_SetAllOne :: u256
  u_SetUint64 :: "u64 \<Rightarrow> u256"
  u_SetBytes :: "bytes \<Rightarrow> u256"
  u_Bytes :: "u256 \<Rightarrow> bytes"
  u_Bytes20 :: "u256 \<Rightarrow> address"
  u_Bytes32 :: "u256 \<Rightarrow> hash"
  u_Uint64 :: "u256 \<Rightarrow> u64"
  u_IsUint64 :: "u256 \<Rightarrow> bool"
  u_Uint64WithOverflow :: "u256 \<Rightarrow> u64 \<times> bool"
  u_BitLen :: "u256 \<Rightarrow> nat"
  u_FromBig :: "int \<Rightarrow> u256"
  u_ToBig :: "u256 \<Rightarrow> int"
  u_WriteToSlice :: "u256 \<Rightarrow> bytes \<Rightarrow> bytes"

definition trunc_sdiv :: "u256 \<Rightarrow> u256 \<Rightarrow> u256" where
  "trunc_sdiv x y = word_of_int (sgn (sint x) * sgn (sint y) * (\<bar>sint x\<bar> div \<bar>sint y\<bar>))"

definition trunc_smod :: "u256 \<Rightarrow> u256 \<Rightarrow> u256" where
  "trunc_smod x y = word_of_int (sgn (sint x) * (\<bar>sint x\<bar> mod \<bar>sint y\<bar>))"

fun nat_bitlen :: "nat \<Rightarrow> nat" where
  "nat_bitlen x = (if x = 0 then 0 else Suc (nat_bitlen (x div 2)))"

declare nat_bitlen.simps [simp del]

text \<open>The documented behaviour: arithmetic modulo \<open>2 ^ 256\<close>, division and remainder by zero
  give zero, signed operations on two's complement, comparisons, conversions.\<close>

definition uint256_std :: uint256_ops where
  "uint256_std = \<lparr>
     u_Add = (+), u_Sub = (-), u_Mul = (*),
     u_Div = (\<lambda>x y. if y = 0 then 0 else x div y),
     u_SDiv = (\<lambda>x y. if y = 0 then 0 else trunc_sdiv x y),
     u_Mod = (\<lambda>x y. if y = 0 then 0 else x mod y),
     u_SMod = (\<lambda>x y. if y = 0 then 0 else trunc_smod x y),
     u_Exp = (\<lambda>x y. x ^ unat y),
     u_ExtendSign = (\<lambda>x b. if b < 31 then signed_take_bit (unat b * 8 + 7) x else x),
     u_Not = (\<lambda>x. NOT x), u_And = (AND), u_Or = (OR), u_Xor = (XOR),
     u_Byte = (\<lambda>x n. if n < 32 then drop_bit (8 * (31 - unat n)) x AND 0xff else 0),
     u_AddMod = (\<lambda>x y m. if m = 0 then 0 else of_nat ((unat x + unat y) mod unat m)),
     u_MulMod = (\<lambda>x y m. if m = 0 then 0 else of_nat ((unat x * unat y) mod unat m)),
     u_Lsh = (\<lambda>x n. push_bit n x), u_Rsh = (\<lambda>x n. drop_bit n x),
     u_SRsh = (\<lambda>x n. signed_drop_bit n x),
     u_Lt = (<), u_Gt = (>), u_Slt = (\<lambda>x y. sint x < sint y), u_Sgt = (\<lambda>x y. sint y < sint x),
     u_Eq = (=), u_IsZero = (\<lambda>x. x = 0), u_Sign = (\<lambda>x. sgn (sint x)),
     u_LtUint64 = (\<lambda>x n. unat x < unat n), u_GtUint64 = (\<lambda>x n. unat n < unat x),
     u_SetAllOne = - 1, u_SetUint64 = ucast,
     u_SetBytes = (\<lambda>bs. of_nat (be_nat bs)), u_Bytes = (\<lambda>x. min_bytes (unat x)),
     u_Bytes20 = ucast, u_Bytes32 = (\<lambda>x. x),
     u_Uint64 = ucast, u_IsUint64 = (\<lambda>x. unat x < 2 ^ 64),
     u_Uint64WithOverflow = (\<lambda>x. (ucast x, 2 ^ 64 \<le> unat x)),
     u_BitLen = (\<lambda>x. nat_bitlen (unat x)),
     u_FromBig = word_of_int, u_ToBig = uint,
     u_WriteToSlice = (\<lambda>x d. let n = min 32 (length d) in be_bytes n (unat x) @ drop n d) \<rparr>"

definition uint256_spec :: "uint256_ops \<Rightarrow> bool" where
  "uint256_spec U \<longleftrightarrow>
     (\<forall>x. u_IsZero U x = (x = 0)) \<and>
     (\<forall>x. u_Uint64 U x = ucast x) \<and>
     (\<forall>x. u_IsUint64 U x = (unat x < 2 ^ 64)) \<and>
     (\<forall>x. u_Uint64WithOverflow U x = (ucast x, 2 ^ 64 \<le> unat x)) \<and>
     (\<forall>n. u_SetUint64 U n = ucast n) \<and>
     (\<forall>x y. u_Add U x y = x + y) \<and>
     (\<forall>x n. u_LtUint64 U x n = (unat x < unat n)) \<and>
     (\<forall>x n. u_GtUint64 U x n = (unat n < unat x)) \<and>
     (\<forall>x. unat x < 2 ^ u_BitLen U x \<and> u_BitLen U x \<le> 256) \<and>
     (\<forall>bs. u_SetBytes U bs = of_nat (be_nat bs)) \<and>
     (\<forall>x d. 32 \<le> length d \<longrightarrow> u_WriteToSlice U x d = be_bytes 32 (unat x) @ drop 32 d) \<and>
     (\<forall>x. (u_Sign U x = 0) = (x = 0))"

lemma uint256_specD:
  assumes "uint256_spec U"
  shows "u_IsZero U x = (x = 0)" "u_Uint64 U x = ucast x"
    "u_IsUint64 U x = (unat x < 2 ^ 64)"
    "u_Uint64WithOverflow U x = (ucast x, 2 ^ 64 \<le> unat x)"
    "u_SetUint64 U n = ucast n" "u_Add U x y = x + y"
    "u_LtUint64 U x n = (unat x < unat n)" "u_GtUint64 U x n = (unat n < unat x)"
    "unat x < 2 ^ u_BitLen U x" "u_BitLen U x \<le> 256"
    "u_SetBytes U bs = of_nat (be_nat bs)"
    "32 \<le> length d \<Longrightarrow> u_WriteToSlice U x d = be_bytes 32 (unat x) @ drop 32 d"
    "(u_Sign U x = 0) = (x = 0)"
  using assms by (simp_all add: uint256_spec_def)

lemma less_pow_nat_bitlen: "x < 2 ^ nat_bitlen x"
proof (induction x rule: nat_bitlen.induct)
  case (1 x)
  show ?case
  proof (cases "x = 0")
    case True
    then show ?thesis by simp
  next
    case False
    with 1 have "x div 2 < 2 ^ nat_bitlen (x div 2)" by simp
    then have "x < 2 * 2 ^ nat_bitlen (x div 2)" by linarith
    with False show ?thesis by (simp add: nat_bitlen.simps [of x])
  qed
qed

lemma nat_bitlen_le: "x < 2 ^ k \<Longrightarrow> nat_bitlen x \<le> k"
proof (induction x arbitrary: k rule: nat_bitlen.induct)
  case (1 x)
  show ?case
  proof (cases "x = 0")
    case True
    then show ?thesis by (simp add: nat_bitlen.simps [of 0])
  next
    case False
    with "1.prems" obtain j where k: "k = Suc j" by (cases k) auto
    with "1.prems" have "x div 2 < 2 ^ j" by simp
    with False k "1.IH" show ?thesis by (simp add: nat_bitlen.simps [of x])
  qed
qed

lemma uint256_std_spec: "uint256_spec uint256_std"
proof -
  have "nat_bitlen (unat (x :: u256)) \<le> 256" for x
    using nat_bitlen_le [of "unat x" 256] unsigned_less [of x] by simp
  then show ?thesis
    by (simp add: uint256_spec_def uint256_std_def less_pow_nat_bitlen Let_def sgn_eq_0_iff signed_eq_0_iff)
qed

section \<open>Helpers of go-ethereum and MetaTypes\<close>

record geth_ops =
  g_SafeAdd :: "u64 \<Rightarrow> u64 \<Rightarrow> u64 \<times> bool"
  g_SafeMul :: "u64 \<Rightarrow> u64 \<Rightarrow> u64 \<times> bool"
  g_RightPadBytes :: "bytes \<Rightarrow> nat \<Rightarrow> bytes"
  g_LeftPadBytes :: "bytes \<Rightarrow> nat \<Rightarrow> bytes"
  g_Keccak256 :: "bytes \<Rightarrow> bytes"
  g_Keccak256Hash :: "bytes \<Rightarrow> hash"
  g_CreateAddress :: "address \<Rightarrow> u64 \<Rightarrow> address"
  g_CreateAddress2 :: "address \<Rightarrow> hash \<Rightarrow> bytes \<Rightarrow> address"
  g_BytesToHash :: "bytes \<Rightarrow> hash"
  g_BytesToAddress :: "bytes \<Rightarrow> address"
  g_HashBytes :: "hash \<Rightarrow> bytes"
  g_AddrBytes :: "address \<Rightarrow> bytes"

definition geth_std :: geth_ops where
  "geth_std = \<lparr>
     g_SafeAdd = (\<lambda>x y. (x + y, 2 ^ 64 \<le> unat x + unat y)),
     g_SafeMul = (\<lambda>x y. (x * y, 2 ^ 64 \<le> unat x * unat y)),
     g_RightPadBytes = (\<lambda>bs l. if l \<le> length bs then bs else bs @ replicate (l - length bs) 0),
     g_LeftPadBytes = (\<lambda>bs l. if l \<le> length bs then bs else replicate (l - length bs) 0 @ bs),
     g_Keccak256 = (\<lambda>bs. be_bytes 32 (be_nat bs)),
     g_Keccak256Hash = (\<lambda>bs. of_nat (be_nat bs)),
     g_CreateAddress = (\<lambda>a n. a + ucast n + 1),
     g_CreateAddress2 = (\<lambda>a s bs. a + ucast s + of_nat (be_nat bs)),
     g_BytesToHash = (\<lambda>bs. of_nat (be_nat bs)),
     g_BytesToAddress = (\<lambda>bs. of_nat (be_nat bs)),
     g_HashBytes = (\<lambda>h. be_bytes 32 (unat h)),
     g_AddrBytes = (\<lambda>a. be_bytes 20 (unat a)) \<rparr>"

definition geth_spec :: "geth_ops \<Rightarrow> bool" where
  "geth_spec G \<longleftrightarrow>
     (\<forall>x y. g_SafeAdd G x y = (x + y, 2 ^ 64 \<le> unat x + unat y)) \<and>
     (\<forall>x y. g_SafeMul G x y = (x * y, 2 ^ 64 \<le> unat x * unat y)) \<and>
     (\<forall>bs l. g_RightPadBytes G bs l =
        (if l \<le> length bs then bs else bs @ replicate (l - length bs) 0)) \<and>
     (\<forall>bs l. g_LeftPadBytes G bs l =
        (if l \<le> length bs then bs else replicate (l - length bs) 0 @ bs)) \<and>
     (\<forall>bs. length (g_Keccak256 G bs) = 32) \<and>
     (\<forall>bs. g_BytesToHash G bs = of_nat (be_nat bs)) \<and>
     (\<forall>bs. g_BytesToAddress G bs = of_nat (be_nat bs)) \<and>
     (\<forall>h. g_HashBytes G h = be_bytes 32 (unat h)) \<and>
     (\<forall>a. g_AddrBytes G a = be_bytes 20 (unat a))"

lemma geth_specD:
  assumes "geth_spec G"
  shows "g_SafeAdd G x y = (x + y, 2 ^ 64 \<le> unat x + unat y)"
    "g_SafeMul G x y = (x * y, 2 ^ 64 \<le> unat x * unat y)"
    "g_RightPadBytes G bs l = (if l \<le> length bs then bs else bs @ replicate (l - length bs) 0)"
    "g_LeftPadBytes G bs l = (if l \<le> length bs then bs else replicate (l - length bs) 0 @ bs)"
    "length (g_Keccak256 G bs) = 32"
    "g_BytesToHash G bs = of_nat (be_nat bs)"
    "g_BytesToAddress G bs = of_nat (be_nat bs)"
    "g_HashBytes G h = be_bytes 32 (unat h)"
    "g_AddrBytes G a = be_bytes 20 (unat a)"
  using assms by (simp_all add: geth_spec_def)

lemma geth_std_spec: "geth_spec geth_std"
  by (simp add: geth_spec_def geth_std_def)

lemma BytesToHash_HashBytes:
  assumes "geth_spec G"
  shows "g_BytesToHash G (g_HashBytes G h) = h"
proof -
  have "unat h < 256 ^ 32" using unsigned_less [of h] by simp
  then show ?thesis by (simp only: geth_specD [OF assms] be_nat_be_bytes mod_less of_nat_unat ucast_id)
qed

end
