(* ===== verification/Params.thy ===== *)
theory Params
  imports External
begin

text \<open>
  The protocol constants of \<^verbatim>\<open>params/protocol_params.go\<close> that the modelled code reads. Some files
  import the package of the same name of \<^verbatim>\<open>go-ethereum\<close> instead, whose constants are the
  ones the repository's copy repeats. Gas amounts are \<^verbatim>\<open>uint64\<close>; \<open>MaxCodeSize\<close> is an untyped
  constant, compared with a length. Every constant is a simplification rule.
\<close>

definition GenesisGasLimit :: u64 where [simp]: "GenesisGasLimit = 4712388"
definition ExpByteGas :: u64 where [simp]: "ExpByteGas = 10"
definition CallValueTransferGas :: u64 where [simp]: "CallValueTransferGas = 9000"
definition CallNewAccountGas :: u64 where [simp]: "CallNewAccountGas = 25000"
definition TxGas :: u64 where [simp]: "TxGas = 21000"
definition TxGasContractCreation :: u64 where [simp]: "TxGasContractCreation = 53000"
definition TxDataZeroGas :: u64 where [simp]: "TxDataZeroGas = 4"
definition QuadCoeffDiv :: u64 where [simp]: "QuadCoeffDiv = 512"
definition LogDataGas :: u64 where [simp]: "LogDataGas = 8"
definition CallStipend :: u64 where [simp]: "CallStipend = 2300"
definition Keccak256Gas :: u64 where [simp]: "Keccak256Gas = 30"
definition Keccak256WordGas :: u64 where [simp]: "Keccak256WordGas = 6"
definition InitCodeWordGas :: u64 where [simp]: "InitCodeWordGas = 2"
definition NetSstoreNoopGas :: u64 where [simp]: "NetSstoreNoopGas = 200"
definition NetSstoreInitGas :: u64 where [simp]: "NetSstoreInitGas = 20000"
definition NetSstoreCleanGas :: u64 where [simp]: "NetSstoreCleanGas = 5000"
definition NetSstoreDirtyGas :: u64 where [simp]: "NetSstoreDirtyGas = 200"
definition NetSstoreClearRefund :: u64 where [simp]: "NetSstoreClearRefund = 15000"
definition NetSstoreResetRefund :: u64 where [simp]: "NetSstoreResetRefund = 4800"
definition NetSstoreResetClearRefund :: u64 where [simp]: "NetSstoreResetClearRefund = 19800"
definition SstoreSentryGasEIP2200 :: u64 where [simp]: "SstoreSentryGasEIP2200 = 2300"
definition SstoreSetGasEIP2200 :: u64 where [simp]: "SstoreSetGasEIP2200 = 20000"
definition SstoreResetGasEIP2200 :: u64 where [simp]: "SstoreResetGasEIP2200 = 5000"
definition SstoreClearsScheduleRefundEIP2200 :: u64 where [simp]: "SstoreClearsScheduleRefundEIP2200 = 15000"
definition ColdAccountAccessCostEIP2929 :: u64 where [simp]: "ColdAccountAccessCostEIP2929 = 2600"
definition ColdSloadCostEIP2929 :: u64 where [simp]: "ColdSloadCostEIP2929 = 2100"
definition WarmStorageReadCostEIP2929 :: u64 where [simp]: "WarmStorageReadCostEIP2929 = 100"
definition JumpdestGas :: u64 where [simp]: "JumpdestGas = 1"
definition CreateDataGas :: u64 where [simp]: "CreateDataGas = 200"
definition CallCreateDepth :: u64 where [simp]: "CallCreateDepth = 1024"
definition ExpGas :: u64 where [simp]: "ExpGas = 10"
definition LogGas :: u64 where [simp]: "LogGas = 375"
definition CopyGas :: u64 where [simp]: "CopyGas = 3"
definition StackLimit :: u64 where [simp]: "StackLimit = 1024"
definition LogTopicGas :: u64 where [simp]: "LogTopicGas = 375"
definition CreateGas :: u64 where [simp]: "CreateGas = 32000"
definition Create2Gas :: u64 where [simp]: "Create2Gas = 32000"
definition SelfdestructRefundGas :: u64 where [simp]: "SelfdestructRefundGas = 24000"
definition MemoryGas :: u64 where [simp]: "MemoryGas = 3"
definition TxDataNonZeroGasEIP2028 :: u64 where [simp]: "TxDataNonZeroGasEIP2028 = 16"
definition TxAccessListAddressGas :: u64 where [simp]: "TxAccessListAddressGas = 2400"
definition TxAccessListStorageKeyGas :: u64 where [simp]: "TxAccessListStorageKeyGas = 1900"
definition SstoreClearsScheduleRefundEIP3529 :: u64 where
  [simp]: "SstoreClearsScheduleRefundEIP3529 = SstoreResetGasEIP2200 - ColdSloadCostEIP2929 + TxAccessListStorageKeyGas"
definition ExtcodeSizeGasEIP150 :: u64 where [simp]: "ExtcodeSizeGasEIP150 = 700"
definition ExtcodeCopyBaseEIP150 :: u64 where [simp]: "ExtcodeCopyBaseEIP150 = 700"
definition SloadGasEIP2200 :: u64 where [simp]: "SloadGasEIP2200 = 800"
definition SelfdestructGasEIP150 :: u64 where [simp]: "SelfdestructGasEIP150 = 5000"
definition ExpByteFrontier :: u64 where [simp]: "ExpByteFrontier = 10"
definition ExpByteEIP158 :: u64 where [simp]: "ExpByteEIP158 = 50"
definition CreateBySelfdestructGas :: u64 where [simp]: "CreateBySelfdestructGas = 25000"
definition MaxCodeSize :: nat where [simp]: "MaxCodeSize = 24576"
definition EcrecoverGas :: u64 where [simp]: "EcrecoverGas = 3000"
definition Sha256BaseGas :: u64 where [simp]: "Sha256BaseGas = 60"
definition Sha256PerWordGas :: u64 where [simp]: "Sha256PerWordGas = 12"
definition Ripemd160BaseGas :: u64 where [simp]: "Ripemd160BaseGas = 600"
definition Ripemd160PerWordGas :: u64 where [simp]: "Ripemd160PerWordGas = 120"
definition IdentityBaseGas :: u64 where [simp]: "IdentityBaseGas = 15"
definition IdentityPerWordGas :: u64 where [simp]: "IdentityPerWordGas = 3"
definition Bn256AddGasByzantium :: u64 where [simp]: "Bn256AddGasByzantium = 500"
definition Bn256AddGasIstanbul :: u64 where [simp]: "Bn256AddGasIstanbul = 150"
definition Bn256ScalarMulGasByzantium :: u64 where [simp]: "Bn256ScalarMulGasByzantium = 40000"
definition Bn256ScalarMulGasIstanbul :: u64 where [simp]: "Bn256ScalarMulGasIstanbul = 6000"
definition Bn256PairingBaseGasByzantium :: u64 where [simp]: "Bn256PairingBaseGasByzantium = 100000"
definition Bn256PairingBaseGasIstanbul :: u64 where [simp]: "Bn256PairingBaseGasIstanbul = 45000"
definition Bn256PairingPerPointGasByzantium :: u64 where [simp]: "Bn256PairingPerPointGasByzantium = 80000"
definition Bn256PairingPerPointGasIstanbul :: u64 where [simp]: "Bn256PairingPerPointGasIstanbul = 34000"
definition Bls12381G1AddGas :: u64 where [simp]: "Bls12381G1AddGas = 600"
definition Bls12381G1MulGas :: u64 where [simp]: "Bls12381G1MulGas = 12000"
definition Bls12381G2AddGas :: u64 where [simp]: "Bls12381G2AddGas = 4500"
definition Bls12381G2MulGas :: u64 where [simp]: "Bls12381G2MulGas = 55000"
definition Bls12381PairingBaseGas :: u64 where [simp]: "Bls12381PairingBaseGas = 115000"
definition Bls12381PairingPerPairGas :: u64 where [simp]: "Bls12381PairingPerPairGas = 23000"
definition Bls12381MapG1Gas :: u64 where [simp]: "Bls12381MapG1Gas = 5500"
definition Bls12381MapG2Gas :: u64 where [simp]: "Bls12381MapG2Gas = 110000"
definition RefundQuotientEIP3529 :: u64 where [simp]: "RefundQuotientEIP3529 = 5"

section \<open>Gas tiers of the instructions\<close>

definition GasQuickStep :: u64 where [simp]: "GasQuickStep = 2"
definition GasFastestStep :: u64 where [simp]: "GasFastestStep = 3"
definition GasFastStep :: u64 where [simp]: "GasFastStep = 5"
definition GasMidStep :: u64 where [simp]: "GasMidStep = 8"
definition GasSlowStep :: u64 where [simp]: "GasSlowStep = 10"
definition GasExtStep :: u64 where [simp]: "GasExtStep = 20"

end
