(* ===== verification/Common.thy ===== *)
theory Common
  imports Params
begin

text \<open>
  The byte codecs of \<^verbatim>\<open>common/common.go\<close> and the size helpers of \<^verbatim>\<open>vm/ethvm/common.go\<close>. A locale
  \<open>prefix_codec\<close> states what the users of a codec rely on: a value can be read back from any
  byte string that begins with its encoding.
\<close>

section \<open>Byte codecs\<close>

definition ByteToHash :: "geth_ops \<Rightarrow> bytes \<Rightarrow> hash" where
  "ByteToHash G v = g_BytesToHash G (g_Keccak256 G v)"

definition StringToHash :: "geth_ops \<Rightarrow> bytes \<Rightarrow> hash option" where
  "StringToHash G str = do {
     let h = g_Keccak256 G str;
     t \<leftarrow> go_slice h 12 (length h);
     Some (g_BytesToHash G t)
   }"

text \<open>\<^verbatim>\<open>binary.Read\<close> fills the \<^verbatim>\<open>int64\<close> from eight bytes; on a shorter buffer it reports an error,
  which the code drops, and the variable keeps its zero.\<close>

definition BytesToInt :: "bytes \<Rightarrow> u64" where
  "BytesToInt b = (if length b < 8 then 0 else of_nat (be_nat (take 8 b)))"

definition IntToByte :: "u32 \<Rightarrow> bytes" where
  "IntToByte num = be_bytes 4 (unat num)"

definition Uint64ToByte :: "u64 \<Rightarrow> bytes" where
  "Uint64ToByte n = be_bytes 8 (unat n)"

definition ByteToUint64 :: "bytes \<Rightarrow> u64 option" where
  "ByteToUint64 b = (if length b < 8 then None else Some (of_nat (be_nat (take 8 b))))"

locale prefix_codec =
  fixes enc :: "'a \<Rightarrow> bytes"
    and dec :: "bytes \<Rightarrow> 'a option"
    and width :: nat
  assumes length_enc: "length (enc x) = width"
    and dec_enc_append: "dec (enc x @ r) = Some x"
    and dec_None_iff: "dec b = None \<longleftrightarrow> length b < width"
    and enc_dec: "length b = width \<Longrightarrow> dec b = Some x \<Longrightarrow> enc x = b"
begin

lemma dec_enc: "dec (enc x) = Some x"
  using dec_enc_append [of x "[]"] by simp

lemma enc_inject: "enc x = enc y \<longleftrightarrow> x = y"
  by (metis dec_enc option.inject)

lemma enc_append_inject: "enc x @ r = enc y @ s \<longleftrightarrow> x = y \<and> r = s"
  by (metis append_eq_append_conv length_enc enc_inject)

lemma dec_total: "width \<le> length b \<Longrightarrow> \<exists>x. dec b = Some x"
  by (metis dec_None_iff linorder_not_less not_None_eq)

lemma enc_surj: "length b = width \<Longrightarrow> \<exists>x. enc x = b"
  by (metis dec_total enc_dec order_refl)

end

lemma ByteToUint64_Uint64ToByte_append: "ByteToUint64 (Uint64ToByte n @ r) = Some n"
proof -
  have "unat n < 256 ^ 8" using unsigned_less [of n] by simp
  then show ?thesis
    by (simp add: ByteToUint64_def Uint64ToByte_def be_nat_be_bytes del: be_bytes.simps power_numeral_reduce)
qed

lemma Uint64ToByte_ByteToUint64:
  assumes "length b = 8" and "ByteToUint64 b = Some n"
  shows "Uint64ToByte n = b"
proof -
  have lt: "be_nat b < 2 ^ 64" using be_nat_less [of b] assms(1) by simp
  have "n = of_nat (be_nat b)" using assms by (simp add: ByteToUint64_def)
  with lt have "unat n = be_nat b" by (simp add: unat_of_nat)
  then show ?thesis using be_bytes_be_nat [of b] assms(1) by (simp add: Uint64ToByte_def del: be_bytes.simps)
qed

interpretation u64codec: prefix_codec Uint64ToByte ByteToUint64 8
proof unfold_locales
  show "length (Uint64ToByte x) = 8" for x
    by (simp add: Uint64ToByte_def)
  show "ByteToUint64 (Uint64ToByte x @ r) = Some x" for x r
    by (rule ByteToUint64_Uint64ToByte_append)
  show "ByteToUint64 b = None \<longleftrightarrow> length b < 8" for b
    by (simp add: ByteToUint64_def)
  show "length b = 8 \<Longrightarrow> ByteToUint64 b = Some x \<Longrightarrow> Uint64ToByte x = b" for b x
    by (rule Uint64ToByte_ByteToUint64)
qed

lemma BytesToInt_eq: "BytesToInt b = (case ByteToUint64 b of None \<Rightarrow> 0 | Some n \<Rightarrow> n)"
  by (simp add: BytesToInt_def ByteToUint64_def)

lemma StringToHash_total:
  assumes "geth_spec G"
  shows "\<exists>h. StringToHash G s = Some h"
  using geth_specD(5) [OF assms, of s] by (simp add: StringToHash_def Let_def bind_Some_iff)

section \<open>Memory sizes\<close>

definition calcMemSize64WithUint :: "uint256_ops \<Rightarrow> u256 \<Rightarrow> u64 \<Rightarrow> u64 \<times> bool" where
  "calcMemSize64WithUint U off length64 =
     (if length64 = 0 then (0, False)
      else let (offset64, overflow) = u_Uint64WithOverflow U off in
        if overflow then (0, True)
        else let val = offset64 + length64 in (val, val < offset64))"

definition calcMemSize64 :: "uint256_ops \<Rightarrow> u256 \<Rightarrow> u256 \<Rightarrow> u64 \<times> bool" where
  "calcMemSize64 U off l =
     (if \<not> u_IsUint64 U l then (0, True)
      else calcMemSize64WithUint U off (u_Uint64 U l))"

definition toWordSize :: "u64 \<Rightarrow> u64" where
  "toWordSize sz = (if sz > max_u64 - 31 then max_u64 div 32 + 1 else (sz + 31) div 32)"

text \<open>\<^verbatim>\<open>getData\<close>: \<^verbatim>\<open>start + size\<close> is \<^verbatim>\<open>uint64\<close> arithmetic, and \<^verbatim>\<open>int(size)\<close> is negative for sizes of
  \<open>2 ^ 63\<close> and more, for which \<^verbatim>\<open>RightPadBytes\<close> returns the slice as it is.\<close>

definition getData :: "geth_ops \<Rightarrow> bytes \<Rightarrow> u64 \<Rightarrow> u64 \<Rightarrow> bytes option" where
  "getData G data start sz = do {
     let length' = (of_nat (length data) :: u64);
     let start = (if start > length' then length' else start);
     let end = start + sz;
     let end = (if end > length' then length' else end);
     s \<leftarrow> go_slice data (unat start) (unat end);
     Some (g_RightPadBytes G s (nat (sint sz)))
   }"

fun allZero :: "bytes \<Rightarrow> bool" where
  "allZero [] = True"
| "allZero (b # bs) = (if b \<noteq> 0 then False else allZero bs)"

lemma allZero_iff: "allZero bs \<longleftrightarrow> (\<forall>b \<in> set bs. b = 0)"
  by (induction bs) auto

lemma unat_toWordSize: "unat (toWordSize sz) = (unat sz + 31) div 32"
proof (cases "sz > max_u64 - 31")
  case True
  then have "unat (max_u64 - 31) < unat sz" by (simp add: word_less_nat_alt)
  moreover have "unat (max_u64 - 31) = 2 ^ 64 - 32" by simp
  moreover have "unat sz < 2 ^ 64" using unsigned_less [of sz] by simp
  ultimately have "(unat sz + 31) div 32 = 2 ^ 59" by simp
  with True show ?thesis by (simp add: toWordSize_def)
next
  case False
  then have "unat sz \<le> unat (max_u64 - 31)" by (simp add: word_le_nat_alt not_less)
  moreover have "unat (max_u64 - 31) = 2 ^ 64 - 32" by simp
  ultimately have "unat sz + 31 < 2 ^ 64" by simp
  then have "unat (sz + 31) = unat sz + 31"
    using unat_add_u64_no_wrap [of sz 31] by simp
  with False show ?thesis by (simp add: toWordSize_def unat_div)
qed

text \<open>\<open>mem_need\<close> is the number of bytes an access to \<open>l\<close> bytes at \<open>off\<close> needs.\<close>

definition mem_need :: "nat \<Rightarrow> nat \<Rightarrow> nat" where
  "mem_need off l = (if l = 0 then 0 else off + l)"

lemma calcMemSize64WithUint_iff:
  assumes "uint256_spec U"
  shows "calcMemSize64WithUint U off l = (n, False) \<longleftrightarrow>
           mem_need (unat off) (unat l) < 2 ^ 64 \<and> unat n = mem_need (unat off) (unat l)"
    (is "?L \<longleftrightarrow> ?R")
proof (cases "l = 0 \<or> 2 ^ 64 \<le> unat off")
  case True
  then show ?thesis
    using unat_gt_0 [of l]
    by (auto simp: calcMemSize64WithUint_def mem_need_def uint256_specD [OF assms] unat_eq_zero
        split: if_splits)
next
  case False
  let ?o = "ucast off :: u64"
  from False have o: "unat ?o = unat off"
    by (simp add: unat_ucast_u64 not_le)
  have l: "unat l \<noteq> 0" using False by (simp add: unat_eq_zero)
  have "?L \<longleftrightarrow> n = ?o + l \<and> unat ?o + unat l < 2 ^ 64"
    using False add_u64_overflow_iff [of ?o l]
    by (auto simp: calcMemSize64WithUint_def uint256_specD [OF assms] Let_def)
  also have "\<dots> \<longleftrightarrow> unat off + unat l < 2 ^ 64 \<and> unat n = unat off + unat l"
    using unat_add_u64_no_wrap [of ?o l] o by (auto simp: word_unat_eq_iff)
  finally show ?thesis using l by (simp add: mem_need_def)
qed

lemma calcMemSize64_iff:
  assumes "uint256_spec U"
  shows "calcMemSize64 U off l = (n, False) \<longleftrightarrow>
           unat l < 2 ^ 64 \<and> mem_need (unat off) (unat l) < 2 ^ 64 \<and> unat n = mem_need (unat off) (unat l)"
proof (cases "unat l < 2 ^ 64")
  case True
  then have "unat (ucast l :: u64) = unat l" by (simp add: unat_ucast_u64)
  with True show ?thesis
    by (simp add: calcMemSize64_def uint256_specD [OF assms] calcMemSize64WithUint_iff [OF assms])
qed (simp add: calcMemSize64_def uint256_specD [OF assms])

text \<open>\<open>padded xs k n\<close> is what a read of \<open>n\<close> bytes at \<open>k\<close> returns: the bytes there are, then zeros.\<close>

definition padded :: "bytes \<Rightarrow> nat \<Rightarrow> nat \<Rightarrow> bytes" where
  "padded xs k n = map (\<lambda>i. if k + i < length xs then xs ! (k + i) else 0) [0..<n]"

lemma padded_eq: "padded xs k n = take n (drop k xs) @ replicate (n - length (take n (drop k xs))) 0"
  by (rule nth_equalityI) (auto simp: padded_def nth_append)

lemma getData_no_wrap:
  assumes "geth_spec G" and "length data < 2 ^ 63" and "unat sz < 2 ^ 63"
  shows "getData G data start sz = Some (padded data (unat start) (unat sz))"
proof -
  have len: "unat (of_nat (length data) :: u64) = length data"
    using assms(2) by (simp add: unat_of_nat)
  define st where "st = (if of_nat (length data) < start then of_nat (length data) else start)"
  have st: "unat st = min (unat start) (length data)"
    using len by (auto simp add: st_def word_less_nat_alt min_def)
  have add: "unat (st + sz) = unat st + unat sz"
    using unat_add_u64_no_wrap [of st sz] st assms(2,3) by simp
  define en where "en = (if of_nat (length data) < st + sz then of_nat (length data) else st + sz)"
  have en: "unat en = min (unat st + unat sz) (length data)"
    using len add by (auto simp add: en_def word_less_nat_alt min_def)
  have "take (unat en - unat st) (drop (unat st) data) = take (unat sz) (drop (unat start) data)"
    using st en by (auto simp: min_def)
  moreover have "unat st \<le> unat en" "unat en \<le> length data"
    using st en by auto
  ultimately have slice: "go_slice data (unat st) (unat en) = Some (take (unat sz) (drop (unat start) data))"
    by simp
  have sint: "nat (sint sz) = unat sz"
    using assms(3) by (simp only: sint_u64_small nat_int)
  have pad: "g_RightPadBytes G (take (unat sz) (drop k data)) (unat sz) = padded data k (unat sz)" for k
    by (simp add: padded_eq geth_specD(3) [OF assms(1)])
  have "getData G data start sz =
      go_slice data (unat st) (unat en) \<bind> (\<lambda>s. Some (g_RightPadBytes G s (nat (sint sz))))"
    unfolding getData_def Let_def en_def st_def ..
  then show ?thesis by (simp only: slice sint pad Option.bind.simps)
qed

lemma getData_wraps:
  assumes "length data < 2 ^ 63" and "unat start \<le> length data" and "2 ^ 64 \<le> unat start + unat sz"
  shows "getData G data start sz = None"
proof -
  have len: "unat (of_nat (length data) :: u64) = length data"
    using assms(1) by (simp add: unat_of_nat)
  have "start + sz < start" using assms(3) by (simp add: add_u64_overflow_iff)
  moreover from this have "\<not> of_nat (length data) < start" "\<not> of_nat (length data) < start + sz"
    using assms(2) len by (simp_all add: word_less_nat_alt)
  ultimately show ?thesis
    by (simp add: getData_def Let_def go_slice_def word_less_nat_alt)
qed

section \<open>Properties\<close>

text \<open>The \<^verbatim>\<open>uint64\<close> codec of \<^verbatim>\<open>common.go\<close> round trips: whatever follows the eight bytes, the decoder
  and the \<^verbatim>\<open>int64\<close> reader give the encoded number back, and two encodings followed by anything are
  equal only if the numbers and the rests are.\<close>

theorem uint64_codec_roundtrip:
  "ByteToUint64 (Uint64ToByte n @ r) = Some n \<and> BytesToInt (Uint64ToByte n @ r) = n \<and>
   (Uint64ToByte n @ r = Uint64ToByte k @ s) = (n = k \<and> r = s)"
  using u64codec.dec_enc_append [of n r] u64codec.enc_append_inject [of n r k s]
  by (simp add: BytesToInt_eq)

text \<open>\<^verbatim>\<open>calcMemSize64\<close> reports an overflow exactly when the end of the access does not fit 64 bits (or
  its length does not), and otherwise answers that end, zero for an empty access; \<^verbatim>\<open>toWordSize\<close>
  rounds every \<^verbatim>\<open>uint64\<close> up to words without wrapping.\<close>

theorem memory_size_exact:
  assumes "uint256_spec U"
  shows "(calcMemSize64 U off l = (n, False)) =
      (unat l < 2 ^ 64 \<and> mem_need (unat off) (unat l) < 2 ^ 64 \<and> unat n = mem_need (unat off) (unat l)) \<and>
    unat (toWordSize sz) = (unat sz + 31) div 32"
  using calcMemSize64_iff [OF assms] unat_toWordSize by simp

theorem memory_size_exact_witness:
  "calcMemSize64 uint256_std 32 64 = (96, False) \<and> unat (toWordSize (- 1)) = (unat (- 1 :: u64) + 31) div 32"
  using memory_size_exact [OF uint256_std_spec, of 32 64 96 "- 1"] by (simp add: mem_need_def)

text \<open>\<^verbatim>\<open>getData\<close> answers exactly the requested bytes, padded with zeros behind the end of the data, for
  every start and every size below \<open>2 ^ 63\<close>.\<close>

theorem getData_pads:
  assumes "geth_spec G" and "length data < 2 ^ 63" and "unat sz < 2 ^ 63"
  shows "getData G data start sz = Some (padded data (unat start) (unat sz))"
  using assms by (rule getData_no_wrap)

theorem getData_pads_witness:
  "getData geth_std [1, 2, 3] 1 4 = Some [2, 3, 0, 0]"
  using getData_pads [OF geth_std_spec, of "[1, 2, 3]" 4 1] by (simp add: padded_def upt_rec)

text \<open>Although its comment calls it overflow safe, \<^verbatim>\<open>getData\<close> panics when \<^verbatim>\<open>start + size\<close> wraps: the
  slice bounds are then reversed.\<close>

theorem getData_wrap_panics:
  assumes "length data < 2 ^ 63" and "unat start \<le> length data" and "2 ^ 64 \<le> unat start + unat sz"
  shows "getData G data start sz = None"
  using assms by (rule getData_wraps)

theorem getData_wrap_panics_witness: "getData geth_std [1, 2, 3] 3 0xFFFFFFFFFFFFFFFF = None"
  using getData_wrap_panics [of "[1, 2, 3]" 3 "0xFFFFFFFFFFFFFFFF"] by simp

end
