(* ===== verification/CoreTypes.thy ===== *)
theory CoreTypes
  imports Common
begin

text \<open>
  Transactions and messages: \<^verbatim>\<open>core/types.go\<close> and \<^verbatim>\<open>process/transaction_args.go\<close>. A \<^verbatim>\<open>*big.Int\<close> is an
  integer, a nil pointer is \<open>None\<close>. The protobuf message behind \<^verbatim>\<open>MetaTransaction\<close> is the record
  \<open>base_tx\<close> of the fields the code reads; its \<^verbatim>\<open>BigInt\<close> fields are the big-endian bytes that \<^verbatim>\<open>Bytes()\<close>
  answers. Encoding to protobuf is not modelled.
\<close>

section \<open>Transactions\<close>

record base_tx =
  tx_TxHash :: hash
  tx_TxType :: u32
  tx_From :: "address option"
  tx_To :: "address option"
  tx_Value :: bytes
  tx_Nonce :: u64
  tx_Gas :: u64
  tx_GasPrice :: bytes
  tx_Data :: bytes
  tx_ChainId :: bytes

record meta_tx =
  Base :: "base_tx option"

text \<open>A nil \<^verbatim>\<open>Base\<close> panics in every accessor but \<^verbatim>\<open>Hash\<close>.\<close>

definition tx_Hash :: "meta_tx \<Rightarrow> hash" where
  "tx_Hash tx = (case Base tx of Some b \<Rightarrow> tx_TxHash b | None \<Rightarrow> 0)"

definition From :: "meta_tx \<Rightarrow> address option option" where
  "From tx = map_option tx_From (Base tx)"

definition To :: "meta_tx \<Rightarrow> address option option" where
  "To tx = map_option tx_To (Base tx)"

definition EthValue :: "meta_tx \<Rightarrow> int option" where
  "EthValue tx = map_option (\<lambda>b. int (be_nat (tx_Value b))) (Base tx)"

definition ChainId :: "meta_tx \<Rightarrow> int option" where
  "ChainId tx = map_option (\<lambda>b. int (be_nat (tx_ChainId b))) (Base tx)"

definition tx_gas :: "meta_tx \<Rightarrow> u64 option" where
  "tx_gas tx = map_option tx_Gas (Base tx)"

definition tx_nonce :: "meta_tx \<Rightarrow> u64 option" where
  "tx_nonce tx = map_option tx_Nonce (Base tx)"

definition tx_data :: "meta_tx \<Rightarrow> bytes option" where
  "tx_data tx = map_option tx_Data (Base tx)"

text \<open>The accessors for go-ethereum; a hash has 32 bytes, so the test of its length always succeeds.\<close>

definition EthHash :: "meta_tx \<Rightarrow> hash" where
  "EthHash tx = tx_Hash tx"

definition tx_Type :: "meta_tx \<Rightarrow> u32 option" where
  "tx_Type tx = map_option tx_TxType (Base tx)"

definition EthFrom :: "meta_tx \<Rightarrow> address option" where
  "EthFrom tx = Base tx \<bind> tx_From"

definition EthTo :: "meta_tx \<Rightarrow> address option" where
  "EthTo tx = Base tx \<bind> tx_To"

text \<open>The gas price is a constant, whatever the transaction says.\<close>

definition GasPrice :: "meta_tx \<Rightarrow> int" where
  "GasPrice tx = 1000000000"

definition GasTipCap :: "meta_tx \<Rightarrow> int option" where
  "GasTipCap tx = map_option (\<lambda>b. int (be_nat (tx_GasPrice b))) (Base tx)"

definition GasFeeCap :: "meta_tx \<Rightarrow> int option" where
  "GasFeeCap tx = map_option (\<lambda>b. int (be_nat (tx_GasPrice b))) (Base tx)"

definition Cost :: "meta_tx \<Rightarrow> int option" where
  "Cost tx = do {
     g \<leftarrow> tx_gas tx;
     v \<leftarrow> EthValue tx;
     Some (GasPrice tx * uint g + v)
   }"

section \<open>Messages\<close>

record message =
  msg_from :: address
  msg_to :: "address option"
  msg_nonce :: u64
  msg_amount :: int
  msg_gasLimit :: u64
  msg_gasPrice :: int
  msg_gasFeeCap :: int
  msg_gasTipCap :: int
  msg_data :: bytes
  msg_accessList :: "(address \<times> hash list) list"
  msg_isFake :: bool

definition NewMessage ::
  "address \<Rightarrow> address option \<Rightarrow> u64 \<Rightarrow> int \<Rightarrow> u64 \<Rightarrow> int \<Rightarrow> int \<Rightarrow> int \<Rightarrow> bytes \<Rightarrow>
   (address \<times> hash list) list \<Rightarrow> bool \<Rightarrow> message" where
  "NewMessage sender rcpt nonce amount gasLimit gasPrice gasFeeCap gasTipCap dat accessList isFake = \<lparr>
     msg_from = sender, msg_to = rcpt, msg_nonce = nonce, msg_amount = amount, msg_gasLimit = gasLimit,
     msg_gasPrice = gasPrice, msg_gasFeeCap = gasFeeCap, msg_gasTipCap = gasTipCap,
     msg_data = dat, msg_accessList = accessList, msg_isFake = isFake\<rparr>"

definition AsMessage :: "meta_tx \<Rightarrow> int option \<Rightarrow> message option" where
  "AsMessage tx baseFee = do {
     let price = GasPrice tx;
     let gasPrice = (case baseFee of None \<Rightarrow> 0 | Some f \<Rightarrow> min (price + f) price);
     rcpt \<leftarrow> To tx;
     sender_ptr \<leftarrow> From tx;
     sender \<leftarrow> sender_ptr;
     nonce \<leftarrow> tx_nonce tx;
     val \<leftarrow> EthValue tx;
     gas \<leftarrow> tx_gas tx;
     dat \<leftarrow> tx_data tx;
     Some (NewMessage sender rcpt nonce val gas gasPrice price price dat [] True)
   }"

section \<open>Call arguments\<close>

record tx_args =
  arg_From :: "address option"
  arg_To :: "address option"
  arg_Gas :: "u64 option"
  arg_GasPrice :: "int option"
  arg_Value :: "int option"
  arg_Nonce :: "u64 option"
  arg_Data :: "bytes option"
  arg_Input :: "bytes option"
  arg_ChainID :: "int option"

definition args_from :: "tx_args \<Rightarrow> address" where
  "args_from args = (case arg_From args of None \<Rightarrow> 0 | Some a \<Rightarrow> a)"

definition args_data :: "tx_args \<Rightarrow> bytes" where
  "args_data args =
     (case arg_Input args of Some d \<Rightarrow> d
      | None \<Rightarrow> (case arg_Data args of Some d \<Rightarrow> d | None \<Rightarrow> []))"

datatype args_error = DataInputMismatch | CreationWithoutData | ChainIdMismatch int int

definition setFeeDefaults :: "tx_args \<Rightarrow> tx_args" where
  "setFeeDefaults args =
     (case arg_GasPrice args of None \<Rightarrow> args\<lparr>arg_GasPrice := Some 1000000000\<rparr> | Some _ \<Rightarrow> args)"

text \<open>\<open>get_nonce\<close> is \<^verbatim>\<open>statedb.GetNonce\<close>. On an error the arguments changed so far are dropped with
  the call, so only the error is answered.\<close>

definition SetDefaults :: "(address \<Rightarrow> u64) \<Rightarrow> int \<Rightarrow> tx_args \<Rightarrow> args_error + tx_args" where
  "SetDefaults get_nonce wantChainId args =
     (let args = setFeeDefaults args;
          args = (if arg_Value args = None then args\<lparr>arg_Value := Some 0\<rparr> else args);
          args = (if arg_Nonce args = None then args\<lparr>arg_Nonce := Some (get_nonce (args_from args))\<rparr> else args)
      in if arg_Data args \<noteq> None \<and> arg_Input args \<noteq> None \<and> arg_Data args \<noteq> arg_Input args
         then Inl DataInputMismatch
         else if arg_To args = None \<and> length (args_data args) = 0 then Inl CreationWithoutData
         else
           let args = (if arg_Gas args = None then args\<lparr>arg_Gas := Some 10000000\<rparr> else args)
           in case arg_ChainID args of
                Some hv \<Rightarrow> (if hv \<noteq> wantChainId then Inl (ChainIdMismatch hv wantChainId) else Inr args)
              | None \<Rightarrow> Inr (args\<lparr>arg_ChainID := Some wantChainId\<rparr>))"

definition ToMessage :: "tx_args \<Rightarrow> u64 \<Rightarrow> message" where
  "ToMessage args globalGasCap =
     (let addr = args_from args;
          gas = globalGasCap;
          gas = (if gas = 0 then max_u64 div 2 else gas);
          gas = (case arg_Gas args of Some g \<Rightarrow> g | None \<Rightarrow> gas);
          gas = (if globalGasCap \<noteq> 0 \<and> globalGasCap < gas then globalGasCap else gas);
          gasPrice = (case arg_GasPrice args of Some p \<Rightarrow> p | None \<Rightarrow> 0);
          val = (case arg_Value args of Some v \<Rightarrow> v | None \<Rightarrow> 0);
          dat = args_data args
      in NewMessage addr (arg_To args) 0 val gas gasPrice gasPrice gasPrice dat [] True)"

text \<open>A transaction of go-ethereum. The recipient, the nonce and the gas are read through pointers that may be nil.\<close>

record legacy_tx =
  lt_To :: address
  lt_Nonce :: u64
  lt_Gas :: u64
  lt_GasPrice :: "int option"
  lt_Value :: "int option"
  lt_Data :: bytes

definition toTransaction :: "tx_args \<Rightarrow> legacy_tx option" where
  "toTransaction args = do {
     to \<leftarrow> arg_To args;
     nonce \<leftarrow> arg_Nonce args;
     gas \<leftarrow> arg_Gas args;
     Some \<lparr>lt_To = to, lt_Nonce = nonce, lt_Gas = gas, lt_GasPrice = arg_GasPrice args, lt_Value = arg_Value args,
           lt_Data = args_data args\<rparr>
   }"

section \<open>Lemmas\<close>

lemma SetDefaults_fields:
  assumes "SetDefaults get_nonce chain args = Inr args'"
  shows "arg_To args' = arg_To args" "arg_Nonce args' \<noteq> None" "arg_Gas args' \<noteq> None"
  using assms by (auto simp: SetDefaults_def setFeeDefaults_def Let_def split: if_splits option.splits)

text \<open>Arguments whose defaults are set give a transaction exactly when they name a recipient: the creation of a contract panics.\<close>

lemma toTransaction_after_defaults:
  assumes "SetDefaults get_nonce chain args = Inr args'"
  shows "toTransaction args' = None \<longleftrightarrow> arg_To args = None"
  using SetDefaults_fields [OF assms] by (cases "arg_To args") (auto simp: toTransaction_def)

lemma AsMessage_Some_iff:
  "(\<exists>m. AsMessage tx fee = Some m) \<longleftrightarrow> (\<exists>b. Base tx = Some b \<and> tx_From b \<noteq> None)"
  by (cases "Base tx")
     (auto simp: AsMessage_def Let_def To_def From_def tx_nonce_def EthValue_def tx_gas_def tx_data_def bind_Some_iff)

lemma args_update_simps [simp]:
  "args_data (r\<lparr>arg_Value := x\<rparr>) = args_data r" "args_from (r\<lparr>arg_Value := x\<rparr>) = args_from r"
  "args_data (r\<lparr>arg_Nonce := y\<rparr>) = args_data r" "args_from (r\<lparr>arg_Nonce := y\<rparr>) = args_from r"
  "args_data (r\<lparr>arg_Gas := y\<rparr>) = args_data r" "args_from (r\<lparr>arg_Gas := y\<rparr>) = args_from r"
  "args_data (r\<lparr>arg_ChainID := x\<rparr>) = args_data r" "args_from (r\<lparr>arg_ChainID := x\<rparr>) = args_from r"
  by (simp_all add: args_data_def args_from_def cong: option.case_cong)

lemma SetDefaults_complete:
  assumes "SetDefaults f want args = Inr a"
  shows "arg_GasPrice a \<noteq> None" "arg_Value a \<noteq> None" "arg_Nonce a \<noteq> None" "arg_Gas a \<noteq> None"
    "arg_ChainID a = Some want" "arg_To a = None \<Longrightarrow> args_data a \<noteq> []"
    "args_from a = args_from args" "args_data a = args_data args" "arg_To a = arg_To args"
proof -
  define a1 where "a1 = setFeeDefaults args"
  define a2 where "a2 = (if arg_Value a1 = None then a1\<lparr>arg_Value := Some 0\<rparr> else a1)"
  define a3 where "a3 = (if arg_Nonce a2 = None then a2\<lparr>arg_Nonce := Some (f (args_from a2))\<rparr> else a2)"
  define a4 where "a4 = (if arg_Gas a3 = None then a3\<lparr>arg_Gas := Some 10000000\<rparr> else a3)"
  have a1: "arg_GasPrice a1 \<noteq> None" "args_from a1 = args_from args" "args_data a1 = args_data args"
    "arg_To a1 = arg_To args" "arg_ChainID a1 = arg_ChainID args"
    by (auto simp: a1_def setFeeDefaults_def args_from_def args_data_def split: option.splits)
  have a2: "arg_GasPrice a2 \<noteq> None" "arg_Value a2 \<noteq> None" "args_from a2 = args_from args"
    "args_data a2 = args_data args" "arg_To a2 = arg_To args" "arg_ChainID a2 = arg_ChainID args"
    using a1 by (simp_all add: a2_def)
  have a3: "arg_GasPrice a3 \<noteq> None" "arg_Value a3 \<noteq> None" "arg_Nonce a3 \<noteq> None" "args_from a3 = args_from args"
    "args_data a3 = args_data args" "arg_To a3 = arg_To args" "arg_ChainID a3 = arg_ChainID args"
    using a2 by (simp_all add: a3_def)
  have a4: "arg_GasPrice a4 \<noteq> None" "arg_Value a4 \<noteq> None" "arg_Nonce a4 \<noteq> None" "arg_Gas a4 \<noteq> None"
    "args_from a4 = args_from args" "args_data a4 = args_data args" "arg_To a4 = arg_To args"
    "arg_ChainID a4 = arg_ChainID args"
    using a3 by (simp_all add: a4_def)
  have "SetDefaults f want args =
      (if arg_Data a3 \<noteq> None \<and> arg_Input a3 \<noteq> None \<and> arg_Data a3 \<noteq> arg_Input a3 then Inl DataInputMismatch
       else if arg_To a3 = None \<and> length (args_data a3) = 0 then Inl CreationWithoutData
       else case arg_ChainID a4 of
           Some hv \<Rightarrow> (if hv \<noteq> want then Inl (ChainIdMismatch hv want) else Inr a4)
         | None \<Rightarrow> Inr (a4\<lparr>arg_ChainID := Some want\<rparr>))"
    unfolding SetDefaults_def Let_def a4_def a3_def a2_def a1_def ..
  with assms have creation: "arg_To args = None \<Longrightarrow> args_data args \<noteq> []"
    and a: "a = a4 \<and> arg_ChainID a4 = Some want \<or> a = a4\<lparr>arg_ChainID := Some want\<rparr>"
    using a3 by (auto split: if_splits option.splits)
  from a a4 show "arg_GasPrice a \<noteq> None" "arg_Value a \<noteq> None" "arg_Nonce a \<noteq> None" "arg_Gas a \<noteq> None"
    "arg_ChainID a = Some want" by auto
  from a have eq: "args_from a = args_from a4" "args_data a = args_data a4" "arg_To a = arg_To a4"
    by auto
  with a4 creation show "args_from a = args_from args" "args_data a = args_data args" "arg_To a = arg_To args"
    "arg_To a = None \<Longrightarrow> args_data a \<noteq> []" by simp_all
qed

section \<open>Properties\<close>

text \<open>A message made from call arguments never has more gas than the global cap, unless the cap is
  zero (no cap), and otherwise has the gas that was asked for.\<close>

theorem ToMessage_gas_cap:
  assumes "cap \<noteq> 0"
  shows "msg_gasLimit (ToMessage args cap) = (case arg_Gas args of None \<Rightarrow> cap | Some g \<Rightarrow> min g cap)"
  using assms by (auto simp: ToMessage_def NewMessage_def Let_def min_def split: option.splits)

theorem ToMessage_gas_cap_witness:
  "msg_gasLimit (ToMessage \<lparr>arg_From = None, arg_To = None, arg_Gas = Some 90, arg_GasPrice = None,
     arg_Value = None, arg_Nonce = None, arg_Data = None, arg_Input = None, arg_ChainID = None\<rparr> 50) = 50"
  using ToMessage_gas_cap [of 50 "\<lparr>arg_From = None, arg_To = None, arg_Gas = Some 90, arg_GasPrice = None,
     arg_Value = None, arg_Nonce = None, arg_Data = None, arg_Input = None, arg_ChainID = None\<rparr>"]
  by (simp add: min_def)

text \<open>When \<^verbatim>\<open>SetDefaults\<close> accepts the arguments, every field that a transaction needs is set, the chain id
  is the expected one, a creation carries code, and sender, recipient and input are the caller's.\<close>

theorem SetDefaults_fills:
  assumes "SetDefaults f want args = Inr a"
  shows "arg_GasPrice a \<noteq> None \<and> arg_Value a \<noteq> None \<and> arg_Nonce a \<noteq> None \<and> arg_Gas a \<noteq> None \<and>
    arg_ChainID a = Some want \<and> (arg_To a = None \<longrightarrow> args_data a \<noteq> []) \<and>
    args_from a = args_from args \<and> args_data a = args_data args \<and> arg_To a = arg_To args"
  using SetDefaults_complete [OF assms] by blast

theorem SetDefaults_fills_witness:
  "\<exists>a. SetDefaults (\<lambda>_. 3) 1 \<lparr>arg_From = None, arg_To = None, arg_Gas = None, arg_GasPrice = None,
     arg_Value = None, arg_Nonce = None, arg_Data = Some [1], arg_Input = None, arg_ChainID = None\<rparr> = Inr a \<and>
   arg_ChainID a = Some 1"
proof -
  obtain a where a: "SetDefaults (\<lambda>_. 3) 1 \<lparr>arg_From = None, arg_To = None, arg_Gas = None, arg_GasPrice = None,
     arg_Value = None, arg_Nonce = None, arg_Data = Some [1], arg_Input = None, arg_ChainID = None\<rparr> = Inr a"
    by (simp add: SetDefaults_def setFeeDefaults_def args_data_def Let_def)
  with SetDefaults_fills [OF a] show ?thesis by blast
qed

end
