(* ===== verification/MarkCache.thy ===== *)
theory MarkCache
  imports CoreTypes
begin

text \<open>
  The splitting of a block into levels, \<^verbatim>\<open>transcut/transactionMark.go\<close>: a cache of marks per
  address and the transactions level by level. \<open>fill_all\<close> is the loop of \<^verbatim>\<open>ExecBenchTxs\<close> over the
  block. The code declares \<^verbatim>\<open>toMark\<close> twice: the inner one takes part in the comparison, and the outer one,
  which stays zero, is what the recipient's entry is set to; both are written out. A nil
  recipient is dereferenced, which panics.
\<close>

record item =
  txInfo :: meta_tx
  item_msg :: message

definition NewItem :: "meta_tx \<Rightarrow> message \<Rightarrow> item" where
  "NewItem tx msg = \<lparr>txInfo = tx, item_msg = msg\<rparr>"

record mark_cache =
  fromAndToMark :: "(address, u32) gomap"
  Items :: "item list list"
  maxLevel :: u32

definition NewMarkCache :: mark_cache where
  "NewMarkCache = \<lparr>fromAndToMark = [], Items = [[], []], maxLevel = 0\<rparr>"

text \<open>The second half of \<^verbatim>\<open>SetMarkCache\<close>: the item joins the highest level.\<close>

definition add_item :: "mark_cache \<Rightarrow> item \<Rightarrow> mark_cache option" where
  "add_item m dat =
     (if length (Items m) = 0 then Some (m\<lparr>Items := Items m @ [[dat]]\<rparr>)
      else do {
        let l = unat (maxLevel m);
        let is = (if length (Items m) \<le> l
                  then Items m @ replicate (Suc l - length (Items m)) []
                  else Items m);
        items \<leftarrow> go_index is l;
        is \<leftarrow> (if length items = 0 then go_update is l [dat] else go_update is l (items @ [dat]));
        Some (m\<lparr>Items := is\<rparr>)
      })"

definition SetMarkCache :: "mark_cache \<Rightarrow> address \<Rightarrow> item \<Rightarrow> mark_cache option" where
  "SetMarkCache m addr dat = do {
     let fromMark = (case lookup (fromAndToMark m) addr of None \<Rightarrow> 0 | Some x \<Rightarrow> x + 1);
     toAddr \<leftarrow> To (txInfo dat);
     let toMark = (0 :: u32);
     let (fromMark, m) = (case toAddr of
         Some t \<Rightarrow>
           (let toMark = (case lookup (fromAndToMark m) t of None \<Rightarrow> 0 | Some x \<Rightarrow> x + 1);
                (fromMark, toMark) = (if fromMark \<ge> toMark then (fromMark, fromMark) else (toMark, toMark))
            in (fromMark, if toMark \<ge> maxLevel m then m\<lparr>maxLevel := toMark\<rparr> else m))
       | None \<Rightarrow> (fromMark, if fromMark \<ge> maxLevel m then m\<lparr>maxLevel := fromMark\<rparr> else m));
     let m = m\<lparr>fromAndToMark := AList.update addr fromMark (fromAndToMark m)\<rparr>;
     t \<leftarrow> toAddr;
     let m = m\<lparr>fromAndToMark := AList.update t toMark (fromAndToMark m)\<rparr>;
     add_item m dat
   }"

definition GetLevelItemWithMark :: "mark_cache \<Rightarrow> u32 \<Rightarrow> item list option" where
  "GetLevelItemWithMark m index = go_index (Items m) (unat index)"

definition GetMaxLevel :: "mark_cache \<Rightarrow> u32" where
  "GetMaxLevel m = maxLevel m + 1"

definition FillingTransCut :: "int option \<Rightarrow> meta_tx \<Rightarrow> mark_cache \<Rightarrow> mark_cache option" where
  "FillingTransCut baseFee tx m = do {
     msg \<leftarrow> AsMessage tx baseFee;
     SetMarkCache m (msg_from msg) (NewItem tx msg)
   }"

primrec fill_all :: "int option \<Rightarrow> meta_tx list \<Rightarrow> mark_cache \<Rightarrow> mark_cache option" where
  "fill_all fee [] m = Some m"
| "fill_all fee (tx # txs) m = FillingTransCut fee tx m \<bind> fill_all fee txs"

section \<open>One step\<close>

text \<open>A transfer has a sender and a recipient; \<open>tx_edge\<close> reads both. \<open>new_mark\<close> is the mark the code
  computes for it, \<open>place\<close> the cache that the step leaves.\<close>

definition tx_edge :: "meta_tx \<Rightarrow> (address \<times> address) option" where
  "tx_edge tx = do { b \<leftarrow> Base tx; f \<leftarrow> tx_From b; t \<leftarrow> tx_To b; Some (f, t) }"

definition next_mark :: "mark_cache \<Rightarrow> address \<Rightarrow> u32" where
  "next_mark m a = (case lookup (fromAndToMark m) a of None \<Rightarrow> 0 | Some x \<Rightarrow> x + 1)"

definition new_mark :: "mark_cache \<Rightarrow> address \<Rightarrow> address \<Rightarrow> u32" where
  "new_mark m f t = max (next_mark m f) (next_mark m t)"

definition extend :: "item list list \<Rightarrow> nat \<Rightarrow> item list list" where
  "extend is l = (if length is \<le> l then is @ replicate (Suc l - length is) [] else is)"

definition place :: "mark_cache \<Rightarrow> address \<Rightarrow> address \<Rightarrow> item \<Rightarrow> mark_cache" where
  "place m f t it =
     (let l = max (maxLevel m) (new_mark m f t); is = extend (Items m) (unat l) in
      \<lparr>fromAndToMark = AList.update t 0 (AList.update f (new_mark m f t) (fromAndToMark m)),
       Items = is[unat l := is ! unat l @ [it]], maxLevel = l\<rparr>)"

lemma length_extend: "length (extend is l) = max (length is) (Suc l)"
  by (auto simp: extend_def)

lemma concat_extend [simp]: "concat (extend is l) = concat is"
  by (simp add: extend_def)

lemma SetMarkCache_eq:
  assumes "tx_edge (txInfo it) = Some (f, t)" and "Items m \<noteq> []"
  shows "SetMarkCache m f it = Some (place m f t it)"
proof -
  from assms(1) have to: "To (txInfo it) = Some (Some t)"
    by (auto simp: tx_edge_def To_def bind_Some_iff)
  have add: "add_item m' it = Some (m'\<lparr>Items := (extend (Items m') (unat (maxLevel m')))
      [unat (maxLevel m') := extend (Items m') (unat (maxLevel m')) ! unat (maxLevel m') @ [it]]\<rparr>)"
    if "Items m' \<noteq> []" for m' :: mark_cache
  proof -
    have "unat (maxLevel m') < length (extend (Items m') (unat (maxLevel m')))"
      by (simp add: length_extend)
    then show ?thesis using that
      by (simp add: add_item_def Let_def bind_Some_iff flip: extend_def)
  qed
  show ?thesis
    unfolding SetMarkCache_def to
    using assms(2)
    by (auto simp: Let_def place_def new_mark_def next_mark_def [symmetric] max_def add)
qed

lemma SetMarkCache_nil_recipient:
  assumes "To (txInfo it) = Some None"
  shows "SetMarkCache m f it = None"
  using assms by (simp add: SetMarkCache_def Let_def split: prod.split)

section \<open>The invariant of the levels\<close>

definition mc_inv :: "mark_cache \<Rightarrow> bool" where
  "mc_inv m \<longleftrightarrow>
     length (Items m) = max 2 (Suc (unat (maxLevel m))) \<and>
     (\<forall>a x. lookup (fromAndToMark m) a = Some x \<longrightarrow> x \<le> maxLevel m) \<and>
     (\<forall>l. unat (maxLevel m) < l \<and> l < length (Items m) \<longrightarrow> Items m ! l = []) \<and>
     (if concat (Items m) = [] then fromAndToMark m = [] \<and> maxLevel m = 0
      else \<forall>l \<le> unat (maxLevel m). Items m ! l \<noteq> [])"

lemma mc_inv_New: "mc_inv NewMarkCache"
  by (auto simp: mc_inv_def NewMarkCache_def less_Suc_eq)

lemma unat_suc_le: "unat (x + 1 :: u32) \<le> Suc (unat x)"
proof -
  have "unat (x + 1) = (unat x + 1) mod 2 ^ 32" using unat_word_ariths(1) [of x 1] by simp
  then show ?thesis using mod_less_eq_dividend [of "unat x + 1" "2 ^ 32"] by simp
qed

lemma next_mark_le: "mc_inv m \<Longrightarrow> unat (next_mark m a) \<le> Suc (unat (maxLevel m))"
  using order_trans [OF unat_suc_le] by (fastforce simp: next_mark_def mc_inv_def word_le_nat_alt split: option.splits)

lemma new_mark_le: "mc_inv m \<Longrightarrow> unat (new_mark m f t) \<le> Suc (unat (maxLevel m))"
  using next_mark_le by (simp add: new_mark_def max_def)

lemma concat_append_at:
  assumes "l < length is" and "\<And>j. l < j \<Longrightarrow> j < length is \<Longrightarrow> is ! j = []"
  shows "concat (is[l := is ! l @ [x]]) = concat is @ [x]"
proof -
  have nil: "concat (drop (Suc l) is) = []"
    using assms(2) by (auto simp: concat_eq_Nil_conv set_conv_nth)
  have "is = take l is @ is ! l # drop (Suc l) is"
    using assms(1) by (rule id_take_nth_drop)
  then have "concat is = concat (take l is) @ is ! l @ concat (drop (Suc l) is)"
    by (metis concat.simps(2) concat_append)
  moreover have "concat (is[l := is ! l @ [x]]) = concat (take l is) @ (is ! l @ [x]) @ concat (drop (Suc l) is)"
    using assms(1) by (simp add: upd_conv_take_nth_drop)
  ultimately show ?thesis by (simp only: nil append_Nil2 append_assoc)
qed

lemma place_inv:
  assumes inv: "mc_inv m"
  shows "mc_inv (place m f t it)"
    and "concat (Items (place m f t it)) = concat (Items m) @ [it]"
proof -
  define l where "l = max (maxLevel m) (new_mark m f t)"
  define xs where "xs = extend (Items m) (unat l)"
  have l: "unat (maxLevel m) \<le> unat l" "unat l \<le> Suc (unat (maxLevel m))" "new_mark m f t \<le> l" "maxLevel m \<le> l"
    using new_mark_le [OF inv, of f t] by (auto simp: l_def max_def word_le_nat_alt)
  have len: "length (Items m) = max 2 (Suc (unat (maxLevel m)))" using inv by (simp add: mc_inv_def)
  have lxs: "length xs = max 2 (Suc (unat l))" using len l by (simp add: xs_def length_extend)
  have nth: "xs ! j = (if j < length (Items m) then Items m ! j else [])" if "j < length xs" for j
    using that by (auto simp: xs_def extend_def nth_append)
  have tail: "xs ! j = []" if "unat l < j" "j < length xs" for j
    using that inv l nth [of j] by (simp add: mc_inv_def)
  have items: "Items (place m f t it) = xs[unat l := xs ! unat l @ [it]]" "maxLevel (place m f t it) = l"
    "fromAndToMark (place m f t it) = AList.update t 0 (AList.update f (new_mark m f t) (fromAndToMark m))"
    by (simp_all add: place_def Let_def l_def xs_def)
  have "unat l < length xs" using lxs by simp
  from concat_append_at [OF this tail] show concat:
    "concat (Items (place m f t it)) = concat (Items m) @ [it]"
    by (simp add: items) (simp add: xs_def)
  have "Items (place m f t it) ! j \<noteq> []" if "j \<le> unat l" for j
  proof (cases "j = unat l")
    case False
    then have j: "j < unat l" "j \<le> unat (maxLevel m)" using that l by auto
    have "concat (Items m) \<noteq> []"
    proof
      assume "concat (Items m) = []"
      then have "new_mark m f t = 0" "maxLevel m = 0"
        using inv by (auto simp: mc_inv_def new_mark_def next_mark_def)
      then have "l = 0" by (simp add: l_def)
      with j show False by simp
    qed
    then have "Items m ! j \<noteq> []" using inv j by (simp add: mc_inv_def)
    then show ?thesis using j lxs nth [of j] len by (simp add: items)
  qed (use lxs in \<open>simp add: items\<close>)
  moreover have "lookup (fromAndToMark (place m f t it)) a = Some x \<Longrightarrow> x \<le> l" for a x
    using inv l by (auto simp: items mc_inv_def split: if_splits intro: order_trans)
  ultimately show "mc_inv (place m f t it)"
    using lxs tail concat by (auto simp: mc_inv_def items(1,2) simp del: concat_eq_Nil_conv)
qed

lemma FillingTransCut_eq:
  assumes "tx_edge tx = Some (f, t)" and "Items m \<noteq> []"
  shows "\<exists>msg. AsMessage tx fee = Some msg \<and> FillingTransCut fee tx m = Some (place m f t (NewItem tx msg))"
proof -
  from assms(1) obtain b where b: "Base tx = Some b" "tx_From b = Some f"
    by (auto simp: tx_edge_def bind_Some_iff)
  then obtain msg where msg: "AsMessage tx fee = Some msg"
    using AsMessage_Some_iff [of tx fee] by auto
  with b have "msg_from msg = f"
    by (auto simp: AsMessage_def Let_def bind_Some_iff From_def NewMessage_def)
  moreover have "SetMarkCache m f (NewItem tx msg) = Some (place m f t (NewItem tx msg))"
    by (rule SetMarkCache_eq) (use assms in \<open>simp_all add: NewItem_def\<close>)
  ultimately show ?thesis using msg by (simp add: FillingTransCut_def)
qed

lemma mc_inv_Items: "mc_inv m \<Longrightarrow> Items m \<noteq> []"
  by (auto simp: mc_inv_def)

lemma fill_all_inv:
  assumes "mc_inv m" and "\<forall>tx \<in> set txs. tx_edge tx \<noteq> None"
  shows "\<exists>m'. fill_all fee txs m = Some m' \<and> mc_inv m' \<and>
    map txInfo (concat (Items m')) = map txInfo (concat (Items m)) @ txs"
  using assms
proof (induction txs arbitrary: m)
  case Nil
  then show ?case by simp
next
  case (Cons tx txs)
  then obtain f t where e: "tx_edge tx = Some (f, t)" by auto
  obtain msg where step: "FillingTransCut fee tx m = Some (place m f t (NewItem tx msg))"
    using FillingTransCut_eq [OF e mc_inv_Items [OF Cons.prems(1)]] by blast
  from Cons.IH [OF place_inv(1) [OF Cons.prems(1)], of f t "NewItem tx msg"] Cons.prems(2) obtain m' where
    "fill_all fee txs (place m f t (NewItem tx msg)) = Some m'" "mc_inv m'"
    "map txInfo (concat (Items m')) = map txInfo (concat (Items m) @ [NewItem tx msg]) @ txs"
    using place_inv(2) [OF Cons.prems(1), of f t "NewItem tx msg"] by auto
  with step show ?case by (simp add: NewItem_def)
qed

section \<open>How many levels a sender needs\<close>

definition sends :: "address \<Rightarrow> meta_tx list \<Rightarrow> nat" where
  "sends a txs = length (filter (\<lambda>tx. map_option fst (tx_edge tx) = Some a) txs)"

lemma fill_all_sends:
  assumes "mc_inv m" and "\<forall>tx \<in> set txs. \<exists>f t. tx_edge tx = Some (f, t) \<and> t \<noteq> a"
    and "unat (maxLevel m) + length txs < 2 ^ 32 - 1"
    and "fill_all fee txs m = Some m'"
    and "n = (case lookup (fromAndToMark m) a of None \<Rightarrow> 0 | Some x \<Rightarrow> Suc (unat x))"
  shows "n + sends a txs \<le> Suc (unat (maxLevel m')) \<or> n + sends a txs = 0"
  using assms
proof (induction txs arbitrary: m n)
  case Nil
  then show ?case by (auto simp: sends_def mc_inv_def word_le_nat_alt split: option.splits)
next
  case (Cons tx txs)
  then obtain f t where e: "tx_edge tx = Some (f, t)" "t \<noteq> a" by auto
  obtain msg where step: "FillingTransCut fee tx m = Some (place m f t (NewItem tx msg))"
    using FillingTransCut_eq [OF e(1) mc_inv_Items [OF Cons.prems(1)]] by blast
  let ?m = "place m f t (NewItem tx msg)"
  have lvl: "unat (maxLevel ?m) \<le> Suc (unat (maxLevel m))"
    using new_mark_le [OF Cons.prems(1), of f t] by (auto simp: place_def Let_def max_def)
  define n' where "n' = (case lookup (fromAndToMark ?m) a of None \<Rightarrow> 0 | Some x \<Rightarrow> Suc (unat x))"
  have "n + sends a [tx] \<le> n'"
  proof (cases "f = a")
    case False
    then show ?thesis using e Cons.prems(5) by (simp add: n'_def sends_def place_def Let_def)
  next
    case True
    have "n \<le> unat (next_mark m a)"
    proof (cases "lookup (fromAndToMark m) a")
      case (Some x)
      then have "x \<le> maxLevel m" using Cons.prems(1) by (simp add: mc_inv_def)
      then have "unat x + 1 < 2 ^ 32" using Cons.prems(3) by (simp add: word_le_nat_alt)
      then have "unat (x + 1) = unat x + 1" using unat_word_ariths(1) [of x 1] by simp
      then show ?thesis using Some Cons.prems(5) by (simp add: next_mark_def)
    qed (use Cons.prems(5) in simp)
    also have "\<dots> \<le> unat (new_mark m f t)" using True by (simp add: new_mark_def max_def word_le_nat_alt)
    finally show ?thesis using True e by (simp add: n'_def sends_def place_def Let_def)
  qed
  moreover have "n' + sends a txs \<le> Suc (unat (maxLevel m')) \<or> n' + sends a txs = 0"
  proof (rule Cons.IH [OF place_inv(1) [OF Cons.prems(1)] _ _ _ n'_def])
    show "unat (maxLevel ?m) + length txs < 2 ^ 32 - 1" using Cons.prems(3) lvl by simp
    show "fill_all fee txs ?m = Some m'" using Cons.prems(4) step by simp
  qed (use Cons.prems(2) in simp)
  moreover have "sends a (tx # txs) = sends a [tx] + sends a txs" by (simp add: sends_def)
  ultimately show ?case by linarith
qed

lemma fill_all_creation:
  assumes "tx \<in> set txs" and "tx_edge tx = None"
  shows "fill_all fee txs m = None"
  using assms(1)
proof (induction txs arbitrary: m)
  case (Cons u us)
  show ?case
  proof (cases "u = tx")
    case True
    have "FillingTransCut fee tx m = None"
    proof (cases "AsMessage tx fee")
      case (Some msg)
      then obtain b where b: "Base tx = Some b" "tx_From b \<noteq> None" using AsMessage_Some_iff by blast
      then have "To tx = Some None" using assms(2) by (auto simp: tx_edge_def To_def bind_None_iff)
      then show ?thesis using Some
        by (simp add: FillingTransCut_def SetMarkCache_nil_recipient NewItem_def)
    qed (simp add: FillingTransCut_def)
    with True show ?thesis by simp
  next
    case False
    with Cons show ?thesis by (auto simp: bind_None_iff)
  qed
qed simp

section \<open>Properties\<close>

text \<open>C14. Splitting a block of transfers never panics, loses nothing and keeps the order: the levels, one
  after the other, are the block; no level up to the highest is empty, and every level that
  \<^verbatim>\<open>ExecBenchTxs\<close> asks for exists.\<close>

theorem levels_partition_block:
  assumes "\<forall>tx \<in> set txs. tx_edge tx \<noteq> None" and "txs \<noteq> []"
  shows "\<exists>m. fill_all fee txs NewMarkCache = Some m \<and> map txInfo (concat (Items m)) = txs \<and>
    (\<forall>l \<le> maxLevel m. \<exists>items. GetLevelItemWithMark m l = Some items \<and> items \<noteq> [])"
proof -
  obtain m where m: "fill_all fee txs NewMarkCache = Some m" "mc_inv m"
    "map txInfo (concat (Items m)) = txs"
    using fill_all_inv [OF mc_inv_New assms(1)] by (auto simp: NewMarkCache_def)
  have ne: "concat (Items m) \<noteq> []" using m(3) assms(2) by (metis list.map_disc_iff)
  have "GetLevelItemWithMark m l = Some (Items m ! unat l) \<and> Items m ! unat l \<noteq> []" if "l \<le> maxLevel m" for l
    using m(2) ne that by (simp add: mc_inv_def GetLevelItemWithMark_def word_le_nat_alt del: concat_eq_Nil_conv)
  with m show ?thesis by blast
qed

definition example_tx :: "address \<Rightarrow> address option \<Rightarrow> meta_tx" where
  "example_tx f t = \<lparr>Base = Some \<lparr>tx_TxHash = ucast f, tx_TxType = 0, tx_From = Some f, tx_To = t,
     tx_Value = [1], tx_Nonce = 0, tx_Gas = 21000, tx_GasPrice = [], tx_Data = [], tx_ChainId = []\<rparr>\<rparr>"

lemma tx_edge_example [simp]: "tx_edge (example_tx f t) = map_option (Pair f) t"
  by (cases t) (simp_all add: tx_edge_def example_tx_def)

theorem levels_partition_block_witness:
  "\<exists>m. fill_all None [example_tx 1 (Some 2), example_tx 1 (Some 3)] NewMarkCache = Some m \<and>
    map txInfo (concat (Items m)) = [example_tx 1 (Some 2), example_tx 1 (Some 3)]"
  using levels_partition_block [of "[example_tx 1 (Some 2), example_tx 1 (Some 3)]" None] by auto

text \<open>A block has at least as many levels as an account that receives nothing in it sends
  transactions.\<close>

theorem levels_at_least_sends:
  assumes "\<forall>tx \<in> set txs. \<exists>f t. tx_edge tx = Some (f, t) \<and> t \<noteq> a"
    and "length txs < 2 ^ 32 - 1" and "fill_all fee txs NewMarkCache = Some m"
  shows "sends a txs \<le> unat (maxLevel m) + 1"
  using fill_all_sends [OF mc_inv_New assms(1) _ assms(3) refl] assms(2)
  by (auto simp: NewMarkCache_def)

theorem levels_at_least_sends_witness:
  "\<exists>m. fill_all None [example_tx 1 (Some 2), example_tx 1 (Some 3)] NewMarkCache = Some m \<and>
    2 \<le> unat (maxLevel m) + 1"
proof -
  obtain m where m: "fill_all None [example_tx 1 (Some 2), example_tx 1 (Some 3)] NewMarkCache = Some m"
    using fill_all_inv [OF mc_inv_New, of "[example_tx 1 (Some 2), example_tx 1 (Some 3)]" None] by auto
  from levels_at_least_sends [OF _ _ m, of 1] have "2 \<le> unat (maxLevel m) + 1" by (simp add: sends_def)
  with m show ?thesis by blast
qed

text \<open>A block with a contract creation cannot be split: the nil recipient is dereferenced, and the
  whole block panics, wherever the creation stands.\<close>

theorem creation_panics_splitting:
  assumes "tx \<in> set txs" and "tx_edge tx = None"
  shows "fill_all fee txs NewMarkCache = None"
  using assms by (rule fill_all_creation)

theorem creation_panics_splitting_witness:
  "fill_all None [example_tx 1 (Some 2), example_tx 3 None] NewMarkCache = None"
  using creation_panics_splitting [of "example_tx 3 None" "[example_tx 1 (Some 2), example_tx 3 None]" None] by simp

text \<open>Levels do not separate the transactions of one sender: once there are two levels, two
  transactions in a row of a sender that has no mark yet, to recipients without a mark, land in the same
  level (the comment in the source gives them consecutive levels).\<close>

theorem same_sender_same_level:
  assumes "mc_inv m" and "1 \<le> maxLevel m"
    and "tx_edge tx1 = Some (f, t1)" and "tx_edge tx2 = Some (f, t2)"
    and "\<forall>a \<in> {f, t1, t2}. lookup (fromAndToMark m) a = None"
  shows "\<exists>m' i1 i2. fill_all fee [tx1, tx2] m = Some m' \<and> txInfo i1 = tx1 \<and> txInfo i2 = tx2 \<and>
    Items m' ! unat (maxLevel m) = Items m ! unat (maxLevel m) @ [i1, i2]"
proof -
  obtain msg1 where s1: "FillingTransCut fee tx1 m = Some (place m f t1 (NewItem tx1 msg1))"
    using FillingTransCut_eq [OF assms(3) mc_inv_Items [OF assms(1)]] by blast
  define m1 where "m1 = place m f t1 (NewItem tx1 msg1)"
  have inv1: "mc_inv m1" unfolding m1_def by (rule place_inv) (rule assms(1))
  obtain msg2 where s2: "FillingTransCut fee tx2 m1 = Some (place m1 f t2 (NewItem tx2 msg2))"
    using FillingTransCut_eq [OF assms(4) mc_inv_Items [OF inv1]] by blast
  have len: "unat (maxLevel m) < length (Items m)" using assms(1) by (simp add: mc_inv_def)
  have n1: "new_mark m f t1 = 0" using assms(5) by (simp add: new_mark_def next_mark_def)
  have m1: "maxLevel m1 = maxLevel m" "length (Items m1) = length (Items m)"
    "Items m1 ! unat (maxLevel m) = Items m ! unat (maxLevel m) @ [NewItem tx1 msg1]"
    using len by (simp_all add: m1_def place_def Let_def n1 extend_def not_le)
  have "next_mark m1 f \<le> 1" "next_mark m1 t2 \<le> 1"
    using assms(5) by (auto simp: next_mark_def m1_def place_def Let_def n1)
  then have n2: "max (maxLevel m) (new_mark m1 f t2) = maxLevel m"
    using assms(2) order_trans [of _ 1 "maxLevel m"] unfolding new_mark_def
    by (intro max_absorb1 max.boundedI) blast+
  have "Items (place m1 f t2 (NewItem tx2 msg2)) ! unat (maxLevel m) =
      Items m ! unat (maxLevel m) @ [NewItem tx1 msg1, NewItem tx2 msg2]"
    using len m1 by (simp add: place_def Let_def n2 extend_def not_le)
  moreover have "fill_all fee [tx1, tx2] m = Some (place m1 f t2 (NewItem tx2 msg2))"
    using s1 s2 by (simp add: m1_def)
  ultimately show ?thesis by (force simp: NewItem_def)
qed

definition example_cache :: mark_cache where
  "example_cache =
     (let it = NewItem (example_tx 1 (Some 2)) (NewMessage 1 (Some 2) 0 1 21000 0 0 0 [] [] True)
      in \<lparr>fromAndToMark = [(1, 1), (2, 0)], Items = [[it], [it]], maxLevel = 1\<rparr>)"

theorem same_sender_same_level_witness:
  "\<exists>m' i1 i2. fill_all None [example_tx 5 (Some 6), example_tx 5 (Some 7)] example_cache = Some m' \<and>
    Items m' ! 1 = Items example_cache ! 1 @ [i1, i2] \<and>
    txInfo i1 = example_tx 5 (Some 6) \<and> txInfo i2 = example_tx 5 (Some 7)"
proof -
  have "mc_inv example_cache"
    by (auto simp: mc_inv_def example_cache_def Let_def less_Suc_eq le_Suc_eq split: if_splits)
  from same_sender_same_level [OF this, of "example_tx 5 (Some 6)" 5 6 "example_tx 5 (Some 7)" 7 None]
  show ?thesis by (auto simp: example_cache_def Let_def)
qed

end
