(* ===== verification/Stack.thy ===== *)
theory Stack
  imports Params
begin

text \<open>
  The operand stack of \<^verbatim>\<open>vm/ethvm/stack.go\<close> and the stack bounds of \<^verbatim>\<open>stack_table.go\<close>. The Go
  type wraps a slice \<^verbatim>\<open>data\<close> whose last element is the top; a stack is that slice, a list with
  its top at the end. An index below zero panics (\<open>None\<close>). \<^verbatim>\<open>peek\<close> and \<^verbatim>\<open>Back\<close> answer pointers into the
  slice: a read through them is \<open>peek\<close> or \<open>Back\<close>, a write through \<^verbatim>\<open>peek\<close> is \<open>set_top\<close>.
  The locale \<open>lifo\<close> states the stack as a contract, independent of the slice.
\<close>

type_synonym stack = "u256 list"

definition newstack :: stack where
  "newstack = []"

definition push :: "stack \<Rightarrow> u256 \<Rightarrow> stack" where
  "push st d = st @ [d]"

definition pop :: "stack \<Rightarrow> (u256 \<times> stack) option" where
  "pop st = (if st = [] then None else Some (last st, butlast st))"

definition peek :: "stack \<Rightarrow> u256 option" where
  "peek st = (if st = [] then None else Some (last st))"

definition set_top :: "stack \<Rightarrow> u256 \<Rightarrow> stack" where
  "set_top st v = butlast st @ [v]"

definition Back :: "stack \<Rightarrow> nat \<Rightarrow> u256 option" where
  "Back st n = (if n < length st then Some (st ! (length st - n - 1)) else None)"

definition swap :: "stack \<Rightarrow> nat \<Rightarrow> stack option" where
  "swap st n =
     (let l = length st in
      if 1 \<le> n \<and> n \<le> l then Some (st[l - n := st ! (l - 1), l - 1 := st ! (l - n)]) else None)"

definition dup :: "stack \<Rightarrow> nat \<Rightarrow> stack option" where
  "dup st n =
     (if 1 \<le> n \<and> n \<le> length st then Some (push st (st ! (length st - n))) else None)"

text \<open>A row of pops, in the order the code writes them; the topmost value comes first.\<close>

primrec pops :: "('s \<Rightarrow> ('a \<times> 's) option) \<Rightarrow> nat \<Rightarrow> 's \<Rightarrow> ('a list \<times> 's) option" where
  "pops p 0 s = Some ([], s)"
| "pops p (Suc n) s = do {
     (x, s) \<leftarrow> p s;
     (xs, s) \<leftarrow> pops p n s;
     Some (x # xs, s)
   }"

section \<open>The contract of a stack\<close>

locale lifo =
  fixes emp :: 's
    and psh :: "'s \<Rightarrow> 'a \<Rightarrow> 's"
    and pp :: "'s \<Rightarrow> ('a \<times> 's) option"
    and sz :: "'s \<Rightarrow> nat"
  assumes pop_push: "pp (psh s x) = Some (x, s)"
    and pop_empty: "pp emp = None"
    and size_empty: "sz emp = 0"
    and size_push: "sz (psh s x) = Suc (sz s)"
    and exhaust: "s = emp \<or> (\<exists>t x. s = psh t x)"
begin

lemma push_inject: "psh s x = psh t y \<longleftrightarrow> s = t \<and> x = y"
  by (metis option.inject prod.inject pop_push)

lemma underflow_iff: "pp s = None \<longleftrightarrow> sz s = 0"
  by (metis exhaust nat.distinct(1) option.distinct(1) pop_empty pop_push size_empty size_push)

lemma pop_eq_push_iff: "pp s = Some (x, t) \<longleftrightarrow> s = psh t x"
  by (metis exhaust option.distinct(1) option.inject pop_empty pop_push prod.inject)

lemma size_pushes: "sz (foldl psh s xs) = sz s + length xs"
  by (induction xs arbitrary: s) (simp_all add: size_push)

lemma pops_pushes: "pops pp (length xs) (foldl psh s xs) = Some (rev xs, s)"
  by (induction xs rule: rev_induct) (simp_all add: pop_push)

lemma pops_None_iff: "pops pp n s = None \<longleftrightarrow> sz s < n"
proof (induction n arbitrary: s)
  case 0
  then show ?case by simp
next
  case (Suc n)
  from exhaust [of s] show ?case
  proof
    assume "s = emp"
    then show ?thesis by (simp add: pop_empty size_empty)
  next
    assume "\<exists>t x. s = psh t x"
    then obtain t x where s: "s = psh t x" by blast
    have "pops pp (Suc n) s = None \<longleftrightarrow> pops pp n t = None"
      by (cases "pops pp n t") (auto simp: s pop_push)
    with Suc show ?thesis by (simp add: s size_push)
  qed
qed

lemma pops_SomeD: "pops pp n s = Some (xs, t) \<Longrightarrow> length xs = n \<and> s = foldl psh t (rev xs)"
  by (induction n arbitrary: s xs) (auto simp: bind_Some_iff pop_eq_push_iff)

end

lemma foldl_push: "foldl push st xs = st @ xs"
  by (induction xs arbitrary: st) (simp_all add: push_def)

interpretation st: lifo newstack push pop length
proof unfold_locales
  fix s :: stack
  show "s = newstack \<or> (\<exists>t x. s = push t x)"
    by (cases s rule: rev_cases) (auto simp: newstack_def push_def)
qed (simp_all add: newstack_def push_def pop_def)

section \<open>Operations on a stack with known top elements\<close>

lemma pop_snoc [simp]: "pop (r @ [a]) = Some (a, r)"
  by (simp add: pop_def)

lemma peek_snoc [simp]: "peek (r @ [a]) = Some a"
  by (simp add: peek_def)

lemma set_top_snoc [simp]: "set_top (r @ [a]) v = r @ [v]"
  by (simp add: set_top_def)

lemma length_push [simp]: "length (push st d) = Suc (length st)"
  by (simp add: push_def)

lemma length_set_top [simp]: "st \<noteq> [] \<Longrightarrow> length (set_top st v) = length st"
  by (simp add: set_top_def)

lemma pop_Some_iff: "pop st = Some (a, r) \<longleftrightarrow> st = r @ [a]"
  by (auto simp: pop_def)

lemma pop_None_iff [simp, panics]: "pop st = None \<longleftrightarrow> st = []"
  by (simp add: pop_def)

lemma peek_Some_iff: "peek st = Some a \<longleftrightarrow> (\<exists>r. st = r @ [a])"
  by (cases st rule: rev_cases) (auto simp: peek_def)

lemma peek_None_iff [simp, panics]: "peek st = None \<longleftrightarrow> st = []"
  by (simp add: peek_def)

lemma peek_eq_Back: "peek st = Back st 0"
  by (auto simp: peek_def Back_def last_conv_nth)

lemma Back_None_iff [panics]: "Back st n = None \<longleftrightarrow> length st \<le> n"
  by (simp add: Back_def not_less)

lemma Back_append: "Back (r @ xs) n = (if n < length xs then Back xs n else Back r (n - length xs))"
  by (auto simp: Back_def nth_append)

lemma Back_push: "Back (push st d) n = (case n of 0 \<Rightarrow> Some d | Suc m \<Rightarrow> Back st m)"
  by (auto simp: push_def Back_append Back_def [of "[d]"] split: nat.splits)

lemma swap_None_iff [panics]: "swap st n = None \<longleftrightarrow> n = 0 \<or> length st < n"
  by (auto simp: swap_def Let_def)

lemma dup_None_iff [panics]: "dup st n = None \<longleftrightarrow> n = 0 \<or> length st < n"
  by (auto simp: dup_def)

lemma length_swap: "swap st n = Some st' \<Longrightarrow> length st' = length st"
  by (auto simp: swap_def Let_def split: if_splits)

lemma length_dup: "dup st n = Some st' \<Longrightarrow> length st' = Suc (length st)"
  by (auto simp: dup_def split: if_splits)

lemma swap_Back:
  assumes "swap st n = Some st'" and "k < length st"
  shows "Back st' k = Back st (if k = 0 then n - 1 else if k = n - 1 then 0 else k)"
  using assms by (auto simp: swap_def Back_def Let_def nth_list_update split: if_splits)

lemma stack_eq_Back:
  assumes "length st' = length st" and "\<And>k. k < length st \<Longrightarrow> Back st' k = Back st k"
  shows "st' = st"
proof (rule nth_equalityI)
  show "length st' = length st" by fact
  fix i assume "i < length st'"
  then have "i < length st" using assms(1) by simp
  then have "length st - Suc i < length st" "length st - (length st - Suc i) - 1 = i" by arith+
  with assms(2) [of "length st - Suc i"] assms(1) show "st' ! i = st ! i"
    by (simp add: Back_def)
qed

lemma swap_swap:
  assumes "swap st n = Some st'"
  shows "swap st' n = Some st"
proof -
  have n: "1 \<le> n" "n \<le> length st"
    using assms by (auto simp: swap_def Let_def split: if_splits)
  have len: "length st' = length st" using assms by (rule length_swap)
  then obtain st2 where st2: "swap st' n = Some st2"
    using n by (cases "swap st' n") (auto simp: panics)
  have "st2 = st"
  proof (rule stack_eq_Back)
    show "length st2 = length st" using length_swap [OF st2] len by simp
    fix k assume k: "k < length st"
    then have "0 < length st" by linarith
    then show "Back st2 k = Back st k"
      using swap_Back [OF st2, of k] swap_Back [OF assms, of k]
        swap_Back [OF assms, of 0] swap_Back [OF assms, of "n - 1"] k n len
      by (cases "k = 0"; cases "k = n - 1"; cases "n = 1") auto
  qed
  with st2 show ?thesis by simp
qed

lemma dup_Back:
  assumes "dup st n = Some st'"
  shows "Back st' 0 = Back st (n - 1)" and "Back st' (Suc k) = Back st k"
  using assms by (auto simp: dup_def push_def Back_def nth_append split: if_splits)

section \<open>Stack bounds of an operation\<close>

definition minStack :: "int \<Rightarrow> int \<Rightarrow> int" where
  "minStack pops' pushes = pops'"

definition maxStack :: "int \<Rightarrow> int \<Rightarrow> int" where
  "maxStack pop' pushes = uint StackLimit + pop' - pushes"

definition minSwapStack :: "int \<Rightarrow> int" where
  "minSwapStack n = minStack n n"

definition maxSwapStack :: "int \<Rightarrow> int" where
  "maxSwapStack n = maxStack n n"

definition minDupStack :: "int \<Rightarrow> int" where
  "minDupStack n = minStack n (n + 1)"

definition maxDupStack :: "int \<Rightarrow> int" where
  "maxDupStack n = maxStack n (n + 1)"

lemmas stack_bounds = minStack_def maxStack_def minSwapStack_def maxSwapStack_def
  minDupStack_def maxDupStack_def

text \<open>An operation that the two bounds admit pops what is there and stays within the limit.\<close>

lemma stack_bounds_ok:
  assumes "minStack p q \<le> int l" and "int l \<le> maxStack p q" and "0 \<le> p" and "0 \<le> q"
  shows "p \<le> int l" and "int l - p + q \<le> uint StackLimit"
  using assms by (simp_all add: minStack_def maxStack_def)

section \<open>Properties\<close>

text \<open>The operand stack is last in, first out: a row of pops gives the pushed values back in reverse
  order and leaves the stack below them, and it panics exactly when it asks for more values
  than there are.\<close>

theorem stack_lifo:
  "pops pop (length xs) (foldl push s xs) = Some (rev xs, s) \<and>
   (pops pop n s = None) = (length s < n)"
  using st.pops_pushes st.pops_None_iff by blast

text \<open>\<^verbatim>\<open>swap\<close> exchanges the top with the \<open>n\<close>-th value and is its own inverse; \<^verbatim>\<open>dup\<close> puts a copy of the
  \<open>n\<close>-th value on top and leaves the others in place.\<close>

theorem stack_swap_dup:
  assumes "1 \<le> n" and "n \<le> length s"
  shows "\<exists>s' s''. swap s n = Some s' \<and> swap s' n = Some s \<and>
    Back s' 0 = Back s (n - 1) \<and> Back s' (n - 1) = Back s 0 \<and>
    dup s n = Some s'' \<and> Back s'' 0 = Back s (n - 1) \<and> (\<forall>k. Back s'' (Suc k) = Back s k)"
proof -
  obtain s' where s': "swap s n = Some s'" using assms by (cases "swap s n") (auto simp: panics)
  obtain s'' where s'': "dup s n = Some s''" using assms by (cases "dup s n") (auto simp: panics)
  have "0 < length s" using assms by linarith
  then have "Back s' 0 = Back s (n - 1)" "Back s' (n - 1) = Back s 0"
    using swap_Back [OF s', of 0] swap_Back [OF s', of "n - 1"] assms by auto
  with s' s'' show ?thesis using swap_swap [OF s'] dup_Back [OF s''] by blast
qed

theorem stack_swap_dup_witness:
  "\<exists>s' s''. swap [1, 2, 3] 3 = Some s' \<and> swap s' 3 = Some [1, 2, 3] \<and>
    Back s' 0 = Some 1 \<and> dup [1, 2, 3] 3 = Some s'' \<and> Back s'' 0 = Some 1"
proof -
  have "Back [1, 2, 3] (3 - 1) = Some 1" by (simp add: Back_def)
  with stack_swap_dup [of 3 "[1, 2, 3]"] show ?thesis by auto
qed

end
