(* ===== verification/Memory.thy ===== *)
theory Memory
  imports Common
begin

text \<open>
  The byte memory of a call frame, \<^verbatim>\<open>vm/ethvm/memory.go\<close>: a slice that only grows, and the gas
  total already paid for it. \<^verbatim>\<open>uint64\<close> offsets are added with wrap-around, as in the code. The
  abstract view \<open>mem_at\<close> is an infinite memory that is zero where the slice ends; each operation
  refines the operation of the same name on it.
\<close>

record memory =
  store :: bytes
  lastGasCost :: u64

definition NewMemory :: memory where
  "NewMemory = \<lparr>store = [], lastGasCost = 0\<rparr>"

definition mem_Set :: "memory \<Rightarrow> u64 \<Rightarrow> u64 \<Rightarrow> bytes \<Rightarrow> memory option" where
  "mem_Set m off sz value =
     (if sz > 0 then
        (if unat (off + sz) > length (store m) then None
         else if off + sz < off then None
         else Some (m\<lparr>store := go_copy (store m) (unat off) (unat sz) value\<rparr>))
      else Some m)"

definition mem_Set32 :: "uint256_ops \<Rightarrow> memory \<Rightarrow> u64 \<Rightarrow> u256 \<Rightarrow> memory option" where
  "mem_Set32 U m off val =
     (if unat (off + 32) > length (store m) then None
      else if off + 32 < off then None
      else
        let s = go_copy (store m) (unat off) 32 (replicate 32 0)
        in Some (m\<lparr>store := take (unat off) s @ u_WriteToSlice U val (drop (unat off) s)\<rparr>))"

definition mem_ChangeStore :: "memory \<Rightarrow> u64 \<Rightarrow> u8 \<Rightarrow> memory option" where
  "mem_ChangeStore m index v = do {
     s \<leftarrow> go_update (store m) (unat index) v;
     Some (m\<lparr>store := s\<rparr>)
   }"

definition mem_Resize :: "memory \<Rightarrow> u64 \<Rightarrow> memory" where
  "mem_Resize m sz =
     (if length (store m) < unat sz
      then m\<lparr>store := store m @ replicate (unat sz - length (store m)) 0\<rparr>
      else m)"

text \<open>\<^verbatim>\<open>GetPtr\<close> and \<^verbatim>\<open>GetCopy\<close> take \<^verbatim>\<open>int64\<close> arguments: the words are read as signed, the slice
  expression panics on a negative bound, and so does \<^verbatim>\<open>make\<close> on a negative size.\<close>

definition mem_GetPtr :: "memory \<Rightarrow> u64 \<Rightarrow> u64 \<Rightarrow> bytes option" where
  "mem_GetPtr m off sz =
     (if sz = 0 then Some []
      else if int (length (store m)) > sint off then
        (if sint off < 0 \<or> sint (off + sz) < 0 then None
         else go_slice (store m) (nat (sint off)) (nat (sint (off + sz))))
      else Some [])"

definition mem_GetCopy :: "memory \<Rightarrow> u64 \<Rightarrow> u64 \<Rightarrow> bytes option" where
  "mem_GetCopy m off sz =
     (if sz = 0 then Some []
      else if int (length (store m)) > sint off then
        (if sint sz < 0 \<or> sint off < 0 \<or> sint (off + sz) < 0 then None
         else do {
           s \<leftarrow> go_slice (store m) (nat (sint off)) (nat (sint (off + sz)));
           Some (go_copy (replicate (nat (sint sz)) 0) 0 (nat (sint sz)) s)
         })
      else Some [])"

section \<open>The abstract memory\<close>

definition mem_at :: "memory \<Rightarrow> nat \<Rightarrow> u8" where
  "mem_at m i = (if i < length (store m) then store m ! i else 0)"

definition mem_range :: "memory \<Rightarrow> nat \<Rightarrow> nat \<Rightarrow> bytes" where
  "mem_range m k n = map (mem_at m) [k..<k + n]"

text \<open>The precondition the interpreter establishes by resizing: the range lies within the slice,
  and the slice is shorter than \<open>2 ^ 63\<close> bytes, as every Go slice is.\<close>

definition in_mem :: "memory \<Rightarrow> u64 \<Rightarrow> u64 \<Rightarrow> bool" where
  "in_mem m off sz \<longleftrightarrow>
     sz \<noteq> 0 \<longrightarrow> unat off + unat sz \<le> length (store m) \<and> length (store m) < 2 ^ 63"

lemma in_mem_nowrap:
  assumes "in_mem m off sz" and "sz \<noteq> 0"
  shows "unat (off + sz) = unat off + unat sz" "\<not> off + sz < off"
    "sint off = int (unat off)" "sint sz = int (unat sz)"
    "sint (off + sz) = int (unat off + unat sz)"
    "unat off + unat sz \<le> length (store m)" "unat off < length (store m)"
proof -
  from assms have le: "unat off + unat sz \<le> length (store m)" "length (store m) < 2 ^ 63"
    by (auto simp: in_mem_def)
  then have "unat off + unat sz < 2 ^ 63" by linarith
  then show sum: "unat (off + sz) = unat off + unat sz"
    by (intro unat_add_u64_no_wrap) simp
  show "\<not> off + sz < off" using sum by (simp add: word_less_nat_alt)
  show "sint off = int (unat off)" "sint sz = int (unat sz)"
    using \<open>unat off + unat sz < 2 ^ 63\<close> by (intro sint_u64_small; linarith)+
  show "sint (off + sz) = int (unat off + unat sz)"
    using sint_u64_small [of "off + sz"] sum \<open>unat off + unat sz < 2 ^ 63\<close> by (simp only: )
  show "unat off + unat sz \<le> length (store m)" by fact
  show "unat off < length (store m)"
    using le assms(2) unat_gt_0 [of sz] by linarith
qed

lemma mem_at_NewMemory [simp]: "mem_at NewMemory i = 0"
  by (simp add: mem_at_def NewMemory_def)

lemma take_drop_mem_range:
  "k + n \<le> length (store m) \<Longrightarrow> take n (drop k (store m)) = mem_range m k n"
  by (rule nth_equalityI) (auto simp: mem_range_def mem_at_def)

lemma mem_GetPtr_eq:
  assumes "in_mem m off sz"
  shows "mem_GetPtr m off sz = Some (mem_range m (unat off) (unat sz))"
proof (cases "sz = 0")
  case True
  then show ?thesis by (simp add: mem_GetPtr_def mem_range_def)
next
  case False
  note nw = in_mem_nowrap [OF assms False]
  show ?thesis using False nw(6,7)
    by (simp add: mem_GetPtr_def nw(3,5) nat_add_distrib take_drop_mem_range del: of_nat_add of_nat_unat)
qed

lemma mem_GetCopy_eq:
  assumes "in_mem m off sz"
  shows "mem_GetCopy m off sz = Some (mem_range m (unat off) (unat sz))"
proof (cases "sz = 0")
  case True
  then show ?thesis by (simp add: mem_GetCopy_def mem_range_def)
next
  case False
  note nw = in_mem_nowrap [OF assms False]
  have "length (mem_range m (unat off) (unat sz)) = unat sz" by (simp add: mem_range_def)
  then show ?thesis using False nw(6,7)
    by (simp add: mem_GetCopy_def nw(3,4,5) nat_add_distrib take_drop_mem_range bind_Some_iff go_copy_def
        del: of_nat_add of_nat_unat)
qed

lemma mem_Set_eq:
  assumes "in_mem m off sz"
  shows "\<exists>m'. mem_Set m off sz v = Some m' \<and> length (store m') = length (store m) \<and>
    lastGasCost m' = lastGasCost m \<and>
    mem_at m' = (\<lambda>i. if unat off \<le> i \<and> i < unat off + min (unat sz) (length v)
                     then v ! (i - unat off) else mem_at m i)"
proof (cases "sz = 0")
  case True
  then show ?thesis by (auto simp: mem_Set_def fun_eq_iff)
next
  case False
  note nw = in_mem_nowrap [OF assms False]
  have "0 < sz" using False by (simp add: word_neq_0_conv)
  then show ?thesis using nw(6) nw(2)
    by (auto simp: mem_Set_def nw(1) mem_at_def nth_go_copy fun_eq_iff)
qed

lemma length_mem_Resize: "length (store (mem_Resize m sz)) = max (length (store m)) (unat sz)"
  by (auto simp: mem_Resize_def)

lemma mem_at_Resize [simp]: "mem_at (mem_Resize m sz) = mem_at m"
  by (rule ext) (auto simp: mem_Resize_def mem_at_def nth_append)

lemma lastGasCost_Resize [simp]: "lastGasCost (mem_Resize m sz) = lastGasCost m"
  by (simp add: mem_Resize_def)

lemma mem_Set32_eq:
  assumes "uint256_spec U" and "in_mem m off 32"
  shows "\<exists>m'. mem_Set32 U m off val = Some m' \<and> length (store m') = length (store m) \<and>
    lastGasCost m' = lastGasCost m \<and>
    mem_at m' = (\<lambda>i. if unat off \<le> i \<and> i < unat off + 32
                     then be_bytes 32 (unat val) ! (i - unat off) else mem_at m i)"
proof -
  have "(32 :: u64) \<noteq> 0" by simp
  note nw = in_mem_nowrap [OF assms(2) this]
  have le: "unat off + 32 \<le> length (store m)" using nw(6) by simp
  define s where "s = go_copy (store m) (unat off) 32 (replicate 32 0)"
  have len: "length s = length (store m)" using le by (simp add: s_def)
  define w where "w = take (unat off) s @ u_WriteToSlice U val (drop (unat off) s)"
  have w: "w = take (unat off) s @ be_bytes 32 (unat val) @ drop (32 + unat off) s"
    using le len by (simp add: w_def uint256_specD(12) [OF assms(1)] add.commute del: be_bytes.simps)
  have "w ! i = (if unat off \<le> i \<and> i < unat off + 32 then be_bytes 32 (unat val) ! (i - unat off)
      else store m ! i)" if "i < length (store m)" for i
    using that le len nth_go_copy [of "unat off" 32 "store m" i "replicate 32 0"]
    by (auto simp: w nth_append s_def [symmetric] simp del: be_bytes.simps)
  moreover have "length w = length (store m)"
    using le len by (simp add: w del: be_bytes.simps)
  moreover have "mem_Set32 U m off val = Some (m\<lparr>store := w\<rparr>)"
    using le nw(1,2) by (simp add: mem_Set32_def s_def w_def Let_def)
  ultimately show ?thesis
    using le by (auto simp: mem_at_def fun_eq_iff simp del: be_bytes.simps)
qed

lemma mem_Set_wrap_panics:
  assumes "0 < sz" and "2 ^ 64 \<le> unat off + unat sz"
  shows "mem_Set m off sz v = None"
  using assms add_u64_overflow_iff [of off sz] by (simp add: mem_Set_def)

text \<open>A stored word is read back: \<^verbatim>\<open>MLOAD\<close> after \<^verbatim>\<open>MSTORE\<close>.\<close>

lemma mem_range_Set32:
  assumes "uint256_spec U" and "in_mem m off 32" and "mem_Set32 U m off val = Some m'"
  shows "mem_range m' (unat off) 32 = be_bytes 32 (unat val)"
proof -
  obtain m2 where "mem_Set32 U m off val = Some m2" and at: "mem_at m2 =
      (\<lambda>i. if unat off \<le> i \<and> i < unat off + 32 then be_bytes 32 (unat val) ! (i - unat off) else mem_at m i)"
    using mem_Set32_eq [OF assms(1,2)] by blast
  with assms(3) have "m2 = m'" by simp
  with at show ?thesis
    by (intro nth_equalityI) (auto simp: mem_range_def simp del: be_bytes.simps)
qed

lemma SetBytes_be_bytes:
  assumes "uint256_spec U"
  shows "u_SetBytes U (be_bytes 32 (unat val)) = val"
proof -
  have "unat val < 256 ^ 32" using unsigned_less [of val] by simp
  then show ?thesis
    by (simp only: uint256_specD(11) [OF assms] be_nat_be_bytes mod_less of_nat_unat ucast_id)
qed

section \<open>Properties\<close>

text \<open>C18. On a range that lies within the memory, reading (by reference or by copy) returns the bytes of
  the abstract memory, and \<^verbatim>\<open>Set\<close> overwrites exactly the bytes of the value it is given; nothing
  panics, and the memory keeps its length.\<close>

theorem memory_refines:
  assumes "in_mem m off sz"
  shows "mem_GetPtr m off sz = Some (mem_range m (unat off) (unat sz)) \<and>
    mem_GetCopy m off sz = Some (mem_range m (unat off) (unat sz)) \<and>
    (\<exists>m'. mem_Set m off sz v = Some m' \<and> length (store m') = length (store m) \<and>
      mem_at m' = (\<lambda>i. if unat off \<le> i \<and> i < unat off + min (unat sz) (length v)
                       then v ! (i - unat off) else mem_at m i))"
  using mem_GetPtr_eq [OF assms] mem_GetCopy_eq [OF assms] mem_Set_eq [OF assms, of v] by blast

theorem memory_refines_witness:
  "mem_GetPtr (mem_Resize NewMemory 32) 30 2 = Some [0, 0] \<and>
   (\<exists>m'. mem_Set (mem_Resize NewMemory 32) 30 2 [7] = Some m' \<and> mem_at m' 30 = 7 \<and> mem_at m' 31 = 0)"
proof -
  have "in_mem (mem_Resize NewMemory 32) 30 2"
    by (simp add: in_mem_def length_mem_Resize NewMemory_def)
  from memory_refines [OF this, of "[7]"] show ?thesis
    by (auto simp: mem_range_def upt_rec)
qed

text \<open>A word stored by \<^verbatim>\<open>Set32\<close> is read back: the 32 bytes at its offset decode to the value.\<close>

theorem mstore_mload_roundtrip:
  assumes "uint256_spec U" and "in_mem m off 32"
  shows "\<exists>m' bs. mem_Set32 U m off val = Some m' \<and> mem_GetPtr m' off 32 = Some bs \<and>
    u_SetBytes U bs = val \<and> length (store m') = length (store m)"
proof -
  obtain m' where m': "mem_Set32 U m off val = Some m'" "length (store m') = length (store m)"
    using mem_Set32_eq [OF assms] by blast
  then have "mem_GetPtr m' off 32 = Some (be_bytes 32 (unat val))"
    using mem_GetPtr_eq [of m' off 32] mem_range_Set32 [OF assms m'(1)] assms(2)
    by (simp add: in_mem_def del: be_bytes.simps)
  with m' show ?thesis using SetBytes_be_bytes [OF assms(1)] by blast
qed

theorem mstore_mload_roundtrip_witness:
  "\<exists>m' bs. mem_Set32 uint256_std (mem_Resize NewMemory 64) 32 7 = Some m' \<and>
    mem_GetPtr m' 32 32 = Some bs \<and> u_SetBytes uint256_std bs = 7"
proof -
  have "in_mem (mem_Resize NewMemory 64) 32 32"
    by (simp add: in_mem_def length_mem_Resize NewMemory_def)
  from mstore_mload_roundtrip [OF uint256_std_spec this, of 7] show ?thesis by blast
qed

end
