(* ===== verification/Opcodes.thy ===== *)
theory Opcodes
  imports Params
begin

text \<open>
  The opcodes of \<^verbatim>\<open>vm/ethvm/opcodes.go\<close>: the byte constants (\<open>OP_X\<close> is the Go constant \<^verbatim>\<open>X\<close>;
  they are simplification rules), the two tables between opcodes and their names as association lists in
  the order of the source, and the conversions that read them. A Go map answers the zero
  value for a missing key: the empty string, or \<^verbatim>\<open>STOP\<close>.
\<close>

section \<open>Constants\<close>

definition OP_STOP :: u8 where [simp, code_unfold]: "OP_STOP = 0x00"
definition OP_ADD :: u8 where [simp, code_unfold]: "OP_ADD = 0x01"
definition OP_MUL :: u8 where [simp, code_unfold]: "OP_MUL = 0x02"
definition OP_SUB :: u8 where [simp, code_unfold]: "OP_SUB = 0x03"
definition OP_DIV :: u8 where [simp, code_unfold]: "OP_DIV = 0x04"
definition OP_SDIV :: u8 where [simp, code_unfold]: "OP_SDIV = 0x05"
definition OP_MOD :: u8 where [simp, code_unfold]: "OP_MOD = 0x06"
definition OP_SMOD :: u8 where [simp, code_unfold]: "OP_SMOD = 0x07"
definition OP_ADDMOD :: u8 where [simp, code_unfold]: "OP_ADDMOD = 0x08"
definition OP_MULMOD :: u8 where [simp, code_unfold]: "OP_MULMOD = 0x09"
definition OP_EXP :: u8 where [simp, code_unfold]: "OP_EXP = 0x0a"
definition OP_SIGNEXTEND :: u8 where [simp, code_unfold]: "OP_SIGNEXTEND = 0x0b"
definition OP_LT :: u8 where [simp, code_unfold]: "OP_LT = 0x10"
definition OP_GT :: u8 where [simp, code_unfold]: "OP_GT = 0x11"
definition OP_SLT :: u8 where [simp, code_unfold]: "OP_SLT = 0x12"
definition OP_SGT :: u8 where [simp, code_unfold]: "OP_SGT = 0x13"
definition OP_EQ :: u8 where [simp, code_unfold]: "OP_EQ = 0x14"
definition OP_ISZERO :: u8 where [simp, code_unfold]: "OP_ISZERO = 0x15"
definition OP_AND :: u8 where [simp, code_unfold]: "OP_AND = 0x16"
definition OP_OR :: u8 where [simp, code_unfold]: "OP_OR = 0x17"
definition OP_XOR :: u8 where [simp, code_unfold]: "OP_XOR = 0x18"
definition OP_NOT :: u8 where [simp, code_unfold]: "OP_NOT = 0x19"
definition OP_BYTE :: u8 where [simp, code_unfold]: "OP_BYTE = 0x1a"
definition OP_SHL :: u8 where [simp, code_unfold]: "OP_SHL = 0x1b"
definition OP_SHR :: u8 where [simp, code_unfold]: "OP_SHR = 0x1c"
definition OP_SAR :: u8 where [simp, code_unfold]: "OP_SAR = 0x1d"
definition OP_KECCAK256 :: u8 where [simp, code_unfold]: "OP_KECCAK256 = 0x20"
definition OP_ADDRESS :: u8 where [simp, code_unfold]: "OP_ADDRESS = 0x30"
definition OP_BALANCE :: u8 where [simp, code_unfold]: "OP_BALANCE = 0x31"
definition OP_ORIGIN :: u8 where [simp, code_unfold]: "OP_ORIGIN = 0x32"
definition OP_CALLER :: u8 where [simp, code_unfold]: "OP_CALLER = 0x33"
definition OP_CALLVALUE :: u8 where [simp, code_unfold]: "OP_CALLVALUE = 0x34"
definition OP_CALLDATALOAD :: u8 where [simp, code_unfold]: "OP_CALLDATALOAD = 0x35"
definition OP_CALLDATASIZE :: u8 where [simp, code_unfold]: "OP_CALLDATASIZE = 0x36"
definition OP_CALLDATACOPY :: u8 where [simp, code_unfold]: "OP_CALLDATACOPY = 0x37"
definition OP_CODESIZE :: u8 where [simp, code_unfold]: "OP_CODESIZE = 0x38"
definition OP_CODECOPY :: u8 where [simp, code_unfold]: "OP_CODECOPY = 0x39"
definition OP_GASPRICE :: u8 where [simp, code_unfold]: "OP_GASPRICE = 0x3a"
definition OP_EXTCODESIZE :: u8 where [simp, code_unfold]: "OP_EXTCODESIZE = 0x3b"
definition OP_EXTCODECOPY :: u8 where [simp, code_unfold]: "OP_EXTCODECOPY = 0x3c"
definition OP_RETURNDATASIZE :: u8 where [simp, code_unfold]: "OP_RETURNDATASIZE = 0x3d"
definition OP_RETURNDATACOPY :: u8 where [simp, code_unfold]: "OP_RETURNDATACOPY = 0x3e"
definition OP_EXTCODEHASH :: u8 where [simp, code_unfold]: "OP_EXTCODEHASH = 0x3f"
definition OP_BLOCKHASH :: u8 where [simp, code_unfold]: "OP_BLOCKHASH = 0x40"
definition OP_COINBASE :: u8 where [simp, code_unfold]: "OP_COINBASE = 0x41"
definition OP_TIMESTAMP :: u8 where [simp, code_unfold]: "OP_TIMESTAMP = 0x42"
definition OP_NUMBER :: u8 where [simp, code_unfold]: "OP_NUMBER = 0x43"
definition OP_DIFFICULTY :: u8 where [simp, code_unfold]: "OP_DIFFICULTY = 0x44"
definition OP_RANDOM :: u8 where [simp, code_unfold]: "OP_RANDOM = 0x44"
definition OP_GASLIMIT :: u8 where [simp, code_unfold]: "OP_GASLIMIT = 0x45"
definition OP_CHAINID :: u8 where [simp, code_unfold]: "OP_CHAINID = 0x46"
definition OP_SELFBALANCE :: u8 where [simp, code_unfold]: "OP_SELFBALANCE = 0x47"
definition OP_BASEFEE :: u8 where [simp, code_unfold]: "OP_BASEFEE = 0x48"
definition OP_POP :: u8 where [simp, code_unfold]: "OP_POP = 0x50"
definition OP_MLOAD :: u8 where [simp, code_unfold]: "OP_MLOAD = 0x51"
definition OP_MSTORE :: u8 where [simp, code_unfold]: "OP_MSTORE = 0x52"
definition OP_MSTORE8 :: u8 where [simp, code_unfold]: "OP_MSTORE8 = 0x53"
definition OP_SLOAD :: u8 where [simp, code_unfold]: "OP_SLOAD = 0x54"
definition OP_SSTORE :: u8 where [simp, code_unfold]: "OP_SSTORE = 0x55"
definition OP_JUMP :: u8 where [simp, code_unfold]: "OP_JUMP = 0x56"
definition OP_JUMPI :: u8 where [simp, code_unfold]: "OP_JUMPI = 0x57"
definition OP_PC :: u8 where [simp, code_unfold]: "OP_PC = 0x58"
definition OP_MSIZE :: u8 where [simp, code_unfold]: "OP_MSIZE = 0x59"
definition OP_GAS :: u8 where [simp, code_unfold]: "OP_GAS = 0x5a"
definition OP_JUMPDEST :: u8 where [simp, code_unfold]: "OP_JUMPDEST = 0x5b"
definition OP_PUSH0 :: u8 where [simp, code_unfold]: "OP_PUSH0 = 0x5f"
definition OP_PUSH1 :: u8 where [simp, code_unfold]: "OP_PUSH1 = 0x60"
definition OP_PUSH2 :: u8 where [simp, code_unfold]: "OP_PUSH2 = 0x61"
definition OP_PUSH3 :: u8 where [simp, code_unfold]: "OP_PUSH3 = 0x62"
definition OP_PUSH4 :: u8 where [simp, code_unfold]: "OP_PUSH4 = 0x63"
definition OP_PUSH5 :: u8 where [simp, code_unfold]: "OP_PUSH5 = 0x64"
definition OP_PUSH6 :: u8 where [simp, code_unfold]: "OP_PUSH6 = 0x65"
definition OP_PUSH7 :: u8 where [simp, code_unfold]: "OP_PUSH7 = 0x66"
definition OP_PUSH8 :: u8 where [simp, code_unfold]: "OP_PUSH8 = 0x67"
definition OP_PUSH9 :: u8 where [simp, code_unfold]: "OP_PUSH9 = 0x68"
definition OP_PUSH10 :: u8 where [simp, code_unfold]: "OP_PUSH10 = 0x69"
definition OP_PUSH11 :: u8 where [simp, code_unfold]: "OP_PUSH11 = 0x6a"
definition OP_PUSH12 :: u8 where [simp, code_unfold]: "OP_PUSH12 = 0x6b"
definition OP_PUSH13 :: u8 where [simp, code_unfold]: "OP_PUSH13 = 0x6c"
definition OP_PUSH14 :: u8 where [simp, code_unfold]: "OP_PUSH14 = 0x6d"
definition OP_PUSH15 :: u8 where [simp, code_unfold]: "OP_PUSH15 = 0x6e"
definition OP_PUSH16 :: u8 where [simp, code_unfold]: "OP_PUSH16 = 0x6f"
definition OP_PUSH17 :: u8 where [simp, code_unfold]: "OP_PUSH17 = 0x70"
definition OP_PUSH18 :: u8 where [simp, code_unfold]: "OP_PUSH18 = 0x71"
definition OP_PUSH19 :: u8 where [simp, code_unfold]: "OP_PUSH19 = 0x72"
definition OP_PUSH20 :: u8 where [simp, code_unfold]: "OP_PUSH20 = 0x73"
definition OP_PUSH21 :: u8 where [simp, code_unfold]: "OP_PUSH21 = 0x74"
definition OP_PUSH22 :: u8 where [simp, code_unfold]: "OP_PUSH22 = 0x75"
definition OP_PUSH23 :: u8 where [simp, code_unfold]: "OP_PUSH23 = 0x76"
definition OP_PUSH24 :: u8 where [simp, code_unfold]: "OP_PUSH24 = 0x77"
definition OP_PUSH25 :: u8 where [simp, code_unfold]: "OP_PUSH25 = 0x78"
definition OP_PUSH26 :: u8 where [simp, code_unfold]: "OP_PUSH26 = 0x79"
definition OP_PUSH27 :: u8 where [simp, code_unfold]: "OP_PUSH27 = 0x7a"
definition OP_PUSH28 :: u8 where [simp, code_unfold]: "OP_PUSH28 = 0x7b"
definition OP_PUSH29 :: u8 where [simp, code_unfold]: "OP_PUSH29 = 0x7c"
definition OP_PUSH30 :: u8 where [simp, code_unfold]: "OP_PUSH30 = 0x7d"
definition OP_PUSH31 :: u8 where [simp, code_unfold]: "OP_PUSH31 = 0x7e"
definition OP_PUSH32 :: u8 where [simp, code_unfold]: "OP_PUSH32 = 0x7f"
definition OP_DUP1 :: u8 where [simp, code_unfold]: "OP_DUP1 = 0x80"
definition OP_DUP2 :: u8 where [simp, code_unfold]: "OP_DUP2 = 0x81"
definition OP_DUP3 :: u8 where [simp, code_unfold]: "OP_DUP3 = 0x82"
definition OP_DUP4 :: u8 where [simp, code_unfold]: "OP_DUP4 = 0x83"
definition OP_DUP5 :: u8 where [simp, code_unfold]: "OP_DUP5 = 0x84"
definition OP_DUP6 :: u8 where [simp, code_unfold]: "OP_DUP6 = 0x85"
definition OP_DUP7 :: u8 where [simp, code_unfold]: "OP_DUP7 = 0x86"
definition OP_DUP8 :: u8 where [simp, code_unfold]: "OP_DUP8 = 0x87"
definition OP_DUP9 :: u8 where [simp, code_unfold]: "OP_DUP9 = 0x88"
definition OP_DUP10 :: u8 where [simp, code_unfold]: "OP_DUP10 = 0x89"
definition OP_DUP11 :: u8 where [simp, code_unfold]: "OP_DUP11 = 0x8a"
definition OP_DUP12 :: u8 where [simp, code_unfold]: "OP_DUP12 = 0x8b"
definition OP_DUP13 :: u8 where [simp, code_unfold]: "OP_DUP13 = 0x8c"
definition OP_DUP14 :: u8 where [simp, code_unfold]: "OP_DUP14 = 0x8d"
definition OP_DUP15 :: u8 where [simp, code_unfold]: "OP_DUP15 = 0x8e"
definition OP_DUP16 :: u8 where [simp, code_unfold]: "OP_DUP16 = 0x8f"
definition OP_SWAP1 :: u8 where [simp, code_unfold]: "OP_SWAP1 = 0x90"
definition OP_SWAP2 :: u8 where [simp, code_unfold]: "OP_SWAP2 = 0x91"
definition OP_SWAP3 :: u8 where [simp, code_unfold]: "OP_SWAP3 = 0x92"
definition OP_SWAP4 :: u8 where [simp, code_unfold]: "OP_SWAP4 = 0x93"
definition OP_SWAP5 :: u8 where [simp, code_unfold]: "OP_SWAP5 = 0x94"
definition OP_SWAP6 :: u8 where [simp, code_unfold]: "OP_SWAP6 = 0x95"
definition OP_SWAP7 :: u8 where [simp, code_unfold]: "OP_SWAP7 = 0x96"
definition OP_SWAP8 :: u8 where [simp, code_unfold]: "OP_SWAP8 = 0x97"
definition OP_SWAP9 :: u8 where [simp, code_unfold]: "OP_SWAP9 = 0x98"
definition OP_SWAP10 :: u8 where [simp, code_unfold]: "OP_SWAP10 = 0x99"
definition OP_SWAP11 :: u8 where [simp, code_unfold]: "OP_SWAP11 = 0x9a"
definition OP_SWAP12 :: u8 where [simp, code_unfold]: "OP_SWAP12 = 0x9b"
definition OP_SWAP13 :: u8 where [simp, code_unfold]: "OP_SWAP13 = 0x9c"
definition OP_SWAP14 :: u8 where [simp, code_unfold]: "OP_SWAP14 = 0x9d"
definition OP_SWAP15 :: u8 where [simp, code_unfold]: "OP_SWAP15 = 0x9e"
definition OP_SWAP16 :: u8 where [simp, code_unfold]: "OP_SWAP16 = 0x9f"
definition OP_LOG0 :: u8 where [simp, code_unfold]: "OP_LOG0 = 0xa0"
definition OP_LOG1 :: u8 where [simp, code_unfold]: "OP_LOG1 = 0xa1"
definition OP_LOG2 :: u8 where [simp, code_unfold]: "OP_LOG2 = 0xa2"
definition OP_LOG3 :: u8 where [simp, code_unfold]: "OP_LOG3 = 0xa3"
definition OP_LOG4 :: u8 where [simp, code_unfold]: "OP_LOG4 = 0xa4"
definition OP_CREATE :: u8 where [simp, code_unfold]: "OP_CREATE = 0xf0"
definition OP_CALL :: u8 where [simp, code_unfold]: "OP_CALL = 0xf1"
definition OP_CALLCODE :: u8 where [simp, code_unfold]: "OP_CALLCODE = 0xf2"
definition OP_RETURN :: u8 where [simp, code_unfold]: "OP_RETURN = 0xf3"
definition OP_DELEGATECALL :: u8 where [simp, code_unfold]: "OP_DELEGATECALL = 0xf4"
definition OP_CREATE2 :: u8 where [simp, code_unfold]: "OP_CREATE2 = 0xf5"
definition OP_STATICCALL :: u8 where [simp, code_unfold]: "OP_STATICCALL = 0xfa"
definition OP_REVERT :: u8 where [simp, code_unfold]: "OP_REVERT = 0xfd"
definition OP_INVALID :: u8 where [simp, code_unfold]: "OP_INVALID = 0xfe"
definition OP_SELFDESTRUCT :: u8 where [simp, code_unfold]: "OP_SELFDESTRUCT = 0xff"

section \<open>Classification and names\<close>

definition IsPush :: "u8 \<Rightarrow> bool" where
  "IsPush op \<longleftrightarrow> op \<in> set
   [OP_PUSH1, OP_PUSH2, OP_PUSH3, OP_PUSH4, OP_PUSH5, OP_PUSH6, OP_PUSH7, OP_PUSH8, OP_PUSH9,
    OP_PUSH10, OP_PUSH11, OP_PUSH12, OP_PUSH13, OP_PUSH14, OP_PUSH15, OP_PUSH16, OP_PUSH17,
    OP_PUSH18, OP_PUSH19, OP_PUSH20, OP_PUSH21, OP_PUSH22, OP_PUSH23, OP_PUSH24, OP_PUSH25,
    OP_PUSH26, OP_PUSH27, OP_PUSH28, OP_PUSH29, OP_PUSH30, OP_PUSH31, OP_PUSH32]"

definition opCodeToString :: "(u8 \<times> string) list" where
  "opCodeToString = [
    (OP_STOP, ''STOP''), (OP_ADD, ''ADD''), (OP_MUL, ''MUL''), (OP_SUB, ''SUB''),
    (OP_DIV, ''DIV''), (OP_SDIV, ''SDIV''), (OP_MOD, ''MOD''), (OP_SMOD, ''SMOD''),
    (OP_EXP, ''EXP''), (OP_NOT, ''NOT''), (OP_LT, ''LT''), (OP_GT, ''GT''), (OP_SLT, ''SLT''),
    (OP_SGT, ''SGT''), (OP_EQ, ''EQ''), (OP_ISZERO, ''ISZERO''), (OP_SIGNEXTEND, ''SIGNEXTEND''),
    (OP_AND, ''AND''), (OP_OR, ''OR''), (OP_XOR, ''XOR''), (OP_BYTE, ''BYTE''), (OP_SHL, ''SHL''),
    (OP_SHR, ''SHR''), (OP_SAR, ''SAR''), (OP_ADDMOD, ''ADDMOD''), (OP_MULMOD, ''MULMOD''),
    (OP_KECCAK256, ''KECCAK256''), (OP_ADDRESS, ''ADDRESS''), (OP_BALANCE, ''BALANCE''),
    (OP_ORIGIN, ''ORIGIN''), (OP_CALLER, ''CALLER''), (OP_CALLVALUE, ''CALLVALUE''),
    (OP_CALLDATALOAD, ''CALLDATALOAD''), (OP_CALLDATASIZE, ''CALLDATASIZE''),
    (OP_CALLDATACOPY, ''CALLDATACOPY''), (OP_CODESIZE, ''CODESIZE''), (OP_CODECOPY, ''CODECOPY''),
    (OP_GASPRICE, ''GASPRICE''), (OP_EXTCODESIZE, ''EXTCODESIZE''),
    (OP_EXTCODECOPY, ''EXTCODECOPY''), (OP_RETURNDATASIZE, ''RETURNDATASIZE''),
    (OP_RETURNDATACOPY, ''RETURNDATACOPY''), (OP_EXTCODEHASH, ''EXTCODEHASH''),
    (OP_BLOCKHASH, ''BLOCKHASH''), (OP_COINBASE, ''COINBASE''), (OP_TIMESTAMP, ''TIMESTAMP''),
    (OP_NUMBER, ''NUMBER''), (OP_DIFFICULTY, ''DIFFICULTY''), (OP_GASLIMIT, ''GASLIMIT''),
    (OP_CHAINID, ''CHAINID''), (OP_SELFBALANCE, ''SELFBALANCE''), (OP_BASEFEE, ''BASEFEE''),
    (OP_POP, ''POP''), (OP_MLOAD, ''MLOAD''), (OP_MSTORE, ''MSTORE''), (OP_MSTORE8, ''MSTORE8''),
    (OP_SLOAD, ''SLOAD''), (OP_SSTORE, ''SSTORE''), (OP_JUMP, ''JUMP''), (OP_JUMPI, ''JUMPI''),
    (OP_PC, ''PC''), (OP_MSIZE, ''MSIZE''), (OP_GAS, ''GAS''), (OP_JUMPDEST, ''JUMPDEST''),
    (OP_PUSH1, ''PUSH1''), (OP_PUSH2, ''PUSH2''), (OP_PUSH3, ''PUSH3''), (OP_PUSH4, ''PUSH4''),
    (OP_PUSH5, ''PUSH5''), (OP_PUSH6, ''PUSH6''), (OP_PUSH7, ''PUSH7''), (OP_PUSH8, ''PUSH8''),
    (OP_PUSH9, ''PUSH9''), (OP_PUSH10, ''PUSH10''), (OP_PUSH11, ''PUSH11''),
    (OP_PUSH12, ''PUSH12''), (OP_PUSH13, ''PUSH13''), (OP_PUSH14, ''PUSH14''),
    (OP_PUSH15, ''PUSH15''), (OP_PUSH16, ''PUSH16''), (OP_PUSH17, ''PUSH17''),
    (OP_PUSH18, ''PUSH18''), (OP_PUSH19, ''PUSH19''), (OP_PUSH20, ''PUSH20''),
    (OP_PUSH21, ''PUSH21''), (OP_PUSH22, ''PUSH22''), (OP_PUSH23, ''PUSH23''),
    (OP_PUSH24, ''PUSH24''), (OP_PUSH25, ''PUSH25''), (OP_PUSH26, ''PUSH26''),
    (OP_PUSH27, ''PUSH27''), (OP_PUSH28, ''PUSH28''), (OP_PUSH29, ''PUSH29''),
    (OP_PUSH30, ''PUSH30''), (OP_PUSH31, ''PUSH31''), (OP_PUSH32, ''PUSH32''), (OP_DUP1, ''DUP1''),
    (OP_DUP2, ''DUP2''), (OP_DUP3, ''DUP3''), (OP_DUP4, ''DUP4''), (OP_DUP5, ''DUP5''),
    (OP_DUP6, ''DUP6''), (OP_DUP7, ''DUP7''), (OP_DUP8, ''DUP8''), (OP_DUP9, ''DUP9''),
    (OP_DUP10, ''DUP10''), (OP_DUP11, ''DUP11''), (OP_DUP12, ''DUP12''), (OP_DUP13, ''DUP13''),
    (OP_DUP14, ''DUP14''), (OP_DUP15, ''DUP15''), (OP_DUP16, ''DUP16''), (OP_SWAP1, ''SWAP1''),
    (OP_SWAP2, ''SWAP2''), (OP_SWAP3, ''SWAP3''), (OP_SWAP4, ''SWAP4''), (OP_SWAP5, ''SWAP5''),
    (OP_SWAP6, ''SWAP6''), (OP_SWAP7, ''SWAP7''), (OP_SWAP8, ''SWAP8''), (OP_SWAP9, ''SWAP9''),
    (OP_SWAP10, ''SWAP10''), (OP_SWAP11, ''SWAP11''), (OP_SWAP12, ''SWAP12''),
    (OP_SWAP13, ''SWAP13''), (OP_SWAP14, ''SWAP14''), (OP_SWAP15, ''SWAP15''),
    (OP_SWAP16, ''SWAP16''), (OP_LOG0, ''LOG0''), (OP_LOG1, ''LOG1''), (OP_LOG2, ''LOG2''),
    (OP_LOG3, ''LOG3''), (OP_LOG4, ''LOG4''), (OP_CREATE, ''CREATE''), (OP_CALL, ''CALL''),
    (OP_RETURN, ''RETURN''), (OP_CALLCODE, ''CALLCODE''), (OP_DELEGATECALL, ''DELEGATECALL''),
    (OP_CREATE2, ''CREATE2''), (OP_STATICCALL, ''STATICCALL''), (OP_REVERT, ''REVERT''),
    (OP_INVALID, ''INVALID''), (OP_SELFDESTRUCT, ''SELFDESTRUCT'')]"

definition stringToOp :: "(string \<times> u8) list" where
  "stringToOp = [
    (''STOP'', OP_STOP), (''ADD'', OP_ADD), (''MUL'', OP_MUL), (''SUB'', OP_SUB),
    (''DIV'', OP_DIV), (''SDIV'', OP_SDIV), (''MOD'', OP_MOD), (''SMOD'', OP_SMOD),
    (''EXP'', OP_EXP), (''NOT'', OP_NOT), (''LT'', OP_LT), (''GT'', OP_GT), (''SLT'', OP_SLT),
    (''SGT'', OP_SGT), (''EQ'', OP_EQ), (''ISZERO'', OP_ISZERO), (''SIGNEXTEND'', OP_SIGNEXTEND),
    (''AND'', OP_AND), (''OR'', OP_OR), (''XOR'', OP_XOR), (''BYTE'', OP_BYTE), (''SHL'', OP_SHL),
    (''SHR'', OP_SHR), (''SAR'', OP_SAR), (''ADDMOD'', OP_ADDMOD), (''MULMOD'', OP_MULMOD),
    (''KECCAK256'', OP_KECCAK256), (''ADDRESS'', OP_ADDRESS), (''BALANCE'', OP_BALANCE),
    (''ORIGIN'', OP_ORIGIN), (''CALLER'', OP_CALLER), (''CALLVALUE'', OP_CALLVALUE),
    (''CALLDATALOAD'', OP_CALLDATALOAD), (''CALLDATASIZE'', OP_CALLDATASIZE),
    (''CALLDATACOPY'', OP_CALLDATACOPY), (''CHAINID'', OP_CHAINID), (''BASEFEE'', OP_BASEFEE),
    (''DELEGATECALL'', OP_DELEGATECALL), (''STATICCALL'', OP_STATICCALL),
    (''CODESIZE'', OP_CODESIZE), (''CODECOPY'', OP_CODECOPY), (''GASPRICE'', OP_GASPRICE),
    (''EXTCODESIZE'', OP_EXTCODESIZE), (''EXTCODECOPY'', OP_EXTCODECOPY),
    (''RETURNDATASIZE'', OP_RETURNDATASIZE), (''RETURNDATACOPY'', OP_RETURNDATACOPY),
    (''EXTCODEHASH'', OP_EXTCODEHASH), (''BLOCKHASH'', OP_BLOCKHASH), (''COINBASE'', OP_COINBASE),
    (''TIMESTAMP'', OP_TIMESTAMP), (''NUMBER'', OP_NUMBER), (''DIFFICULTY'', OP_DIFFICULTY),
    (''GASLIMIT'', OP_GASLIMIT), (''SELFBALANCE'', OP_SELFBALANCE), (''POP'', OP_POP),
    (''MLOAD'', OP_MLOAD), (''MSTORE'', OP_MSTORE), (''MSTORE8'', OP_MSTORE8),
    (''SLOAD'', OP_SLOAD), (''SSTORE'', OP_SSTORE), (''JUMP'', OP_JUMP), (''JUMPI'', OP_JUMPI),
    (''PC'', OP_PC), (''MSIZE'', OP_MSIZE), (''GAS'', OP_GAS), (''JUMPDEST'', OP_JUMPDEST),
    (''PUSH0'', OP_PUSH0), (''PUSH1'', OP_PUSH1), (''PUSH2'', OP_PUSH2), (''PUSH3'', OP_PUSH3),
    (''PUSH4'', OP_PUSH4), (''PUSH5'', OP_PUSH5), (''PUSH6'', OP_PUSH6), (''PUSH7'', OP_PUSH7),
    (''PUSH8'', OP_PUSH8), (''PUSH9'', OP_PUSH9), (''PUSH10'', OP_PUSH10), (''PUSH11'', OP_PUSH11),
    (''PUSH12'', OP_PUSH12), (''PUSH13'', OP_PUSH13), (''PUSH14'', OP_PUSH14),
    (''PUSH15'', OP_PUSH15), (''PUSH16'', OP_PUSH16), (''PUSH17'', OP_PUSH17),
    (''PUSH18'', OP_PUSH18), (''PUSH19'', OP_PUSH19), (''PUSH20'', OP_PUSH20),
    (''PUSH21'', OP_PUSH21), (''PUSH22'', OP_PUSH22), (''PUSH23'', OP_PUSH23),
    (''PUSH24'', OP_PUSH24), (''PUSH25'', OP_PUSH25), (''PUSH26'', OP_PUSH26),
    (''PUSH27'', OP_PUSH27), (''PUSH28'', OP_PUSH28), (''PUSH29'', OP_PUSH29),
    (''PUSH30'', OP_PUSH30), (''PUSH31'', OP_PUSH31), (''PUSH32'', OP_PUSH32), (''DUP1'', OP_DUP1),
    (''DUP2'', OP_DUP2), (''DUP3'', OP_DUP3), (''DUP4'', OP_DUP4), (''DUP5'', OP_DUP5),
    (''DUP6'', OP_DUP6), (''DUP7'', OP_DUP7), (''DUP8'', OP_DUP8), (''DUP9'', OP_DUP9),
    (''DUP10'', OP_DUP10), (''DUP11'', OP_DUP11), (''DUP12'', OP_DUP12), (''DUP13'', OP_DUP13),
    (''DUP14'', OP_DUP14), (''DUP15'', OP_DUP15), (''DUP16'', OP_DUP16), (''SWAP1'', OP_SWAP1),
    (''SWAP2'', OP_SWAP2), (''SWAP3'', OP_SWAP3), (''SWAP4'', OP_SWAP4), (''SWAP5'', OP_SWAP5),
    (''SWAP6'', OP_SWAP6), (''SWAP7'', OP_SWAP7), (''SWAP8'', OP_SWAP8), (''SWAP9'', OP_SWAP9),
    (''SWAP10'', OP_SWAP10), (''SWAP11'', OP_SWAP11), (''SWAP12'', OP_SWAP12),
    (''SWAP13'', OP_SWAP13), (''SWAP14'', OP_SWAP14), (''SWAP15'', OP_SWAP15),
    (''SWAP16'', OP_SWAP16), (''LOG0'', OP_LOG0), (''LOG1'', OP_LOG1), (''LOG2'', OP_LOG2),
    (''LOG3'', OP_LOG3), (''LOG4'', OP_LOG4), (''CREATE'', OP_CREATE), (''CREATE2'', OP_CREATE2),
    (''CALL'', OP_CALL), (''RETURN'', OP_RETURN), (''CALLCODE'', OP_CALLCODE),
    (''REVERT'', OP_REVERT), (''INVALID'', OP_INVALID), (''SELFDESTRUCT'', OP_SELFDESTRUCT)]"

text \<open>\<^verbatim>\<open>fmt.Sprintf\<close> with \<^verbatim>\<open>%x\<close> writes lower-case hexadecimal without leading zeros.\<close>

fun hex_digits :: "nat \<Rightarrow> string" where
  "hex_digits n = (if n < 16 then [''0123456789abcdef'' ! n]
     else hex_digits (n div 16) @ [''0123456789abcdef'' ! (n mod 16)])"

definition opcode_String :: "u8 \<Rightarrow> string" where
  "opcode_String op =
     (let str = (case map_of opCodeToString op of None \<Rightarrow> [] | Some s \<Rightarrow> s) in
      if length str = 0 then ''opcode 0x'' @ hex_digits (unat op) @ '' not defined'' else str)"

definition StringToOp :: "string \<Rightarrow> u8" where
  "StringToOp str = (case map_of stringToOp str of None \<Rightarrow> 0 | Some op \<Rightarrow> op)"

end
