(* ===== verification/Bitvec.thy ===== *)
theory Bitvec
  imports Opcodes
begin

text \<open>
  The jump-destination analysis of \<^verbatim>\<open>vm/ethvm/analysis.go\<close>: a bit vector with one bit per byte of the
  code, set where the byte is the argument of a push. Positions are natural numbers: a slice is
  shorter than \<open>2 ^ 63\<close>, so the \<^verbatim>\<open>uint64\<close> program counter of the analysis does not wrap. Bytes and the
  \<^verbatim>\<open>uint16\<close> masks keep their widths, and an index outside the vector panics. \<open>code_marks\<close> is the
  reference: it reads the code once and says of each byte whether it is push data.
\<close>

type_synonym bitvec = bytes

definition set1 :: "bitvec \<Rightarrow> nat \<Rightarrow> bitvec option" where
  "set1 bits pos = do {
     b \<leftarrow> go_index bits (pos div 8);
     go_update bits (pos div 8) (b OR push_bit (pos mod 8) 1)
   }"

definition setN :: "bitvec \<Rightarrow> u16 \<Rightarrow> nat \<Rightarrow> bitvec option" where
  "setN bits flag pos = do {
     let a = push_bit (pos mod 8) flag;
     b \<leftarrow> go_index bits (pos div 8);
     bits \<leftarrow> go_update bits (pos div 8) (b OR ucast a);
     let b = (ucast (drop_bit 8 a) :: u8);
     if b \<noteq> 0 then go_update bits (pos div 8 + 1) b else Some bits
   }"

definition set8 :: "bitvec \<Rightarrow> nat \<Rightarrow> bitvec option" where
  "set8 bits pos = do {
     let a = push_bit (pos mod 8) (0xFF :: u8);
     b \<leftarrow> go_index bits (pos div 8);
     bits \<leftarrow> go_update bits (pos div 8) (b OR a);
     go_update bits (pos div 8 + 1) (NOT a)
   }"

definition set16 :: "bitvec \<Rightarrow> nat \<Rightarrow> bitvec option" where
  "set16 bits pos = do {
     let a = push_bit (pos mod 8) (0xFF :: u8);
     b \<leftarrow> go_index bits (pos div 8);
     bits \<leftarrow> go_update bits (pos div 8) (b OR a);
     bits \<leftarrow> go_update bits (pos div 8 + 1) 0xFF;
     go_update bits (pos div 8 + 2) (NOT a)
   }"

definition codeSegment :: "bitvec \<Rightarrow> nat \<Rightarrow> bool option" where
  "codeSegment bits pos = do {
     b \<leftarrow> go_index bits (pos div 8);
     Some (drop_bit (pos mod 8) b AND 1 = 0)
   }"

text \<open>The two inner loops over \<^verbatim>\<open>numbits\<close>, then the switch.\<close>

function set16_loop :: "bitvec \<Rightarrow> nat \<Rightarrow> u8 \<Rightarrow> (bitvec \<times> nat \<times> u8) option" where
  "set16_loop bits pc numbits =
     (if numbits \<ge> 16 then do {
        bits \<leftarrow> set16 bits pc;
        set16_loop bits (pc + 16) (numbits - 16)
      } else Some (bits, pc, numbits))"
  by pat_completeness auto
termination
  by (relation "measure (\<lambda>(_, _, n). unat n)") (auto simp: unat_sub word_le_nat_alt)

function set8_loop :: "bitvec \<Rightarrow> nat \<Rightarrow> u8 \<Rightarrow> (bitvec \<times> nat \<times> u8) option" where
  "set8_loop bits pc numbits =
     (if numbits \<ge> 8 then do {
        bits \<leftarrow> set8 bits pc;
        set8_loop bits (pc + 8) (numbits - 8)
      } else Some (bits, pc, numbits))"
  by pat_completeness auto
termination
  by (relation "measure (\<lambda>(_, _, n). unat n)") (auto simp: unat_sub word_le_nat_alt)

declare set16_loop.simps [simp del] set8_loop.simps [simp del]

definition set_rest :: "bitvec \<Rightarrow> nat \<Rightarrow> u8 \<Rightarrow> (bitvec \<times> nat) option" where
  "set_rest bits pc numbits =
     (if numbits = 1 then do { bits \<leftarrow> set1 bits pc; Some (bits, pc + 1) }
      else if numbits = 2 then do { bits \<leftarrow> setN bits 0b11 pc; Some (bits, pc + 2) }
      else if numbits = 3 then do { bits \<leftarrow> setN bits 0b111 pc; Some (bits, pc + 3) }
      else if numbits = 4 then do { bits \<leftarrow> setN bits 0b1111 pc; Some (bits, pc + 4) }
      else if numbits = 5 then do { bits \<leftarrow> setN bits 0b11111 pc; Some (bits, pc + 5) }
      else if numbits = 6 then do { bits \<leftarrow> setN bits 0b111111 pc; Some (bits, pc + 6) }
      else if numbits = 7 then do { bits \<leftarrow> setN bits 0b1111111 pc; Some (bits, pc + 7) }
      else Some (bits, pc))"

text \<open>One turn of the loop from the opcode at \<open>pc\<close>; \<open>mark_push\<close> is its body behind the
  \<^verbatim>\<open>continue\<close>.\<close>

definition mark_push :: "bitvec \<Rightarrow> nat \<Rightarrow> u8 \<Rightarrow> (bitvec \<times> nat) option" where
  "mark_push bits pc numbits = do {
     (bits, pc, numbits) \<leftarrow>
       (if numbits \<ge> 8 then do {
          (bits, pc, numbits) \<leftarrow> set16_loop bits pc numbits;
          set8_loop bits pc numbits
        } else Some (bits, pc, numbits));
     set_rest bits pc numbits
   }"

lemma set16_loop_pc: "set16_loop bits pc n = Some (bits', pc', n') \<Longrightarrow> pc \<le> pc'"
proof (induction bits pc n rule: set16_loop.induct)
  case (1 bits pc n)
  from "1.prems" show ?case
    by (auto simp: set16_loop.simps [of bits pc n] bind_Some_iff split: if_splits dest!: "1.IH")
qed

lemma set8_loop_pc: "set8_loop bits pc n = Some (bits', pc', n') \<Longrightarrow> pc \<le> pc'"
proof (induction bits pc n rule: set8_loop.induct)
  case (1 bits pc n)
  from "1.prems" show ?case
    by (auto simp: set8_loop.simps [of bits pc n] bind_Some_iff split: if_splits dest!: "1.IH")
qed

lemma set_rest_pc: "set_rest bits pc n = Some (bits', pc') \<Longrightarrow> pc \<le> pc'"
  unfolding set_rest_def by (force simp: bind_Some_iff split: if_splits)

lemma mark_push_pc: "mark_push bits pc n = Some (bits', pc') \<Longrightarrow> pc \<le> pc'"
  by (auto simp: mark_push_def bind_Some_iff split: if_splits
      dest!: set16_loop_pc set8_loop_pc set_rest_pc)

text \<open>The loop itself: the program counter grows in each turn, so it ends.\<close>

function codeBitmapInternal :: "bytes \<Rightarrow> nat \<Rightarrow> bitvec \<Rightarrow> bitvec option" where
  "codeBitmapInternal code pc bits =
     (if pc < length code then
        (if code ! pc < OP_PUSH1 \<or> code ! pc > OP_PUSH32 then codeBitmapInternal code (pc + 1) bits
         else case mark_push bits (pc + 1) (code ! pc - OP_PUSH1 + 1) of
           None \<Rightarrow> None
         | Some (bits, pc) \<Rightarrow> codeBitmapInternal code pc bits)
      else Some bits)"
  by pat_completeness auto
termination
  by (relation "measure (\<lambda>(code, pc, _). length code - pc)") (auto dest!: mark_push_pc)

declare codeBitmapInternal.simps [simp del]

definition codeBitmap :: "bytes \<Rightarrow> bitvec option" where
  "codeBitmap code = codeBitmapInternal code 0 (replicate (length code div 8 + 1 + 4) 0)"

section \<open>The reference\<close>

definition push_size :: "u8 \<Rightarrow> nat" where
  "push_size op = (if op < OP_PUSH1 \<or> op > OP_PUSH32 then 0 else unat (op - OP_PUSH1 + 1))"

fun code_marks :: "bytes \<Rightarrow> bool list" where
  "code_marks [] = []"
| "code_marks (op # rest) =
     False # replicate (min (push_size op) (length rest)) True @ code_marks (drop (push_size op) rest)"

lemma length_code_marks [simp]: "length (code_marks code) = length code"
  by (induction code rule: code_marks.induct) auto

section \<open>What the single operations set\<close>

definition bit_at :: "bitvec \<Rightarrow> nat \<Rightarrow> bool" where
  "bit_at bits i \<longleftrightarrow> i div 8 < length bits \<and> bit (bits ! (i div 8)) (i mod 8)"

definition fresh_from :: "bitvec \<Rightarrow> nat \<Rightarrow> bool" where
  "fresh_from bits pos \<longleftrightarrow> (\<forall>i. pos \<le> i \<longrightarrow> \<not> bit_at bits i)"

definition marked :: "bitvec \<Rightarrow> nat \<Rightarrow> nat \<Rightarrow> bitvec \<Rightarrow> bool" where
  "marked bits pos n bits' \<longleftrightarrow>
     length bits' = length bits \<and>
     (\<forall>i. bit_at bits' i \<longleftrightarrow> bit_at bits i \<or> pos \<le> i \<and> i < pos + n)"

lemma marked_fresh: "marked bits pos n bits' \<Longrightarrow> fresh_from bits pos \<Longrightarrow> fresh_from bits' (pos + n)"
  by (auto simp: marked_def fresh_from_def)

lemma marked_trans:
  assumes "marked a pos n b" and "marked b (pos + n) m c"
  shows "marked a pos (n + m) c"
proof -
  have "pos \<le> i \<and> i < pos + (n + m) \<longleftrightarrow> pos \<le> i \<and> i < pos + n \<or> pos + n \<le> i \<and> i < pos + n + m" for i
    by linarith
  with assms show ?thesis by (simp add: marked_def disj_assoc)
qed

lemma marked_0 [simp]: "marked a pos 0 a"
  by (auto simp: marked_def)

lemma codeSegment_iff:
  "pos div 8 < length bits \<Longrightarrow> codeSegment bits pos = Some (\<not> bit_at bits pos)"
  by (simp add: codeSegment_def bit_at_def bind_Some_iff and_one_eq flip: even_iff_mod_2_eq_zero even_drop_bit_iff_not_bit)

lemma bit_FF: "bit (0xFF :: u8) n \<longleftrightarrow> n < 8"
proof -
  have "(0xFF :: u8) = mask 8" by (simp add: mask_eq_exp_minus_1)
  then show ?thesis by (simp only: bit_mask_iff) auto
qed

lemma bit_at_pos: "k < 8 \<Longrightarrow> bit_at bits (8 * p + k) \<longleftrightarrow> p < length bits \<and> bit (bits ! p) k"
  by (simp add: bit_at_def)

lemma markedI:
  assumes len: "length bits' = length bits" and n: "pos + n \<le> 8 * length bits"
    and bits: "\<And>p k. k < 8 \<Longrightarrow> p < length bits \<Longrightarrow>
      bit (bits' ! p) k \<longleftrightarrow> bit (bits ! p) k \<or> pos \<le> 8 * p + k \<and> 8 * p + k < pos + n"
  shows "marked bits pos n bits'"
  unfolding marked_def
proof (intro conjI allI)
  fix i :: nat
  obtain p k where i: "i = 8 * p + k" "k < 8"
    using that [of "i div 8" "i mod 8"] by (simp add: mult_div_mod_eq)
  show "bit_at bits' i \<longleftrightarrow> bit_at bits i \<or> pos \<le> i \<and> i < pos + n"
  proof (cases "p < length bits")
    case True
    with i len bits [of k p] show ?thesis by (simp add: bit_at_pos)
  next
    case False
    with i n len show ?thesis by (simp add: bit_at_pos)
  qed
qed (rule len)

lemma marked1:
  assumes q: "q < length bits" and r: "r + n \<le> 8"
    and bits: "\<And>k. k < 8 \<Longrightarrow> bit v k \<longleftrightarrow> bit (bits ! q) k \<or> r \<le> k \<and> k < r + n"
  shows "marked bits (8 * q + r) n (bits[q := v])"
proof (rule markedI)
  show "8 * q + r + n \<le> 8 * length bits" using q r by linarith
  fix p k :: nat assume k: "k < 8" "p < length bits"
  show "bit (bits[q := v] ! p) k \<longleftrightarrow> bit (bits ! p) k \<or> 8 * q + r \<le> 8 * p + k \<and> 8 * p + k < 8 * q + r + n"
  proof (cases "p = q")
    case True
    with q bits [OF k(1)] show ?thesis by simp
  next
    case False
    then have "\<not> (8 * q + r \<le> 8 * p + k \<and> 8 * p + k < 8 * q + r + n)" using r k by linarith
    with False show ?thesis by auto
  qed
qed simp

lemma marked2:
  assumes q: "q + 1 < length bits" and r: "r < 8" "8 \<le> r + n" "r + n \<le> 16"
    and fresh: "fresh_from bits (8 * q + r)"
    and v: "\<And>k. k < 8 \<Longrightarrow> bit v k \<longleftrightarrow> bit (bits ! q) k \<or> r \<le> k"
    and w: "\<And>k. k < 8 \<Longrightarrow> bit w k \<longleftrightarrow> k + 8 < r + n"
  shows "marked bits (8 * q + r) n (bits[q := v, q + 1 := w])"
proof (rule markedI)
  show "8 * q + r + n \<le> 8 * length bits" using q r by linarith
  fix p k :: nat assume k: "k < 8" "p < length bits"
  consider "p = q" | "p = q + 1" | "p < q" | "q + 1 < p" by linarith
  then show "bit (bits[q := v, q + 1 := w] ! p) k \<longleftrightarrow>
      bit (bits ! p) k \<or> 8 * q + r \<le> 8 * p + k \<and> 8 * p + k < 8 * q + r + n"
  proof cases
    case 1
    with q r v [OF k(1)] k show ?thesis by auto
  next
    case 2
    then have "8 * q + r \<le> 8 * p + k" using r by simp
    with k fresh bit_at_pos [of k bits p] have "\<not> bit (bits ! p) k" by (auto simp: fresh_from_def)
    with q r w [OF k(1)] 2 show ?thesis by auto
  qed (use k r in auto)
qed simp

lemma div_mod_8: obtains q r where "pos = 8 * q + r" "r < (8 :: nat)" "pos div 8 = q" "pos mod 8 = r"
  using that [of "pos div 8" "pos mod 8"] by (simp add: mult_div_mod_eq)

lemma set1_marked:
  assumes "pos div 8 < length bits"
  shows "\<exists>bits'. set1 bits pos = Some bits' \<and> marked bits pos 1 bits'"
proof -
  obtain q r where qr: "pos = 8 * q + r" "r < 8" "pos div 8 = q" "pos mod 8 = r" by (rule div_mod_8)
  have "marked bits (8 * q + r) 1 (bits[q := bits ! q OR push_bit r 1])"
    using assms qr by (intro marked1) (auto simp: bit_or_iff bit_exp_iff)
  then show ?thesis using assms qr(3,4) by (simp add: set1_def bind_Some_iff qr(1))
qed

lemma setN_marked:
  assumes fresh: "fresh_from bits pos" and n: "0 < n" "n \<le> 8" and len: "(pos + n - 1) div 8 < length bits"
  shows "\<exists>bits'. setN bits (mask n) pos = Some bits' \<and> marked bits pos n bits'"
proof -
  obtain q r where qr: "pos = 8 * q + r" "r < 8" "pos div 8 = q" "pos mod 8 = r" by (rule div_mod_8)
  define a where "a = push_bit r (mask n :: u16)"
  have "pos div 8 \<le> (pos + n - 1) div 8" using n(1) by (intro div_le_mono) simp
  then have q: "q < length bits" using len qr(3) by linarith
  let ?v = "bits ! q OR ucast a" and ?w = "ucast (drop_bit 8 a) :: u8"
  have bit_a: "bit a k \<longleftrightarrow> r \<le> k \<and> k < r + n" for k
    using n qr(2) by (auto simp: a_def bit_push_bit_iff bit_mask_iff)
  have v: "bit ?v k \<longleftrightarrow> bit (bits ! q) k \<or> r \<le> k \<and> k < r + n" if "k < 8" for k
    using that by (simp add: bit_or_iff bit_ucast_iff bit_a)
  have w: "bit ?w k \<longleftrightarrow> k + 8 < r + n" if "k < 8" for k
    using that qr(2) by (auto simp add: bit_ucast_iff bit_drop_bit_eq bit_a)
  have zero: "?w = 0 \<longleftrightarrow> r + n \<le> 8"
  proof
    assume "?w = 0"
    then have "\<not> bit ?w 0" by simp
    then show "r + n \<le> 8" using w [of 0] by simp
  next
    assume "r + n \<le> 8"
    then show "?w = 0" by (intro bit_eqI) (simp add: w)
  qed
  show ?thesis
  proof (cases "?w = 0")
    case True
    then have "marked bits pos n (bits[q := ?v])"
      unfolding qr(1) using q zero v by (intro marked1) auto
    moreover have "setN bits (mask n) pos = Some (bits[q := ?v])"
      using True q by (simp add: setN_def qr(3,4) a_def [symmetric] Let_def bind_Some_iff)
    ultimately show ?thesis by blast
  next
    case False
    then have "q + 1 \<le> (pos + n - 1) div 8" using zero n qr by linarith
    then have q1: "q + 1 < length bits" using len by linarith
    have "marked bits pos n (bits[q := ?v, q + 1 := ?w])"
      unfolding qr(1) using False q1 qr(2) zero v w n fresh [unfolded qr(1)]
      by (intro marked2) auto
    moreover have "setN bits (mask n) pos = Some (bits[q := ?v, q + 1 := ?w])"
      using False q1 by (simp add: setN_def qr(3,4) a_def [symmetric] Let_def bind_Some_iff)
    ultimately show ?thesis by blast
  qed
qed

lemma set8_marked:
  assumes fresh: "fresh_from bits pos" and len: "(pos + 8) div 8 < length bits"
  shows "\<exists>bits'. set8 bits pos = Some bits' \<and> marked bits pos 8 bits'"
proof -
  obtain q r where qr: "pos = 8 * q + r" "r < 8" "pos div 8 = q" "pos mod 8 = r" by (rule div_mod_8)
  have q: "q + 1 < length bits" using len qr by simp
  let ?a = "push_bit r (0xFF :: u8)"
  have a: "bit ?a k \<longleftrightarrow> r \<le> k" if "k < 8" for k
    using that by (simp only: bit_push_bit_iff bit_FF) auto
  have "marked bits pos 8 (bits[q := bits ! q OR ?a, q + 1 := NOT ?a])"
    unfolding qr(1) using q qr(2) fresh [unfolded qr(1)] a
    by (intro marked2) (auto simp: bit_or_iff bit_not_iff)
  then show ?thesis using q qr(3,4) by (simp add: set8_def Let_def bind_Some_iff)
qed

lemma set16_eq:
  assumes len: "(pos + 16) div 8 < length bits"
  shows "set16 bits pos = set8 bits pos \<bind> (\<lambda>b. set8 b (pos + 8))"
proof -
  have "(pos + 8) div 8 = Suc (pos div 8)" "(pos + 8) mod 8 = pos mod 8"
    "(pos + 16) div 8 = Suc (Suc (pos div 8))" by simp_all
  moreover have m1: "(- 1 :: u8) = 0xFF" by simp
  ultimately show ?thesis using len
    by (simp add: m1 set16_def set8_def Let_def go_index_def go_update_def list_update_swap)
qed

lemma set16_marked:
  assumes fresh: "fresh_from bits pos" and len: "(pos + 16) div 8 < length bits"
  shows "\<exists>bits'. set16 bits pos = Some bits' \<and> marked bits pos 16 bits'"
proof -
  have "(pos + 8) div 8 < length bits" using len by simp
  from set8_marked [OF fresh this] obtain b where b: "set8 bits pos = Some b" "marked bits pos 8 b" by blast
  have "(pos + 8 + 8) div 8 < length b" using b(2) len by (simp add: marked_def)
  from set8_marked [OF marked_fresh [OF b(2) fresh] this] obtain c where
    c: "set8 b (pos + 8) = Some c" "marked b (pos + 8) 8 c" by blast
  have "marked bits pos (8 + 8) c" by (rule marked_trans [OF b(2) c(2)])
  then show ?thesis using set16_eq [OF len] b c by simp
qed

definition room :: "bitvec \<Rightarrow> nat \<Rightarrow> u8 \<Rightarrow> bool" where
  "room bits pc n \<longleftrightarrow> fresh_from bits pc \<and> (pc + unat n) div 8 < length bits"

lemma room_step:
  assumes "room bits pc n" and "marked bits pc m bits'" and "m + unat n' = unat n"
  shows "room bits' (pc + m) n'"
  using assms marked_fresh [OF assms(2)] by (auto simp: room_def marked_def add.assoc)

lemma set8_loop_marked:
  assumes "room bits pc n"
  shows "\<exists>bits' m n'. set8_loop bits pc n = Some (bits', pc + m, n') \<and> marked bits pc m bits' \<and>
    m + unat n' = unat n \<and> unat n' < 8"
  using assms
proof (induction bits pc n rule: set8_loop.induct)
  case (1 bits pc n)
  show ?case
  proof (cases "8 \<le> n")
    case False
    then show ?thesis by (auto simp: set8_loop.simps [of bits pc n] word_le_nat_alt)
  next
    case True
    then have sub: "8 + unat (n - 8) = unat n" by (simp add: unat_sub word_le_nat_alt)
    then have "(pc + 8) div 8 \<le> (pc + unat n) div 8" by (intro div_le_mono) simp
    then have "(pc + 8) div 8 < length bits" using "1.prems" by (simp add: room_def)
    with "1.prems" obtain b where b: "set8 bits pc = Some b" "marked bits pc 8 b"
      using set8_marked by (auto simp: room_def)
    from "1.IH" [OF True b(1) room_step [OF "1.prems" b(2) sub]] obtain c m n' where
      c: "set8_loop b (pc + 8) (n - 8) = Some (c, pc + 8 + m, n')" "marked b (pc + 8) m c"
        "m + unat n' = unat (n - 8)" "unat n' < 8" by blast
    have "set8_loop bits pc n = Some (c, pc + (8 + m), n')"
      using True b c by (simp add: set8_loop.simps [of bits pc n] add.assoc)
    moreover have "8 + m + unat n' = unat n" using c(3) sub by simp
    ultimately show ?thesis using marked_trans [OF b(2) c(2)] c(4) by blast
  qed
qed

lemma set16_loop_marked:
  assumes "room bits pc n"
  shows "\<exists>bits' m n'. set16_loop bits pc n = Some (bits', pc + m, n') \<and> marked bits pc m bits' \<and>
    m + unat n' = unat n"
  using assms
proof (induction bits pc n rule: set16_loop.induct)
  case (1 bits pc n)
  show ?case
  proof (cases "16 \<le> n")
    case False
    then show ?thesis by (auto simp: set16_loop.simps [of bits pc n])
  next
    case True
    then have sub: "16 + unat (n - 16) = unat n" by (simp add: unat_sub word_le_nat_alt)
    then have "(pc + 16) div 8 \<le> (pc + unat n) div 8" by (intro div_le_mono) simp
    then have "(pc + 16) div 8 < length bits" using "1.prems" by (simp add: room_def)
    with "1.prems" obtain b where b: "set16 bits pc = Some b" "marked bits pc 16 b"
      using set16_marked by (auto simp: room_def)
    from "1.IH" [OF True b(1) room_step [OF "1.prems" b(2) sub]] obtain c m n' where
      c: "set16_loop b (pc + 16) (n - 16) = Some (c, pc + 16 + m, n')" "marked b (pc + 16) m c"
        "m + unat n' = unat (n - 16)" by blast
    have "set16_loop bits pc n = Some (c, pc + (16 + m), n')"
      using True b c by (simp add: set16_loop.simps [of bits pc n] add.assoc)
    moreover have "16 + m + unat n' = unat n" using c(3) sub by simp
    ultimately show ?thesis using marked_trans [OF b(2) c(2)] by blast
  qed
qed

lemma set_rest_marked:
  assumes "room bits pc n" and "unat n < 8"
  shows "\<exists>bits'. set_rest bits pc n = Some (bits', pc + unat n) \<and> marked bits pc (unat n) bits'"
proof -
  have setN': "\<exists>bits'. setN bits (mask (unat n)) pc = Some bits' \<and> marked bits pc (unat n) bits'"
    if "0 < unat n"
  proof (rule setN_marked)
    show "(pc + unat n - 1) div 8 < length bits"
      using assms(1) div_le_mono [of "pc + unat n - 1" "pc + unat n" 8] by (simp add: room_def)
  qed (use assms that in \<open>auto simp: room_def\<close>)
  have set1': "n = 1 \<Longrightarrow> \<exists>bits'. set1 bits pc = Some bits' \<and> marked bits pc 1 bits'"
    using assms(1) le_less_trans [OF div_le_mono [of pc "pc + 1" 8]]
    by (intro set1_marked) (simp add: room_def)
  have masks: "(mask 2 :: u16) = 0b11" "(mask 3 :: u16) = 0b111" "(mask 4 :: u16) = 0b1111"
    "(mask 5 :: u16) = 0b11111" "(mask 6 :: u16) = 0b111111" "(mask 7 :: u16) = 0b1111111"
    by (simp_all add: mask_eq_exp_minus_1)
  have "unat n \<in> {0, 1, 2, 3, 4, 5, 6, 7}" using assms(2) by auto
  then consider "n = 0" | "n = 1" | "n = 2" | "n = 3" | "n = 4" | "n = 5" | "n = 6" | "n = 7"
    by (auto simp: word_unat_eq_iff)
  then show ?thesis
  proof cases
    case 1
    then show ?thesis by (simp add: set_rest_def)
  next
    case 2
    with set1' obtain b where "set1 bits pc = Some b" "marked bits pc 1 b" by blast
    with 2 show ?thesis by (simp add: set_rest_def)
  qed (use setN' masks in \<open>auto simp: set_rest_def\<close>)
qed

lemma mark_push_marked:
  assumes "room bits pc n"
  shows "\<exists>bits'. mark_push bits pc n = Some (bits', pc + unat n) \<and> marked bits pc (unat n) bits'"
proof (cases "8 \<le> n")
  case False
  then have "unat n < 8" by (simp add: word_le_nat_alt)
  with False set_rest_marked [OF assms] show ?thesis by (auto simp: mark_push_def)
next
  case True
  obtain b m n1 where b: "set16_loop bits pc n = Some (b, pc + m, n1)" "marked bits pc m b"
    "m + unat n1 = unat n" using set16_loop_marked [OF assms] by blast
  note r1 = room_step [OF assms b(2,3)]
  obtain c k n2 where c: "set8_loop b (pc + m) n1 = Some (c, pc + m + k, n2)" "marked b (pc + m) k c"
    "k + unat n2 = unat n1" "unat n2 < 8" using set8_loop_marked [OF r1] by blast
  note r2 = room_step [OF r1 c(2,3)]
  obtain d where d: "set_rest c (pc + m + k) n2 = Some (d, pc + m + k + unat n2)"
    "marked c (pc + m + k) (unat n2) d" using set_rest_marked [OF r2 c(4)] by blast
  have "marked bits pc (m + k + unat n2) d"
    using marked_trans [OF marked_trans [OF b(2) c(2)]] d(2) by (simp add: add.assoc)
  moreover have sum: "m + k + unat n2 = unat n" using b(3) c(3) by simp
  ultimately have "marked bits pc (unat n) d" by simp
  moreover have "mark_push bits pc n = Some (d, pc + unat n)"
    using True b(1) c(1) d(1) sum by (simp add: mark_push_def add.assoc)
  ultimately show ?thesis by blast
qed

section \<open>The bit map is the reference\<close>

lemma push_size_le: "push_size op \<le> 32"
proof (cases "op < OP_PUSH1 \<or> op > OP_PUSH32")
  case True
  then show ?thesis by (simp add: push_size_def)
next
  case False
  then have "96 \<le> unat op" "unat op \<le> 127" by (simp_all add: word_less_nat_alt not_less)
  moreover from this have "unat (op - 96) = unat op - 96" by (simp add: unat_sub word_le_nat_alt)
  moreover have "unat (op - 96 + 1) = (unat (op - 96) + 1) mod 256"
    using unat_word_ariths(1) [of "op - 96" 1] by simp
  ultimately show ?thesis using False by (simp add: push_size_def)
qed

lemma code_marks_nth:
  "j \<le> length rest \<Longrightarrow>
   code_marks (op # rest) ! j = (j \<noteq> 0 \<and> (j \<le> push_size op \<or>
     code_marks (drop (push_size op) rest) ! (j - Suc (push_size op))))"
  by (cases j) (auto simp: nth_append)

lemma codeBitmapInternal_correct:
  assumes "length bits = length code div 8 + 5" and "fresh_from bits pc"
  shows "\<exists>bits'. codeBitmapInternal code pc bits = Some bits' \<and> length bits' = length bits \<and>
    (\<forall>i<length code. bit_at bits' i \<longleftrightarrow>
       (if i < pc then bit_at bits i else code_marks (drop pc code) ! (i - pc)))"
  using assms
proof (induction code pc bits rule: codeBitmapInternal.induct)
  case (1 code pc bits)
  note unfold = codeBitmapInternal.simps [of code pc bits]
  show ?case
  proof (cases "pc < length code")
    case False
    then show ?thesis by (auto simp: unfold)
  next
    case pc: True
    define op where "op = code ! pc"
    define rest where "rest = drop (Suc pc) code"
    have drop: "drop pc code = op # rest"
      using pc by (simp add: op_def rest_def Cons_nth_drop_Suc)
    have len: "length rest = length code - Suc pc" by (simp add: rest_def)
    let ?n = "push_size op"
    have marks: "code_marks (drop pc code) ! (i - pc) \<longleftrightarrow>
        i \<noteq> pc \<and> (i \<le> pc + ?n \<or> code_marks (drop (Suc pc + ?n) code) ! (i - (Suc pc + ?n)))"
      if "pc \<le> i" "i < length code" for i
      using that code_marks_nth [of "i - pc" rest op] len
      by (auto simp: drop rest_def add.commute)
    show ?thesis
    proof (cases "op < OP_PUSH1 \<or> op > OP_PUSH32")
      case True
      then have n: "?n = 0" by (simp add: push_size_def)
      have "fresh_from bits (pc + 1)" using "1.prems"(2) by (simp add: fresh_from_def)
      from "1.IH"(1) [OF pc True [unfolded op_def] "1.prems"(1) this] obtain b where
        b: "codeBitmapInternal code (pc + 1) bits = Some b" "length b = length bits"
        "\<And>i. i < length code \<Longrightarrow> bit_at b i \<longleftrightarrow>
          (if i < pc + 1 then bit_at bits i else code_marks (drop (pc + 1) code) ! (i - (pc + 1)))"
        by blast
      have "bit_at b i \<longleftrightarrow> (if i < pc then bit_at bits i else code_marks (drop pc code) ! (i - pc))"
        if "i < length code" for i
        using b(3) [OF that] marks [OF _ that] n "1.prems"(2) by (auto simp: fresh_from_def)
      with b True pc show ?thesis by (simp add: unfold op_def)
    next
      case False
      have n: "unat (op - OP_PUSH1 + 1) = ?n" using False by (simp add: push_size_def)
      have "room bits (pc + 1) (op - OP_PUSH1 + 1)"
        using "1.prems" pc push_size_le [of op] unfolding room_def n by (auto simp: fresh_from_def)
      from mark_push_marked [OF this] obtain c where
        c: "mark_push bits (pc + 1) (op - OP_PUSH1 + 1) = Some (c, pc + 1 + ?n)" "marked bits (pc + 1) ?n c"
        unfolding n by blast
      have "fresh_from bits (pc + 1)" using "1.prems"(2) by (simp add: fresh_from_def)
      from marked_fresh [OF c(2) this] have fr: "fresh_from c (pc + 1 + ?n)" .
      have "length c = length code div 8 + 5" using c(2) "1.prems"(1) by (simp add: marked_def)
      from "1.IH"(2) [OF pc False [unfolded op_def] c(1) [unfolded op_def] refl this, folded op_def, OF fr]
      obtain b where
        b: "codeBitmapInternal code (pc + 1 + ?n) c = Some b" "length b = length c"
        "\<And>i. i < length code \<Longrightarrow> bit_at b i \<longleftrightarrow>
          (if i < pc + 1 + ?n then bit_at c i else code_marks (drop (pc + 1 + ?n) code) ! (i - (pc + 1 + ?n)))"
        by blast
      have "bit_at b i \<longleftrightarrow> (if i < pc then bit_at bits i else code_marks (drop pc code) ! (i - pc))"
        if "i < length code" for i
        using b(3) [OF that] marks [OF _ that] c(2) "1.prems"(2)
        by (auto simp: fresh_from_def marked_def)
      moreover have "codeBitmapInternal code pc bits = Some b"
        using b(1) c(1) False pc unfolding unfold op_def by (simp del: OP_PUSH1_def)
      ultimately show ?thesis using b(2) c(2) by (simp add: marked_def)
    qed
  qed
qed

lemma codeBitmap_correct:
  obtains bits where "codeBitmap code = Some bits" "length bits = length code div 8 + 5"
    "\<And>i. i < length code \<Longrightarrow> codeSegment bits i = Some (\<not> code_marks code ! i)"
proof -
  let ?z = "replicate (length code div 8 + 1 + 4) 0 :: bitvec"
  have "fresh_from ?z 0" by (simp add: fresh_from_def bit_at_def)
  with codeBitmapInternal_correct [of ?z code 0] obtain bits where
    b: "codeBitmap code = Some bits" "length bits = length code div 8 + 5"
    "\<And>i. i < length code \<Longrightarrow> bit_at bits i \<longleftrightarrow> code_marks code ! i"
    unfolding codeBitmap_def by auto
  have "codeSegment bits i = Some (\<not> code_marks code ! i)" if "i < length code" for i
  proof -
    have "i div 8 \<le> length code div 8" using that by (intro div_le_mono) simp
    then show ?thesis using b(2) b(3) [OF that] by (simp add: codeSegment_iff)
  qed
  with b(1,2) show thesis by (rule that)
qed

section \<open>The contract of a code analysis\<close>

text \<open>What a contract relies on when it keeps an analysis: it can be made for every code, and a
  kept one answers for every position of that code what the reference says.\<close>

locale code_analysis =
  fixes analyse :: "bytes \<Rightarrow> 'v option"
    and seg :: "'v \<Rightarrow> nat \<Rightarrow> bool option"
    and marks :: "bytes \<Rightarrow> bool list"
  assumes analyse_total: "\<exists>v. analyse code = Some v"
    and seg_analyse: "analyse code = Some v \<Longrightarrow> i < length code \<Longrightarrow> seg v i = Some (\<not> marks code ! i)"
begin

definition answers_for :: "'v \<Rightarrow> bytes \<Rightarrow> bool" where
  "answers_for v code \<longleftrightarrow> analyse code = Some v"

lemma answers_for_seg: "answers_for v code \<Longrightarrow> i < length code \<Longrightarrow> seg v i = Some (\<not> marks code ! i)"
  by (simp add: answers_for_def seg_analyse)

lemma answers_for_unique: "answers_for v code \<Longrightarrow> answers_for w code \<Longrightarrow> v = w"
  by (simp add: answers_for_def)

lemma analyse_answers: obtains v where "analyse code = Some v" "answers_for v code"
  using analyse_total [of code] by (auto simp: answers_for_def)

end

interpretation bm: code_analysis codeBitmap codeSegment code_marks
proof unfold_locales
  show "\<exists>v. codeBitmap code = Some v" for code
    by (rule codeBitmap_correct [of code]) blast
  show "codeSegment v i = Some (\<not> code_marks code ! i)"
    if "codeBitmap code = Some v" "i < length code" for code v i
    using codeBitmap_correct [of code] that by (metis option.inject)
qed

section \<open>Properties\<close>

text \<open>C15. The jump-destination analysis is total (no index panics, whatever the code ends with) and
  agrees with the one-pass reference on every byte of the code: \<^verbatim>\<open>codeSegment\<close> is true exactly at
  the bytes that are not arguments of a push.\<close>

theorem codeBitmap_equivalent:
  "\<exists>bits. codeBitmap code = Some bits \<and>
     map (codeSegment bits) [0..<length code] = map (\<lambda>b. Some (\<not> b)) (code_marks code)"
proof -
  obtain bits where b: "codeBitmap code = Some bits" "length bits = length code div 8 + 5"
    "\<And>i. i < length code \<Longrightarrow> codeSegment bits i = Some (\<not> code_marks code ! i)"
    by (rule codeBitmap_correct) blast
  have "map (codeSegment bits) [0..<length code] = map (\<lambda>b. Some (\<not> b)) (code_marks code)"
    by (rule nth_equalityI) (simp_all add: b(3))
  with b(1) show ?thesis by blast
qed

end
