(* ===== verification/RWSet.thy ===== *)
theory RWSet
  imports Common
begin

text \<open>
  The read and write sets of a transaction, \<^verbatim>\<open>vm/ethvm/ethvm.go\<close>: two-level maps from address
  and key to a Go \<^verbatim>\<open>interface{}\<close> value, with counters of the addresses and of the keys. The reserved keys
  are hashes of fixed strings; a storage slot is stored under its own number, in the same map.
  The locks are left out: one goroutine owns a set while it changes. The locale \<open>kv_cache\<close> is the
  contract of a cache on plain keys; balance keys accumulate instead.
\<close>

section \<open>Values and keys\<close>

datatype goval = VBig int | VU64 u64 | VBytes bytes | VHash hash

text \<open>Type assertions \<^verbatim>\<open>v.(T)\<close>, which panic on another type.\<close>

fun as_big :: "goval \<Rightarrow> int option" where
  "as_big (VBig x) = Some x"
| "as_big _ = None"

fun as_u64 :: "goval \<Rightarrow> u64 option" where
  "as_u64 (VU64 x) = Some x"
| "as_u64 _ = None"

fun as_bytes :: "goval \<Rightarrow> bytes option" where
  "as_bytes (VBytes x) = Some x"
| "as_bytes _ = None"

record rw_keys =
  NonceKey :: hash
  BalanceKey :: hash
  SubBalanceKey :: hash
  SetCodeKey :: hash
  CreatAccountKey :: hash

abbreviation go_string :: "string \<Rightarrow> bytes" where
  "go_string s \<equiv> map of_char s"

text \<open>The package variables, computed once when the package is loaded.\<close>

definition init_keys :: "geth_ops \<Rightarrow> rw_keys option" where
  "init_keys G = do {
     n \<leftarrow> StringToHash G (go_string ''nonce'');
     b \<leftarrow> StringToHash G (go_string ''balance'');
     s \<leftarrow> StringToHash G (go_string ''subBalance'');
     c \<leftarrow> StringToHash G (go_string ''setCode'');
     a \<leftarrow> StringToHash G (go_string ''newAccount'');
     Some \<lparr>NonceKey = n, BalanceKey = b, SubBalanceKey = s, SetCodeKey = c, CreatAccountKey = a\<rparr>
   }"

definition keys_distinct :: "rw_keys \<Rightarrow> bool" where
  "keys_distinct K \<longleftrightarrow>
     distinct [NonceKey K, BalanceKey K, SubBalanceKey K, SetCodeKey K, CreatAccountKey K]"

lemma init_keys_total:
  assumes "geth_spec G"
  shows "\<exists>K. init_keys G = Some K"
  using StringToHash_total [OF assms] unfolding init_keys_def by (metis Option.bind.simps(2))

definition keys_std :: rw_keys where
  "keys_std = \<lparr>NonceKey = 0x6e6f6e6365, BalanceKey = 0x62616c616e6365,
     SubBalanceKey = 0x73756242616c616e6365, SetCodeKey = 0x736574436f6465,
     CreatAccountKey = 0x6e65774163636f756e74\<rparr>"

lemma keys_std_distinct: "keys_distinct keys_std"
  by (simp add: keys_distinct_def keys_std_def)

section \<open>The sets\<close>

type_synonym cachemap = "(hash, goval) gomap"

record rwset =
  cache :: "(address, cachemap) gomap"
  detailKeyCount :: u32
  addressCount :: u32

definition NewReadSet :: rwset where
  "NewReadSet = \<lparr>cache = [], detailKeyCount = 0, addressCount = 0\<rparr>"

definition NewWriteSet :: rwset where
  "NewWriteSet = \<lparr>cache = [], detailKeyCount = 0, addressCount = 0\<rparr>"

definition rw_Set :: "rwset \<Rightarrow> address \<Rightarrow> cachemap \<Rightarrow> rwset" where
  "rw_Set r addr m = r\<lparr>cache := AList.update addr m (cache r)\<rparr>"

definition rw_Get :: "rwset \<Rightarrow> address \<Rightarrow> cachemap option" where
  "rw_Get r addr = lookup (cache r) addr"

definition SetCacheWithKV :: "rwset \<Rightarrow> address \<Rightarrow> hash \<Rightarrow> goval \<Rightarrow> rwset" where
  "SetCacheWithKV r addr k v =
     (let cacheMap = (case lookup (cache r) addr of None \<Rightarrow> [] | Some m \<Rightarrow> m) in
      r\<lparr>cache := AList.update addr (AList.update k v cacheMap) (cache r)\<rparr>)"

text \<open>\<^verbatim>\<open>WriteSet.GetAddressAndKey\<close>: the value when both levels have an entry.\<close>

definition GetAddressAndKey :: "rwset \<Rightarrow> address \<Rightarrow> hash \<Rightarrow> goval option" where
  "GetAddressAndKey w addr k =
     (case lookup (cache w) addr of
        Some c \<Rightarrow> (case lookup c k of Some val \<Rightarrow> Some val | None \<Rightarrow> None)
      | None \<Rightarrow> None)"

definition ReadSet_UpdateCache :: "rw_keys \<Rightarrow> rwset \<Rightarrow> address \<Rightarrow> hash \<Rightarrow> goval \<Rightarrow> rwset option" where
  "ReadSet_UpdateCache K r addr k v = do {
     let (c, r) = (case lookup (cache r) addr of
         Some c \<Rightarrow> (c, r)
       | None \<Rightarrow> ([], r\<lparr>addressCount := addressCount r + 1\<rparr>));
     (c, r) \<leftarrow>
       (if k = SubBalanceKey K then
          (case lookup c (SubBalanceKey K) of
             Some subVal \<Rightarrow> do {
               a \<leftarrow> as_big subVal;
               b \<leftarrow> as_big v;
               Some (AList.update (SubBalanceKey K) (VBig (a + b)) c, r)
             }
           | None \<Rightarrow> Some (AList.update (SubBalanceKey K) v c, r\<lparr>detailKeyCount := detailKeyCount r + 1\<rparr>))
        else if k = BalanceKey K then
          (case lookup c (BalanceKey K) of
             Some val \<Rightarrow> do {
               a \<leftarrow> as_big val;
               b \<leftarrow> as_big v;
               Some (AList.update k (VBig (a + b)) c, r)
             }
           | None \<Rightarrow> Some (AList.update k v c, r\<lparr>detailKeyCount := detailKeyCount r + 1\<rparr>))
        else
          (case lookup c k of
             Some _ \<Rightarrow> Some (AList.update k v c, r)
           | None \<Rightarrow> Some (AList.update k v c, r\<lparr>detailKeyCount := detailKeyCount r + 1\<rparr>)));
     Some (r\<lparr>cache := AList.update addr c (cache r)\<rparr>)
   }"

definition WriteSet_UpdateCache ::
  "rw_keys \<Rightarrow> rwset \<Rightarrow> address \<Rightarrow> hash \<Rightarrow> goval \<Rightarrow> goval \<Rightarrow> rwset option" where
  "WriteSet_UpdateCache K w addr k v value = do {
     let (c, w) = (case lookup (cache w) addr of
         Some c \<Rightarrow> (c, w)
       | None \<Rightarrow> ([], w\<lparr>addressCount := addressCount w + 1\<rparr>));
     (c, w) \<leftarrow>
       (if k = SubBalanceKey K then
          (case lookup c (SubBalanceKey K) of
             Some subVal \<Rightarrow> do {
               a \<leftarrow> as_big subVal;
               b \<leftarrow> as_big v;
               Some (AList.update (SubBalanceKey K) (VBig (a + b)) c, w)
             }
           | None \<Rightarrow> Some (AList.update (SubBalanceKey K) v c, w\<lparr>detailKeyCount := detailKeyCount w + 1\<rparr>))
        else if k = BalanceKey K then
          (case lookup c (BalanceKey K) of
             Some val \<Rightarrow> do {
               a \<leftarrow> as_big val;
               b \<leftarrow> as_big v;
               Some (AList.update k (VBig (a + b)) c, w)
             }
           | None \<Rightarrow> do {
               a \<leftarrow> as_big value;
               b \<leftarrow> as_big v;
               Some (AList.update k (VBig (a + b)) c, w\<lparr>detailKeyCount := detailKeyCount w + 1\<rparr>)
             })
        else
          (case lookup c k of
             Some _ \<Rightarrow> Some (AList.update k v c, w)
           | None \<Rightarrow> Some (AList.update k v c, w\<lparr>detailKeyCount := detailKeyCount w + 1\<rparr>)));
     Some (w\<lparr>cache := AList.update addr c (cache w)\<rparr>)
   }"

text \<open>\<^verbatim>\<open>Copy\<close>: one value map is filled while the addresses are walked, and every address is given that
  same map. When the walk ends each address maps to the union of all the maps, a later one winning.
  The counters of the copy are zero.\<close>

definition rw_Copy :: "rwset \<Rightarrow> rwset" where
  "rw_Copy r =
     (let valCache = fold (\<lambda>(addr, cach) m. fold (\<lambda>(k, v) m. AList.update k v m) cach m) (cache r) [] in
      \<lparr>cache = map (\<lambda>(addr, _). (addr, valCache)) (cache r), detailKeyCount = 0, addressCount = 0\<rparr>)"

definition rw_Len :: "rwset \<Rightarrow> u32" where
  "rw_Len r = addressCount r"

section \<open>The contract of a cache\<close>

text \<open>A sequence of updates; a panic ends it.\<close>

primrec upds ::
  "('s \<Rightarrow> address \<Rightarrow> hash \<Rightarrow> goval \<Rightarrow> 's option) \<Rightarrow> 's \<Rightarrow> (address \<times> hash \<times> goval) list \<Rightarrow> 's option"
where
  "upds u s [] = Some s"
| "upds u s (e # es) = (case u s (fst e) (fst (snd e)) (snd (snd e)) of
     None \<Rightarrow> None | Some s' \<Rightarrow> upds u s' es)"

lemma upds_append: "upds u s (es @ fs) = upds u s es \<bind> (\<lambda>t. upds u t fs)"
  by (induction es arbitrary: s) (auto split: option.splits)

locale kv_cache =
  fixes get :: "'s \<Rightarrow> address \<Rightarrow> hash \<Rightarrow> goval option"
    and upd :: "'s \<Rightarrow> address \<Rightarrow> hash \<Rightarrow> goval \<Rightarrow> 's option"
    and plain :: "hash \<Rightarrow> bool"
    and inv :: "'s \<Rightarrow> bool"
  assumes upd_total: "plain k \<Longrightarrow> \<exists>s'. upd s a k v = Some s'"
    and get_upd: "upd s a k v = Some s' \<Longrightarrow> plain k \<Longrightarrow>
      get s' a' k' = (if a' = a \<and> k' = k then Some v else get s a' k')"
    and inv_upd: "inv s \<Longrightarrow> upd s a k v = Some s' \<Longrightarrow> inv s'"
begin

lemma get_upds:
  assumes "\<forall>e \<in> set es. plain (fst (snd e))"
  shows "\<exists>s'. upds upd s es = Some s' \<and> (inv s \<longrightarrow> inv s') \<and>
    get s' a k = (case map_of (rev (map (\<lambda>(a, k, v). ((a, k), v)) es)) (a, k) of
       Some v \<Rightarrow> Some v | None \<Rightarrow> get s a k)"
  using assms
proof (induction es arbitrary: s)
  case Nil
  then show ?case by simp
next
  case (Cons e es)
  obtain b j v where e: "e = (b, j, v)" by (cases e)
  with Cons.prems have j: "plain j" by simp
  then obtain t where t: "upd s b j v = Some t" using upd_total by blast
  obtain s' where s': "upds upd t es = Some s'" "inv t \<longrightarrow> inv s'"
    "get s' a k = (case map_of (rev (map (\<lambda>(a, k, v). ((a, k), v)) es)) (a, k) of
       Some v \<Rightarrow> Some v | None \<Rightarrow> get t a k)"
    using Cons.IH [of t] Cons.prems by auto
  from s'(3) have "get s' a k = (case map_of (rev (map (\<lambda>(a, k, v). ((a, k), v)) (e # es))) (a, k) of
       Some v \<Rightarrow> Some v | None \<Rightarrow> get s a k)"
    unfolding get_upd [OF t j] by (auto simp: e map_add_def split: option.splits)
  moreover have "inv s \<longrightarrow> inv s'" using inv_upd [OF _ t] s'(2) by blast
  ultimately show ?case using s'(1) t by (simp add: e)
qed

lemma inv_upds: "inv s \<Longrightarrow> upds upd s es = Some s' \<Longrightarrow> inv s'"
proof (induction es arbitrary: s)
  case (Cons e es)
  then show ?case by (auto split: option.splits dest: inv_upd)
qed simp

end

section \<open>One form for both updates\<close>

text \<open>\<open>rw_put\<close> stores a value and keeps the counters; each update is a \<open>rw_put\<close> of the value that its
  rule for the key computes from the old one.\<close>

definition inner :: "rwset \<Rightarrow> address \<Rightarrow> cachemap" where
  "inner r a = (case lookup (cache r) a of None \<Rightarrow> [] | Some c \<Rightarrow> c)"

definition rw_put :: "rwset \<Rightarrow> address \<Rightarrow> hash \<Rightarrow> goval \<Rightarrow> rwset" where
  "rw_put r a k v = r\<lparr>
     addressCount := addressCount r + (if lookup (cache r) a = None then 1 else 0),
     detailKeyCount := detailKeyCount r + (if lookup (inner r a) k = None then 1 else 0),
     cache := AList.update a (AList.update k v (inner r a)) (cache r)\<rparr>"

definition big_sum :: "goval \<Rightarrow> goval \<Rightarrow> goval option" where
  "big_sum x y = do { a \<leftarrow> as_big x; b \<leftarrow> as_big y; Some (VBig (a + b)) }"

definition write_value :: "rw_keys \<Rightarrow> hash \<Rightarrow> goval option \<Rightarrow> goval \<Rightarrow> goval \<Rightarrow> goval option" where
  "write_value K k old v base =
     (if k = SubBalanceKey K then (case old of None \<Rightarrow> Some v | Some x \<Rightarrow> big_sum x v)
      else if k = BalanceKey K then (case old of None \<Rightarrow> big_sum base v | Some x \<Rightarrow> big_sum x v)
      else Some v)"

definition read_value :: "rw_keys \<Rightarrow> hash \<Rightarrow> goval option \<Rightarrow> goval \<Rightarrow> goval option" where
  "read_value K k old v =
     (if k = SubBalanceKey K \<or> k = BalanceKey K
      then (case old of None \<Rightarrow> Some v | Some x \<Rightarrow> big_sum x v) else Some v)"

lemma as_big_Some_iff [simp]: "as_big v = Some x \<longleftrightarrow> v = VBig x"
  by (cases v) auto

lemma as_u64_Some_iff [simp]: "as_u64 v = Some x \<longleftrightarrow> v = VU64 x"
  by (cases v) auto

lemma as_bytes_Some_iff [simp]: "as_bytes v = Some x \<longleftrightarrow> v = VBytes x"
  by (cases v) auto

lemma big_sum_VBig [simp]: "big_sum (VBig a) (VBig b) = Some (VBig (a + b))"
  by (simp add: big_sum_def)

lemma GetAddressAndKey_inner: "GetAddressAndKey w a k = lookup (inner w a) k"
  by (simp add: GetAddressAndKey_def inner_def split: option.splits)

lemma bind_map_option: "(map_option f x \<bind> g) = x \<bind> (\<lambda>y. g (f y))"
  by (cases x) simp_all

lemma map_option_bind: "map_option f (x \<bind> g) = x \<bind> (\<lambda>y. map_option f (g y))"
  by (cases x) simp_all

lemmas update_simps = Let_def inner_def rw_put_def big_sum_def map_option_bind bind_map_option

lemma WriteSet_UpdateCache_eq:
  "WriteSet_UpdateCache K w a k v base =
     map_option (rw_put w a k) (write_value K k (GetAddressAndKey w a k) v base)"
proof (cases "lookup (cache w) a")
  case None
  then show ?thesis
    by (simp add: WriteSet_UpdateCache_def write_value_def GetAddressAndKey_def update_simps)
next
  case (Some c)
  then show ?thesis
    by (cases "k = SubBalanceKey K"; cases "k = BalanceKey K"; cases "lookup c k") (simp_all add: WriteSet_UpdateCache_def write_value_def GetAddressAndKey_def update_simps)
qed

lemma ReadSet_UpdateCache_eq:
  "ReadSet_UpdateCache K r a k v =
     map_option (rw_put r a k) (read_value K k (GetAddressAndKey r a k) v)"
proof (cases "lookup (cache r) a")
  case None
  then show ?thesis
    by (simp add: ReadSet_UpdateCache_def read_value_def GetAddressAndKey_def update_simps)
next
  case (Some c)
  then show ?thesis
    by (cases "k = SubBalanceKey K"; cases "k = BalanceKey K"; cases "lookup c k") (simp_all add: ReadSet_UpdateCache_def read_value_def GetAddressAndKey_def update_simps)
qed

lemma inner_rw_put: "inner (rw_put r a k v) a' = (if a' = a then AList.update k v (inner r a) else inner r a')"
  by (simp add: rw_put_def inner_def)

lemma GetAddressAndKey_put:
  "GetAddressAndKey (rw_put r a k v) a' k' = (if a' = a \<and> k' = k then Some v else GetAddressAndKey r a' k')"
  by (simp add: GetAddressAndKey_inner inner_rw_put)

text \<open>What the counters count.\<close>

definition rw_inv :: "rwset \<Rightarrow> bool" where
  "rw_inv r \<longleftrightarrow>
     wf_map (cache r) \<and> (\<forall>(a, c) \<in> set (cache r). wf_map c) \<and>
     addressCount r = of_nat (length (cache r)) \<and>
     detailKeyCount r = of_nat (sum_list (map (length \<circ> snd) (cache r)))"

lemma rw_inv_New [simp]: "rw_inv NewReadSet" "rw_inv NewWriteSet"
  by (simp_all add: rw_inv_def NewReadSet_def NewWriteSet_def)

lemma sum_lengths_update:
  "wf_map m \<Longrightarrow> sum_list (map (length \<circ> snd) (AList.update a c m)) +
     (case lookup m a of None \<Rightarrow> 0 | Some d \<Rightarrow> length d) =
   sum_list (map (length \<circ> snd) m) + length c"
  by (induction m) (auto simp: wf_map_def split: option.splits)

lemma set_update_wf:
  "wf_map m \<Longrightarrow> e \<in> set (AList.update k v m) \<longleftrightarrow> e = (k, v) \<or> (e \<in> set m \<and> fst e \<noteq> k)"
  by (induction m) (auto simp: wf_map_def)

lemma rw_inv_put:
  assumes "rw_inv r"
  shows "rw_inv (rw_put r a k v)"
proof -
  have wf: "wf_map (cache r)" using assms by (simp add: rw_inv_def)
  have wfi: "wf_map (inner r a)"
    using assms by (fastforce simp: rw_inv_def inner_def split: option.splits dest: map_of_SomeD)
  have "length (AList.update k v (inner r a)) =
      length (inner r a) + (if lookup (inner r a) k = None then 1 else 0)"
    by (simp add: length_update in_keys_iff_lookup)
  then have "sum_list (map (length \<circ> snd) (AList.update a (AList.update k v (inner r a)) (cache r))) =
      sum_list (map (length \<circ> snd) (cache r)) + (if lookup (inner r a) k = None then 1 else 0)"
    using sum_lengths_update [OF wf, of a "AList.update k v (inner r a)"]
    by (simp add: inner_def split: option.splits)
  moreover have "length (AList.update a (AList.update k v (inner r a)) (cache r)) =
      length (cache r) + (if lookup (cache r) a = None then 1 else 0)"
    by (simp add: length_update in_keys_iff_lookup)
  ultimately show ?thesis
    using assms wfi wf by (auto simp: rw_inv_def rw_put_def set_update_wf)
qed

definition plain_key :: "rw_keys \<Rightarrow> hash \<Rightarrow> bool" where
  "plain_key K k \<longleftrightarrow> k \<noteq> SubBalanceKey K \<and> k \<noteq> BalanceKey K"

interpretation ws: kv_cache GetAddressAndKey "\<lambda>w a k v. WriteSet_UpdateCache K w a k v base"
  "plain_key K" rw_inv for K base
  by unfold_locales
    (auto simp: WriteSet_UpdateCache_eq write_value_def plain_key_def GetAddressAndKey_put rw_inv_put)

interpretation rs: kv_cache GetAddressAndKey "ReadSet_UpdateCache K" "plain_key K" rw_inv for K
  by unfold_locales
    (auto simp: ReadSet_UpdateCache_eq read_value_def plain_key_def GetAddressAndKey_put rw_inv_put)

section \<open>Balances\<close>

lemma WriteSet_credit:
  assumes "BalanceKey K \<noteq> SubBalanceKey K"
    and "GetAddressAndKey w a (BalanceKey K) = Some (VBig b)"
  shows "\<exists>w'. upds (\<lambda>w a k v. WriteSet_UpdateCache K w a k v base) w (map (\<lambda>v. (a, BalanceKey K, VBig v)) vs) = Some w' \<and>
    GetAddressAndKey w' a (BalanceKey K) = Some (VBig (b + sum_list vs))"
  using assms(2)
proof (induction vs arbitrary: w b)
  case Nil
  then show ?case by simp
next
  case (Cons v vs)
  have "WriteSet_UpdateCache K w a (BalanceKey K) (VBig v) base = Some (rw_put w a (BalanceKey K) (VBig (b + v)))"
    using assms(1) Cons.prems by (simp add: WriteSet_UpdateCache_eq write_value_def)
  with Cons.IH [of "rw_put w a (BalanceKey K) (VBig (b + v))" "b + v"] show ?case
    by (simp add: GetAddressAndKey_put add.assoc)
qed

lemma WriteSet_balance_new:
  assumes "BalanceKey K \<noteq> SubBalanceKey K" and "GetAddressAndKey w a (BalanceKey K) = None"
  shows "WriteSet_UpdateCache K w a (BalanceKey K) (VBig v) (VBig base) =
    Some (rw_put w a (BalanceKey K) (VBig (base + v)))"
  using assms by (simp add: WriteSet_UpdateCache_eq write_value_def)

section \<open>Properties\<close>

text \<open>Whatever sequence of updates a transaction makes on an empty read or write set, the address
  counter is the number of addresses, the detail counter the number of keys of all addresses
  (both modulo \<open>2 ^ 32\<close>), and no address or key occurs twice.\<close>

theorem rwset_counters_exact:
  assumes "upds (\<lambda>w a k v. WriteSet_UpdateCache K w a k v base) NewWriteSet es = Some w"
    and "upds (ReadSet_UpdateCache K) NewReadSet fs = Some r"
  shows "rw_inv w \<and> rw_inv r"
  using ws.inv_upds [OF rw_inv_New(2) assms(1)] rs.inv_upds [OF rw_inv_New(1) assms(2)] by blast

theorem rwset_counters_exact_witness:
  "\<exists>w r. upds (\<lambda>w a k v. WriteSet_UpdateCache keys_std w a k v (VBig 0)) NewWriteSet
      [(1, 7, VBytes [1]), (1, 7, VBytes [2]), (1, 8, VBytes [3])] = Some w \<and>
    upds (ReadSet_UpdateCache keys_std) NewReadSet [(2, 9, VHash 5)] = Some r \<and> rw_inv w \<and> rw_inv r"
proof -
  have "\<exists>w. upds (\<lambda>w a k v. WriteSet_UpdateCache keys_std w a k v (VBig 0)) NewWriteSet
      [(1, 7, VBytes [1]), (1, 7, VBytes [2]), (1, 8, VBytes [3])] = Some w"
    "\<exists>r. upds (ReadSet_UpdateCache keys_std) NewReadSet [(2, 9, VHash 5)] = Some r"
    by (simp_all add: WriteSet_UpdateCache_eq ReadSet_UpdateCache_eq write_value_def read_value_def keys_std_def)
  then show ?thesis using rwset_counters_exact by blast
qed

text \<open>On keys other than the two balance keys a write set is a map: after any sequence of writes
  each address and key holds the value written last, or its old value.\<close>

theorem write_set_last_write_wins:
  assumes "\<forall>e \<in> set es. plain_key K (fst (snd e))"
  shows "\<exists>w'. upds (\<lambda>w a k v. WriteSet_UpdateCache K w a k v base) w es = Some w' \<and>
    GetAddressAndKey w' a k = (case map_of (rev (map (\<lambda>(a, k, v). ((a, k), v)) es)) (a, k) of
       Some v \<Rightarrow> Some v | None \<Rightarrow> GetAddressAndKey w a k)"
  using ws.get_upds [OF assms] by blast

theorem write_set_last_write_wins_witness:
  "\<exists>w'. upds (\<lambda>w a k v. WriteSet_UpdateCache keys_std w a k v (VBig 0)) NewWriteSet
      [(1, 7, VBytes [1]), (1, 7, VBytes [2])] = Some w' \<and> GetAddressAndKey w' 1 7 = Some (VBytes [2])"
  using write_set_last_write_wins
    [of "[(1, 7, VBytes [1]), (1, 7, VBytes [2])]" keys_std "VBig 0" NewWriteSet 1 7]
  by (auto simp: plain_key_def keys_std_def)

text \<open>Credits to an address accumulate: after credits of \<open>v\<close> and then \<open>vs\<close> with the balance \<open>b\<close> read
  from the state, the write set holds the balance \<open>b\<close> plus all credits.\<close>

theorem write_set_credits_accumulate:
  assumes "BalanceKey K \<noteq> SubBalanceKey K" and "GetAddressAndKey w a (BalanceKey K) = None"
  shows "\<exists>w'. upds (\<lambda>w a k v. WriteSet_UpdateCache K w a k v (VBig b)) w
      (map (\<lambda>v. (a, BalanceKey K, VBig v)) (v # vs)) = Some w' \<and>
    GetAddressAndKey w' a (BalanceKey K) = Some (VBig (b + sum_list (v # vs)))"
  using WriteSet_credit [OF assms(1), of "rw_put w a (BalanceKey K) (VBig (b + v))" a "b + v" "VBig b" vs]
    WriteSet_balance_new [OF assms]
  by (simp add: GetAddressAndKey_put add.assoc)

theorem write_set_credits_accumulate_witness:
  "\<exists>w'. upds (\<lambda>w a k v. WriteSet_UpdateCache keys_std w a k v (VBig 100)) NewWriteSet
      (map (\<lambda>v. (1, BalanceKey keys_std, VBig v)) [5, 7]) = Some w' \<and>
    GetAddressAndKey w' 1 (BalanceKey keys_std) = Some (VBig 112)"
proof -
  have "BalanceKey keys_std \<noteq> SubBalanceKey keys_std" "GetAddressAndKey NewWriteSet 1 (BalanceKey keys_std) = None"
    by (simp_all add: keys_std_def NewWriteSet_def GetAddressAndKey_def)
  from write_set_credits_accumulate [OF this, of 100 5 "[7]"] show ?thesis by simp
qed

text \<open>Storage slots and reserved keys share one map: a storage write to the slot whose number is the
  balance key panics at the type assertion, for every write set.\<close>

theorem sstore_at_balance_key_panics:
  assumes "BalanceKey K \<noteq> SubBalanceKey K"
  shows "WriteSet_UpdateCache K w a (BalanceKey K) (VBytes b) (VBytes []) = None"
  using assms by (auto simp: WriteSet_UpdateCache_eq write_value_def big_sum_def bind_None_iff split: option.splits)

theorem sstore_at_balance_key_panics_witness:
  "WriteSet_UpdateCache keys_std NewWriteSet 1 (BalanceKey keys_std) (VBytes [1]) (VBytes []) = None"
  using sstore_at_balance_key_panics [of keys_std NewWriteSet 1 "[1]"] by (simp add: keys_std_def)

end
