(* ===== verification/StateDB.thy ===== *)
theory StateDB
  imports CoreTypes
begin

text \<open>
  The state database behind the interface \<^verbatim>\<open>ethvm.StateDB\<close> (\<^verbatim>\<open>vm/ethvm/interface.go\<close>): it lives in
  another repository, so it is two records of functions on an abstract state \<open>'s\<close>, one for
  the accounts and one for refunds, access lists, snapshots and logs. \<open>accounts_spec\<close> and \<open>journal_spec\<close>
  state what theorems assume of them; \<open>std_accounts\<close> and \<open>std_journal\<close> are a concrete database.
  \<^verbatim>\<open>SubRefund\<close> may panic (it does when the counter would go below zero).
\<close>

record metalog =
  log_Address :: address
  log_Topics :: "hash list"
  log_Data :: bytes
  log_BlockNumber :: u64

section \<open>The interface\<close>

record 's account_ops =
  db_CreateAccount :: "'s \<Rightarrow> address \<Rightarrow> 's"
  db_SubBalance :: "'s \<Rightarrow> address \<Rightarrow> int \<Rightarrow> 's"
  db_AddBalance :: "'s \<Rightarrow> address \<Rightarrow> int \<Rightarrow> 's"
  db_GetBalance :: "'s \<Rightarrow> address \<Rightarrow> int"
  db_SetBalance :: "'s \<Rightarrow> address \<Rightarrow> int \<Rightarrow> 's"
  db_GetNonce :: "'s \<Rightarrow> address \<Rightarrow> u64"
  db_SetNonce :: "'s \<Rightarrow> address \<Rightarrow> u64 \<Rightarrow> 's"
  db_GetCodeHash :: "'s \<Rightarrow> address \<Rightarrow> hash"
  db_GetCode :: "'s \<Rightarrow> address \<Rightarrow> bytes"
  db_SetCode :: "'s \<Rightarrow> address \<Rightarrow> bytes \<Rightarrow> 's"
  db_GetCodeSize :: "'s \<Rightarrow> address \<Rightarrow> nat"
  db_GetCommittedState :: "'s \<Rightarrow> address \<Rightarrow> hash \<Rightarrow> hash"
  db_GetState :: "'s \<Rightarrow> address \<Rightarrow> hash \<Rightarrow> hash"
  db_SetState :: "'s \<Rightarrow> address \<Rightarrow> hash \<Rightarrow> hash \<Rightarrow> 's"
  db_Suicide :: "'s \<Rightarrow> address \<Rightarrow> 's"
  db_HasSuicided :: "'s \<Rightarrow> address \<Rightarrow> bool"
  db_Exist :: "'s \<Rightarrow> address \<Rightarrow> bool"
  db_Empty :: "'s \<Rightarrow> address \<Rightarrow> bool"

record 's journal_ops =
  db_AddRefund :: "'s \<Rightarrow> u64 \<Rightarrow> 's"
  db_SubRefund :: "'s \<Rightarrow> u64 \<Rightarrow> 's option"
  db_GetRefund :: "'s \<Rightarrow> u64"
  db_AddressInAccessList :: "'s \<Rightarrow> address \<Rightarrow> bool"
  db_SlotInAccessList :: "'s \<Rightarrow> address \<Rightarrow> hash \<Rightarrow> bool \<times> bool"
  db_AddAddressToAccessList :: "'s \<Rightarrow> address \<Rightarrow> 's"
  db_AddSlotToAccessList :: "'s \<Rightarrow> address \<Rightarrow> hash \<Rightarrow> 's"
  db_Snapshot :: "'s \<Rightarrow> nat \<times> 's"
  db_RevertToSnapshot :: "'s \<Rightarrow> nat \<Rightarrow> 's"
  db_AddLogWithTxHash :: "'s \<Rightarrow> metalog \<Rightarrow> hash \<Rightarrow> 's"
  db_AddPreimage :: "'s \<Rightarrow> hash \<Rightarrow> bytes \<Rightarrow> 's"
  db_Prepare :: "'s \<Rightarrow> hash \<Rightarrow> nat \<Rightarrow> 's"
  db_Finalise :: "'s \<Rightarrow> bool \<Rightarrow> 's"

section \<open>Documented behaviour\<close>

text \<open>A write to one account is seen there and leaves the balances, nonces, codes and slots of all
  accounts as they were otherwise.\<close>

definition same_but_balance :: "'s account_ops \<Rightarrow> 's \<Rightarrow> 's \<Rightarrow> bool" where
  "same_but_balance A s s' \<longleftrightarrow>
     db_GetNonce A s' = db_GetNonce A s \<and> db_GetCode A s' = db_GetCode A s \<and>
     db_GetState A s' = db_GetState A s"

definition accounts_spec :: "'s account_ops \<Rightarrow> bool" where
  "accounts_spec A \<longleftrightarrow>
     (\<forall>s a v. db_GetBalance A (db_SetBalance A s a v) = (db_GetBalance A s)(a := v) \<and>
        same_but_balance A s (db_SetBalance A s a v)) \<and>
     (\<forall>s a v. db_GetBalance A (db_SubBalance A s a v) = (db_GetBalance A s)(a := db_GetBalance A s a - v) \<and>
        same_but_balance A s (db_SubBalance A s a v)) \<and>
     (\<forall>s a v. db_GetBalance A (db_AddBalance A s a v) = (db_GetBalance A s)(a := db_GetBalance A s a + v) \<and>
        same_but_balance A s (db_AddBalance A s a v)) \<and>
     (\<forall>s a n. db_GetNonce A (db_SetNonce A s a n) = (db_GetNonce A s)(a := n) \<and>
        db_GetBalance A (db_SetNonce A s a n) = db_GetBalance A s \<and>
        db_GetCode A (db_SetNonce A s a n) = db_GetCode A s \<and>
        db_GetState A (db_SetNonce A s a n) = db_GetState A s) \<and>
     (\<forall>s a c. db_GetCode A (db_SetCode A s a c) = (db_GetCode A s)(a := c) \<and>
        db_GetBalance A (db_SetCode A s a c) = db_GetBalance A s \<and>
        db_GetNonce A (db_SetCode A s a c) = db_GetNonce A s \<and>
        db_GetState A (db_SetCode A s a c) = db_GetState A s) \<and>
     (\<forall>s a k v. db_GetState A (db_SetState A s a k v) =
          (db_GetState A s)(a := (db_GetState A s a)(k := v)) \<and>
        db_GetBalance A (db_SetState A s a k v) = db_GetBalance A s \<and>
        db_GetNonce A (db_SetState A s a k v) = db_GetNonce A s \<and>
        db_GetCode A (db_SetState A s a k v) = db_GetCode A s) \<and>
     (\<forall>s a. db_GetBalance A (db_CreateAccount A s a) = db_GetBalance A s)"

text \<open>\<open>core s\<close> is the part of the state that snapshots save, \<open>snap s i\<close> the part saved under the open
  snapshot \<open>i\<close>. Ids grow; reverting restores the saved part and keeps the older snapshots; the other
  operations keep all of them.\<close>

definition keeps_snaps :: "('s \<Rightarrow> nat \<Rightarrow> 'c option) \<Rightarrow> 's \<Rightarrow> 's \<Rightarrow> bool" where
  "keeps_snaps snap s s' \<longleftrightarrow> (\<forall>i c. snap s i = Some c \<longrightarrow> snap s' i = Some c)"

lemma keeps_snaps_refl [simp]: "keeps_snaps snap s s"
  by (simp add: keeps_snaps_def)

lemma keeps_snaps_trans:
  "keeps_snaps snap s t \<Longrightarrow> keeps_snaps snap t u \<Longrightarrow> keeps_snaps snap s u"
  by (simp add: keeps_snaps_def)

definition journal_spec ::
  "'s account_ops \<Rightarrow> 's journal_ops \<Rightarrow> ('s \<Rightarrow> 'c) \<Rightarrow> ('s \<Rightarrow> nat \<Rightarrow> 'c option) \<Rightarrow> bool" where
  "journal_spec A J core snap \<longleftrightarrow>
     (\<forall>s i s'. db_Snapshot J s = (i, s') \<longrightarrow> snap s' i = Some (core s) \<and> core s' = core s \<and>
        keeps_snaps snap s s' \<and> (\<forall>j c. snap s j = Some c \<longrightarrow> j < i)) \<and>
     (\<forall>s i c. snap s i = Some c \<longrightarrow> core (db_RevertToSnapshot J s i) = c \<and>
        (\<forall>j < i. snap (db_RevertToSnapshot J s i) j = snap s j)) \<and>
     (\<forall>s n. keeps_snaps snap s (db_AddRefund J s n)) \<and>
     (\<forall>s s' n. db_SubRefund J s n = Some s' \<longrightarrow> keeps_snaps snap s s') \<and>
     (\<forall>s a. keeps_snaps snap s (db_AddAddressToAccessList J s a)) \<and>
     (\<forall>s a k. keeps_snaps snap s (db_AddSlotToAccessList J s a k)) \<and>
     (\<forall>s h d. keeps_snaps snap s (db_AddPreimage J s h d)) \<and>
     (\<forall>s a v. keeps_snaps snap s (db_AddBalance A s a v)) \<and>
     (\<forall>s a. keeps_snaps snap s (db_Suicide A s a)) \<and>
     (\<forall>s a. keeps_snaps snap s (db_CreateAccount A s a))"

text \<open>Refunds and access lists are books of their own: they add up and remember, and leave the slots alone.\<close>

definition books_spec :: "'s account_ops \<Rightarrow> 's journal_ops \<Rightarrow> bool" where
  "books_spec A J \<longleftrightarrow>
     (\<forall>s n. db_GetState A (db_AddRefund J s n) = db_GetState A s \<and>
        db_GetCommittedState A (db_AddRefund J s n) = db_GetCommittedState A s \<and>
        db_SlotInAccessList J (db_AddRefund J s n) = db_SlotInAccessList J s \<and>
        db_GetRefund J (db_AddRefund J s n) = db_GetRefund J s + n) \<and>
     (\<forall>s a k. db_GetState A (db_AddSlotToAccessList J s a k) = db_GetState A s \<and>
        db_GetCommittedState A (db_AddSlotToAccessList J s a k) = db_GetCommittedState A s \<and>
        db_GetRefund J (db_AddSlotToAccessList J s a k) = db_GetRefund J s \<and>
        db_SlotInAccessList J (db_AddSlotToAccessList J s a k) a k = (True, True))"

lemma books_specD:
  assumes "books_spec A J"
  shows "db_GetState A (db_AddRefund J s n) = db_GetState A s"
    "db_GetCommittedState A (db_AddRefund J s n) = db_GetCommittedState A s"
    "db_SlotInAccessList J (db_AddRefund J s n) = db_SlotInAccessList J s"
    "db_GetRefund J (db_AddRefund J s n) = db_GetRefund J s + n"
    "db_GetState A (db_AddSlotToAccessList J s a k) = db_GetState A s"
    "db_GetCommittedState A (db_AddSlotToAccessList J s a k) = db_GetCommittedState A s"
    "db_GetRefund J (db_AddSlotToAccessList J s a k) = db_GetRefund J s"
    "db_SlotInAccessList J (db_AddSlotToAccessList J s a k) a k = (True, True)"
  using assms by (simp_all add: books_spec_def)

section \<open>A concrete database\<close>

record std_core =
  sc_balance :: "address \<Rightarrow> int"
  sc_nonce :: "address \<Rightarrow> u64"
  sc_code :: "address \<Rightarrow> bytes"
  sc_slots :: "address \<Rightarrow> hash \<Rightarrow> hash"
  sc_committed :: "address \<Rightarrow> hash \<Rightarrow> hash"
  sc_suicided :: "address list"
  sc_created :: "address list"
  sc_refund :: u64
  sc_warm :: "address list"
  sc_warm_slots :: "(address \<times> hash) list"

type_synonym std_db = "std_core \<times> (nat \<times> std_core) list"

definition std_core_empty :: std_core where
  "std_core_empty = \<lparr>sc_balance = (\<lambda>_. 0), sc_nonce = (\<lambda>_. 0), sc_code = (\<lambda>_. []),
     sc_slots = (\<lambda>_ _. 0), sc_committed = (\<lambda>_ _. 0), sc_suicided = [], sc_created = [],
     sc_refund = 0, sc_warm = [], sc_warm_slots = []\<rparr>"

definition std_accounts :: "std_db account_ops" where
  "std_accounts = \<lparr>
     db_CreateAccount = (\<lambda>(c, j) a. (c\<lparr>sc_created := a # sc_created c\<rparr>, j)),
     db_SubBalance = (\<lambda>(c, j) a v. (c\<lparr>sc_balance := (sc_balance c)(a := sc_balance c a - v)\<rparr>, j)),
     db_AddBalance = (\<lambda>(c, j) a v. (c\<lparr>sc_balance := (sc_balance c)(a := sc_balance c a + v)\<rparr>, j)),
     db_GetBalance = (\<lambda>(c, j). sc_balance c),
     db_SetBalance = (\<lambda>(c, j) a v. (c\<lparr>sc_balance := (sc_balance c)(a := v)\<rparr>, j)),
     db_GetNonce = (\<lambda>(c, j). sc_nonce c),
     db_SetNonce = (\<lambda>(c, j) a n. (c\<lparr>sc_nonce := (sc_nonce c)(a := n)\<rparr>, j)),
     db_GetCodeHash = (\<lambda>(c, j) a. of_nat (be_nat (sc_code c a))),
     db_GetCode = (\<lambda>(c, j). sc_code c),
     db_SetCode = (\<lambda>(c, j) a b. (c\<lparr>sc_code := (sc_code c)(a := b)\<rparr>, j)),
     db_GetCodeSize = (\<lambda>(c, j) a. length (sc_code c a)),
     db_GetCommittedState = (\<lambda>(c, j). sc_committed c),
     db_GetState = (\<lambda>(c, j). sc_slots c),
     db_SetState = (\<lambda>(c, j) a k v. (c\<lparr>sc_slots := (sc_slots c)(a := (sc_slots c a)(k := v))\<rparr>, j)),
     db_Suicide = (\<lambda>(c, j) a. (c\<lparr>sc_suicided := a # sc_suicided c\<rparr>, j)),
     db_HasSuicided = (\<lambda>(c, j) a. a \<in> set (sc_suicided c)),
     db_Exist = (\<lambda>(c, j) a. a \<in> set (sc_created c) \<or> sc_balance c a \<noteq> 0 \<or> sc_nonce c a \<noteq> 0 \<or> sc_code c a \<noteq> []),
     db_Empty = (\<lambda>(c, j) a. sc_balance c a = 0 \<and> sc_nonce c a = 0 \<and> sc_code c a = [])\<rparr>"

definition std_journal :: "std_db journal_ops" where
  "std_journal = \<lparr>
     db_AddRefund = (\<lambda>(c, j) n. (c\<lparr>sc_refund := sc_refund c + n\<rparr>, j)),
     db_SubRefund = (\<lambda>(c, j) n. if n > sc_refund c then None else Some (c\<lparr>sc_refund := sc_refund c - n\<rparr>, j)),
     db_GetRefund = (\<lambda>(c, j). sc_refund c),
     db_AddressInAccessList = (\<lambda>(c, j) a. a \<in> set (sc_warm c)),
     db_SlotInAccessList = (\<lambda>(c, j) a k. (a \<in> set (sc_warm c), (a, k) \<in> set (sc_warm_slots c))),
     db_AddAddressToAccessList = (\<lambda>(c, j) a. (c\<lparr>sc_warm := a # sc_warm c\<rparr>, j)),
     db_AddSlotToAccessList =
       (\<lambda>(c, j) a k. (c\<lparr>sc_warm := a # sc_warm c, sc_warm_slots := (a, k) # sc_warm_slots c\<rparr>, j)),
     db_Snapshot = (\<lambda>(c, j). (length j, (c, j @ [(length j, c)]))),
     db_RevertToSnapshot = (\<lambda>(c, j) i. if i < length j then (snd (j ! i), take i j) else (c, j)),
     db_AddLogWithTxHash = (\<lambda>s _ _. s),
     db_AddPreimage = (\<lambda>s _ _. s),
     db_Prepare = (\<lambda>s _ _. s),
     db_Finalise = (\<lambda>s _. s)\<rparr>"

lemma std_accounts_spec: "accounts_spec std_accounts"
  by (simp add: accounts_spec_def std_accounts_def same_but_balance_def split: prod.splits)

lemma std_books_spec: "books_spec std_accounts std_journal"
  by (simp add: books_spec_def std_accounts_def std_journal_def split: prod.splits)

definition std_snap :: "std_db \<Rightarrow> nat \<Rightarrow> std_core option" where
  "std_snap s i = (if i < length (snd s) then Some (snd (snd s ! i)) else None)"

lemma std_journal_spec: "journal_spec std_accounts std_journal fst std_snap"
  by (auto simp: journal_spec_def std_accounts_def std_journal_def keeps_snaps_def std_snap_def
      nth_append split: if_splits)

end
