(* ===== verification/Errors.thy ===== *)
theory Errors
  imports Prelude
begin

text \<open>
  The errors of \<^verbatim>\<open>vm/ethvm/errors.go\<close> as one datatype. \<open>ErrStopToken\<close> is the internal token \<^verbatim>\<open>errStopToken\<close> that ends a
  run without an error; \<open>ErrPrecompile\<close> carries the messages of the errors that \<^verbatim>\<open>contracts.go\<close> and the
  cryptographic libraries make up.
\<close>

datatype vm_error =
    ErrOutOfGas | ErrCodeStoreOutOfGas | ErrDepth | ErrInsufficientBalance
  | ErrContractAddressCollision | ErrExecutionReverted | ErrMaxCodeSizeExceeded | ErrInvalidJump
  | ErrWriteProtection | ErrReturnDataOutOfBounds | ErrGasUintOverflow | ErrInvalidCode
  | ErrNonceUintOverflow | ErrStopToken
  | ErrStackUnderflow int int | ErrStackOverflow int int | ErrInvalidOpCode u8
  | ErrReentrancySentry | ErrPrecompile string

end
