(* ===== verification/Precompiles.thy ===== *)
theory Precompiles
  imports Common Errors
begin

text \<open>
  The native contracts of \<^verbatim>\<open>vm/ethvm/contracts.go\<close>: an interface of a gas function and a run function, and the
  runner that charges the one before it starts the other. Hashes and curve operations are library calls and
  come in the record \<open>crypto_ops\<close>; the slicing, padding and checking around them is the code's.
\<close>

record precompile =
  RequiredGas :: "bytes \<Rightarrow> u64 option"
  pre_Run :: "bytes \<Rightarrow> (bytes \<times> vm_error option) option"

definition RunRrecompiledContractPre ::
  "precompile \<Rightarrow> bytes \<Rightarrow> u64 \<Rightarrow> (bytes \<times> u64 \<times> vm_error option) option" where
  "RunRrecompiledContractPre p input suppliedGas = do {
     gasCost \<leftarrow> RequiredGas p input;
     if suppliedGas < gasCost then Some ([], 0, Some ErrOutOfGas)
     else do {
       (res, err) \<leftarrow> pre_Run p input;
       Some (res, suppliedGas - gasCost, err)
     }
   }"

text \<open>Words are \<^verbatim>\<open>uint64(len(input)+31)/32\<close>.\<close>

definition input_words :: "bytes \<Rightarrow> u64" where
  "input_words input = of_nat (length input + 31) div 32"

definition dataCopy :: precompile where
  "dataCopy = \<lparr>RequiredGas = (\<lambda>input. Some (input_words input * IdentityPerWordGas + IdentityBaseGas)),
     pre_Run = (\<lambda>input. Some (input, None))\<rparr>"

lemma precompile_gas_left:
  assumes "RunRrecompiledContractPre p input gas = Some (res, left, err)"
  shows "left \<le> gas"
  using assms
  by (auto simp: RunRrecompiledContractPre_def bind_Some_iff word_le_nat_alt unat_sub_u64 not_less split: if_splits)

end
