(* ===== verification/VM.thy ===== *)
theory VM
  imports Stack Memory Bitvec RWSet StateDB Precompiles
begin

text \<open>
  The state of the machine: contracts (\<^verbatim>\<open>vm/ethvm/contract.go\<close>), the
  context and the fields of \<^verbatim>\<open>ETHVM\<close> and \<^verbatim>\<open>VMInterpreter\<close> that change during execution. A pointer to the
  parent contract is kept as the fields a callee reads of it. The map of jump-destination
  analyses that a contract shares with its callees is an entry of a store, and contracts hold its
  position.
\<close>

section \<open>Contracts\<close>

datatype contract_ref =
    AccountRef (ref_Address: address)
  | ContractRef (ref_Address: address) (ref_CallerAddress: address) (ref_value: "int option")
      (ref_jumpdests: nat)

type_synonym jumpdest_store = "(hash, bitvec) gomap list"

record contract =
  CallerAddress :: address
  caller :: contract_ref
  self :: address
  jumpdests :: nat
  analysis :: "bitvec option"
  Code :: bytes
  CodeHash :: hash
  CodeAddr :: "address option"
  Input :: bytes
  Gas :: u64
  c_value :: "int option"

definition as_ref :: "contract \<Rightarrow> contract_ref" where
  "as_ref c = ContractRef (self c) (CallerAddress c) (c_value c) (jumpdests c)"

definition NewContract ::
  "jumpdest_store \<Rightarrow> contract_ref \<Rightarrow> address \<Rightarrow> int option \<Rightarrow> u64 \<Rightarrow> contract \<times> jumpdest_store" where
  "NewContract jds cr object val gas =
     (let c = \<lparr>CallerAddress = ref_Address cr, caller = cr, self = object, jumpdests = 0, analysis = None,
               Code = [], CodeHash = 0, CodeAddr = None, Input = [], Gas = gas, c_value = val\<rparr>
      in case cr of
           ContractRef _ _ _ jd \<Rightarrow> (c\<lparr>jumpdests := jd\<rparr>, jds)
         | AccountRef _ \<Rightarrow> (c\<lparr>jumpdests := length jds\<rparr>, jds @ [[]]))"

definition isCode :: "jumpdest_store \<Rightarrow> contract \<Rightarrow> nat \<Rightarrow> (bool \<times> contract \<times> jumpdest_store) option" where
  "isCode jds c udest =
     (case analysis c of
        Some bv \<Rightarrow> do { b \<leftarrow> codeSegment bv udest; Some (b, c, jds) }
      | None \<Rightarrow>
          (if CodeHash c \<noteq> 0 then do {
             m \<leftarrow> go_index jds (jumpdests c);
             (bv, jds) \<leftarrow> (case lookup m (CodeHash c) of
                 Some bv \<Rightarrow> Some (bv, jds)
               | None \<Rightarrow> do {
                   bv \<leftarrow> codeBitmap (Code c);
                   jds \<leftarrow> go_update jds (jumpdests c) (AList.update (CodeHash c) bv m);
                   Some (bv, jds)
                 });
             b \<leftarrow> codeSegment bv udest;
             Some (b, c\<lparr>analysis := Some bv\<rparr>, jds)
           } else do {
             bv \<leftarrow> codeBitmap (Code c);
             b \<leftarrow> codeSegment bv udest;
             Some (b, c\<lparr>analysis := Some bv\<rparr>, jds)
           }))"

definition validJumpdest ::
  "uint256_ops \<Rightarrow> jumpdest_store \<Rightarrow> contract \<Rightarrow> u256 \<Rightarrow> (bool \<times> contract \<times> jumpdest_store) option" where
  "validJumpdest U jds c dest =
     (let (udest, overflow) = u_Uint64WithOverflow U dest in
      if overflow \<or> unat udest \<ge> length (Code c) then Some (False, c, jds)
      else do {
        op \<leftarrow> go_index (Code c) (unat udest);
        if op \<noteq> OP_JUMPDEST then Some (False, c, jds)
        else isCode jds c (unat udest)
      })"

text \<open>\<^verbatim>\<open>AsDelegate\<close> asserts that the caller is a contract.\<close>

definition AsDelegate :: "contract \<Rightarrow> contract option" where
  "AsDelegate c =
     (case caller c of
        ContractRef _ parentCaller parentValue _ \<Rightarrow>
          Some (c\<lparr>CallerAddress := parentCaller, c_value := parentValue\<rparr>)
      | AccountRef _ \<Rightarrow> None)"

definition GetOp :: "contract \<Rightarrow> u64 \<Rightarrow> u8" where
  "GetOp c n = (if unat n < length (Code c) then Code c ! unat n else OP_STOP)"

definition UseGas :: "contract \<Rightarrow> u64 \<Rightarrow> bool \<times> contract" where
  "UseGas c gas = (if Gas c < gas then (False, c) else (True, c\<lparr>Gas := Gas c - gas\<rparr>))"

definition SetCallCode :: "contract \<Rightarrow> address \<Rightarrow> hash \<Rightarrow> bytes \<Rightarrow> contract" where
  "SetCallCode c addr h code = c\<lparr>Code := code, CodeHash := h, CodeAddr := Some addr\<rparr>"

definition SetCodeOptionalHash :: "contract \<Rightarrow> address \<Rightarrow> bytes \<Rightarrow> hash \<Rightarrow> contract" where
  "SetCodeOptionalHash c addr code h = c\<lparr>Code := code, CodeHash := h, CodeAddr := Some addr\<rparr>"

section \<open>Jump destinations\<close>

definition valid_dest :: "bytes \<Rightarrow> u256 \<Rightarrow> bool" where
  "valid_dest code dest \<longleftrightarrow>
     unat dest < length code \<and> code ! unat dest = OP_JUMPDEST \<and> \<not> code_marks code ! unat dest"

text \<open>The kept analyses belong to the code with their hash; \<open>code_of\<close> is that code.\<close>

definition store_ok :: "(hash \<Rightarrow> bytes) \<Rightarrow> jumpdest_store \<Rightarrow> bool" where
  "store_ok code_of jds \<longleftrightarrow>
     (\<forall>m \<in> set jds. \<forall>h bv. lookup m h = Some bv \<longrightarrow> bm.answers_for bv (code_of h))"

definition contract_ok :: "(hash \<Rightarrow> bytes) \<Rightarrow> jumpdest_store \<Rightarrow> contract \<Rightarrow> bool" where
  "contract_ok code_of jds c \<longleftrightarrow>
     jumpdests c < length jds \<and>
     (CodeHash c \<noteq> 0 \<longrightarrow> Code c = code_of (CodeHash c)) \<and>
     (\<forall>bv. analysis c = Some bv \<longrightarrow> bm.answers_for bv (Code c))"

lemma analysis_same [simp]: "\<exists>bv. c = c\<lparr>analysis := bv\<rparr>"
  by (rule exI [of _ "analysis c"]) simp

lemma store_ok_lookup:
  "store_ok code_of jds \<Longrightarrow> i < length jds \<Longrightarrow> lookup (jds ! i) h = Some bv \<Longrightarrow> bm.answers_for bv (code_of h)"
  using nth_mem by (fastforce simp: store_ok_def)

lemma store_ok_update:
  assumes "store_ok code_of jds" and "i < length jds" and "bm.answers_for bv (code_of h)"
  shows "store_ok code_of (jds[i := AList.update h bv (jds ! i)])"
  using assms store_ok_lookup [OF assms(1,2)]
  by (auto simp: store_ok_def dest!: set_update_subset_insert [THEN subsetD] split: if_splits)

lemma isCode_correct:
  assumes "store_ok code_of jds" and "contract_ok code_of jds c" and "i < length (Code c)"
  shows "\<exists>c' jds'. isCode jds c i = Some (\<not> code_marks (Code c) ! i, c', jds') \<and>
    store_ok code_of jds' \<and> contract_ok code_of jds' c' \<and> length jds' = length jds \<and>
    (\<exists>bv. c' = c\<lparr>analysis := bv\<rparr>)"
proof (cases "analysis c")
  case (Some bv)
  then have "bm.answers_for bv (Code c)" using assms(2) by (simp add: contract_ok_def)
  then have "codeSegment bv i = Some (\<not> code_marks (Code c) ! i)"
    using assms(3) by (rule bm.answers_for_seg)
  then show ?thesis using Some assms by (auto simp: isCode_def)
next
  case None
  obtain bv where bv: "codeBitmap (Code c) = Some bv" "bm.answers_for bv (Code c)"
    by (rule bm.analyse_answers)
  have seg: "codeSegment bv i = Some (\<not> code_marks (Code c) ! i)"
    using bv(2) assms(3) by (rule bm.answers_for_seg)
  have ok: "contract_ok code_of jds' (c\<lparr>analysis := Some bv\<rparr>)" if "length jds' = length jds" for jds'
    using assms(2) bv that by (simp add: contract_ok_def)
  have jd: "jumpdests c < length jds" using assms(2) by (simp add: contract_ok_def)
  show ?thesis
  proof (cases "CodeHash c = 0")
    case True
    with None bv seg ok assms(1) show ?thesis by (simp add: isCode_def) blast
  next
    case False
    then have code: "Code c = code_of (CodeHash c)" using assms(2) by (simp add: contract_ok_def)
    show ?thesis
    proof (cases "lookup (jds ! jumpdests c) (CodeHash c)")
      case None': None
      let ?jds = "jds[jumpdests c := AList.update (CodeHash c) bv (jds ! jumpdests c)]"
      have "store_ok code_of ?jds" using assms(1) jd bv(2) code by (intro store_ok_update) simp_all
      moreover have "isCode jds c i = Some (\<not> code_marks (Code c) ! i, c\<lparr>analysis := Some bv\<rparr>, ?jds)"
        using False None None' jd bv seg by (simp add: isCode_def go_index_def go_update_def)
      ultimately show ?thesis using ok [of ?jds] by auto
    next
      case (Some bv')
      then have "bm.answers_for bv' (Code c)" using store_ok_lookup [OF assms(1) jd] code by simp
      then have "bv' = bv" using bv(2) by (rule bm.answers_for_unique)
      with False None Some jd seg ok [of jds] assms(1) show ?thesis
        by (simp add: isCode_def go_index_def) blast
    qed
  qed
qed

lemma validJumpdest_correct:
  assumes "uint256_spec U" and "store_ok code_of jds" and "contract_ok code_of jds c"
    and "length (Code c) < 2 ^ 63"
  shows "\<exists>c' jds'. validJumpdest U jds c dest = Some (valid_dest (Code c) dest, c', jds') \<and>
    store_ok code_of jds' \<and> contract_ok code_of jds' c' \<and> length jds' = length jds \<and>
    (\<exists>bv. c' = c\<lparr>analysis := bv\<rparr>)"
proof -
  let ?u = "ucast dest :: u64"
  have u: "unat ?u = unat dest" if "unat dest < 2 ^ 64"
    using that by (simp add: unat_ucast_u64)
  consider "2 ^ 64 \<le> unat dest \<or> length (Code c) \<le> unat ?u"
    | "unat dest < 2 ^ 64" "unat dest < length (Code c)" "Code c ! unat dest \<noteq> OP_JUMPDEST"
    | "unat dest < 2 ^ 64" "unat dest < length (Code c)" "Code c ! unat dest = OP_JUMPDEST"
    using u by fastforce
  then show ?thesis
  proof cases
    case 1
    then have "\<not> valid_dest (Code c) dest" using u assms(4) by (auto simp: valid_dest_def)
    moreover from 1 have "validJumpdest U jds c dest = Some (False, c, jds)"
      by (auto simp: validJumpdest_def uint256_specD [OF assms(1)])
    ultimately show ?thesis using assms by auto
  next
    case 2
    then show ?thesis using assms u
      by (auto simp: validJumpdest_def valid_dest_def uint256_specD [OF assms(1)] go_index_def)
  next
    case 3
    with isCode_correct [OF assms(2,3) 3(2)] u show ?thesis
      by (auto simp: validJumpdest_def valid_dest_def uint256_specD [OF assms(1)] go_index_def)
  qed
qed

section \<open>Gas of a contract\<close>

lemma UseGas_exact:
  "UseGas c g = (if unat g \<le> unat (Gas c) then (True, c\<lparr>Gas := Gas c - g\<rparr>) else (False, c))"
  by (simp add: UseGas_def word_less_nat_alt)

section \<open>The machine\<close>

text \<open>\<^verbatim>\<open>big.Int.Uint64\<close> gives the low 64 bits of the absolute value.\<close>

definition big_Uint64 :: "int \<Rightarrow> u64" where
  "big_Uint64 x = word_of_int \<bar>x\<bar>"

record 's env =
  eU :: uint256_ops
  eG :: geth_ops
  eA :: "'s account_ops"
  eJ :: "'s journal_ops"
  eK :: rw_keys
  ePre :: "address \<Rightarrow> precompile option"
  CanTransfer :: "'s \<Rightarrow> address \<Rightarrow> int \<Rightarrow> bool"
  GetHash :: "u64 \<Rightarrow> hash"
  Coinbase :: address
  GasLimit :: u64
  BlockNumber :: int
  Time :: int
  Difficulty :: int
  BaseFee :: "int option"
  Random :: "hash option"
  Origin :: address
  TxGasPrice :: int
  ChainID :: "int option"
  EnablePreimageRecording :: bool

record 's vm =
  vDB :: 's
  vReadSet :: rwset
  vWriteSet :: rwset
  vLogs :: "metalog list"
  depth :: int
  abort :: bool
  callGasTemp :: u64
  readOnly :: bool
  returnData :: bytes
  jdstore :: jumpdest_store

text \<open>A frame is what an instruction sees: the machine, and the program counter, memory, stack and contract of the
  running call (\<^verbatim>\<open>ScopeContext\<close>).\<close>

record 's frame =
  f_vm :: "'s vm"
  f_pc :: u64
  f_mem :: memory
  f_stack :: stack
  f_con :: contract

section \<open>A concrete machine\<close>

text \<open>An environment over the concrete libraries and database, and a frame of a contract with the address \<open>0xC0\<close>;
  witnesses evaluate on them.\<close>

definition std_env :: "std_db env" where
  "std_env = \<lparr>eU = uint256_std, eG = geth_std, eA = std_accounts, eJ = std_journal, eK = keys_std,
     ePre = (\<lambda>a. if a = 4 then Some dataCopy else None),
     CanTransfer = (\<lambda>s a v. v \<le> sc_balance (fst s) a), GetHash = (\<lambda>n. ucast n), Coinbase = 0xFE,
     GasLimit = 30000000, BlockNumber = 7, Time = 1700000000, Difficulty = 0, BaseFee = Some 10,
     Random = None, Origin = 0xA0, TxGasPrice = 20, ChainID = Some 1, EnablePreimageRecording = False\<rparr>"

definition std_vm :: "std_core \<Rightarrow> std_db vm" where
  "std_vm c = \<lparr>vDB = (c, []), vReadSet = NewReadSet, vWriteSet = NewWriteSet, vLogs = [], depth = 0,
     abort = False, callGasTemp = 0, readOnly = False, returnData = [], jdstore = [[]]\<rparr>"

definition std_contract :: "bytes \<Rightarrow> u64 \<Rightarrow> contract" where
  "std_contract code gas = \<lparr>CallerAddress = 0xA0, caller = AccountRef 0xA0, self = 0xC0, jumpdests = 0,
     analysis = None, Code = code, CodeHash = 0, CodeAddr = Some 0xC0, Input = [], Gas = gas, c_value = Some 0\<rparr>"

definition std_frame :: "std_core \<Rightarrow> stack \<Rightarrow> bytes \<Rightarrow> u64 \<Rightarrow> std_db frame" where
  "std_frame c st code gas = \<lparr>f_vm = std_vm c, f_pc = 0, f_mem = NewMemory, f_stack = st,
     f_con = std_contract code gas\<rparr>"

lemma std_env_simps [simp]:
  "eU std_env = uint256_std" "eG std_env = geth_std" "eA std_env = std_accounts" "eJ std_env = std_journal"
  "eK std_env = keys_std"
  by (simp_all add: std_env_def)

section \<open>Properties\<close>

text \<open>C17. A jump is accepted exactly when it lands on a \<^verbatim>\<open>JUMPDEST\<close> byte of the code that is not data of a push,
  whether the analysis is computed or comes from the store that callees share, and the check leaves
  the store correct for every later jump.\<close>

theorem jump_destinations:
  assumes "uint256_spec U" and "store_ok code_of jds" and "contract_ok code_of jds c"
    and "length (Code c) < 2 ^ 63"
  shows "\<exists>c' jds'. validJumpdest U jds c dest = Some (valid_dest (Code c) dest, c', jds') \<and>
    store_ok code_of jds' \<and> contract_ok code_of jds' c' \<and> (\<exists>bv. c' = c\<lparr>analysis := bv\<rparr>)"
  using validJumpdest_correct [OF assms] by blast

theorem jump_destinations_witness:
  "\<exists>c' jds'. validJumpdest uint256_std [[]] (std_contract [0x60, 0x5B, 0x5B] 0) 2 = Some (True, c', jds')"
proof -
  have "valid_dest [0x60, 0x5B, 0x5B] 2" by code_simp
  then show ?thesis
    using jump_destinations [OF uint256_std_spec, of "\<lambda>_. []" "[[]]" "std_contract [0x60, 0x5B, 0x5B] 0" 2]
    by (auto simp: store_ok_def contract_ok_def std_contract_def)
qed

text \<open>\<^verbatim>\<open>UseGas\<close> charges an amount the contract has and refuses, changing nothing, any other amount; and a
  delegated contract acts with its parent's caller and value, where a caller that is no contract
  makes \<^verbatim>\<open>AsDelegate\<close> panic.\<close>

theorem gas_and_delegation:
  "UseGas c g = (if unat g \<le> unat (Gas c) then (True, c\<lparr>Gas := Gas c - g\<rparr>) else (False, c)) \<and>
   unat (Gas (snd (UseGas c g))) + (if fst (UseGas c g) then unat g else 0) = unat (Gas c) \<and>
   AsDelegate (fst (NewContract jds (as_ref p) a v gas)) =
     Some ((fst (NewContract jds (as_ref p) a v gas))\<lparr>CallerAddress := CallerAddress p, c_value := c_value p\<rparr>) \<and>
   AsDelegate (fst (NewContract jds (AccountRef b) a v gas)) = None"
  by (simp add: UseGas_exact word_le_nat_alt unat_sub_u64 AsDelegate_def NewContract_def as_ref_def Let_def)

end
