(* ===== verification/GasTable.thy ===== *)
theory GasTable
  imports VM
begin

text \<open>
  Gas and memory sizes of the instructions: \<^verbatim>\<open>vm/ethvm/gas.go\<close>, \<^verbatim>\<open>gas_table.go\<close>, \<^verbatim>\<open>memory_table.go\<close> and
  \<^verbatim>\<open>operations_acl.go\<close>. A gas function takes the frame and the memory size the instruction needs and
  answers the changed frame with an error (\<open>Inl\<close>) or the gas (\<open>Inr\<close>); all arithmetic is \<^verbatim>\<open>uint64\<close>. \<open>gthen\<close>
  continues after a success. The gas total of a memory of \<open>w\<close> words is \<open>mem_fee w\<close>.
\<close>

type_synonym 's gas_func =
  "'s env \<Rightarrow> 's frame \<Rightarrow> u64 \<Rightarrow> ('s frame \<times> (vm_error + u64)) option"

definition gthen ::
  "('f \<times> ('e + 'a)) option \<Rightarrow> ('f \<Rightarrow> 'a \<Rightarrow> ('f \<times> ('e + 'b)) option) \<Rightarrow> ('f \<times> ('e + 'b)) option" where
  "gthen x k = (case x of
     None \<Rightarrow> None
   | Some (f, Inl e) \<Rightarrow> Some (f, Inl e)
   | Some (f, Inr v) \<Rightarrow> k f v)"

lemma gthen_simps [simp]:
  "gthen None k = None" "gthen (Some (f, Inl e)) k = Some (f, Inl e)" "gthen (Some (f, Inr v)) k = k f v"
  by (simp_all add: gthen_def)

lemma gthen_Inr_iff:
  "gthen x k = Some (f, Inr v) \<longleftrightarrow> (\<exists>g u. x = Some (g, Inr u) \<and> k g u = Some (f, Inr v))"
  by (auto simp: gthen_def split: option.splits sum.splits)

abbreviation f_db :: "'s frame \<Rightarrow> 's" where
  "f_db f \<equiv> vDB (f_vm f)"

definition set_db :: "'s frame \<Rightarrow> 's \<Rightarrow> 's frame" where
  "set_db f s = f\<lparr>f_vm := (f_vm f)\<lparr>vDB := s\<rparr>\<rparr>"

definition safeAdd :: "'s env \<Rightarrow> u64 \<Rightarrow> u64 \<Rightarrow> vm_error + u64" where
  "safeAdd E x y = (case g_SafeAdd (eG E) x y of (z, overflow) \<Rightarrow>
     if overflow then Inl ErrGasUintOverflow else Inr z)"

definition safeMul :: "'s env \<Rightarrow> u64 \<Rightarrow> u64 \<Rightarrow> vm_error + u64" where
  "safeMul E x y = (case g_SafeMul (eG E) x y of (z, overflow) \<Rightarrow>
     if overflow then Inl ErrGasUintOverflow else Inr z)"

section \<open>Memory expansion\<close>

definition memoryGasCost :: "memory \<Rightarrow> u64 \<Rightarrow> memory \<times> (vm_error + u64)" where
  "memoryGasCost mem newMemSize =
     (if newMemSize = 0 then (mem, Inr 0)
      else if newMemSize > 0x1FFFFFFFE0 then (mem, Inl ErrGasUintOverflow)
      else
        let newMemSizeWords = toWordSize newMemSize;
            newMemSize = newMemSizeWords * 32
        in if unat newMemSize > length (store mem) then
             let square = newMemSizeWords * newMemSizeWords;
                 linCoef = newMemSizeWords * MemoryGas;
                 quadCoef = square div QuadCoeffDiv;
                 newTotalFee = linCoef + quadCoef;
                 fee = newTotalFee - lastGasCost mem
             in (mem\<lparr>lastGasCost := newTotalFee\<rparr>, Inr fee)
           else (mem, Inr 0))"

definition mem_gas :: "'s frame \<Rightarrow> u64 \<Rightarrow> 's frame \<times> (vm_error + u64)" where
  "mem_gas f n = (case memoryGasCost (f_mem f) n of (m, r) \<Rightarrow> (f\<lparr>f_mem := m\<rparr>, r))"

definition pureMemoryGascost :: "'s gas_func" where
  "pureMemoryGascost E f memorySize = Some (mem_gas f memorySize)"

definition gasReturn :: "'s gas_func" where "gasReturn = pureMemoryGascost"
definition gasRevert :: "'s gas_func" where "gasRevert = pureMemoryGascost"
definition gasMLoad :: "'s gas_func" where "gasMLoad = pureMemoryGascost"
definition gasMStore8 :: "'s gas_func" where "gasMStore8 = pureMemoryGascost"
definition gasMStore :: "'s gas_func" where "gasMStore = pureMemoryGascost"
definition gasCreate :: "'s gas_func" where "gasCreate = pureMemoryGascost"

definition memoryCopierGas :: "nat \<Rightarrow> 's gas_func" where
  "memoryCopierGas stackpos E f memorySize =
     gthen (Some (mem_gas f memorySize)) (\<lambda>f gas. do {
       w \<leftarrow> Back (f_stack f) stackpos;
       let (words, overflow) = u_Uint64WithOverflow (eU E) w;
       if overflow then Some (f, Inl ErrGasUintOverflow)
       else gthen (Some (f, safeMul E (toWordSize words) CopyGas)) (\<lambda>f words.
         Some (f, safeAdd E gas words))
     })"

definition gasCallDataCopy :: "'s gas_func" where "gasCallDataCopy = memoryCopierGas 2"
definition gasCodeCopy :: "'s gas_func" where "gasCodeCopy = memoryCopierGas 2"
definition gasExtCodeCopy :: "'s gas_func" where "gasExtCodeCopy = memoryCopierGas 3"
definition gasReturnDataCopy :: "'s gas_func" where "gasReturnDataCopy = memoryCopierGas 2"

section \<open>Storage\<close>

definition gasSStore :: "'s gas_func" where
  "gasSStore E f memorySize = do {
     y \<leftarrow> Back (f_stack f) 1;
     x \<leftarrow> Back (f_stack f) 0;
     let acc = self (f_con f);
     let current = db_GetState (eA E) (f_db f) acc (u_Bytes32 (eU E) x);
     let val = u_Bytes32 (eU E) y;
     if current = val then Some (f, Inr NetSstoreNoopGas)
     else
       let original = db_GetCommittedState (eA E) (f_db f) acc (u_Bytes32 (eU E) x) in
       if original = current then
         (if original = 0 then Some (f, Inr NetSstoreInitGas)
          else
            let f = (if val = 0 then set_db f (db_AddRefund (eJ E) (f_db f) NetSstoreClearRefund) else f)
            in Some (f, Inr NetSstoreCleanGas))
       else do {
         f \<leftarrow> (if original \<noteq> 0 then
                (if current = 0 then map_option (set_db f) (db_SubRefund (eJ E) (f_db f) NetSstoreClearRefund)
                 else if val = 0 then Some (set_db f (db_AddRefund (eJ E) (f_db f) NetSstoreClearRefund))
                 else Some f)
              else Some f);
         let f = (if original = val then
                    (if original = 0 then set_db f (db_AddRefund (eJ E) (f_db f) NetSstoreResetClearRefund)
                     else set_db f (db_AddRefund (eJ E) (f_db f) NetSstoreResetRefund))
                  else f);
         Some (f, Inr NetSstoreDirtyGas)
       }
   }"

definition gasSStoreEIP2200 :: "'s gas_func" where
  "gasSStoreEIP2200 E f memorySize =
     (if Gas (f_con f) \<le> SstoreSentryGasEIP2200 then Some (f, Inl ErrReentrancySentry)
      else do {
        y \<leftarrow> Back (f_stack f) 1;
        x \<leftarrow> Back (f_stack f) 0;
        let acc = self (f_con f);
        let current = db_GetState (eA E) (f_db f) acc (u_Bytes32 (eU E) x);
        let val = u_Bytes32 (eU E) y;
        if current = val then Some (f, Inr SloadGasEIP2200)
        else
          let original = db_GetCommittedState (eA E) (f_db f) acc (u_Bytes32 (eU E) x) in
          if original = current then
            (if original = 0 then Some (f, Inr SstoreSetGasEIP2200)
             else
               let f = (if val = 0
                        then set_db f (db_AddRefund (eJ E) (f_db f) SstoreClearsScheduleRefundEIP2200) else f)
               in Some (f, Inr SstoreResetGasEIP2200))
          else do {
            f \<leftarrow> (if original \<noteq> 0 then
                   (if current = 0
                    then map_option (set_db f) (db_SubRefund (eJ E) (f_db f) SstoreClearsScheduleRefundEIP2200)
                    else if val = 0
                    then Some (set_db f (db_AddRefund (eJ E) (f_db f) SstoreClearsScheduleRefundEIP2200))
                    else Some f)
                 else Some f);
            let f = (if original = val then
                       (if original = 0
                        then set_db f (db_AddRefund (eJ E) (f_db f) (SstoreSetGasEIP2200 - SloadGasEIP2200))
                        else set_db f (db_AddRefund (eJ E) (f_db f) (SstoreResetGasEIP2200 - SloadGasEIP2200)))
                     else f);
            Some (f, Inr SloadGasEIP2200)
          }
      })"

definition makeGasSStoreFunc :: "u64 \<Rightarrow> 's gas_func" where
  "makeGasSStoreFunc clearingRefund E f memorySize =
     (if Gas (f_con f) \<le> SstoreSentryGasEIP2200 then Some (f, Inl ErrReentrancySentry)
      else do {
        y \<leftarrow> Back (f_stack f) 1;
        x \<leftarrow> peek (f_stack f);
        let acc = self (f_con f);
        let slot = u_Bytes32 (eU E) x;
        let current = db_GetState (eA E) (f_db f) acc slot;
        let (addrPresent, slotPresent) = db_SlotInAccessList (eJ E) (f_db f) acc slot;
        (f, cost) \<leftarrow> (if \<not> slotPresent then
             (if \<not> addrPresent then None
              else Some (set_db f (db_AddSlotToAccessList (eJ E) (f_db f) acc slot), ColdSloadCostEIP2929))
           else Some (f, 0));
        let val = u_Bytes32 (eU E) y;
        if current = val then Some (f, Inr (cost + WarmStorageReadCostEIP2929))
        else
          let original = db_GetCommittedState (eA E) (f_db f) acc (u_Bytes32 (eU E) x) in
          if original = current then
            (if original = 0 then Some (f, Inr (cost + SstoreSetGasEIP2200))
             else
               let f = (if val = 0 then set_db f (db_AddRefund (eJ E) (f_db f) clearingRefund) else f)
               in Some (f, Inr (cost + (SstoreResetGasEIP2200 - ColdSloadCostEIP2929))))
          else do {
            f \<leftarrow> (if original \<noteq> 0 then
                   (if current = 0 then map_option (set_db f) (db_SubRefund (eJ E) (f_db f) clearingRefund)
                    else if val = 0 then Some (set_db f (db_AddRefund (eJ E) (f_db f) clearingRefund))
                    else Some f)
                 else Some f);
            let f = (if original = val then
                       (if original = 0
                        then set_db f (db_AddRefund (eJ E) (f_db f) (SstoreSetGasEIP2200 - WarmStorageReadCostEIP2929))
                        else set_db f (db_AddRefund (eJ E) (f_db f)
                          ((SstoreResetGasEIP2200 - ColdSloadCostEIP2929) - WarmStorageReadCostEIP2929)))
                     else f);
            Some (f, Inr (cost + WarmStorageReadCostEIP2929))
          }
      })"

definition gasSStoreEIP2929 :: "'s gas_func" where
  "gasSStoreEIP2929 = makeGasSStoreFunc SstoreClearsScheduleRefundEIP2200"

definition gasSStoreEIP3529 :: "'s gas_func" where
  "gasSStoreEIP3529 = makeGasSStoreFunc SstoreClearsScheduleRefundEIP3529"

definition gasSLoadEIP2929 :: "'s gas_func" where
  "gasSLoadEIP2929 E f memorySize = do {
     loc \<leftarrow> peek (f_stack f);
     let slot = u_Bytes32 (eU E) loc;
     if \<not> snd (db_SlotInAccessList (eJ E) (f_db f) (self (f_con f)) slot)
     then Some (set_db f (db_AddSlotToAccessList (eJ E) (f_db f) (self (f_con f)) slot), Inr ColdSloadCostEIP2929)
     else Some (f, Inr WarmStorageReadCostEIP2929)
   }"

section \<open>Hashing, creation, logs and exponentiation\<close>

definition gasCreateEip3860 :: "'s gas_func" where
  "gasCreateEip3860 E f memorySize =
     gthen (Some (mem_gas f memorySize)) (\<lambda>f gas. do {
       w \<leftarrow> Back (f_stack f) 2;
       let (sz, overflow) = u_Uint64WithOverflow (eU E) w;
       if overflow \<or> unat sz > MaxCodeSize * 2 then Some (f, Inl ErrGasUintOverflow)
       else
         let moreGas = InitCodeWordGas * ((sz + 31) div 32)
         in Some (f, safeAdd E gas moreGas)
     })"

definition gasCreate2Eip3860 :: "'s gas_func" where
  "gasCreate2Eip3860 E f memorySize =
     gthen (Some (mem_gas f memorySize)) (\<lambda>f gas. do {
       w \<leftarrow> Back (f_stack f) 2;
       let (sz, overflow) = u_Uint64WithOverflow (eU E) w;
       if overflow \<or> unat sz > MaxCodeSize * 2 then Some (f, Inl ErrGasUintOverflow)
       else
         let moreGas = (InitCodeWordGas + Keccak256WordGas) * ((sz + 31) div 32)
         in Some (f, safeAdd E gas moreGas)
     })"

definition makeGasLog :: "u64 \<Rightarrow> 's gas_func" where
  "makeGasLog n E f memorySize = do {
     w \<leftarrow> Back (f_stack f) 1;
     let (requestedSize, overflow) = u_Uint64WithOverflow (eU E) w;
     if overflow then Some (f, Inl ErrGasUintOverflow)
     else
       gthen (Some (mem_gas f memorySize)) (\<lambda>f gas.
       gthen (Some (f, safeAdd E gas LogGas)) (\<lambda>f gas.
       gthen (Some (f, safeAdd E gas (n * LogTopicGas))) (\<lambda>f gas.
       gthen (Some (f, safeMul E requestedSize LogDataGas)) (\<lambda>f memorySizeGas.
         Some (f, safeAdd E gas memorySizeGas)))))
   }"

definition wordsGas :: "nat \<Rightarrow> 's gas_func" where
  "wordsGas stackpos E f memorySize =
     gthen (Some (mem_gas f memorySize)) (\<lambda>f gas. do {
       w \<leftarrow> Back (f_stack f) stackpos;
       let (wordGas, overflow) = u_Uint64WithOverflow (eU E) w;
       if overflow then Some (f, Inl ErrGasUintOverflow)
       else gthen (Some (f, safeMul E (toWordSize wordGas) Keccak256WordGas)) (\<lambda>f wordGas.
         Some (f, safeAdd E gas wordGas))
     })"

definition gasKeccak256 :: "'s gas_func" where "gasKeccak256 = wordsGas 1"
definition gasCreate2 :: "'s gas_func" where "gasCreate2 = wordsGas 2"

definition gasExpFrontier :: "'s gas_func" where
  "gasExpFrontier E f memorySize = do {
     e \<leftarrow> Back (f_stack f) 1;
     let expByteLen = of_nat ((u_BitLen (eU E) e + 7) div 8);
     let gas = expByteLen * ExpByteFrontier;
     Some (f, safeAdd E gas ExpGas)
   }"

definition gasExpEIP158 :: "'s gas_func" where
  "gasExpEIP158 E f memorySize = do {
     e \<leftarrow> Back (f_stack f) 1;
     let expByteLen = of_nat ((u_BitLen (eU E) e + 7) div 8);
     let gas = expByteLen * ExpByteEIP158;
     Some (f, safeAdd E gas ExpGas)
   }"

section \<open>Calls\<close>

definition callGas :: "uint256_ops \<Rightarrow> u64 \<Rightarrow> u64 \<Rightarrow> u256 \<Rightarrow> vm_error + u64" where
  "callGas U availableGas base callCost =
     (let availableGas = availableGas - base;
          gas = availableGas - availableGas div 64
      in if \<not> u_IsUint64 U callCost \<or> gas < u_Uint64 U callCost then Inr gas
         else if \<not> u_IsUint64 U callCost then Inl ErrGasUintOverflow
         else Inr (u_Uint64 U callCost))"

text \<open>The end of all four call variants: the gas of the callee is computed from the remaining gas and
  the first stack entry, kept in \<^verbatim>\<open>callGasTemp\<close> and charged.\<close>

definition charge_call :: "'s env \<Rightarrow> 's frame \<Rightarrow> u64 \<Rightarrow> ('s frame \<times> (vm_error + u64)) option" where
  "charge_call E f gas = do {
     c \<leftarrow> Back (f_stack f) 0;
     gthen (Some (f, callGas (eU E) (Gas (f_con f)) gas c)) (\<lambda>f temp.
       let f = f\<lparr>f_vm := (f_vm f)\<lparr>callGasTemp := temp\<rparr>\<rparr>
       in Some (f, safeAdd E gas temp))
   }"

definition gasCall :: "'s gas_func" where
  "gasCall E f memorySize = do {
     v \<leftarrow> Back (f_stack f) 2;
     a \<leftarrow> Back (f_stack f) 1;
     let transfersValue = (\<not> u_IsZero (eU E) v);
     let address = u_Bytes20 (eU E) a;
     let gas = (if transfersValue \<and> db_Empty (eA E) (f_db f) address then CallNewAccountGas else 0);
     let gas = (if transfersValue then gas + CallValueTransferGas else gas);
     gthen (Some (mem_gas f memorySize)) (\<lambda>f memoryGas.
     gthen (Some (f, safeAdd E gas memoryGas)) (\<lambda>f gas.
       charge_call E f gas))
   }"

definition gasCallCode :: "'s gas_func" where
  "gasCallCode E f memorySize =
     gthen (Some (mem_gas f memorySize)) (\<lambda>f memoryGas. do {
       v \<leftarrow> Back (f_stack f) 2;
       let gas = (if u_Sign (eU E) v \<noteq> 0 then CallValueTransferGas else 0);
       gthen (Some (f, safeAdd E gas memoryGas)) (\<lambda>f gas. charge_call E f gas)
     })"

definition gasDelegateCall :: "'s gas_func" where
  "gasDelegateCall E f memorySize =
     gthen (Some (mem_gas f memorySize)) (\<lambda>f gas. charge_call E f gas)"

definition gasStaticCall :: "'s gas_func" where
  "gasStaticCall E f memorySize =
     gthen (Some (mem_gas f memorySize)) (\<lambda>f gas. charge_call E f gas)"

definition gasSelfdestruct :: "'s gas_func" where
  "gasSelfdestruct E f memorySize = do {
     b \<leftarrow> Back (f_stack f) 0;
     let acc = self (f_con f);
     let address = u_Bytes20 (eU E) b;
     let gas = (if db_Empty (eA E) (f_db f) address \<and> db_GetBalance (eA E) (f_db f) acc \<noteq> 0
                then SelfdestructGasEIP150 + CreateBySelfdestructGas else SelfdestructGasEIP150);
     let f = (if \<not> db_HasSuicided (eA E) (f_db f) acc
              then set_db f (db_AddRefund (eJ E) (f_db f) SelfdestructRefundGas) else f);
     Some (f, Inr gas)
   }"

section \<open>Access lists\<close>

definition gasExtCodeCopyEIP2929 :: "'s gas_func" where
  "gasExtCodeCopyEIP2929 E f memorySize =
     gthen (gasExtCodeCopy E f memorySize) (\<lambda>f gas. do {
       a \<leftarrow> peek (f_stack f);
       let addr = u_Bytes20 (eU E) a;
       if \<not> db_AddressInAccessList (eJ E) (f_db f) addr then
         (let f = set_db f (db_AddAddressToAccessList (eJ E) (f_db f) addr)
          in Some (f, safeAdd E gas (ColdAccountAccessCostEIP2929 - WarmStorageReadCostEIP2929)))
       else Some (f, Inr gas)
     })"

definition gasEip2929AccountCheck :: "'s gas_func" where
  "gasEip2929AccountCheck E f memorySize = do {
     a \<leftarrow> peek (f_stack f);
     let addr = u_Bytes20 (eU E) a;
     if \<not> db_AddressInAccessList (eJ E) (f_db f) addr then
       Some (set_db f (db_AddAddressToAccessList (eJ E) (f_db f) addr),
         Inr (ColdAccountAccessCostEIP2929 - WarmStorageReadCostEIP2929))
     else Some (f, Inr 0)
   }"

definition makeCallVariantGasCallEIP2929 :: "'s gas_func \<Rightarrow> 's gas_func" where
  "makeCallVariantGasCallEIP2929 oldCalculator E f memorySize = do {
     a \<leftarrow> Back (f_stack f) 1;
     let addr = u_Bytes20 (eU E) a;
     let warmAccess = db_AddressInAccessList (eJ E) (f_db f) addr;
     let coldCost = ColdAccountAccessCostEIP2929 - WarmStorageReadCostEIP2929;
     if \<not> warmAccess then
       (let f = set_db f (db_AddAddressToAccessList (eJ E) (f_db f) addr);
            (ok, con) = UseGas (f_con f) coldCost;
            f = f\<lparr>f_con := con\<rparr>
        in if \<not> ok then Some (f, Inl ErrOutOfGas)
           else gthen (oldCalculator E f memorySize) (\<lambda>f gas.
             Some (f\<lparr>f_con := (f_con f)\<lparr>Gas := Gas (f_con f) + coldCost\<rparr>\<rparr>, Inr (gas + coldCost))))
     else oldCalculator E f memorySize
   }"

definition gasCallEIP2929 :: "'s gas_func" where
  "gasCallEIP2929 = makeCallVariantGasCallEIP2929 gasCall"
definition gasDelegateCallEIP2929 :: "'s gas_func" where
  "gasDelegateCallEIP2929 = makeCallVariantGasCallEIP2929 gasDelegateCall"
definition gasStaticCallEIP2929 :: "'s gas_func" where
  "gasStaticCallEIP2929 = makeCallVariantGasCallEIP2929 gasStaticCall"
definition gasCallCodeEIP2929 :: "'s gas_func" where
  "gasCallCodeEIP2929 = makeCallVariantGasCallEIP2929 gasCallCode"

definition makeSelfdestructGasFn :: "bool \<Rightarrow> 's gas_func" where
  "makeSelfdestructGasFn refundsEnabled E f memorySize = do {
     b \<leftarrow> peek (f_stack f);
     let acc = self (f_con f);
     let address = u_Bytes20 (eU E) b;
     let (f, gas) = (if \<not> db_AddressInAccessList (eJ E) (f_db f) address
                     then (set_db f (db_AddAddressToAccessList (eJ E) (f_db f) address), ColdAccountAccessCostEIP2929)
                     else (f, 0));
     let gas = (if db_Empty (eA E) (f_db f) address \<and> db_GetBalance (eA E) (f_db f) acc \<noteq> 0
                then gas + CreateBySelfdestructGas else gas);
     let f = (if refundsEnabled \<and> \<not> db_HasSuicided (eA E) (f_db f) acc
              then set_db f (db_AddRefund (eJ E) (f_db f) SelfdestructRefundGas) else f);
     Some (f, Inr gas)
   }"

definition gasSelfdestructEIP2929 :: "'s gas_func" where "gasSelfdestructEIP2929 = makeSelfdestructGasFn True"
definition gasSelfdestructEIP3529 :: "'s gas_func" where "gasSelfdestructEIP3529 = makeSelfdestructGasFn False"

section \<open>Memory sizes of the instructions\<close>

type_synonym mem_size_func = "uint256_ops \<Rightarrow> stack \<Rightarrow> (u64 \<times> bool) option"

definition mem_size2 :: "nat \<Rightarrow> nat \<Rightarrow> mem_size_func" where
  "mem_size2 i j U st = do { off \<leftarrow> Back st i; l \<leftarrow> Back st j; Some (calcMemSize64 U off l) }"

definition mem_size1 :: "nat \<Rightarrow> u64 \<Rightarrow> mem_size_func" where
  "mem_size1 i l U st = do { off \<leftarrow> Back st i; Some (calcMemSize64WithUint U off l) }"

text \<open>The larger of two accesses, for the arguments and the result of a call.\<close>

definition mem_size_max :: "mem_size_func \<Rightarrow> mem_size_func \<Rightarrow> mem_size_func" where
  "mem_size_max g h U st = do {
     (x, overflow) \<leftarrow> g U st;
     if overflow then Some (0, True)
     else do {
       (y, overflow) \<leftarrow> h U st;
       if overflow then Some (0, True)
       else Some (if x > y then (x, False) else (y, False))
     }
   }"

definition memoryKeccak256 :: mem_size_func where "memoryKeccak256 = mem_size2 0 1"
definition memoryCallDataCopy :: mem_size_func where "memoryCallDataCopy = mem_size2 0 2"
definition memoryReturnDataCopy :: mem_size_func where "memoryReturnDataCopy = mem_size2 0 2"
definition memoryCodeCopy :: mem_size_func where "memoryCodeCopy = mem_size2 0 2"
definition memoryExtCodeCopy :: mem_size_func where "memoryExtCodeCopy = mem_size2 1 3"
definition memoryMLoad :: mem_size_func where "memoryMLoad = mem_size1 0 32"
definition memoryMStore8 :: mem_size_func where "memoryMStore8 = mem_size1 0 1"
definition memoryMStore :: mem_size_func where "memoryMStore = mem_size1 0 32"
definition memoryCreate :: mem_size_func where "memoryCreate = mem_size2 1 2"
definition memoryCreate2 :: mem_size_func where "memoryCreate2 = mem_size2 1 2"
definition memoryCall :: mem_size_func where "memoryCall = mem_size_max (mem_size2 5 6) (mem_size2 3 4)"
definition memoryDelegateCall :: mem_size_func where
  "memoryDelegateCall = mem_size_max (mem_size2 4 5) (mem_size2 2 3)"
definition memoryStaticCall :: mem_size_func where
  "memoryStaticCall = mem_size_max (mem_size2 4 5) (mem_size2 2 3)"
definition memoryReturn :: mem_size_func where "memoryReturn = mem_size2 0 1"
definition memoryRevert :: mem_size_func where "memoryRevert = mem_size2 0 1"
definition memoryLog :: mem_size_func where "memoryLog = mem_size2 0 1"

lemmas memory_sizes = memoryKeccak256_def memoryCallDataCopy_def memoryReturnDataCopy_def memoryCodeCopy_def
  memoryExtCodeCopy_def memoryMLoad_def memoryMStore8_def memoryMStore_def memoryCreate_def
  memoryCreate2_def memoryCall_def memoryDelegateCall_def memoryStaticCall_def memoryReturn_def
  memoryRevert_def memoryLog_def

section \<open>The fee of a memory\<close>

definition mem_fee :: "nat \<Rightarrow> nat" where
  "mem_fee w = 3 * w + w * w div 512"

definition words :: "nat \<Rightarrow> nat" where
  "words n = (n + 31) div 32"

definition mem_words :: "memory \<Rightarrow> nat" where
  "mem_words m = length (store m) div 32"

text \<open>The invariant of a frame's memory: whole words, within the limit, and the fee for them paid.\<close>

definition mem_ok :: "memory \<Rightarrow> bool" where
  "mem_ok m \<longleftrightarrow> length (store m) = 32 * mem_words m \<and> mem_words m < 2 ^ 32 \<and>
     unat (lastGasCost m) = mem_fee (mem_words m)"

lemma mem_ok_New: "mem_ok NewMemory"
  by (simp add: mem_ok_def mem_words_def NewMemory_def mem_fee_def)

lemma mem_fee_mono: "v \<le> w \<Longrightarrow> mem_fee v \<le> mem_fee w"
  unfolding mem_fee_def by (intro add_mono mult_le_mono div_le_mono) auto

lemma mem_fee_bound: "w < 2 ^ 32 \<Longrightarrow> mem_fee w < 2 ^ 56"
proof -
  assume "w < 2 ^ 32"
  then have w: "w \<le> 2 ^ 32 - 1" by simp
  have "mem_fee w \<le> mem_fee (2 ^ 32 - 1)" by (rule mem_fee_mono [OF w])
  also have "\<dots> < 2 ^ 56" by (simp add: mem_fee_def)
  finally show ?thesis .
qed

lemma fee_words:
  fixes w :: u64
  assumes "unat w < 2 ^ 32"
  shows "unat (w * MemoryGas + w * w div QuadCoeffDiv) = mem_fee (unat w)"
proof -
  have "unat w * unat w \<le> (2 ^ 32 - 1) * (2 ^ 32 - 1)" using assms by (intro mult_le_mono) simp_all
  then have sq: "unat (w * w) = unat w * unat w" by (intro unat_mult_u64_no_wrap) simp
  have lin: "unat (w * 3) = unat w * 3" using assms by (subst unat_mult_u64_no_wrap) simp_all
  have quad: "unat (w * w div 512) = unat w * unat w div 512" by (simp add: unat_div sq)
  have "mem_fee (unat w) < 2 ^ 56" using assms by (rule mem_fee_bound)
  then have "unat (w * 3) + unat (w * w div 512) < 2 ^ 64" unfolding lin quad by (simp add: mem_fee_def)
  then have "unat (w * 3 + w * w div 512) = unat (w * 3) + unat (w * w div 512)" by (rule unat_add_u64_no_wrap)
  then show ?thesis by (simp add: lin quad mem_fee_def)
qed

lemma memoryGasCost_limit:
  assumes "memoryGasCost m n = (m', Inr fee)"
  shows "unat n \<le> 0x1FFFFFFFE0"
  using assms by (auto simp: memoryGasCost_def word_less_nat_alt split: if_splits)

lemma memoryGasCost_exact:
  assumes ok: "mem_ok m" and n: "unat n \<le> 0x1FFFFFFFE0"
  shows "\<exists>m' fee. memoryGasCost m n = (m', Inr fee) \<and> store m' = store m \<and>
    unat (lastGasCost m') = mem_fee (max (mem_words m) (words (unat n))) \<and>
    unat fee + mem_fee (mem_words m) = mem_fee (max (mem_words m) (words (unat n))) \<and>
    mem_ok (mem_Resize m' (toWordSize n * 32)) \<and>
    mem_words (mem_Resize m' (toWordSize n * 32)) = max (mem_words m) (words (unat n))"
proof -
  let ?w = "toWordSize n"
  have w: "unat ?w = words (unat n)" by (simp add: unat_toWordSize words_def)
  have lt: "words (unat n) < 2 ^ 32" using n by (simp add: words_def)
  have sz: "unat (?w * 32) = words (unat n) * 32"
    using lt w by (subst unat_mult_u64_no_wrap) simp_all
  have len: "length (store m) = 32 * mem_words m" "mem_words m < 2 ^ 32"
    "unat (lastGasCost m) = mem_fee (mem_words m)" using ok by (simp_all add: mem_ok_def)
  have len': "length (store (mem_Resize m' (?w * 32))) = 32 * max (mem_words m) (words (unat n))"
    if "store m' = store m" for m'
    using that len(1) by (simp add: length_mem_Resize sz max_def)
  have resize: "mem_words (mem_Resize m' (?w * 32)) = max (mem_words m) (words (unat n))"
    if "store m' = store m" for m'
    using len' [OF that] by (simp add: mem_words_def)
  have ok': "mem_ok (mem_Resize m' (?w * 32))"
    if "store m' = store m" "unat (lastGasCost m') = mem_fee (max (mem_words m) (words (unat n)))" for m'
    using len' [OF that(1)] resize [OF that(1)] that(2) len(2) lt by (simp add: mem_ok_def)
  show ?thesis
  proof (cases "n \<noteq> 0 \<and> mem_words m < words (unat n)")
    case True
    let ?t = "?w * MemoryGas + ?w * ?w div QuadCoeffDiv"
    have t: "unat ?t = mem_fee (words (unat n))" using fee_words [of ?w] w lt by simp
    have "mem_fee (mem_words m) \<le> mem_fee (words (unat n))" using True by (intro mem_fee_mono) simp
    then have fee: "unat (?t - lastGasCost m) = mem_fee (words (unat n)) - mem_fee (mem_words m)"
      using t len(3) by (subst unat_sub_u64) (simp_all add: word_le_nat_alt)
    have "memoryGasCost m n = (m\<lparr>lastGasCost := ?t\<rparr>, Inr (?t - lastGasCost m))"
      using True n len(1) sz by (simp add: memoryGasCost_def Let_def word_less_nat_alt not_less)
    moreover have "max (mem_words m) (words (unat n)) = words (unat n)" using True by simp
    ultimately show ?thesis
      using t fee \<open>mem_fee (mem_words m) \<le> _\<close> ok' [of "m\<lparr>lastGasCost := ?t\<rparr>"] resize [of "m\<lparr>lastGasCost := ?t\<rparr>"]
      by simp
  next
    case False
    then have mx: "max (mem_words m) (words (unat n)) = mem_words m"
      by (auto simp: words_def max_def)
    have "memoryGasCost m n = (m, Inr 0)"
      using False n len(1) sz by (auto simp: memoryGasCost_def Let_def word_less_nat_alt not_less)
    then show ?thesis using mx ok' [of m] resize [of m] len(3) by simp
  qed
qed

text \<open>A frame pays for a row of accesses; each is charged, then the memory is resized as the
  interpreter does.\<close>

primrec expands :: "memory \<Rightarrow> u64 list \<Rightarrow> (memory \<times> nat) option" where
  "expands m [] = Some (m, 0)"
| "expands m (n # ns) = (case memoryGasCost m n of
     (m', Inl e) \<Rightarrow> None
   | (m', Inr fee) \<Rightarrow> map_option (\<lambda>(m, t). (m, unat fee + t)) (expands (mem_Resize m' (toWordSize n * 32)) ns))"

lemma expands_total:
  assumes "mem_ok m" and "expands m ns = Some (m', t)"
  shows "mem_ok m' \<and> t + mem_fee (mem_words m) = mem_fee (mem_words m') \<and>
    mem_words m' = fold (\<lambda>n w. max w (words (unat n))) ns (mem_words m)"
  using assms
proof (induction ns arbitrary: m t)
  case Nil
  then show ?case by simp
next
  case (Cons n ns)
  obtain m1 r where r: "memoryGasCost m n = (m1, r)" by fastforce
  with Cons.prems(2) obtain fee where fee: "r = Inr fee" by (cases r) auto
  from memoryGasCost_limit [OF r [unfolded fee]] memoryGasCost_exact [OF Cons.prems(1)] r fee have
    step: "unat fee + mem_fee (mem_words m) = mem_fee (max (mem_words m) (words (unat n)))"
      "mem_ok (mem_Resize m1 (toWordSize n * 32))"
      "mem_words (mem_Resize m1 (toWordSize n * 32)) = max (mem_words m) (words (unat n))"
    by fastforce+
  from Cons.prems(2) r fee obtain t' where
    t: "expands (mem_Resize m1 (toWordSize n * 32)) ns = Some (m', t')" "t = unat fee + t'"
    by auto
  from Cons.IH [OF step(2) t(1)] step(3) have
    "mem_ok m' \<and> t' + mem_fee (max (mem_words m) (words (unat n))) = mem_fee (mem_words m') \<and>
     mem_words m' = fold (\<lambda>n w. max w (words (unat n))) (n # ns) (mem_words m)" by simp
  with step(1) t(2) show ?case by linarith
qed

section \<open>The gas of a call\<close>

definition all_but_64th :: "nat \<Rightarrow> nat" where
  "all_but_64th n = n - n div 64"

lemma callGas_exact:
  assumes "uint256_spec U" and "unat base \<le> unat avail"
  shows "\<exists>t. callGas U avail base c = Inr t \<and> unat t = min (all_but_64th (unat avail - unat base)) (unat c)"
proof -
  let ?r = "avail - base"
  have r: "unat ?r = unat avail - unat base" using assms(2) by (intro unat_sub_u64) (simp add: word_le_nat_alt)
  have g: "unat (?r - ?r div 64) = all_but_64th (unat ?r)"
    by (subst unat_sub_u64) (simp_all add: word_le_nat_alt unat_div all_but_64th_def)
  have c: "unat (ucast c :: u64) = unat c" if "unat c < 2 ^ 64" using that by (simp add: unat_ucast_u64)
  have "unat (?r - ?r div 64) < 2 ^ 64" using unsigned_less [of "?r - ?r div 64"] by simp
  then show ?thesis
    using c g r
    by (auto simp: callGas_def Let_def uint256_specD [OF assms(1)] word_less_nat_alt min_def)
qed

lemma safeAdd_eq: "geth_spec (eG E) \<Longrightarrow>
  safeAdd E x y = (if unat x + unat y < 2 ^ 64 then Inr (x + y) else Inl ErrGasUintOverflow)"
  by (simp add: safeAdd_def geth_specD)

lemma safeMul_eq: "geth_spec (eG E) \<Longrightarrow>
  safeMul E x y = (if unat x * unat y < 2 ^ 64 then Inr (x * y) else Inl ErrGasUintOverflow)"
  by (simp add: safeMul_def geth_specD)

lemma safeAdd_Inr: "geth_spec (eG E) \<Longrightarrow> safeAdd E x y = Inr z \<Longrightarrow> unat z = unat x + unat y"
  using unat_add_u64_no_wrap [of x y] by (auto simp: safeAdd_eq split: if_splits)

lemma safeMul_Inr: "geth_spec (eG E) \<Longrightarrow> safeMul E x y = Inr z \<Longrightarrow> unat z = unat x * unat y"
  using unat_mult_u64_no_wrap [of x y] by (auto simp: safeMul_eq split: if_splits)

lemma charge_call_affordable:
  assumes "uint256_spec (eU E)" and "geth_spec (eG E)"
    and "charge_call E f base = Some (f', Inr cost)" and "unat cost \<le> unat (Gas (f_con f))"
  obtains c where "Back (f_stack f) 0 = Some c" "unat base \<le> unat (Gas (f_con f))"
    "f' = f\<lparr>f_vm := (f_vm f)\<lparr>callGasTemp := callGasTemp (f_vm f')\<rparr>\<rparr>"
    "unat (callGasTemp (f_vm f')) = min (all_but_64th (unat (Gas (f_con f)) - unat base)) (unat c)"
    "unat cost = unat base + unat (callGasTemp (f_vm f'))"
proof -
  from assms(3) obtain c t where c: "Back (f_stack f) 0 = Some c"
    and t: "callGas (eU E) (Gas (f_con f)) base c = Inr t"
    and f': "f' = f\<lparr>f_vm := (f_vm f)\<lparr>callGasTemp := t\<rparr>\<rparr>" and tot: "safeAdd E base t = Inr cost"
    by (auto simp: charge_call_def bind_Some_iff gthen_Inr_iff Let_def)
  have cost: "unat cost = unat base + unat t" by (rule safeAdd_Inr [OF assms(2) tot])
  then have le: "unat base \<le> unat (Gas (f_con f))" using assms(4) by simp
  from callGas_exact [OF assms(1) le, of c] t have "unat t = min (all_but_64th (unat (Gas (f_con f)) - unat base)) (unat c)"
    by auto
  with c le f' cost show thesis by (intro that [of c]) simp_all
qed

text \<open>Affordable or not, the gas set aside for a callee is at most 63/64 of \<open>2 ^ 64\<close>, so the total does
  not wrap when a small constant is added.\<close>

lemma charge_call_total:
  assumes "uint256_spec (eU E)" and "geth_spec (eG E)"
    and "charge_call E f base = Some (f', Inr cost)" and "unat base < 2 ^ 57"
  shows "unat cost < 2 ^ 64 - 2 ^ 57" and "f_con f' = f_con f" and "f_stack f' = f_stack f"
proof -
  from assms(3) obtain c t where t: "callGas (eU E) (Gas (f_con f)) base c = Inr t"
    and f': "f' = f\<lparr>f_vm := (f_vm f)\<lparr>callGasTemp := t\<rparr>\<rparr>" and tot: "safeAdd E base t = Inr cost"
    by (auto simp: charge_call_def bind_Some_iff gthen_Inr_iff Let_def)
  show "f_con f' = f_con f" "f_stack f' = f_stack f" by (simp_all add: f')
  let ?r = "Gas (f_con f) - base"
  have "t \<le> ?r - ?r div 64"
    using t by (auto simp: callGas_def Let_def not_less split: if_splits)
  then have "unat t \<le> unat ?r - unat ?r div 64"
    by (simp add: word_le_nat_alt unat_sub_u64 unat_div)
  moreover have "unat ?r < 2 ^ 64" using unsigned_less [of ?r] by simp
  ultimately have "unat t \<le> 2 ^ 64 - 2 ^ 58" by simp
  then show "unat cost < 2 ^ 64 - 2 ^ 57" using safeAdd_Inr [OF assms(2) tot] assms(4) by simp
qed

section \<open>The contract of a call calculator\<close>

text \<open>What the access-list wrapper relies on: the calculator works out a base cost, small, and at least \<open>need\<close> for the
  stack, leaving the contract and the stack alone, and ends in \<open>charge_call\<close>.\<close>

definition base_ok :: "(stack \<Rightarrow> nat) \<Rightarrow> 's env \<Rightarrow> 's frame \<Rightarrow> 's frame \<Rightarrow> u64 \<Rightarrow> bool" where
  "base_ok need E f f' g \<longleftrightarrow> (\<exists>f1 base. charge_call E f1 base = Some (f', Inr g) \<and> unat base < 2 ^ 57 \<and>
     need (f_stack f) \<le> unat base \<and> f_con f1 = f_con f \<and> f_stack f1 = f_stack f)"

text \<open>What an affordable price \<open>g\<close> says: it is a base cost and the gas handed over, at most 63/64 of the rest.\<close>

definition call_price :: "(stack \<Rightarrow> nat) \<Rightarrow> 's frame \<Rightarrow> 's frame \<Rightarrow> u64 \<Rightarrow> bool" where
  "call_price need f f' g \<longleftrightarrow> f_con f' = f_con f \<and> f_stack f' = f_stack f \<and> (\<exists>base c. Back (f_stack f) 0 = Some c \<and>
     need (f_stack f) \<le> base \<and> base \<le> unat (Gas (f_con f)) \<and>
     unat g = base + unat (callGasTemp (f_vm f')) \<and>
     unat (callGasTemp (f_vm f')) = min (all_but_64th (unat (Gas (f_con f)) - base)) (unat c))"

locale call_calculator =
  fixes old :: "'s gas_func" and need :: "stack \<Rightarrow> nat"
  assumes old_charge: "uint256_spec (eU E) \<Longrightarrow> geth_spec (eG E) \<Longrightarrow> mem_ok (f_mem f) \<Longrightarrow>
    old E f ms = Some (f', Inr g) \<Longrightarrow> base_ok need E f f' g"
begin

lemma affordable:
  assumes "uint256_spec (eU E)" and "geth_spec (eG E)" and "mem_ok (f_mem f)"
    and "old E f ms = Some (f', Inr g)" and "unat g \<le> unat (Gas (f_con f))"
  shows "call_price need f f' g"
proof -
  obtain f1 base where c: "charge_call E f1 base = Some (f', Inr g)" "unat base < 2 ^ 57"
    "need (f_stack f) \<le> unat base" "f_con f1 = f_con f" "f_stack f1 = f_stack f"
    using old_charge [OF assms(1-4)] by (auto simp: base_ok_def)
  have "unat g \<le> unat (Gas (f_con f1))" using assms(5) c(4) by simp
  from charge_call_affordable [OF assms(1,2) c(1) this] c charge_call_total(2,3) [OF assms(1,2) c(1,2)]
  show ?thesis unfolding call_price_def by metis
qed

lemma keeps_contract:
  assumes "uint256_spec (eU E)" and "geth_spec (eG E)" and "mem_ok (f_mem f)" and "old E f ms = Some (f', Inr g)"
  shows "f_con f' = f_con f"
  using old_charge [OF assms] charge_call_total(2) [OF assms(1,2)] by (fastforce simp: base_ok_def)

lemma variant_keeps_contract:
  assumes "uint256_spec (eU E)" and "geth_spec (eG E)" and "mem_ok (f_mem f)"
    and "makeCallVariantGasCallEIP2929 old E f ms = Some (f', Inr g)"
  shows "f_con f' = f_con f"
  using assms(4)
  by (auto simp: makeCallVariantGasCallEIP2929_def UseGas_def set_db_def bind_Some_iff gthen_Inr_iff Let_def
      split: if_splits dest!: keeps_contract [OF assms(1,2), rotated] simp: assms(3))

lemma variant_affordable:
  assumes "uint256_spec (eU E)" and "geth_spec (eG E)" and "mem_ok (f_mem f)"
    and "makeCallVariantGasCallEIP2929 old E f ms = Some (f', Inr g)" and "unat g \<le> unat (Gas (f_con f))"
  shows "call_price need f f' g"
proof -
  from assms(4) obtain a where a: "Back (f_stack f) 1 = Some a"
    by (auto simp: makeCallVariantGasCallEIP2929_def bind_Some_iff)
  show ?thesis
  proof (cases "db_AddressInAccessList (eJ E) (f_db f) (u_Bytes20 (eU E) a)")
    case True
    with a assms(4) have "old E f ms = Some (f', Inr g)"
      by (simp add: makeCallVariantGasCallEIP2929_def)
    then show ?thesis using affordable [OF assms(1-3)] assms(5) by blast
  next
    case False
    define con where "con = (f_con f)\<lparr>Gas := Gas (f_con f) - 2500\<rparr>"
    define f0 where "f0 = (set_db f (db_AddAddressToAccessList (eJ E) (f_db f) (u_Bytes20 (eU E) a)))\<lparr>f_con := con\<rparr>"
    have enough: "\<not> Gas (f_con f) < 2500"
      using False a assms(4) by (auto simp: makeCallVariantGasCallEIP2929_def UseGas_def set_db_def split: if_splits)
    then have g0: "unat (Gas (f_con f)) = unat (Gas con) + 2500"
      by (simp add: con_def unat_sub_u64 not_less word_le_nat_alt)
    from False a enough assms(4) have "gthen (old E f0 ms) (\<lambda>f gas.
        Some (f\<lparr>f_con := (f_con f)\<lparr>Gas := Gas (f_con f) + 2500\<rparr>\<rparr>, Inr (gas + 2500))) = Some (f', Inr g)"
      by (simp add: makeCallVariantGasCallEIP2929_def UseGas_def set_db_def f0_def con_def Let_def)
    then obtain h k where h: "old E f0 ms = Some (h, Inr k)" "g = k + 2500"
      "f' = h\<lparr>f_con := (f_con h)\<lparr>Gas := Gas (f_con h) + 2500\<rparr>\<rparr>"
      by (auto simp: gthen_Inr_iff)
    have f0: "f_mem f0 = f_mem f" "f_con f0 = con" "f_stack f0 = f_stack f"
      by (simp_all add: f0_def set_db_def)
    have ok: "mem_ok (f_mem f0)" using assms(3) f0(1) by simp
    obtain f1 base where c: "charge_call E f1 base = Some (h, Inr k)" "unat base < 2 ^ 57"
      using old_charge [OF assms(1,2) ok h(1)] by (auto simp: base_ok_def)
    have g: "unat g = unat k + 2500"
      using charge_call_total(1) [OF assms(1,2) c] unat_add_u64_no_wrap [of k 2500] h(2) by simp
    have "unat k \<le> unat (Gas (f_con f0))" using g g0 assms(5) f0(2) by simp
    from affordable [OF assms(1,2) ok h(1) this] obtain b d where
      b: "f_con h = con" "f_stack h = f_stack f" "Back (f_stack f) 0 = Some d" "need (f_stack f) \<le> b"
        "b \<le> unat (Gas con)" "unat k = b + unat (callGasTemp (f_vm h))"
        "unat (callGasTemp (f_vm h)) = min (all_but_64th (unat (Gas con) - b)) (unat d)"
      using f0 by (auto simp: call_price_def)
    have "f_con f' = f_con f" "f_stack f' = f_stack f" using b(1,2) h(3) by (simp_all add: con_def)
    moreover have "b + 2500 \<le> unat (Gas (f_con f))" "unat g = b + 2500 + unat (callGasTemp (f_vm f'))"
      "unat (callGasTemp (f_vm f')) = min (all_but_64th (unat (Gas (f_con f)) - (b + 2500))) (unat d)"
      "need (f_stack f) \<le> b + 2500"
      using b g g0 h(3) by simp_all
    ultimately show ?thesis using b(3) unfolding call_price_def by blast
  qed
qed

end

lemma mem_gas_small:
  assumes "mem_ok (f_mem f)" and "mem_gas f ms = (g, Inr fee)"
  shows "unat fee < 2 ^ 56 \<and> f_con g = f_con f \<and> f_stack g = f_stack f \<and> f_vm g = f_vm f \<and> f_pc g = f_pc f"
proof -
  obtain m r where m: "memoryGasCost (f_mem f) ms = (m, r)" by fastforce
  with assms(2) have g: "g = f\<lparr>f_mem := m\<rparr>" "r = Inr fee" by (simp_all add: mem_gas_def)
  from memoryGasCost_limit [OF m [unfolded g]] have n: "unat ms \<le> 0x1FFFFFFFE0" .
  from memoryGasCost_exact [OF assms(1) n] m g(2)
  have fee: "unat fee + mem_fee (mem_words (f_mem f)) = mem_fee (max (mem_words (f_mem f)) (words (unat ms)))"
    by auto
  have "max (mem_words (f_mem f)) (words (unat ms)) < 2 ^ 32"
    using assms(1) n by (simp add: mem_ok_def words_def)
  from mem_fee_bound [OF this] fee have "unat fee < 2 ^ 56" by linarith
  then show ?thesis by (simp add: g)
qed

lemma gthen_mem_gas:
  assumes "gthen (Some (mem_gas f ms)) k = Some (f', Inr g)"
  obtains m fee where "mem_gas f ms = (m, Inr fee)" "k m fee = Some (f', Inr g)"
  using assms by (cases "mem_gas f ms") (auto simp: gthen_Inr_iff)

lemma calculator_base:
  assumes "geth_spec (eG E)" and "mem_ok (f_mem f)" and "mem_gas f ms = (m, Inr fee)" and "unat x \<le> 34000"
    and "need (f_stack f) \<le> unat x"
    and "gthen (Some (m, safeAdd E x fee)) (\<lambda>f gas. charge_call E f gas) = Some (f', Inr g)"
  shows "base_ok need E f f' g"
proof -
  from assms(6) obtain b where b: "safeAdd E x fee = Inr b" "charge_call E m b = Some (f', Inr g)"
    by (auto simp: gthen_Inr_iff)
  note small = mem_gas_small [OF assms(2,3)]
  from small safeAdd_Inr [OF assms(1) b(1)] assms(4,5) have "unat b < 2 ^ 57" "need (f_stack f) \<le> unat b" by simp_all
  with small b(2) show ?thesis unfolding base_ok_def by blast
qed

text \<open>A call that transfers value costs at least \<open>CallValueTransferGas\<close>.\<close>

definition transfer_need :: "stack \<Rightarrow> nat" where
  "transfer_need st = (case Back st 2 of Some v \<Rightarrow> if v = 0 then 0 else 9000 | None \<Rightarrow> 0)"

interpretation call: call_calculator gasCall transfer_need
proof
  fix E :: "'s env" and f ms f' g
  assume U: "uint256_spec (eU E)" and G: "geth_spec (eG E)" and ok: "mem_ok (f_mem f)"
    and run: "gasCall E f ms = Some (f', Inr g)"
  from run obtain v a where va: "Back (f_stack f) 2 = Some v" "Back (f_stack f) 1 = Some a"
    by (auto simp: gasCall_def bind_Some_iff)
  define x where "x = (let transfersValue = (\<not> u_IsZero (eU E) v);
      gas = (if transfersValue \<and> db_Empty (eA E) (f_db f) (u_Bytes20 (eU E) a) then CallNewAccountGas else 0)
    in (if transfersValue then gas + CallValueTransferGas else gas))"
  have x: "unat x \<le> 34000" by (simp add: x_def Let_def)
  have need: "transfer_need (f_stack f) \<le> unat x"
    using va by (simp add: x_def Let_def transfer_need_def uint256_specD [OF U])
  from run va have "gthen (Some (mem_gas f ms)) (\<lambda>f memoryGas.
      gthen (Some (f, safeAdd E x memoryGas)) (\<lambda>f gas. charge_call E f gas)) = Some (f', Inr g)"
    unfolding gasCall_def x_def Let_def by simp
  then obtain m fee where m: "mem_gas f ms = (m, Inr fee)"
    and r: "gthen (Some (m, safeAdd E x fee)) (\<lambda>f gas. charge_call E f gas) = Some (f', Inr g)"
    by (rule gthen_mem_gas)
  show "base_ok transfer_need E f f' g"
    by (rule calculator_base [where need = transfer_need, OF G ok m x _ r]) (rule need)
qed

interpretation callcode: call_calculator gasCallCode transfer_need
proof
  fix E :: "'s env" and f ms f' g
  assume U: "uint256_spec (eU E)" and G: "geth_spec (eG E)" and ok: "mem_ok (f_mem f)"
    and run: "gasCallCode E f ms = Some (f', Inr g)"
  from run [unfolded gasCallCode_def] obtain m fee where m: "mem_gas f ms = (m, Inr fee)"
    and r: "Back (f_stack m) 2 \<bind> (\<lambda>v.
      let gas = (if u_Sign (eU E) v \<noteq> 0 then CallValueTransferGas else 0)
      in gthen (Some (m, safeAdd E gas fee)) (\<lambda>f gas. charge_call E f gas)) = Some (f', Inr g)"
    by (rule gthen_mem_gas)
  from r obtain v where v: "Back (f_stack m) 2 = Some v"
    "gthen (Some (m, safeAdd E (if u_Sign (eU E) v \<noteq> 0 then CallValueTransferGas else 0) fee))
      (\<lambda>f gas. charge_call E f gas) = Some (f', Inr g)"
    unfolding Let_def bind_Some_iff by blast
  have "f_stack m = f_stack f" using mem_gas_small [OF ok m] by simp
  then have need: "transfer_need (f_stack f) \<le> unat (if u_Sign (eU E) v \<noteq> 0 then CallValueTransferGas else 0)"
    using v(1) by (simp add: transfer_need_def uint256_specD [OF U])
  show "base_ok transfer_need E f f' g"
    by (rule calculator_base [where need = transfer_need, OF G ok m _ _ v(2)]) (simp, rule need)
qed

interpretation delegatecall: call_calculator gasDelegateCall "\<lambda>_. 0"
proof
  fix E :: "'s env" and f ms f' g
  assume "mem_ok (f_mem f)" and "gasDelegateCall E f ms = Some (f', Inr g)"
  then show "base_ok (\<lambda>_. 0) E f f' g"
    by (force simp: base_ok_def gasDelegateCall_def elim!: gthen_mem_gas dest!: mem_gas_small)
qed

interpretation staticcall: call_calculator gasStaticCall "\<lambda>_. 0"
proof
  fix E :: "'s env" and f ms f' g
  assume "mem_ok (f_mem f)" and "gasStaticCall E f ms = Some (f', Inr g)"
  then show "base_ok (\<lambda>_. 0) E f f' g"
    by (force simp: base_ok_def gasStaticCall_def elim!: gthen_mem_gas dest!: mem_gas_small)
qed

end
