(* ===== verification/Instructions.thy ===== *)
theory Instructions
  imports GasTable
begin

text \<open>
  The instructions, \<^verbatim>\<open>vm/ethvm/instructions.go\<close> and \<^verbatim>\<open>eips.go\<close>. An instruction takes the frame and answers the changed
  frame, the returned bytes and an error; \<open>None\<close> is a panic. The calls that instructions make on
  \<^verbatim>\<open>interpreter.vm\<close> are a record of functions \<open>calls\<close>, for which the theory \<open>Interpreter\<close> supplies the modelled ones. The
  hasher is the hash function of the library; the tracer is left out.
\<close>

record 's calls =
  c_Call :: "'s vm \<Rightarrow> contract_ref \<Rightarrow> address \<Rightarrow> bytes \<Rightarrow> u64 \<Rightarrow> int \<Rightarrow>
    ('s vm \<times> bytes \<times> u64 \<times> vm_error option) option"
  c_CallCode :: "'s vm \<Rightarrow> contract_ref \<Rightarrow> address \<Rightarrow> bytes \<Rightarrow> u64 \<Rightarrow> int \<Rightarrow>
    ('s vm \<times> bytes \<times> u64 \<times> vm_error option) option"
  c_DelegateCall :: "'s vm \<Rightarrow> contract_ref \<Rightarrow> address \<Rightarrow> bytes \<Rightarrow> u64 \<Rightarrow>
    ('s vm \<times> bytes \<times> u64 \<times> vm_error option) option"
  c_StaticCall :: "'s vm \<Rightarrow> contract_ref \<Rightarrow> address \<Rightarrow> bytes \<Rightarrow> u64 \<Rightarrow>
    ('s vm \<times> bytes \<times> u64 \<times> vm_error option) option"
  c_Create :: "'s vm \<Rightarrow> contract_ref \<Rightarrow> bytes \<Rightarrow> u64 \<Rightarrow> int \<Rightarrow>
    ('s vm \<times> bytes \<times> address \<times> u64 \<times> vm_error option) option"
  c_Create2 :: "'s vm \<Rightarrow> contract_ref \<Rightarrow> bytes \<Rightarrow> u64 \<Rightarrow> int \<Rightarrow> u256 \<Rightarrow>
    ('s vm \<times> bytes \<times> address \<times> u64 \<times> vm_error option) option"

type_synonym 's exec =
  "'s calls \<Rightarrow> 's env \<Rightarrow> 's frame \<Rightarrow> ('s frame \<times> bytes \<times> vm_error option) option"

abbreviation next_op :: "'s frame \<Rightarrow> ('s frame \<times> bytes \<times> vm_error option) option" where
  "next_op f \<equiv> Some (f, [], None)"

abbreviation fail :: "'s frame \<Rightarrow> vm_error \<Rightarrow> ('s frame \<times> bytes \<times> vm_error option) option" where
  "fail f e \<equiv> Some (f, [], Some e)"

text \<open>\<^verbatim>\<open>uint256.FromBig\<close> of a nil integer ends in a nil dereference, at the latest in the push: a missing base fee,
  chain id, random value or call value panics.\<close>

section \<open>Arithmetic, comparison and bit operations\<close>

text \<open>The shapes most instructions share: the first operand is popped, the last one is overwritten in place
  with the result.\<close>

definition stack_op1 :: "(uint256_ops \<Rightarrow> u256 \<Rightarrow> u256) \<Rightarrow> 's exec" where
  "stack_op1 g C E f = do {
     x \<leftarrow> peek (f_stack f);
     next_op (f\<lparr>f_stack := set_top (f_stack f) (g (eU E) x)\<rparr>)
   }"

definition stack_op2 :: "(uint256_ops \<Rightarrow> u256 \<Rightarrow> u256 \<Rightarrow> u256) \<Rightarrow> 's exec" where
  "stack_op2 g C E f = do {
     (x, st) \<leftarrow> pop (f_stack f);
     y \<leftarrow> peek st;
     next_op (f\<lparr>f_stack := set_top st (g (eU E) x y)\<rparr>)
   }"

definition stack_op3 :: "(uint256_ops \<Rightarrow> u256 \<Rightarrow> u256 \<Rightarrow> u256 \<Rightarrow> u256) \<Rightarrow> 's exec" where
  "stack_op3 g C E f = do {
     (x, st) \<leftarrow> pop (f_stack f);
     (y, st) \<leftarrow> pop st;
     z \<leftarrow> peek st;
     next_op (f\<lparr>f_stack := set_top st (g (eU E) x y z)\<rparr>)
   }"

definition truth :: "bool \<Rightarrow> u256" where
  "truth b = (if b then 1 else 0)"

definition opAdd :: "'s exec" where "opAdd = stack_op2 (\<lambda>U x y. u_Add U x y)"
definition opSub :: "'s exec" where "opSub = stack_op2 (\<lambda>U x y. u_Sub U x y)"
definition opMul :: "'s exec" where "opMul = stack_op2 (\<lambda>U x y. u_Mul U x y)"
definition opDiv :: "'s exec" where "opDiv = stack_op2 (\<lambda>U x y. u_Div U x y)"
definition opSdiv :: "'s exec" where "opSdiv = stack_op2 (\<lambda>U x y. u_SDiv U x y)"
definition opMod :: "'s exec" where "opMod = stack_op2 (\<lambda>U x y. u_Mod U x y)"
definition opSmod :: "'s exec" where "opSmod = stack_op2 (\<lambda>U x y. u_SMod U x y)"
definition opExp :: "'s exec" where "opExp = stack_op2 (\<lambda>U base exponent. u_Exp U base exponent)"
definition opSignExtend :: "'s exec" where "opSignExtend = stack_op2 (\<lambda>U back num. u_ExtendSign U num back)"
definition opNot :: "'s exec" where "opNot = stack_op1 (\<lambda>U x. u_Not U x)"
definition opLt :: "'s exec" where "opLt = stack_op2 (\<lambda>U x y. truth (u_Lt U x y))"
definition opGt :: "'s exec" where "opGt = stack_op2 (\<lambda>U x y. truth (u_Gt U x y))"
definition opSlt :: "'s exec" where "opSlt = stack_op2 (\<lambda>U x y. truth (u_Slt U x y))"
definition opSgt :: "'s exec" where "opSgt = stack_op2 (\<lambda>U x y. truth (u_Sgt U x y))"
definition opEq :: "'s exec" where "opEq = stack_op2 (\<lambda>U x y. truth (u_Eq U x y))"
definition opIszero :: "'s exec" where "opIszero = stack_op1 (\<lambda>U x. truth (u_IsZero U x))"
definition opAnd :: "'s exec" where "opAnd = stack_op2 (\<lambda>U x y. u_And U x y)"
definition opOr :: "'s exec" where "opOr = stack_op2 (\<lambda>U x y. u_Or U x y)"
definition opXor :: "'s exec" where "opXor = stack_op2 (\<lambda>U x y. u_Xor U x y)"
definition opByte :: "'s exec" where "opByte = stack_op2 (\<lambda>U th val. u_Byte U val th)"
definition opAddmod :: "'s exec" where
  "opAddmod = stack_op3 (\<lambda>U x y z. if u_IsZero U z then 0 else u_AddMod U x y z)"
definition opMulmod :: "'s exec" where "opMulmod = stack_op3 (\<lambda>U x y z. u_MulMod U x y z)"

definition opSHL :: "'s exec" where
  "opSHL = stack_op2 (\<lambda>U shift value.
     if u_LtUint64 U shift 256 then u_Lsh U value (unat (u_Uint64 U shift)) else 0)"

definition opSHR :: "'s exec" where
  "opSHR = stack_op2 (\<lambda>U shift value.
     if u_LtUint64 U shift 256 then u_Rsh U value (unat (u_Uint64 U shift)) else 0)"

definition opSAR :: "'s exec" where
  "opSAR = stack_op2 (\<lambda>U shift value.
     if u_GtUint64 U shift 256
     then (if u_Sign U value \<ge> 0 then 0 else u_SetAllOne U)
     else u_SRsh U value (unat (u_Uint64 U shift)))"

definition opKeccak256 :: "'s exec" where
  "opKeccak256 C E f = do {
     (offset, st) \<leftarrow> pop (f_stack f);
     sz \<leftarrow> peek st;
     data \<leftarrow> mem_GetPtr (f_mem f) (u_Uint64 (eU E) offset) (u_Uint64 (eU E) sz);
     let hasherBuf = g_Keccak256 (eG E) data;
     let f = (if EnablePreimageRecording E
              then set_db f (db_AddPreimage (eJ E) (f_db f) (g_BytesToHash (eG E) hasherBuf) data) else f);
     next_op (f\<lparr>f_stack := set_top st (u_SetBytes (eU E) hasherBuf)\<rparr>)
   }"

section \<open>The environment\<close>

definition push_value :: "('s env \<Rightarrow> 's frame \<Rightarrow> u256 option) \<Rightarrow> 's exec" where
  "push_value g C E f = do {
     v \<leftarrow> g E f;
     next_op (f\<lparr>f_stack := push (f_stack f) v\<rparr>)
   }"

definition push_address :: "'s env \<Rightarrow> address \<Rightarrow> u256" where
  "push_address E a = u_SetBytes (eU E) (g_AddrBytes (eG E) a)"

definition opAddress :: "'s exec" where "opAddress = push_value (\<lambda>E f. Some (push_address E (self (f_con f))))"

definition opBalance :: "'s exec" where
  "opBalance C E f = do {
     slot \<leftarrow> peek (f_stack f);
     let address = u_Bytes20 (eU E) slot;
     next_op (f\<lparr>f_stack := set_top (f_stack f) (u_FromBig (eU E) (db_GetBalance (eA E) (f_db f) address))\<rparr>)
   }"

definition opOrigin :: "'s exec" where "opOrigin = push_value (\<lambda>E f. Some (push_address E (Origin E)))"
definition opCaller :: "'s exec" where "opCaller = push_value (\<lambda>E f. Some (push_address E (CallerAddress (f_con f))))"
definition opCallValue :: "'s exec" where
  "opCallValue = push_value (\<lambda>E f. map_option (u_FromBig (eU E)) (c_value (f_con f)))"

definition opCallDataLoad :: "'s exec" where
  "opCallDataLoad C E f = do {
     x \<leftarrow> peek (f_stack f);
     let (offset, overflow) = u_Uint64WithOverflow (eU E) x;
     if \<not> overflow then do {
       data \<leftarrow> getData (eG E) (Input (f_con f)) offset 32;
       next_op (f\<lparr>f_stack := set_top (f_stack f) (u_SetBytes (eU E) data)\<rparr>)
     } else next_op (f\<lparr>f_stack := set_top (f_stack f) 0\<rparr>)
   }"

definition opCallDataSize :: "'s exec" where
  "opCallDataSize = push_value (\<lambda>E f. Some (u_SetUint64 (eU E) (of_nat (length (Input (f_con f))))))"

definition opCallDataCopy :: "'s exec" where
  "opCallDataCopy C E f = do {
     (memOffset, st) \<leftarrow> pop (f_stack f);
     (dataOffset, st) \<leftarrow> pop st;
     (l, st) \<leftarrow> pop st;
     let (dataOffset64, overflow) = u_Uint64WithOverflow (eU E) dataOffset;
     let dataOffset64 = (if overflow then 0xffffffffffffffff else dataOffset64);
     let memOffset64 = u_Uint64 (eU E) memOffset;
     let length64 = u_Uint64 (eU E) l;
     data \<leftarrow> getData (eG E) (Input (f_con f)) dataOffset64 length64;
     m \<leftarrow> mem_Set (f_mem f) memOffset64 length64 data;
     next_op (f\<lparr>f_stack := st, f_mem := m\<rparr>)
   }"

definition opReturnDataSize :: "'s exec" where
  "opReturnDataSize = push_value (\<lambda>E f. Some (u_SetUint64 (eU E) (of_nat (length (returnData (f_vm f))))))"

definition opReturnDataCopy :: "'s exec" where
  "opReturnDataCopy C E f = do {
     (memOffset, st) \<leftarrow> pop (f_stack f);
     (dataOffset, st) \<leftarrow> pop st;
     (l, st) \<leftarrow> pop st;
     let f = f\<lparr>f_stack := st\<rparr>;
     let (offset64, overflow) = u_Uint64WithOverflow (eU E) dataOffset;
     if overflow then fail f ErrReturnDataOutOfBounds
     else
       let (end64, overflow) = u_Uint64WithOverflow (eU E) (u_Add (eU E) dataOffset l) in
       if overflow \<or> of_nat (length (returnData (f_vm f))) < end64 then fail f ErrReturnDataOutOfBounds
       else do {
         s \<leftarrow> go_slice (returnData (f_vm f)) (unat offset64) (unat end64);
         m \<leftarrow> mem_Set (f_mem f) (u_Uint64 (eU E) memOffset) (u_Uint64 (eU E) l) s;
         next_op (f\<lparr>f_mem := m\<rparr>)
       }
   }"

definition opExtCodeSize :: "'s exec" where
  "opExtCodeSize C E f = do {
     slot \<leftarrow> peek (f_stack f);
     let acc = u_Bytes20 (eU E) slot;
     next_op (f\<lparr>f_stack := set_top (f_stack f)
       (u_SetUint64 (eU E) (of_nat (db_GetCodeSize (eA E) (f_db f) acc)))\<rparr>)
   }"

definition opCodeSize :: "'s exec" where
  "opCodeSize = push_value (\<lambda>E f. Some (u_SetUint64 (eU E) (of_nat (length (Code (f_con f))))))"

definition opCodeCopy :: "'s exec" where
  "opCodeCopy C E f = do {
     (memOffset, st) \<leftarrow> pop (f_stack f);
     (codeOffset, st) \<leftarrow> pop st;
     (l, st) \<leftarrow> pop st;
     let (uint64CodeOffset, overflow) = u_Uint64WithOverflow (eU E) codeOffset;
     let uint64CodeOffset = (if overflow then 0xffffffffffffffff else uint64CodeOffset);
     codeCopy \<leftarrow> getData (eG E) (Code (f_con f)) uint64CodeOffset (u_Uint64 (eU E) l);
     m \<leftarrow> mem_Set (f_mem f) (u_Uint64 (eU E) memOffset) (u_Uint64 (eU E) l) codeCopy;
     next_op (f\<lparr>f_stack := st, f_mem := m\<rparr>)
   }"

definition opExtCodeCopy :: "'s exec" where
  "opExtCodeCopy C E f = do {
     (a, st) \<leftarrow> pop (f_stack f);
     (memOffset, st) \<leftarrow> pop st;
     (codeOffset, st) \<leftarrow> pop st;
     (l, st) \<leftarrow> pop st;
     let (uint64CodeOffset, overflow) = u_Uint64WithOverflow (eU E) codeOffset;
     let uint64CodeOffset = (if overflow then 0xffffffffffffffff else uint64CodeOffset);
     let account = u_Bytes20 (eU E) a;
     codeCopy \<leftarrow> getData (eG E) (db_GetCode (eA E) (f_db f) account) uint64CodeOffset (u_Uint64 (eU E) l);
     m \<leftarrow> mem_Set (f_mem f) (u_Uint64 (eU E) memOffset) (u_Uint64 (eU E) l) codeCopy;
     next_op (f\<lparr>f_stack := st, f_mem := m\<rparr>)
   }"

definition opExtCodeHash :: "'s exec" where
  "opExtCodeHash C E f = do {
     slot \<leftarrow> peek (f_stack f);
     let account = u_Bytes20 (eU E) slot;
     if db_Empty (eA E) (f_db f) account then next_op (f\<lparr>f_stack := set_top (f_stack f) 0\<rparr>)
     else next_op (f\<lparr>f_stack := set_top (f_stack f)
       (u_SetBytes (eU E) (g_HashBytes (eG E) (db_GetCodeHash (eA E) (f_db f) account)))\<rparr>)
   }"

definition opGasprice :: "'s exec" where "opGasprice = push_value (\<lambda>E f. Some (u_FromBig (eU E) (TxGasPrice E)))"

definition opBlockhash :: "'s exec" where
  "opBlockhash C E f = do {
     num \<leftarrow> peek (f_stack f);
     let (num64, overflow) = u_Uint64WithOverflow (eU E) num;
     if overflow then next_op (f\<lparr>f_stack := set_top (f_stack f) 0\<rparr>)
     else
       let upper = big_Uint64 (BlockNumber E);
           lower = (if upper < 257 then 0 else upper - 256)
       in if num64 \<ge> lower \<and> num64 < upper
          then next_op (f\<lparr>f_stack := set_top (f_stack f)
                 (u_SetBytes (eU E) (g_HashBytes (eG E) (GetHash E num64)))\<rparr>)
          else next_op (f\<lparr>f_stack := set_top (f_stack f) 0\<rparr>)
   }"

definition opCoinbase :: "'s exec" where "opCoinbase = push_value (\<lambda>E f. Some (push_address E (Coinbase E)))"
definition opTimestamp :: "'s exec" where "opTimestamp = push_value (\<lambda>E f. Some (u_FromBig (eU E) (Time E)))"
definition opNumber :: "'s exec" where "opNumber = push_value (\<lambda>E f. Some (u_FromBig (eU E) (BlockNumber E)))"
definition opDifficulty :: "'s exec" where "opDifficulty = push_value (\<lambda>E f. Some (u_FromBig (eU E) (Difficulty E)))"
definition opRandom :: "'s exec" where
  "opRandom = push_value (\<lambda>E f. map_option (\<lambda>h. u_SetBytes (eU E) (g_HashBytes (eG E) h)) (Random E))"
definition opGasLimit :: "'s exec" where "opGasLimit = push_value (\<lambda>E f. Some (u_SetUint64 (eU E) (GasLimit E)))"

definition opPop :: "'s exec" where
  "opPop C E f = do {
     (_, st) \<leftarrow> pop (f_stack f);
     next_op (f\<lparr>f_stack := st\<rparr>)
   }"

section \<open>Memory and storage\<close>

definition opMload :: "'s exec" where
  "opMload C E f = do {
     v \<leftarrow> peek (f_stack f);
     let offset = u_Uint64 (eU E) v;
     data \<leftarrow> mem_GetPtr (f_mem f) offset 32;
     next_op (f\<lparr>f_stack := set_top (f_stack f) (u_SetBytes (eU E) data)\<rparr>)
   }"

definition opMstore :: "'s exec" where
  "opMstore C E f = do {
     (mStart, st) \<leftarrow> pop (f_stack f);
     (val, st) \<leftarrow> pop st;
     m \<leftarrow> mem_Set32 (eU E) (f_mem f) (u_Uint64 (eU E) mStart) val;
     next_op (f\<lparr>f_stack := st, f_mem := m\<rparr>)
   }"

definition opMstore8 :: "'s exec" where
  "opMstore8 C E f = do {
     (off, st) \<leftarrow> pop (f_stack f);
     (val, st) \<leftarrow> pop st;
     m \<leftarrow> mem_ChangeStore (f_mem f) (u_Uint64 (eU E) off) (ucast (u_Uint64 (eU E) val));
     next_op (f\<lparr>f_stack := st, f_mem := m\<rparr>)
   }"

definition opSload :: "'s exec" where
  "opSload C E f = do {
     loc \<leftarrow> peek (f_stack f);
     let h = u_Bytes32 (eU E) loc;
     val \<leftarrow> (case rw_Get (vWriteSet (f_vm f)) (self (f_con f)) of
         None \<Rightarrow> Some (db_GetState (eA E) (f_db f) (self (f_con f)) h)
       | Some c \<Rightarrow> (case lookup c h of
             None \<Rightarrow> Some (db_GetState (eA E) (f_db f) (self (f_con f)) h)
           | Some value \<Rightarrow> do { b \<leftarrow> as_bytes value; Some (g_BytesToHash (eG E) b) }));
     rs \<leftarrow> ReadSet_UpdateCache (eK E) (vReadSet (f_vm f)) (self (f_con f)) h (VHash val);
     next_op (f\<lparr>f_vm := (f_vm f)\<lparr>vReadSet := rs\<rparr>,
                f_stack := set_top (f_stack f) (u_SetBytes (eU E) (g_HashBytes (eG E) val))\<rparr>)
   }"

definition opSstore :: "'s exec" where
  "opSstore C E f =
     (if readOnly (f_vm f) then fail f ErrWriteProtection
      else do {
        (loc, st) \<leftarrow> pop (f_stack f);
        (val, st) \<leftarrow> pop st;
        ws \<leftarrow> WriteSet_UpdateCache (eK E) (vWriteSet (f_vm f)) (self (f_con f))
                (u_Bytes32 (eU E) loc) (VBytes (u_Bytes (eU E) val)) (VBytes []);
        next_op (f\<lparr>f_vm := (f_vm f)\<lparr>vWriteSet := ws\<rparr>, f_stack := st\<rparr>)
      })"

section \<open>Control flow\<close>

text \<open>\<^verbatim>\<open>validJumpdest\<close> may compute the analysis, which stays with the contract and the shared store.\<close>

definition check_dest :: "'s env \<Rightarrow> 's frame \<Rightarrow> u256 \<Rightarrow> (bool \<times> 's frame) option" where
  "check_dest E f pos = do {
     (ok, c, jds) \<leftarrow> validJumpdest (eU E) (jdstore (f_vm f)) (f_con f) pos;
     Some (ok, f\<lparr>f_vm := (f_vm f)\<lparr>jdstore := jds\<rparr>, f_con := c\<rparr>)
   }"

definition opJump :: "'s exec" where
  "opJump C E f =
     (if abort (f_vm f) then fail f ErrStopToken
      else do {
        (pos, st) \<leftarrow> pop (f_stack f);
        (ok, f) \<leftarrow> check_dest E (f\<lparr>f_stack := st\<rparr>) pos;
        if \<not> ok then fail f ErrInvalidJump
        else next_op (f\<lparr>f_pc := u_Uint64 (eU E) pos - 1\<rparr>)
      })"

definition opJumpi :: "'s exec" where
  "opJumpi C E f =
     (if abort (f_vm f) then fail f ErrStopToken
      else do {
        (pos, st) \<leftarrow> pop (f_stack f);
        (cond, st) \<leftarrow> pop st;
        let f = f\<lparr>f_stack := st\<rparr>;
        if \<not> u_IsZero (eU E) cond then do {
          (ok, f) \<leftarrow> check_dest E f pos;
          if \<not> ok then fail f ErrInvalidJump
          else next_op (f\<lparr>f_pc := u_Uint64 (eU E) pos - 1\<rparr>)
        } else next_op f
      })"

definition opJumpdest :: "'s exec" where
  "opJumpdest C E f = next_op f"

definition opPc :: "'s exec" where "opPc = push_value (\<lambda>E f. Some (u_SetUint64 (eU E) (f_pc f)))"
definition opMsize :: "'s exec" where
  "opMsize = push_value (\<lambda>E f. Some (u_SetUint64 (eU E) (of_nat (length (store (f_mem f))))))"
definition opGas :: "'s exec" where "opGas = push_value (\<lambda>E f. Some (u_SetUint64 (eU E) (Gas (f_con f))))"

definition opReturn :: "'s exec" where
  "opReturn C E f = do {
     (offset, st) \<leftarrow> pop (f_stack f);
     (sz, st) \<leftarrow> pop st;
     ret \<leftarrow> mem_GetPtr (f_mem f) (u_Uint64 (eU E) offset) (u_Uint64 (eU E) sz);
     Some (f\<lparr>f_stack := st\<rparr>, ret, Some ErrStopToken)
   }"

definition opRevert :: "'s exec" where
  "opRevert C E f = do {
     (offset, st) \<leftarrow> pop (f_stack f);
     (sz, st) \<leftarrow> pop st;
     ret \<leftarrow> mem_GetPtr (f_mem f) (u_Uint64 (eU E) offset) (u_Uint64 (eU E) sz);
     Some (f\<lparr>f_stack := st, f_vm := (f_vm f)\<lparr>returnData := ret\<rparr>\<rparr>, ret, Some ErrExecutionReverted)
   }"

definition opUndefined :: "'s exec" where
  "opUndefined C E f = do {
     b \<leftarrow> go_index (Code (f_con f)) (unat (f_pc f));
     fail f (ErrInvalidOpCode b)
   }"

definition opStop :: "'s exec" where
  "opStop C E f = fail f ErrStopToken"

definition opSelfdestruct :: "'s exec" where
  "opSelfdestruct C E f =
     (if readOnly (f_vm f) then fail f ErrWriteProtection
      else do {
        (beneficiary, st) \<leftarrow> pop (f_stack f);
        let f = f\<lparr>f_stack := st\<rparr>;
        let balance = db_GetBalance (eA E) (f_db f) (self (f_con f));
        let account = u_Bytes20 (eU E) beneficiary;
        let f = set_db f (db_AddBalance (eA E) (f_db f) account balance);
        let f = set_db f (db_Suicide (eA E) (f_db f) (self (f_con f)));
        fail f ErrStopToken
      })"

section \<open>Logs, pushes, duplicates and exchanges\<close>

definition makeLog :: "nat \<Rightarrow> 's exec" where
  "makeLog size' C E f =
     (if readOnly (f_vm f) then fail f ErrWriteProtection
      else do {
        (mStart, st) \<leftarrow> pop (f_stack f);
        (mSize, st) \<leftarrow> pop st;
        (topics, st) \<leftarrow> pops pop size' st;
        d \<leftarrow> mem_GetCopy (f_mem f) (u_Uint64 (eU E) mStart) (u_Uint64 (eU E) mSize);
        let metaLog = \<lparr>log_Address = self (f_con f), log_Topics = map (u_Bytes32 (eU E)) topics,
                       log_Data = d, log_BlockNumber = big_Uint64 (BlockNumber E)\<rparr>;
        next_op (f\<lparr>f_stack := st, f_vm := (f_vm f)\<lparr>vLogs := vLogs (f_vm f) @ [metaLog]\<rparr>\<rparr>)
      })"

definition opPush0 :: "'s exec" where "opPush0 = push_value (\<lambda>E f. Some 0)"

definition opPush1 :: "'s exec" where
  "opPush1 C E f = do {
     let codeLen = (of_nat (length (Code (f_con f))) :: u64);
     let f = f\<lparr>f_pc := f_pc f + 1\<rparr>;
     if f_pc f < codeLen then do {
       b \<leftarrow> go_index (Code (f_con f)) (unat (f_pc f));
       next_op (f\<lparr>f_stack := push (f_stack f) (u_SetUint64 (eU E) (ucast b))\<rparr>)
     } else next_op (f\<lparr>f_stack := push (f_stack f) 0\<rparr>)
   }"

text \<open>\<^verbatim>\<open>int(*pc+1)\<close> reads the word as signed; a negative start makes the slice expression panic.\<close>

definition makePush :: "u64 \<Rightarrow> nat \<Rightarrow> 's exec" where
  "makePush size' pushByteSize C E f =
     (let codeLen = int (length (Code (f_con f)));
          startMin = (if sint (f_pc f + 1) < codeLen then sint (f_pc f + 1) else codeLen);
          endMin = (if startMin + int pushByteSize < codeLen then startMin + int pushByteSize else codeLen)
      in if startMin < 0 \<or> endMin < 0 then None
         else do {
           s \<leftarrow> go_slice (Code (f_con f)) (nat startMin) (nat endMin);
           next_op (f\<lparr>f_stack := push (f_stack f) (u_SetBytes (eU E) (g_RightPadBytes (eG E) s pushByteSize)),
                      f_pc := f_pc f + size'\<rparr>)
         })"

definition makeDup :: "nat \<Rightarrow> 's exec" where
  "makeDup size' C E f = do {
     st \<leftarrow> dup (f_stack f) size';
     next_op (f\<lparr>f_stack := st\<rparr>)
   }"

definition makeSwap :: "nat \<Rightarrow> 's exec" where
  "makeSwap size' C E f = do {
     st \<leftarrow> swap (f_stack f) (size' + 1);
     next_op (f\<lparr>f_stack := st\<rparr>)
   }"

definition opSelfBalance :: "'s exec" where
  "opSelfBalance = push_value (\<lambda>E f. Some (u_FromBig (eU E) (db_GetBalance (eA E) (f_db f) (self (f_con f)))))"
definition opChainID :: "'s exec" where
  "opChainID = push_value (\<lambda>E f. map_option (u_FromBig (eU E)) (ChainID E))"
definition opBaseFee :: "'s exec" where
  "opBaseFee = push_value (\<lambda>E f. map_option (u_FromBig (eU E)) (BaseFee E))"

section \<open>Creations and calls\<close>

definition opCreate :: "'s exec" where
  "opCreate C E f =
     (if readOnly (f_vm f) then fail f ErrWriteProtection
      else do {
        (value, st) \<leftarrow> pop (f_stack f);
        (offset, st) \<leftarrow> pop st;
        (sz, st) \<leftarrow> pop st;
        input \<leftarrow> mem_GetCopy (f_mem f) (u_Uint64 (eU E) offset) (u_Uint64 (eU E) sz);
        let gas = Gas (f_con f);
        let gas = gas - gas div 6;
        let con = snd (UseGas (f_con f) gas);
        let bigVal = (if \<not> u_IsZero (eU E) value then u_ToBig (eU E) value else 0);
        (vm, res, addr, returnGas, suberr) \<leftarrow> c_Create C (f_vm f) (as_ref con) input gas bigVal;
        let stackvalue = (if suberr \<noteq> None \<and> suberr \<noteq> Some ErrCodeStoreOutOfGas then 0
                          else u_SetBytes (eU E) (g_AddrBytes (eG E) addr));
        let con = con\<lparr>Gas := Gas con + returnGas\<rparr>;
        if suberr = Some ErrExecutionReverted
        then Some (f\<lparr>f_vm := vm\<lparr>returnData := res\<rparr>, f_stack := push st stackvalue, f_con := con\<rparr>, res, None)
        else next_op (f\<lparr>f_vm := vm\<lparr>returnData := []\<rparr>, f_stack := push st stackvalue, f_con := con\<rparr>)
      })"

definition opCreate2 :: "'s exec" where
  "opCreate2 C E f =
     (if readOnly (f_vm f) then fail f ErrWriteProtection
      else do {
        (endowment, st) \<leftarrow> pop (f_stack f);
        (offset, st) \<leftarrow> pop st;
        (sz, st) \<leftarrow> pop st;
        (salt, st) \<leftarrow> pop st;
        input \<leftarrow> mem_GetCopy (f_mem f) (u_Uint64 (eU E) offset) (u_Uint64 (eU E) sz);
        let gas = Gas (f_con f);
        let gas = gas - gas div 64;
        let con = snd (UseGas (f_con f) gas);
        let bigEndowment = (if \<not> u_IsZero (eU E) endowment then u_ToBig (eU E) endowment else 0);
        (vm, res, addr, returnGas, suberr) \<leftarrow> c_Create2 C (f_vm f) (as_ref con) input gas bigEndowment salt;
        let stackvalue = (if suberr \<noteq> None then 0 else u_SetBytes (eU E) (g_AddrBytes (eG E) addr));
        let con = con\<lparr>Gas := Gas con + returnGas\<rparr>;
        if suberr = Some ErrExecutionReverted
        then Some (f\<lparr>f_vm := vm\<lparr>returnData := res\<rparr>, f_stack := push st stackvalue, f_con := con\<rparr>, res, None)
        else next_op (f\<lparr>f_vm := vm\<lparr>returnData := []\<rparr>, f_stack := push st stackvalue, f_con := con\<rparr>)
      })"

text \<open>What the four calls do with the answer: push success, copy the returned bytes into the memory on success or
  revert, give the left-over gas back and keep the bytes for \<^verbatim>\<open>RETURNDATACOPY\<close>.\<close>

definition call_return ::
  "'s frame \<Rightarrow> stack \<Rightarrow> u64 \<Rightarrow> u64 \<Rightarrow> 's vm \<times> bytes \<times> u64 \<times> vm_error option \<Rightarrow>
   ('s frame \<times> bytes \<times> vm_error option) option" where
  "call_return f st retOffset retSize r = (case r of (vm, ret, returnGas, err) \<Rightarrow> do {
     let temp = (if err \<noteq> None then 0 else 1);
     m \<leftarrow> (if err = None \<or> err = Some ErrExecutionReverted
           then mem_Set (f_mem f) retOffset retSize ret else Some (f_mem f));
     Some (f\<lparr>f_vm := vm\<lparr>returnData := ret\<rparr>, f_stack := push st temp, f_mem := m,
             f_con := (f_con f)\<lparr>Gas := Gas (f_con f) + returnGas\<rparr>\<rparr>, ret, None)
   })"

definition opCall :: "'s exec" where
  "opCall C E f = do {
     (temp, st) \<leftarrow> pop (f_stack f);
     let gas = callGasTemp (f_vm f);
     (addr, st) \<leftarrow> pop st;
     (value, st) \<leftarrow> pop st;
     (inOffset, st) \<leftarrow> pop st;
     (inSize, st) \<leftarrow> pop st;
     (retOffset, st) \<leftarrow> pop st;
     (retSize, st) \<leftarrow> pop st;
     let toAddr = u_Bytes20 (eU E) addr;
     args \<leftarrow> mem_GetPtr (f_mem f) (u_Uint64 (eU E) inOffset) (u_Uint64 (eU E) inSize);
     if readOnly (f_vm f) \<and> \<not> u_IsZero (eU E) value then fail (f\<lparr>f_stack := st\<rparr>) ErrWriteProtection
     else do {
       let (gas, bigVal) = (if \<not> u_IsZero (eU E) value then (gas + CallStipend, u_ToBig (eU E) value) else (gas, 0));
       r \<leftarrow> c_Call C (f_vm f) (as_ref (f_con f)) toAddr args gas bigVal;
       call_return f st (u_Uint64 (eU E) retOffset) (u_Uint64 (eU E) retSize) r
     }
   }"

definition opCallCode :: "'s exec" where
  "opCallCode C E f = do {
     (temp, st) \<leftarrow> pop (f_stack f);
     let gas = callGasTemp (f_vm f);
     (addr, st) \<leftarrow> pop st;
     (value, st) \<leftarrow> pop st;
     (inOffset, st) \<leftarrow> pop st;
     (inSize, st) \<leftarrow> pop st;
     (retOffset, st) \<leftarrow> pop st;
     (retSize, st) \<leftarrow> pop st;
     let toAddr = u_Bytes20 (eU E) addr;
     args \<leftarrow> mem_GetPtr (f_mem f) (u_Uint64 (eU E) inOffset) (u_Uint64 (eU E) inSize);
     let (gas, bigVal) = (if \<not> u_IsZero (eU E) value then (gas + CallStipend, u_ToBig (eU E) value) else (gas, 0));
     r \<leftarrow> c_CallCode C (f_vm f) (as_ref (f_con f)) toAddr args gas bigVal;
     call_return f st (u_Uint64 (eU E) retOffset) (u_Uint64 (eU E) retSize) r
   }"

definition opDelegateCall :: "'s exec" where
  "opDelegateCall C E f = do {
     (temp, st) \<leftarrow> pop (f_stack f);
     let gas = callGasTemp (f_vm f);
     (addr, st) \<leftarrow> pop st;
     (inOffset, st) \<leftarrow> pop st;
     (inSize, st) \<leftarrow> pop st;
     (retOffset, st) \<leftarrow> pop st;
     (retSize, st) \<leftarrow> pop st;
     let toAddr = u_Bytes20 (eU E) addr;
     args \<leftarrow> mem_GetPtr (f_mem f) (u_Uint64 (eU E) inOffset) (u_Uint64 (eU E) inSize);
     r \<leftarrow> c_DelegateCall C (f_vm f) (as_ref (f_con f)) toAddr args gas;
     call_return f st (u_Uint64 (eU E) retOffset) (u_Uint64 (eU E) retSize) r
   }"

definition opStaticCall :: "'s exec" where
  "opStaticCall C E f = do {
     (temp, st) \<leftarrow> pop (f_stack f);
     let gas = callGasTemp (f_vm f);
     (addr, st) \<leftarrow> pop st;
     (inOffset, st) \<leftarrow> pop st;
     (inSize, st) \<leftarrow> pop st;
     (retOffset, st) \<leftarrow> pop st;
     (retSize, st) \<leftarrow> pop st;
     let toAddr = u_Bytes20 (eU E) addr;
     args \<leftarrow> mem_GetPtr (f_mem f) (u_Uint64 (eU E) inOffset) (u_Uint64 (eU E) inSize);
     r \<leftarrow> c_StaticCall C (f_vm f) (as_ref (f_con f)) toAddr args gas;
     call_return f st (u_Uint64 (eU E) retOffset) (u_Uint64 (eU E) retSize) r
   }"

end
