(* ===== verification/JumpTable.thy ===== *)
theory JumpTable
  imports Instructions Opcodes
begin

text \<open>
  The instruction table of \<^verbatim>\<open>vm/ethvm/jump_table.go\<close>: for each of the 256 opcodes what to execute, its gas, its
  stack bounds and its memory size. The literal of \<^verbatim>\<open>newFrontierInstructionSet\<close> is given in pieces; slots it does
  not name are filled with \<open>opUndefined\<close>. \<open>moves p q\<close> says that an instruction pops \<open>p\<close> values and pushes \<open>q\<close>.
\<close>

record 's operation =
  execute :: "'s exec"
  constantGas :: u64
  dynamicGas :: "'s gas_func option"
  op_minStack :: int
  op_maxStack :: int
  memorySize :: "mem_size_func option"

type_synonym 's jump_table = "'s operation list"

definition frontier_1 :: "(u8 \<times> 's operation) list" where
  "frontier_1 = [
     (OP_STOP, \<lparr>execute = opStop, constantGas = 0, dynamicGas = None,
        op_minStack = minStack 0 0, op_maxStack = maxStack 0 0, memorySize = None\<rparr>),
     (OP_ADD, \<lparr>execute = opAdd, constantGas = GasFastestStep, dynamicGas = None,
        op_minStack = minStack 2 1, op_maxStack = maxStack 2 1, memorySize = None\<rparr>),
     (OP_MUL, \<lparr>execute = opMul, constantGas = GasFastStep, dynamicGas = None,
        op_minStack = minStack 2 1, op_maxStack = maxStack 2 1, memorySize = None\<rparr>),
     (OP_SUB, \<lparr>execute = opSub, constantGas = GasFastestStep, dynamicGas = None,
        op_minStack = minStack 2 1, op_maxStack = maxStack 2 1, memorySize = None\<rparr>),
     (OP_DIV, \<lparr>execute = opDiv, constantGas = GasFastStep, dynamicGas = None,
        op_minStack = minStack 2 1, op_maxStack = maxStack 2 1, memorySize = None\<rparr>),
     (OP_SDIV, \<lparr>execute = opSdiv, constantGas = GasFastStep, dynamicGas = None,
        op_minStack = minStack 2 1, op_maxStack = maxStack 2 1, memorySize = None\<rparr>),
     (OP_MOD, \<lparr>execute = opMod, constantGas = GasFastStep, dynamicGas = None,
        op_minStack = minStack 2 1, op_maxStack = maxStack 2 1, memorySize = None\<rparr>),
     (OP_SMOD, \<lparr>execute = opSmod, constantGas = GasFastStep, dynamicGas = None,
        op_minStack = minStack 2 1, op_maxStack = maxStack 2 1, memorySize = None\<rparr>),
     (OP_ADDMOD, \<lparr>execute = opAddmod, constantGas = GasMidStep, dynamicGas = None,
        op_minStack = minStack 3 1, op_maxStack = maxStack 3 1, memorySize = None\<rparr>),
     (OP_MULMOD, \<lparr>execute = opMulmod, constantGas = GasMidStep, dynamicGas = None,
        op_minStack = minStack 3 1, op_maxStack = maxStack 3 1, memorySize = None\<rparr>),
     (OP_EXP, \<lparr>execute = opExp, constantGas = 0, dynamicGas = Some gasExpEIP158,
        op_minStack = minStack 2 1, op_maxStack = maxStack 2 1, memorySize = None\<rparr>),
     (OP_SIGNEXTEND, \<lparr>execute = opSignExtend, constantGas = GasFastStep, dynamicGas = None,
        op_minStack = minStack 2 1, op_maxStack = maxStack 2 1, memorySize = None\<rparr>),
     (OP_LT, \<lparr>execute = opLt, constantGas = GasFastestStep, dynamicGas = None,
        op_minStack = minStack 2 1, op_maxStack = maxStack 2 1, memorySize = None\<rparr>),
     (OP_GT, \<lparr>execute = opGt, constantGas = GasFastestStep, dynamicGas = None,
        op_minStack = minStack 2 1, op_maxStack = maxStack 2 1, memorySize = None\<rparr>),
     (OP_SLT, \<lparr>execute = opSlt, constantGas = GasFastestStep, dynamicGas = None,
        op_minStack = minStack 2 1, op_maxStack = maxStack 2 1, memorySize = None\<rparr>),
     (OP_SGT, \<lparr>execute = opSgt, constantGas = GasFastestStep, dynamicGas = None,
        op_minStack = minStack 2 1, op_maxStack = maxStack 2 1, memorySize = None\<rparr>),
     (OP_EQ, \<lparr>execute = opEq, constantGas = GasFastestStep, dynamicGas = None,
        op_minStack = minStack 2 1, op_maxStack = maxStack 2 1, memorySize = None\<rparr>),
     (OP_ISZERO, \<lparr>execute = opIszero, constantGas = GasFastestStep, dynamicGas = None,
        op_minStack = minStack 1 1, op_maxStack = maxStack 1 1, memorySize = None\<rparr>),
     (OP_AND, \<lparr>execute = opAnd, constantGas = GasFastestStep, dynamicGas = None,
        op_minStack = minStack 2 1, op_maxStack = maxStack 2 1, memorySize = None\<rparr>),
     (OP_XOR, \<lparr>execute = opXor, constantGas = GasFastestStep, dynamicGas = None,
        op_minStack = minStack 2 1, op_maxStack = maxStack 2 1, memorySize = None\<rparr>),
     (OP_OR, \<lparr>execute = opOr, constantGas = GasFastestStep, dynamicGas = None,
        op_minStack = minStack 2 1, op_maxStack = maxStack 2 1, memorySize = None\<rparr>),
     (OP_NOT, \<lparr>execute = opNot, constantGas = GasFastestStep, dynamicGas = None,
        op_minStack = minStack 1 1, op_maxStack = maxStack 1 1, memorySize = None\<rparr>),
     (OP_BYTE, \<lparr>execute = opByte, constantGas = GasFastestStep, dynamicGas = None,
        op_minStack = minStack 2 1, op_maxStack = maxStack 2 1, memorySize = None\<rparr>),
     (OP_KECCAK256, \<lparr>execute = opKeccak256, constantGas = Keccak256Gas, dynamicGas = Some gasKeccak256,
        op_minStack = minStack 2 1, op_maxStack = maxStack 2 1, memorySize = Some memoryKeccak256\<rparr>)]"

definition frontier_2 :: "(u8 \<times> 's operation) list" where
  "frontier_2 = [
     (OP_ADDRESS, \<lparr>execute = opAddress, constantGas = GasQuickStep, dynamicGas = None,
        op_minStack = minStack 0 1, op_maxStack = maxStack 0 1, memorySize = None\<rparr>),
     (OP_BALANCE, \<lparr>execute = opBalance, constantGas = WarmStorageReadCostEIP2929, dynamicGas = Some gasEip2929AccountCheck,
        op_minStack = minStack 1 1, op_maxStack = maxStack 1 1, memorySize = None\<rparr>),
     (OP_ORIGIN, \<lparr>execute = opOrigin, constantGas = GasQuickStep, dynamicGas = None,
        op_minStack = minStack 0 1, op_maxStack = maxStack 0 1, memorySize = None\<rparr>),
     (OP_CALLER, \<lparr>execute = opCaller, constantGas = GasQuickStep, dynamicGas = None,
        op_minStack = minStack 0 1, op_maxStack = maxStack 0 1, memorySize = None\<rparr>),
     (OP_CALLVALUE, \<lparr>execute = opCallValue, constantGas = GasQuickStep, dynamicGas = None,
        op_minStack = minStack 0 1, op_maxStack = maxStack 0 1, memorySize = None\<rparr>),
     (OP_CALLDATALOAD, \<lparr>execute = opCallDataLoad, constantGas = GasFastestStep, dynamicGas = None,
        op_minStack = minStack 1 1, op_maxStack = maxStack 1 1, memorySize = None\<rparr>),
     (OP_CALLDATASIZE, \<lparr>execute = opCallDataSize, constantGas = GasQuickStep, dynamicGas = None,
        op_minStack = minStack 0 1, op_maxStack = maxStack 0 1, memorySize = None\<rparr>),
     (OP_CALLDATACOPY, \<lparr>execute = opCallDataCopy, constantGas = GasFastestStep, dynamicGas = Some gasCallDataCopy,
        op_minStack = minStack 3 0, op_maxStack = maxStack 3 0, memorySize = Some memoryCallDataCopy\<rparr>),
     (OP_CODESIZE, \<lparr>execute = opCodeSize, constantGas = GasQuickStep, dynamicGas = None,
        op_minStack = minStack 0 1, op_maxStack = maxStack 0 1, memorySize = None\<rparr>),
     (OP_CODECOPY, \<lparr>execute = opCodeCopy, constantGas = GasFastestStep, dynamicGas = Some gasCodeCopy,
        op_minStack = minStack 3 0, op_maxStack = maxStack 3 0, memorySize = Some memoryCodeCopy\<rparr>),
     (OP_GASPRICE, \<lparr>execute = opGasprice, constantGas = GasQuickStep, dynamicGas = None,
        op_minStack = minStack 0 1, op_maxStack = maxStack 0 1, memorySize = None\<rparr>),
     (OP_EXTCODESIZE, \<lparr>execute = opExtCodeSize, constantGas = WarmStorageReadCostEIP2929, dynamicGas = Some gasEip2929AccountCheck,
        op_minStack = minStack 1 1, op_maxStack = maxStack 1 1, memorySize = None\<rparr>),
     (OP_EXTCODECOPY, \<lparr>execute = opExtCodeCopy, constantGas = WarmStorageReadCostEIP2929, dynamicGas = Some gasExtCodeCopyEIP2929,
        op_minStack = minStack 4 0, op_maxStack = maxStack 4 0, memorySize = Some memoryExtCodeCopy\<rparr>),
     (OP_BLOCKHASH, \<lparr>execute = opBlockhash, constantGas = GasExtStep, dynamicGas = None,
        op_minStack = minStack 1 1, op_maxStack = maxStack 1 1, memorySize = None\<rparr>),
     (OP_COINBASE, \<lparr>execute = opCoinbase, constantGas = GasQuickStep, dynamicGas = None,
        op_minStack = minStack 0 1, op_maxStack = maxStack 0 1, memorySize = None\<rparr>),
     (OP_TIMESTAMP, \<lparr>execute = opTimestamp, constantGas = GasQuickStep, dynamicGas = None,
        op_minStack = minStack 0 1, op_maxStack = maxStack 0 1, memorySize = None\<rparr>),
     (OP_NUMBER, \<lparr>execute = opNumber, constantGas = GasQuickStep, dynamicGas = None,
        op_minStack = minStack 0 1, op_maxStack = maxStack 0 1, memorySize = None\<rparr>),
     (OP_DIFFICULTY, \<lparr>execute = opDifficulty, constantGas = GasQuickStep, dynamicGas = None,
        op_minStack = minStack 0 1, op_maxStack = maxStack 0 1, memorySize = None\<rparr>),
     (OP_GASLIMIT, \<lparr>execute = opGasLimit, constantGas = GasQuickStep, dynamicGas = None,
        op_minStack = minStack 0 1, op_maxStack = maxStack 0 1, memorySize = None\<rparr>),
     (OP_POP, \<lparr>execute = opPop, constantGas = GasQuickStep, dynamicGas = None,
        op_minStack = minStack 1 0, op_maxStack = maxStack 1 0, memorySize = None\<rparr>),
     (OP_MLOAD, \<lparr>execute = opMload, constantGas = GasFastestStep, dynamicGas = Some gasMLoad,
        op_minStack = minStack 1 1, op_maxStack = maxStack 1 1, memorySize = Some memoryMLoad\<rparr>),
     (OP_MSTORE, \<lparr>execute = opMstore, constantGas = GasFastestStep, dynamicGas = Some gasMStore,
        op_minStack = minStack 2 0, op_maxStack = maxStack 2 0, memorySize = Some memoryMStore\<rparr>)]"

definition frontier_3 :: "(u8 \<times> 's operation) list" where
  "frontier_3 = [
     (OP_MSTORE8, \<lparr>execute = opMstore8, constantGas = GasFastestStep, dynamicGas = Some gasMStore8,
        op_minStack = minStack 2 0, op_maxStack = maxStack 2 0, memorySize = Some memoryMStore8\<rparr>),
     (OP_SLOAD, \<lparr>execute = opSload, constantGas = 0, dynamicGas = Some gasSLoadEIP2929,
        op_minStack = minStack 1 1, op_maxStack = maxStack 1 1, memorySize = None\<rparr>),
     (OP_SSTORE, \<lparr>execute = opSstore, constantGas = 0, dynamicGas = Some gasSStoreEIP3529,
        op_minStack = minStack 2 0, op_maxStack = maxStack 2 0, memorySize = None\<rparr>),
     (OP_JUMP, \<lparr>execute = opJump, constantGas = GasMidStep, dynamicGas = None,
        op_minStack = minStack 1 0, op_maxStack = maxStack 1 0, memorySize = None\<rparr>),
     (OP_JUMPI, \<lparr>execute = opJumpi, constantGas = GasSlowStep, dynamicGas = None,
        op_minStack = minStack 2 0, op_maxStack = maxStack 2 0, memorySize = None\<rparr>),
     (OP_PC, \<lparr>execute = opPc, constantGas = GasQuickStep, dynamicGas = None,
        op_minStack = minStack 0 1, op_maxStack = maxStack 0 1, memorySize = None\<rparr>),
     (OP_MSIZE, \<lparr>execute = opMsize, constantGas = GasQuickStep, dynamicGas = None,
        op_minStack = minStack 0 1, op_maxStack = maxStack 0 1, memorySize = None\<rparr>),
     (OP_GAS, \<lparr>execute = opGas, constantGas = GasQuickStep, dynamicGas = None,
        op_minStack = minStack 0 1, op_maxStack = maxStack 0 1, memorySize = None\<rparr>),
     (OP_JUMPDEST, \<lparr>execute = opJumpdest, constantGas = JumpdestGas, dynamicGas = None,
        op_minStack = minStack 0 0, op_maxStack = maxStack 0 0, memorySize = None\<rparr>),
     (OP_PUSH1, \<lparr>execute = opPush1, constantGas = GasFastestStep, dynamicGas = None,
        op_minStack = minStack 0 1, op_maxStack = maxStack 0 1, memorySize = None\<rparr>),
     (OP_PUSH2, \<lparr>execute = makePush 2 2, constantGas = GasFastestStep, dynamicGas = None,
        op_minStack = minStack 0 1, op_maxStack = maxStack 0 1, memorySize = None\<rparr>),
     (OP_PUSH3, \<lparr>execute = makePush 3 3, constantGas = GasFastestStep, dynamicGas = None,
        op_minStack = minStack 0 1, op_maxStack = maxStack 0 1, memorySize = None\<rparr>),
     (OP_PUSH4, \<lparr>execute = makePush 4 4, constantGas = GasFastestStep, dynamicGas = None,
        op_minStack = minStack 0 1, op_maxStack = maxStack 0 1, memorySize = None\<rparr>),
     (OP_PUSH5, \<lparr>execute = makePush 5 5, constantGas = GasFastestStep, dynamicGas = None,
        op_minStack = minStack 0 1, op_maxStack = maxStack 0 1, memorySize = None\<rparr>),
     (OP_PUSH6, \<lparr>execute = makePush 6 6, constantGas = GasFastestStep, dynamicGas = None,
        op_minStack = minStack 0 1, op_maxStack = maxStack 0 1, memorySize = None\<rparr>),
     (OP_PUSH7, \<lparr>execute = makePush 7 7, constantGas = GasFastestStep, dynamicGas = None,
        op_minStack = minStack 0 1, op_maxStack = maxStack 0 1, memorySize = None\<rparr>),
     (OP_PUSH8, \<lparr>execute = makePush 8 8, constantGas = GasFastestStep, dynamicGas = None,
        op_minStack = minStack 0 1, op_maxStack = maxStack 0 1, memorySize = None\<rparr>),
     (OP_PUSH9, \<lparr>execute = makePush 9 9, constantGas = GasFastestStep, dynamicGas = None,
        op_minStack = minStack 0 1, op_maxStack = maxStack 0 1, memorySize = None\<rparr>),
     (OP_PUSH10, \<lparr>execute = makePush 10 10, constantGas = GasFastestStep, dynamicGas = None,
        op_minStack = minStack 0 1, op_maxStack = maxStack 0 1, memorySize = None\<rparr>),
     (OP_PUSH11, \<lparr>execute = makePush 11 11, constantGas = GasFastestStep, dynamicGas = None,
        op_minStack = minStack 0 1, op_maxStack = maxStack 0 1, memorySize = None\<rparr>),
     (OP_PUSH12, \<lparr>execute = makePush 12 12, constantGas = GasFastestStep, dynamicGas = None,
        op_minStack = minStack 0 1, op_maxStack = maxStack 0 1, memorySize = None\<rparr>),
     (OP_PUSH13, \<lparr>execute = makePush 13 13, constantGas = GasFastestStep, dynamicGas = None,
        op_minStack = minStack 0 1, op_maxStack = maxStack 0 1, memorySize = None\<rparr>),
     (OP_PUSH14, \<lparr>execute = makePush 14 14, constantGas = GasFastestStep, dynamicGas = None,
        op_minStack = minStack 0 1, op_maxStack = maxStack 0 1, memorySize = None\<rparr>),
     (OP_PUSH15, \<lparr>execute = makePush 15 15, constantGas = GasFastestStep, dynamicGas = None,
        op_minStack = minStack 0 1, op_maxStack = maxStack 0 1, memorySize = None\<rparr>)]"

definition frontier_4 :: "(u8 \<times> 's operation) list" where
  "frontier_4 = [
     (OP_PUSH16, \<lparr>execute = makePush 16 16, constantGas = GasFastestStep, dynamicGas = None,
        op_minStack = minStack 0 1, op_maxStack = maxStack 0 1, memorySize = None\<rparr>),
     (OP_PUSH17, \<lparr>execute = makePush 17 17, constantGas = GasFastestStep, dynamicGas = None,
        op_minStack = minStack 0 1, op_maxStack = maxStack 0 1, memorySize = None\<rparr>),
     (OP_PUSH18, \<lparr>execute = makePush 18 18, constantGas = GasFastestStep, dynamicGas = None,
        op_minStack = minStack 0 1, op_maxStack = maxStack 0 1, memorySize = None\<rparr>),
     (OP_PUSH19, \<lparr>execute = makePush 19 19, constantGas = GasFastestStep, dynamicGas = None,
        op_minStack = minStack 0 1, op_maxStack = maxStack 0 1, memorySize = None\<rparr>),
     (OP_PUSH20, \<lparr>execute = makePush 20 20, constantGas = GasFastestStep, dynamicGas = None,
        op_minStack = minStack 0 1, op_maxStack = maxStack 0 1, memorySize = None\<rparr>),
     (OP_PUSH21, \<lparr>execute = makePush 21 21, constantGas = GasFastestStep, dynamicGas = None,
        op_minStack = minStack 0 1, op_maxStack = maxStack 0 1, memorySize = None\<rparr>),
     (OP_PUSH22, \<lparr>execute = makePush 22 22, constantGas = GasFastestStep, dynamicGas = None,
        op_minStack = minStack 0 1, op_maxStack = maxStack 0 1, memorySize = None\<rparr>),
     (OP_PUSH23, \<lparr>execute = makePush 23 23, constantGas = GasFastestStep, dynamicGas = None,
        op_minStack = minStack 0 1, op_maxStack = maxStack 0 1, memorySize = None\<rparr>),
     (OP_PUSH24, \<lparr>execute = makePush 24 24, constantGas = GasFastestStep, dynamicGas = None,
        op_minStack = minStack 0 1, op_maxStack = maxStack 0 1, memorySize = None\<rparr>),
     (OP_PUSH25, \<lparr>execute = makePush 25 25, constantGas = GasFastestStep, dynamicGas = None,
        op_minStack = minStack 0 1, op_maxStack = maxStack 0 1, memorySize = None\<rparr>),
     (OP_PUSH26, \<lparr>execute = makePush 26 26, constantGas = GasFastestStep, dynamicGas = None,
        op_minStack = minStack 0 1, op_maxStack = maxStack 0 1, memorySize = None\<rparr>),
     (OP_PUSH27, \<lparr>execute = makePush 27 27, constantGas = GasFastestStep, dynamicGas = None,
        op_minStack = minStack 0 1, op_maxStack = maxStack 0 1, memorySize = None\<rparr>),
     (OP_PUSH28, \<lparr>execute = makePush 28 28, constantGas = GasFastestStep, dynamicGas = None,
        op_minStack = minStack 0 1, op_maxStack = maxStack 0 1, memorySize = None\<rparr>),
     (OP_PUSH29, \<lparr>execute = makePush 29 29, constantGas = GasFastestStep, dynamicGas = None,
        op_minStack = minStack 0 1, op_maxStack = maxStack 0 1, memorySize = None\<rparr>),
     (OP_PUSH30, \<lparr>execute = makePush 30 30, constantGas = GasFastestStep, dynamicGas = None,
        op_minStack = minStack 0 1, op_maxStack = maxStack 0 1, memorySize = None\<rparr>),
     (OP_PUSH31, \<lparr>execute = makePush 31 31, constantGas = GasFastestStep, dynamicGas = None,
        op_minStack = minStack 0 1, op_maxStack = maxStack 0 1, memorySize = None\<rparr>),
     (OP_PUSH32, \<lparr>execute = makePush 32 32, constantGas = GasFastestStep, dynamicGas = None,
        op_minStack = minStack 0 1, op_maxStack = maxStack 0 1, memorySize = None\<rparr>),
     (OP_DUP1, \<lparr>execute = makeDup 1, constantGas = GasFastestStep, dynamicGas = None,
        op_minStack = minDupStack 1, op_maxStack = maxDupStack 1, memorySize = None\<rparr>),
     (OP_DUP2, \<lparr>execute = makeDup 2, constantGas = GasFastestStep, dynamicGas = None,
        op_minStack = minDupStack 2, op_maxStack = maxDupStack 2, memorySize = None\<rparr>),
     (OP_DUP3, \<lparr>execute = makeDup 3, constantGas = GasFastestStep, dynamicGas = None,
        op_minStack = minDupStack 3, op_maxStack = maxDupStack 3, memorySize = None\<rparr>),
     (OP_DUP4, \<lparr>execute = makeDup 4, constantGas = GasFastestStep, dynamicGas = None,
        op_minStack = minDupStack 4, op_maxStack = maxDupStack 4, memorySize = None\<rparr>),
     (OP_DUP5, \<lparr>execute = makeDup 5, constantGas = GasFastestStep, dynamicGas = None,
        op_minStack = minDupStack 5, op_maxStack = maxDupStack 5, memorySize = None\<rparr>),
     (OP_DUP6, \<lparr>execute = makeDup 6, constantGas = GasFastestStep, dynamicGas = None,
        op_minStack = minDupStack 6, op_maxStack = maxDupStack 6, memorySize = None\<rparr>),
     (OP_DUP7, \<lparr>execute = makeDup 7, constantGas = GasFastestStep, dynamicGas = None,
        op_minStack = minDupStack 7, op_maxStack = maxDupStack 7, memorySize = None\<rparr>),
     (OP_DUP8, \<lparr>execute = makeDup 8, constantGas = GasFastestStep, dynamicGas = None,
        op_minStack = minDupStack 8, op_maxStack = maxDupStack 8, memorySize = None\<rparr>)]"

definition frontier_5 :: "(u8 \<times> 's operation) list" where
  "frontier_5 = [
     (OP_DUP9, \<lparr>execute = makeDup 9, constantGas = GasFastestStep, dynamicGas = None,
        op_minStack = minDupStack 9, op_maxStack = maxDupStack 9, memorySize = None\<rparr>),
     (OP_DUP10, \<lparr>execute = makeDup 10, constantGas = GasFastestStep, dynamicGas = None,
        op_minStack = minDupStack 10, op_maxStack = maxDupStack 10, memorySize = None\<rparr>),
     (OP_DUP11, \<lparr>execute = makeDup 11, constantGas = GasFastestStep, dynamicGas = None,
        op_minStack = minDupStack 11, op_maxStack = maxDupStack 11, memorySize = None\<rparr>),
     (OP_DUP12, \<lparr>execute = makeDup 12, constantGas = GasFastestStep, dynamicGas = None,
        op_minStack = minDupStack 12, op_maxStack = maxDupStack 12, memorySize = None\<rparr>),
     (OP_DUP13, \<lparr>execute = makeDup 13, constantGas = GasFastestStep, dynamicGas = None,
        op_minStack = minDupStack 13, op_maxStack = maxDupStack 13, memorySize = None\<rparr>),
     (OP_DUP14, \<lparr>execute = makeDup 14, constantGas = GasFastestStep, dynamicGas = None,
        op_minStack = minDupStack 14, op_maxStack = maxDupStack 14, memorySize = None\<rparr>),
     (OP_DUP15, \<lparr>execute = makeDup 15, constantGas = GasFastestStep, dynamicGas = None,
        op_minStack = minDupStack 15, op_maxStack = maxDupStack 15, memorySize = None\<rparr>),
     (OP_DUP16, \<lparr>execute = makeDup 16, constantGas = GasFastestStep, dynamicGas = None,
        op_minStack = minDupStack 16, op_maxStack = maxDupStack 16, memorySize = None\<rparr>),
     (OP_SWAP1, \<lparr>execute = makeSwap 1, constantGas = GasFastestStep, dynamicGas = None,
        op_minStack = minSwapStack 2, op_maxStack = maxSwapStack 2, memorySize = None\<rparr>),
     (OP_SWAP2, \<lparr>execute = makeSwap 2, constantGas = GasFastestStep, dynamicGas = None,
        op_minStack = minSwapStack 3, op_maxStack = maxSwapStack 3, memorySize = None\<rparr>),
     (OP_SWAP3, \<lparr>execute = makeSwap 3, constantGas = GasFastestStep, dynamicGas = None,
        op_minStack = minSwapStack 4, op_maxStack = maxSwapStack 4, memorySize = None\<rparr>),
     (OP_SWAP4, \<lparr>execute = makeSwap 4, constantGas = GasFastestStep, dynamicGas = None,
        op_minStack = minSwapStack 5, op_maxStack = maxSwapStack 5, memorySize = None\<rparr>),
     (OP_SWAP5, \<lparr>execute = makeSwap 5, constantGas = GasFastestStep, dynamicGas = None,
        op_minStack = minSwapStack 6, op_maxStack = maxSwapStack 6, memorySize = None\<rparr>),
     (OP_SWAP6, \<lparr>execute = makeSwap 6, constantGas = GasFastestStep, dynamicGas = None,
        op_minStack = minSwapStack 7, op_maxStack = maxSwapStack 7, memorySize = None\<rparr>),
     (OP_SWAP7, \<lparr>execute = makeSwap 7, constantGas = GasFastestStep, dynamicGas = None,
        op_minStack = minSwapStack 8, op_maxStack = maxSwapStack 8, memorySize = None\<rparr>),
     (OP_SWAP8, \<lparr>execute = makeSwap 8, constantGas = GasFastestStep, dynamicGas = None,
        op_minStack = minSwapStack 9, op_maxStack = maxSwapStack 9, memorySize = None\<rparr>),
     (OP_SWAP9, \<lparr>execute = makeSwap 9, constantGas = GasFastestStep, dynamicGas = None,
        op_minStack = minSwapStack 10, op_maxStack = maxSwapStack 10, memorySize = None\<rparr>),
     (OP_SWAP10, \<lparr>execute = makeSwap 10, constantGas = GasFastestStep, dynamicGas = None,
        op_minStack = minSwapStack 11, op_maxStack = maxSwapStack 11, memorySize = None\<rparr>),
     (OP_SWAP11, \<lparr>execute = makeSwap 11, constantGas = GasFastestStep, dynamicGas = None,
        op_minStack = minSwapStack 12, op_maxStack = maxSwapStack 12, memorySize = None\<rparr>),
     (OP_SWAP12, \<lparr>execute = makeSwap 12, constantGas = GasFastestStep, dynamicGas = None,
        op_minStack = minSwapStack 13, op_maxStack = maxSwapStack 13, memorySize = None\<rparr>),
     (OP_SWAP13, \<lparr>execute = makeSwap 13, constantGas = GasFastestStep, dynamicGas = None,
        op_minStack = minSwapStack 14, op_maxStack = maxSwapStack 14, memorySize = None\<rparr>),
     (OP_SWAP14, \<lparr>execute = makeSwap 14, constantGas = GasFastestStep, dynamicGas = None,
        op_minStack = minSwapStack 15, op_maxStack = maxSwapStack 15, memorySize = None\<rparr>),
     (OP_SWAP15, \<lparr>execute = makeSwap 15, constantGas = GasFastestStep, dynamicGas = None,
        op_minStack = minSwapStack 16, op_maxStack = maxSwapStack 16, memorySize = None\<rparr>),
     (OP_SWAP16, \<lparr>execute = makeSwap 16, constantGas = GasFastestStep, dynamicGas = None,
        op_minStack = minSwapStack 17, op_maxStack = maxSwapStack 17, memorySize = None\<rparr>)]"

definition frontier_6 :: "(u8 \<times> 's operation) list" where
  "frontier_6 = [
     (OP_LOG0, \<lparr>execute = makeLog 0, constantGas = 0, dynamicGas = Some (makeGasLog 0),
        op_minStack = minStack 2 0, op_maxStack = maxStack 2 0, memorySize = Some memoryLog\<rparr>),
     (OP_LOG1, \<lparr>execute = makeLog 1, constantGas = 0, dynamicGas = Some (makeGasLog 1),
        op_minStack = minStack 3 0, op_maxStack = maxStack 3 0, memorySize = Some memoryLog\<rparr>),
     (OP_LOG2, \<lparr>execute = makeLog 2, constantGas = 0, dynamicGas = Some (makeGasLog 2),
        op_minStack = minStack 4 0, op_maxStack = maxStack 4 0, memorySize = Some memoryLog\<rparr>),
     (OP_LOG3, \<lparr>execute = makeLog 3, constantGas = 0, dynamicGas = Some (makeGasLog 3),
        op_minStack = minStack 5 0, op_maxStack = maxStack 5 0, memorySize = Some memoryLog\<rparr>),
     (OP_LOG4, \<lparr>execute = makeLog 4, constantGas = 0, dynamicGas = Some (makeGasLog 4),
        op_minStack = minStack 6 0, op_maxStack = maxStack 6 0, memorySize = Some memoryLog\<rparr>),
     (OP_CREATE, \<lparr>execute = opCreate, constantGas = CreateGas, dynamicGas = Some gasCreateEip3860,
        op_minStack = minStack 3 1, op_maxStack = maxStack 3 1, memorySize = Some memoryCreate\<rparr>),
     (OP_CALL, \<lparr>execute = opCall, constantGas = WarmStorageReadCostEIP2929, dynamicGas = Some gasCallEIP2929,
        op_minStack = minStack 7 1, op_maxStack = maxStack 7 1, memorySize = Some memoryCall\<rparr>),
     (OP_CALLCODE, \<lparr>execute = opCallCode, constantGas = WarmStorageReadCostEIP2929, dynamicGas = Some gasCallCodeEIP2929,
        op_minStack = minStack 7 1, op_maxStack = maxStack 7 1, memorySize = Some memoryCall\<rparr>),
     (OP_RETURN, \<lparr>execute = opReturn, constantGas = 0, dynamicGas = Some gasReturn,
        op_minStack = minStack 2 0, op_maxStack = maxStack 2 0, memorySize = Some memoryReturn\<rparr>),
     (OP_SELFDESTRUCT, \<lparr>execute = opSelfdestruct, constantGas = SelfdestructGasEIP150, dynamicGas = Some gasSelfdestructEIP3529,
        op_minStack = minStack 1 0, op_maxStack = maxStack 1 0, memorySize = None\<rparr>),
     (OP_DELEGATECALL, \<lparr>execute = opDelegateCall, constantGas = WarmStorageReadCostEIP2929, dynamicGas = Some gasDelegateCallEIP2929,
        op_minStack = minStack 6 1, op_maxStack = maxStack 6 1, memorySize = Some memoryDelegateCall\<rparr>),
     (OP_STATICCALL, \<lparr>execute = opStaticCall, constantGas = WarmStorageReadCostEIP2929, dynamicGas = Some gasStaticCallEIP2929,
        op_minStack = minStack 6 1, op_maxStack = maxStack 6 1, memorySize = Some memoryStaticCall\<rparr>),
     (OP_RETURNDATASIZE, \<lparr>execute = opReturnDataSize, constantGas = GasQuickStep, dynamicGas = None,
        op_minStack = minStack 0 1, op_maxStack = maxStack 0 1, memorySize = None\<rparr>),
     (OP_RETURNDATACOPY, \<lparr>execute = opReturnDataCopy, constantGas = GasFastestStep, dynamicGas = Some gasReturnDataCopy,
        op_minStack = minStack 3 0, op_maxStack = maxStack 3 0, memorySize = Some memoryReturnDataCopy\<rparr>),
     (OP_REVERT, \<lparr>execute = opRevert, constantGas = 0, dynamicGas = Some gasRevert,
        op_minStack = minStack 2 0, op_maxStack = maxStack 2 0, memorySize = Some memoryRevert\<rparr>),
     (OP_SHL, \<lparr>execute = opSHL, constantGas = GasFastestStep, dynamicGas = None,
        op_minStack = minStack 2 1, op_maxStack = maxStack 2 1, memorySize = None\<rparr>),
     (OP_SHR, \<lparr>execute = opSHR, constantGas = GasFastestStep, dynamicGas = None,
        op_minStack = minStack 2 1, op_maxStack = maxStack 2 1, memorySize = None\<rparr>),
     (OP_SAR, \<lparr>execute = opSAR, constantGas = GasFastestStep, dynamicGas = None,
        op_minStack = minStack 2 1, op_maxStack = maxStack 2 1, memorySize = None\<rparr>),
     (OP_EXTCODEHASH, \<lparr>execute = opExtCodeHash, constantGas = WarmStorageReadCostEIP2929, dynamicGas = Some gasEip2929AccountCheck,
        op_minStack = minStack 1 1, op_maxStack = maxStack 1 1, memorySize = None\<rparr>),
     (OP_CREATE2, \<lparr>execute = opCreate2, constantGas = Create2Gas, dynamicGas = Some gasCreate2Eip3860,
        op_minStack = minStack 4 1, op_maxStack = maxStack 4 1, memorySize = Some memoryCreate2\<rparr>),
     (OP_CHAINID, \<lparr>execute = opChainID, constantGas = GasQuickStep, dynamicGas = None,
        op_minStack = minStack 0 1, op_maxStack = maxStack 0 1, memorySize = None\<rparr>)]"

definition frontier_7 :: "(u8 \<times> 's operation) list" where
  "frontier_7 = [
     (OP_SELFBALANCE, \<lparr>execute = opSelfBalance, constantGas = GasFastStep, dynamicGas = None,
        op_minStack = minStack 0 1, op_maxStack = maxStack 0 1, memorySize = None\<rparr>),
     (OP_BASEFEE, \<lparr>execute = opBaseFee, constantGas = GasQuickStep, dynamicGas = None,
        op_minStack = minStack 0 1, op_maxStack = maxStack 0 1, memorySize = None\<rparr>),
     (OP_PUSH0, \<lparr>execute = opPush0, constantGas = GasQuickStep, dynamicGas = None,
        op_minStack = minStack 0 1, op_maxStack = maxStack 0 1, memorySize = None\<rparr>)]"

definition undefined_op :: "'s operation" where
  "undefined_op = \<lparr>execute = opUndefined, constantGas = 0, dynamicGas = None,
     op_minStack = 0, op_maxStack = maxStack 0 0, memorySize = None\<rparr>"

definition fill_table :: "(u8 \<times> 's operation) list \<Rightarrow> 's jump_table" where
  "fill_table tbl = map (\<lambda>i. case map_of tbl (of_nat i) of Some entry \<Rightarrow> entry | None \<Rightarrow> undefined_op) [0..<256]"

text \<open>\<^verbatim>\<open>validate\<close> panics on an operation with a memory size and no dynamic gas; after the filling no
  slot is nil.\<close>

definition validate :: "'s jump_table \<Rightarrow> 's jump_table option" where
  "validate jt =
     (if list_all (\<lambda>op. \<not> (memorySize op \<noteq> None \<and> dynamicGas op = None)) jt then Some jt else None)"

definition frontier :: "(u8 \<times> 's operation) list" where
  "frontier = frontier_1 @ frontier_2 @ frontier_3 @ frontier_4 @ frontier_5 @ frontier_6 @ frontier_7"

definition newFrontierInstructionSet :: "'s jump_table option" where
  "newFrontierInstructionSet = validate (fill_table frontier)"

definition newMergeInstructionSet :: "'s jump_table option" where
  "newMergeInstructionSet = do {
     instructionSet \<leftarrow> newFrontierInstructionSet;
     instructionSet \<leftarrow> go_update instructionSet (unat OP_RANDOM)
       \<lparr>execute = opRandom, constantGas = GasQuickStep, dynamicGas = None,
        op_minStack = minStack 0 1, op_maxStack = maxStack 0 1, memorySize = None\<rparr>;
     validate instructionSet
   }"

lemmas frontier_pieces = frontier_1_def frontier_2_def frontier_3_def frontier_4_def frontier_5_def
  frontier_6_def frontier_7_def

text \<open>A predicate on operations holds for the table if it holds for the entries and the undefined operation.\<close>

lemma list_all_frontier:
  "list_all P (map snd frontier) \<longleftrightarrow>
     list_all P (map snd frontier_1) \<and> list_all P (map snd frontier_2) \<and> list_all P (map snd frontier_3) \<and>
     list_all P (map snd frontier_4) \<and> list_all P (map snd frontier_5) \<and> list_all P (map snd frontier_6) \<and>
     list_all P (map snd frontier_7)"
  by (simp add: frontier_def)

lemma fill_table_all:
  assumes "list_all P (map snd tbl)" and "P undefined_op"
  shows "list_all P (fill_table tbl)"
  using assms by (fastforce simp: fill_table_def list_all_iff split: option.splits dest: map_of_SomeD)

lemma length_fill_table [simp]: "length (fill_table tbl) = 256"
  by (simp add: fill_table_def)

lemma frontier_has_gas: "list_all (\<lambda>op. \<not> (memorySize op \<noteq> None \<and> dynamicGas op = None)) (map snd frontier)"
  unfolding list_all_frontier by (simp add: frontier_pieces)

lemma newFrontierInstructionSet_eq: "newFrontierInstructionSet = Some (fill_table frontier)"
  using fill_table_all [OF frontier_has_gas]
  by (simp add: newFrontierInstructionSet_def validate_def undefined_op_def)

lemma frontier_all:
  assumes "newFrontierInstructionSet = Some jt" and "list_all P (map snd frontier)" and "P undefined_op"
  shows "\<forall>b :: u8. unat b < length jt \<and> P (jt ! unat b)"
proof
  fix b :: u8
  have "unat b < 256" using unsigned_less [of b] by simp
  moreover have "jt = fill_table frontier" using assms(1) by (simp add: newFrontierInstructionSet_eq)
  ultimately show "unat b < length jt \<and> P (jt ! unat b)"
    using fill_table_all [OF assms(2,3)] by (simp add: list_all_length)
qed

end
