(* ===== verification/Effects.thy ===== *)
theory Effects
  imports JumpTable
begin

text \<open>
  What the instructions do to the stack, the program counter and the contract of their frame, and that the bounds in the instruction table
  are right for them: \<open>moves p q\<close> for the stack, \<open>quiet\<close> for instructions that leave the gas alone.
\<close>

section \<open>Stack effects\<close>

lemma yields_pop: "yields P (pop st) = (\<forall>x st'. st = st' @ [x] \<longrightarrow> P (x, st'))"
  by (auto simp: yields_def pop_Some_iff)

lemma yields_peek: "yields P (peek st) = (\<forall>x st'. st = st' @ [x] \<longrightarrow> P x)"
  by (auto simp: yields_def peek_Some_iff)

definition moves :: "nat \<Rightarrow> nat \<Rightarrow> 's exec \<Rightarrow> bool" where
  "moves p q ex \<longleftrightarrow> (\<forall>C E f. yields (\<lambda>(f', r, e). e = None \<longrightarrow>
     p \<le> length (f_stack f) \<and> length (f_stack f') + p = length (f_stack f) + q) (ex C E f))"

named_theorems op_moves \<open>the stack effect of each instruction\<close>

lemma length_pop: "pop st = Some (x, st') \<Longrightarrow> length st = Suc (length st')"
  by (auto simp: pop_Some_iff)

lemma length_pops: "pops pop n st = Some (xs, st') \<Longrightarrow> length st = n + length st'"
  using st.pops_SomeD [of n st xs st'] by (auto simp: foldl_push)

lemma yields_pops: "(\<And>xs st'. length st = n + length st' \<Longrightarrow> P (xs, st')) \<Longrightarrow> yields P (pops pop n st)"
  by (auto simp: yields_def dest!: length_pops)

lemmas yields_stack = yields_pop yields_peek

lemma moves_op1: "moves 1 1 (stack_op1 g)"
  by (simp add: moves_def stack_op1_def yields_stack)

lemma moves_op2: "moves 2 1 (stack_op2 g)"
  by (simp add: moves_def stack_op2_def yields_stack)

lemma moves_op3: "moves 3 1 (stack_op3 g)"
  by (simp add: moves_def stack_op3_def yields_stack)

lemma moves_push_value: "moves 0 1 (push_value g)"
  by (simp add: moves_def push_value_def yields_any)

lemma moves_arith [op_moves]:
  "moves 2 1 opAdd" "moves 2 1 opSub" "moves 2 1 opMul" "moves 2 1 opDiv" "moves 2 1 opSdiv" "moves 2 1 opMod"
  "moves 2 1 opSmod" "moves 2 1 opExp" "moves 2 1 opSignExtend" "moves 1 1 opNot" "moves 2 1 opLt"
  "moves 2 1 opGt" "moves 2 1 opSlt" "moves 2 1 opSgt" "moves 2 1 opEq" "moves 1 1 opIszero" "moves 2 1 opAnd"
  "moves 2 1 opOr" "moves 2 1 opXor" "moves 2 1 opByte" "moves 3 1 opAddmod" "moves 3 1 opMulmod"
  "moves 2 1 opSHL" "moves 2 1 opSHR" "moves 2 1 opSAR"
  by (simp_all only: moves_op1 moves_op2 moves_op3 opAdd_def opSub_def opMul_def opDiv_def opSdiv_def opMod_def
      opSmod_def opExp_def opSignExtend_def opNot_def opLt_def opGt_def opSlt_def opSgt_def opEq_def opIszero_def
      opAnd_def opOr_def opXor_def opByte_def opAddmod_def opMulmod_def opSHL_def opSHR_def opSAR_def)

lemmas push_value_ops = opAddress_def opOrigin_def opCaller_def opCallValue_def opCallDataSize_def opReturnDataSize_def
  opCodeSize_def opGasprice_def opCoinbase_def opTimestamp_def opNumber_def opDifficulty_def opRandom_def
  opGasLimit_def opPc_def opMsize_def opGas_def opPush0_def opSelfBalance_def opChainID_def opBaseFee_def

lemma moves_environment [op_moves]:
  "moves 0 1 opAddress" "moves 0 1 opOrigin" "moves 0 1 opCaller" "moves 0 1 opCallValue" "moves 0 1 opCallDataSize"
  "moves 0 1 opReturnDataSize" "moves 0 1 opCodeSize" "moves 0 1 opGasprice" "moves 0 1 opCoinbase"
  "moves 0 1 opTimestamp" "moves 0 1 opNumber" "moves 0 1 opDifficulty" "moves 0 1 opRandom" "moves 0 1 opGasLimit"
  "moves 0 1 opPc" "moves 0 1 opMsize" "moves 0 1 opGas" "moves 0 1 opPush0" "moves 0 1 opSelfBalance"
  "moves 0 1 opChainID" "moves 0 1 opBaseFee"
  by (simp_all only: moves_push_value push_value_ops)

lemma moves_reads [op_moves]:
  "moves 1 1 opBalance" "moves 1 1 opCallDataLoad" "moves 1 1 opExtCodeSize" "moves 1 1 opExtCodeHash"
  "moves 1 1 opBlockhash" "moves 1 1 opMload" "moves 1 1 opSload" "moves 2 1 opKeccak256"
  by (simp_all add: moves_def yields_stack Let_def opBalance_def opCallDataLoad_def opExtCodeSize_def
      opExtCodeHash_def opBlockhash_def opMload_def opSload_def opKeccak256_def yields_any split: prod.splits)

lemma moves_copies [op_moves]:
  "moves 3 0 opCallDataCopy" "moves 3 0 opReturnDataCopy" "moves 3 0 opCodeCopy" "moves 4 0 opExtCodeCopy"
  by (simp_all add: moves_def yields_stack Let_def opCallDataCopy_def opReturnDataCopy_def opCodeCopy_def
      opExtCodeCopy_def yields_any split: prod.splits)

lemma moves_stores [op_moves]:
  "moves 1 0 opPop" "moves 2 0 opMstore" "moves 2 0 opMstore8" "moves 2 0 opSstore"
  by (simp_all add: moves_def yields_stack Let_def opPop_def opMstore_def opMstore8_def opSstore_def yields_any)

lemma moves_control [op_moves]:
  "moves 1 0 opJump" "moves 2 0 opJumpi" "moves 0 0 opJumpdest" "moves 2 0 opReturn" "moves 2 0 opRevert"
  "moves 0 0 opUndefined" "moves 0 0 opStop" "moves 1 0 opSelfdestruct"
  by (simp_all add: moves_def yields_stack Let_def opJump_def opJumpi_def opJumpdest_def opReturn_def opRevert_def
      opUndefined_def opStop_def opSelfdestruct_def check_dest_def yields_any split: prod.splits)

lemma moves_makeLog: "n + 2 = m \<Longrightarrow> moves m 0 (makeLog n)"
  by (auto simp: moves_def yields_stack Let_def makeLog_def yields_any intro!: yields_pops)

lemma moves_makePush: "moves 0 1 (makePush n k)"
  by (simp add: moves_def Let_def makePush_def yields_any)

lemma moves_opPush1: "moves 0 1 opPush1"
  by (simp add: moves_def Let_def opPush1_def yields_any)

lemma moves_makeDup: "n + 1 = m \<Longrightarrow> moves n m (makeDup n)"
  by (auto simp: moves_def makeDup_def dup_def)

lemma moves_makeSwap: "n + 1 = m \<Longrightarrow> moves m m (makeSwap n)"
  by (auto simp: moves_def makeSwap_def swap_def Let_def)

lemma moves_calls [op_moves]:
  "moves 3 1 opCreate" "moves 4 1 opCreate2" "moves 7 1 opCall" "moves 7 1 opCallCode" "moves 6 1 opDelegateCall"
  "moves 6 1 opStaticCall"
  by (simp_all add: moves_def yields_stack Let_def opCreate_def opCreate2_def opCall_def opCallCode_def
      opDelegateCall_def opStaticCall_def call_return_def yields_any split: prod.splits)

lemmas op_moves_makers = moves_makeLog moves_makePush moves_opPush1 moves_makeDup moves_makeSwap

section \<open>The bounds of the table\<close>

text \<open>An operation's bounds fit when they are the bounds of its stack effect.\<close>

definition bounds_fit :: "'s operation \<Rightarrow> bool" where
  "bounds_fit op \<longleftrightarrow> (\<exists>p q. moves p q (execute op) \<and> op_minStack op = int p \<and>
     op_maxStack op = uint StackLimit + int p - int q)"

lemma bounds_fitI:
  "execute op = ex \<Longrightarrow> moves p q ex \<Longrightarrow> op_minStack op = int p \<Longrightarrow>
   op_maxStack op = uint StackLimit + int p - int q \<Longrightarrow> bounds_fit op"
  by (auto simp: bounds_fit_def)

lemma bounds_fit_undefined: "bounds_fit undefined_op"
  by (rule bounds_fitI [OF _ moves_control(6)]) (simp_all add: undefined_op_def stack_bounds)

lemma bounds_fit_1: "list_all bounds_fit (map snd frontier_1)"
  unfolding frontier_1_def list.map list.pred_inject snd_conv
  by (intro conjI TrueI) (rule bounds_fitI, rule operation.select_convs, rule op_moves op_moves_makers,
    (simp add: stack_bounds)+)+

lemma bounds_fit_2: "list_all bounds_fit (map snd frontier_2)"
  unfolding frontier_2_def list.map list.pred_inject snd_conv
  by (intro conjI TrueI) (rule bounds_fitI, rule operation.select_convs, rule op_moves op_moves_makers,
    (simp add: stack_bounds)+)+

lemma bounds_fit_3: "list_all bounds_fit (map snd frontier_3)"
  unfolding frontier_3_def list.map list.pred_inject snd_conv
  by (intro conjI TrueI) (rule bounds_fitI, rule operation.select_convs, rule op_moves op_moves_makers,
    (simp add: stack_bounds)+)+

lemma bounds_fit_4: "list_all bounds_fit (map snd frontier_4)"
  unfolding frontier_4_def list.map list.pred_inject snd_conv
  by (intro conjI TrueI) (rule bounds_fitI, rule operation.select_convs, rule op_moves op_moves_makers,
    (simp add: stack_bounds)+)+

lemma bounds_fit_5: "list_all bounds_fit (map snd frontier_5)"
  unfolding frontier_5_def list.map list.pred_inject snd_conv
  by (intro conjI TrueI) (rule bounds_fitI, rule operation.select_convs, rule op_moves op_moves_makers,
    (simp add: stack_bounds)+)+

lemma bounds_fit_6: "list_all bounds_fit (map snd frontier_6)"
  unfolding frontier_6_def list.map list.pred_inject snd_conv
  by (intro conjI TrueI) (rule bounds_fitI, rule operation.select_convs, rule op_moves op_moves_makers,
    (simp add: stack_bounds)+)+

lemma bounds_fit_7: "list_all bounds_fit (map snd frontier_7)"
  unfolding frontier_7_def list.map list.pred_inject snd_conv
  by (intro conjI TrueI) (rule bounds_fitI, rule operation.select_convs, rule op_moves op_moves_makers,
    (simp add: stack_bounds)+)+

lemma bounds_fit_frontier: "list_all bounds_fit (map snd frontier)"
  unfolding list_all_frontier
  using bounds_fit_1 bounds_fit_2 bounds_fit_3 bounds_fit_4 bounds_fit_5 bounds_fit_6 bounds_fit_7 by blast

text \<open>Every one of the 256 slots has bounds that fit its instruction's stack effect: below the upper bound, an
  instruction that goes on leaves at most 1024 values.\<close>

lemma table_bounds_room:
  assumes "newFrontierInstructionSet = Some jt"
    and "op_minStack (jt ! unat (b :: u8)) \<le> int (length (f_stack f))"
    and "int (length (f_stack f)) \<le> op_maxStack (jt ! unat b)"
    and "execute (jt ! unat b) C E f = Some (f', r, None)"
  shows "length (f_stack f') \<le> 1024 \<and>
    int (length (f_stack f')) - int (length (f_stack f)) = 1024 - op_maxStack (jt ! unat b)"
proof -
  from frontier_all [OF assms(1) bounds_fit_frontier bounds_fit_undefined, THEN spec, of b]
  obtain p q where m: "moves p q (execute (jt ! unat b))" and b: "op_minStack (jt ! unat b) = int p"
    "op_maxStack (jt ! unat b) = 1024 + int p - int q"
    by (auto simp: bounds_fit_def)
  from m have "yields (\<lambda>(f', r, e). e = None \<longrightarrow> p \<le> length (f_stack f) \<and>
      length (f_stack f') + p = length (f_stack f) + q) (execute (jt ! unat b) C E f)"
    by (simp add: moves_def)
  from yieldsD [OF this assms(4)] b assms(2,3) show ?thesis by simp
qed

lemma fill_table_slot: "fill_table tbl ! unat (b :: u8) =
    (case map_of tbl b of Some entry \<Rightarrow> entry | None \<Rightarrow> undefined_op)"
proof -
  have "unat b < 256" using unsigned_less [of b] by simp
  then show ?thesis by (simp add: fill_table_def)
qed

lemma frontier_ADD: "fill_table frontier ! unat OP_ADD = \<lparr>execute = opAdd, constantGas = GasFastestStep,
    dynamicGas = None, op_minStack = minStack 2 1, op_maxStack = maxStack 2 1, memorySize = None\<rparr>"
  unfolding fill_table_slot by (simp add: frontier_def frontier_1_def)

end
