(* ===== verification/EthVM.thy ===== *)
theory EthVM
  imports VM
begin

text \<open>
  Message calls and creations, the methods \<^verbatim>\<open>Call\<close>, \<^verbatim>\<open>CallCode\<close>, \<^verbatim>\<open>DelegateCall\<close>, \<^verbatim>\<open>StaticCall\<close>, \<^verbatim>\<open>create\<close>, \<^verbatim>\<open>Create\<close> and
  \<^verbatim>\<open>Create2\<close> of \<^verbatim>\<open>ETHVM\<close> (\<^verbatim>\<open>vm/ethvm/ethvm.go\<close>). The interpreter they start is the argument \<open>run\<close>; the theory
  \<open>Interpreter\<close> closes the circle. An answer is the changed machine, the returned bytes, the gas left over and the error.
\<close>

type_synonym 's run_fn =
  "'s vm \<Rightarrow> contract \<Rightarrow> bytes \<Rightarrow> bool \<Rightarrow> ('s vm \<times> contract \<times> bytes \<times> vm_error option) option"

type_synonym 's call_result = "('s vm \<times> bytes \<times> u64 \<times> vm_error option) option"

type_synonym 's create_result = "('s vm \<times> bytes \<times> address \<times> u64 \<times> vm_error option) option"

section \<open>Parts the calls share\<close>

text \<open>The transfer check: against the balance in the write set when there is one, reduced to 64 bits on both sides.\<close>

definition can_transfer :: "'s env \<Rightarrow> 's vm \<Rightarrow> address \<Rightarrow> int \<Rightarrow> bool option" where
  "can_transfer E vm a value =
     (case GetAddressAndKey (vWriteSet vm) a (BalanceKey (eK E)) of
        Some dataVal \<Rightarrow> do { b \<leftarrow> as_big dataVal; Some (big_Uint64 b \<ge> big_Uint64 value) }
      | None \<Rightarrow> Some (CanTransfer E (vDB vm) a value))"

text \<open>The balance of the receiver, from the write set if it is there.\<close>

definition balance_of :: "'s env \<Rightarrow> 's vm \<Rightarrow> address \<Rightarrow> int option" where
  "balance_of E vm a =
     (case GetAddressAndKey (vWriteSet vm) a (BalanceKey (eK E)) of
        None \<Rightarrow> Some (db_GetBalance (eA E) (vDB vm) a)
      | Some dataVal \<Rightarrow> as_big dataVal)"

definition load_code :: "'s env \<Rightarrow> 's vm \<Rightarrow> address \<Rightarrow> (bytes \<times> hash) option" where
  "load_code E vm a =
     (case GetAddressAndKey (vWriteSet vm) a (SetCodeKey (eK E)) of
        None \<Rightarrow> Some (db_GetCode (eA E) (vDB vm) a, db_GetCodeHash (eA E) (vDB vm) a)
      | Some code \<Rightarrow> do { b \<leftarrow> as_bytes code; Some (b, g_Keccak256Hash (eG E) b) })"

definition write_put :: "'s env \<Rightarrow> 's vm \<Rightarrow> address \<Rightarrow> hash \<Rightarrow> goval \<Rightarrow> goval \<Rightarrow> 's vm option" where
  "write_put E vm a k v value = do {
     ws \<leftarrow> WriteSet_UpdateCache (eK E) (vWriteSet vm) a k v value;
     Some (vm\<lparr>vWriteSet := ws\<rparr>)
   }"

definition read_put :: "'s env \<Rightarrow> 's vm \<Rightarrow> address \<Rightarrow> hash \<Rightarrow> goval \<Rightarrow> 's vm option" where
  "read_put E vm a k v = do {
     rs \<leftarrow> ReadSet_UpdateCache (eK E) (vReadSet vm) a k v;
     Some (vm\<lparr>vReadSet := rs\<rparr>)
   }"

definition take_snapshot :: "'s env \<Rightarrow> 's vm \<Rightarrow> nat \<times> 's vm" where
  "take_snapshot E vm = (case db_Snapshot (eJ E) (vDB vm) of (i, s) \<Rightarrow> (i, vm\<lparr>vDB := s\<rparr>))"

definition new_contract :: "'s vm \<Rightarrow> contract_ref \<Rightarrow> address \<Rightarrow> int option \<Rightarrow> u64 \<Rightarrow> contract \<times> 's vm" where
  "new_contract vm cr object val gas =
     (case NewContract (jdstore vm) cr object val gas of (c, jds) \<Rightarrow> (c, vm\<lparr>jdstore := jds\<rparr>))"

text \<open>The end of every call: an error reverts the database to the snapshot and, unless it is a revert, takes the gas.\<close>

definition end_call :: "'s env \<Rightarrow> nat \<Rightarrow> 's vm \<times> bytes \<times> u64 \<times> vm_error option \<Rightarrow> 's call_result" where
  "end_call E snapshot r = (case r of (vm, ret, gas, err) \<Rightarrow>
     if err \<noteq> None
     then Some (vm\<lparr>vDB := db_RevertToSnapshot (eJ E) (vDB vm) snapshot\<rparr>, ret,
                (if err \<noteq> Some ErrExecutionReverted then 0 else gas), err)
     else Some (vm, ret, gas, err))"

definition run_precompile :: "'s vm \<Rightarrow> precompile \<Rightarrow> bytes \<Rightarrow> u64 \<Rightarrow> 's call_result" where
  "run_precompile vm p input gas = do {
     (ret, gas, err) \<leftarrow> RunRrecompiledContractPre p input gas;
     Some (vm, ret, gas, err)
   }"

definition run_contract :: "'s run_fn \<Rightarrow> 's vm \<Rightarrow> contract \<Rightarrow> bytes \<Rightarrow> bool \<Rightarrow> 's call_result" where
  "run_contract run vm c input ro = do {
     (vm, c, ret, err) \<leftarrow> run vm c input ro;
     Some (vm, ret, Gas c, err)
   }"

section \<open>Calls\<close>

definition Call ::
  "'s run_fn \<Rightarrow> 's env \<Rightarrow> 's vm \<Rightarrow> contract_ref \<Rightarrow> address \<Rightarrow> bytes \<Rightarrow> u64 \<Rightarrow> int \<Rightarrow> 's call_result" where
  "Call run E vm cr addr input gas value =
     (if depth vm > uint CallCreateDepth then Some (vm, [], gas, Some ErrDepth)
      else do {
        canTransferFlag \<leftarrow> can_transfer E vm (ref_Address cr) value;
        if value \<noteq> 0 \<and> \<not> canTransferFlag then Some (vm, [], gas, Some ErrInsufficientBalance)
        else do {
          vm \<leftarrow> read_put E vm (ref_Address cr) (BalanceKey (eK E)) (VBig value);
          let (snapshot, vm) = take_snapshot E vm;
          let exists = db_Exist (eA E) (vDB vm) addr;
          if \<not> exists \<and> ePre E addr = None \<and> value = 0 then Some (vm, [], gas, None)
          else do {
            vm \<leftarrow> (if \<not> exists
                   then write_put E vm addr (CreatAccountKey (eK E)) (VBytes (g_AddrBytes (eG E) addr)) (VBytes [])
                   else Some vm);
            vm \<leftarrow> (if big_Uint64 value > 0 then do {
                     balanceVal \<leftarrow> balance_of E vm addr;
                     vm \<leftarrow> read_put E vm addr (BalanceKey (eK E)) (VBig balanceVal);
                     vm \<leftarrow> write_put E vm (ref_Address cr) (SubBalanceKey (eK E)) (VBig value) (VBytes []);
                     write_put E vm addr (BalanceKey (eK E)) (VBig value) (VBig balanceVal)
                   } else Some vm);
            let (c, vm) = new_contract vm cr addr (Some value) gas;
            (code, codeHash) \<leftarrow> load_code E vm addr;
            let c = SetCallCode c addr codeHash code;
            r \<leftarrow> (case ePre E addr of
                Some p \<Rightarrow> run_precompile vm p input gas
              | None \<Rightarrow> if length code = 0 then Some (vm, [], gas, None)
                        else run_contract run vm c input False);
            end_call E snapshot r
          }
        }
      })"

definition CallCode ::
  "'s run_fn \<Rightarrow> 's env \<Rightarrow> 's vm \<Rightarrow> contract_ref \<Rightarrow> address \<Rightarrow> bytes \<Rightarrow> u64 \<Rightarrow> int \<Rightarrow> 's call_result" where
  "CallCode run E vm cr addr input gas value =
     (if depth vm > uint CallCreateDepth then Some (vm, [], gas, Some ErrDepth)
      else do {
        canTransferFlag \<leftarrow> can_transfer E vm (ref_Address cr) value;
        if \<not> canTransferFlag then Some (vm, [], gas, Some ErrInsufficientBalance)
        else do {
          let (snapshot, vm) = take_snapshot E vm;
          let (c, vm) = new_contract vm cr (ref_Address cr) (Some value) gas;
          (code, codeHash) \<leftarrow> load_code E vm addr;
          let c = SetCallCode c addr codeHash code;
          r \<leftarrow> (case ePre E addr of
              Some p \<Rightarrow> run_precompile vm p input gas
            | None \<Rightarrow> run_contract run vm c input False);
          end_call E snapshot r
        }
      })"

definition DelegateCall ::
  "'s run_fn \<Rightarrow> 's env \<Rightarrow> 's vm \<Rightarrow> contract_ref \<Rightarrow> address \<Rightarrow> bytes \<Rightarrow> u64 \<Rightarrow> 's call_result" where
  "DelegateCall run E vm cr addr input gas =
     (if depth vm > uint CallCreateDepth then Some (vm, [], gas, Some ErrDepth)
      else do {
        let (snapshot, vm) = take_snapshot E vm;
        let (c, vm) = new_contract vm cr (ref_Address cr) None gas;
        c \<leftarrow> AsDelegate c;
        (code, codeHash) \<leftarrow> load_code E vm addr;
        let c = SetCallCode c addr codeHash code;
        r \<leftarrow> (case ePre E addr of
            Some p \<Rightarrow> run_precompile vm p input gas
          | None \<Rightarrow> run_contract run vm c input False);
        end_call E snapshot r
      })"

text \<open>\<^verbatim>\<open>StaticCall\<close> takes the code from the database only.\<close>

definition StaticCall ::
  "'s run_fn \<Rightarrow> 's env \<Rightarrow> 's vm \<Rightarrow> contract_ref \<Rightarrow> address \<Rightarrow> bytes \<Rightarrow> u64 \<Rightarrow> 's call_result" where
  "StaticCall run E vm cr addr input gas =
     (if depth vm > uint CallCreateDepth then Some (vm, [], gas, Some ErrDepth)
      else do {
        let (snapshot, vm) = take_snapshot E vm;
        let vm = vm\<lparr>vDB := db_AddBalance (eA E) (vDB vm) addr 0\<rparr>;
        let (c, vm) = new_contract vm cr addr (Some 0) gas;
        let c = SetCallCode c addr (db_GetCodeHash (eA E) (vDB vm) addr) (db_GetCode (eA E) (vDB vm) addr);
        r \<leftarrow> (case ePre E addr of
            Some p \<Rightarrow> run_precompile vm p input gas
          | None \<Rightarrow> run_contract run vm c input True);
        end_call E snapshot r
      })"

section \<open>Creations\<close>

definition nonce_of :: "'s env \<Rightarrow> 's vm \<Rightarrow> address \<Rightarrow> u64 option" where
  "nonce_of E vm a =
     (case GetAddressAndKey (vWriteSet vm) a (NonceKey (eK E)) of
        None \<Rightarrow> Some (db_GetNonce (eA E) (vDB vm) a)
      | Some data \<Rightarrow> as_u64 data)"

text \<open>The checks after the run of the deployment code; the gas of the contract pays for the stored code.\<close>

definition store_code ::
  "'s env \<Rightarrow> address \<Rightarrow> 's vm \<Rightarrow> contract \<Rightarrow> bytes \<Rightarrow> vm_error option \<Rightarrow>
   ('s vm \<times> contract \<times> vm_error option) option" where
  "store_code E address vm c ret err = do {
     let err = (if err = None \<and> length ret > MaxCodeSize then Some ErrMaxCodeSizeExceeded else err);
     let err = (if err = None \<and> length ret \<ge> 1 \<and> ret ! 0 = 0xEF then Some ErrInvalidCode else err);
     if err = None then
       (let createDataGas = of_nat (length ret) * CreateDataGas in
        case UseGas c createDataGas of (ok, c) \<Rightarrow>
          if ok then do {
            vm \<leftarrow> write_put E vm address (SetCodeKey (eK E)) (VBytes ret) (VBytes []);
            Some (vm, c, None)
          } else Some (vm, c, Some ErrCodeStoreOutOfGas))
     else Some (vm, c, err)
   }"

definition create ::
  "'s run_fn \<Rightarrow> 's env \<Rightarrow> 's vm \<Rightarrow> contract_ref \<Rightarrow> bytes \<Rightarrow> hash \<Rightarrow> u64 \<Rightarrow> int \<Rightarrow> address \<Rightarrow> 's create_result" where
  "create run E vm cr code codeHash gas value address =
     (if depth vm > uint CallCreateDepth then Some (vm, [], 0, gas, Some ErrDepth)
      else do {
        canTransferFlag \<leftarrow> can_transfer E vm (ref_Address cr) value;
        if \<not> canTransferFlag then Some (vm, [], 0, gas, Some ErrInsufficientBalance)
        else do {
          nonce \<leftarrow> nonce_of E vm (ref_Address cr);
          vm \<leftarrow> read_put E vm (ref_Address cr) (NonceKey (eK E)) (VU64 nonce);
          if nonce + 1 < nonce then Some (vm, [], 0, gas, Some ErrNonceUintOverflow)
          else do {
            vm \<leftarrow> write_put E vm (ref_Address cr) (NonceKey (eK E)) (VU64 (nonce + 1)) (VBytes []);
            let vm = vm\<lparr>vDB := db_AddAddressToAccessList (eJ E) (vDB vm) address\<rparr>;
            let contractHash = db_GetCodeHash (eA E) (vDB vm) address;
            if db_GetNonce (eA E) (vDB vm) address \<noteq> 0 \<or>
               (contractHash \<noteq> 0 \<and> contractHash \<noteq> g_Keccak256Hash (eG E) [])
            then Some (vm, [], 0, 0, Some ErrContractAddressCollision)
            else do {
              let (snapshot, vm) = take_snapshot E vm;
              vm \<leftarrow> write_put E vm address (CreatAccountKey (eK E)) (VBytes (g_AddrBytes (eG E) address)) (VBytes []);
              vm \<leftarrow> (if big_Uint64 value > 0 then do {
                       balanceVal \<leftarrow> balance_of E vm address;
                       vm \<leftarrow> write_put E vm (ref_Address cr) (SubBalanceKey (eK E)) (VBig value) (VBytes []);
                       write_put E vm address (BalanceKey (eK E)) (VBig value) (VBig balanceVal)
                     } else Some vm);
              let (c, vm) = new_contract vm cr address (Some value) gas;
              let c = SetCodeOptionalHash c address code codeHash;
              (vm, c, ret, err) \<leftarrow> run vm c [] False;
              (vm, c, err) \<leftarrow> store_code E address vm c ret err;
              if err \<noteq> None \<and> err \<noteq> Some ErrCodeStoreOutOfGas then
                (let vm = vm\<lparr>vDB := db_RevertToSnapshot (eJ E) (vDB vm) snapshot\<rparr>;
                     c = (if err \<noteq> Some ErrExecutionReverted then snd (UseGas c (Gas c)) else c)
                 in Some (vm, ret, address, Gas c, err))
              else Some (vm, ret, address, Gas c, err)
            }
          }
        }
      })"

text \<open>\<^verbatim>\<open>Create\<close> derives the address of the new contract and then passes on the address of the caller.\<close>

definition Create ::
  "'s run_fn \<Rightarrow> 's env \<Rightarrow> 's vm \<Rightarrow> contract_ref \<Rightarrow> bytes \<Rightarrow> u64 \<Rightarrow> int \<Rightarrow> 's create_result" where
  "Create run E vm cr code gas value = do {
     nonce \<leftarrow> nonce_of E vm (ref_Address cr);
     let contractAddr = g_CreateAddress (eG E) (ref_Address cr) nonce;
     create run E vm cr code 0 gas value (ref_Address cr)
   }"

definition Create2 ::
  "'s run_fn \<Rightarrow> 's env \<Rightarrow> 's vm \<Rightarrow> contract_ref \<Rightarrow> bytes \<Rightarrow> u64 \<Rightarrow> int \<Rightarrow> u256 \<Rightarrow> 's create_result" where
  "Create2 run E vm cr code gas endowment salt =
     (let codeHash = g_Keccak256Hash (eG E) code;
          contractAddr = g_CreateAddress2 (eG E) (ref_Address cr) (u_Bytes32 (eU E) salt) (g_HashBytes (eG E) codeHash)
      in create run E vm cr code codeHash gas endowment contractAddr)"

end
