(* ===== verification/Interpreter.thy ===== *)
theory Interpreter
  imports Effects EthVM
begin

text \<open>
  The run loop of \<^verbatim>\<open>vm/ethvm/interpreter.go\<close> and the circle of calls. \<open>run_op\<close> is one turn of the loop: stack bounds, constant gas,
  dynamic gas with the memory expansion, then the instruction. \<open>loop\<close> repeats it with fuel, and \<open>Run\<close> is
  \<^verbatim>\<open>VMInterpreter.Run\<close>; its first argument is the fuel for nested calls. \<open>step\<close> is the relational view of the
  loop. The tracer is left out.
\<close>

section \<open>One turn of the loop\<close>

datatype 's outcome =
    Continue "'s frame"
  | Halt "'s frame" bytes "vm_error option"

text \<open>The dynamic gas: the memory the operation needs in whole words, its price, and the resizing. An error ends the run.\<close>

definition memory_size_of :: "'s env \<Rightarrow> 's operation \<Rightarrow> stack \<Rightarrow> (vm_error + u64) option" where
  "memory_size_of E operation st =
     (case memorySize operation of
        None \<Rightarrow> Some (Inr 0)
      | Some ms \<Rightarrow> do {
          (memSize, overflow) \<leftarrow> ms (eU E) st;
          if overflow then Some (Inl ErrGasUintOverflow)
          else (case g_SafeMul (eG E) (toWordSize memSize) 32 of (msize, overflow) \<Rightarrow>
            Some (if overflow then Inl ErrGasUintOverflow else Inr msize))
        })"

definition dynamic_gas :: "'s env \<Rightarrow> 's operation \<Rightarrow> 's frame \<Rightarrow> ('s frame \<times> vm_error option) option" where
  "dynamic_gas E operation f =
     (case dynamicGas operation of
        None \<Rightarrow> Some (f, None)
      | Some dynamic \<Rightarrow> do {
          r \<leftarrow> memory_size_of E operation (f_stack f);
          case r of
            Inl e \<Rightarrow> Some (f, Some e)
          | Inr msize \<Rightarrow> do {
              (f, d) \<leftarrow> dynamic E f msize;
              case d of
                Inl e \<Rightarrow> Some (f, Some ErrOutOfGas)
              | Inr dynamicCost \<Rightarrow>
                  (case UseGas (f_con f) dynamicCost of (ok, c) \<Rightarrow>
                     if \<not> ok then Some (f, Some ErrOutOfGas)
                     else
                       let f = f\<lparr>f_con := c\<rparr>
                       in Some (if msize > 0 then f\<lparr>f_mem := mem_Resize (f_mem f) msize\<rparr> else f, None))
            }
        })"

definition run_op :: "'s calls \<Rightarrow> 's env \<Rightarrow> 's operation \<Rightarrow> 's frame \<Rightarrow> 's outcome option" where
  "run_op C E operation f =
     (let cost = constantGas operation; sLen = int (length (f_stack f)) in
      if sLen < op_minStack operation then Some (Halt f [] (Some (ErrStackUnderflow sLen (op_minStack operation))))
      else if sLen > op_maxStack operation then Some (Halt f [] (Some (ErrStackOverflow sLen (op_maxStack operation))))
      else case UseGas (f_con f) cost of (ok, c) \<Rightarrow>
        if \<not> ok then Some (Halt f [] (Some ErrOutOfGas))
        else do {
          (f, e) \<leftarrow> dynamic_gas E operation (f\<lparr>f_con := c\<rparr>);
          case e of
            Some e \<Rightarrow> Some (Halt f [] (Some e))
          | None \<Rightarrow> do {
              (f, res, err) \<leftarrow> execute operation C E f;
              Some (if err \<noteq> None then Halt f res err else Continue (f\<lparr>f_pc := f_pc f + 1\<rparr>))
            }
        })"

definition turn :: "'s jump_table \<Rightarrow> 's calls \<Rightarrow> 's env \<Rightarrow> 's frame \<Rightarrow> 's outcome option" where
  "turn jt C E f = do {
     operation \<leftarrow> go_index jt (unat (GetOp (f_con f) (f_pc f)));
     run_op C E operation f
   }"

section \<open>The loop and the circle of calls\<close>

primrec loop ::
  "nat \<Rightarrow> 's jump_table \<Rightarrow> 's calls \<Rightarrow> 's env \<Rightarrow> 's frame \<Rightarrow> ('s frame \<times> bytes \<times> vm_error option) option" where
  "loop 0 jt C E f = None"
| "loop (Suc n) jt C E f = do {
     t \<leftarrow> turn jt C E f;
     case t of
       Continue f' \<Rightarrow> loop n jt C E f'
     | Halt f' res err \<Rightarrow> Some (f', res, if err = Some ErrStopToken then None else err)
   }"

text \<open>\<^verbatim>\<open>Run\<close> around the loop: the depth, the read-only flag, which only the outermost static call sets and
  clears, and the empty frame. The fuel of the loop is one more than the gas of the contract.\<close>

definition Run_body :: "'s jump_table \<Rightarrow> 's calls \<Rightarrow> 's env \<Rightarrow> 's run_fn" where
  "Run_body jt C E vm c input ro = do {
     let set_ro = (ro \<and> \<not> readOnly vm);
     let vm = vm\<lparr>depth := depth vm + 1\<rparr>;
     let vm = (if set_ro then vm\<lparr>readOnly := True\<rparr> else vm);
     let vm = vm\<lparr>returnData := []\<rparr>;
     (vm, c, ret, err) \<leftarrow>
       (if length (Code c) = 0 then Some (vm, c, [], None)
        else do {
          (f, ret, err) \<leftarrow> loop (unat (Gas c) + 1) jt C E
             \<lparr>f_vm = vm, f_pc = 0, f_mem = NewMemory, f_stack = newstack, f_con = c\<lparr>Input := input\<rparr>\<rparr>;
          Some (f_vm f, f_con f, ret, err)
        });
     let vm = (if set_ro then vm\<lparr>readOnly := False\<rparr> else vm);
     Some (vm\<lparr>depth := depth vm - 1\<rparr>, c, ret, err)
   }"

definition calls_of :: "'s run_fn \<Rightarrow> 's env \<Rightarrow> 's calls" where
  "calls_of run E = \<lparr>c_Call = Call run E, c_CallCode = CallCode run E, c_DelegateCall = DelegateCall run E,
     c_StaticCall = StaticCall run E, c_Create = Create run E, c_Create2 = Create2 run E\<rparr>"

primrec Run :: "nat \<Rightarrow> 's jump_table \<Rightarrow> 's env \<Rightarrow> 's run_fn" where
  "Run 0 jt E vm c input ro = None"
| "Run (Suc d) jt E vm c input ro = Run_body jt (calls_of (Run d jt E) E) E vm c input ro"

section \<open>The relational view\<close>

inductive step :: "'s jump_table \<Rightarrow> 's calls \<Rightarrow> 's env \<Rightarrow> 's frame \<Rightarrow> 's frame \<Rightarrow> bool"
  for jt C E where
  step_turn: "turn jt C E f = Some (Continue f') \<Longrightarrow> step jt C E f f'"

inductive_simps step_iff: "step jt C E f f'"

inductive reaches :: "'s jump_table \<Rightarrow> 's calls \<Rightarrow> 's env \<Rightarrow> 's frame \<Rightarrow> 's frame \<Rightarrow> bool"
  for jt C E where
  reaches_refl: "reaches jt C E f f"
| reaches_step: "step jt C E f g \<Longrightarrow> reaches jt C E g h \<Longrightarrow> reaches jt C E f h"

text \<open>A frame is finished when its next turn halts or panics.\<close>

definition finished :: "'s jump_table \<Rightarrow> 's calls \<Rightarrow> 's env \<Rightarrow> 's frame \<Rightarrow> bool" where
  "finished jt C E f \<longleftrightarrow> (\<nexists>f'. step jt C E f f')"

lemma reaches_invariant:
  assumes "reaches jt C E f g" and "I f" and "\<And>f g. I f \<Longrightarrow> step jt C E f g \<Longrightarrow> I g"
  shows "I g"
  using assms by (induction rule: reaches.induct) blast+

end
