(* ===== verification/GasLaws.thy ===== *)
theory GasLaws
  imports GasTable
begin

text \<open>
  Properties of the gas functions: the price of memory over the life of a frame, the gas handed to a
  callee, and the price and the refunds of storage writes.
\<close>

section \<open>Memory\<close>

lemma expands_Some:
  "mem_ok m \<Longrightarrow> \<forall>n \<in> set ns. unat n \<le> 0x1FFFFFFFE0 \<Longrightarrow> \<exists>r. expands m ns = Some r"
proof (induction ns arbitrary: m)
  case (Cons n ns)
  then have "unat n \<le> 0x1FFFFFFFE0" by simp
  from memoryGasCost_exact [OF Cons.prems(1) this] obtain m' fee where
    m': "memoryGasCost m n = (m', Inr fee)" "mem_ok (mem_Resize m' (toWordSize n * 32))" by blast
  with Cons show ?case by fastforce
qed simp

text \<open>C24. What a frame pays for memory depends on the final size only: whatever the accesses and their
  order, the single fees add up to \<open>3 w + w * w / 512\<close> for the largest number \<open>w\<close> of words
  touched, and no access within \<open>0x1FFFFFFFE0\<close> bytes is refused.\<close>

theorem memory_price_path_independent:
  assumes "\<forall>n \<in> set ns. unat n \<le> 0x1FFFFFFFE0"
  shows "\<exists>m. expands NewMemory ns = Some (m, mem_fee (Max (insert 0 ((\<lambda>n. words (unat n)) ` set ns)))) \<and>
    length (store m) = 32 * Max (insert 0 ((\<lambda>n. words (unat n)) ` set ns))"
proof -
  obtain m t where m: "expands NewMemory ns = Some (m, t)"
    using expands_Some [OF mem_ok_New assms] by auto
  have fold: "fold (\<lambda>n w. max w (words (unat n))) ns w0 = Max (insert w0 ((\<lambda>n. words (unat n)) ` set ns))" for w0
  proof (induction ns arbitrary: w0)
    case (Cons n ns)
    then show ?case by (cases "ns = []") (simp_all add: max.assoc max.commute)
  qed simp
  have "mem_words NewMemory = 0" "mem_fee 0 = 0"
    by (simp_all add: mem_words_def NewMemory_def mem_fee_def)
  with expands_total [OF mem_ok_New m] m fold [of 0] show ?thesis by (auto simp: mem_ok_def)
qed

theorem memory_price_path_independent_witness:
  "\<exists>m. expands NewMemory [64, 1, 100000] = Some (m, 28448) \<and> length (store m) = 100000"
  using memory_price_path_independent [of "[64, 1, 100000]"] by (simp add: words_def mem_fee_def del: expands.simps)

section \<open>Calls\<close>

text \<open>C23. For each of the four call instructions, when the contract can pay the price, the price is a base cost plus the
  gas handed to the callee, and the callee gets the requested gas but never more than 63/64 of what
  is left after the base cost; the price does not wrap, and the detour of the
  cold-access charge leaves the contract as it was.\<close>

theorem call_gas_63_64:
  assumes "uint256_spec (eU E)" and "geth_spec (eG E)" and "mem_ok (f_mem f)"
    and "calc \<in> {gasCallEIP2929, gasCallCodeEIP2929, gasDelegateCallEIP2929, gasStaticCallEIP2929}"
    and "calc E f ms = Some (f', Inr g)" and "unat g \<le> unat (Gas (f_con f))"
  shows "f_con f' = f_con f \<and> (\<exists>base c. Back (f_stack f) 0 = Some c \<and>
    base \<le> unat (Gas (f_con f)) \<and> unat g = base + unat (callGasTemp (f_vm f')) \<and>
    unat (callGasTemp (f_vm f')) = min (all_but_64th (unat (Gas (f_con f)) - base)) (unat c))"
proof -
  obtain need where "call_price need f f' g"
    using assms(4,5) call.variant_affordable [OF assms(1-3) _ assms(6)]
      callcode.variant_affordable [OF assms(1-3) _ assms(6)]
      delegatecall.variant_affordable [OF assms(1-3) _ assms(6)]
      staticcall.variant_affordable [OF assms(1-3) _ assms(6)]
    unfolding gasCallEIP2929_def gasCallCodeEIP2929_def gasDelegateCallEIP2929_def gasStaticCallEIP2929_def
    by blast
  then show ?thesis unfolding call_price_def by blast
qed

text \<open>A cold call with more gas requested than there is: the callee gets 63/64 of what the base cost leaves.\<close>

definition call_frame :: "std_db frame" where
  "call_frame = std_frame std_core_empty [0, 0, 0, 0, 0, 0xBB, 1000000] [] 100000"

lemma call_frame_gas:
  "\<exists>f'. gasCallEIP2929 std_env call_frame 0 = Some (f', Inr 98477) \<and> callGasTemp (f_vm f') = 95977"
  by (simp add: gasCallEIP2929_def makeCallVariantGasCallEIP2929_def gasCall_def charge_call_def callGas_def
      call_frame_def std_frame_def std_contract_def std_vm_def Back_def uint256_specD [OF uint256_std_spec]
      UseGas_def set_db_def mem_gas_def memoryGasCost_def safeAdd_eq geth_std_spec std_journal_def std_core_empty_def
      Let_def)

theorem call_gas_63_64_witness:
  "\<exists>f'. gasCallEIP2929 std_env call_frame 0 = Some (f', Inr 98477) \<and> f_con f' = f_con call_frame \<and>
    unat (callGasTemp (f_vm f')) = all_but_64th 97500"
proof -
  obtain f' where f': "gasCallEIP2929 std_env call_frame 0 = Some (f', Inr 98477)" "callGasTemp (f_vm f') = 95977"
    using call_frame_gas by blast
  have "f_con f' = f_con call_frame"
    using call_gas_63_64 [where calc = gasCallEIP2929 and E = std_env and f = call_frame, OF _ _ _ _ f'(1)]
      mem_ok_New uint256_std_spec geth_std_spec
    by (auto simp: call_frame_def std_frame_def std_contract_def)
  with f' show ?thesis by (auto simp: all_but_64th_def)
qed

section \<open>Storage writes\<close>

definition sstore_price :: "bool \<Rightarrow> hash \<Rightarrow> hash \<Rightarrow> hash \<Rightarrow> nat" where
  "sstore_price warm original current new =
     (if warm then 0 else 2100) +
     (if new = current then 100
      else if original = current then (if original = 0 then 20000 else 2900)
      else 100)"

lemma set_db_simps [simp]:
  "f_con (set_db f s) = f_con f" "f_stack (set_db f s) = f_stack f" "f_db (set_db f s) = s"
  "set_db (set_db f s) t = set_db f t"
  by (simp_all add: set_db_def)


lemma sstore_price_lemma:
  assumes B: "books_spec (eA E) (eJ E)" and run: "makeGasSStoreFunc r E f ms = Some (f', Inr g)"
    and st: "Back (f_stack f) 0 = Some x" "Back (f_stack f) 1 = Some y"
  shows "unat g = sstore_price
      (snd (db_SlotInAccessList (eJ E) (f_db f) (self (f_con f)) (u_Bytes32 (eU E) x)))
      (db_GetCommittedState (eA E) (f_db f) (self (f_con f)) (u_Bytes32 (eU E) x))
      (db_GetState (eA E) (f_db f) (self (f_con f)) (u_Bytes32 (eU E) x)) (u_Bytes32 (eU E) y)"
    and "2300 < unat (Gas (f_con f))"
proof -
  show "2300 < unat (Gas (f_con f))"
    using run by (auto simp: makeGasSStoreFunc_def not_le word_less_nat_alt split: if_splits)
  show "unat g = sstore_price
      (snd (db_SlotInAccessList (eJ E) (f_db f) (self (f_con f)) (u_Bytes32 (eU E) x)))
      (db_GetCommittedState (eA E) (f_db f) (self (f_con f)) (u_Bytes32 (eU E) x))
      (db_GetState (eA E) (f_db f) (self (f_con f)) (u_Bytes32 (eU E) x)) (u_Bytes32 (eU E) y)"
    using run st
    by (auto simp: makeGasSStoreFunc_def peek_eq_Back bind_Some_iff sstore_price_def books_specD [OF B] Let_def
        split: if_splits prod.splits)
qed

text \<open>C20. A storage write in the access-list gas schedule costs 100, 2900 or 20000 gas, depending on the committed, the
  current and the new value, plus 2100 when the slot is cold, and is refused at 2300 gas or less.\<close>

theorem sstore_price_exact:
  assumes "books_spec (eA E) (eJ E)"
    and "calc = gasSStoreEIP2929 \<or> calc = gasSStoreEIP3529" and "calc E f ms = Some (f', Inr g)"
    and "Back (f_stack f) 0 = Some x" and "Back (f_stack f) 1 = Some y"
  shows "unat g = sstore_price
      (snd (db_SlotInAccessList (eJ E) (f_db f) (self (f_con f)) (u_Bytes32 (eU E) x)))
      (db_GetCommittedState (eA E) (f_db f) (self (f_con f)) (u_Bytes32 (eU E) x))
      (db_GetState (eA E) (f_db f) (self (f_con f)) (u_Bytes32 (eU E) x)) (u_Bytes32 (eU E) y) \<and>
    2300 < unat (Gas (f_con f))"
  using assms sstore_price_lemma [OF assms(1) _ assms(4,5)]
  by (auto simp: gasSStoreEIP2929_def gasSStoreEIP3529_def)

definition warm_core :: std_core where
  "warm_core = std_core_empty\<lparr>sc_warm := [0xC0]\<rparr>"

lemma sstore_frame_gas:
  "\<exists>f'. gasSStoreEIP3529 std_env (std_frame warm_core [7, 3] [] 50000) 0 = Some (f', Inr 22100)"
  by (simp add: gasSStoreEIP3529_def makeGasSStoreFunc_def std_frame_def std_contract_def std_vm_def
      Back_def peek_def set_db_def std_journal_def std_accounts_def warm_core_def std_core_empty_def uint256_std_def
      Let_def)

theorem sstore_price_exact_witness:
  "\<exists>f'. gasSStoreEIP3529 std_env (std_frame warm_core [7, 3] [] 50000) 0 = Some (f', Inr 22100) \<and>
    unat (22100 :: u64) = sstore_price False 0 0 7"
proof -
  obtain f' where f': "gasSStoreEIP3529 std_env (std_frame warm_core [7, 3] [] 50000) 0 = Some (f', Inr 22100)"
    using sstore_frame_gas by blast
  from sstore_price_exact [where calc = gasSStoreEIP3529 and E = std_env and x = 3 and y = 7, OF _ _ f'] show ?thesis
    using f' std_books_spec
    by (auto simp: std_frame_def std_vm_def std_contract_def Back_def std_accounts_def std_journal_def
        warm_core_def std_core_empty_def uint256_std_def)
qed

definition with_writes :: "rwset \<Rightarrow> 's frame \<Rightarrow> 's frame" where
  "with_writes w f = f\<lparr>f_vm := (f_vm f)\<lparr>vWriteSet := w\<rparr>\<rparr>"

lemma with_writes_simps [simp]:
  "f_con (with_writes w f) = f_con f" "f_stack (with_writes w f) = f_stack f" "f_db (with_writes w f) = f_db f"
  "set_db (with_writes w f) s = with_writes w (set_db f s)"
  by (simp_all add: with_writes_def set_db_def)

lemma map_option_then: "map_option g x \<bind> k = x \<bind> (\<lambda>a. k (g a))"
  by (cases x) simp_all

text \<open>The price and the refund of a storage write read the database only: a write set, where \<^verbatim>\<open>opSstore\<close>
  leaves the value, makes no difference, so a slot written before in the same transaction is priced as if it had not been.\<close>

theorem sstore_price_ignores_write_set:
  "makeGasSStoreFunc r E (with_writes w f) ms =
   map_option (map_prod (with_writes w) id) (makeGasSStoreFunc r E f ms)"
proof (cases "Back (f_stack f) 1"; cases "peek (f_stack f)")
  fix y x assume "Back (f_stack f) 1 = Some y" "peek (f_stack f) = Some x"
  then show ?thesis
    by (simp add: makeGasSStoreFunc_def Let_def map_option_bind option.map_comp comp_def map_option_then
        if_distrib [where f = "with_writes w"] split: prod.splits cong: if_cong)
qed (simp_all add: makeGasSStoreFunc_def peek_def)

end
