(* ===== verification/GasEffects.thy ===== *)
theory GasEffects
  imports GasLaws
begin

text \<open>
  What the dynamic gas functions do to the frame, one law per function: they leave the stack, the program counter and
  (the call variants apart) the contract alone; those of operations with a memory size account for exactly that
  expansion, the others leave the memory alone; and which of them always charge something.
\<close>

lemma yields_gthen [simp]:
  "yields P (gthen x k) = yields (\<lambda>(f, r). case r of Inl e \<Rightarrow> P (f, Inl e) | Inr v \<Rightarrow> yields P (k f v)) x"
  by (auto simp: gthen_def yields_def split: option.splits prod.splits sum.splits)

definition calm :: "'s gas_func \<Rightarrow> bool" where
  "calm d \<longleftrightarrow> (\<forall>E f n. yields (\<lambda>(f', r). f_con f' = f_con f \<and> f_stack f' = f_stack f \<and> f_pc f' = f_pc f) (d E f n))"

definition mem_kept :: "'s gas_func \<Rightarrow> bool" where
  "mem_kept d \<longleftrightarrow> (\<forall>E f n. yields (\<lambda>(f', r). f_mem f' = f_mem f) (d E f n))"

definition mem_paid :: "'s gas_func \<Rightarrow> bool" where
  "mem_paid d \<longleftrightarrow> (\<forall>E f n. yields (\<lambda>(f', r). case r of Inl e \<Rightarrow> True | Inr g \<Rightarrow>
     f_mem f' = fst (memoryGasCost (f_mem f) n) \<and> (\<exists>fee. snd (memoryGasCost (f_mem f) n) = Inr fee)) (d E f n))"

definition costs :: "'s gas_func \<Rightarrow> bool" where
  "costs d \<longleftrightarrow> (\<forall>E f n. geth_spec (eG E) \<longrightarrow> yields (\<lambda>(f', r). \<forall>g. r = Inr g \<longrightarrow> 0 < unat g) (d E f n))"

named_theorems gas_laws \<open>what each gas function keeps\<close>

lemma mem_gas_frame:
  "mem_gas f n = (f\<lparr>f_mem := fst (memoryGasCost (f_mem f) n)\<rparr>, snd (memoryGasCost (f_mem f) n))"
  by (simp add: mem_gas_def split: prod.splits)

lemmas gas_unfold = pureMemoryGascost_def memoryCopierGas_def gasCreateEip3860_def gasCreate2Eip3860_def makeGasLog_def
  wordsGas_def gasExtCodeCopyEIP2929_def

lemma calm_memory [gas_laws]:
  "calm pureMemoryGascost" "calm (memoryCopierGas k)" "calm gasCreateEip3860" "calm gasCreate2Eip3860"
  "calm (makeGasLog m)" "calm (wordsGas k)"
  by (simp_all add: calm_def gas_unfold mem_gas_frame Let_def yields_any split: sum.split prod.split)


lemmas mem_aliases = gasReturn_def gasRevert_def gasMLoad_def gasMStore8_def gasMStore_def gasCreate_def
  gasCallDataCopy_def gasCodeCopy_def gasExtCodeCopy_def gasReturnDataCopy_def gasKeccak256_def gasCreate2_def

lemma calm_aliases [gas_laws]:
  "calm gasReturn" "calm gasRevert" "calm gasMLoad" "calm gasMStore8" "calm gasMStore" "calm gasCallDataCopy"
  "calm gasCodeCopy" "calm gasExtCodeCopy" "calm gasReturnDataCopy" "calm gasKeccak256"
  by (simp_all add: mem_aliases calm_memory)

lemma calm_state [gas_laws]:
  "calm gasExtCodeCopyEIP2929" "calm gasEip2929AccountCheck" "calm gasSLoadEIP2929" "calm gasExpEIP158"
  "calm (makeSelfdestructGasFn b)"
  by (simp_all add: calm_def gasExtCodeCopyEIP2929_def gasExtCodeCopy_def memoryCopierGas_def mem_gas_frame
      gasEip2929AccountCheck_def gasSLoadEIP2929_def gasExpEIP158_def makeSelfdestructGasFn_def set_db_def Let_def
      yields_any split: sum.split prod.split)

lemma calm_sstore [gas_laws]: "calm (makeGasSStoreFunc r)"
  by (simp add: calm_def makeGasSStoreFunc_def set_db_def Let_def yields_any map_option_then split: prod.split)


lemma calm_SSTORE [gas_laws]: "calm gasSStoreEIP3529"
  by (simp add: gasSStoreEIP3529_def calm_sstore)

lemma calm_SELFDESTRUCT [gas_laws]: "calm gasSelfdestructEIP3529"
  by (simp add: gasSelfdestructEIP3529_def calm_state)

section \<open>The memory\<close>

lemma mem_paid_memory [gas_laws]:
  "mem_paid pureMemoryGascost" "mem_paid (memoryCopierGas k)" "mem_paid gasCreateEip3860" "mem_paid gasCreate2Eip3860"
  "mem_paid (makeGasLog m)" "mem_paid (wordsGas k)" "mem_paid gasExtCodeCopyEIP2929"
  by (simp_all add: mem_paid_def gas_unfold gasExtCodeCopy_def mem_gas_frame Let_def yields_any set_db_def
      split: sum.split prod.split)

lemma mem_paid_aliases [gas_laws]:
  "mem_paid gasReturn" "mem_paid gasRevert" "mem_paid gasMLoad" "mem_paid gasMStore8" "mem_paid gasMStore"
  "mem_paid gasCallDataCopy" "mem_paid gasCodeCopy" "mem_paid gasExtCodeCopy" "mem_paid gasReturnDataCopy"
  "mem_paid gasKeccak256"
  by (simp_all add: mem_aliases mem_paid_memory)

lemma mem_kept_state [gas_laws]:
  "mem_kept gasEip2929AccountCheck" "mem_kept gasSLoadEIP2929" "mem_kept gasExpEIP158"
  "mem_kept gasSelfdestructEIP3529" "mem_kept gasSStoreEIP3529"
  by (simp_all add: mem_kept_def gasEip2929AccountCheck_def gasSLoadEIP2929_def gasExpEIP158_def
      gasSelfdestructEIP3529_def makeSelfdestructGasFn_def gasSStoreEIP3529_def makeGasSStoreFunc_def set_db_def
      Let_def yields_any split: prod.split)


lemma mem_paid_calls [gas_laws]:
  "mem_paid gasCall" "mem_paid gasCallCode" "mem_paid gasDelegateCall" "mem_paid gasStaticCall"
  by (simp_all add: mem_paid_def gasCall_def gasCallCode_def gasDelegateCall_def gasStaticCall_def charge_call_def
      mem_gas_frame Let_def yields_any split: sum.split)

lemma mem_paid_variant: "mem_paid d \<Longrightarrow> mem_paid (makeCallVariantGasCallEIP2929 d)"
proof -
  assume d: "mem_paid d"
  have paid: "yields (\<lambda>(f', r). case r of Inl e \<Rightarrow> True | Inr v \<Rightarrow>
      f_mem f' = fst (memoryGasCost m n) \<and> (\<exists>fee. snd (memoryGasCost m n) = Inr fee)) (d E g n)"
    if "f_mem g = m" for E g n m using d that by (auto simp: mem_paid_def)
  show ?thesis
    unfolding mem_paid_def
  proof (intro allI, goal_cases)
    case (1 E f n)
    show ?case
    proof (cases "Back (f_stack f) 1")
      case (Some a)
      then show ?thesis
        by (auto simp: makeCallVariantGasCallEIP2929_def UseGas_def set_db_def Let_def paid
            intro!: yields_mono [OF paid [where m = "f_mem f"]] split: sum.splits)
    qed (simp add: makeCallVariantGasCallEIP2929_def)
  qed
qed

lemma mem_paid_variants [gas_laws]:
  "mem_paid gasCallEIP2929" "mem_paid gasCallCodeEIP2929" "mem_paid gasDelegateCallEIP2929"
  "mem_paid gasStaticCallEIP2929"
  unfolding gasCallEIP2929_def gasCallCodeEIP2929_def gasDelegateCallEIP2929_def gasStaticCallEIP2929_def
  by (intro mem_paid_variant mem_paid_calls)+

section \<open>Charges\<close>

lemma safeAdd_pos:
  "geth_spec (eG E) \<Longrightarrow> safeAdd E x y = Inr g \<Longrightarrow> 0 < unat x \<or> 0 < unat y \<Longrightarrow> 0 < unat g"
  using safeAdd_Inr [of E x y g] by simp

lemma costs_sload [gas_laws]: "costs gasSLoadEIP2929"
  by (simp add: costs_def gasSLoadEIP2929_def Let_def yields_any)

lemma costs_exp [gas_laws]: "costs gasExpEIP158"
  by (auto simp: costs_def gasExpEIP158_def Let_def intro!: yields_any dest: safeAdd_pos)

lemma costs_sstore [gas_laws]: "costs gasSStoreEIP3529"
  by (simp add: costs_def gasSStoreEIP3529_def makeGasSStoreFunc_def Let_def yields_any split: prod.split)

lemma costs_log [gas_laws]: "costs (makeGasLog m)"
proof -
  have pos: "0 < unat g" if "geth_spec (eG E)" "safeAdd E x LogGas = Inr x1" "safeAdd E x1 y = Inr x2"
    "safeAdd E x2 z = Inr g" for E :: "'a env" and x y z x1 x2 g
    using safeAdd_pos [OF that(1,2)] safeAdd_pos [OF that(1,3)] safeAdd_pos [OF that(1,4)] by simp
  show ?thesis
    by (auto simp: costs_def makeGasLog_def Let_def mem_gas_frame intro!: yields_any dest: pos split: sum.split prod.split)
qed

text \<open>Even when it fails, a gas function leaves the contract no more gas than it had. A call variant takes the
  price of the cold access off while the calculator runs and gives it back only when that succeeds.\<close>

definition no_gain :: "'s gas_func \<Rightarrow> bool" where
  "no_gain d \<longleftrightarrow> (\<forall>E f n. yields (\<lambda>(f', r). unat (Gas (f_con f')) \<le> unat (Gas (f_con f))) (d E f n))"

lemma no_gain_calm: "calm d \<Longrightarrow> no_gain d"
  unfolding calm_def no_gain_def by (intro allI, rule yields_mono, assumption?, drule spec, drule spec, erule spec) auto

lemma calm_calls: "calm gasCall" "calm gasCallCode" "calm gasDelegateCall" "calm gasStaticCall"
  by (simp_all add: calm_def gasCall_def gasCallCode_def gasDelegateCall_def gasStaticCall_def charge_call_def
      mem_gas_frame Let_def yields_any split: sum.split)

lemma no_gain_variant:
  assumes "calm old"
  shows "no_gain (makeCallVariantGasCallEIP2929 old)"
proof -
  have kept: "yields (\<lambda>(f', r). unat (Gas (f_con f')) \<le> unat (Gas (f_con f))) (old E f n)"
    and held: "yields (\<lambda>(f', r). case r of Inl e \<Rightarrow> unat (Gas (f_con f')) \<le> unat g | Inr v \<Rightarrow>
      unat (Gas (f_con f') + k) \<le> unat g) (old E f n)"
    if "Gas (f_con f) = g - k" "k \<le> g" for E f n g k
    using assms [unfolded calm_def, rule_format, where E = E and f = f and n = n] that
    by (auto simp: unat_sub_u64 elim!: yields_mono split: sum.split)
  show ?thesis
    unfolding no_gain_def
  proof (intro allI)
    fix E and f :: "'a frame" and n
    show "yields (\<lambda>(f', r). unat (Gas (f_con f')) \<le> unat (Gas (f_con f))) (makeCallVariantGasCallEIP2929 old E f n)"
      using kept [of f "Gas (f_con f)" 0]
      by (auto simp: makeCallVariantGasCallEIP2929_def UseGas_def set_db_def Let_def not_less
          intro!: yields_any [of _ "Back st i" for st i]
            yields_mono [OF held [where g = "Gas (f_con f)" and k = 2500]] split: sum.splits)
  qed
qed

lemma no_gain_calls [gas_laws]:
  "no_gain gasCallEIP2929" "no_gain gasCallCodeEIP2929" "no_gain gasDelegateCallEIP2929" "no_gain gasStaticCallEIP2929"
  by (simp_all add: gasCallEIP2929_def gasCallCodeEIP2929_def gasDelegateCallEIP2929_def gasStaticCallEIP2929_def
      no_gain_variant calm_calls)

end
