(* ===== verification/ExecLaws.thy ===== *)
theory ExecLaws
  imports Effects
begin

text \<open>
  Two more laws of every instruction: it leaves the size of the memory and the fee paid for it alone, and,
  when it goes on and no call gives back more gas than it was given, the contract has no more gas than before.
\<close>

definition gas_bounded :: "'s calls \<Rightarrow> bool" where
  "gas_bounded C \<longleftrightarrow>
     (\<forall>vm cr a i g v. yields (\<lambda>(vm', ret, left, err). unat left \<le> unat g) (c_Call C vm cr a i g v)) \<and>
     (\<forall>vm cr a i g v. yields (\<lambda>(vm', ret, left, err). unat left \<le> unat g) (c_CallCode C vm cr a i g v)) \<and>
     (\<forall>vm cr a i g. yields (\<lambda>(vm', ret, left, err). unat left \<le> unat g) (c_DelegateCall C vm cr a i g)) \<and>
     (\<forall>vm cr a i g. yields (\<lambda>(vm', ret, left, err). unat left \<le> unat g) (c_StaticCall C vm cr a i g)) \<and>
     (\<forall>vm cr i g v. yields (\<lambda>(vm', ret, addr, left, err). unat left \<le> unat g) (c_Create C vm cr i g v)) \<and>
     (\<forall>vm cr i g v s. yields (\<lambda>(vm', ret, addr, left, err). unat left \<le> unat g) (c_Create2 C vm cr i g v s))"

definition spends :: "'s exec \<Rightarrow> bool" where
  "spends ex \<longleftrightarrow> (\<forall>C E f. gas_bounded C \<longrightarrow> yields (\<lambda>(f', r, e).
     unat (Gas (f_con f')) \<le> unat (Gas (f_con f))) (ex C E f))"

definition same_room :: "memory \<Rightarrow> memory \<Rightarrow> bool" where
  "same_room m m' \<longleftrightarrow> length (store m') = length (store m) \<and> lastGasCost m' = lastGasCost m"

lemma same_room_refl [simp]: "same_room m m"
  by (simp add: same_room_def)

definition keeps_room :: "'s exec \<Rightarrow> bool" where
  "keeps_room ex \<longleftrightarrow> (\<forall>C E f. uint256_spec (eU E) \<longrightarrow> yields (\<lambda>(f', r, e). same_room (f_mem f) (f_mem f')) (ex C E f))"

named_theorems exec_laws \<open>what each instruction does to gas and memory\<close>

section \<open>Memory\<close>

lemma mem_Set_room [simp]: "yields (same_room m) (mem_Set m off n v)"
proof -
  have "unat (off + n) = unat off + unat n" if "\<not> off + n < off"
    using that add_u64_overflow_iff [of off n] unat_add_u64_no_wrap [of off n] by simp
  then show ?thesis
    by (auto simp: mem_Set_def same_room_def intro!: length_go_copy)
qed

lemma mem_ChangeStore_room [simp]: "yields (same_room m) (mem_ChangeStore m i v)"
  by (simp add: mem_ChangeStore_def go_update_def same_room_def)

lemma mem_Set32_room:
  "uint256_spec U \<Longrightarrow> yields (same_room m) (mem_Set32 U m off v)"
proof -
  assume U: "uint256_spec U"
  have "unat (off + 32) = unat off + 32" if "\<not> off + 32 < off"
    using that add_u64_overflow_iff [of off 32] unat_add_u64_no_wrap [of off 32] by simp
  then show ?thesis
    by (auto simp: mem_Set32_def same_room_def Let_def uint256_specD [OF U] min_def)
qed


lemma isCode_contract: "yields (\<lambda>(b, c', jds'). \<exists>bv. c' = c\<lparr>analysis := bv\<rparr>) (isCode jds c i)"
  by (auto simp: isCode_def split: option.split intro!: yields_any)

lemma validJumpdest_contract:
  "yields (\<lambda>(b, c', jds'). \<exists>bv. c' = c\<lparr>analysis := bv\<rparr>) (validJumpdest U jds c dest)"
  using isCode_contract by (simp add: validJumpdest_def Let_def yields_any split: prod.split)

lemma check_dest_frame:
  "yields (\<lambda>(ok, f'). f_mem f' = f_mem f \<and> Gas (f_con f') = Gas (f_con f) \<and> f_stack f' = f_stack f \<and> f_pc f' = f_pc f)
     (check_dest E f pos)"
  by (auto simp: check_dest_def intro: yields_mono [OF validJumpdest_contract])

section \<open>Laws of the instructions\<close>

lemma shapes [exec_laws]:
  "keeps_room (stack_op1 g1)" "keeps_room (stack_op2 g2)" "keeps_room (stack_op3 g3)" "keeps_room (push_value h)"
  "spends (stack_op1 g1)" "spends (stack_op2 g2)" "spends (stack_op3 g3)" "spends (push_value h)"
  by (simp_all add: keeps_room_def spends_def stack_op1_def stack_op2_def stack_op3_def push_value_def yields_any split: prod.split)

lemmas stack_op_defs = opAdd_def opSub_def opMul_def opDiv_def opSdiv_def opMod_def opSmod_def opExp_def
  opSignExtend_def opNot_def opLt_def opGt_def opSlt_def opSgt_def opEq_def opIszero_def opAnd_def opOr_def
  opXor_def opByte_def opAddmod_def opMulmod_def opSHL_def opSHR_def opSAR_def

lemma room_arith [exec_laws]:
  "keeps_room opAdd" "keeps_room opSub" "keeps_room opMul" "keeps_room opDiv" "keeps_room opSdiv" "keeps_room opMod"
  "keeps_room opSmod" "keeps_room opExp" "keeps_room opSignExtend" "keeps_room opNot" "keeps_room opLt"
  "keeps_room opGt" "keeps_room opSlt" "keeps_room opSgt" "keeps_room opEq" "keeps_room opIszero" "keeps_room opAnd"
  "keeps_room opOr" "keeps_room opXor" "keeps_room opByte" "keeps_room opAddmod" "keeps_room opMulmod"
  "keeps_room opSHL" "keeps_room opSHR" "keeps_room opSAR"
  by (simp_all only: stack_op_defs shapes)

lemma spends_arith [exec_laws]:
  "spends opAdd" "spends opSub" "spends opMul" "spends opDiv" "spends opSdiv" "spends opMod"
  "spends opSmod" "spends opExp" "spends opSignExtend" "spends opNot" "spends opLt"
  "spends opGt" "spends opSlt" "spends opSgt" "spends opEq" "spends opIszero" "spends opAnd"
  "spends opOr" "spends opXor" "spends opByte" "spends opAddmod" "spends opMulmod"
  "spends opSHL" "spends opSHR" "spends opSAR"
  by (simp_all only: stack_op_defs shapes)

lemma room_environment [exec_laws]:
  "keeps_room opAddress" "keeps_room opOrigin" "keeps_room opCaller" "keeps_room opCallValue"
  "keeps_room opCallDataSize" "keeps_room opReturnDataSize" "keeps_room opCodeSize" "keeps_room opGasprice"
  "keeps_room opCoinbase" "keeps_room opTimestamp" "keeps_room opNumber" "keeps_room opDifficulty"
  "keeps_room opRandom" "keeps_room opGasLimit" "keeps_room opPc" "keeps_room opMsize" "keeps_room opGas"
  "keeps_room opPush0" "keeps_room opSelfBalance" "keeps_room opChainID" "keeps_room opBaseFee"
  by (simp_all only: push_value_ops shapes)

lemma spends_environment [exec_laws]:
  "spends opAddress" "spends opOrigin" "spends opCaller" "spends opCallValue" "spends opCallDataSize"
  "spends opReturnDataSize" "spends opCodeSize" "spends opGasprice" "spends opCoinbase" "spends opTimestamp"
  "spends opNumber" "spends opDifficulty" "spends opRandom" "spends opGasLimit" "spends opPc" "spends opMsize"
  "spends opGas" "spends opPush0" "spends opSelfBalance" "spends opChainID" "spends opBaseFee"
  by (simp_all only: push_value_ops shapes)

lemmas single_ops = opBalance_def opCallDataLoad_def opExtCodeSize_def opExtCodeHash_def opBlockhash_def opMload_def
  opSload_def opKeccak256_def opCallDataCopy_def opReturnDataCopy_def opCodeCopy_def opExtCodeCopy_def opPop_def
  opMstore_def opMstore8_def opSstore_def opJumpdest_def opReturn_def opRevert_def opUndefined_def opStop_def
  opSelfdestruct_def makeLog_def makePush_def opPush1_def makeDup_def makeSwap_def set_db_def

lemma room_single [exec_laws]:
  "keeps_room opBalance" "keeps_room opCallDataLoad" "keeps_room opExtCodeSize" "keeps_room opExtCodeHash"
  "keeps_room opBlockhash" "keeps_room opMload" "keeps_room opSload" "keeps_room opKeccak256"
  "keeps_room opCallDataCopy" "keeps_room opReturnDataCopy" "keeps_room opCodeCopy" "keeps_room opExtCodeCopy"
  "keeps_room opPop" "keeps_room opMstore" "keeps_room opMstore8" "keeps_room opSstore" "keeps_room opJumpdest"
  "keeps_room opReturn" "keeps_room opRevert" "keeps_room opUndefined" "keeps_room opStop"
  "keeps_room opSelfdestruct" "keeps_room (makeLog m)" "keeps_room (makePush n k)" "keeps_room opPush1"
  "keeps_room (makeDup m)" "keeps_room (makeSwap m)"
  by (simp_all add: keeps_room_def single_ops Let_def yields_any mem_Set32_room split: prod.split)

lemma spends_single [exec_laws]:
  "spends opBalance" "spends opCallDataLoad" "spends opExtCodeSize" "spends opExtCodeHash" "spends opBlockhash"
  "spends opMload" "spends opSload" "spends opKeccak256" "spends opCallDataCopy" "spends opReturnDataCopy"
  "spends opCodeCopy" "spends opExtCodeCopy" "spends opPop" "spends opMstore" "spends opMstore8" "spends opSstore"
  "spends opJumpdest" "spends opReturn" "spends opRevert" "spends opUndefined" "spends opStop" "spends opSelfdestruct"
  "spends (makeLog m)" "spends (makePush n k)" "spends opPush1" "spends (makeDup m)"
  "spends (makeSwap m)"
  by (simp_all add: spends_def single_ops Let_def yields_any split: prod.split)

lemma jumps [exec_laws]: "keeps_room opJump" "keeps_room opJumpi" "spends opJump" "spends opJumpi"
  by (auto simp: keeps_room_def spends_def opJump_def opJumpi_def Let_def yields_stack
      intro!: yields_mono [OF check_dest_frame])

section \<open>Calls and creations\<close>

lemma room_call_return: "yields (\<lambda>(f', r, e). same_room (f_mem f) (f_mem f')) (call_return f st off n r)"
  by (simp add: call_return_def Let_def yields_any split: prod.split)

lemma room_calls [exec_laws]:
  "keeps_room opCreate" "keeps_room opCreate2" "keeps_room opCall" "keeps_room opCallCode"
  "keeps_room opDelegateCall" "keeps_room opStaticCall"
  by (simp_all add: keeps_room_def opCreate_def opCreate2_def opCall_def opCallCode_def opDelegateCall_def
      opStaticCall_def Let_def yields_any room_call_return split: prod.split)

text \<open>A creation hands a part of the gas over and gets at most that back.\<close>

lemma unat_add_le: "unat (x + y) \<le> unat (x :: u64) + unat y"
  by (simp add: unat_word_ariths)

lemma hand_over:
  fixes g h left :: u64
  assumes "h \<le> g" and "unat left \<le> unat h"
  shows "unat (g - h + left) \<le> unat g"
  using unat_add_le [of "g - h" left] assms by (simp add: unat_sub_u64 word_le_nat_alt)

lemma sub_div_le: "(g :: u64) - g div k \<le> g"
  by (simp add: word_le_nat_alt unat_sub_u64 unat_div)

lemma sub_div_not_less [simp]: "\<not> (g :: u64) < g - g div k"
  using sub_div_le [of g k] by simp

lemma gas_boundedD:
  assumes "gas_bounded C"
  shows "(\<And>vm' ret left err. unat left \<le> unat g \<Longrightarrow> P (vm', ret, left, err)) \<Longrightarrow> yields P (c_Call C vm cr a i g v)"
    "(\<And>vm' ret left err. unat left \<le> unat g \<Longrightarrow> P (vm', ret, left, err)) \<Longrightarrow> yields P (c_CallCode C vm cr a i g v)"
    "(\<And>vm' ret left err. unat left \<le> unat g \<Longrightarrow> P (vm', ret, left, err)) \<Longrightarrow> yields P (c_DelegateCall C vm cr a i g)"
    "(\<And>vm' ret left err. unat left \<le> unat g \<Longrightarrow> P (vm', ret, left, err)) \<Longrightarrow> yields P (c_StaticCall C vm cr a i g)"
    "(\<And>vm' ret addr left err. unat left \<le> unat g \<Longrightarrow> Q (vm', ret, addr, left, err)) \<Longrightarrow>
      yields Q (c_Create C vm cr i g v)"
    "(\<And>vm' ret addr left err. unat left \<le> unat g \<Longrightarrow> Q (vm', ret, addr, left, err)) \<Longrightarrow>
      yields Q (c_Create2 C vm cr i g v s)"
proof -
  note b = assms [unfolded gas_bounded_def]
  show "yields P (c_Call C vm cr a i g v)" "yields P (c_CallCode C vm cr a i g v)"
    "yields P (c_DelegateCall C vm cr a i g)" "yields P (c_StaticCall C vm cr a i g)"
    if "\<And>vm' ret left err. unat left \<le> unat g \<Longrightarrow> P (vm', ret, left, err)"
    by (rule yields_mono [where P = "\<lambda>(vm', ret, left, err). unat left \<le> unat g"]; use b that in force)+
  show "yields Q (c_Create C vm cr i g v)" "yields Q (c_Create2 C vm cr i g v s)"
    if "\<And>vm' ret addr left err. unat left \<le> unat g \<Longrightarrow> Q (vm', ret, addr, left, err)"
    by (rule yields_mono [where P = "\<lambda>(vm', ret, addr, left, err). unat left \<le> unat g"]; use b that in force)+
qed

lemmas yields_memory = yields_any [of _ "mem_GetCopy m off n" for m off n] yields_any [of _ "mem_GetPtr m off n" for m off n]
  yields_any [of _ "mem_Set m off n v" for m off n v]

lemma spends_creations [exec_laws]: "spends opCreate" "spends opCreate2"
proof -
  have rest: "unat (g div k + left) \<le> unat g" if "unat left \<le> unat (g - g div k)" for g k left :: u64
    using hand_over [OF sub_div_le that] by simp
  show "spends opCreate" "spends opCreate2"
    by (auto simp: spends_def opCreate_def opCreate2_def UseGas_def Let_def not_less sub_div_le
        yields_stack intro!: yields_memory gas_boundedD rest)
qed

text \<open>After a call the contract has at most its gas, the gas set aside for the callee and the stipend of a value transfer.\<close>

definition given_back :: "(stack \<Rightarrow> nat) \<Rightarrow> 's exec \<Rightarrow> bool" where
  "given_back stipend ex \<longleftrightarrow> (\<forall>C E f. gas_bounded C \<longrightarrow> uint256_spec (eU E) \<longrightarrow>
     yields (\<lambda>(f', r, e).
       unat (Gas (f_con f')) \<le> unat (Gas (f_con f)) + unat (callGasTemp (f_vm f)) + stipend (f_stack f)) (ex C E f))"

definition call_stipend :: "stack \<Rightarrow> nat" where
  "call_stipend st = (if transfer_need st = 0 then 0 else 2300)"

lemma call_return_gas:
  "yields (\<lambda>(f', r, e). unat (Gas (f_con f')) \<le> unat (Gas (f_con f)) + unat left)
     (call_return f st off n (vm, ret, left, err))"
  using unat_add_le [of "Gas (f_con f)" left] by (auto simp: call_return_def Let_def intro!: yields_any)

lemma given_back_calls [exec_laws]:
  "given_back call_stipend opCall" "given_back call_stipend opCallCode"
  "given_back (\<lambda>_. 0) opDelegateCall" "given_back (\<lambda>_. 0) opStaticCall"
proof -
  have temp: "unat left \<le> unat g + 2300" if "unat left \<le> unat (g + 2300)" for left g :: u64
    using that unat_add_le [of g 2300] by simp
  have third: "Back (r @ [x6, x5, x4, x3, v, x1, x0]) 2 = Some v" for r x0 x1 x3 x4 x5 x6 v
    by (simp add: Back_def nth_append)
  have ret: "yields (\<lambda>(f', r, e). unat (Gas (f_con f')) \<le> unat (Gas (f_con f)) + unat (callGasTemp (f_vm f)) + k)
      (call_return f st off n (vm, r, left, err))"
    if "unat left \<le> unat (callGasTemp (f_vm f)) + k" for f st off n vm r left err k
    by (rule yields_mono [OF call_return_gas]) (use that in auto)
  have ret0: "yields (\<lambda>(f', r, e). unat (Gas (f_con f')) \<le> unat (Gas (f_con f)) + unat (callGasTemp (f_vm f)))
      (call_return f st off n (vm, r, left, err))"
    if "unat left \<le> unat (callGasTemp (f_vm f))" for f st off n vm r left err
    by (rule yields_mono [OF call_return_gas]) (use that in auto)
  show "given_back (\<lambda>_. 0) opDelegateCall" "given_back (\<lambda>_. 0) opStaticCall"
    by (auto simp: given_back_def opDelegateCall_def opStaticCall_def Let_def yields_stack
        intro!: yields_memory gas_boundedD intro: ret0)
  show "given_back call_stipend opCall" "given_back call_stipend opCallCode"
    by (auto simp: given_back_def opCall_def opCallCode_def Let_def yields_stack call_stipend_def transfer_need_def third
        uint256_specD intro!: yields_memory gas_boundedD intro: ret ret0 temp)
qed

end
