(* ===== verification/Machine.thy ===== *)
theory Machine
  imports Interpreter GasEffects ExecLaws
begin

text \<open>
  Invariants of the run loop: a turn that goes on keeps the frame well formed (memory in whole words and paid for,
  at most 1024 values on the stack) and leaves less gas. Each operation of the table is shown to be \<open>op_ok\<close> from the
  laws of its gas function and its instruction; the loop then ends within its fuel, and every run of
  any depth gives back at most the gas it got.
\<close>

definition frame_ok :: "'s frame \<Rightarrow> bool" where
  "frame_ok f \<longleftrightarrow> mem_ok (f_mem f) \<and> length (f_stack f) \<le> 1024"

definition libs :: "'s env \<Rightarrow> bool" where
  "libs E \<longleftrightarrow> uint256_spec (eU E) \<and> geth_spec (eG E)"

text \<open>A turn that goes on leaves a good frame with less gas, one that halts at most the gas there was.\<close>

definition outcome_ok :: "'s frame \<Rightarrow> 's outcome \<Rightarrow> bool" where
  "outcome_ok f t \<longleftrightarrow> (case t of
       Continue f' \<Rightarrow> frame_ok f' \<and> unat (Gas (f_con f')) < unat (Gas (f_con f))
     | Halt f' r e \<Rightarrow> unat (Gas (f_con f')) \<le> unat (Gas (f_con f)))"

lemma outcome_ok_simps [simp]:
  "outcome_ok f (Continue f') \<longleftrightarrow> frame_ok f' \<and> unat (Gas (f_con f')) < unat (Gas (f_con f))"
  "outcome_ok f (Halt f' r e) \<longleftrightarrow> unat (Gas (f_con f')) \<le> unat (Gas (f_con f))"
  by (simp_all add: outcome_ok_def)

definition op_ok :: "'s operation \<Rightarrow> bool" where
  "op_ok op \<longleftrightarrow> (\<forall>C E f. libs E \<longrightarrow> gas_bounded C \<longrightarrow> frame_ok f \<longrightarrow> yields (outcome_ok f) (run_op C E op f))"

section \<open>The dynamic gas\<close>

text \<open>\<open>priced R d\<close>: when the gas function answers an affordable price, contract and stack are as before and the
  frames and the price satisfy \<open>R\<close>.\<close>

definition priced :: "('s frame \<Rightarrow> 's frame \<Rightarrow> u64 \<Rightarrow> bool) \<Rightarrow> 's gas_func \<Rightarrow> bool" where
  "priced R d \<longleftrightarrow> (\<forall>E f n f' g. libs E \<longrightarrow> mem_ok (f_mem f) \<longrightarrow> d E f n = Some (f', Inr g) \<longrightarrow>
     f_con f' = f_con f \<and> (unat g \<le> unat (Gas (f_con f)) \<longrightarrow> f_stack f' = f_stack f \<and> R f f' g))"

lemma priced_mono: "priced R d \<Longrightarrow> (\<And>f f' g. R f f' g \<Longrightarrow> S f f' g) \<Longrightarrow> priced S d"
  unfolding priced_def by blast

lemma calmD: "calm d \<Longrightarrow> d E f n = Some (f', r) \<Longrightarrow> f_con f' = f_con f \<and> f_stack f' = f_stack f \<and> f_pc f' = f_pc f"
  unfolding calm_def by (drule spec)+ (drule yieldsD, assumption, simp)

lemma priced_calm: "calm d \<Longrightarrow> priced (\<lambda>f f' g. True) d"
  by (auto simp: priced_def dest: calmD)

lemma priced_costs: "calm d \<Longrightarrow> costs d \<Longrightarrow> priced (\<lambda>f f' g. 0 < unat g) d"
  by (fastforce simp: priced_def costs_def libs_def yields_def dest: calmD)

lemma priced_calls:
  "priced (call_price transfer_need) gasCallEIP2929" "priced (call_price transfer_need) gasCallCodeEIP2929"
  "priced (call_price (\<lambda>_. 0)) gasDelegateCallEIP2929" "priced (call_price (\<lambda>_. 0)) gasStaticCallEIP2929"
  unfolding priced_def libs_def gasCallEIP2929_def gasCallCodeEIP2929_def gasDelegateCallEIP2929_def
    gasStaticCallEIP2929_def
  using call.variant_affordable callcode.variant_affordable delegatecall.variant_affordable
    staticcall.variant_affordable call.variant_keeps_contract callcode.variant_keeps_contract
    delegatecall.variant_keeps_contract staticcall.variant_keeps_contract
  by (metis call_price_def)+

definition sized :: "'s operation \<Rightarrow> 's gas_func \<Rightarrow> bool" where
  "sized op d \<longleftrightarrow> (if memorySize op = None then mem_kept d else mem_paid d)"

lemma word_multiple:
  assumes "unat (toWordSize k) * 32 < 2 ^ 64"
  shows "toWordSize (toWordSize k * 32) * 32 = toWordSize k * 32"
proof -
  have m: "unat (toWordSize k * 32) = unat (toWordSize k) * 32"
    using assms by (subst unat_mult_u64_no_wrap) simp_all
  then have "unat (toWordSize (toWordSize k * 32)) = unat (toWordSize k)"
    by (simp add: unat_toWordSize)
  then have "toWordSize (toWordSize k * 32) = toWordSize k" by (rule word_unat_eq_iff [THEN iffD2])
  then show ?thesis by simp
qed

lemma toWordSize_0: "toWordSize 0 = 0"
  by (simp add: toWordSize_def)

lemma memory_size_of_multiple:
  assumes "geth_spec (eG E)" and "memory_size_of E op st = Some (Inr n)"
  shows "toWordSize n * 32 = n \<and> (memorySize op = None \<longrightarrow> n = 0)"
  using assms(2) word_multiple toWordSize_0
  by (auto simp: memory_size_of_def bind_Some_iff geth_specD [OF assms(1)] not_le split: option.splits if_splits)

lemma resize_ok:
  assumes "mem_ok m" and "snd (memoryGasCost m n) = Inr fee" and "toWordSize n * 32 = n"
  shows "mem_ok (if n > 0 then mem_Resize (fst (memoryGasCost m n)) n else fst (memoryGasCost m n))"
proof (cases "n > 0")
  case True
  have m: "memoryGasCost m n = (fst (memoryGasCost m n), Inr fee)" using assms(2) by (metis prod.collapse)
  from memoryGasCost_exact [OF assms(1) memoryGasCost_limit [OF m]] m
  have "mem_ok (mem_Resize (fst (memoryGasCost m n)) (toWordSize n * 32))" by (metis prod.inject)
  with True assms(3) show ?thesis by simp
next
  case False
  then show ?thesis using assms(1) by (simp add: memoryGasCost_def word_gt_0)
qed

lemma dynamic_gas_stage:
  assumes "libs E" and "mem_ok (f_mem f)" and "dynamicGas op = Some d" and "priced R d" and "sized op d"
    and "dynamic_gas E op f = Some (f1, None)"
  obtains f' g where "R f f' g" "f_vm f1 = f_vm f'" "f_stack f1 = f_stack f" "mem_ok (f_mem f1)"
    "unat (Gas (f_con f1)) + unat g = unat (Gas (f_con f))"
proof -
  have G: "geth_spec (eG E)" using assms(1) by (simp add: libs_def)
  from assms(3,6) obtain r where r: "memory_size_of E op (f_stack f) = Some r"
    and rest: "(case r of Inl e \<Rightarrow> Some (f, Some e) | Inr n \<Rightarrow> d E f n \<bind> (\<lambda>(f, r). case r of
      Inl e \<Rightarrow> Some (f, Some ErrOutOfGas)
    | Inr g \<Rightarrow> (case UseGas (f_con f) g of (ok, c) \<Rightarrow> if \<not> ok then Some (f, Some ErrOutOfGas)
        else let f = f\<lparr>f_con := c\<rparr> in Some (if n > 0 then f\<lparr>f_mem := mem_Resize (f_mem f) n\<rparr> else f, None))))
      = Some (f1, None)"
    by (auto simp: dynamic_gas_def bind_Some_iff)
  then obtain n where n: "memory_size_of E op (f_stack f) = Some (Inr n)" "r = Inr n" by (cases r) auto
  with rest obtain f' q where q: "d E f n = Some (f', q)" "(case q of
      Inl e \<Rightarrow> Some (f', Some ErrOutOfGas)
    | Inr g \<Rightarrow> (case UseGas (f_con f') g of (ok, c) \<Rightarrow> if \<not> ok then Some (f', Some ErrOutOfGas)
        else let f = f'\<lparr>f_con := c\<rparr> in Some (if n > 0 then f\<lparr>f_mem := mem_Resize (f_mem f) n\<rparr> else f, None)))
      = Some (f1, None)"
    by (auto simp: bind_Some_iff)
  then obtain g where g: "q = Inr g" by (cases q) auto
  with q(1) have d: "d E f n = Some (f', Inr g)" by simp
  from q(2) g have paid: "unat g \<le> unat (Gas (f_con f'))"
    and f1: "f1 = (let h = f'\<lparr>f_con := (f_con f')\<lparr>Gas := Gas (f_con f') - g\<rparr>\<rparr>
        in if n > 0 then h\<lparr>f_mem := mem_Resize (f_mem h) n\<rparr> else h)"
    by (auto simp: UseGas_exact Let_def split: if_splits)
  from assms(1,2,4) d paid have p: "f_con f' = f_con f" "f_stack f' = f_stack f" "R f f' g"
    by (auto simp: priced_def)
  from memory_size_of_multiple [OF G n(1)] have mult: "toWordSize n * 32 = n" "memorySize op = None \<longrightarrow> n = 0" by auto
  have "mem_ok (if n > 0 then mem_Resize (f_mem f') n else f_mem f')"
  proof (cases "memorySize op")
    case None
    then have "yields (\<lambda>(f', r). f_mem f' = f_mem f) (d E f n)" using assms(5) by (simp add: sized_def mem_kept_def)
    from yieldsD [OF this d] None mult(2) assms(2) show ?thesis by simp
  next
    case (Some ms)
    then have "mem_paid d" using assms(5) by (simp add: sized_def)
    from yieldsD [OF this [unfolded mem_paid_def, rule_format] d]
    obtain fee where f': "f_mem f' = fst (memoryGasCost (f_mem f) n)" "snd (memoryGasCost (f_mem f) n) = Inr fee" by auto
    show ?thesis unfolding f'(1) by (rule resize_ok [OF assms(2) f'(2) mult(1)])
  qed
  then have "mem_ok (f_mem f1)" by (auto simp: f1 Let_def split: if_splits)
  moreover have "unat (Gas (f_con f1)) + unat g = unat (Gas (f_con f))"
    using paid p(1) by (simp add: f1 Let_def unat_sub_u64 word_le_nat_alt)
  moreover have "f_vm f1 = f_vm f'" "f_stack f1 = f_stack f" using p by (simp_all add: f1 Let_def)
  ultimately show thesis using p(3) that by blast
qed


text \<open>Whatever the dynamic gas does, also when it fails, the contract has no more gas.\<close>

lemma dynamic_gas_no_gain:
  assumes "\<And>d. dynamicGas op = Some d \<Longrightarrow> no_gain d"
  shows "yields (\<lambda>(f', e). unat (Gas (f_con f')) \<le> unat (Gas (f_con f))) (dynamic_gas E op f)"
proof (cases "dynamicGas op")
  case (Some d)
  have "yields (\<lambda>(f', r). unat (Gas (f_con f')) \<le> unat (Gas (f_con f))) (d E f n)" for n
    using assms [OF Some] by (simp add: no_gain_def)
  then have step: "yields (\<lambda>x. yields (\<lambda>(f', e). unat (Gas (f_con f')) \<le> unat (Gas (f_con f))) (k x)) (d E f n)"
    if "\<And>f' r. unat (Gas (f_con f')) \<le> unat (Gas (f_con f)) \<Longrightarrow>
      yields (\<lambda>(f', e). unat (Gas (f_con f')) \<le> unat (Gas (f_con f))) (k (f', r))" for n and k :: "_ \<Rightarrow> ('a frame \<times> 'b) option"
    by (rule yields_mono) (use that in auto)
  show ?thesis
    by (auto simp: dynamic_gas_def Some UseGas_def Let_def unat_sub_u64 not_less word_le_nat_alt split: sum.split
        intro!: yields_any [of _ "memory_size_of E op st" for st] step)
qed (simp add: dynamic_gas_def)

section \<open>One operation\<close>

text \<open>The three ways a turn ends: before the dynamic gas, in it, and in the instruction.\<close>

lemma run_op_cases:
  assumes "run_op C E op f = Some t"
  obtains (early) r e where "t = Halt f r e"
  | (paid) f1 where "op_minStack op \<le> int (length (f_stack f))" "int (length (f_stack f)) \<le> op_maxStack op"
      "unat (constantGas op) \<le> unat (Gas (f_con f))"
      "f1 = f\<lparr>f_con := (f_con f)\<lparr>Gas := Gas (f_con f) - constantGas op\<rparr>\<rparr>"
      "(\<exists>f2 e. dynamic_gas E op f1 = Some (f2, Some e) \<and> t = Halt f2 [] (Some e)) \<or>
       (\<exists>f2 f3 r e. dynamic_gas E op f1 = Some (f2, None) \<and> execute op C E f2 = Some (f3, r, e) \<and>
          t = (if e \<noteq> None then Halt f3 r e else Continue (f3\<lparr>f_pc := f_pc f3 + 1\<rparr>)))"
proof (cases "op_minStack op \<le> int (length (f_stack f)) \<and> int (length (f_stack f)) \<le> op_maxStack op \<and>
      unat (constantGas op) \<le> unat (Gas (f_con f))")
  case True
  let ?f = "f\<lparr>f_con := (f_con f)\<lparr>Gas := Gas (f_con f) - constantGas op\<rparr>\<rparr>"
  from True assms obtain f2 e where "dynamic_gas E op ?f = Some (f2, e)"
    and "(case e of Some e \<Rightarrow> Some (Halt f2 [] (Some e))
      | None \<Rightarrow> execute op C E f2 \<bind> (\<lambda>(f, res, err). Some (if err \<noteq> None then Halt f res err else Continue (f\<lparr>f_pc := f_pc f + 1\<rparr>))))
      = Some t"
    by (auto simp: run_op_def UseGas_exact Let_def bind_Some_iff not_less simp del: not_None_eq split: if_splits)
  with True show thesis by (intro paid [OF _ _ _ refl]) (auto simp: bind_Some_iff split: option.splits if_splits)
next
  case False
  with assms have "\<exists>r e. t = Halt f r e" by (auto simp: run_op_def UseGas_exact Let_def split: if_splits)
  then show thesis using early by blast
qed

lemma op_okI:
  fixes op :: "'s operation"
  assumes "bounds_fit op" and "keeps_room (execute op)" and gain: "\<And>d. dynamicGas op = Some d \<Longrightarrow> no_gain d"
    and execute: "\<And>C E f. gas_bounded C \<Longrightarrow> uint256_spec (eU E) \<Longrightarrow> yields (\<lambda>(f', r, e).
      unat (Gas (f_con f')) \<le> unat (Gas (f_con f)) + slack (f_vm f) (f_stack f)) (execute op C E f)"
    and static: "dynamicGas op = None \<Longrightarrow> \<forall>vm st. slack vm st < unat (constantGas op)"
    and dynamic: "\<And>d. dynamicGas op = Some d \<Longrightarrow>
      priced (\<lambda>f f' g. slack (f_vm f') (f_stack f) < unat (constantGas op) + unat g) d \<and> sized op d"
  shows "op_ok op"
  unfolding op_ok_def
proof (intro allI impI)
  fix C :: "'s calls" and E :: "'s env" and f :: "'s frame"
  assume E: "libs E" and C: "gas_bounded C" and ok: "frame_ok f"
  have U: "uint256_spec (eU E)" using E by (simp add: libs_def)
  have "outcome_ok f t" if "run_op C E op f = Some t" for t :: "'s outcome"
    using that
  proof (cases rule: run_op_cases)
    case early
    then show ?thesis by simp
  next
    case (paid f0)
    have mem: "mem_ok (f_mem f0)" and st0: "f_stack f0 = f_stack f"
      and g0: "unat (Gas (f_con f0)) + unat (constantGas op) = unat (Gas (f_con f))"
      using ok paid(3) by (simp_all add: paid(4) frame_ok_def unat_sub_u64 word_le_nat_alt)
    from paid(5) show ?thesis
    proof (elim disjE exE conjE)
      fix f2 e assume "dynamic_gas E op f0 = Some (f2, Some e)" and t: "t = Halt f2 [] (Some e)"
      with yieldsD [OF dynamic_gas_no_gain [OF gain], of op E f0] g0 show ?thesis by auto
    next
      fix f1 f2 r e
      assume dyn: "dynamic_gas E op f0 = Some (f1, None)" and ex: "execute op C E f1 = Some (f2, r, e)"
        and t: "t = (if e \<noteq> None then Halt f2 r e else Continue (f2\<lparr>f_pc := f_pc f2 + 1\<rparr>))"
      have f1: "f_stack f1 = f_stack f \<and> mem_ok (f_mem f1) \<and>
          unat (Gas (f_con f1)) + slack (f_vm f1) (f_stack f1) < unat (Gas (f_con f))"
      proof (cases "dynamicGas op")
        case None
        with dyn have "f1 = f0" by (simp add: dynamic_gas_def)
        with static [OF None, rule_format, of "f_vm f0" "f_stack f0"] g0 mem st0 show ?thesis by simp
      next
        case (Some d)
        note d = dynamic [OF Some]
        obtain h :: "'s frame" and g :: u64 where
          "slack (f_vm h) (f_stack f0) < unat (constantGas op) + unat g" "f_vm f1 = f_vm h" "f_stack f1 = f_stack f0"
          "mem_ok (f_mem f1)" "unat (Gas (f_con f1)) + unat g = unat (Gas (f_con f0))"
          by (rule dynamic_gas_stage [OF E mem Some conjunct1 [OF d] conjunct2 [OF d] dyn]) blast
        with g0 st0 show ?thesis by simp
      qed
      from yieldsD [OF execute [OF C U] ex] f1 have gas: "unat (Gas (f_con f2)) < unat (Gas (f_con f))" by auto
      have "same_room (f_mem f1) (f_mem f2)"
        using assms(2) U yieldsD [OF _ ex, of "\<lambda>(f', r, e). same_room (f_mem f1) (f_mem f')"] by (simp add: keeps_room_def)
      then have "mem_ok (f_mem f2)" using f1 by (simp add: mem_ok_def mem_words_def same_room_def)
      moreover have "length (f_stack f2) \<le> 1024" if "e = None"
      proof -
        from assms(1) obtain p q where m: "moves p q (execute op)"
          and b: "op_minStack op = int p" "op_maxStack op = 1024 + int p - int q" by (auto simp: bounds_fit_def)
        have "p \<le> length (f_stack f1) \<and> length (f_stack f2) + p = length (f_stack f1) + q"
          using yieldsD [OF m [unfolded moves_def, rule_format] ex] that by simp
        with paid(1,2) b f1 show ?thesis by simp
      qed
      ultimately show ?thesis using gas by (simp add: t frame_ok_def)
    qed
  qed
  then show "yields (outcome_ok f) (run_op C E op f)" by (simp add: yields_def)
qed

text \<open>The classes of operations: with a constant price only, with a constant and a dynamic one, with a dynamic
  price that always charges, calls, and operations that never go on.\<close>

lemma op_ok_constant:
  assumes "dynamicGas op = None" and "bounds_fit op" and "keeps_room (execute op)" and "spends (execute op)"
    and "0 < unat (constantGas op)"
  shows "op_ok op"
  by (rule op_okI [where slack = "\<lambda>_ _. 0"]) (use assms in \<open>auto simp: spends_def\<close>)

lemma op_ok_both:
  assumes "dynamicGas op = Some d" and "bounds_fit op" and "keeps_room (execute op)" and "spends (execute op)"
    and "calm d" and "sized op d" and "0 < unat (constantGas op)"
  shows "op_ok op"
  by (rule op_okI [where slack = "\<lambda>_ _. 0"])
    (use assms in \<open>auto simp: spends_def no_gain_calm intro: priced_mono [OF priced_calm]\<close>)

lemma op_ok_dynamic:
  assumes "dynamicGas op = Some d" and "bounds_fit op" and "keeps_room (execute op)" and "spends (execute op)"
    and "calm d" and "sized op d" and "costs d"
  shows "op_ok op"
  by (rule op_okI [where slack = "\<lambda>_ _. 0"])
    (use assms in \<open>auto simp: spends_def no_gain_calm intro: priced_mono [OF priced_costs]\<close>)

lemma op_ok_call:
  assumes "dynamicGas op = Some d" and "bounds_fit op" and "keeps_room (execute op)"
    and "given_back stipend (execute op)" and "priced (call_price need) d" and "sized op d" and "no_gain d"
    and "\<forall>st. stipend st < unat (constantGas op) + need st"
  shows "op_ok op"
proof (rule op_okI [where slack = "\<lambda>vm st. unat (callGasTemp vm) + stipend st"])
  have "unat (callGasTemp (f_vm f')) + stipend (f_stack f) < unat (constantGas op) + unat g"
    if "call_price need f f' g" for f f' :: "'a frame" and g
    using that assms(8) [rule_format, of "f_stack f"] by (auto simp: call_price_def)
  then show "priced (\<lambda>f f' g. unat (callGasTemp (f_vm f')) + stipend (f_stack f) < unat (constantGas op) + unat g) d' \<and>
      sized op d'" if "dynamicGas op = Some d'" for d'
    using that assms(1,5,6) by (auto intro: priced_mono)
qed (use assms in \<open>auto simp: given_back_def add.assoc\<close>)

text \<open>An operation that never goes on needs no price.\<close>

definition halts :: "'s exec \<Rightarrow> bool" where
  "halts ex \<longleftrightarrow> (\<forall>C E f. yields (\<lambda>(f', r, e). e \<noteq> None) (ex C E f))"

lemma op_ok_halts:
  assumes "halts (execute op)" and "spends (execute op)" and "\<And>d. dynamicGas op = Some d \<Longrightarrow> no_gain d"
  shows "op_ok op"
proof -
  have "outcome_ok f t" if run: "run_op C E op f = Some t" and C: "gas_bounded C" for C E f and t :: "'a outcome"
    using run
  proof (cases rule: run_op_cases)
    case (paid f0)
    note g = yieldsD [OF dynamic_gas_no_gain [OF assms(3)], of op E f0]
    have "unat (Gas (f_con f0)) \<le> unat (Gas (f_con f))" using paid(3,4) by (simp add: unat_sub_u64 word_le_nat_alt)
    with paid(5) g show ?thesis
      using yieldsD [OF assms(1) [unfolded halts_def, rule_format]] yieldsD [OF assms(2) [unfolded spends_def, rule_format, OF C]]
      by fastforce
  qed simp
  then show ?thesis by (simp add: op_ok_def yields_def)
qed

section \<open>The table\<close>

lemma halting [exec_laws]:
  "halts opStop" "halts opReturn" "halts opRevert" "halts opUndefined" "halts opSelfdestruct"
  by (simp_all add: halts_def opStop_def opReturn_def opRevert_def opUndefined_def opSelfdestruct_def Let_def yields_any
      split: prod.split)

lemma stipends: "call_stipend st < unat WarmStorageReadCostEIP2929 + transfer_need st"
  by (simp add: call_stipend_def transfer_need_def split: option.split)

text \<open>The classes as one predicate that simplification decides for an entry of the table.\<close>

definition classed :: "'s operation \<Rightarrow> bool" where
  "classed op \<longleftrightarrow> halts (execute op) \<and> spends (execute op) \<and> (case dynamicGas op of None \<Rightarrow> True | Some d \<Rightarrow> no_gain d) \<or>
     keeps_room (execute op) \<and> (case dynamicGas op of
       None \<Rightarrow> spends (execute op) \<and> 0 < unat (constantGas op)
     | Some d \<Rightarrow> sized op d \<and>
         (spends (execute op) \<and> calm d \<and> (0 < unat (constantGas op) \<or> costs d) \<or>
          no_gain d \<and> constantGas op = WarmStorageReadCostEIP2929 \<and>
           (given_back call_stipend (execute op) \<and> priced (call_price transfer_need) d \<or>
            given_back (\<lambda>_. 0) (execute op) \<and> priced (call_price (\<lambda>_. 0)) d)))"

lemma classed_ok: "classed op \<Longrightarrow> bounds_fit op \<Longrightarrow> op_ok op"
proof (cases "halts (execute op) \<and> spends (execute op) \<and> (case dynamicGas op of None \<Rightarrow> True | Some d \<Rightarrow> no_gain d)")
  case True
  then show ?thesis by (auto intro: op_ok_halts)
next
  case False
  assume "classed op" and "bounds_fit op"
  with False show ?thesis
    using op_ok_constant op_ok_both op_ok_dynamic stipends
      op_ok_call [where stipend = call_stipend and need = transfer_need and op = op]
      op_ok_call [where stipend = "\<lambda>_. 0" and need = "\<lambda>_. 0" and op = op]
    unfolding classed_def by (auto split: option.splits)
qed

lemma classed_undefined: "classed undefined_op"
  by (simp add: classed_def undefined_op_def exec_laws)

lemmas classed_simps = classed_def exec_laws gas_laws no_gain_calm priced_calls sized_def

lemma classed_1: "list_all classed (map snd frontier_1)"
  by (simp add: frontier_1_def classed_simps)

lemma classed_2: "list_all classed (map snd frontier_2)"
  by (simp add: frontier_2_def classed_simps)

lemma classed_3: "list_all classed (map snd frontier_3)"
  by (simp add: frontier_3_def classed_simps)

lemma classed_4: "list_all classed (map snd frontier_4)"
  by (simp add: frontier_4_def classed_simps)

lemma classed_5: "list_all classed (map snd frontier_5)"
  by (simp add: frontier_5_def classed_simps)

lemma classed_6: "list_all classed (map snd frontier_6)"
  by (simp add: frontier_6_def classed_simps)

lemma classed_7: "list_all classed (map snd frontier_7)"
  by (simp add: frontier_7_def classed_simps)

lemma classed_frontier: "list_all classed (map snd frontier)"
  unfolding list_all_frontier
  using classed_1 classed_2 classed_3 classed_4 classed_5 classed_6 classed_7 by blast

lemma table_ok:
  assumes "newFrontierInstructionSet = Some jt"
  shows "op_ok (jt ! unat (b :: u8))"
  using frontier_all [OF assms bounds_fit_frontier bounds_fit_undefined]
    frontier_all [OF assms classed_frontier classed_undefined] by (blast intro: classed_ok)


section \<open>The loop\<close>

lemma turn_ok:
  assumes "newFrontierInstructionSet = Some jt" and "libs E" and "gas_bounded C" and "frame_ok f"
  shows "yields (outcome_ok f) (turn jt C E f)"
  using table_ok [OF assms(1)] assms(2-4) unfolding op_ok_def
  by (auto simp: turn_def go_index_def intro!: yields_any [of _ "go_index xs i" for xs i])

lemma step_ok:
  assumes "newFrontierInstructionSet = Some jt" and "libs E" and "gas_bounded C" and "frame_ok f"
    and "step jt C E f g"
  shows "frame_ok g \<and> unat (Gas (f_con g)) < unat (Gas (f_con f))"
  using yieldsD [OF turn_ok [OF assms(1-4)]] assms(5) by (simp add: step_iff)


text \<open>C10. Along a run of the loop with the instruction table the frame stays well formed: at most 1024 values on
  the stack, the memory in whole words and its fee paid; and the gas never grows.\<close>

theorem loop_invariant:
  assumes "newFrontierInstructionSet = Some jt" and "libs E" and "gas_bounded C" and "frame_ok f"
    and "reaches jt C E f g"
  shows "frame_ok g \<and> unat (Gas (f_con g)) \<le> unat (Gas (f_con f))"
  by (rule reaches_invariant [OF assms(5)]) (use assms(4) step_ok [OF assms(1-3)] in \<open>force+\<close>)

text \<open>What the loop answers at a frame whose next turn does not go on.\<close>

definition last_turn :: "'s jump_table \<Rightarrow> 's calls \<Rightarrow> 's env \<Rightarrow> 's frame \<Rightarrow> ('s frame \<times> bytes \<times> vm_error option) option" where
  "last_turn jt C E g = (case turn jt C E g of
       Some (Halt g' res err) \<Rightarrow> Some (g', res, if err = Some ErrStopToken then None else err) | _ \<Rightarrow> None)"

text \<open>C7. The loop ends: with fuel above the gas of the contract its answer is the one of a reachable frame whose turn
  halts or panics, so the fuel never shows.\<close>

theorem loop_terminates:
  assumes "newFrontierInstructionSet = Some jt" and "libs E" and "gas_bounded C" and "frame_ok f"
    and "unat (Gas (f_con f)) < n"
  shows "\<exists>g. reaches jt C E f g \<and> finished jt C E g \<and> loop n jt C E f = last_turn jt C E g"
  using assms(4,5)
proof (induction n arbitrary: f)
  case (Suc n)
  show ?case
  proof (cases "\<exists>f'. turn jt C E f = Some (Continue f')")
    case True
    then obtain f' where f': "turn jt C E f = Some (Continue f')" ..
    with yieldsD [OF turn_ok [OF assms(1-3) Suc.prems(1)]] Suc.prems(2) Suc.IH [of f']
    obtain g where "reaches jt C E f' g" "finished jt C E g" "loop n jt C E f' = last_turn jt C E g" by fastforce
    with f' show ?thesis by (intro exI [of _ g]) (auto intro: reaches_step step_turn)
  next
    case False
    then have "finished jt C E f" by (simp add: finished_def step_iff)
    with False show ?thesis
      by (intro exI [of _ f])
        (auto simp: last_turn_def intro: reaches_refl split: option.split outcome.split bind_splits)
  qed
qed simp

lemma loop_gas:
  assumes "newFrontierInstructionSet = Some jt" and "libs E" and "gas_bounded C" and "frame_ok f"
  shows "yields (\<lambda>(f', r, e). unat (Gas (f_con f')) \<le> unat (Gas (f_con f))) (loop n jt C E f)"
  using assms(4)
proof (induction n arbitrary: f)
  case (Suc n)
  have next_turn: "yields (\<lambda>(f', r, e). unat (Gas (f_con f')) \<le> unat (Gas (f_con f))) (loop n jt C E f')"
    if "outcome_ok f (Continue f')" for f'
    by (rule yields_mono [OF Suc.IH]) (use that in auto)
  show ?case
    unfolding loop.simps yields_bind
    by (rule yields_mono [OF turn_ok [OF assms(1-3) Suc.prems]])
      (auto intro: next_turn split: outcome.split)
qed simp

section \<open>Runs\<close>

text \<open>\<open>leaves n m\<close>: the call \<open>m\<close> gives back at most \<open>n\<close> gas.\<close>

abbreviation leaves :: "nat \<Rightarrow> 's call_result \<Rightarrow> bool" where
  "leaves n \<equiv> yields (\<lambda>(vm', ret, left, err). unat left \<le> n)"

definition run_bounded :: "'s run_fn \<Rightarrow> bool" where
  "run_bounded run \<longleftrightarrow> (\<forall>vm c input ro. yields (\<lambda>(vm', c', ret, err). unat (Gas c') \<le> unat (Gas c)) (run vm c input ro))"

lemma leaves_end_call: "leaves n m \<Longrightarrow> yields (\<lambda>r. leaves n (end_call E i r)) m"
  by (erule yields_mono) (auto simp: end_call_def)

lemma leaves_end_call_now: "unat gas \<le> n \<Longrightarrow> leaves n (end_call E i (vm, ret, gas, err))"
  by (simp add: end_call_def)

lemma leaves_precompile: "unat gas \<le> n \<Longrightarrow> leaves n (run_precompile vm p input gas)"
  using precompile_gas_left by (fastforce simp: run_precompile_def yields_def bind_Some_iff word_le_nat_alt)

lemma leaves_contract:
  assumes "run_bounded run" and "unat (Gas c) \<le> n"
  shows "leaves n (run_contract run vm c input ro)"
  unfolding run_contract_def yields_bind
  by (rule yields_mono [OF assms(1) [unfolded run_bounded_def, rule_format]]) (use assms(2) in auto)

lemma new_contract_gas: "new_contract vm cr a v gas = (c, vm') \<Longrightarrow> Gas c = gas"
  by (auto simp: new_contract_def NewContract_def Let_def split: contract_ref.splits)

lemma AsDelegate_gas: "yields (\<lambda>c'. Gas c' = Gas c) (AsDelegate c)"
  by (auto simp: AsDelegate_def split: contract_ref.split)

lemmas yields_state = yields_any [of _ "can_transfer E vm a v" for E vm a v]
  yields_any [of _ "read_put E vm a k v" for E vm a k v] yields_any [of _ "write_put E vm a k v w" for E vm a k v w]
  yields_any [of _ "balance_of E vm a" for E vm a] yields_any [of _ "load_code E vm a" for E vm a]
  yields_any [of _ "nonce_of E vm a" for E vm a]

lemmas call_tail = leaves_end_call leaves_end_call_now leaves_precompile leaves_contract yields_mono [OF AsDelegate_gas]

lemma run_calls_bounded:
  assumes "run_bounded run"
  shows "leaves (unat gas) (Call run E vm cr a input gas v)" "leaves (unat gas) (CallCode run E vm cr a input gas v)"
    "leaves (unat gas) (DelegateCall run E vm cr a input gas)" "leaves (unat gas) (StaticCall run E vm cr a input gas)"
  by (auto simp: Call_def CallCode_def DelegateCall_def StaticCall_def Let_def SetCallCode_def assms
      intro!: yields_state call_tail split: prod.split option.split dest!: new_contract_gas)

lemma creation_bounded:
  assumes "run_bounded run"
  shows "yields (\<lambda>(vm', ret, addr, left, err). unat left \<le> unat gas) (create run E vm cr code h gas v a)"
proof -
  have store: "yields (\<lambda>(vm', c', e). unat (Gas c') \<le> unat gas) (store_code E a vm c ret err)"
    if "unat (Gas c) \<le> unat gas" for vm :: "'a vm" and c ret err
    using that by (auto simp: store_code_def UseGas_exact Let_def unat_sub_u64 word_le_nat_alt intro!: yields_state)
  show ?thesis
    by (auto simp: create_def Let_def SetCodeOptionalHash_def UseGas_def
        intro!: yields_state yields_mono [OF assms [unfolded run_bounded_def, rule_format]] yields_mono [OF store]
        split: prod.split option.split dest!: new_contract_gas)
qed

lemma calls_bounded: "run_bounded run \<Longrightarrow> gas_bounded (calls_of run E)"
  using run_calls_bounded [of run] creation_bounded [of run]
  by (auto simp: gas_bounded_def calls_of_def Create_def Create2_def Let_def intro!: yields_state)

lemma run_body_bounded:
  assumes "newFrontierInstructionSet = Some jt" and "libs E" and "gas_bounded C"
  shows "run_bounded (Run_body jt C E)"
proof -
  have "frame_ok \<lparr>f_vm = vm, f_pc = 0, f_mem = NewMemory, f_stack = newstack, f_con = c\<rparr>" for vm :: "'a vm" and c
    by (simp add: frame_ok_def mem_ok_New newstack_def)
  note enough = loop_gas [OF assms this]
  show ?thesis
    by (auto simp: run_bounded_def Run_body_def Let_def simp del: loop.simps intro!: yields_mono [OF enough])
qed

text \<open>C1. A run gives back at most the gas of its contract, however deep the calls in it nest, and so does every call
  and creation.\<close>

theorem run_never_gains_gas:
  assumes "newFrontierInstructionSet = Some jt" and "libs E"
  shows "run_bounded (Run d jt E) \<and> gas_bounded (calls_of (Run d jt E) E)"
proof (induction d)
  case 0
  have "run_bounded (Run 0 jt E)" by (simp add: run_bounded_def)
  then show ?case using calls_bounded by blast
next
  case (Suc d)
  have "Run (Suc d) jt E = Run_body jt (calls_of (Run d jt E) E) E" by (intro ext) simp
  with run_body_bounded [OF assms conjunct2 [OF Suc.IH]] show ?case using calls_bounded by metis
qed


section \<open>Concrete runs\<close>

lemma libs_std: "libs std_env"
  by (simp add: libs_def uint256_std_spec geth_std_spec)

lemma std_calls_bounded: "gas_bounded (calls_of (Run 0 (fill_table frontier) std_env) std_env)"
  by (rule calls_bounded) (simp add: run_bounded_def)

lemma frame_ok_std: "length st \<le> 1024 \<Longrightarrow> frame_ok (std_frame c st code gas)"
  by (simp add: frame_ok_def std_frame_def mem_ok_New)

lemma frontier_STOP: "fill_table frontier ! 0 = \<lparr>execute = opStop, constantGas = 0,
    dynamicGas = None, op_minStack = minStack 0 0, op_maxStack = maxStack 0 0, memorySize = None\<rparr>"
  using fill_table_slot [of frontier OP_STOP] by (simp add: frontier_def frontier_1_def)

lemma frontier_Suc_0: "fill_table frontier ! Suc 0 = \<lparr>execute = opAdd, constantGas = GasFastestStep,
    dynamicGas = None, op_minStack = minStack 2 1, op_maxStack = maxStack 2 1, memorySize = None\<rparr>"
  using fill_table_slot [of frontier OP_ADD] by (simp add: frontier_def frontier_1_def)

text \<open>The program \<open>ADD STOP\<close> on the stack 5, 7 with 10 units of gas.\<close>

abbreviation add_frame :: "std_db frame" where
  "add_frame \<equiv> std_frame std_core_empty [5, 7] [1, 0] 10"

lemma turn_ADD: "turn (fill_table frontier) C std_env add_frame =
    Some (Continue (add_frame\<lparr>f_stack := [12], f_pc := 1, f_con := (f_con add_frame)\<lparr>Gas := 7\<rparr>\<rparr>))"
  by (simp add: frontier_Suc_0 turn_def run_op_def GetOp_def std_frame_def std_contract_def UseGas_def dynamic_gas_def opAdd_def
      stack_op2_def pop_def peek_def set_top_def uint256_std_def stack_bounds go_index_def)

lemma turn_STOP: "turn (fill_table frontier) C std_env
    (add_frame\<lparr>f_stack := [12], f_pc := 1, f_con := (f_con add_frame)\<lparr>Gas := 7\<rparr>\<rparr>) =
    Some (Halt (add_frame\<lparr>f_stack := [12], f_pc := 1, f_con := (f_con add_frame)\<lparr>Gas := 7\<rparr>\<rparr>) [] (Some ErrStopToken))"
  by (simp add: turn_def run_op_def GetOp_def std_frame_def std_contract_def UseGas_def dynamic_gas_def frontier_STOP
      opStop_def stack_bounds go_index_def)

theorem loop_invariant_witness:
  "\<exists>g. reaches (fill_table frontier) (calls_of (Run 0 (fill_table frontier) std_env) std_env) std_env add_frame g \<and>
    f_stack g = [12] \<and> Gas (f_con g) = 7 \<and> frame_ok g"
proof -
  let ?C = "calls_of (Run 0 (fill_table frontier) std_env) std_env"
  let ?g = "add_frame\<lparr>f_stack := [12], f_pc := 1, f_con := (f_con add_frame)\<lparr>Gas := 7\<rparr>\<rparr>"
  have r: "reaches (fill_table frontier) ?C std_env add_frame ?g"
    by (rule reaches_step [OF step_turn [OF turn_ADD] reaches_refl])
  from loop_invariant [OF newFrontierInstructionSet_eq libs_std std_calls_bounded frame_ok_std r] r
  show ?thesis by (intro exI [of _ ?g]) simp
qed

theorem loop_terminates_witness:
  "\<exists>g. reaches (fill_table frontier) (calls_of (Run 0 (fill_table frontier) std_env) std_env) std_env add_frame g \<and>
    finished (fill_table frontier) (calls_of (Run 0 (fill_table frontier) std_env) std_env) std_env g \<and>
    last_turn (fill_table frontier) (calls_of (Run 0 (fill_table frontier) std_env) std_env) std_env g \<noteq> None"
proof -
  let ?C = "calls_of (Run 0 (fill_table frontier) std_env) std_env"
  have "loop 11 (fill_table frontier) ?C std_env add_frame \<noteq> None"
    by (simp add: eval_nat_numeral turn_ADD turn_STOP)
  moreover have "unat (Gas (f_con add_frame)) < 11" by (simp add: std_frame_def std_contract_def)
  ultimately show ?thesis
    using loop_terminates [OF newFrontierInstructionSet_eq libs_std std_calls_bounded frame_ok_std [of "[5, 7]"],
        of std_core_empty "[1, 0]" 10 11]
    by auto
qed

theorem run_never_gains_gas_witness:
  "run_bounded (Run 3 (fill_table frontier) std_env) \<and> gas_bounded (calls_of (Run 3 (fill_table frontier) std_env) std_env)"
  by (rule run_never_gains_gas [OF newFrontierInstructionSet_eq libs_std])

end
