(* ===== verification/Steady.thy ===== *)
theory Steady
  imports Interpreter GasEffects
begin

text \<open>
  What a running contract cannot do to the machine. Every instruction keeps the call depth and the read-only flag,
  and under that flag changes no entry of the write set, accounts being created apart, and no log
  (\<open>steady\<close>). The instructions other than calls do not use the machine below them, and a call only at its own
  depth (\<open>agree\<close>): so the depth limit of the code bounds the nesting.
\<close>

section \<open>Steadiness\<close>

definition same_writes :: "'s env \<Rightarrow> 's vm \<Rightarrow> 's vm \<Rightarrow> bool" where
  "same_writes E vm vm' \<longleftrightarrow> vLogs vm' = vLogs vm \<and> (\<forall>a k. k \<noteq> CreatAccountKey (eK E) \<longrightarrow>
     GetAddressAndKey (vWriteSet vm') a k = GetAddressAndKey (vWriteSet vm) a k)"

definition steady :: "'s env \<Rightarrow> 's vm \<Rightarrow> 's vm \<Rightarrow> bool" where
  "steady E vm vm' \<longleftrightarrow> depth vm' = depth vm \<and> readOnly vm' = readOnly vm \<and> (readOnly vm \<longrightarrow> same_writes E vm vm')"

lemma same_writes_refl [simp]: "same_writes E vm vm"
  by (simp add: same_writes_def)

lemma same_writes_trans: "same_writes E vm vm1 \<Longrightarrow> same_writes E vm1 vm2 \<Longrightarrow> same_writes E vm vm2"
  by (simp add: same_writes_def)

lemma steady_refl [simp]: "steady E vm vm"
  by (simp add: steady_def)

lemma steady_trans: "steady E vm vm1 \<Longrightarrow> steady E vm1 vm2 \<Longrightarrow> steady E vm vm2"
  by (auto simp: steady_def intro: same_writes_trans)

text \<open>Changes to the other fields of the machine do not show.\<close>

lemma steady_upd [simp]:
  "steady E vm (vm'\<lparr>vDB := s\<rparr>) = steady E vm vm'" "steady E vm (vm'\<lparr>vReadSet := r\<rparr>) = steady E vm vm'"
  "steady E vm (vm'\<lparr>returnData := d\<rparr>) = steady E vm vm'" "steady E vm (vm'\<lparr>callGasTemp := g\<rparr>) = steady E vm vm'"
  "steady E vm (vm'\<lparr>jdstore := j\<rparr>) = steady E vm vm'"
  by (simp_all add: steady_def same_writes_def)

lemma same_writes_upd [simp]:
  "same_writes E vm (vm'\<lparr>vDB := s\<rparr>) = same_writes E vm vm'"
  "same_writes E vm (vm'\<lparr>vReadSet := r\<rparr>) = same_writes E vm vm'"
  "same_writes E vm (vm'\<lparr>returnData := d\<rparr>) = same_writes E vm vm'"
  "same_writes E vm (vm'\<lparr>jdstore := j\<rparr>) = same_writes E vm vm'"
  "same_writes E vm (vm'\<lparr>depth := k\<rparr>) = same_writes E vm vm'"
  "same_writes E vm (vm'\<lparr>readOnly := b\<rparr>) = same_writes E vm vm'"
  "same_writes E (vm\<lparr>depth := k\<rparr>) vm' = same_writes E vm vm'"
  "same_writes E (vm\<lparr>readOnly := b\<rparr>) vm' = same_writes E vm vm'"
  "same_writes E (vm\<lparr>returnData := d\<rparr>) vm' = same_writes E vm vm'"
  by (simp_all add: same_writes_def)

definition steady_calls :: "'s env \<Rightarrow> 's calls \<Rightarrow> bool" where
  "steady_calls E C \<longleftrightarrow>
     (\<forall>vm cr a i g v. (readOnly vm \<longrightarrow> v = 0) \<longrightarrow> yields (\<lambda>(vm', ret, left, err). steady E vm vm') (c_Call C vm cr a i g v)) \<and>
     (\<forall>vm cr a i g v. yields (\<lambda>(vm', ret, left, err). steady E vm vm') (c_CallCode C vm cr a i g v)) \<and>
     (\<forall>vm cr a i g. yields (\<lambda>(vm', ret, left, err). steady E vm vm') (c_DelegateCall C vm cr a i g)) \<and>
     (\<forall>vm cr a i g. yields (\<lambda>(vm', ret, left, err). steady E vm vm') (c_StaticCall C vm cr a i g)) \<and>
     (\<forall>vm cr i g v. \<not> readOnly vm \<longrightarrow> yields (\<lambda>(vm', ret, addr, left, err). steady E vm vm') (c_Create C vm cr i g v)) \<and>
     (\<forall>vm cr i g v s. \<not> readOnly vm \<longrightarrow> yields (\<lambda>(vm', ret, addr, left, err). steady E vm vm') (c_Create2 C vm cr i g v s))"

definition steady_exec :: "'s exec \<Rightarrow> bool" where
  "steady_exec ex \<longleftrightarrow> (\<forall>C E f. steady_calls E C \<longrightarrow> yields (\<lambda>(f', r, e). steady E (f_vm f) (f_vm f')) (ex C E f))"

definition steady_gas :: "'s gas_func \<Rightarrow> bool" where
  "steady_gas d \<longleftrightarrow> (\<forall>E f n. yields (\<lambda>(f', r). steady E (f_vm f) (f_vm f')) (d E f n))"

text \<open>\<open>agree k\<close>: the two machines below do the same when called at depth \<open>k\<close>.\<close>

definition agree :: "int \<Rightarrow> 's calls \<Rightarrow> 's calls \<Rightarrow> bool" where
  "agree k C C' \<longleftrightarrow> (\<forall>vm. depth vm = k \<longrightarrow> c_Call C vm = c_Call C' vm \<and> c_CallCode C vm = c_CallCode C' vm \<and>
     c_DelegateCall C vm = c_DelegateCall C' vm \<and> c_StaticCall C vm = c_StaticCall C' vm \<and>
     c_Create C vm = c_Create C' vm \<and> c_Create2 C vm = c_Create2 C' vm)"

definition local_exec :: "'s exec \<Rightarrow> bool" where
  "local_exec ex \<longleftrightarrow> (\<forall>C C' E f. agree (depth (f_vm f)) C C' \<longrightarrow> ex C E f = ex C' E f)"

named_theorems vm_laws \<open>what each instruction does to the machine\<close>

section \<open>Laws of the instructions\<close>

lemma local_shapes [vm_laws]:
  "local_exec (stack_op1 g1)" "local_exec (stack_op2 g2)" "local_exec (stack_op3 g3)" "local_exec (push_value h)"
  "steady_exec (stack_op1 g1)" "steady_exec (stack_op2 g2)" "steady_exec (stack_op3 g3)" "steady_exec (push_value h)"
  by (simp_all add: local_exec_def steady_exec_def stack_op1_def stack_op2_def stack_op3_def push_value_def yields_any
      split: prod.split)

lemmas arith_defs = opAdd_def opSub_def opMul_def opDiv_def opSdiv_def opMod_def opSmod_def opExp_def
  opSignExtend_def opNot_def opLt_def opGt_def opSlt_def opSgt_def opEq_def opIszero_def opAnd_def opOr_def
  opXor_def opByte_def opAddmod_def opMulmod_def opSHL_def opSHR_def opSAR_def

lemma check_dest_steady: "yields (\<lambda>(ok, f'). steady E' (f_vm f) (f_vm f')) (check_dest E f pos)"
  by (auto simp: check_dest_def intro: yields_any)

lemma steady_pure [vm_laws]:
  "steady_exec opBalance" "steady_exec opCallDataLoad" "steady_exec opExtCodeSize" "steady_exec opExtCodeHash"
  "steady_exec opBlockhash" "steady_exec opMload" "steady_exec opSload" "steady_exec opKeccak256"
  "steady_exec opCallDataCopy" "steady_exec opReturnDataCopy" "steady_exec opCodeCopy" "steady_exec opExtCodeCopy"
  "steady_exec opPop" "steady_exec opMstore" "steady_exec opMstore8" "steady_exec opJumpdest" "steady_exec opReturn" "steady_exec opRevert" "steady_exec opUndefined" "steady_exec opStop"
  "steady_exec (makePush n k)" "steady_exec opPush1" "steady_exec (makeDup m)" "steady_exec (makeSwap m)"
  by (auto simp: steady_exec_def opBalance_def opCallDataLoad_def opExtCodeSize_def opExtCodeHash_def opBlockhash_def
      opMload_def opSload_def opKeccak256_def opCallDataCopy_def opReturnDataCopy_def opCodeCopy_def opExtCodeCopy_def
      opPop_def opMstore_def opMstore8_def opJumpdest_def opReturn_def opRevert_def opUndefined_def opStop_def
      makePush_def opPush1_def makeDup_def makeSwap_def set_db_def yields_stack Let_def
      yields_any split: prod.split)

lemma steady_jumps [vm_laws]: "steady_exec opJump" "steady_exec opJumpi"
  by (auto simp: steady_exec_def opJump_def opJumpi_def yields_stack Let_def intro!: yields_mono [OF check_dest_steady])

text \<open>The instructions that write stop under the read-only flag.\<close>

lemma steady_writers [vm_laws]:
  "steady_exec opSstore" "steady_exec opSelfdestruct" "steady_exec (makeLog m)"
  by (auto simp: steady_exec_def opSstore_def opSelfdestruct_def makeLog_def set_db_def yields_stack Let_def steady_def
      yields_any split: prod.split)

lemma steady_callsD:
  assumes "steady_calls E C"
  shows "(readOnly vm \<longrightarrow> v = 0) \<Longrightarrow> yields (\<lambda>(vm', ret, left, err). steady E vm vm') (c_Call C vm cr a i g v)"
    "yields (\<lambda>(vm', ret, left, err). steady E vm vm') (c_CallCode C vm cr a i g v)"
    "yields (\<lambda>(vm', ret, left, err). steady E vm vm') (c_DelegateCall C vm cr a i g)"
    "yields (\<lambda>(vm', ret, left, err). steady E vm vm') (c_StaticCall C vm cr a i g)"
    "\<not> readOnly vm \<Longrightarrow> yields (\<lambda>(vm', ret, addr, left, err). steady E vm vm') (c_Create C vm cr i g v)"
    "\<not> readOnly vm \<Longrightarrow> yields (\<lambda>(vm', ret, addr, left, err). steady E vm vm') (c_Create2 C vm cr i g v s)"
  using assms by (simp_all add: steady_calls_def)

lemma call_return_steady:
  "steady E (f_vm f) vm \<Longrightarrow> yields (\<lambda>(f', r, e). steady E (f_vm f) (f_vm f')) (call_return f st off n (vm, ret, left, err))"
  by (auto simp: call_return_def Let_def yields_any)

lemmas yields_mem = yields_any [of _ "mem_GetCopy m off n" for m off n] yields_any [of _ "mem_GetPtr m off n" for m off n]

lemma steady_call_ops [vm_laws]:
  "steady_exec opCall" "steady_exec opCallCode" "steady_exec opDelegateCall" "steady_exec opStaticCall"
  "steady_exec opCreate" "steady_exec opCreate2"
  by (auto simp: steady_exec_def opCall_def opCallCode_def opDelegateCall_def opStaticCall_def opCreate_def opCreate2_def
      yields_stack Let_def intro!: yields_mem yields_mono [OF steady_callsD(1)] yields_mono [OF steady_callsD(2)]
      yields_mono [OF steady_callsD(3)] yields_mono [OF steady_callsD(4)] yields_mono [OF steady_callsD(5)]
      yields_mono [OF steady_callsD(6)] call_return_steady)

lemma local_pure [vm_laws]:
  "local_exec opBalance" "local_exec opCallDataLoad" "local_exec opExtCodeSize" "local_exec opExtCodeHash"
  "local_exec opBlockhash" "local_exec opMload" "local_exec opSload" "local_exec opKeccak256"
  "local_exec opCallDataCopy" "local_exec opReturnDataCopy" "local_exec opCodeCopy" "local_exec opExtCodeCopy"
  "local_exec opPop" "local_exec opMstore" "local_exec opMstore8" "local_exec opJumpdest" "local_exec opJump"
  "local_exec opJumpi" "local_exec opReturn" "local_exec opRevert" "local_exec opUndefined" "local_exec opStop"
  "local_exec (makePush n k)" "local_exec opPush1" "local_exec (makeDup m)" "local_exec (makeSwap m)"
  "local_exec opSstore" "local_exec opSelfdestruct" "local_exec (makeLog m)"
  by (simp_all add: local_exec_def opBalance_def opCallDataLoad_def opExtCodeSize_def opExtCodeHash_def opBlockhash_def
      opMload_def opSload_def opKeccak256_def opCallDataCopy_def opReturnDataCopy_def opCodeCopy_def opExtCodeCopy_def
      opPop_def opMstore_def opMstore8_def opJumpdest_def opReturn_def opRevert_def opUndefined_def opStop_def
      makePush_def opPush1_def makeDup_def makeSwap_def opJump_def opJumpi_def opSstore_def opSelfdestruct_def
      makeLog_def)

lemma local_call_ops [vm_laws]:
  "local_exec opCall" "local_exec opCallCode" "local_exec opDelegateCall" "local_exec opStaticCall"
  "local_exec opCreate" "local_exec opCreate2"
  by (auto simp: local_exec_def agree_def opCall_def opCallCode_def opDelegateCall_def opStaticCall_def opCreate_def
      opCreate2_def Let_def cong: if_cong)

lemma vm_laws_arith [vm_laws]:
  "local_exec opAdd \<and> steady_exec opAdd" "local_exec opSub \<and> steady_exec opSub" "local_exec opMul \<and> steady_exec opMul"
  "local_exec opDiv \<and> steady_exec opDiv" "local_exec opSdiv \<and> steady_exec opSdiv" "local_exec opMod \<and> steady_exec opMod"
  "local_exec opSmod \<and> steady_exec opSmod" "local_exec opExp \<and> steady_exec opExp" "local_exec opNot \<and> steady_exec opNot"
  "local_exec opSignExtend \<and> steady_exec opSignExtend" "local_exec opLt \<and> steady_exec opLt"
  "local_exec opGt \<and> steady_exec opGt" "local_exec opSlt \<and> steady_exec opSlt" "local_exec opSgt \<and> steady_exec opSgt"
  "local_exec opEq \<and> steady_exec opEq" "local_exec opIszero \<and> steady_exec opIszero" "local_exec opAnd \<and> steady_exec opAnd"
  "local_exec opOr \<and> steady_exec opOr" "local_exec opXor \<and> steady_exec opXor" "local_exec opByte \<and> steady_exec opByte"
  "local_exec opAddmod \<and> steady_exec opAddmod" "local_exec opMulmod \<and> steady_exec opMulmod"
  "local_exec opSHL \<and> steady_exec opSHL" "local_exec opSHR \<and> steady_exec opSHR" "local_exec opSAR \<and> steady_exec opSAR"
  by (simp_all only: arith_defs local_shapes simp_thms)

lemma vm_laws_environment [vm_laws]:
  "local_exec opAddress \<and> steady_exec opAddress" "local_exec opOrigin \<and> steady_exec opOrigin"
  "local_exec opCaller \<and> steady_exec opCaller" "local_exec opCallValue \<and> steady_exec opCallValue"
  "local_exec opCallDataSize \<and> steady_exec opCallDataSize" "local_exec opReturnDataSize \<and> steady_exec opReturnDataSize"
  "local_exec opCodeSize \<and> steady_exec opCodeSize" "local_exec opGasprice \<and> steady_exec opGasprice"
  "local_exec opCoinbase \<and> steady_exec opCoinbase" "local_exec opTimestamp \<and> steady_exec opTimestamp"
  "local_exec opNumber \<and> steady_exec opNumber" "local_exec opDifficulty \<and> steady_exec opDifficulty"
  "local_exec opRandom \<and> steady_exec opRandom" "local_exec opGasLimit \<and> steady_exec opGasLimit"
  "local_exec opPc \<and> steady_exec opPc" "local_exec opMsize \<and> steady_exec opMsize" "local_exec opGas \<and> steady_exec opGas"
  "local_exec opPush0 \<and> steady_exec opPush0" "local_exec opSelfBalance \<and> steady_exec opSelfBalance"
  "local_exec opChainID \<and> steady_exec opChainID" "local_exec opBaseFee \<and> steady_exec opBaseFee"
  by (simp_all only: push_value_ops local_shapes simp_thms)

section \<open>Laws of the gas functions\<close>

text \<open>A gas function may touch the database and set the gas of a call aside.\<close>

lemma steady_gas_memory:
  "steady_gas pureMemoryGascost" "steady_gas (memoryCopierGas k)" "steady_gas gasCreateEip3860"
  "steady_gas gasCreate2Eip3860" "steady_gas (makeGasLog m)" "steady_gas (wordsGas k)"
  by (simp_all add: steady_gas_def gas_unfold mem_gas_frame Let_def yields_any split: sum.split prod.split)

lemma steady_gas_state:
  "steady_gas gasExtCodeCopyEIP2929" "steady_gas gasEip2929AccountCheck" "steady_gas gasSLoadEIP2929"
  "steady_gas gasExpEIP158" "steady_gas (makeSelfdestructGasFn b)"
  by (simp_all add: steady_gas_def gasExtCodeCopyEIP2929_def gasExtCodeCopy_def memoryCopierGas_def mem_gas_frame
      gasEip2929AccountCheck_def gasSLoadEIP2929_def gasExpEIP158_def makeSelfdestructGasFn_def set_db_def Let_def
      yields_any split: sum.split prod.split)

lemma steady_gas_sstore: "steady_gas gasSStoreEIP3529"
  by (simp add: steady_gas_def gasSStoreEIP3529_def makeGasSStoreFunc_def set_db_def Let_def yields_any map_option_then
      split: prod.split)

lemma steady_gas_variant:
  assumes "steady_gas old"
  shows "steady_gas (makeCallVariantGasCallEIP2929 old)"
proof -
  have charged: "yields (\<lambda>(f', r). steady E (f_vm h) (f_vm f')) (old E f n)"
    if "steady E (f_vm h) (f_vm f)" for E h f n
    by (rule yields_mono [OF assms [unfolded steady_gas_def, rule_format]]) (use that in \<open>auto intro: steady_trans\<close>)
  show ?thesis
    unfolding steady_gas_def
  proof (intro allI)
    fix E and f :: "'a frame" and n
    show "yields (\<lambda>(f', r). steady E (f_vm f) (f_vm f')) (makeCallVariantGasCallEIP2929 old E f n)"
      by (auto simp: makeCallVariantGasCallEIP2929_def UseGas_def set_db_def Let_def
          intro!: yields_any [of _ "Back st i" for st i] yields_mono [OF charged [of _ f]] split: sum.splits)
  qed
qed

lemma steady_gas_old_calls:
  "steady_gas gasCall" "steady_gas gasCallCode" "steady_gas gasDelegateCall" "steady_gas gasStaticCall"
  by (simp_all add: steady_gas_def gasCall_def gasCallCode_def gasDelegateCall_def gasStaticCall_def charge_call_def
      mem_gas_frame Let_def yields_any split: sum.split)

lemma steady_gas_table [vm_laws]:
  "steady_gas gasCallEIP2929" "steady_gas gasCallCodeEIP2929" "steady_gas gasDelegateCallEIP2929"
  "steady_gas gasStaticCallEIP2929" "steady_gas gasSelfdestructEIP3529"
  "steady_gas gasCallDataCopy" "steady_gas gasCodeCopy"
  "steady_gas gasKeccak256" "steady_gas gasMLoad" "steady_gas gasMStore" "steady_gas gasMStore8" "steady_gas gasReturn"
  "steady_gas gasReturnDataCopy" "steady_gas gasRevert"
  by (simp_all add: gasCallEIP2929_def gasCallCodeEIP2929_def gasDelegateCallEIP2929_def gasStaticCallEIP2929_def
      gasSelfdestructEIP3529_def mem_aliases steady_gas_variant steady_gas_old_calls steady_gas_memory steady_gas_state)

lemmas vm_gas_laws = vm_laws steady_gas_table steady_gas_memory steady_gas_state steady_gas_sstore

section \<open>The table\<close>

definition well_behaved :: "'s operation \<Rightarrow> bool" where
  "well_behaved op \<longleftrightarrow> steady_exec (execute op) \<and> local_exec (execute op) \<and>
     (case dynamicGas op of None \<Rightarrow> True | Some d \<Rightarrow> steady_gas d)"

lemma well_behaved_undefined: "well_behaved undefined_op"
  by (simp add: well_behaved_def undefined_op_def vm_laws)

lemma well_behaved_1: "list_all well_behaved (map snd frontier_1)"
  by (simp add: frontier_1_def well_behaved_def vm_gas_laws)

lemma well_behaved_2: "list_all well_behaved (map snd frontier_2)"
  by (simp add: frontier_2_def well_behaved_def vm_gas_laws)

lemma well_behaved_3: "list_all well_behaved (map snd frontier_3)"
  by (simp add: frontier_3_def well_behaved_def vm_gas_laws)

lemma well_behaved_4: "list_all well_behaved (map snd frontier_4)"
  by (simp add: frontier_4_def well_behaved_def vm_gas_laws)

lemma well_behaved_5: "list_all well_behaved (map snd frontier_5)"
  by (simp add: frontier_5_def well_behaved_def vm_gas_laws)

lemma well_behaved_6: "list_all well_behaved (map snd frontier_6)"
  by (simp add: frontier_6_def well_behaved_def vm_gas_laws)

lemma well_behaved_7: "list_all well_behaved (map snd frontier_7)"
  by (simp add: frontier_7_def well_behaved_def vm_gas_laws)

lemma well_behaved_table:
  assumes "newFrontierInstructionSet = Some jt"
  shows "well_behaved (jt ! unat (b :: u8))"
proof -
  have "list_all well_behaved (map snd frontier)"
    unfolding list_all_frontier using well_behaved_1 well_behaved_2 well_behaved_3 well_behaved_4 well_behaved_5
      well_behaved_6 well_behaved_7 by blast
  from frontier_all [OF assms this well_behaved_undefined] show ?thesis by blast
qed

section \<open>Turns and loops\<close>

lemma dynamic_gas_steady:
  assumes "well_behaved op"
  shows "yields (\<lambda>(f', e). steady E (f_vm f) (f_vm f')) (dynamic_gas E op f)"
proof (cases "dynamicGas op")
  case (Some d)
  have step: "yields (\<lambda>x. yields (\<lambda>(f', e). steady E (f_vm f) (f_vm f')) (k x)) (d E f n)"
    if "\<And>f' r. steady E (f_vm f) (f_vm f') \<Longrightarrow> yields (\<lambda>(f', e). steady E (f_vm f) (f_vm f')) (k (f', r))"
    for n and k :: "_ \<Rightarrow> ('a frame \<times> 'b) option"
    by (rule yields_mono [of "\<lambda>(f', r). steady E (f_vm f) (f_vm f')"])
      (use that assms in \<open>auto simp: well_behaved_def Some steady_gas_def\<close>)
  show ?thesis
    by (auto simp: dynamic_gas_def Some UseGas_def Let_def split: sum.split
        intro!: yields_any [of _ "memory_size_of E op st" for st] step)
qed (simp add: dynamic_gas_def)

definition outcome_vm :: "'s outcome \<Rightarrow> 's vm" where
  "outcome_vm t = (case t of Continue f \<Rightarrow> f_vm f | Halt f r e \<Rightarrow> f_vm f)"

lemma outcome_vm_simps [simp]: "outcome_vm (Continue f) = f_vm f" "outcome_vm (Halt f r e) = f_vm f"
  by (simp_all add: outcome_vm_def)

lemma run_op_steady:
  assumes "well_behaved op" and "steady_calls E C"
  shows "yields (\<lambda>t. steady E (f_vm f) (outcome_vm t)) (run_op C E op f)"
proof -
  have ex: "yields (\<lambda>(f', r, e). steady E vm (f_vm f')) (execute op C E f)" if "steady E vm (f_vm f)" for vm f
    by (rule yields_mono [of "\<lambda>(f', r, e). steady E (f_vm f) (f_vm f')"])
      (use assms that in \<open>auto simp: well_behaved_def steady_exec_def intro: steady_trans\<close>)
  have dyn: "yields (\<lambda>(f', e). steady E (f_vm f) (f_vm f')) (dynamic_gas E op (f\<lparr>f_con := c\<rparr>))" for c
    using dynamic_gas_steady [OF assms(1), of E "f\<lparr>f_con := c\<rparr>"] by simp
  show ?thesis
    by (auto simp: run_op_def UseGas_def Let_def split: option.split intro!: yields_mono [OF dyn] yields_mono [OF ex])
qed

lemma run_op_agree:
  assumes "well_behaved op" and "agree (depth (f_vm f)) C C'"
  shows "run_op C E op f = run_op C' E op f"
proof -
  have ex: "execute op C E f1 = execute op C' E f1"
    if "dynamic_gas E op (f\<lparr>f_con := c\<rparr>) = Some (f1, e)" for f1 e c
  proof -
    have "steady E (f_vm f) (f_vm f1)"
      using yieldsD [OF dynamic_gas_steady [OF assms(1)] that] by simp
    then have "agree (depth (f_vm f1)) C C'" using assms(2) by (simp add: steady_def)
    then show ?thesis using assms(1) by (simp add: well_behaved_def local_exec_def)
  qed
  show ?thesis
    by (auto simp: run_op_def Let_def ex split: prod.split option.split intro!: Option.bind_cong)
qed

lemma turn_steady:
  assumes "newFrontierInstructionSet = Some jt" and "steady_calls E C"
  shows "yields (\<lambda>t. steady E (f_vm f) (outcome_vm t)) (turn jt C E f)"
  using run_op_steady [OF well_behaved_table [OF assms(1)] assms(2)]
  by (auto simp: turn_def go_index_def)

lemma turn_agree:
  assumes "newFrontierInstructionSet = Some jt" and "agree (depth (f_vm f)) C C'"
  shows "turn jt C E f = turn jt C' E f"
  using run_op_agree [OF well_behaved_table [OF assms(1)] assms(2)]
  by (auto simp: turn_def go_index_def)

lemma loop_steady:
  assumes "newFrontierInstructionSet = Some jt" and "steady_calls E C"
  shows "yields (\<lambda>(f', r, e). steady E (f_vm f) (f_vm f')) (loop n jt C E f)"
proof (induction n arbitrary: f)
  case (Suc n)
  have next_turn: "yields (\<lambda>(f', r, e). steady E (f_vm f) (f_vm f')) (loop n jt C E f')"
    if "steady E (f_vm f) (f_vm f')" for f'
    by (rule yields_mono [OF Suc.IH]) (use that in \<open>auto intro: steady_trans\<close>)
  show ?case
    unfolding loop.simps yields_bind
    by (rule yields_mono [OF turn_steady [OF assms]]) (auto intro: next_turn split: outcome.split)
qed simp

lemma loop_agree:
  assumes "newFrontierInstructionSet = Some jt" and "steady_calls E C" and "agree (depth (f_vm f)) C C'"
  shows "loop n jt C E f = loop n jt C' E f"
  using assms(3)
proof (induction n arbitrary: f)
  case (Suc n)
  have "loop n jt C E f' = loop n jt C' E f'" if "turn jt C E f = Some (Continue f')" for f'
    using yieldsD [OF turn_steady [OF assms(1,2)] that] Suc.IH [of f'] Suc.prems by (simp add: steady_def)
  then show ?case
    using turn_agree [OF assms(1) Suc.prems] by (auto split: outcome.split intro!: Option.bind_cong)
qed simp

end
