(* ===== verification/Runs.thy ===== *)
theory Runs
  imports Machine Steady
begin

text \<open>
  Whole runs: what holds of \<open>Run\<close> at every depth of nested calls. Runs keep the depth and the read-only flag, a
  static run keeps the entries of the write set and the logs, and fuel above the depth limit of the code does not
  change the answer.
\<close>

section \<open>Steps of the calls\<close>

lemma put_steady:
  assumes "steady E h vm"
  shows "yields (\<lambda>vm'. steady E h vm') (read_put E vm a k v)"
    and "\<not> readOnly h \<or> k = CreatAccountKey (eK E) \<Longrightarrow> yields (\<lambda>vm'. steady E h vm') (write_put E vm a k v w)"
  using assms
  by (auto simp: read_put_def write_put_def steady_def same_writes_def WriteSet_UpdateCache_eq GetAddressAndKey_put
      intro!: yields_any)

lemma take_snapshot_steady: "take_snapshot E' vm = (i, vm') \<Longrightarrow> steady E h vm' = steady E h vm"
  by (auto simp: take_snapshot_def split: prod.splits)

lemma new_contract_steady: "new_contract vm cr a v g = (c, vm') \<Longrightarrow> steady E h vm' = steady E h vm"
  by (auto simp: new_contract_def split: prod.splits)

lemma end_call_steady:
  "yields (\<lambda>(vm', ret, left, err). steady E h vm') m \<Longrightarrow>
   yields (\<lambda>r. yields (\<lambda>(vm', ret, left, err). steady E h vm') (end_call E' i r)) m"
  by (erule yields_mono) (auto simp: end_call_def)

lemma end_call_now: "steady E h vm \<Longrightarrow> yields (\<lambda>(vm', ret, left, err). steady E h vm') (end_call E' i (vm, ret, gas, err))"
  by (simp add: end_call_def)

lemma precompile_steady: "steady E h vm \<Longrightarrow> yields (\<lambda>(vm', ret, left, err). steady E h vm') (run_precompile vm p input gas)"
  by (auto simp: run_precompile_def yields_any)

text \<open>A run keeps the machine steady, and one that is asked to be read-only keeps the writes.\<close>

definition run_steady :: "'s env \<Rightarrow> 's run_fn \<Rightarrow> bool" where
  "run_steady E run \<longleftrightarrow> (\<forall>vm c input ro. yields (\<lambda>(vm', c', ret, err). steady E vm vm' \<and> (ro \<longrightarrow> same_writes E vm vm'))
     (run vm c input ro))"

lemma run_contract_steady:
  assumes "run_steady E run" and "steady E h vm"
  shows "yields (\<lambda>(vm', ret, left, err). steady E h vm') (run_contract run vm c input ro)"
  unfolding run_contract_def yields_bind
  by (rule yields_mono [OF assms(1) [unfolded run_steady_def, rule_format]]) (use assms(2) in \<open>auto intro: steady_trans\<close>)

lemmas yields_reads = yields_any [of _ "can_transfer E vm a v" for E vm a v] yields_any [of _ "balance_of E vm a" for E vm a]
  yields_any [of _ "load_code E vm a" for E vm a] yields_any [of _ "nonce_of E vm a" for E vm a]
  yields_any [of _ "AsDelegate c" for c]

lemma big_Uint64_0 [simp]: "big_Uint64 0 = 0"
  by (simp add: big_Uint64_def)

lemma run_calls_steady:
  assumes "run_steady E run"
  shows "(readOnly vm \<longrightarrow> v = 0) \<Longrightarrow> yields (\<lambda>(vm', ret, left, err). steady E vm vm') (Call run E vm cr a input g v)"
    "yields (\<lambda>(vm', ret, left, err). steady E vm vm') (CallCode run E vm cr a input g v)"
    "yields (\<lambda>(vm', ret, left, err). steady E vm vm') (DelegateCall run E vm cr a input g)"
    "yields (\<lambda>(vm', ret, left, err). steady E vm vm') (StaticCall run E vm cr a input g)"
  by (auto simp: Call_def CallCode_def DelegateCall_def StaticCall_def Let_def assms
      take_snapshot_steady new_contract_steady
      intro!: yields_reads end_call_steady end_call_now precompile_steady run_contract_steady
        yields_mono [OF put_steady(1) [where h = vm]] yields_mono [OF put_steady(2) [where h = vm]]
      split: prod.split option.split)

lemma creation_steady:
  assumes "run_steady E run" and "\<not> readOnly vm"
  shows "yields (\<lambda>(vm', ret, addr, left, err). steady E vm vm') (create run E vm cr code h g v a)"
proof -
  have run: "yields (\<lambda>(vm', c', ret, err). steady E vm vm') (run x c input ro)" if "steady E vm x" for x c input ro
    by (rule yields_mono [OF assms(1) [unfolded run_steady_def, rule_format]]) (use that in \<open>auto intro: steady_trans\<close>)
  have store: "yields (\<lambda>(vm', c', e). steady E vm vm') (store_code E a x c ret err)" if "steady E vm x" for x c ret err
    using that assms(2) by (auto simp: store_code_def Let_def intro!: yields_mono [OF put_steady(2)] split: prod.split)
  show ?thesis
    using assms(2)
    by (auto simp: create_def Let_def take_snapshot_steady new_contract_steady
        intro!: yields_reads yields_mono [OF put_steady(1) [where h = vm]] yields_mono [OF put_steady(2) [where h = vm]]
          yields_mono [OF run] yields_mono [OF store] split: prod.split)
qed

lemma calls_steady: "run_steady E run \<Longrightarrow> steady_calls E (calls_of run E)"
  using run_calls_steady [of E run] creation_steady [of E run]
  by (auto simp: steady_calls_def calls_of_def Create_def Create2_def Let_def intro!: yields_reads)

lemma run_body_steady:
  assumes "newFrontierInstructionSet = Some jt" and "steady_calls E C"
  shows "run_steady E (Run_body jt C E)"
proof -
  note enough = loop_steady [OF assms]
  show ?thesis
    by (auto simp: run_steady_def Run_body_def Let_def steady_def simp del: loop.simps intro!: yields_mono [OF enough])
qed

lemma run_steady_Run:
  assumes "newFrontierInstructionSet = Some jt"
  shows "run_steady E (Run d jt E)"
proof (induction d)
  case (Suc d)
  have "Run (Suc d) jt E = Run_body jt (calls_of (Run d jt E) E) E" by (intro ext) simp
  with run_body_steady [OF assms calls_steady [OF Suc.IH]] show ?case by metis
qed (simp add: run_steady_def)

text \<open>A run, however deep its calls nest, leaves the call depth and the read-only flag as they were. Under the
  flag, or when the run is asked to be read-only, no balance, nonce, code or storage entry of the write set changes and no log
  is added; only the marks of created accounts may.\<close>

lemma static_runs_keep_writes:
  assumes "newFrontierInstructionSet = Some jt" and "Run d jt E vm c input ro = Some (vm', c', ret, err)"
  shows "depth vm' = depth vm \<and> readOnly vm' = readOnly vm \<and>
    (ro \<or> readOnly vm \<longrightarrow> vLogs vm' = vLogs vm \<and> (\<forall>a k. k \<noteq> CreatAccountKey (eK E) \<longrightarrow>
       GetAddressAndKey (vWriteSet vm') a k = GetAddressAndKey (vWriteSet vm) a k))"
  using yieldsD [OF run_steady_Run [OF assms(1), unfolded run_steady_def, rule_format] assms(2)]
  by (auto simp: steady_def same_writes_def)

section \<open>The depth limit\<close>

text \<open>Two runs that agree at a depth give machines that agree there; above the limit of the code no run is started.\<close>

lemma depth_puts:
  "read_put E vm a k v = Some vm' \<Longrightarrow> depth vm' = depth vm"
  "write_put E vm a k v w = Some vm' \<Longrightarrow> depth vm' = depth vm"
  "take_snapshot E vm = (i, vm') \<Longrightarrow> depth vm' = depth vm"
  "new_contract vm cr a val g = (c, vm') \<Longrightarrow> depth vm' = depth vm"
  by (auto simp: read_put_def write_put_def take_snapshot_def new_contract_def bind_Some_iff split: prod.splits)

lemma calls_agree:
  assumes "k \<le> uint CallCreateDepth \<Longrightarrow> (\<And>vm. depth vm = k \<Longrightarrow> run vm = run' vm)"
  shows "agree k (calls_of run E) (calls_of run' E)"
proof (cases "k \<le> uint CallCreateDepth")
  case False
  then show ?thesis
    by (auto simp: agree_def calls_of_def Call_def CallCode_def DelegateCall_def StaticCall_def Create_def Create2_def
        create_def Let_def fun_eq_iff)
next
  case True
  have run: "run vm = run' vm" if "depth vm = k" for vm using assms True that by blast
  show ?thesis
    by (auto simp: agree_def calls_of_def Call_def CallCode_def DelegateCall_def StaticCall_def Create_def Create2_def
        create_def run_contract_def Let_def fun_eq_iff run bind_Some_iff dest!: depth_puts
        split: prod.split option.split if_split_asm intro!: Option.bind_cong)
qed

lemma run_body_agree:
  assumes "newFrontierInstructionSet = Some jt" and "steady_calls E C" and "agree (depth vm + 1) C C'"
  shows "Run_body jt C E vm c input ro = Run_body jt C' E vm c input ro"
proof -
  have "loop n jt C E f = loop n jt C' E f" if "depth (f_vm f) = depth vm + 1" for n f
    using loop_agree [OF assms(1,2)] assms(3) that by simp
  then show ?thesis by (simp add: Run_body_def Let_def del: loop.simps)
qed

text \<open>C8. The depth limit of the code bounds the nesting: fuel for the calls up to the limit gives the same
  answer as any greater fuel, so an answer is never missing for lack of fuel.\<close>

theorem depth_fuel_enough:
  assumes "newFrontierInstructionSet = Some jt" and "uint CallCreateDepth \<le> depth vm + int d" and "d \<le> d'"
  shows "Run (Suc d) jt E vm c input ro = Run (Suc d') jt E vm c input ro"
  using assms(2,3)
proof (induction d arbitrary: d' vm c input ro)
  case 0
  then have "agree (depth vm + 1) (calls_of (Run 0 jt E) E) (calls_of (Run d' jt E) E)" by (intro calls_agree) simp
  from run_body_agree [OF assms(1) calls_steady [OF run_steady_Run [OF assms(1)]] this] show ?case by simp
next
  case (Suc d)
  then obtain e where e: "d' = Suc e" "d \<le> e" by (cases d') auto
  have "agree (depth vm + 1) (calls_of (Run (Suc d) jt E) E) (calls_of (Run (Suc e) jt E) E)"
    by (rule calls_agree) (use Suc.IH e(2) Suc.prems(1) in \<open>auto simp: fun_eq_iff\<close>)
  from run_body_agree [OF assms(1) calls_steady [OF run_steady_Run [OF assms(1)]] this] show ?case
    by (simp add: e(1))
qed

section \<open>Concrete runs\<close>

theorem depth_fuel_enough_witness:
  "\<forall>c input ro. Run 1025 (fill_table frontier) std_env (std_vm std_core_empty) c input ro =
   Run 5000 (fill_table frontier) std_env (std_vm std_core_empty) c input ro"
proof -
  have "uint CallCreateDepth \<le> depth (std_vm std_core_empty) + int 1024" by (simp add: std_vm_def)
  from depth_fuel_enough [OF newFrontierInstructionSet_eq this, of 4999] show ?thesis by simp
qed

lemma loop_numeral: "loop (numeral k) jt C E f = turn jt C E f \<bind> (\<lambda>t. case t of
    Continue f' \<Rightarrow> loop (pred_numeral k) jt C E f'
  | Halt f' res err \<Rightarrow> Some (f', res, if err = Some ErrStopToken then None else err))"
  by (simp add: numeral_eq_Suc)

end
