(* ===== verification/Snapshots.thy ===== *)
theory Snapshots
  imports Runs
begin

text \<open>
  The snapshots of the database through a run: every instruction and every gas function keeps the snapshots that are
  open, nested calls included. So the snapshot a call takes is there when it fails, and the database is as before.
\<close>

section \<open>Open snapshots\<close>

text \<open>\<open>kept snap vm vm'\<close>: the snapshots open in the database of \<open>vm\<close> are open in that of \<open>vm'\<close>.\<close>

abbreviation kept :: "('s \<Rightarrow> nat \<Rightarrow> 'c option) \<Rightarrow> 's vm \<Rightarrow> 's vm \<Rightarrow> bool" where
  "kept snap vm vm' \<equiv> keeps_snaps snap (vDB vm) (vDB vm')"

lemma journal_specD:
  assumes "journal_spec A J core snap"
  shows "keeps_snaps snap s (db_AddRefund J s n)" "db_SubRefund J s n = Some s' \<Longrightarrow> keeps_snaps snap s s'"
    "keeps_snaps snap s (db_AddAddressToAccessList J s a)" "keeps_snaps snap s (db_AddSlotToAccessList J s a k)"
    "keeps_snaps snap s (db_AddPreimage J s h d)" "keeps_snaps snap s (db_AddBalance A s a v)"
    "keeps_snaps snap s (db_Suicide A s a)" "keeps_snaps snap s (db_CreateAccount A s a)"
  using assms unfolding journal_spec_def by blast+

lemma snapshot_opened:
  assumes "journal_spec A J core snap" and "db_Snapshot J s = (i, s')"
  shows "snap s' i = Some (core s)" and "keeps_snaps snap s s'" and "snap s j = Some c \<Longrightarrow> j < i"
  using assms by (auto simp: journal_spec_def)

text \<open>After the snapshot taken at \<open>s\<close>, as long as it stays open, going back to it restores the core of \<open>s\<close>
  and keeps what was open at \<open>s\<close>.\<close>

lemma snapshot_reverted:
  assumes "journal_spec A J core snap" and "db_Snapshot J s = (i, s')" and "keeps_snaps snap s' t"
  shows "core (db_RevertToSnapshot J t i) = core s" and "keeps_snaps snap s (db_RevertToSnapshot J t i)"
proof -
  from snapshot_opened [OF assms(1,2)] assms(3) have i: "snap t i = Some (core s)" by (simp add: keeps_snaps_def)
  with assms(1) show "core (db_RevertToSnapshot J t i) = core s" by (simp add: journal_spec_def)
  have "snap (db_RevertToSnapshot J t i) j = Some c" if "snap s j = Some c" for j c
  proof -
    from snapshot_opened [OF assms(1,2)] that have "j < i" "snap s' j = Some c" by (auto simp: keeps_snaps_def)
    with i assms(1,3) show ?thesis by (simp add: journal_spec_def keeps_snaps_def)
  qed
  then show "keeps_snaps snap s (db_RevertToSnapshot J t i)" by (simp add: keeps_snaps_def)
qed

definition keep_calls :: "('s \<Rightarrow> nat \<Rightarrow> 'c option) \<Rightarrow> 's calls \<Rightarrow> bool" where
  "keep_calls snap C \<longleftrightarrow>
     (\<forall>vm cr a i g v. yields (\<lambda>(vm', ret, left, err). kept snap vm vm') (c_Call C vm cr a i g v)) \<and>
     (\<forall>vm cr a i g v. yields (\<lambda>(vm', ret, left, err). kept snap vm vm') (c_CallCode C vm cr a i g v)) \<and>
     (\<forall>vm cr a i g. yields (\<lambda>(vm', ret, left, err). kept snap vm vm') (c_DelegateCall C vm cr a i g)) \<and>
     (\<forall>vm cr a i g. yields (\<lambda>(vm', ret, left, err). kept snap vm vm') (c_StaticCall C vm cr a i g)) \<and>
     (\<forall>vm cr i g v. yields (\<lambda>(vm', ret, addr, left, err). kept snap vm vm') (c_Create C vm cr i g v)) \<and>
     (\<forall>vm cr i g v s. yields (\<lambda>(vm', ret, addr, left, err). kept snap vm vm') (c_Create2 C vm cr i g v s))"

definition keep_exec :: "('s \<Rightarrow> 'c) \<Rightarrow> ('s \<Rightarrow> nat \<Rightarrow> 'c option) \<Rightarrow> 's exec \<Rightarrow> bool" where
  "keep_exec core snap ex \<longleftrightarrow> (\<forall>C E f. journal_spec (eA E) (eJ E) core snap \<longrightarrow> keep_calls snap C \<longrightarrow>
     yields (\<lambda>(f', r, e). kept snap (f_vm f) (f_vm f')) (ex C E f))"

definition keep_gas :: "('s \<Rightarrow> 'c) \<Rightarrow> ('s \<Rightarrow> nat \<Rightarrow> 'c option) \<Rightarrow> 's gas_func \<Rightarrow> bool" where
  "keep_gas core snap d \<longleftrightarrow> (\<forall>E f n. journal_spec (eA E) (eJ E) core snap \<longrightarrow>
     yields (\<lambda>(f', r). kept snap (f_vm f) (f_vm f')) (d E f n))"

named_theorems snap_laws \<open>instructions and gas functions keep the open snapshots\<close>

section \<open>Instructions\<close>

lemma keep_shapes:
  "keep_exec core1 snap1 (stack_op1 g1)" "keep_exec core2 snap2 (stack_op2 g2)" "keep_exec core3 snap3 (stack_op3 g3)"
  "keep_exec core4 snap4 (push_value h)"
  by (simp_all add: keep_exec_def stack_op1_def stack_op2_def stack_op3_def push_value_def yields_any split: prod.split)

lemma keep_arith [snap_laws]:
  "keep_exec core snap opAdd" "keep_exec core snap opSub" "keep_exec core snap opMul" "keep_exec core snap opDiv"
  "keep_exec core snap opSdiv" "keep_exec core snap opMod" "keep_exec core snap opSmod" "keep_exec core snap opExp"
  "keep_exec core snap opSignExtend" "keep_exec core snap opNot" "keep_exec core snap opLt" "keep_exec core snap opGt"
  "keep_exec core snap opSlt" "keep_exec core snap opSgt" "keep_exec core snap opEq" "keep_exec core snap opIszero"
  "keep_exec core snap opAnd" "keep_exec core snap opOr" "keep_exec core snap opXor" "keep_exec core snap opByte"
  "keep_exec core snap opAddmod" "keep_exec core snap opMulmod" "keep_exec core snap opSHL" "keep_exec core snap opSHR"
  "keep_exec core snap opSAR"
  by (simp_all only: arith_defs keep_shapes)

lemma keep_environment [snap_laws]:
  "keep_exec core snap opAddress" "keep_exec core snap opOrigin" "keep_exec core snap opCaller"
  "keep_exec core snap opCallValue" "keep_exec core snap opCallDataSize" "keep_exec core snap opReturnDataSize"
  "keep_exec core snap opCodeSize" "keep_exec core snap opGasprice" "keep_exec core snap opCoinbase"
  "keep_exec core snap opTimestamp" "keep_exec core snap opNumber" "keep_exec core snap opDifficulty"
  "keep_exec core snap opRandom" "keep_exec core snap opGasLimit" "keep_exec core snap opPc"
  "keep_exec core snap opMsize" "keep_exec core snap opGas" "keep_exec core snap opPush0"
  "keep_exec core snap opSelfBalance" "keep_exec core snap opChainID" "keep_exec core snap opBaseFee"
  by (simp_all only: push_value_ops keep_shapes)

lemma keep_single [snap_laws]:
  "keep_exec core snap opBalance" "keep_exec core snap opCallDataLoad" "keep_exec core snap opExtCodeSize"
  "keep_exec core snap opExtCodeHash" "keep_exec core snap opBlockhash" "keep_exec core snap opMload"
  "keep_exec core snap opSload" "keep_exec core snap opKeccak256" "keep_exec core snap opCallDataCopy"
  "keep_exec core snap opReturnDataCopy" "keep_exec core snap opCodeCopy" "keep_exec core snap opExtCodeCopy"
  "keep_exec core snap opPop" "keep_exec core snap opMstore" "keep_exec core snap opMstore8"
  "keep_exec core snap opJumpdest" "keep_exec core snap opReturn" "keep_exec core snap opRevert"
  "keep_exec core snap opUndefined" "keep_exec core snap opStop" "keep_exec core snap (makePush n k)"
  "keep_exec core snap opPush1" "keep_exec core snap (makeDup m)" "keep_exec core snap (makeSwap m)"
  "keep_exec core snap opSstore" "keep_exec core snap (makeLog m)"
  by (simp_all add: keep_exec_def opBalance_def opCallDataLoad_def opExtCodeSize_def opExtCodeHash_def opBlockhash_def
      opMload_def opSload_def opKeccak256_def opCallDataCopy_def opReturnDataCopy_def opCodeCopy_def opExtCodeCopy_def
      opPop_def opMstore_def opMstore8_def opJumpdest_def opReturn_def opRevert_def opUndefined_def opStop_def
      makePush_def opPush1_def makeDup_def makeSwap_def opSstore_def makeLog_def set_db_def yields_stack Let_def
      yields_any journal_specD split: prod.split)

lemma keep_selfdestruct [snap_laws]: "keep_exec core snap opSelfdestruct"
  by (auto simp: keep_exec_def opSelfdestruct_def set_db_def yields_stack Let_def
      intro: keeps_snaps_trans journal_specD split: prod.split)

lemma check_dest_kept: "yields (\<lambda>(ok, f'). kept snap (f_vm f) (f_vm f')) (check_dest E f pos)"
  by (auto simp: check_dest_def intro: yields_any)

lemma keep_jumps [snap_laws]: "keep_exec core snap opJump" "keep_exec core snap opJumpi"
  by (auto simp: keep_exec_def opJump_def opJumpi_def yields_stack Let_def intro!: yields_mono [OF check_dest_kept])

lemma keep_callsD:
  assumes "keep_calls snap C"
  shows "yields (\<lambda>(vm', ret, left, err). kept snap vm vm') (c_Call C vm cr a i g v)"
    "yields (\<lambda>(vm', ret, left, err). kept snap vm vm') (c_CallCode C vm cr a i g v)"
    "yields (\<lambda>(vm', ret, left, err). kept snap vm vm') (c_DelegateCall C vm cr a i g)"
    "yields (\<lambda>(vm', ret, left, err). kept snap vm vm') (c_StaticCall C vm cr a i g)"
    "yields (\<lambda>(vm', ret, addr, left, err). kept snap vm vm') (c_Create C vm cr i g v)"
    "yields (\<lambda>(vm', ret, addr, left, err). kept snap vm vm') (c_Create2 C vm cr i g v s)"
  using assms by (simp_all add: keep_calls_def)

lemma call_return_kept:
  "kept snap (f_vm f) vm \<Longrightarrow> yields (\<lambda>(f', r, e). kept snap (f_vm f) (f_vm f')) (call_return f st off n (vm, ret, left, err))"
  by (auto simp: call_return_def Let_def yields_any)

lemma keep_call_ops [snap_laws]:
  "keep_exec core snap opCall" "keep_exec core snap opCallCode" "keep_exec core snap opDelegateCall"
  "keep_exec core snap opStaticCall" "keep_exec core snap opCreate" "keep_exec core snap opCreate2"
  by (auto simp: keep_exec_def opCall_def opCallCode_def opDelegateCall_def opStaticCall_def opCreate_def opCreate2_def
      yields_stack Let_def intro!: yields_mem yields_mono [OF keep_callsD(1)] yields_mono [OF keep_callsD(2)]
      yields_mono [OF keep_callsD(3)] yields_mono [OF keep_callsD(4)] yields_mono [OF keep_callsD(5)]
      yields_mono [OF keep_callsD(6)] call_return_kept)

section \<open>Gas functions\<close>

lemma keep_gas_memory:
  "keep_gas core snap pureMemoryGascost" "keep_gas core snap (memoryCopierGas k)" "keep_gas core snap gasCreateEip3860"
  "keep_gas core snap gasCreate2Eip3860" "keep_gas core snap (makeGasLog m)" "keep_gas core snap (wordsGas k)"
  by (simp_all add: keep_gas_def gas_unfold mem_gas_frame Let_def yields_any split: sum.split prod.split)

lemma keep_gas_state:
  "keep_gas core snap gasExtCodeCopyEIP2929" "keep_gas core snap gasEip2929AccountCheck"
  "keep_gas core snap gasSLoadEIP2929" "keep_gas core snap gasExpEIP158" "keep_gas core snap gasSelfdestructEIP3529"
  by (simp_all add: keep_gas_def gasExtCodeCopyEIP2929_def gasExtCodeCopy_def memoryCopierGas_def mem_gas_frame
      gasEip2929AccountCheck_def gasSLoadEIP2929_def gasExpEIP158_def gasSelfdestructEIP3529_def
      makeSelfdestructGasFn_def set_db_def Let_def yields_any journal_specD split: sum.split prod.split)

lemma keep_gas_sstore: "keep_gas core snap gasSStoreEIP3529"
  unfolding keep_gas_def
proof (intro allI impI)
  fix E :: "'a env" and f :: "'a frame" and n
  assume J: "journal_spec (eA E) (eJ E) core snap"
  have sub: "yields (\<lambda>s'. keeps_snaps snap s0 s') (db_SubRefund (eJ E) s g)" if "keeps_snaps snap s0 s" for s0 s g
    using journal_specD(2) [OF J] that by (auto simp: yields_def intro: keeps_snaps_trans)
  show "yields (\<lambda>(f', r). kept snap (f_vm f) (f_vm f')) (gasSStoreEIP3529 E f n)"
    by (auto simp: gasSStoreEIP3529_def makeGasSStoreFunc_def set_db_def Let_def map_option_then
        intro!: yields_any [of _ "Back st i" for st i] yields_any [of _ "peek st" for st] yields_mono [OF sub]
          keeps_snaps_trans [OF _ journal_specD(1) [OF J]] journal_specD(4) [OF J] split: prod.split)
qed

lemma keep_gas_variant:
  assumes "keep_gas core snap old"
  shows "keep_gas core snap (makeCallVariantGasCallEIP2929 old)"
  unfolding keep_gas_def
proof (intro allI impI)
  fix E :: "'a env" and f :: "'a frame" and n
  assume J: "journal_spec (eA E) (eJ E) core snap"
  have charged: "yields (\<lambda>(f', r). kept snap (f_vm f) (f_vm f')) (old E h n)" if "kept snap (f_vm f) (f_vm h)" for h
    by (rule yields_mono [OF assms [unfolded keep_gas_def, rule_format, OF J]])
      (use that in \<open>auto intro: keeps_snaps_trans\<close>)
  show "yields (\<lambda>(f', r). kept snap (f_vm f) (f_vm f')) (makeCallVariantGasCallEIP2929 old E f n)"
    by (auto simp: makeCallVariantGasCallEIP2929_def UseGas_def set_db_def Let_def journal_specD [OF J]
        intro!: yields_any [of _ "Back st i" for st i] yields_mono [OF charged] split: sum.splits)
qed

lemma keep_gas_old_calls:
  "keep_gas core snap gasCall" "keep_gas core snap gasCallCode" "keep_gas core snap gasDelegateCall"
  "keep_gas core snap gasStaticCall"
  by (simp_all add: keep_gas_def gasCall_def gasCallCode_def gasDelegateCall_def gasStaticCall_def charge_call_def
      mem_gas_frame Let_def yields_any split: sum.split)

lemma keep_gas_table [snap_laws]:
  "keep_gas core snap gasCallEIP2929" "keep_gas core snap gasCallCodeEIP2929" "keep_gas core snap gasDelegateCallEIP2929"
  "keep_gas core snap gasStaticCallEIP2929" "keep_gas core snap gasCallDataCopy" "keep_gas core snap gasCodeCopy"
  "keep_gas core snap gasKeccak256" "keep_gas core snap gasMLoad" "keep_gas core snap gasMStore"
  "keep_gas core snap gasMStore8" "keep_gas core snap gasReturn" "keep_gas core snap gasReturnDataCopy"
  "keep_gas core snap gasRevert"
  by (simp_all add: gasCallEIP2929_def gasCallCodeEIP2929_def gasDelegateCallEIP2929_def gasStaticCallEIP2929_def
      mem_aliases keep_gas_variant keep_gas_old_calls keep_gas_memory)

lemmas snap_gas_laws = snap_laws keep_gas_memory keep_gas_state keep_gas_sstore

section \<open>The table and the loop\<close>

definition keeps_op :: "('s \<Rightarrow> 'c) \<Rightarrow> ('s \<Rightarrow> nat \<Rightarrow> 'c option) \<Rightarrow> 's operation \<Rightarrow> bool" where
  "keeps_op core snap op \<longleftrightarrow> keep_exec core snap (execute op) \<and>
     (case dynamicGas op of None \<Rightarrow> True | Some d \<Rightarrow> keep_gas core snap d)"

lemma keeps_op_undefined: "keeps_op core snap undefined_op"
  by (simp add: keeps_op_def undefined_op_def snap_laws)

lemma keeps_op_1: "list_all (keeps_op core snap) (map snd frontier_1)"
  by (simp add: frontier_1_def keeps_op_def snap_gas_laws)

lemma keeps_op_2: "list_all (keeps_op core snap) (map snd frontier_2)"
  by (simp add: frontier_2_def keeps_op_def snap_gas_laws)

lemma keeps_op_3: "list_all (keeps_op core snap) (map snd frontier_3)"
  by (simp add: frontier_3_def keeps_op_def snap_gas_laws)

lemma keeps_op_4: "list_all (keeps_op core snap) (map snd frontier_4)"
  by (simp add: frontier_4_def keeps_op_def snap_gas_laws)

lemma keeps_op_5: "list_all (keeps_op core snap) (map snd frontier_5)"
  by (simp add: frontier_5_def keeps_op_def snap_gas_laws)

lemma keeps_op_6: "list_all (keeps_op core snap) (map snd frontier_6)"
  by (simp add: frontier_6_def keeps_op_def snap_gas_laws)

lemma keeps_op_7: "list_all (keeps_op core snap) (map snd frontier_7)"
  by (simp add: frontier_7_def keeps_op_def snap_gas_laws)

lemma keeps_op_table:
  assumes "newFrontierInstructionSet = Some jt"
  shows "keeps_op core snap (jt ! unat (b :: u8))"
proof -
  have "list_all (keeps_op core snap) (map snd frontier)"
    unfolding list_all_frontier using keeps_op_1 keeps_op_2 keeps_op_3 keeps_op_4 keeps_op_5 keeps_op_6 keeps_op_7
    by blast
  from frontier_all [OF assms this keeps_op_undefined] show ?thesis by blast
qed

lemma dynamic_gas_kept:
  assumes "keeps_op core snap op" and "journal_spec (eA E) (eJ E) core snap"
  shows "yields (\<lambda>(f', e). kept snap (f_vm f) (f_vm f')) (dynamic_gas E op f)"
proof (cases "dynamicGas op")
  case (Some d)
  have step: "yields (\<lambda>x. yields (\<lambda>(f', e). kept snap (f_vm f) (f_vm f')) (k x)) (d E f n)"
    if "\<And>f' r. kept snap (f_vm f) (f_vm f') \<Longrightarrow> yields (\<lambda>(f', e). kept snap (f_vm f) (f_vm f')) (k (f', r))"
    for n and k :: "_ \<Rightarrow> ('a frame \<times> vm_error option) option"
    by (rule yields_mono [of "\<lambda>(f', r). kept snap (f_vm f) (f_vm f')"])
      (use that assms in \<open>auto simp: keeps_op_def Some keep_gas_def\<close>)
  show ?thesis
    by (auto simp: dynamic_gas_def Some UseGas_def Let_def split: sum.split
        intro!: yields_any [of _ "memory_size_of E op st" for st] step)
qed (simp add: dynamic_gas_def)

lemma run_op_kept:
  assumes "keeps_op core snap op" and "journal_spec (eA E) (eJ E) core snap" and "keep_calls snap C"
  shows "yields (\<lambda>t. kept snap (f_vm f) (outcome_vm t)) (run_op C E op f)"
proof -
  have ex: "yields (\<lambda>(f', r, e). kept snap vm (f_vm f')) (execute op C E f)" if "kept snap vm (f_vm f)" for vm f
    by (rule yields_mono [of "\<lambda>(f', r, e). kept snap (f_vm f) (f_vm f')"])
      (use assms that in \<open>auto simp: keeps_op_def keep_exec_def intro: keeps_snaps_trans\<close>)
  have dyn: "yields (\<lambda>(f', e). kept snap (f_vm f) (f_vm f')) (dynamic_gas E op (f\<lparr>f_con := c\<rparr>))" for c
    using dynamic_gas_kept [OF assms(1,2), of "f\<lparr>f_con := c\<rparr>"] by simp
  show ?thesis
    by (auto simp: run_op_def UseGas_def Let_def split: option.split intro!: yields_mono [OF dyn] yields_mono [OF ex])
qed

lemma loop_kept:
  assumes "newFrontierInstructionSet = Some jt" and "journal_spec (eA E) (eJ E) core snap" and "keep_calls snap C"
  shows "yields (\<lambda>(f', r, e). kept snap (f_vm f) (f_vm f')) (loop n jt C E f)"
proof (induction n arbitrary: f)
  case (Suc n)
  have turn: "yields (\<lambda>t. kept snap (f_vm f) (outcome_vm t)) (turn jt C E f)"
    using run_op_kept [OF keeps_op_table [OF assms(1)] assms(2,3)] by (auto simp: turn_def go_index_def)
  have next_turn: "yields (\<lambda>(f', r, e). kept snap (f_vm f) (f_vm f')) (loop n jt C E f')"
    if "kept snap (f_vm f) (f_vm f')" for f'
    by (rule yields_mono [OF Suc.IH]) (use that in \<open>auto intro: keeps_snaps_trans\<close>)
  show ?case
    unfolding loop.simps yields_bind
    by (rule yields_mono [OF turn]) (auto intro: next_turn split: outcome.split)
qed simp

section \<open>Calls\<close>

definition run_keeps :: "('s \<Rightarrow> nat \<Rightarrow> 'c option) \<Rightarrow> 's run_fn \<Rightarrow> bool" where
  "run_keeps snap run \<longleftrightarrow> (\<forall>vm c input ro. yields (\<lambda>(vm', c', ret, err). kept snap vm vm') (run vm c input ro))"

lemma put_db:
  "yields (\<lambda>vm'. vDB vm' = vDB vm) (read_put E vm a k v)" "yields (\<lambda>vm'. vDB vm' = vDB vm) (write_put E vm a k v w)"
  "new_contract vm cr a val g = (c, vm') \<Longrightarrow> vDB vm' = vDB vm"
  by (auto simp: read_put_def write_put_def new_contract_def yields_any split: prod.splits)

text \<open>The effect of a call that failed: the core of the database is as before and, but for a revert and the two
  checks before it starts, the gas is gone.\<close>

definition undone :: "('s \<Rightarrow> 'c) \<Rightarrow> ('s \<Rightarrow> nat \<Rightarrow> 'c option) \<Rightarrow> 's vm \<Rightarrow> u64 \<Rightarrow> 's vm \<times> bytes \<times> u64 \<times> vm_error option \<Rightarrow> bool" where
  "undone core snap vm gas r = (case r of (vm', ret, left, err) \<Rightarrow> kept snap vm vm' \<and>
     (err \<noteq> None \<longrightarrow> core (vDB vm') = core (vDB vm) \<and>
       (err \<in> {Some ErrDepth, Some ErrInsufficientBalance} \<and> left = gas \<or> err = Some ErrExecutionReverted \<or> left = 0)))"

lemma end_call_undone:
  assumes "journal_spec (eA E) (eJ E) core snap" and "take_snapshot E vm0 = (i, vm1)" and "vDB vm0 = vDB vm"
    and "yields (\<lambda>(vm', ret, left, err). kept snap vm1 vm') m"
  shows "yields (\<lambda>r. yields (undone core snap vm gas) (end_call E i r)) m"
proof -
  from assms(2,3) have db: "db_Snapshot (eJ E) (vDB vm) = (i, vDB vm1)"
    by (auto simp: take_snapshot_def split: prod.splits)
  show ?thesis
    by (rule yields_mono [OF assms(4)])
      (use snapshot_reverted [OF assms(1) db] snapshot_opened(2) [OF assms(1) db] in
        \<open>auto simp: end_call_def undone_def intro: keeps_snaps_trans\<close>)
qed

lemma run_contract_kept:
  assumes "run_keeps snap run" and "kept snap h vm"
  shows "yields (\<lambda>(vm', ret, left, err). kept snap h vm') (run_contract run vm c input ro)"
  unfolding run_contract_def yields_bind
  by (rule yields_mono [OF assms(1) [unfolded run_keeps_def, rule_format]])
    (use assms(2) in \<open>auto intro: keeps_snaps_trans\<close>)

lemma precompile_kept: "kept snap h vm \<Longrightarrow> yields (\<lambda>(vm', ret, left, err). kept snap h vm') (run_precompile vm p input gas)"
  by (auto simp: run_precompile_def yields_any)

lemma end_call_undone_now:
  assumes "journal_spec (eA E) (eJ E) core snap" and "take_snapshot E vm0 = (i, vm1)" and "vDB vm0 = vDB vm"
    and "kept snap vm1 vm'"
  shows "yields (undone core snap vm gas) (end_call E i (vm', ret, g, err))"
  using end_call_undone [OF assms(1-3), where m = "Some (vm', ret, g, err)"] assms(4) by simp

lemma undone_early [simp]: "undone core snap vm gas (vm, ret, gas, Some ErrDepth)"
    "vDB vm' = vDB vm \<Longrightarrow> undone core snap vm gas (vm', ret, gas, Some ErrInsufficientBalance)"
    "undone core snap vm gas (vm', ret, g, None) = kept snap vm vm'"
  by (auto simp: undone_def)

lemma run_calls_undone:
  assumes "journal_spec (eA E) (eJ E) core snap" and "run_keeps snap run"
  shows "yields (undone core snap vm gas) (Call run E vm cr a input gas v)"
    "yields (undone core snap vm gas) (CallCode run E vm cr a input gas v)"
    "yields (undone core snap vm gas) (DelegateCall run E vm cr a input gas)"
    "yields (undone core snap vm gas) (StaticCall run E vm cr a input gas)"
proof -
  note opened = snapshot_opened(2) [OF assms(1)]
  have taken: "kept snap vm vm1" if "take_snapshot E vm0 = (i, vm1)" "vDB vm0 = vDB vm" for vm0 i vm1
    using opened that by (auto simp: take_snapshot_def split: prod.splits)
  note tail = end_call_undone [OF assms(1)] end_call_undone_now [OF assms(1)] run_contract_kept [OF assms(2)] precompile_kept
  show "yields (undone core snap vm gas) (Call run E vm cr a input gas v)"
    by (auto simp: Call_def Let_def dest!: put_db(3) split: prod.split option.split
        intro!: yields_reads tail yields_mono [OF put_db(1)] yields_mono [OF put_db(2)] intro: taken)
  show "yields (undone core snap vm gas) (CallCode run E vm cr a input gas v)"
    "yields (undone core snap vm gas) (DelegateCall run E vm cr a input gas)"
    "yields (undone core snap vm gas) (StaticCall run E vm cr a input gas)"
    by (auto simp: CallCode_def DelegateCall_def StaticCall_def Let_def journal_specD [OF assms(1)] dest!: put_db(3)
        split: prod.split option.split intro!: yields_reads tail)
qed

lemma creation_kept:
  assumes "journal_spec (eA E) (eJ E) core snap" and "run_keeps snap run"
  shows "yields (\<lambda>(vm', ret, addr, left, err). kept snap vm vm') (create run E vm cr code h gas v a)"
proof -
  have run: "yields (\<lambda>(vm', c', ret, err). kept snap x vm') (run x c input ro)" for x c input ro
    using assms(2) by (simp add: run_keeps_def)
  have store: "yields (\<lambda>(vm', c', e). kept snap x vm') (store_code E a x c ret err)" for x c ret err
    by (auto simp: store_code_def Let_def intro!: yields_mono [OF put_db(2)] split: prod.split)
  have undo: "keeps_snaps snap (vDB vm) (db_RevertToSnapshot (eJ E) (vDB y) i)" "kept snap vm y"
    if "take_snapshot E (x\<lparr>vDB := db_AddAddressToAccessList (eJ E) (vDB vm) a\<rparr>) = (i, vm1)"
      "kept snap vm1 w" "kept snap w y" for x y w i vm1
  proof -
    from that(1) have db: "db_Snapshot (eJ E) (db_AddAddressToAccessList (eJ E) (vDB vm) a) = (i, vDB vm1)"
      by (auto simp: take_snapshot_def split: prod.splits)
    have y: "kept snap vm1 y" using that(2,3) by (rule keeps_snaps_trans)
    have "keeps_snaps snap (vDB vm) (db_AddAddressToAccessList (eJ E) (vDB vm) a)" by (rule journal_specD [OF assms(1)])
    with snapshot_reverted(2) [OF assms(1) db y] snapshot_opened(2) [OF assms(1) db] y
    show "keeps_snaps snap (vDB vm) (db_RevertToSnapshot (eJ E) (vDB y) i)" "kept snap vm y"
      by (auto intro: keeps_snaps_trans)
  qed
  show ?thesis
    by (auto simp: create_def Let_def journal_specD [OF assms(1)] dest!: put_db(3)
        intro!: yields_reads yields_mono [OF put_db(1)] yields_mono [OF put_db(2)] yields_mono [OF run]
          yields_mono [OF store] split: prod.split) (blast intro: undo)+
qed

lemma calls_kept:
  assumes "journal_spec (eA E) (eJ E) core snap" and "run_keeps snap run"
  shows "keep_calls snap (calls_of run E)"
proof -
  have u: "yields (undone core snap vm gas) m \<Longrightarrow> yields (\<lambda>(vm', ret, left, err). kept snap vm vm') m" for vm gas m
    by (erule yields_mono) (auto simp: undone_def)
  show ?thesis
    using u [OF run_calls_undone(1) [OF assms]] u [OF run_calls_undone(2) [OF assms]]
      u [OF run_calls_undone(3) [OF assms]] u [OF run_calls_undone(4) [OF assms]] creation_kept [OF assms]
    by (auto simp: keep_calls_def calls_of_def Create_def Create2_def Let_def intro!: yields_reads)
qed

lemma run_keeps_Run:
  assumes "newFrontierInstructionSet = Some jt" and "journal_spec (eA E) (eJ E) core snap"
  shows "run_keeps snap (Run d jt E)"
proof (induction d)
  case (Suc d)
  note enough = loop_kept [OF assms calls_kept [OF assms(2) Suc.IH]]
  show ?case
    by (auto simp: run_keeps_def Run_body_def Let_def simp del: loop.simps intro!: yields_mono [OF enough])
qed (simp add: run_keeps_def)

text \<open>C2. A message call that ends with an error, at any depth of nesting, leaves the core of the database as it
  found it, whatever the callee did. It returns no gas, but for a revert, and for the two checks before anything has been
  done, which return all of it.\<close>

theorem failed_call_is_undone:
  assumes "newFrontierInstructionSet = Some jt" and "journal_spec (eA E) (eJ E) core snap"
    and "r \<in> {Call (Run d jt E) E vm cr a input gas v, CallCode (Run d jt E) E vm cr a input gas v,
      DelegateCall (Run d jt E) E vm cr a input gas, StaticCall (Run d jt E) E vm cr a input gas}"
    and "r = Some (vm', ret, left, Some err)"
  shows "core (vDB vm') = core (vDB vm) \<and>
    (err \<in> {ErrDepth, ErrInsufficientBalance} \<and> left = gas \<or> err = ErrExecutionReverted \<or> left = 0)"
proof -
  have "yields (undone core snap vm gas) r"
    using run_calls_undone [OF assms(2) run_keeps_Run [OF assms(1,2)]] assms(3) by auto
  from yieldsD [OF this assms(4)] show ?thesis by (simp add: undone_def)
qed

end
