(* ===== verification/Calls.thy ===== *)
theory Calls
  imports Snapshots
begin

text \<open>
  What message calls and creations do: the guards, the transfer of the value, failed calls and their traces in the
  write set, the checks of deployed code, and collisions.
\<close>

section \<open>A failing call\<close>

text \<open>The account \<open>0xC0\<close> has the code \<open>ADD\<close>, which fails on the empty stack.\<close>

definition bad_core :: std_core where
  "bad_core = std_core_empty\<lparr>sc_code := (\<lambda>_. [])(0xC0 := [1])\<rparr>"

lemma std_env_ePre: "ePre std_env a = (if a = 4 then Some dataCopy else None)"
  by (simp add: std_env_def)

lemma turn_underflow: "turn (fill_table frontier) C std_env f =
    Some (Halt f [] (Some (ErrStackUnderflow 0 2)))"
  if "f_stack f = []" "f_pc f = 0" "Code (f_con f) = [1]"
  using that by (simp add: turn_def run_op_def GetOp_def frontier_Suc_0 stack_bounds go_index_def)

theorem failed_call_is_undone_witness:
  "\<exists>vm'. StaticCall (Run 1 (fill_table frontier) std_env) std_env (std_vm bad_core) (AccountRef 0xA0) 0xC0 [] 50 =
      Some (vm', [], 0, Some (ErrStackUnderflow 0 2)) \<and> fst (vDB vm') = bad_core"
proof -
  have "\<exists>vm'. StaticCall (Run 1 (fill_table frontier) std_env) std_env (std_vm bad_core) (AccountRef 0xA0) 0xC0 [] 50 =
      Some (vm', [], 0, Some (ErrStackUnderflow 0 2))"
    by (simp add: StaticCall_def Run_body_def std_vm_def bad_core_def take_snapshot_def std_journal_def std_accounts_def
        new_contract_def NewContract_def SetCallCode_def run_contract_def end_call_def loop_numeral turn_underflow
        newstack_def Let_def std_env_ePre)
  then obtain vm' where r: "StaticCall (Run 1 (fill_table frontier) std_env) std_env (std_vm bad_core) (AccountRef 0xA0) 0xC0 [] 50 =
      Some (vm', [], 0, Some (ErrStackUnderflow 0 2))" ..
  have J: "journal_spec (eA std_env) (eJ std_env) fst std_snap" by (simp add: std_journal_spec)
  from failed_call_is_undone [OF newFrontierInstructionSet_eq J _ r, where d = 1 and vm = "std_vm bad_core"
      and cr = "AccountRef 0xA0" and a = "0xC0" and input = "[]" and gas = 50 and v = 0] have "fst (vDB vm') = bad_core"
    by (simp add: std_vm_def)
  with r show ?thesis by blast
qed

section \<open>Guards\<close>

text \<open>Beyond a depth of 1024 every call and creation answers with the depth error and all of its gas, without touching the
  machine; so does one whose caller has too little balance (for \<^verbatim>\<open>Call\<close> when the value is not zero).\<close>

theorem call_guards:
  "(depth vm > 1024 \<longrightarrow>
      Call run E vm cr a input gas v = Some (vm, [], gas, Some ErrDepth) \<and>
      CallCode run E vm cr a input gas v = Some (vm, [], gas, Some ErrDepth) \<and>
      DelegateCall run E vm cr a input gas = Some (vm, [], gas, Some ErrDepth) \<and>
      StaticCall run E vm cr a input gas = Some (vm, [], gas, Some ErrDepth) \<and>
      create run E vm cr code h gas v a = Some (vm, [], 0, gas, Some ErrDepth)) \<and>
   (depth vm \<le> 1024 \<and> can_transfer E vm (ref_Address cr) v = Some False \<longrightarrow>
      (v \<noteq> 0 \<longrightarrow> Call run E vm cr a input gas v = Some (vm, [], gas, Some ErrInsufficientBalance)) \<and>
      CallCode run E vm cr a input gas v = Some (vm, [], gas, Some ErrInsufficientBalance) \<and>
      create run E vm cr code h gas v a = Some (vm, [], 0, gas, Some ErrInsufficientBalance))"
  by (auto simp: Call_def CallCode_def DelegateCall_def StaticCall_def create_def)

theorem call_guards_witness:
  "CallCode (Run 1 (fill_table frontier) std_env) std_env ((std_vm bad_core)\<lparr>depth := 1025\<rparr>) (AccountRef 0xA0) 0xC0 [] 50 7 =
     Some ((std_vm bad_core)\<lparr>depth := 1025\<rparr>, [], 50, Some ErrDepth) \<and>
   Call (Run 1 (fill_table frontier) std_env) std_env (std_vm bad_core) (AccountRef 0xA0) 0xC0 [] 50 7 =
     Some (std_vm bad_core, [], 50, Some ErrInsufficientBalance)"
proof -
  have "depth ((std_vm bad_core)\<lparr>depth := 1025\<rparr>) > 1024" "depth (std_vm bad_core) \<le> 1024"
    "can_transfer std_env (std_vm bad_core) (ref_Address (AccountRef 0xA0)) 7 = Some False"
    by (simp_all add: can_transfer_def std_vm_def std_env_def GetAddressAndKey_def NewWriteSet_def bad_core_def
        std_core_empty_def)
  then show ?thesis
    using call_guards [of "(std_vm bad_core)\<lparr>depth := 1025\<rparr>" _ std_env "AccountRef 0xA0" "0xC0" "[]" 50 7]
      call_guards [of "std_vm bad_core" _ std_env "AccountRef 0xA0" "0xC0" "[]" 50 7]
    by simp
qed

section \<open>The transfer of the value\<close>

text \<open>C34. The transfer of a call is written to the write set before the callee runs, and a failing callee does
  not take it back: here a precompiled contract fails, the database is reverted, and the caller is still
  debited and the receiver credited.\<close>

theorem failed_call_keeps_transfer:
  assumes "depth vm \<le> 1024" and "can_transfer E vm (ref_Address cr) v = Some True" and "0 < big_Uint64 v"
    and "db_Snapshot (eJ E) (vDB vm) = (i, s)" and "db_Exist (eA E) s a"
    and "ePre E a = Some p" and "RunRrecompiledContractPre p input gas = Some (ret, left, Some e)"
    and "distinct [SubBalanceKey (eK E), BalanceKey (eK E), SetCodeKey (eK E)]" and "ref_Address cr \<noteq> a"
    and "vWriteSet vm = NewWriteSet" and "vReadSet vm = NewReadSet"
  shows "\<exists>vm' left'. Call run E vm cr a input gas v = Some (vm', ret, left', Some e) \<and>
    vDB vm' = db_RevertToSnapshot (eJ E) s i \<and>
    GetAddressAndKey (vWriteSet vm') (ref_Address cr) (SubBalanceKey (eK E)) = Some (VBig v) \<and>
    GetAddressAndKey (vWriteSet vm') a (BalanceKey (eK E)) = Some (VBig (db_GetBalance (eA E) s a + v))"
proof -
  have "GetAddressAndKey NewWriteSet b k = None" "GetAddressAndKey NewReadSet b k = None" for b k
    by (simp_all add: GetAddressAndKey_def NewWriteSet_def NewReadSet_def)
  then show ?thesis
    using assms
    by (auto simp: Call_def Let_def take_snapshot_def read_put_def write_put_def WriteSet_UpdateCache_eq
        ReadSet_UpdateCache_eq write_value_def read_value_def balance_of_def GetAddressAndKey_put new_contract_def
        load_code_def run_precompile_def end_call_def split: prod.split)
qed

text \<open>A call of the identity contract that cannot pay for it.\<close>

definition rich_core :: std_core where
  "rich_core = std_core_empty\<lparr>sc_balance := (\<lambda>_. 100)\<rparr>"

theorem failed_call_keeps_transfer_witness:
  "\<exists>vm' left'. Call (Run 0 (fill_table frontier) std_env) std_env (std_vm rich_core) (AccountRef 0xA0) 4 [] 3 7 =
      Some (vm', [], left', Some ErrOutOfGas) \<and>
    fst (vDB vm') = rich_core \<and>
    GetAddressAndKey (vWriteSet vm') 0xA0 (SubBalanceKey keys_std) = Some (VBig 7) \<and>
    GetAddressAndKey (vWriteSet vm') 4 (BalanceKey keys_std) = Some (VBig 107)"
proof -
  have t: "can_transfer std_env (std_vm rich_core) (ref_Address (AccountRef 0xA0)) 7 = Some True"
    by (simp add: can_transfer_def std_vm_def std_env_def GetAddressAndKey_def NewWriteSet_def rich_core_def
        std_core_empty_def)
  have s: "db_Snapshot (eJ std_env) (vDB (std_vm rich_core)) = (0, (rich_core, [(0, rich_core)]))"
    "db_Exist (eA std_env) (rich_core, [(0, rich_core)]) 4"
    by (simp_all add: std_journal_def std_accounts_def std_vm_def rich_core_def)
  have p: "ePre std_env 4 = Some dataCopy" "RunRrecompiledContractPre dataCopy [] 3 = Some ([], 0, Some ErrOutOfGas)"
    by (simp_all add: std_env_ePre RunRrecompiledContractPre_def dataCopy_def input_words_def)
  have k: "distinct [SubBalanceKey (eK std_env), BalanceKey (eK std_env), SetCodeKey (eK std_env)]"
    by (simp add: keys_std_def)
  from failed_call_keeps_transfer [OF _ t _ s p k, of "Run 0 (fill_table frontier) std_env"] show ?thesis
    by (auto simp: std_vm_def std_journal_def std_accounts_def rich_core_def big_Uint64_def)
qed

text \<open>Only the lowest 64 bits of the value count for a transfer: a value that is a multiple of \<open>2 ^ 64\<close> moves no
  balance, even for a caller without any, but the callee runs with the full value.\<close>

theorem call_value_is_truncated:
  assumes "depth vm \<le> 1024" and "2 ^ 64 dvd v" and "GetAddressAndKey (vWriteSet vm) (ref_Address cr) (BalanceKey (eK E)) = Some (VBig b)"
    and "db_Snapshot (eJ E) (vDB vm) = (i, s)" and "db_Exist (eA E) s a"
    and "ePre E a = None" and "GetAddressAndKey (vWriteSet vm) a (SetCodeKey (eK E)) = None" and "db_GetCode (eA E) s a \<noteq> []"
    and "Call run E vm cr a input gas v = Some r"
  shows "\<exists>vm' c. vWriteSet vm' = vWriteSet vm \<and> c_value c = Some v \<and> Code c = db_GetCode (eA E) s a \<and>
    Gas c = gas \<and> (run_contract run vm' c input False \<bind> end_call E i) = Some r"
proof -
  have v: "big_Uint64 v = 0"
    using assms(2) by (auto simp: big_Uint64_def abs_mult word_of_int_eq_0_iff take_bit_eq_0_iff)
  have "\<exists>vm1. read_put E vm (ref_Address cr) (BalanceKey (eK E)) (VBig v) = Some vm1 \<and> vWriteSet vm1 = vWriteSet vm \<and> vDB vm1 = vDB vm"
    using assms(1,3,9) by (auto simp: Call_def can_transfer_def read_put_def bind_Some_iff v split: if_splits)
  then obtain vm1 where vm1: "read_put E vm (ref_Address cr) (BalanceKey (eK E)) (VBig v) = Some vm1"
    "vWriteSet vm1 = vWriteSet vm" "vDB vm1 = vDB vm" by blast
  let ?vm = "vm1\<lparr>vDB := s\<rparr>"
  obtain c vm2 where c: "new_contract ?vm cr a (Some v) gas = (c, vm2)" by fastforce
  have vm2: "vWriteSet vm2 = vWriteSet vm" "c_value c = Some v" "Gas c = gas" "vDB vm2 = s"
    using c vm1(2) by (auto simp: new_contract_def NewContract_def Let_def split: contract_ref.splits prod.splits)
  then show ?thesis
    using assms c vm1 v
    by (auto simp: Call_def Let_def can_transfer_def take_snapshot_def load_code_def SetCallCode_def
        intro!: exI [of _ vm2] exI [of _ "SetCallCode c a (db_GetCodeHash (eA E) s a) (db_GetCode (eA E) s a)"])
qed

text \<open>The account \<open>0xC0\<close> is called with a value of \<open>2 ^ 64\<close> by a caller whose balance is 0.\<close>

theorem call_value_is_truncated_witness:
  "\<exists>vm' c. vWriteSet vm' = vWriteSet ((std_vm bad_core)\<lparr>vWriteSet := rw_put NewWriteSet 0xA0 (BalanceKey keys_std) (VBig 0)\<rparr>) \<and>
    c_value c = Some (2 ^ 64) \<and> Code c = [1] \<and> Gas c = 50 \<and>
    (run_contract (\<lambda>vm c input ro. Some (vm, c, [], None)) vm' c [] False \<bind> end_call std_env 0) \<noteq> None"
proof -
  let ?vm = "(std_vm bad_core)\<lparr>vWriteSet := rw_put NewWriteSet 0xA0 (BalanceKey keys_std) (VBig 0)\<rparr>"
  let ?run = "\<lambda>vm c input ro. Some (vm, c, [], None)"
  have new: "GetAddressAndKey NewWriteSet b k = None" "GetAddressAndKey NewReadSet b k = None" for b k
    by (simp_all add: GetAddressAndKey_def NewWriteSet_def NewReadSet_def)
  have b: "GetAddressAndKey (vWriteSet ?vm) (ref_Address (AccountRef 0xA0)) (BalanceKey (eK std_env)) = Some (VBig 0)"
    and k: "GetAddressAndKey (vWriteSet ?vm) 0xC0 (SetCodeKey (eK std_env)) = None"
    by (simp_all add: GetAddressAndKey_put new)
  have s: "db_Snapshot (eJ std_env) (vDB ?vm) = (0, (bad_core, [(0, bad_core)]))"
    "db_Exist (eA std_env) (bad_core, [(0, bad_core)]) 0xC0" "db_GetCode (eA std_env) (bad_core, [(0, bad_core)]) 0xC0 = [1]"
    by (simp_all add: std_journal_def std_accounts_def std_vm_def bad_core_def)
  have "\<exists>r. Call ?run std_env ?vm (AccountRef 0xA0) 0xC0 [] 50 (2 ^ 64) = Some r"
    using b k s by (auto simp: Call_def can_transfer_def Let_def take_snapshot_def read_put_def ReadSet_UpdateCache_eq
        read_value_def std_vm_def new std_env_ePre load_code_def run_contract_def new_contract_def NewContract_def
        end_call_def big_Uint64_def)
  then obtain r where "Call ?run std_env ?vm (AccountRef 0xA0) 0xC0 [] 50 (2 ^ 64) = Some r" ..
  from call_value_is_truncated [OF _ _ b s(1,2) _ k _ this] s(3) obtain vm' c where
    "vWriteSet vm' = vWriteSet ?vm" "c_value c = Some (2 ^ 64)" "Code c = [1]" "Gas c = 50"
    "(run_contract ?run vm' c [] False \<bind> end_call std_env 0) = Some r"
    by (auto simp: std_env_ePre std_vm_def)
  then show ?thesis by (metis option.distinct(1))
qed

section \<open>Creations\<close>

lemma store_code_stored:
  assumes "store_code E a vm c ret err = Some (vm', c', None)" and "keys_distinct (eK E)"
  shows "err = None \<and> length ret \<le> 24576 \<and> (ret = [] \<or> hd ret \<noteq> 0xEF) \<and> unat (Gas c') + 200 * length ret = unat (Gas c) \<and>
    GetAddressAndKey (vWriteSet vm') a (SetCodeKey (eK E)) = Some (VBytes ret)"
proof -
  have err: "err = None \<and> length ret \<le> 24576 \<and> (ret = [] \<or> hd ret \<noteq> 0xEF)"
    using assms(1) by (auto simp: store_code_def Let_def hd_conv_nth not_less Suc_le_eq split: if_splits)
  then have g: "unat (of_nat (length ret) * CreateDataGas :: u64) = 200 * length ret"
    by (subst unat_mult_u64_no_wrap) (simp_all add: unat_of_nat)
  from err assms(1) show ?thesis
    using assms(2) g
    by (auto simp: store_code_def Let_def UseGas_exact write_put_def WriteSet_UpdateCache_eq write_value_def
        GetAddressAndKey_put keys_distinct_def unat_sub_u64 word_le_nat_alt split: if_splits)
qed

text \<open>C26. A creation that ends without error has stored in the write set exactly what the deployment code returned: at most
  24576 bytes, not starting with \<open>0xEF\<close>, paid with 200 gas per byte out of what the run left.\<close>

theorem deployed_code_is_checked:
  assumes "create run E vm cr code h gas v a = Some (vm', ret, addr, left, None)" and "keys_distinct (eK E)"
  shows "addr = a \<and> GetAddressAndKey (vWriteSet vm') a (SetCodeKey (eK E)) = Some (VBytes ret) \<and>
    length ret \<le> 24576 \<and> (ret = [] \<or> hd ret \<noteq> 0xEF) \<and>
    (\<exists>vmr c c' vm1. run vmr c [] False = Some (vm1, c', ret, None) \<and> Code c = code \<and> Gas c = gas \<and>
       unat left + 200 * length ret = unat (Gas c'))"
proof -
  define origin where "origin vm1 c' ret err \<longleftrightarrow> (\<exists>vmr c. run vmr c [] False = Some (vm1, c', ret, err) \<and>
    Code c = code \<and> Gas c = gas)" for vm1 c' ret err
  define stored where "stored vm' c2 ret \<longleftrightarrow> (\<exists>vm1 c' err. origin vm1 c' ret err \<and>
    store_code E a vm1 c' ret err = Some (vm', c2, None))" for vm' c2 ret
  have run: "yields (\<lambda>(vm1, c', ret, err). origin vm1 c' ret err) (run x c [] False)"
    if "Code c = code" "Gas c = gas" for x c
    using that by (auto simp: yields_def origin_def)
  have store: "yields (\<lambda>(vm', c2, e). e = None \<longrightarrow> stored vm' c2 ret) (store_code E a x c ret err)"
    if "origin x c ret err" for x c ret err
    using that by (auto simp: yields_def stored_def)
  have "yields (\<lambda>(vm', ret, addr, left, e). e = None \<longrightarrow> addr = a \<and> (\<exists>c2. stored vm' c2 ret \<and> left = Gas c2))
      (create run E vm cr code h gas v a)"
    by (auto simp: create_def Let_def SetCodeOptionalHash_def dest!: new_contract_gas split: prod.split
        intro!: yields_reads yields_any [of _ "read_put E vm a k v" for E vm a k v]
          yields_any [of _ "write_put E vm a k v w" for E vm a k v w] yields_mono [OF run] yields_mono [OF store])
  from yieldsD [OF this assms(1)] obtain c2 vm1 c' err where "addr = a" "left = Gas c2"
    and o: "origin vm1 c' ret err" and st: "store_code E a vm1 c' ret err = Some (vm', c2, None)"
    by (auto simp: stored_def)
  with store_code_stored [OF st assms(2)] show ?thesis by (auto simp: origin_def)
qed

theorem deployed_code_is_checked_witness:
  "\<exists>vm'. create (\<lambda>vm c input ro. Some (vm, c, [0x60], None)) std_env (std_vm std_core_empty) (AccountRef 0xA0) [] 0 1000 0 0xC5 =
      Some (vm', [0x60], 0xC5, 800, None) \<and>
    GetAddressAndKey (vWriteSet vm') 0xC5 (SetCodeKey keys_std) = Some (VBytes [0x60])"
proof -
  have new: "GetAddressAndKey NewWriteSet b k = None" "GetAddressAndKey NewReadSet b k = None" for b k
    by (simp_all add: GetAddressAndKey_def NewWriteSet_def NewReadSet_def)
  have "\<exists>vm'. create (\<lambda>vm c input ro. Some (vm, c, [0x60], None)) std_env (std_vm std_core_empty) (AccountRef 0xA0) [] 0 1000 0 0xC5 =
      Some (vm', [0x60], 0xC5, 800, None)"
    by (simp add: create_def Let_def can_transfer_def nonce_of_def read_put_def write_put_def ReadSet_UpdateCache_eq
        WriteSet_UpdateCache_eq read_value_def write_value_def std_vm_def new take_snapshot_def new_contract_def
        NewContract_def SetCodeOptionalHash_def store_code_def UseGas_def keys_std_def std_journal_def std_accounts_def
        std_core_empty_def GetAddressAndKey_put) (simp add: std_env_def std_core_empty_def)
  then show ?thesis using deployed_code_is_checked keys_std_distinct by fastforce
qed

text \<open>\<^verbatim>\<open>Create\<close> works out the address of the new contract and then creates at the address of the
  caller: a caller that has code or a nonce, as every contract has, gets the collision error and loses the gas,
  whatever it deploys.\<close>

theorem create_collides_with_caller:
  assumes "s = db_AddAddressToAccessList (eJ E) (vDB vm) (ref_Address cr)"
    and "db_GetNonce (eA E) s (ref_Address cr) \<noteq> 0 \<or>
      db_GetCodeHash (eA E) s (ref_Address cr) \<notin> {0, g_Keccak256Hash (eG E) []}"
    and "depth vm \<le> 1024" and "can_transfer E vm (ref_Address cr) v = Some True"
    and "nonce_of E vm (ref_Address cr) = Some n" and "unat n + 1 < 2 ^ 64" and "keys_distinct (eK E)"
  shows "\<exists>vm'. Create run E vm cr code gas v = Some (vm', [], 0, 0, Some ErrContractAddressCollision) \<and> vDB vm' = s"
proof -
  have "\<not> n + 1 < n" using assms(6) by (simp add: word_less_nat_alt unat_add_u64_no_wrap)
  then show ?thesis
    using assms
    by (auto simp: Create_def create_def Let_def read_put_def write_put_def ReadSet_UpdateCache_eq WriteSet_UpdateCache_eq
        read_value_def write_value_def keys_distinct_def)
qed

theorem create_collides_with_caller_witness:
  "\<exists>vm'. Create (Run 5 (fill_table frontier) std_env) std_env (std_vm bad_core) (AccountRef 0xC0) [0x60] 9000 0 =
    Some (vm', [], 0, 0, Some ErrContractAddressCollision)"
proof -
  let ?s = "(bad_core\<lparr>sc_warm := [0xC0]\<rparr>, [])"
  have "?s = db_AddAddressToAccessList (eJ std_env) (vDB (std_vm bad_core)) (ref_Address (AccountRef 0xC0))"
    by (simp add: std_journal_def std_vm_def bad_core_def std_core_empty_def)
  moreover have "db_GetCodeHash (eA std_env) ?s (ref_Address (AccountRef 0xC0)) \<notin> {0, g_Keccak256Hash (eG std_env) []}"
    by (simp add: std_accounts_def bad_core_def geth_std_def)
  moreover have "can_transfer std_env (std_vm bad_core) (ref_Address (AccountRef 0xC0)) 0 = Some True"
    "nonce_of std_env (std_vm bad_core) (ref_Address (AccountRef 0xC0)) = Some 0"
    by (simp_all add: can_transfer_def nonce_of_def std_vm_def std_env_def GetAddressAndKey_def NewWriteSet_def
        bad_core_def std_core_empty_def std_accounts_def)
  ultimately show ?thesis
    using create_collides_with_caller [of ?s std_env "std_vm bad_core" "AccountRef 0xC0" 0 0] keys_std_distinct
    by (fastforce simp: std_vm_def)
qed

end
