(* ===== verification/StaticDb.thy ===== *)
theory StaticDb
  imports Snapshots
begin

text \<open>
  A static run and the database: of the accounts, a run under the read-only flag leaves balances, nonces, codes, slots and
  the marks of destroyed accounts as they were, nested calls and their reverts included. The gas functions and most
  instructions keep them in any run; the others stop under the flag; a call that fails restores the core of the
  database (\<open>Snapshots\<close>).
\<close>

section \<open>The accounts that can be seen\<close>

text \<open>What \<open>static_runs_write_nothing\<close> is about: the answers of the database on accounts, and that two of its states give the same.\<close>

definition same_accounts :: "'s account_ops \<Rightarrow> 's \<Rightarrow> 's \<Rightarrow> bool" where
  "same_accounts A s s' \<longleftrightarrow> db_GetBalance A s' = db_GetBalance A s \<and> db_GetNonce A s' = db_GetNonce A s \<and>
     db_GetCode A s' = db_GetCode A s \<and> db_GetState A s' = db_GetState A s \<and>
     db_GetCommittedState A s' = db_GetCommittedState A s \<and> db_HasSuicided A s' = db_HasSuicided A s"

lemma same_accounts_refl [simp]: "same_accounts A s s"
  by (simp add: same_accounts_def)

lemma same_accounts_trans: "same_accounts A s t \<Longrightarrow> same_accounts A t u \<Longrightarrow> same_accounts A s u"
  by (simp add: same_accounts_def)

text \<open>The books of refunds, access lists, preimages and snapshots are kept apart from the accounts, adding nothing to a
  balance leaves it, and the part that snapshots save determines the accounts.\<close>

definition apart_spec :: "'s account_ops \<Rightarrow> 's journal_ops \<Rightarrow> ('s \<Rightarrow> 'c) \<Rightarrow> bool" where
  "apart_spec A J core \<longleftrightarrow>
     (\<forall>s n. same_accounts A s (db_AddRefund J s n)) \<and>
     (\<forall>s s' n. db_SubRefund J s n = Some s' \<longrightarrow> same_accounts A s s') \<and>
     (\<forall>s a. same_accounts A s (db_AddAddressToAccessList J s a)) \<and>
     (\<forall>s a k. same_accounts A s (db_AddSlotToAccessList J s a k)) \<and>
     (\<forall>s h d. same_accounts A s (db_AddPreimage J s h d)) \<and>
     (\<forall>s a. same_accounts A s (db_AddBalance A s a 0)) \<and>
     (\<forall>s. same_accounts A s (snd (db_Snapshot J s))) \<and>
     (\<forall>s s'. core s' = core s \<longrightarrow> same_accounts A s s')"

lemma apart_specD:
  assumes "apart_spec A J core"
  shows "same_accounts A s (db_AddRefund J s n)" "db_SubRefund J s n = Some s' \<Longrightarrow> same_accounts A s s'"
    "same_accounts A s (db_AddAddressToAccessList J s a)" "same_accounts A s (db_AddSlotToAccessList J s a k)"
    "same_accounts A s (db_AddPreimage J s h d)" "same_accounts A s (db_AddBalance A s a 0)"
    "db_Snapshot J s = (i, s') \<Longrightarrow> same_accounts A s s'" "core s' = core s \<Longrightarrow> same_accounts A s s'"
  using assms unfolding apart_spec_def by (blast, blast, blast, blast, blast, blast, metis snd_conv, blast)

lemma std_apart_spec: "apart_spec std_accounts std_journal fst"
  by (auto simp: apart_spec_def same_accounts_def std_accounts_def std_journal_def split: if_splits)

abbreviation seen :: "'s env \<Rightarrow> 's vm \<Rightarrow> 's vm \<Rightarrow> bool" where
  "seen E vm vm' \<equiv> same_accounts (eA E) (vDB vm) (vDB vm')"

definition quiet_calls :: "'s env \<Rightarrow> 's calls \<Rightarrow> bool" where
  "quiet_calls E C \<longleftrightarrow> (\<forall>vm. readOnly vm \<longrightarrow>
     (\<forall>cr a i g v. yields (\<lambda>(vm', ret, left, err). seen E vm vm') (c_Call C vm cr a i g v)) \<and>
     (\<forall>cr a i g v. yields (\<lambda>(vm', ret, left, err). seen E vm vm') (c_CallCode C vm cr a i g v)) \<and>
     (\<forall>cr a i g. yields (\<lambda>(vm', ret, left, err). seen E vm vm') (c_DelegateCall C vm cr a i g)) \<and>
     (\<forall>cr a i g. yields (\<lambda>(vm', ret, left, err). seen E vm vm') (c_StaticCall C vm cr a i g)))"

definition quiet_exec :: "('s \<Rightarrow> 'c) \<Rightarrow> 's exec \<Rightarrow> bool" where
  "quiet_exec core ex \<longleftrightarrow> (\<forall>C E f. apart_spec (eA E) (eJ E) core \<longrightarrow> quiet_calls E C \<longrightarrow> readOnly (f_vm f) \<longrightarrow>
     yields (\<lambda>(f', r, e). seen E (f_vm f) (f_vm f')) (ex C E f))"

definition quiet_gas :: "('s \<Rightarrow> 'c) \<Rightarrow> 's gas_func \<Rightarrow> bool" where
  "quiet_gas core d \<longleftrightarrow> (\<forall>E f n. apart_spec (eA E) (eJ E) core \<longrightarrow>
     yields (\<lambda>(f', r). seen E (f_vm f) (f_vm f')) (d E f n))"

named_theorems quiet_laws \<open>instructions and gas functions leave the accounts alone in a static run\<close>

section \<open>Instructions\<close>

lemma quiet_shapes:
  "quiet_exec core1 (stack_op1 g1)" "quiet_exec core2 (stack_op2 g2)" "quiet_exec core3 (stack_op3 g3)"
  "quiet_exec core4 (push_value h)"
  by (simp_all add: quiet_exec_def stack_op1_def stack_op2_def stack_op3_def push_value_def yields_any split: prod.split)

lemma quiet_arith [quiet_laws]:
  "quiet_exec core opAdd" "quiet_exec core opSub" "quiet_exec core opMul" "quiet_exec core opDiv"
  "quiet_exec core opSdiv" "quiet_exec core opMod" "quiet_exec core opSmod" "quiet_exec core opExp"
  "quiet_exec core opSignExtend" "quiet_exec core opNot" "quiet_exec core opLt" "quiet_exec core opGt"
  "quiet_exec core opSlt" "quiet_exec core opSgt" "quiet_exec core opEq" "quiet_exec core opIszero"
  "quiet_exec core opAnd" "quiet_exec core opOr" "quiet_exec core opXor" "quiet_exec core opByte"
  "quiet_exec core opAddmod" "quiet_exec core opMulmod" "quiet_exec core opSHL" "quiet_exec core opSHR"
  "quiet_exec core opSAR"
  by (simp_all only: arith_defs quiet_shapes)

lemma quiet_environment [quiet_laws]:
  "quiet_exec core opAddress" "quiet_exec core opOrigin" "quiet_exec core opCaller"
  "quiet_exec core opCallValue" "quiet_exec core opCallDataSize" "quiet_exec core opReturnDataSize"
  "quiet_exec core opCodeSize" "quiet_exec core opGasprice" "quiet_exec core opCoinbase"
  "quiet_exec core opTimestamp" "quiet_exec core opNumber" "quiet_exec core opDifficulty"
  "quiet_exec core opRandom" "quiet_exec core opGasLimit" "quiet_exec core opPc"
  "quiet_exec core opMsize" "quiet_exec core opGas" "quiet_exec core opPush0"
  "quiet_exec core opSelfBalance" "quiet_exec core opChainID" "quiet_exec core opBaseFee"
  by (simp_all only: push_value_ops quiet_shapes)

lemma quiet_single [quiet_laws]:
  "quiet_exec core opBalance" "quiet_exec core opCallDataLoad" "quiet_exec core opExtCodeSize"
  "quiet_exec core opExtCodeHash" "quiet_exec core opBlockhash" "quiet_exec core opMload"
  "quiet_exec core opSload" "quiet_exec core opKeccak256" "quiet_exec core opCallDataCopy"
  "quiet_exec core opReturnDataCopy" "quiet_exec core opCodeCopy" "quiet_exec core opExtCodeCopy"
  "quiet_exec core opPop" "quiet_exec core opMstore" "quiet_exec core opMstore8"
  "quiet_exec core opJumpdest" "quiet_exec core opReturn" "quiet_exec core opRevert"
  "quiet_exec core opUndefined" "quiet_exec core opStop" "quiet_exec core (makePush n k)"
  "quiet_exec core opPush1" "quiet_exec core (makeDup m)" "quiet_exec core (makeSwap m)"
  by (simp_all add: quiet_exec_def opBalance_def opCallDataLoad_def opExtCodeSize_def opExtCodeHash_def opBlockhash_def
      opMload_def opSload_def opKeccak256_def opCallDataCopy_def opReturnDataCopy_def opCodeCopy_def opExtCodeCopy_def
      opPop_def opMstore_def opMstore8_def opJumpdest_def opReturn_def opRevert_def opUndefined_def opStop_def
      makePush_def opPush1_def makeDup_def makeSwap_def set_db_def yields_stack Let_def
      yields_any apart_specD split: prod.split)

text \<open>The instructions that write, and the two that create, stop under the flag before anything is done.\<close>

lemma quiet_writers [quiet_laws]:
  "quiet_exec core opSstore" "quiet_exec core opSelfdestruct" "quiet_exec core (makeLog m)"
  "quiet_exec core opCreate" "quiet_exec core opCreate2"
  by (simp_all add: quiet_exec_def opSstore_def opSelfdestruct_def makeLog_def opCreate_def opCreate2_def)

lemma check_dest_seen: "yields (\<lambda>(ok, f'). seen E' (f_vm f) (f_vm f')) (check_dest E f pos)"
  by (auto simp: check_dest_def intro: yields_any)

lemma quiet_jumps [quiet_laws]: "quiet_exec core opJump" "quiet_exec core opJumpi"
  by (auto simp: quiet_exec_def opJump_def opJumpi_def yields_stack Let_def intro!: yields_mono [OF check_dest_seen])

lemma quiet_callsD:
  assumes "quiet_calls E C" and "readOnly vm"
  shows "yields (\<lambda>(vm', ret, left, err). seen E vm vm') (c_Call C vm cr a i g v)"
    "yields (\<lambda>(vm', ret, left, err). seen E vm vm') (c_CallCode C vm cr a i g v)"
    "yields (\<lambda>(vm', ret, left, err). seen E vm vm') (c_DelegateCall C vm cr a i g)"
    "yields (\<lambda>(vm', ret, left, err). seen E vm vm') (c_StaticCall C vm cr a i g)"
  using assms by (simp_all add: quiet_calls_def)

lemma call_return_seen:
  "seen E (f_vm f) vm \<Longrightarrow> yields (\<lambda>(f', r, e). seen E (f_vm f) (f_vm f')) (call_return f st off n (vm, ret, left, err))"
  by (auto simp: call_return_def Let_def yields_any)

lemma quiet_call_ops [quiet_laws]:
  "quiet_exec core opCall" "quiet_exec core opCallCode" "quiet_exec core opDelegateCall" "quiet_exec core opStaticCall"
  by (auto simp: quiet_exec_def opCall_def opCallCode_def opDelegateCall_def opStaticCall_def
      yields_stack Let_def intro!: yields_mem yields_mono [OF quiet_callsD(1)] yields_mono [OF quiet_callsD(2)]
      yields_mono [OF quiet_callsD(3)] yields_mono [OF quiet_callsD(4)] call_return_seen)

section \<open>Gas functions\<close>

lemma quiet_gas_memory:
  "quiet_gas core pureMemoryGascost" "quiet_gas core (memoryCopierGas k)" "quiet_gas core gasCreateEip3860"
  "quiet_gas core gasCreate2Eip3860" "quiet_gas core (makeGasLog m)" "quiet_gas core (wordsGas k)"
  by (simp_all add: quiet_gas_def gas_unfold mem_gas_frame Let_def yields_any split: sum.split prod.split)

lemma quiet_gas_state:
  "quiet_gas core gasExtCodeCopyEIP2929" "quiet_gas core gasEip2929AccountCheck"
  "quiet_gas core gasSLoadEIP2929" "quiet_gas core gasExpEIP158" "quiet_gas core gasSelfdestructEIP3529"
  by (simp_all add: quiet_gas_def gasExtCodeCopyEIP2929_def gasExtCodeCopy_def memoryCopierGas_def mem_gas_frame
      gasEip2929AccountCheck_def gasSLoadEIP2929_def gasExpEIP158_def gasSelfdestructEIP3529_def
      makeSelfdestructGasFn_def set_db_def Let_def yields_any apart_specD split: sum.split prod.split)

lemma quiet_gas_sstore: "quiet_gas core gasSStoreEIP3529"
  unfolding quiet_gas_def
proof (intro allI impI)
  fix E :: "'a env" and f :: "'a frame" and n
  assume J: "apart_spec (eA E) (eJ E) core"
  have sub: "yields (\<lambda>s'. same_accounts (eA E) s0 s') (db_SubRefund (eJ E) s g)" if "same_accounts (eA E) s0 s" for s0 s g
    using apart_specD(2) [OF J] that by (auto simp: yields_def intro: same_accounts_trans)
  show "yields (\<lambda>(f', r). seen E (f_vm f) (f_vm f')) (gasSStoreEIP3529 E f n)"
    by (auto simp: gasSStoreEIP3529_def makeGasSStoreFunc_def set_db_def Let_def map_option_then
        intro!: yields_any [of _ "Back st i" for st i] yields_any [of _ "peek st" for st] yields_mono [OF sub]
          same_accounts_trans [OF _ apart_specD(1) [OF J]] apart_specD(4) [OF J] split: prod.split)
qed

lemma quiet_gas_variant:
  assumes "quiet_gas core old"
  shows "quiet_gas core (makeCallVariantGasCallEIP2929 old)"
  unfolding quiet_gas_def
proof (intro allI impI)
  fix E :: "'a env" and f :: "'a frame" and n
  assume J: "apart_spec (eA E) (eJ E) core"
  have charged: "yields (\<lambda>(f', r). seen E (f_vm f) (f_vm f')) (old E h n)" if "seen E (f_vm f) (f_vm h)" for h
    by (rule yields_mono [OF assms [unfolded quiet_gas_def, rule_format, OF J]])
      (use that in \<open>auto intro: same_accounts_trans\<close>)
  show "yields (\<lambda>(f', r). seen E (f_vm f) (f_vm f')) (makeCallVariantGasCallEIP2929 old E f n)"
    by (auto simp: makeCallVariantGasCallEIP2929_def UseGas_def set_db_def Let_def apart_specD [OF J]
        intro!: yields_any [of _ "Back st i" for st i] yields_mono [OF charged] split: sum.splits)
qed

lemma quiet_gas_old_calls:
  "quiet_gas core gasCall" "quiet_gas core gasCallCode" "quiet_gas core gasDelegateCall" "quiet_gas core gasStaticCall"
  by (simp_all add: quiet_gas_def gasCall_def gasCallCode_def gasDelegateCall_def gasStaticCall_def charge_call_def
      mem_gas_frame Let_def yields_any split: sum.split)

lemma quiet_gas_table [quiet_laws]:
  "quiet_gas core gasCallEIP2929" "quiet_gas core gasCallCodeEIP2929" "quiet_gas core gasDelegateCallEIP2929"
  "quiet_gas core gasStaticCallEIP2929" "quiet_gas core gasCallDataCopy" "quiet_gas core gasCodeCopy"
  "quiet_gas core gasKeccak256" "quiet_gas core gasMLoad" "quiet_gas core gasMStore"
  "quiet_gas core gasMStore8" "quiet_gas core gasReturn" "quiet_gas core gasReturnDataCopy"
  "quiet_gas core gasRevert"
  by (simp_all add: gasCallEIP2929_def gasCallCodeEIP2929_def gasDelegateCallEIP2929_def gasStaticCallEIP2929_def
      mem_aliases quiet_gas_variant quiet_gas_old_calls quiet_gas_memory)

lemmas quiet_gas_laws = quiet_laws quiet_gas_memory quiet_gas_state quiet_gas_sstore

section \<open>The table and the loop\<close>

definition quiet_op :: "('s \<Rightarrow> 'c) \<Rightarrow> 's operation \<Rightarrow> bool" where
  "quiet_op core op \<longleftrightarrow> quiet_exec core (execute op) \<and>
     (case dynamicGas op of None \<Rightarrow> True | Some d \<Rightarrow> quiet_gas core d)"

lemma quiet_op_undefined: "quiet_op core undefined_op"
  by (simp add: quiet_op_def undefined_op_def quiet_laws)

lemma quiet_op_slots:
  "list_all (quiet_op core) (map snd frontier_1)" "list_all (quiet_op core) (map snd frontier_2)"
  "list_all (quiet_op core) (map snd frontier_3)" "list_all (quiet_op core) (map snd frontier_4)"
  "list_all (quiet_op core) (map snd frontier_5)" "list_all (quiet_op core) (map snd frontier_6)"
  "list_all (quiet_op core) (map snd frontier_7)"
  by (simp_all add: frontier_1_def frontier_2_def frontier_3_def frontier_4_def frontier_5_def frontier_6_def
      frontier_7_def quiet_op_def quiet_gas_laws)

lemma quiet_op_table:
  assumes "newFrontierInstructionSet = Some jt"
  shows "quiet_op core (jt ! unat (b :: u8))"
proof -
  have "list_all (quiet_op core) (map snd frontier)" unfolding list_all_frontier using quiet_op_slots by blast
  from frontier_all [OF assms this quiet_op_undefined] show ?thesis by blast
qed

lemma dynamic_gas_seen:
  assumes "quiet_op core op" and "apart_spec (eA E) (eJ E) core"
  shows "yields (\<lambda>(f', e). seen E (f_vm f) (f_vm f')) (dynamic_gas E op f)"
proof (cases "dynamicGas op")
  case (Some d)
  have step: "yields (\<lambda>x. yields (\<lambda>(f', e). seen E (f_vm f) (f_vm f')) (k x)) (d E f n)"
    if "\<And>f' r. seen E (f_vm f) (f_vm f') \<Longrightarrow> yields (\<lambda>(f', e). seen E (f_vm f) (f_vm f')) (k (f', r))"
    for n and k :: "_ \<Rightarrow> ('a frame \<times> vm_error option) option"
    by (rule yields_mono [of "\<lambda>(f', r). seen E (f_vm f) (f_vm f')"])
      (use that assms in \<open>auto simp: quiet_op_def Some quiet_gas_def\<close>)
  show ?thesis
    by (auto simp: dynamic_gas_def Some UseGas_def Let_def split: sum.split
        intro!: yields_any [of _ "memory_size_of E op st" for st] step)
qed (simp add: dynamic_gas_def)

text \<open>The flag is still up when the instruction runs, whatever the gas function did.\<close>

lemma run_op_seen:
  assumes "quiet_op core op" "well_behaved op" and "apart_spec (eA E) (eJ E) core" and "quiet_calls E C"
    and "readOnly (f_vm f)"
  shows "yields (\<lambda>t. seen E (f_vm f) (outcome_vm t)) (run_op C E op f)"
proof -
  have ex: "yields (\<lambda>(f', r, e). seen E vm (f_vm f')) (execute op C E f)" if "seen E vm (f_vm f)" "readOnly (f_vm f)" for vm f
    by (rule yields_mono [of "\<lambda>(f', r, e). seen E (f_vm f) (f_vm f')"])
      (use assms that in \<open>auto simp: quiet_op_def quiet_exec_def intro: same_accounts_trans\<close>)
  have dyn: "yields (\<lambda>(f', e). seen E (f_vm f) (f_vm f') \<and> readOnly (f_vm f')) (dynamic_gas E op (f\<lparr>f_con := c\<rparr>))" for c
    using dynamic_gas_seen [OF assms(1,3), of "f\<lparr>f_con := c\<rparr>"] dynamic_gas_steady [OF assms(2), of E "f\<lparr>f_con := c\<rparr>"]
      assms(5) by (auto simp: yields_def steady_def split: prod.splits)
  show ?thesis
    by (auto simp: run_op_def UseGas_def Let_def assms(5) split: option.split intro!: yields_mono [OF dyn] yields_mono [OF ex])
qed

lemma loop_seen:
  assumes "newFrontierInstructionSet = Some jt" and "apart_spec (eA E) (eJ E) core" and "quiet_calls E C" "steady_calls E C"
    and "readOnly (f_vm f)"
  shows "yields (\<lambda>(f', r, e). seen E (f_vm f) (f_vm f')) (loop n jt C E f)"
  using assms(5)
proof (induction n arbitrary: f)
  case (Suc n)
  have turn: "yields (\<lambda>t. seen E (f_vm f) (outcome_vm t)) (turn jt C E f)"
    using run_op_seen [OF quiet_op_table [OF assms(1)] well_behaved_table [OF assms(1)] assms(2,3) Suc.prems]
    by (auto simp: turn_def go_index_def)
  have both: "yields (\<lambda>t. seen E (f_vm f) (outcome_vm t) \<and> readOnly (outcome_vm t)) (turn jt C E f)"
    using turn turn_steady [OF assms(1,4), of f] Suc.prems by (auto simp: yields_def steady_def)
  have next_turn: "yields (\<lambda>(f', r, e). seen E (f_vm f) (f_vm f')) (loop n jt C E f')"
    if "seen E (f_vm f) (f_vm f')" "readOnly (f_vm f')" for f'
    by (rule yields_mono [OF Suc.IH [OF that(2)]]) (use that(1) in \<open>auto intro: same_accounts_trans\<close>)
  show ?case
    unfolding loop.simps yields_bind
    by (rule yields_mono [OF both]) (auto intro: next_turn split: outcome.split)
qed simp

section \<open>Calls\<close>

text \<open>A static run leaves the accounts alone.\<close>

definition run_quiet :: "'s env \<Rightarrow> 's run_fn \<Rightarrow> bool" where
  "run_quiet E run \<longleftrightarrow> (\<forall>vm c input ro. ro \<or> readOnly vm \<longrightarrow> yields (\<lambda>(vm', c', ret, err). seen E vm vm') (run vm c input ro))"

text \<open>A call that ends without an error is not reverted.\<close>

definition success_seen :: "'s env \<Rightarrow> 's vm \<Rightarrow> 's vm \<times> bytes \<times> u64 \<times> vm_error option \<Rightarrow> bool" where
  "success_seen E h r = (case r of (vm', ret, left, err) \<Rightarrow> err = None \<longrightarrow> seen E h vm')"

lemma success_seen_simps [simp]:
  "success_seen E h (vm', ret, left, None) = seen E h vm'" "success_seen E h (vm', ret, left, Some e)"
  by (simp_all add: success_seen_def)

lemma success_end: "success_seen E h r \<Longrightarrow> yields (success_seen E h) (end_call E' i r)"
  by (cases r; cases "snd (snd (snd r))") (simp_all add: end_call_def success_seen_def)

lemma end_call_seen:
  "yields (success_seen E h) m \<Longrightarrow> yields (\<lambda>r. yields (success_seen E h) (end_call E' i r)) m"
  by (erule yields_mono) (auto simp: success_end)

lemma end_call_seen_now: "seen E h vm \<Longrightarrow> yields (success_seen E h) (end_call E' i (vm, ret, gas, err))"
  by (auto simp: success_end success_seen_def)

lemma run_contract_seen:
  assumes "run_quiet E run" and "seen E h vm" and "ro \<or> readOnly vm"
  shows "yields (success_seen E h) (run_contract run vm c input ro)"
  unfolding run_contract_def yields_bind
  by (rule yields_mono [OF assms(1) [unfolded run_quiet_def, rule_format, OF assms(3)]])
    (use assms(2) in \<open>auto simp: success_seen_def intro: same_accounts_trans\<close>)

lemma precompile_seen: "seen E h vm \<Longrightarrow> yields (success_seen E h) (run_precompile vm p input gas)"
  by (auto simp: run_precompile_def success_seen_def yields_any)

lemma put_same:
  "yields (\<lambda>vm'. vDB vm' = vDB vm \<and> readOnly vm' = readOnly vm) (read_put E vm a k v)"
  "yields (\<lambda>vm'. vDB vm' = vDB vm \<and> readOnly vm' = readOnly vm) (write_put E vm a k v w)"
  "new_contract vm cr a val g = (c, vm') \<Longrightarrow> vDB vm' = vDB vm \<and> readOnly vm' = readOnly vm"
  by (auto simp: read_put_def write_put_def new_contract_def yields_any split: prod.splits)

lemma taken_seen:
  assumes "apart_spec (eA E) (eJ E) core" and "take_snapshot E vm0 = (i, vm1)"
  shows "seen E vm0 vm1 \<and> readOnly vm1 = readOnly vm0"
  using assms(2) apart_specD(7) [OF assms(1)] by (auto simp: take_snapshot_def split: prod.splits)

lemma calls_success_seen:
  assumes "apart_spec (eA E) (eJ E) core" and "run_quiet E run" and "readOnly vm"
  shows "yields (success_seen E vm) (Call run E vm cr a input gas v)"
    "yields (success_seen E vm) (CallCode run E vm cr a input gas v)"
    "yields (success_seen E vm) (DelegateCall run E vm cr a input gas)"
    "yields (success_seen E vm) (StaticCall run E vm cr a input gas)"
proof -
  note tail = end_call_seen end_call_seen_now run_contract_seen [OF assms(2)] precompile_seen
  note taken = taken_seen [OF assms(1)]
  show "yields (success_seen E vm) (Call run E vm cr a input gas v)"
    by (auto simp: Call_def Let_def assms(3) dest!: put_same(3) taken split: prod.split option.split
        intro!: yields_reads tail yields_mono [OF put_same(1)] yields_mono [OF put_same(2)])
  show "yields (success_seen E vm) (CallCode run E vm cr a input gas v)"
    "yields (success_seen E vm) (DelegateCall run E vm cr a input gas)"
    by (auto simp: CallCode_def DelegateCall_def Let_def assms(3) dest!: put_same(3) taken split: prod.split option.split
        intro!: yields_reads tail)
  show "yields (success_seen E vm) (StaticCall run E vm cr a input gas)"
    by (auto simp: StaticCall_def Let_def assms(3) dest!: put_same(3) taken split: prod.split option.split
        intro!: tail same_accounts_trans [OF _ apart_specD(6) [OF assms(1)]])
qed

text \<open>A call that fails restores the core, and with it the accounts.\<close>

lemma calls_quiet:
  assumes "apart_spec (eA E) (eJ E) core" and "journal_spec (eA E) (eJ E) core snap"
    and "run_quiet E run" and "run_keeps snap run"
  shows "quiet_calls E (calls_of run E)"
proof -
  have both: "yields (\<lambda>(vm', ret, left, err). seen E vm vm') m"
    if "yields (success_seen E vm) m" "yields (undone core snap vm gas) m" for vm gas m
    using that apart_specD(8) [OF assms(1)] by (fastforce simp: yields_def success_seen_def undone_def)
  show ?thesis
    unfolding quiet_calls_def calls_of_def
    using calls_success_seen [OF assms(1,3)] run_calls_undone [OF assms(2,4)] by (auto intro!: both)
qed

lemma run_quiet_Run:
  assumes "newFrontierInstructionSet = Some jt" and "apart_spec (eA E) (eJ E) core"
    and "journal_spec (eA E) (eJ E) core snap"
  shows "run_quiet E (Run d jt E)"
proof (induction d)
  case (Suc d)
  note calls = calls_quiet [OF assms(2,3) Suc.IH run_keeps_Run [OF assms(1,3)]]
    calls_steady [OF run_steady_Run [OF assms(1)]]
  note enough = loop_seen [OF assms(1,2) calls]
  show ?case
    by (auto simp: run_quiet_def Run_body_def Let_def simp del: loop.simps intro!: yields_mono [OF enough])
qed (simp add: run_quiet_def)

text \<open>C6. A run, however deep its calls nest, leaves the call depth and the read-only flag as they were. Under the
  flag, or when the run is asked to be read-only, no balance, nonce, code or storage entry of the write set changes and no log
  is added, only the marks of created accounts may; and in the database every balance, nonce, code, slot and mark of a
  destroyed account is as before.\<close>

theorem static_runs_write_nothing:
  assumes "newFrontierInstructionSet = Some jt" and "Run d jt E vm c input ro = Some (vm', c', ret, err)"
    and "journal_spec (eA E) (eJ E) core snap" and "apart_spec (eA E) (eJ E) core"
  shows "depth vm' = depth vm \<and> readOnly vm' = readOnly vm \<and>
    (ro \<or> readOnly vm \<longrightarrow> vLogs vm' = vLogs vm \<and>
       (\<forall>a k. k \<noteq> CreatAccountKey (eK E) \<longrightarrow>
          GetAddressAndKey (vWriteSet vm') a k = GetAddressAndKey (vWriteSet vm) a k) \<and>
       db_GetBalance (eA E) (vDB vm') = db_GetBalance (eA E) (vDB vm) \<and>
       db_GetNonce (eA E) (vDB vm') = db_GetNonce (eA E) (vDB vm) \<and>
       db_GetCode (eA E) (vDB vm') = db_GetCode (eA E) (vDB vm) \<and>
       db_GetState (eA E) (vDB vm') = db_GetState (eA E) (vDB vm) \<and>
       db_HasSuicided (eA E) (vDB vm') = db_HasSuicided (eA E) (vDB vm))"
  using static_runs_keep_writes [OF assms(1,2)]
    yieldsD [OF run_quiet_Run [OF assms(1,4,3), unfolded run_quiet_def, rule_format] assms(2)]
  by (simp add: same_accounts_def)

section \<open>Concrete runs\<close>

text \<open>The program \<open>PUSH1 0 PUSH1 0 LOG0\<close>: in a static run it stops with an error and adds no log.\<close>

abbreviation log_frame :: "u64 \<Rightarrow> stack \<Rightarrow> u64 \<Rightarrow> std_db frame" where
  "log_frame i st gas \<equiv> \<lparr>f_vm = (std_vm std_core_empty)\<lparr>depth := 1, readOnly := True, returnData := []\<rparr>, f_pc = i,
     f_mem = NewMemory, f_stack = st, f_con = (std_contract [0x60, 0, 0x60, 0, 0xA0] gas)\<lparr>Input := []\<rparr>\<rparr>"

lemma frontier_PUSH1: "fill_table frontier ! 96 = \<lparr>execute = opPush1, constantGas = GasFastestStep,
    dynamicGas = None, op_minStack = minStack 0 1, op_maxStack = maxStack 0 1, memorySize = None\<rparr>"
  using fill_table_slot [of frontier OP_PUSH1] by (simp add: frontier_def frontier_1_def frontier_2_def frontier_3_def frontier_4_def)

lemma frontier_LOG0: "fill_table frontier ! 160 = \<lparr>execute = makeLog 0, constantGas = 0,
    dynamicGas = Some (makeGasLog 0), op_minStack = minStack 2 0, op_maxStack = maxStack 2 0, memorySize = Some memoryLog\<rparr>"
  using fill_table_slot [of frontier OP_LOG0]
  by (simp add: frontier_def frontier_1_def frontier_2_def frontier_3_def frontier_4_def frontier_5_def frontier_6_def frontier_7_def)


lemma turn_PUSH1:
  assumes "i = 0 \<or> i = 2" and "length st \<le> 1023" and "3 \<le> gas"
  shows "turn (fill_table frontier) C std_env (log_frame i st gas) = Some (Continue (log_frame (i + 2) (push st 0) (gas - 3)))"
  using assms
  by (auto simp: turn_def run_op_def GetOp_def std_contract_def UseGas_def dynamic_gas_def frontier_PUSH1 opPush1_def
      stack_bounds go_index_def not_less uint256_std_def)

lemma LOG0_memory: "memoryLog uint256_std [0, 0] = Some (0, False)"
  by (simp add: memoryLog_def mem_size2_def Back_def calcMemSize64_def calcMemSize64WithUint_def uint256_std_def)

lemma LOG0_price: "f_stack f = [0, 0] \<Longrightarrow> makeGasLog 0 std_env f 0 = Some (f\<lparr>f_mem := f_mem f\<rparr>, Inr 375)"
  by (simp add: makeGasLog_def Back_def uint256_std_def mem_gas_def memoryGasCost_def safeAdd_def safeMul_def geth_std_def)

lemma turn_LOG0:
  "turn (fill_table frontier) C std_env (log_frame 4 [0, 0] 994) =
    Some (Halt (log_frame 4 [0, 0] 619) [] (Some ErrWriteProtection))"
  by (simp add: turn_def run_op_def GetOp_def std_contract_def UseGas_def dynamic_gas_def frontier_LOG0 makeLog_def
      stack_bounds go_index_def memory_size_of_def LOG0_memory LOG0_price toWordSize_0 geth_specD [OF geth_std_spec])

theorem static_runs_write_nothing_witness:
  "\<exists>vm' c'. Run 1 (fill_table frontier) std_env (std_vm std_core_empty) (std_contract [0x60, 0, 0x60, 0, 0xA0] 1000) [] True =
      Some (vm', c', [], Some ErrWriteProtection) \<and> vLogs vm' = [] \<and> depth vm' = 0 \<and> \<not> readOnly vm' \<and>
      (\<forall>a. db_GetBalance std_accounts (vDB vm') a = 0 \<and> \<not> db_HasSuicided std_accounts (vDB vm') a)"
proof -
  let ?C = "calls_of (Run 0 (fill_table frontier) std_env) std_env"
  have "loop 1001 (fill_table frontier) ?C std_env (log_frame 0 newstack 1000) =
      Some (log_frame 4 [0, 0] 619, [], Some ErrWriteProtection)"
    by (simp add: loop_numeral turn_PUSH1 turn_LOG0 newstack_def push_def)
  then obtain vm' c' where run: "Run 1 (fill_table frontier) std_env (std_vm std_core_empty)
      (std_contract [0x60, 0, 0x60, 0, 0xA0] 1000) [] True = Some (vm', c', [], Some ErrWriteProtection)"
    by (auto simp: Run_body_def std_vm_def std_contract_def Let_def simp del: loop.simps)
  have specs: "journal_spec (eA std_env) (eJ std_env) fst std_snap" "apart_spec (eA std_env) (eJ std_env) fst"
    using std_journal_spec std_apart_spec by (simp_all add: std_env_def)
  have accounts: "eA std_env = std_accounts" by (simp add: std_env_def)
  from static_runs_write_nothing [OF newFrontierInstructionSet_eq run specs] run show ?thesis
    by (auto simp: std_vm_def accounts) (simp_all add: std_accounts_def std_core_empty_def)
qed

end
