(* ===== verification/StackFrames.thy ===== *)
theory StackFrames
  imports Steady
begin

text \<open>
  The lower stack bounds of the instruction table. An instruction, a gas function or a memory size \<open>frames p\<close> when, above \<open>p\<close>
  values, it does the same whatever lies below them, and leaves that alone: a missing operand would be read from below. With the
  stack effects of \<open>Effects\<close> this makes both bounds of every slot right.
\<close>

section \<open>More values below\<close>

definition below :: "stack \<Rightarrow> 's frame \<Rightarrow> 's frame" where
  "below rest f = f\<lparr>f_stack := rest @ f_stack f\<rparr>"

lemma below_simps [simp]:
  "f_stack (below rest f) = rest @ f_stack f" "f_vm (below rest f) = f_vm f" "f_con (below rest f) = f_con f"
  "f_mem (below rest f) = f_mem f" "f_pc (below rest f) = f_pc f"
  by (simp_all add: below_def)

lemma below_upd [simp]:
  "(below rest f)\<lparr>f_vm := vm\<rparr> = below rest (f\<lparr>f_vm := vm\<rparr>)" "(below rest f)\<lparr>f_con := c\<rparr> = below rest (f\<lparr>f_con := c\<rparr>)"
  "(below rest f)\<lparr>f_mem := m\<rparr> = below rest (f\<lparr>f_mem := m\<rparr>)" "(below rest f)\<lparr>f_pc := i\<rparr> = below rest (f\<lparr>f_pc := i\<rparr>)"
  "(below rest f)\<lparr>f_stack := rest @ st\<rparr> = below rest (f\<lparr>f_stack := st\<rparr>)"
  "set_db (below rest f) s = below rest (set_db f s)"
  "(if b then below rest f else below rest g) = below rest (if b then f else g)"
  by (simp_all add: below_def set_db_def)

definition frames :: "nat \<Rightarrow> 's exec \<Rightarrow> bool" where
  "frames p ex \<longleftrightarrow> (\<forall>C E f rest. p \<le> length (f_stack f) \<longrightarrow>
     ex C E (below rest f) = map_option (\<lambda>(f', r, e). (below rest f', r, e)) (ex C E f))"

definition frames_gas :: "nat \<Rightarrow> 's gas_func \<Rightarrow> bool" where
  "frames_gas p d \<longleftrightarrow> (\<forall>E f n rest. p \<le> length (f_stack f) \<longrightarrow>
     d E (below rest f) n = map_option (\<lambda>(f', r). (below rest f', r)) (d E f n))"

definition frames_size :: "nat \<Rightarrow> mem_size_func \<Rightarrow> bool" where
  "frames_size p ms \<longleftrightarrow> (\<forall>U st rest. p \<le> length st \<longrightarrow> ms U (rest @ st) = ms U st)"

named_theorems frame_laws \<open>what lies below its operands does not concern an operation\<close>

text \<open>The top values of a stack of at least so many.\<close>

lemma tops:
  "Suc 0 \<le> length st \<Longrightarrow> \<exists>s a. st = s @ [a]"
  "2 \<le> length st \<Longrightarrow> \<exists>s a b. st = s @ [a, b]"
  "3 \<le> length st \<Longrightarrow> \<exists>s a b c. st = s @ [a, b, c]"
  "4 \<le> length st \<Longrightarrow> \<exists>s a b c d. st = s @ [a, b, c, d]"
  "6 \<le> length st \<Longrightarrow> \<exists>s a b c d e g. st = s @ [a, b, c, d, e, g]"
  "7 \<le> length st \<Longrightarrow> \<exists>s a b c d e g h. st = s @ [a, b, c, d, e, g, h]"
proof -
  have top: "\<exists>s xs. st = s @ xs \<and> length xs = n" if "n \<le> length st" for n
    using that by (intro exI [of _ "take (length st - n) st"] exI [of _ "drop (length st - n) st"]) simp
  show "Suc 0 \<le> length st \<Longrightarrow> \<exists>s a. st = s @ [a]" using top [of 1] by (auto simp: length_Suc_conv)
  show "2 \<le> length st \<Longrightarrow> \<exists>s a b. st = s @ [a, b]"
    using top [of 2] by (auto simp: numeral_eq_Suc length_Suc_conv)
  show "3 \<le> length st \<Longrightarrow> \<exists>s a b c. st = s @ [a, b, c]"
    using top [of 3] by (auto simp: numeral_eq_Suc length_Suc_conv)
  show "4 \<le> length st \<Longrightarrow> \<exists>s a b c d. st = s @ [a, b, c, d]"
    using top [of 4] by (auto simp: numeral_eq_Suc length_Suc_conv)
  show "6 \<le> length st \<Longrightarrow> \<exists>s a b c d e g. st = s @ [a, b, c, d, e, g]"
    using top [of 6] by (auto simp: numeral_eq_Suc length_Suc_conv)
  show "7 \<le> length st \<Longrightarrow> \<exists>s a b c d e g h. st = s @ [a, b, c, d, e, g, h]"
    using top [of 7] by (auto simp: numeral_eq_Suc length_Suc_conv)
qed

lemma stack_tail:
  "pop (s @ [a]) = Some (a, s)" "pop (s @ [a, b]) = Some (b, s @ [a])" "pop (s @ [a, b, c]) = Some (c, s @ [a, b])"
  "pop (s @ [a, b, c, d]) = Some (d, s @ [a, b, c])" "pop (s @ [a, b, c, d, e]) = Some (e, s @ [a, b, c, d])"
  "pop (s @ [a, b, c, d, e, g]) = Some (g, s @ [a, b, c, d, e])"
  "pop (s @ [a, b, c, d, e, g, h]) = Some (h, s @ [a, b, c, d, e, g])"
  "peek (s @ [a]) = Some a" "set_top (s @ [a]) v = s @ [v]" "push s v = s @ [v]"
  by (simp_all add: pop_def peek_def set_top_def push_def butlast_append)

lemma map_option_then': "map_option g (m \<bind> k) = m \<bind> (\<lambda>x. map_option g (k x))"
  by (cases m) simp_all

lemma if_then: "map_option g (if b then x else y) = (if b then map_option g x else map_option g y)"
  by simp

lemmas stack_tail_below = stack_tail [where s = "rest @ s" for rest s, unfolded append_assoc]

lemmas frame_steps = Let_def map_option_then' if_then stack_tail stack_tail_below

section \<open>Instructions\<close>

lemma frames_shapes:
  "frames (Suc 0) (stack_op1 g1)" "frames 2 (stack_op2 g2)" "frames 3 (stack_op3 g3)"
  "(\<And>E f rest. h E (below rest f) = h E f) \<Longrightarrow> frames 0 (push_value h)"
  by (auto simp: frames_def stack_op1_def stack_op2_def stack_op3_def push_value_def frame_steps dest!: tops)

lemma frames_arith [frame_laws]:
  "frames 2 opAdd" "frames 2 opSub" "frames 2 opMul" "frames 2 opDiv" "frames 2 opSdiv" "frames 2 opMod"
  "frames 2 opSmod" "frames 2 opExp" "frames 2 opSignExtend" "frames (Suc 0) opNot" "frames 2 opLt"
  "frames 2 opGt" "frames 2 opSlt" "frames 2 opSgt" "frames 2 opEq" "frames (Suc 0) opIszero" "frames 2 opAnd"
  "frames 2 opOr" "frames 2 opXor" "frames 2 opByte" "frames 3 opAddmod" "frames 3 opMulmod"
  "frames 2 opSHL" "frames 2 opSHR" "frames 2 opSAR"
  by (simp_all only: arith_defs frames_shapes)

lemma frames_environment [frame_laws]:
  "frames 0 opAddress" "frames 0 opOrigin" "frames 0 opCaller" "frames 0 opCallValue" "frames 0 opCallDataSize"
  "frames 0 opReturnDataSize" "frames 0 opCodeSize" "frames 0 opGasprice" "frames 0 opCoinbase"
  "frames 0 opTimestamp" "frames 0 opNumber" "frames 0 opDifficulty" "frames 0 opRandom" "frames 0 opGasLimit"
  "frames 0 opPc" "frames 0 opMsize" "frames 0 opGas" "frames 0 opPush0" "frames 0 opSelfBalance"
  "frames 0 opChainID" "frames 0 opBaseFee"
  unfolding push_value_ops by (rule frames_shapes(4), simp)+

lemma frames_reads [frame_laws]:
  "frames (Suc 0) opBalance" "frames (Suc 0) opCallDataLoad" "frames (Suc 0) opExtCodeSize"
  "frames (Suc 0) opExtCodeHash" "frames (Suc 0) opBlockhash" "frames (Suc 0) opMload" "frames (Suc 0) opSload"
  "frames 2 opKeccak256"
  by (auto simp: frames_def opBalance_def opCallDataLoad_def opExtCodeSize_def opExtCodeHash_def opBlockhash_def
      opMload_def opSload_def opKeccak256_def frame_steps dest!: tops cong: if_cong
      split: prod.split option.split)

lemma frames_copies [frame_laws]:
  "frames 3 opCallDataCopy" "frames 3 opReturnDataCopy" "frames 3 opCodeCopy" "frames 4 opExtCodeCopy"
  by (auto simp: frames_def opCallDataCopy_def opReturnDataCopy_def opCodeCopy_def opExtCodeCopy_def frame_steps
      dest!: tops split: prod.split)

lemma frames_stores [frame_laws]:
  "frames (Suc 0) opPop" "frames 2 opMstore" "frames 2 opMstore8" "frames 2 opSstore"
  by (auto simp: frames_def opPop_def opMstore_def opMstore8_def opSstore_def frame_steps dest!: tops)

lemma check_dest_below:
  "check_dest E (below rest f) pos = map_option (\<lambda>(ok, f'). (ok, below rest f')) (check_dest E f pos)"
  by (auto simp: check_dest_def frame_steps intro!: Option.bind_cong split: prod.split)

lemma map_then: "(map_option g m \<bind> k) = m \<bind> (\<lambda>x. k (g x))"
  by (cases m) simp_all

lemma frames_jumps [frame_laws]: "frames (Suc 0) opJump" "frames 2 opJumpi"
  by (auto simp: frames_def opJump_def opJumpi_def frame_steps check_dest_below map_then dest!: tops cong: if_cong split: prod.split)
    (auto intro!: Option.bind_cong split: prod.split)

lemma frames_control [frame_laws]:
  "frames 0 opJumpdest" "frames 2 opReturn" "frames 2 opRevert" "frames 0 opUndefined" "frames 0 opStop"
  "frames (Suc 0) opSelfdestruct"
  by (auto simp: frames_def opJumpdest_def opReturn_def opRevert_def opUndefined_def opStop_def opSelfdestruct_def
      frame_steps dest!: tops)

lemma pops_below:
  "n \<le> length st \<Longrightarrow> pops pop n (rest @ st) = map_option (\<lambda>(xs, st'). (xs, rest @ st')) (pops pop n st)"
proof (induction n arbitrary: st)
  case (Suc n)
  then obtain s a where st: "st = s @ [a]" using tops(1) [of st] by auto
  with Suc show ?case by (simp add: stack_tail stack_tail_below map_then map_option_then' split: prod.split)
    (auto intro!: Option.bind_cong)
qed simp

lemma frames_makeLog: "n + 2 = m \<Longrightarrow> frames m (makeLog n)"
  unfolding frames_def
proof (intro allI impI)
  fix C E and f :: "'a frame" and rest
  assume m: "n + 2 = m" and len: "m \<le> length (f_stack f)"
  then obtain s a b where st: "f_stack f = s @ [a, b]" using tops(2) [of "f_stack f"] by auto
  with m len have "n \<le> length s" by simp
  with st show "makeLog n C E (below rest f) = map_option (\<lambda>(f', r, e). (below rest f', r, e)) (makeLog n C E f)"
    by (auto simp: makeLog_def frame_steps pops_below map_then intro!: Option.bind_cong split: prod.split)
qed

lemma frames_pushes [frame_laws]: "frames 0 (makePush n k)" "frames 0 opPush1"
  by (auto simp: frames_def makePush_def opPush1_def frame_steps push_def intro!: Option.bind_cong)

lemma frames_makeDup: "0 < n \<Longrightarrow> frames n (makeDup n)"
  by (auto simp: frames_def makeDup_def dup_def frame_steps push_def nth_append)

lemma frames_makeSwap: "n + 1 = m \<Longrightarrow> frames m (makeSwap n)"
  by (auto simp: frames_def makeSwap_def swap_def frame_steps nth_append list_update_append)

lemma call_return_below:
  "call_return (below rest f) (rest @ st) off n r =
   map_option (\<lambda>(f', r, e). (below rest f', r, e)) (call_return f st off n r)"
  by (auto simp: call_return_def frame_steps push_def intro!: Option.bind_cong split: prod.split)

lemma frames_creates [frame_laws]: "frames 3 opCreate" "frames 4 opCreate2"
  by (auto simp: frames_def opCreate_def opCreate2_def frame_steps dest!: tops cong: if_cong split: prod.split)
    (auto simp: below_def intro!: Option.bind_cong)

lemma frames_calls [frame_laws]:
  "frames 7 opCall" "frames 7 opCallCode" "frames 6 opDelegateCall" "frames 6 opStaticCall"
  by (auto simp: frames_def opCall_def opCallCode_def opDelegateCall_def opStaticCall_def
      frame_steps call_return_below dest!: tops cong: if_cong split: prod.split)
    (auto simp: call_return_below intro!: Option.bind_cong)

section \<open>Gas functions and memory sizes\<close>

lemma Back_below: "n < length st \<Longrightarrow> Back (rest @ st) n = Back st n"
proof -
  assume n: "n < length st"
  then have i: "length (rest @ st) - n - 1 = length rest + (length st - n - 1)" by simp
  from n show ?thesis unfolding Back_def i nth_append_length_plus by simp
qed

lemma peek_below: "Suc 0 \<le> length st \<Longrightarrow> peek (rest @ st) = peek st"
  by (auto simp: peek_def)

lemma mem_gas_below: "mem_gas (below rest f) n = apfst (below rest) (mem_gas f n)"
  by (simp add: mem_gas_frame)

lemma frames_gas_mono: "frames_gas p d \<Longrightarrow> p \<le> q \<Longrightarrow> frames_gas q d"
  by (simp add: frames_gas_def)

lemma gthen_below:
  assumes "\<And>f' v. m = Some (f', Inr v) \<Longrightarrow> k (below rest f') v = map_option (\<lambda>(f', r). (below rest f', r)) (k f' v)"
  shows "gthen (map_option (\<lambda>(f', r). (below rest f', r)) m) k = map_option (\<lambda>(f', r). (below rest f', r)) (gthen m k)"
  using assms by (auto simp: gthen_def split: option.split sum.split)

lemma frames_gas_memory [frame_laws]:
  "frames_gas 0 pureMemoryGascost" "k < p \<Longrightarrow> frames_gas p (memoryCopierGas k)" "frames_gas 3 gasCreateEip3860"
  "frames_gas 3 gasCreate2Eip3860" "frames_gas 2 (makeGasLog m)" "k < p \<Longrightarrow> frames_gas p (wordsGas k)"
  by (auto simp: frames_gas_def gas_unfold mem_gas_frame Let_def Back_below frame_steps gthen_def
      split: sum.split prod.split intro!: Option.bind_cong)

lemma frames_gas_any: "frames_gas 0 d \<Longrightarrow> frames_gas p d"
  by (erule frames_gas_mono) simp

lemma frames_gas_state [frame_laws]:
  "frames_gas (Suc 0) gasEip2929AccountCheck" "frames_gas (Suc 0) gasSLoadEIP2929"
  "frames_gas 2 gasExpEIP158" "frames_gas (Suc 0) (makeSelfdestructGasFn b)"
  by (auto simp: frames_gas_def gasEip2929AccountCheck_def gasSLoadEIP2929_def gasExpEIP158_def makeSelfdestructGasFn_def
      Back_below peek_below frame_steps gthen_def split: sum.split prod.split option.split intro!: Option.bind_cong)

lemma frames_gas_extcodecopy [frame_laws]: "frames_gas 4 gasExtCodeCopyEIP2929"
  unfolding frames_gas_def
proof (intro allI impI)
  fix E :: "'a env" and f :: "'a frame" and n rest
  assume len: "4 \<le> length (f_stack f)"
  have copy: "gasExtCodeCopy E (below rest f) n = map_option (\<lambda>(f', r). (below rest f', r)) (gasExtCodeCopy E f n)"
    using frames_gas_memory(2) [of 3 4] len unfolding frames_gas_def gasExtCodeCopy_def by force
  have same: "f_stack f' = f_stack f" if "gasExtCodeCopy E f n = Some (f', r)" for f' r
    using calm_aliases(8) yieldsD [OF _ that] unfolding calm_def by fastforce
  show "gasExtCodeCopyEIP2929 E (below rest f) n =
      map_option (\<lambda>(f', r). (below rest f', r)) (gasExtCodeCopyEIP2929 E f n)"
    unfolding gasExtCodeCopyEIP2929_def copy
    by (rule gthen_below) (use len same in \<open>auto simp: peek_below frame_steps intro!: Option.bind_cong\<close>)
qed

lemma frames_gas_sstore [frame_laws]: "frames_gas 2 (makeGasSStoreFunc r)"
  by (auto simp: frames_gas_def makeGasSStoreFunc_def Back_below peek_below frame_steps map_then option.map_comp
      intro!: Option.bind_cong split: prod.split)

lemma charge_call_below:
  "6 \<le> length (f_stack f) \<Longrightarrow>
   charge_call E (below rest f) g = map_option (\<lambda>(f', r). (below rest f', r)) (charge_call E f g)"
  using Back_below [of 0 "f_stack f" rest, OF order.strict_trans2 [of _ 6]]
  by (auto simp: charge_call_def frame_steps gthen_def split: sum.split intro!: Option.bind_cong)

lemma frames_gas_old_calls:
  "frames_gas 7 gasCall" "frames_gas 7 gasCallCode" "frames_gas 6 gasDelegateCall" "frames_gas 6 gasStaticCall"
  by (auto simp: frames_gas_def gasCall_def gasCallCode_def gasDelegateCall_def gasStaticCall_def mem_gas_frame
      Back_below charge_call_below frame_steps gthen_def split: sum.split intro!: Option.bind_cong)

lemma frames_gas_variant:
  assumes "frames_gas p old" and "2 \<le> p"
  shows "frames_gas p (makeCallVariantGasCallEIP2929 old)"
  unfolding frames_gas_def
proof (intro allI impI)
  fix E :: "'a env" and f :: "'a frame" and n rest
  assume len: "p \<le> length (f_stack f)"
  have old: "old E (below rest h) n = map_option (\<lambda>(f', r). (below rest f', r)) (old E h n)"
    if "f_stack h = f_stack f" for h
    using assms(1) len that by (simp add: frames_gas_def)
  have con: "f_stack ((set_db f s)\<lparr>f_con := c\<rparr>) = f_stack f" for s c by (simp add: set_db_def)
  show "makeCallVariantGasCallEIP2929 old E (below rest f) n =
      map_option (\<lambda>(f', r). (below rest f', r)) (makeCallVariantGasCallEIP2929 old E f n)"
    using len assms(2)
    by (auto simp: makeCallVariantGasCallEIP2929_def Back_below frame_steps old con gthen_def
        split: prod.split option.split sum.split intro!: Option.bind_cong)
qed

lemma frames_gas_table [frame_laws]:
  "frames_gas 7 gasCallEIP2929" "frames_gas 7 gasCallCodeEIP2929" "frames_gas 6 gasDelegateCallEIP2929"
  "frames_gas 6 gasStaticCallEIP2929" "frames_gas 3 gasCallDataCopy" "frames_gas 3 gasCodeCopy"
  "frames_gas 2 gasKeccak256" "frames_gas p gasMLoad" "frames_gas p gasMStore" "frames_gas p gasMStore8"
  "frames_gas p gasReturn" "frames_gas 3 gasReturnDataCopy" "frames_gas p gasRevert" "frames_gas 2 gasSStoreEIP3529"
  "frames_gas (Suc 0) gasSelfdestructEIP3529"
  by (simp_all add: gasCallEIP2929_def gasCallCodeEIP2929_def gasDelegateCallEIP2929_def gasStaticCallEIP2929_def
      mem_aliases gasSStoreEIP3529_def gasSelfdestructEIP3529_def frames_gas_variant frames_gas_old_calls
      frames_gas_memory frames_gas_any frames_gas_state frames_gas_sstore)

lemma frames_mem_size:
  "i < p \<Longrightarrow> j < p \<Longrightarrow> frames_size p (mem_size2 i j)" "i < p \<Longrightarrow> frames_size p (mem_size1 i n)"
  "frames_size p g \<Longrightarrow> frames_size p h \<Longrightarrow> frames_size p (mem_size_max g h)"
  by (auto simp: frames_size_def mem_size2_def mem_size1_def mem_size_max_def Back_below intro!: Option.bind_cong)

lemma frames_sizes [frame_laws]:
  "frames_size 2 memoryKeccak256" "frames_size 3 memoryCallDataCopy" "frames_size 3 memoryReturnDataCopy"
  "frames_size 3 memoryCodeCopy" "frames_size 4 memoryExtCodeCopy" "frames_size (Suc 0) memoryMLoad"
  "frames_size 2 memoryMStore8" "frames_size 2 memoryMStore" "frames_size 3 memoryCreate" "frames_size 4 memoryCreate2"
  "frames_size 7 memoryCall" "frames_size 6 memoryDelegateCall" "frames_size 6 memoryStaticCall"
  "frames_size 2 memoryReturn" "frames_size 2 memoryRevert" "2 \<le> p \<Longrightarrow> frames_size p memoryLog"
  by (simp_all add: memory_sizes frames_mem_size)

section \<open>The table\<close>

text \<open>A slot's lower bound counts every operand its three functions look at.\<close>

definition frames_op :: "'s operation \<Rightarrow> bool" where
  "frames_op op \<longleftrightarrow> 0 \<le> op_minStack op \<and> frames (nat (op_minStack op)) (execute op) \<and>
     (case dynamicGas op of None \<Rightarrow> True | Some d \<Rightarrow> frames_gas (nat (op_minStack op)) d) \<and>
     (case memorySize op of None \<Rightarrow> True | Some ms \<Rightarrow> frames_size (nat (op_minStack op)) ms)"

lemma frames_gas_log: "2 \<le> p \<Longrightarrow> frames_gas p (makeGasLog m)"
  using frames_gas_memory(5) by (rule frames_gas_mono)

lemma frames_gas_create2: "frames_gas 4 gasCreate2Eip3860"
  using frames_gas_memory(4) by (rule frames_gas_mono) simp

lemmas slot_frames = frames_op_def stack_bounds frame_laws frames_makeLog frames_makeDup frames_makeSwap
  frames_gas_log frames_gas_create2

lemma frames_op_undefined: "frames_op undefined_op"
  by (simp add: undefined_op_def slot_frames)

lemma frames_op_slots:
  "list_all frames_op (map snd frontier_1)" "list_all frames_op (map snd frontier_2)"
  "list_all frames_op (map snd frontier_3)" "list_all frames_op (map snd frontier_4)"
  "list_all frames_op (map snd frontier_5)" "list_all frames_op (map snd frontier_6)"
  "list_all frames_op (map snd frontier_7)"
  by (simp_all add: frontier_1_def frontier_2_def frontier_3_def frontier_4_def frontier_5_def frontier_6_def
      frontier_7_def slot_frames)

lemma frames_op_frontier: "list_all frames_op (map snd frontier)"
  unfolding list_all_frontier using frames_op_slots by blast

text \<open>C19. Both stack bounds of each of the 256 slots are right for its instruction, its gas function and its memory size.
  With at least the lower bound of values on the stack, all three do the same whatever lies below, and leave that alone: no
  operand is missing, as it would be read from there, or panic when nothing is there. With at most the upper bound,
  an instruction that goes on leaves at most 1024 values, and the bound is 1024 less the growth.\<close>

theorem table_bounds_sound:
  assumes "newFrontierInstructionSet = Some jt" and "op = jt ! unat (b :: u8)"
    and "op_minStack op \<le> int (length (f_stack f))"
  shows "execute op C E (below rest f) = map_option (\<lambda>(f', r, e). (below rest f', r, e)) (execute op C E f) \<and>
    (\<forall>d n. dynamicGas op = Some d \<longrightarrow> d E (below rest f) n = map_option (\<lambda>(f', r). (below rest f', r)) (d E f n)) \<and>
    (\<forall>ms. memorySize op = Some ms \<longrightarrow> ms (eU E) (rest @ f_stack f) = ms (eU E) (f_stack f)) \<and>
    (\<forall>f' r. int (length (f_stack f)) \<le> op_maxStack op \<and> execute op C E f = Some (f', r, None) \<longrightarrow>
       length (f_stack f') \<le> 1024 \<and> int (length (f_stack f')) - int (length (f_stack f)) = 1024 - op_maxStack op)"
proof -
  have op: "frames_op op"
    using frontier_all [OF assms(1) frames_op_frontier frames_op_undefined] by (simp add: assms(2))
  then have len: "nat (op_minStack op) \<le> length (f_stack f)" using assms(3) by (simp add: frames_op_def)
  have "execute op C E (below rest f) = map_option (\<lambda>(f', r, e). (below rest f', r, e)) (execute op C E f)"
    using op len unfolding frames_op_def frames_def by blast
  moreover have "\<forall>d n. dynamicGas op = Some d \<longrightarrow>
      d E (below rest f) n = map_option (\<lambda>(f', r). (below rest f', r)) (d E f n)"
    using op len unfolding frames_op_def frames_gas_def by fastforce
  moreover have "\<forall>ms. memorySize op = Some ms \<longrightarrow> ms (eU E) (rest @ f_stack f) = ms (eU E) (f_stack f)"
    using op len unfolding frames_op_def frames_size_def by fastforce
  ultimately show ?thesis using table_bounds_room [OF assms(1)] assms(2,3) by blast
qed

theorem table_bounds_sound_witness:
  "\<forall>C. \<exists>f'. execute (fill_table frontier ! unat OP_ADD) C std_env (std_frame std_core_empty [5, 7] [1] 10) =
      Some (f', [], None) \<and> length (f_stack f') \<le> 1024 \<and>
    execute (fill_table frontier ! unat OP_ADD) C std_env (below [9] (std_frame std_core_empty [5, 7] [1] 10)) =
      Some (below [9] f', [], None)"
proof
  fix C :: "std_db calls"
  let ?f = "std_frame std_core_empty [5, 7] [1] 10"
  have run: "execute (fill_table frontier ! unat OP_ADD) C std_env ?f = Some (?f\<lparr>f_stack := [12]\<rparr>, [], None)"
    by (simp only: frontier_ADD)
      (simp add: opAdd_def stack_op2_def std_frame_def pop_def peek_def set_top_def uint256_std_def)
  have bounds: "op_minStack (fill_table frontier ! unat OP_ADD) = 2" "op_maxStack (fill_table frontier ! unat OP_ADD) = 1025"
    by (simp_all only: frontier_ADD operation.select_convs) (simp_all add: stack_bounds)
  have "op_minStack (fill_table frontier ! unat OP_ADD) \<le> int (length (f_stack ?f))"
    unfolding bounds by (simp add: std_frame_def)
  from table_bounds_sound [OF newFrontierInstructionSet_eq refl this, where C = C and E = std_env and rest = "[9]",
      unfolded bounds] run
  show "\<exists>f'. execute (fill_table frontier ! unat OP_ADD) C std_env ?f = Some (f', [], None) \<and>
      length (f_stack f') \<le> 1024 \<and>
      execute (fill_table frontier ! unat OP_ADD) C std_env (below [9] ?f) = Some (below [9] f', [], None)"
    by (auto simp: std_frame_def)
qed

end
