(* ===== verification/NativeContracts.thy ===== *)
theory NativeContracts
  imports Precompiles
begin

text \<open>
  The native contracts of \<^verbatim>\<open>vm/ethvm/contracts.go\<close>: recovery of a signer, hashes, modular exponentiation, the
  curves bn256 and BLS12-381 and the blake2 compression function, each with its price. Hash functions and curve arithmetic
  are library calls and come in the record \<open>crypto_ops\<close>, with curve points of any type; the slicing, padding,
  decoding order and checks around them are the code's. Big integers that are never negative are natural numbers.
\<close>

record ('a, 'b, 'c, 'd) crypto_ops =
  cr_ValidateSignatureValues :: "u8 \<Rightarrow> nat \<Rightarrow> nat \<Rightarrow> bool"
  cr_Ecrecover :: "bytes \<Rightarrow> bytes \<Rightarrow> bytes option"
  cr_Sha256 :: "bytes \<Rightarrow> bytes"
  cr_Ripemd160 :: "bytes \<Rightarrow> bytes"
  bn_UnmarshalG1 :: "bytes \<Rightarrow> string + 'a"
  bn_UnmarshalG2 :: "bytes \<Rightarrow> string + 'b"
  bn_Add :: "'a \<Rightarrow> 'a \<Rightarrow> 'a"
  bn_ScalarMult :: "'a \<Rightarrow> nat \<Rightarrow> 'a"
  bn_Marshal :: "'a \<Rightarrow> bytes"
  bn_PairingCheck :: "'a list \<Rightarrow> 'b list \<Rightarrow> bool"
  blake_F :: "u64 list \<Rightarrow> u64 list \<Rightarrow> u64 list \<Rightarrow> bool \<Rightarrow> u32 \<Rightarrow> u64 list"
  g1_DecodePoint :: "bytes \<Rightarrow> string + 'c"
  g1_EncodePoint :: "'c \<Rightarrow> bytes"
  g1_Add :: "'c \<Rightarrow> 'c \<Rightarrow> 'c"
  g1_MulScalar :: "'c \<Rightarrow> nat \<Rightarrow> 'c"
  g1_MultiExp :: "'c list \<Rightarrow> nat list \<Rightarrow> 'c"
  g1_InCorrectSubgroup :: "'c \<Rightarrow> bool"
  g1_MapToCurve :: "bytes \<Rightarrow> string + 'c"
  g2_DecodePoint :: "bytes \<Rightarrow> string + 'd"
  g2_EncodePoint :: "'d \<Rightarrow> bytes"
  g2_Add :: "'d \<Rightarrow> 'd \<Rightarrow> 'd"
  g2_MulScalar :: "'d \<Rightarrow> nat \<Rightarrow> 'd"
  g2_MultiExp :: "'d list \<Rightarrow> nat list \<Rightarrow> 'd"
  g2_InCorrectSubgroup :: "'d \<Rightarrow> bool"
  g2_MapToCurve :: "bytes \<Rightarrow> string + 'd"
  bls_Check :: "('c \<times> 'd) list \<Rightarrow> bool"
  discount_table :: "u64 list"

text \<open>The answer of a run: bytes, or an error of its own.\<close>

type_synonym pre_result = "(bytes \<times> vm_error option) option"

definition answer :: "bytes \<Rightarrow> pre_result" where
  "answer bs = Some (bs, None)"

definition reject :: "string \<Rightarrow> pre_result" where
  "reject msg = Some ([], Some (ErrPrecompile msg))"

text \<open>\<open>decoded r k\<close>: go on with the decoded value, or answer with the library's error.\<close>

definition decoded :: "string + 'x \<Rightarrow> ('x \<Rightarrow> pre_result) \<Rightarrow> pre_result" where
  "decoded r k = (case r of Inl msg \<Rightarrow> reject msg | Inr x \<Rightarrow> k x)"

section \<open>Signatures and hashes\<close>

definition ecrecover_Run :: "('a, 'b, 'c, 'd) crypto_ops \<Rightarrow> geth_ops \<Rightarrow> bytes \<Rightarrow> pre_result" where
  "ecrecover_Run C G input = do {
     let input = g_RightPadBytes G input 128;
     r \<leftarrow> map_option be_nat (go_slice input 64 96);
     s \<leftarrow> map_option be_nat (go_slice input 96 128);
     b \<leftarrow> go_index input 63;
     let v = b - 27;
     pad \<leftarrow> go_slice input 32 63;
     if \<not> allZero pad \<or> \<not> cr_ValidateSignatureValues C v r s then answer []
     else do {
       rs \<leftarrow> go_slice input 64 128;
       h \<leftarrow> go_slice input 0 32;
       case cr_Ecrecover C h (rs @ [v]) of
         None \<Rightarrow> answer []
       | Some pubKey \<Rightarrow> do {
           pk \<leftarrow> go_slice pubKey 1 (length pubKey);
           addr \<leftarrow> go_slice (g_Keccak256 G pk) 12 (length (g_Keccak256 G pk));
           answer (g_LeftPadBytes G addr 32)
         }
     }
   }"

definition ecrecover :: "('a, 'b, 'c, 'd) crypto_ops \<Rightarrow> geth_ops \<Rightarrow> precompile" where
  "ecrecover C G = \<lparr>RequiredGas = (\<lambda>input. Some EcrecoverGas), pre_Run = ecrecover_Run C G\<rparr>"

definition sha256hash :: "('a, 'b, 'c, 'd) crypto_ops \<Rightarrow> precompile" where
  "sha256hash C = \<lparr>RequiredGas = (\<lambda>input. Some (input_words input * Sha256PerWordGas + Sha256BaseGas)),
     pre_Run = (\<lambda>input. answer (cr_Sha256 C input))\<rparr>"

definition ripemd160hash :: "('a, 'b, 'c, 'd) crypto_ops \<Rightarrow> geth_ops \<Rightarrow> precompile" where
  "ripemd160hash C G = \<lparr>RequiredGas = (\<lambda>input. Some (input_words input * Ripemd160PerWordGas + Ripemd160BaseGas)),
     pre_Run = (\<lambda>input. answer (g_LeftPadBytes G (cr_Ripemd160 C input) 32))\<rparr>"

section \<open>Modular exponentiation\<close>

definition modexpMultComplexity :: "nat \<Rightarrow> nat" where
  "modexpMultComplexity x =
     (if x \<le> 64 then x * x
      else if x \<le> 1024 then (x * x) div 4 + (96 * x - 3072)
      else (x * x) div 16 + (480 * x - 199680))"

text \<open>The input behind the three lengths.\<close>

definition operands :: "bytes \<Rightarrow> bytes option" where
  "operands input = (if length input > 96 then go_slice input 96 (length input) else Some [])"

definition big_u64 :: "nat \<Rightarrow> u64" where
  "big_u64 x = of_nat x"

definition modexp_lengths :: "geth_ops \<Rightarrow> bytes \<Rightarrow> (nat \<times> nat \<times> nat) option" where
  "modexp_lengths G input = do {
     b \<leftarrow> getData G input 0 32;
     e \<leftarrow> getData G input 32 32;
     m \<leftarrow> getData G input 64 32;
     Some (be_nat b, be_nat e, be_nat m)
   }"

text \<open>The adjusted exponent length: its bits after the first 32 bytes and the position of its top bit.\<close>

definition adjExpLen :: "nat \<Rightarrow> nat \<Rightarrow> nat" where
  "adjExpLen expLen expHead =
     (let msb = (if nat_bitlen expHead > 0 then nat_bitlen expHead - 1 else 0)
      in (if expLen > 32 then 8 * (expLen - 32) else 0) + msb)"

definition modexp_price :: "bool \<Rightarrow> nat \<Rightarrow> nat \<Rightarrow> nat \<Rightarrow> u64" where
  "modexp_price eip2565 baseLen modLen adj =
     (let gas = max modLen baseLen
      in if eip2565 then
           let gas = (gas + 7) div 8;
               gas = gas * gas;
               gas = gas * max adj 1;
               gas = gas div 3
           in if nat_bitlen gas > 64 then max_u64
              else if big_u64 gas < 200 then 200
              else big_u64 gas
         else
           let gas = modexpMultComplexity gas;
               gas = gas * max adj 1;
               gas = gas div 20
           in if nat_bitlen gas > 64 then max_u64 else big_u64 gas)"

definition bigModExp_RequiredGas :: "bool \<Rightarrow> geth_ops \<Rightarrow> bytes \<Rightarrow> u64 option" where
  "bigModExp_RequiredGas eip2565 G input = do {
     (baseLen, expLen, modLen) \<leftarrow> modexp_lengths G input;
     input \<leftarrow> operands input;
     expHead \<leftarrow> (if length input \<le> baseLen then Some 0
       else if expLen > 32 then map_option be_nat (getData G input (big_u64 baseLen) 32)
       else map_option be_nat (getData G input (big_u64 baseLen) (big_u64 expLen)));
     Some (modexp_price eip2565 baseLen modLen (adjExpLen expLen expHead))
   }"

definition bigModExp_Run :: "geth_ops \<Rightarrow> bytes \<Rightarrow> pre_result" where
  "bigModExp_Run G input = do {
     (b, e, m) \<leftarrow> modexp_lengths G input;
     let baseLen = big_u64 b;
     let expLen = big_u64 e;
     let modLen = big_u64 m;
     input \<leftarrow> operands input;
     if baseLen = 0 \<and> modLen = 0 then answer []
     else do {
       base \<leftarrow> map_option be_nat (getData G input 0 baseLen);
       exponent \<leftarrow> map_option be_nat (getData G input baseLen expLen);
       modulus \<leftarrow> map_option be_nat (getData G input (baseLen + expLen) modLen);
       if nat_bitlen modulus = 0 then answer (g_LeftPadBytes G [] (nat (sint modLen)))
       else answer (g_LeftPadBytes G (min_bytes (base ^ exponent mod modulus)) (nat (sint modLen)))
     }
   }"

definition bigModExp :: "bool \<Rightarrow> geth_ops \<Rightarrow> precompile" where
  "bigModExp eip2565 G = \<lparr>RequiredGas = bigModExp_RequiredGas eip2565 G, pre_Run = bigModExp_Run G\<rparr>"

section \<open>The curve bn256\<close>

definition newCurvePoint :: "('a, 'b, 'c, 'd) crypto_ops \<Rightarrow> bytes \<Rightarrow> string + 'a" where
  "newCurvePoint C blob = bn_UnmarshalG1 C blob"

definition newTwistPoint :: "('a, 'b, 'c, 'd) crypto_ops \<Rightarrow> bytes \<Rightarrow> string + 'b" where
  "newTwistPoint C blob = bn_UnmarshalG2 C blob"

definition runBn256Add :: "('a, 'b, 'c, 'd) crypto_ops \<Rightarrow> geth_ops \<Rightarrow> bytes \<Rightarrow> pre_result" where
  "runBn256Add C G input = do {
     xb \<leftarrow> getData G input 0 64;
     decoded (newCurvePoint C xb) (\<lambda>x. do {
       yb \<leftarrow> getData G input 64 64;
       decoded (newCurvePoint C yb) (\<lambda>y. answer (bn_Marshal C (bn_Add C x y)))
     })
   }"

definition bn256AddIstanbul :: "('a, 'b, 'c, 'd) crypto_ops \<Rightarrow> geth_ops \<Rightarrow> precompile" where
  "bn256AddIstanbul C G = \<lparr>RequiredGas = (\<lambda>input. Some Bn256AddGasIstanbul), pre_Run = runBn256Add C G\<rparr>"

definition bn256AddByzantium :: "('a, 'b, 'c, 'd) crypto_ops \<Rightarrow> geth_ops \<Rightarrow> precompile" where
  "bn256AddByzantium C G = \<lparr>RequiredGas = (\<lambda>input. Some Bn256AddGasByzantium), pre_Run = runBn256Add C G\<rparr>"

definition runBn256ScalarMul :: "('a, 'b, 'c, 'd) crypto_ops \<Rightarrow> geth_ops \<Rightarrow> bytes \<Rightarrow> pre_result" where
  "runBn256ScalarMul C G input = do {
     pb \<leftarrow> getData G input 0 64;
     decoded (newCurvePoint C pb) (\<lambda>p. do {
       kb \<leftarrow> getData G input 64 32;
       answer (bn_Marshal C (bn_ScalarMult C p (be_nat kb)))
     })
   }"

definition bn256ScalarMulIstanbul :: "('a, 'b, 'c, 'd) crypto_ops \<Rightarrow> geth_ops \<Rightarrow> precompile" where
  "bn256ScalarMulIstanbul C G =
     \<lparr>RequiredGas = (\<lambda>input. Some Bn256ScalarMulGasIstanbul), pre_Run = runBn256ScalarMul C G\<rparr>"

definition bn256ScalarMulByzantium :: "('a, 'b, 'c, 'd) crypto_ops \<Rightarrow> geth_ops \<Rightarrow> precompile" where
  "bn256ScalarMulByzantium C G =
     \<lparr>RequiredGas = (\<lambda>input. Some Bn256ScalarMulGasByzantium), pre_Run = runBn256ScalarMul C G\<rparr>"

definition true32Byte :: bytes where
  "true32Byte = replicate 31 0 @ [1]"

definition false32Byte :: bytes where
  "false32Byte = replicate 32 0"

text \<open>The loop over the pairs of 192 bytes from \<open>i\<close> on; each point is decoded before the next is cut out of the input, and the
  first error ends it. A slice out of bounds panics.\<close>

function bn_pairs :: "('a, 'b, 'c, 'd) crypto_ops \<Rightarrow> bytes \<Rightarrow> nat \<Rightarrow> (string + ('a list \<times> 'b list)) option" where
  "bn_pairs C input i =
     (if i < length input then do {
        cb \<leftarrow> go_slice input i (i + 64);
        case newCurvePoint C cb of
          Inl e \<Rightarrow> Some (Inl e)
        | Inr c \<Rightarrow> do {
            tb \<leftarrow> go_slice input (i + 64) (i + 192);
            case newTwistPoint C tb of
              Inl e \<Rightarrow> Some (Inl e)
            | Inr t \<Rightarrow> do {
                r \<leftarrow> bn_pairs C input (i + 192);
                Some (map_sum id (\<lambda>(cs, ts). (c # cs, t # ts)) r)
              }
          }
      } else Some (Inr ([], [])))"
  by pat_completeness auto
termination by (relation "measure (\<lambda>(C, input, i). length input - i)") auto

declare bn_pairs.simps [simp del]

definition runBn256Pairing :: "('a, 'b, 'c, 'd) crypto_ops \<Rightarrow> bytes \<Rightarrow> pre_result" where
  "runBn256Pairing C input =
     (if length input mod 192 > 0 then reject ''bad elliptic curve pairing size''
      else do {
        r \<leftarrow> bn_pairs C input 0;
        decoded r (\<lambda>(cs, ts). answer (if bn_PairingCheck C cs ts then true32Byte else false32Byte))
      })"

definition bn256PairingIstanbul :: "('a, 'b, 'c, 'd) crypto_ops \<Rightarrow> precompile" where
  "bn256PairingIstanbul C = \<lparr>RequiredGas = (\<lambda>input. Some (Bn256PairingBaseGasIstanbul +
     of_nat (length input div 192) * Bn256PairingPerPointGasIstanbul)), pre_Run = runBn256Pairing C\<rparr>"

definition bn256PairingByzantium :: "('a, 'b, 'c, 'd) crypto_ops \<Rightarrow> precompile" where
  "bn256PairingByzantium C = \<lparr>RequiredGas = (\<lambda>input. Some (Bn256PairingBaseGasByzantium +
     of_nat (length input div 192) * Bn256PairingPerPointGasByzantium)), pre_Run = runBn256Pairing C\<rparr>"

section \<open>The compression function of blake2\<close>

definition blake2FInputLength :: nat where "blake2FInputLength = 213"
definition blake2FFinalBlockBytes :: u8 where "blake2FFinalBlockBytes = 1"
definition blake2FNonFinalBlockBytes :: u8 where "blake2FNonFinalBlockBytes = 0"

definition le_u64 :: "bytes \<Rightarrow> u64" where
  "le_u64 bs = of_nat (be_nat (rev bs))"

definition put_le_u64 :: "u64 \<Rightarrow> bytes" where
  "put_le_u64 x = rev (be_bytes 8 (unat x))"

text \<open>\<open>words_at input off n\<close>: the \<open>n\<close> little-endian words from \<open>off\<close>.\<close>

definition words_at :: "bytes \<Rightarrow> nat \<Rightarrow> nat \<Rightarrow> u64 list option" where
  "words_at input off n = those (map (\<lambda>i. map_option le_u64 (go_slice input (off + i * 8) (off + i * 8 + 8))) [0..<n])"

definition blake2F_RequiredGas :: "bytes \<Rightarrow> u64 option" where
  "blake2F_RequiredGas input =
     (if length input \<noteq> blake2FInputLength then Some 0
      else map_option (\<lambda>b. of_nat (be_nat b)) (go_slice input 0 4))"

definition blake2F_Run :: "('a, 'b, 'c, 'd) crypto_ops \<Rightarrow> bytes \<Rightarrow> pre_result" where
  "blake2F_Run C input =
     (if length input \<noteq> blake2FInputLength then reject ''invalid input length''
      else do {
        flag \<leftarrow> go_index input 212;
        if flag \<noteq> blake2FNonFinalBlockBytes \<and> flag \<noteq> blake2FFinalBlockBytes then reject ''invalid final flag''
        else do {
          r \<leftarrow> go_slice input 0 4;
          let rounds = (of_nat (be_nat r) :: u32);
          let final = (flag = blake2FFinalBlockBytes);
          h \<leftarrow> words_at input 4 8;
          m \<leftarrow> words_at input 68 16;
          t \<leftarrow> words_at input 196 2;
          let h = blake_F C h m t final rounds;
          answer (concat (map (\<lambda>i. put_le_u64 (h ! i)) [0..<8]))
        }
      })"

definition blake2F :: "('a, 'b, 'c, 'd) crypto_ops \<Rightarrow> precompile" where
  "blake2F C = \<lparr>RequiredGas = blake2F_RequiredGas, pre_Run = blake2F_Run C\<rparr>"

section \<open>The curve BLS12-381\<close>

text \<open>The part of the input from \<open>a\<close> to \<open>b\<close>, decoded; a slice out of bounds panics.\<close>

definition decode_at :: "(bytes \<Rightarrow> string + 'x) \<Rightarrow> bytes \<Rightarrow> nat \<Rightarrow> nat \<Rightarrow> ('x \<Rightarrow> pre_result) \<Rightarrow> pre_result" where
  "decode_at decode input a b k = do { part \<leftarrow> go_slice input a b; decoded (decode part) k }"

definition bls_length_error :: pre_result where
  "bls_length_error = reject ''invalid input length''"

definition bls12381G1Add :: "('a, 'b, 'c, 'd) crypto_ops \<Rightarrow> precompile" where
  "bls12381G1Add C = \<lparr>RequiredGas = (\<lambda>input. Some Bls12381G1AddGas),
     pre_Run = (\<lambda>input.
       if length input \<noteq> 256 then bls_length_error
       else decode_at (g1_DecodePoint C) input 0 128 (\<lambda>p0.
         decode_at (g1_DecodePoint C) input 128 (length input) (\<lambda>p1. answer (g1_EncodePoint C (g1_Add C p0 p1)))))\<rparr>"

definition bls12381G1Mul :: "('a, 'b, 'c, 'd) crypto_ops \<Rightarrow> precompile" where
  "bls12381G1Mul C = \<lparr>RequiredGas = (\<lambda>input. Some Bls12381G1MulGas),
     pre_Run = (\<lambda>input.
       if length input \<noteq> 160 then bls_length_error
       else decode_at (g1_DecodePoint C) input 0 128 (\<lambda>p0. do {
         e \<leftarrow> go_slice input 128 (length input);
         answer (g1_EncodePoint C (g1_MulScalar C p0 (be_nat e)))
       }))\<rparr>"

text \<open>The price of a multi-exponentiation: the number of pairs, the price of one and a discount from the table.\<close>

definition multiexp_gas :: "u64 list \<Rightarrow> nat \<Rightarrow> u64 \<Rightarrow> u64 option" where
  "multiexp_gas table k mulGas =
     (if k = 0 then Some 0
      else do {
        discount \<leftarrow> (if k < length table then go_index table (k - 1) else go_index table (length table - 1));
        Some (of_nat k * mulGas * discount div 1000)
      })"

text \<open>The loop from \<open>i\<close> to \<open>k\<close> over pairs of a point of \<open>n\<close> bytes and a scalar of 32 bytes.\<close>

function point_scalars ::
  "(bytes \<Rightarrow> string + 'p) \<Rightarrow> nat \<Rightarrow> bytes \<Rightarrow> nat \<Rightarrow> nat \<Rightarrow> (string + ('p list \<times> nat list)) option" where
  "point_scalars decode n input i k =
     (if i < k then do {
        let off = (n + 32) * i;
        pb \<leftarrow> go_slice input off (off + n);
        case decode pb of
          Inl e \<Rightarrow> Some (Inl e)
        | Inr p \<Rightarrow> do {
            e \<leftarrow> go_slice input (off + n) (off + n + 32);
            r \<leftarrow> point_scalars decode n input (i + 1) k;
            Some (map_sum id (\<lambda>(ps, ks). (p # ps, be_nat e # ks)) r)
          }
      } else Some (Inr ([], [])))"
  by pat_completeness auto
termination by (relation "measure (\<lambda>(decode, n, input, i, k). k - i)") auto

declare point_scalars.simps [simp del]

definition bls12381G1MultiExp :: "('a, 'b, 'c, 'd) crypto_ops \<Rightarrow> precompile" where
  "bls12381G1MultiExp C = \<lparr>RequiredGas = (\<lambda>input. multiexp_gas (discount_table C) (length input div 160) Bls12381G1MulGas),
     pre_Run = (\<lambda>input.
       if length input = 0 \<or> length input mod 160 \<noteq> 0 then bls_length_error
       else do {
         r \<leftarrow> point_scalars (g1_DecodePoint C) 128 input 0 (length input div 160);
         decoded r (\<lambda>(points, scalars). answer (g1_EncodePoint C (g1_MultiExp C points scalars)))
       })\<rparr>"

definition bls12381G2Add :: "('a, 'b, 'c, 'd) crypto_ops \<Rightarrow> precompile" where
  "bls12381G2Add C = \<lparr>RequiredGas = (\<lambda>input. Some Bls12381G2AddGas),
     pre_Run = (\<lambda>input.
       if length input \<noteq> 512 then bls_length_error
       else decode_at (g2_DecodePoint C) input 0 256 (\<lambda>p0.
         decode_at (g2_DecodePoint C) input 256 (length input) (\<lambda>p1. answer (g2_EncodePoint C (g2_Add C p0 p1)))))\<rparr>"

definition bls12381G2Mul :: "('a, 'b, 'c, 'd) crypto_ops \<Rightarrow> precompile" where
  "bls12381G2Mul C = \<lparr>RequiredGas = (\<lambda>input. Some Bls12381G2MulGas),
     pre_Run = (\<lambda>input.
       if length input \<noteq> 288 then bls_length_error
       else decode_at (g2_DecodePoint C) input 0 256 (\<lambda>p0. do {
         e \<leftarrow> go_slice input 256 (length input);
         answer (g2_EncodePoint C (g2_MulScalar C p0 (be_nat e)))
       }))\<rparr>"

definition bls12381G2MultiExp :: "('a, 'b, 'c, 'd) crypto_ops \<Rightarrow> precompile" where
  "bls12381G2MultiExp C = \<lparr>RequiredGas = (\<lambda>input. multiexp_gas (discount_table C) (length input div 288) Bls12381G2MulGas),
     pre_Run = (\<lambda>input.
       if length input = 0 \<or> length input mod 288 \<noteq> 0 then bls_length_error
       else do {
         r \<leftarrow> point_scalars (g2_DecodePoint C) 256 input 0 (length input div 288);
         decoded r (\<lambda>(points, scalars). answer (g2_EncodePoint C (g2_MultiExp C points scalars)))
       })\<rparr>"

text \<open>The loop of the pairing from \<open>i\<close> to \<open>k\<close>: both points are decoded, then checked for their subgroups.\<close>

function bls_pairs :: "('a, 'b, 'c, 'd) crypto_ops \<Rightarrow> bytes \<Rightarrow> nat \<Rightarrow> nat \<Rightarrow> (string + ('c \<times> 'd) list) option" where
  "bls_pairs C input i k =
     (if i < k then do {
        let off = 384 * i;
        b1 \<leftarrow> go_slice input off (off + 128);
        case g1_DecodePoint C b1 of
          Inl e \<Rightarrow> Some (Inl e)
        | Inr p1 \<Rightarrow> do {
            b2 \<leftarrow> go_slice input (off + 128) (off + 384);
            case g2_DecodePoint C b2 of
              Inl e \<Rightarrow> Some (Inl e)
            | Inr p2 \<Rightarrow>
                if \<not> g1_InCorrectSubgroup C p1 then Some (Inl ''g1 point is not on correct subgroup'')
                else if \<not> g2_InCorrectSubgroup C p2 then Some (Inl ''g2 point is not on correct subgroup'')
                else do {
                  r \<leftarrow> bls_pairs C input (i + 1) k;
                  Some (map_sum id (\<lambda>ps. (p1, p2) # ps) r)
                }
          }
      } else Some (Inr []))"
  by pat_completeness auto
termination by (relation "measure (\<lambda>(C, input, i, k). k - i)") auto

declare bls_pairs.simps [simp del]

definition bls12381Pairing :: "('a, 'b, 'c, 'd) crypto_ops \<Rightarrow> precompile" where
  "bls12381Pairing C = \<lparr>RequiredGas = (\<lambda>input. Some (Bls12381PairingBaseGas +
       of_nat (length input div 384) * Bls12381PairingPerPairGas)),
     pre_Run = (\<lambda>input.
       if length input = 0 \<or> length input mod 384 \<noteq> 0 then bls_length_error
       else do {
         r \<leftarrow> bls_pairs C input 0 (length input div 384);
         decoded r (\<lambda>ps. answer (if bls_Check C ps then true32Byte else false32Byte))
       })\<rparr>"

text \<open>The loop over the top bytes, and the field element, copied into 48 bytes.\<close>

function top_zero :: "bytes \<Rightarrow> nat \<Rightarrow> bool option" where
  "top_zero input i =
     (if i < 16 then do { b \<leftarrow> go_index input i; if b \<noteq> 0 then Some False else top_zero input (i + 1) } else Some True)"
  by pat_completeness auto
termination by (relation "measure (\<lambda>(input, i). 16 - i)") auto

declare top_zero.simps [simp del]

definition decodeBLS12381FieldElement :: "bytes \<Rightarrow> (string + bytes) option" where
  "decodeBLS12381FieldElement input =
     (if length input \<noteq> 64 then Some (Inl ''invalid field element length'')
      else do {
        ok \<leftarrow> top_zero input 0;
        if \<not> ok then Some (Inl ''invalid field element top bytes'')
        else do {
          part \<leftarrow> go_slice input 16 (length input);
          Some (Inr (take 48 part @ replicate (48 - length part) 0))
        }
      })"

definition bls12381MapG1 :: "('a, 'b, 'c, 'd) crypto_ops \<Rightarrow> precompile" where
  "bls12381MapG1 C = \<lparr>RequiredGas = (\<lambda>input. Some Bls12381MapG1Gas),
     pre_Run = (\<lambda>input.
       if length input \<noteq> 64 then bls_length_error
       else do {
         fe \<leftarrow> decodeBLS12381FieldElement input;
         decoded fe (\<lambda>fe. decoded (g1_MapToCurve C fe) (\<lambda>r. answer (g1_EncodePoint C r)))
       })\<rparr>"

definition bls12381MapG2 :: "('a, 'b, 'c, 'd) crypto_ops \<Rightarrow> precompile" where
  "bls12381MapG2 C = \<lparr>RequiredGas = (\<lambda>input. Some Bls12381MapG2Gas),
     pre_Run = (\<lambda>input.
       if length input \<noteq> 128 then bls_length_error
       else do {
         b0 \<leftarrow> go_slice input 0 64;
         c0 \<leftarrow> decodeBLS12381FieldElement b0;
         decoded c0 (\<lambda>c0. do {
           b1 \<leftarrow> go_slice input 64 (length input);
           c1 \<leftarrow> decodeBLS12381FieldElement b1;
           decoded c1 (\<lambda>c1. decoded (g2_MapToCurve C (c1 @ c0)) (\<lambda>r. answer (g2_EncodePoint C r)))
         })
       })\<rparr>"

section \<open>The registry\<close>

definition PrecompiledContractsBLS ::
  "('a, 'b, 'c, 'd) crypto_ops \<Rightarrow> geth_ops \<Rightarrow> (address \<times> precompile) list" where
  "PrecompiledContractsBLS C G = map (\<lambda>(b, p). (g_BytesToAddress G [b], p))
     [(1, ecrecover C G), (2, sha256hash C), (3, ripemd160hash C G), (4, dataCopy),
      (5, bigModExp True G), (6, bn256AddIstanbul C G), (7, bn256ScalarMulIstanbul C G),
      (8, bn256PairingIstanbul C), (9, blake2F C), (10, bls12381G1Add C), (11, bls12381G1Mul C),
      (12, bls12381G1MultiExp C), (13, bls12381G2Add C), (14, bls12381G2Mul C),
      (15, bls12381G2MultiExp C), (16, bls12381Pairing C), (17, bls12381MapG1 C), (18, bls12381MapG2 C)]"

definition find_precompile :: "('a, 'b, 'c, 'd) crypto_ops \<Rightarrow> geth_ops \<Rightarrow> address \<Rightarrow> precompile option" where
  "find_precompile C G addr = map_of (PrecompiledContractsBLS C G) addr"

end
