(* ===== verification/NativeLaws.thy ===== *)
theory NativeLaws
  imports NativeContracts
begin

text \<open>
  What the native contracts guarantee: the modular exponentiation is exact on every input that can be paid
  for, and no input makes a contract of the registry panic.
\<close>

section \<open>Modular exponentiation\<close>

lemma be_bytes_small: "x < 256 ^ n \<Longrightarrow> be_bytes n x = replicate (n - length (min_bytes x)) 0 @ min_bytes x"
proof (induction n arbitrary: x)
  case 0
  then show ?case by (simp add: min_bytes.simps)
next
  case (Suc n)
  show ?case
  proof (cases "x = 0")
    case True
    with Suc.IH [of 0] show ?thesis by (simp add: min_bytes.simps replicate_append_same [symmetric])
  next
    case False
    have "x div 256 < 256 ^ n" using Suc.prems by (simp add: less_mult_imp_div_less mult.commute)
    with Suc.IH False show ?thesis by (simp add: min_bytes.simps [of x])
  qed
qed

lemma length_min_bytes: "x < 256 ^ n \<Longrightarrow> length (min_bytes x) \<le> n"
proof (induction n arbitrary: x)
  case (Suc n)
  then have "x div 256 < 256 ^ n" by (simp add: less_mult_imp_div_less mult.commute)
  with Suc.IH show ?case by (simp add: min_bytes.simps [of x])
qed (simp add: min_bytes.simps)

lemma LeftPad_min_bytes:
  assumes "geth_spec G" and "x < 256 ^ n"
  shows "g_LeftPadBytes G (min_bytes x) n = be_bytes n x"
  using be_bytes_small [OF assms(2)] length_min_bytes [OF assms(2)] by (simp add: geth_specD [OF assms(1)])

lemma length_padded [simp]: "length (padded xs k n) = n"
  by (simp add: padded_def)

text \<open>The three lengths at the head of the input.\<close>

definition modexp_head :: "bytes \<Rightarrow> nat \<times> nat \<times> nat" where
  "modexp_head input = (be_nat (padded input 0 32), be_nat (padded input 32 32), be_nat (padded input 64 32))"

lemma modexp_lengths_eq:
  "geth_spec G \<Longrightarrow> length input < 2 ^ 63 \<Longrightarrow> modexp_lengths G input = Some (modexp_head input)"
  by (simp add: modexp_lengths_def modexp_head_def getData_no_wrap)

lemma operands_eq: "operands input = Some (drop 96 input)"
  by (simp add: operands_def)

text \<open>A price below the maximum bounds all three lengths.\<close>

lemma modexp_price_bounds:
  assumes "unat (modexp_price True b m (adjExpLen e h)) < 2 ^ 64 - 1" and "b \<noteq> 0 \<or> m \<noteq> 0"
  shows "b < 2 ^ 37 \<and> m < 2 ^ 37 \<and> e < 2 ^ 63"
proof -
  define y where "y = (max m b + 7) div 8"
  define a where "a = max (adjExpLen e h) 1"
  define g where "g = y * y * a div 3"
  have y: "1 \<le> y" using assms(2) by (auto simp: y_def)
  have a: "1 \<le> a" "8 * (e - 32) \<le> a" by (auto simp: a_def adjExpLen_def Let_def)
  have "nat_bitlen g \<le> 64"
  proof (rule ccontr)
    assume "\<not> nat_bitlen g \<le> 64"
    then have "modexp_price True b m (adjExpLen e h) = max_u64"
      by (simp add: modexp_price_def Let_def g_def y_def a_def)
    with assms(1) show False by (simp add: unsigned_minus_1_eq_mask mask_eq_exp_minus_1)
  qed
  then have "g < 2 ^ 64" using less_pow_nat_bitlen [of g] by (meson less_le_trans one_le_numeral power_increasing)
  then have prod: "y * y * a < 3 * 2 ^ 64" by (simp add: g_def div_less_iff_less_mult mult.commute)
  have "a \<le> y * y * a" using y by simp
  with prod a(2) have "8 * (e - 32) < 3 * 2 ^ 64" by linarith
  then have e: "e < 2 ^ 63" by simp
  have "y * y \<le> y * y * a" using a(1) by simp
  then have "y * y < 3 * 2 ^ 64" using prod by (rule le_less_trans)
  then have "y * y < (2 ^ 33) * (2 ^ 33)" by simp
  then have "y < 2 ^ 33" by (metis linorder_not_less mult_le_mono)
  then have "max m b + 7 < 2 ^ 33 * 8" by (simp add: y_def div_less_iff_less_mult)
  then have "max m b < 2 ^ 37" by simp
  with e show ?thesis by (simp only: max_less_iff_conj)
qed

text \<open>What the contract is to compute.\<close>

definition modexp_spec :: "bytes \<Rightarrow> bytes" where
  "modexp_spec input = (case modexp_head input of (b, e, m) \<Rightarrow>
     let base = be_nat (padded (drop 96 input) 0 b);
         exponent = be_nat (padded (drop 96 input) b e);
         modulus = be_nat (padded (drop 96 input) (b + e) m)
     in be_bytes m (if modulus = 0 then 0 else base ^ exponent mod modulus))"

lemma big_u64_small: "x < 2 ^ 63 \<Longrightarrow> unat (big_u64 x) = x"
  by (simp add: big_u64_def unat_of_nat)

lemma nat_bitlen_0_iff: "nat_bitlen x = 0 \<longleftrightarrow> x = 0"
  by (simp add: nat_bitlen.simps [of x])

lemma modexp_total:
  assumes "geth_spec G" and "length input < 2 ^ 63"
  shows "\<exists>h. bigModExp_RequiredGas True G input = Some (case modexp_head input of (b, e, m) \<Rightarrow>
    modexp_price True b m (adjExpLen e h))"
proof -
  obtain b e m where head: "modexp_head input = (b, e, m)" by (metis prod.exhaust)
  have small: "length (drop 96 input) < 2 ^ 63" using assms(2) by simp
  show ?thesis
    using small
    by (auto simp: bigModExp_RequiredGas_def modexp_lengths_eq [OF assms] head Let_def getData_no_wrap [OF assms(1)]
        big_u64_small not_less operands_eq)
qed

lemma modexp_run_exact:
  assumes "geth_spec G" and "length input < 2 ^ 63" and "bigModExp_RequiredGas True G input = Some price"
    and "unat price < 2 ^ 64 - 1"
  shows "bigModExp_Run G input = Some (modexp_spec input, None)"
proof -
  obtain b e m where head: "modexp_head input = (b, e, m)" by (metis prod.exhaust)
  have small: "length (drop 96 input) < 2 ^ 63" using assms(2) by simp
  show ?thesis
  proof (cases "b = 0 \<and> m = 0")
    case True
    then show ?thesis
      by (simp add: bigModExp_Run_def operands_eq modexp_lengths_eq [OF assms(1,2)] head modexp_spec_def big_u64_def answer_def)
  next
    case False
    obtain h where "price = modexp_price True b m (adjExpLen e h)"
      using modexp_total [OF assms(1,2)] assms(3) head by auto
    with modexp_price_bounds [of b m e h] assms(4) False have lt: "b < 2 ^ 37" "m < 2 ^ 37" "e < 2 ^ 63" by auto
    then have un: "unat (big_u64 b) = b" "unat (big_u64 e) = e" "unat (big_u64 m) = m" by (simp_all add: big_u64_small)
    then have sum: "unat (big_u64 b + big_u64 e) = b + e" using lt by (subst unat_add_u64_no_wrap) simp_all
    have sint: "nat (sint (big_u64 m)) = m" using un(3) lt(2) sint_u64_small [of "big_u64 m"] by simp
    have nz: "\<not> (big_u64 b = 0 \<and> big_u64 m = 0)" using False un by auto
    have data: "getData G (drop 96 input) 0 (big_u64 b) = Some (padded (drop 96 input) 0 b)"
      "getData G (drop 96 input) (big_u64 b) (big_u64 e) = Some (padded (drop 96 input) b e)"
      "getData G (drop 96 input) (big_u64 b + big_u64 e) (big_u64 m) = Some (padded (drop 96 input) (b + e) m)"
      using getData_no_wrap [OF assms(1) small] un sum lt by simp_all
    have fits: "x mod be_nat (padded (drop 96 input) (b + e) m) < 256 ^ m"
      if "be_nat (padded (drop 96 input) (b + e) m) \<noteq> 0" for x
      using be_nat_less [of "padded (drop 96 input) (b + e) m"] that by (metis length_padded mod_less_divisor
          neq0_conv order_less_trans)
    have "g_LeftPadBytes G [] m = be_bytes m 0" using LeftPad_min_bytes [OF assms(1), of 0 m] by (simp add: min_bytes.simps)
    with fits show ?thesis
      by (simp add: bigModExp_Run_def operands_eq modexp_lengths_eq [OF assms(1,2)] head modexp_spec_def nz data Let_def
          nat_bitlen_0_iff sint answer_def LeftPad_min_bytes [OF assms(1)])
  qed
qed

section \<open>No panics\<close>

text \<open>A contract is total below the maximal price when every input has a price and, paid for with less, an answer.\<close>

definition total_pre :: "precompile \<Rightarrow> bytes \<Rightarrow> bool" where
  "total_pre p input \<longleftrightarrow> (\<exists>price. RequiredGas p input = Some price \<and>
     (unat price < 2 ^ 64 - 1 \<longrightarrow> pre_Run p input \<noteq> None))"

lemma multiexp_gas_total: "table \<noteq> [] \<Longrightarrow> \<exists>price. multiexp_gas table k g = Some price"
  by (auto simp: multiexp_gas_def go_index_def)

text \<open>What the contracts need from the library: a recovered key is not empty.\<close>

definition crypto_spec :: "('a, 'b, 'c, 'd) crypto_ops \<Rightarrow> bool" where
  "crypto_spec C \<longleftrightarrow> (\<forall>h sig pk. cr_Ecrecover C h sig = Some pk \<longrightarrow> pk \<noteq> []) \<and> discount_table C \<noteq> []"

lemma ecrecover_total:
  assumes "geth_spec G" and "crypto_spec C"
  shows "ecrecover_Run C G input \<noteq> None"
proof -
  have len: "128 \<le> length (g_RightPadBytes G input 128)" by (simp add: geth_specD [OF assms(1)])
  have pk: "Suc 0 \<le> length pk" if "cr_Ecrecover C h sig = Some pk" for h sig pk
    using assms(2) that by (auto simp: crypto_spec_def Suc_le_eq)
  from len show ?thesis
    by (auto simp: ecrecover_Run_def Let_def go_slice_def go_index_def answer_def geth_specD(5) [OF assms(1)] not_le
        split: option.split dest: pk)
qed

text \<open>\<open>runs m\<close>: the computation does not panic. The loops stay within an input of whole pairs, and every slice is behind its
  length check.\<close>

definition runs :: "'a option \<Rightarrow> bool" where
  "runs m \<longleftrightarrow> m \<noteq> None"

lemma runs_simps [simp]:
  "runs (Some x)" "runs (answer bs)" "runs (reject msg)" "runs bls_length_error"
  "runs (go_slice xs a b) = (a \<le> b \<and> b \<le> length xs)" "runs (go_index xs i) = (i < length xs)"
  "runs (if c then m else n) = ((c \<longrightarrow> runs m) \<and> (\<not> c \<longrightarrow> runs n))" "runs (map_option g m) = runs m"
  by (simp_all add: runs_def answer_def reject_def bls_length_error_def go_slice_def go_index_def)

lemma runs_then [intro!]: "runs m \<Longrightarrow> (\<And>x. m = Some x \<Longrightarrow> runs (k x)) \<Longrightarrow> runs (m \<bind> k)"
  by (cases m) (simp_all add: runs_def)

lemma runs_decoded [intro!]: "(\<And>x. runs (k x)) \<Longrightarrow> runs (decoded r k)"
  by (simp add: decoded_def split: sum.split)

lemma runs_decode_at [intro!]: "a \<le> b \<Longrightarrow> b \<le> length input \<Longrightarrow> (\<And>x. runs (k x)) \<Longrightarrow> runs (decode_at decode input a b k)"
  by (auto simp: decode_at_def)

lemma runs_bn_pairs: "length input = i + 192 * n \<Longrightarrow> runs (bn_pairs C input i)"
proof (induction n arbitrary: i)
  case (Suc n)
  then have "runs (bn_pairs C input (i + 192))" by simp
  with Suc.prems show ?case by (subst bn_pairs.simps) (auto split: sum.split)
qed (simp add: bn_pairs.simps)

lemma runs_point_scalars: "k = i + m \<Longrightarrow> (n + 32) * k \<le> length input \<Longrightarrow> runs (point_scalars decode n input i k)"
proof (induction m arbitrary: i)
  case (Suc m)
  then have "runs (point_scalars decode n input (i + 1) k)" by simp
  moreover have "(n + 32) * (i + 1) \<le> (n + 32) * k" using Suc.prems by (intro mult_le_mono2) simp
  with Suc.prems(2) have "(n + 32) * i + (n + 32) \<le> length input" by simp
  ultimately show ?case by (subst point_scalars.simps) (auto simp: Let_def split: sum.split)
qed (simp add: point_scalars.simps)

lemma runs_bls_pairs: "k = i + m \<Longrightarrow> 384 * k \<le> length input \<Longrightarrow> runs (bls_pairs C input i k)"
proof (induction m arbitrary: i)
  case (Suc m)
  then have "runs (bls_pairs C input (i + 1) k)" by simp
  moreover have "384 * i + 384 \<le> length input" using Suc.prems by simp
  ultimately show ?case by (subst bls_pairs.simps) (auto simp: Let_def split: sum.split)
qed (simp add: bls_pairs.simps)

lemma runs_top_zero: "16 = i + m \<Longrightarrow> 16 \<le> length input \<Longrightarrow> runs (top_zero input i)"
proof (induction m arbitrary: i)
  case (Suc m)
  then have "runs (top_zero input (i + 1))" by simp
  with Suc.prems show ?case by (subst top_zero.simps) auto
qed (simp add: top_zero.simps)

lemma runs_field_element [simp]: "runs (decodeBLS12381FieldElement input)"
  using runs_top_zero [of 0 16 input] by (auto simp: decodeBLS12381FieldElement_def)

lemma runs_those: "(\<And>x. x \<in> set xs \<Longrightarrow> runs (f x)) \<Longrightarrow> runs (those (map f xs))"
  by (induction xs) (auto simp: runs_def split: option.splits)

lemma runs_words_at: "off + n * 8 \<le> length input \<Longrightarrow> runs (words_at input off n)"
  unfolding words_at_def by (rule runs_those) auto

lemma runs_blake2F: "runs (blake2F_Run C input)"
  by (auto simp: blake2F_Run_def blake2FInputLength_def Let_def intro!: runs_words_at)

lemma runs_bls_add: "runs (pre_Run (bls12381G1Add C) input)" "runs (pre_Run (bls12381G2Add C) input)"
  by (auto simp: bls12381G1Add_def bls12381G2Add_def)

lemma runs_bls_mul: "runs (pre_Run (bls12381G1Mul C) input)" "runs (pre_Run (bls12381G2Mul C) input)"
  by (auto simp: bls12381G1Mul_def bls12381G2Mul_def)

lemma runs_bls_multiexp: "runs (pre_Run (bls12381G1MultiExp C) input)" "runs (pre_Run (bls12381G2MultiExp C) input)"
  by (auto simp: bls12381G1MultiExp_def bls12381G2MultiExp_def intro!: runs_point_scalars split: prod.split)

lemma runs_bls_pairing: "runs (pre_Run (bls12381Pairing C) input)"
  by (auto simp: bls12381Pairing_def intro!: runs_bls_pairs)

lemma runs_bls_map: "runs (pre_Run (bls12381MapG1 C) input)" "runs (pre_Run (bls12381MapG2 C) input)"
  by (auto simp: bls12381MapG1_def bls12381MapG2_def)

lemma runs_bn256Pairing: "runs (runBn256Pairing C input)"
proof (cases "length input mod 192 = 0")
  case True
  then obtain n where "length input = 0 + 192 * n" by auto
  from runs_bn_pairs [OF this] show ?thesis by (auto simp: runBn256Pairing_def split: prod.split)
qed (simp add: runBn256Pairing_def)

lemma total_preI:
  "RequiredGas p input = Some price \<Longrightarrow> runs (pre_Run p input) \<Longrightarrow> total_pre p input"
  by (simp add: total_pre_def runs_def)

lemma curve_totals:
  assumes "geth_spec G" and "crypto_spec C" and "length input < 2 ^ 63"
  shows "total_pre (bn256AddIstanbul C G) input" "total_pre (bn256ScalarMulIstanbul C G) input"
    "total_pre (bn256PairingIstanbul C) input" "total_pre (blake2F C) input" "total_pre (bls12381G1Add C) input"
    "total_pre (bls12381G1Mul C) input" "total_pre (bls12381G1MultiExp C) input" "total_pre (bls12381G2Add C) input"
    "total_pre (bls12381G2Mul C) input" "total_pre (bls12381G2MultiExp C) input" "total_pre (bls12381Pairing C) input"
    "total_pre (bls12381MapG1 C) input" "total_pre (bls12381MapG2 C) input"
proof -
  note data = getData_no_wrap [OF assms(1,3)]
  have table: "discount_table C \<noteq> []" using assms(2) by (simp add: crypto_spec_def)
  obtain g1 g2 where prices: "RequiredGas (bls12381G1MultiExp C) input = Some g1"
    "RequiredGas (bls12381G2MultiExp C) input = Some g2"
    using multiexp_gas_total [OF table] by (simp add: bls12381G1MultiExp_def bls12381G2MultiExp_def) metis
  show "total_pre (bn256AddIstanbul C G) input" "total_pre (bn256ScalarMulIstanbul C G) input"
    by (rule total_preI, simp add: bn256AddIstanbul_def bn256ScalarMulIstanbul_def,
      auto simp: bn256AddIstanbul_def runBn256Add_def bn256ScalarMulIstanbul_def runBn256ScalarMul_def data)+
  show "total_pre (bn256PairingIstanbul C) input"
    by (rule total_preI) (simp_all add: bn256PairingIstanbul_def runs_bn256Pairing)
  show "total_pre (blake2F C) input"
    using runs_blake2F [of C input]
    by (auto simp: total_pre_def runs_def blake2F_def blake2F_RequiredGas_def blake2FInputLength_def go_slice_def)
  show "total_pre (bls12381G1MultiExp C) input" "total_pre (bls12381G2MultiExp C) input"
    by (rule total_preI, rule prices, rule runs_bls_multiexp)+
  show "total_pre (bls12381G1Add C) input" "total_pre (bls12381G1Mul C) input" "total_pre (bls12381G2Add C) input"
    "total_pre (bls12381G2Mul C) input" "total_pre (bls12381Pairing C) input"
    "total_pre (bls12381MapG1 C) input" "total_pre (bls12381MapG2 C) input"
    by (rule total_preI [OF _ runs_bls_add(1)] total_preI [OF _ runs_bls_mul(1)] total_preI [OF _ runs_bls_add(2)]
        total_preI [OF _ runs_bls_mul(2)] total_preI [OF _ runs_bls_pairing] total_preI [OF _ runs_bls_map(1)]
        total_preI [OF _ runs_bls_map(2)],
      simp add: bls12381G1Add_def bls12381G1Mul_def bls12381G2Add_def bls12381G2Mul_def bls12381Pairing_def
        bls12381MapG1_def bls12381MapG2_def)+
qed

lemma plain_totals:
  assumes "geth_spec G" and "crypto_spec C" and "length input < 2 ^ 63"
  shows "total_pre (ecrecover C G) input" "total_pre (sha256hash C) input" "total_pre (ripemd160hash C G) input"
    "total_pre dataCopy input" "total_pre (bigModExp True G) input"
  using ecrecover_total [OF assms(1,2)] modexp_total [OF assms(1,3)] modexp_run_exact [OF assms(1,3)]
  by (auto simp: total_pre_def ecrecover_def sha256hash_def ripemd160hash_def dataCopy_def bigModExp_def answer_def)

lemma registry_total:
  assumes "geth_spec G" and "crypto_spec C" and "length input < 2 ^ 63" and "find_precompile C G a = Some p"
  shows "total_pre p input"
proof -
  have "list_all (\<lambda>(a, p). total_pre p input) (PrecompiledContractsBLS C G)"
    using plain_totals [OF assms(1-3)] curve_totals [OF assms(1-3)] by (simp add: PrecompiledContractsBLS_def)
  moreover from assms(4) have "(a, p) \<in> set (PrecompiledContractsBLS C G)"
    by (simp add: find_precompile_def map_of_SomeD)
  ultimately show ?thesis by (auto simp: list_all_iff)
qed

section \<open>Properties\<close>

text \<open>C16. Modular exponentiation is exact: for every input and every supplied gas that covers its price (the
  maximal \<^verbatim>\<open>uint64\<close> apart, which stands for prices that do not fit) the contract answers the power modulo the
  modulus in exactly as many bytes as the modulus has, and the rest of the gas. The lengths are
  read as 256-bit numbers, but none that is affordable is cut off.\<close>

theorem modexp_exact:
  assumes "geth_spec G" and "length input < 2 ^ 63" and "unat gas < 2 ^ 64 - 1"
    and "bigModExp_RequiredGas True G input = Some price" and "price \<le> gas"
  shows "RunRrecompiledContractPre (bigModExp True G) input gas = Some (modexp_spec input, gas - price, None)"
proof -
  have "unat price < 2 ^ 64 - 1" using assms(3,5) by (simp add: word_le_nat_alt)
  from modexp_run_exact [OF assms(1,2,4) this] assms(4,5) show ?thesis
    by (simp add: RunRrecompiledContractPre_def bigModExp_def not_less)
qed

text \<open>C25. No input makes a contract of the registry panic, as long as less than the maximal gas is supplied: every slice and
  index of the input is within its bounds, behind the length checks of the contract. (With the maximal gas the modular
  exponentiation would run on lengths that do not fit.)\<close>

theorem native_contracts_total:
  assumes "geth_spec G" and "crypto_spec C" and "length input < 2 ^ 63" and "unat gas < 2 ^ 64 - 1"
    and "find_precompile C G a = Some p"
  shows "RunRrecompiledContractPre p input gas \<noteq> None"
proof -
  obtain price where "RequiredGas p input = Some price" "unat price < 2 ^ 64 - 1 \<longrightarrow> pre_Run p input \<noteq> None"
    using registry_total [OF assms(1-3,5)] by (auto simp: total_pre_def)
  then show ?thesis using assms(4) by (auto simp: RunRrecompiledContractPre_def not_less word_le_nat_alt)
qed

section \<open>Concrete contracts\<close>

text \<open>A library whose curves have one point, and the input \<open>2 ^ 3 mod 5\<close> with operands of one byte each.\<close>

definition crypto_std :: "(unit, unit, unit, unit) crypto_ops" where
  "crypto_std = \<lparr>cr_ValidateSignatureValues = (\<lambda>v r s. v \<le> 1), cr_Ecrecover = (\<lambda>h sig. Some (4 # h @ h)),
     cr_Sha256 = (\<lambda>bs. replicate 32 0), cr_Ripemd160 = (\<lambda>bs. replicate 20 0),
     bn_UnmarshalG1 = (\<lambda>bs. Inr ()), bn_UnmarshalG2 = (\<lambda>bs. Inr ()), bn_Add = (\<lambda>x y. ()), bn_ScalarMult = (\<lambda>x k. ()),
     bn_Marshal = (\<lambda>x. replicate 64 0), bn_PairingCheck = (\<lambda>cs ts. True), blake_F = (\<lambda>h m t f r. h),
     g1_DecodePoint = (\<lambda>bs. Inr ()), g1_EncodePoint = (\<lambda>x. replicate 128 0), g1_Add = (\<lambda>x y. ()),
     g1_MulScalar = (\<lambda>x k. ()), g1_MultiExp = (\<lambda>ps ks. ()), g1_InCorrectSubgroup = (\<lambda>x. True),
     g1_MapToCurve = (\<lambda>bs. Inr ()), g2_DecodePoint = (\<lambda>bs. Inr ()), g2_EncodePoint = (\<lambda>x. replicate 256 0),
     g2_Add = (\<lambda>x y. ()), g2_MulScalar = (\<lambda>x k. ()), g2_MultiExp = (\<lambda>ps ks. ()),
     g2_InCorrectSubgroup = (\<lambda>x. True), g2_MapToCurve = (\<lambda>bs. Inr ()), bls_Check = (\<lambda>ps. True),
     discount_table = [1200, 888, 764]\<rparr>"

lemma crypto_std_spec: "crypto_spec crypto_std"
  by (simp add: crypto_spec_def crypto_std_def)

definition modexp_input :: bytes where
  "modexp_input = replicate 31 0 @ [1] @ replicate 31 0 @ [1] @ replicate 31 0 @ [1] @ [2, 3, 5]"

lemma be_nat_one: "be_nat (replicate 31 0 @ [1]) = 1"
proof -
  have "be_nat (replicate n 0) = 0" for n by (induction n) simp_all
  then show ?thesis by simp
qed

lemma modexp_input_values: "modexp_head modexp_input = (1, 1, 1)" "drop 96 modexp_input = [2, 3, 5]"
proof -
  let ?one = "replicate 31 0 @ [1 :: u8]"
  have parts: "modexp_input = ?one @ ?one @ ?one @ [2, 3, 5]" by (simp add: modexp_input_def)
  have "length ?one = 32" by simp
  then have "padded modexp_input 0 32 = ?one" "padded modexp_input 32 32 = ?one" "padded modexp_input 64 32 = ?one"
    unfolding parts padded_eq by simp_all
  then show "modexp_head modexp_input = (1, 1, 1)" by (simp only: modexp_head_def be_nat_one)
  show "drop 96 modexp_input = [2, 3, 5]" by (simp add: modexp_input_def)
qed

lemma bitlen_values: "nat_bitlen 0 = 0" "nat_bitlen 3 = 2" "nat_bitlen (Suc (Suc (Suc 0))) = 2"
  by (simp_all add: nat_bitlen.simps [of 3] nat_bitlen.simps [of 1] nat_bitlen.simps [of 0] nat_bitlen.simps [of "Suc 0"]
      nat_bitlen.simps [of "Suc (Suc (Suc 0))"])

theorem modexp_exact_witness:
  "RunRrecompiledContractPre (bigModExp True geth_std) modexp_input 1000 = Some ([3], 800, None)"
proof -
  have len: "length modexp_input < 2 ^ 63" by (simp add: modexp_input_def)
  have price: "bigModExp_RequiredGas True geth_std modexp_input = Some 200"
    by (simp add: bigModExp_RequiredGas_def operands_eq modexp_lengths_eq [OF geth_std_spec len] modexp_input_values Let_def
        getData_no_wrap [OF geth_std_spec] big_u64_def padded_def modexp_price_def adjExpLen_def bitlen_values)
  have "modexp_spec modexp_input = [3]"
    by (simp add: modexp_spec_def modexp_input_values padded_def Let_def)
  with modexp_exact [OF geth_std_spec len _ price, of 1000] show ?thesis by simp
qed

theorem native_contracts_total_witness:
  "\<exists>p. find_precompile crypto_std geth_std 9 = Some p \<and> RunRrecompiledContractPre p [1, 2, 3] 50 \<noteq> None"
proof -
  have f: "find_precompile crypto_std geth_std 9 = Some (blake2F crypto_std)"
    by (simp add: find_precompile_def PrecompiledContractsBLS_def geth_std_def)
  from native_contracts_total [OF geth_std_spec crypto_std_spec _ _ f, of "[1, 2, 3]" 50] f show ?thesis by simp
qed

end
