(* ===== verification/Transition.thy ===== *)
theory Transition
  imports EthVM
begin

text \<open>
  The state transition of a message (\<^verbatim>\<open>process/process_transition.go\<close>): intrinsic gas, the checks before the run, buying gas, the run
  itself, the refund and the tip. The gas pool of go-ethereum is the record \<open>pool_ops\<close>. Go's \<^verbatim>\<open>pt.state\<close> is the
  database of \<^verbatim>\<open>pt.vm\<close>. \<open>None\<close> is a panic.
\<close>

section \<open>The data\<close>

datatype tx_error =
    NonceTooHigh | NonceTooLow | FeeCapVeryHigh | TipVeryHigh | TipAboveFeeCap | FeeCapTooLow
  | InsufficientFunds | GasLimitReached | TxGasUintOverflow | IntrinsicGasTooLow | InsufficientFundsForTransfer
  | VmErr vm_error

record pool_ops =
  gp_SubGas :: "u64 \<Rightarrow> u64 \<Rightarrow> u64 option"
  gp_AddGas :: "u64 \<Rightarrow> u64 \<Rightarrow> u64 option"

definition pool_spec :: "pool_ops \<Rightarrow> bool" where
  "pool_spec P \<longleftrightarrow>
     (\<forall>g n. gp_SubGas P g n = (if g < n then None else Some (g - n))) \<and>
     (\<forall>g n. gp_AddGas P g n = (if 2 ^ 64 \<le> unat g + unat n then None else Some (g + n)))"

definition pool_std :: pool_ops where
  "pool_std = \<lparr>gp_SubGas = (\<lambda>g n. if g < n then None else Some (g - n)),
     gp_AddGas = (\<lambda>g n. if 2 ^ 64 \<le> unat g + unat n then None else Some (g + n))\<rparr>"

lemma pool_std_spec: "pool_spec pool_std"
  by (simp add: pool_spec_def pool_std_def)

record 's pt =
  pt_gp :: u64
  pt_msg :: message
  pt_gas :: u64
  pt_gasPrice :: int
  pt_gasFeeCap :: int
  pt_gasTipCap :: int
  pt_initialGas :: u64
  pt_value :: int
  pt_data :: bytes
  pt_vm :: "'s vm"

record exec_result =
  UsedGas :: u64
  res_Err :: "tx_error option"
  ReturnData :: bytes

text \<open>A step of the transition: the state, and an error of the message.\<close>

type_synonym 's tx_step = "('s pt \<times> tx_error option) option"

type_synonym 's tx_result = "('s pt \<times> exec_result \<times> tx_error option) option"

definition pt_db :: "'s pt \<Rightarrow> 's" where
  "pt_db p = vDB (pt_vm p)"

definition set_vm :: "'s pt \<Rightarrow> 's vm option \<Rightarrow> 's pt option" where
  "set_vm p vm = map_option (\<lambda>vm. p\<lparr>pt_vm := vm\<rparr>) vm"

section \<open>Intrinsic gas\<close>

fun count_nz :: "bytes \<Rightarrow> u64" where
  "count_nz [] = 0"
| "count_nz (b # bs) = (if b \<noteq> 0 then 1 else 0) + count_nz bs"

definition StorageKeys :: "(address \<times> hash list) list \<Rightarrow> nat" where
  "StorageKeys al = sum_list (map (length \<circ> snd) al)"

definition IntrinsicGas :: "bytes \<Rightarrow> (address \<times> hash list) list \<Rightarrow> bool \<Rightarrow> tx_error + u64" where
  "IntrinsicGas data accessList isContractCreation =
     (let gas = (if isContractCreation then TxGasContractCreation else TxGas);
          r = (if length data > 0 then
                 let nz = count_nz data;
                     nonZeroGas = TxDataNonZeroGasEIP2028
                 in if (max_u64 - gas) div nonZeroGas < nz then Inl TxGasUintOverflow
                    else
                      let gas = gas + nz * nonZeroGas;
                          z = of_nat (length data) - nz
                      in if (max_u64 - gas) div TxDataZeroGas < z then Inl TxGasUintOverflow
                         else Inr (gas + z * TxDataZeroGas)
               else Inr gas)
      in case r of
           Inl e \<Rightarrow> Inl e
         | Inr gas \<Rightarrow> Inr (gas + of_nat (length accessList) * TxAccessListAddressGas +
             of_nat (StorageKeys accessList) * TxAccessListStorageKeyGas))"

section \<open>Before the run\<close>

definition NewProcessTransition :: "'s vm \<Rightarrow> message \<Rightarrow> u64 \<Rightarrow> 's pt" where
  "NewProcessTransition vm m gp = \<lparr>pt_gp = gp, pt_msg = m, pt_gas = 100000000, pt_gasPrice = msg_gasPrice m,
     pt_gasFeeCap = msg_gasFeeCap m, pt_gasTipCap = msg_gasTipCap m, pt_initialGas = 0, pt_value = msg_amount m,
     pt_data = msg_data m, pt_vm = vm\<rparr>"

definition pt_to :: "'s pt \<Rightarrow> address" where
  "pt_to p = (case msg_to (pt_msg p) of None \<Rightarrow> 0 | Some a \<Rightarrow> a)"

definition gasUsed :: "'s pt \<Rightarrow> u64" where
  "gasUsed p = pt_initialGas p - pt_gas p"

definition buyGas :: "pool_ops \<Rightarrow> 's env \<Rightarrow> 's pt \<Rightarrow> 's tx_step" where
  "buyGas P E p = do {
     let m = pt_msg p;
     let mgval = uint (msg_gasLimit m) * pt_gasPrice p;
     let balanceCheck = uint (msg_gasLimit m) * pt_gasFeeCap p + pt_value p;
     (have', p) \<leftarrow> (case GetAddressAndKey (vWriteSet (pt_vm p)) (msg_from m) (BalanceKey (eK E)) of
        None \<Rightarrow>
          let s = db_SetBalance (eA E) (pt_db p) (msg_from m) (balanceCheck + balanceCheck)
          in Some (db_GetBalance (eA E) s (msg_from m), p\<lparr>pt_vm := (pt_vm p)\<lparr>vDB := s\<rparr>\<rparr>)
      | Some haveByte \<Rightarrow> do { b \<leftarrow> as_big haveByte; Some (b, p) });
     if have' < balanceCheck then Some (p, Some InsufficientFunds)
     else do {
       p \<leftarrow> set_vm p (read_put E (pt_vm p) (msg_from m) (BalanceKey (eK E)) (VBig have'));
       case gp_SubGas P (pt_gp p) (msg_gasLimit m) of
         None \<Rightarrow> Some (p, Some GasLimitReached)
       | Some gp \<Rightarrow> do {
           let p = p\<lparr>pt_gp := gp, pt_gas := pt_gas p + msg_gasLimit m, pt_initialGas := msg_gasLimit m\<rparr>;
           p \<leftarrow> set_vm p (write_put E (pt_vm p) (msg_from m) (SubBalanceKey (eK E)) (VBig mgval) (VBytes []));
           Some (p, None)
         }
     }
   }"

definition big_BitLen :: "int \<Rightarrow> nat" where
  "big_BitLen x = nat_bitlen (nat \<bar>x\<bar>)"

text \<open>\<open>noBaseFee\<close> is the flag of the VM's configuration. A missing base fee panics.\<close>

definition fee_checks :: "bool \<Rightarrow> 's env \<Rightarrow> 's pt \<Rightarrow> tx_error option option" where
  "fee_checks noBaseFee E p =
     (if \<not> noBaseFee \<or> big_BitLen (pt_gasFeeCap p) > 0 \<or> big_BitLen (pt_gasTipCap p) > 0 then
        if big_BitLen (pt_gasFeeCap p) > 256 then Some (Some FeeCapVeryHigh)
        else if big_BitLen (pt_gasTipCap p) > 256 then Some (Some TipVeryHigh)
        else if pt_gasFeeCap p < pt_gasTipCap p then Some (Some TipAboveFeeCap)
        else do {
          baseFee \<leftarrow> BaseFee E;
          if pt_gasFeeCap p < baseFee then Some (Some FeeCapTooLow) else Some None
        }
      else Some None)"

definition preCheck :: "bool \<Rightarrow> pool_ops \<Rightarrow> 's env \<Rightarrow> 's pt \<Rightarrow> 's tx_step" where
  "preCheck noBaseFee P E p = do {
     let m = pt_msg p;
     (p, e) \<leftarrow> (if \<not> msg_isFake m then do {
          let stNonce = db_GetNonce (eA E) (pt_db p) (msg_from m);
          p \<leftarrow> set_vm p (read_put E (pt_vm p) (msg_from m) (NonceKey (eK E)) (VU64 stNonce));
          Some (p, if stNonce < msg_nonce m then Some NonceTooHigh
                   else if stNonce > msg_nonce m then Some NonceTooLow else None)
        } else Some (p, None));
     case e of
       Some e \<Rightarrow> Some (p, Some e)
     | None \<Rightarrow> do {
         f \<leftarrow> fee_checks noBaseFee E p;
         case f of Some e \<Rightarrow> Some (p, Some e) | None \<Rightarrow> buyGas P E p
       }
   }"

section \<open>After the run\<close>

definition refundGas :: "pool_ops \<Rightarrow> 's env \<Rightarrow> u64 \<Rightarrow> 's pt \<Rightarrow> 's pt option" where
  "refundGas P E refundQuotient p = do {
     let refund = gasUsed p div refundQuotient;
     let refund = (if refund > db_GetRefund (eJ E) (pt_db p) then db_GetRefund (eJ E) (pt_db p) else refund);
     let p = p\<lparr>pt_gas := pt_gas p + refund\<rparr>;
     let remaining = uint (pt_gas p) * pt_gasPrice p;
     p \<leftarrow> (if big_Uint64 remaining \<noteq> 0 then
            let balanVal = (case GetAddressAndKey (vWriteSet (pt_vm p)) (msg_from (pt_msg p)) (BalanceKey (eK E)) of
                  None \<Rightarrow> VBig (db_GetBalance (eA E) (pt_db p) (msg_from (pt_msg p)))
                | Some v \<Rightarrow> v)
            in set_vm p (write_put E (pt_vm p) (msg_from (pt_msg p)) (BalanceKey (eK E)) (VBig remaining) balanVal)
          else Some p);
     gp \<leftarrow> gp_AddGas P (pt_gp p) (pt_gas p);
     Some (p\<lparr>pt_gp := gp\<rparr>)
   }"

text \<open>The tip goes to the coinbase; \<open>base\<close> is the balance it is added to.\<close>

definition pay_tip :: "'s env \<Rightarrow> int \<Rightarrow> 's pt \<Rightarrow> 's pt option" where
  "pay_tip E base p = do {
     baseFee \<leftarrow> BaseFee E;
     let effectiveTip = min (pt_gasTipCap p) (pt_gasFeeCap p - baseFee);
     if big_Uint64 effectiveTip \<noteq> 0
     then set_vm p (write_put E (pt_vm p) (Coinbase E) (BalanceKey (eK E))
            (VBig (uint (gasUsed p) * effectiveTip)) (VBig base))
     else Some p
   }"

section \<open>The transition\<close>

definition failed_with :: "'s pt \<Rightarrow> u64 \<Rightarrow> tx_error \<Rightarrow> 's tx_result" where
  "failed_with p used e = Some (p, \<lparr>UsedGas = used, res_Err = Some e, ReturnData = []\<rparr>, Some e)"

text \<open>The run of the message with the gas of the transition: a creation or a call.\<close>

definition run_message :: "'s run_fn \<Rightarrow> 's env \<Rightarrow> 's pt \<Rightarrow> ('s pt \<times> bytes \<times> vm_error option) option" where
  "run_message run E p =
     (let sender = AccountRef (msg_from (pt_msg p)) in
      case msg_to (pt_msg p) of
        None \<Rightarrow> do {
          (vm, ret, addr, gas, err) \<leftarrow> Create run E (pt_vm p) sender (pt_data p) (pt_gas p) (pt_value p);
          Some (p\<lparr>pt_vm := vm, pt_gas := gas\<rparr>, ret, err)
        }
      | Some a \<Rightarrow> do {
          (vm, ret, gas, err) \<leftarrow> Call run E (pt_vm p) sender (pt_to p) (pt_data p) (pt_gas p) (pt_value p);
          Some (p\<lparr>pt_vm := vm, pt_gas := gas\<rparr>, ret, err)
        })"

definition TransitionDb :: "bool \<Rightarrow> pool_ops \<Rightarrow> 's run_fn \<Rightarrow> 's env \<Rightarrow> 's pt \<Rightarrow> 's tx_result" where
  "TransitionDb noBaseFee P run E p = do {
     (p, e) \<leftarrow> preCheck noBaseFee P E p;
     case e of
       Some e \<Rightarrow> failed_with p 0 e
     | None \<Rightarrow>
         let m = pt_msg p; contractCreation = (msg_to m = None) in
         case IntrinsicGas (pt_data p) (msg_accessList m) contractCreation of
           Inl e \<Rightarrow> failed_with p 0 e
         | Inr gas \<Rightarrow>
             if pt_gas p < gas then failed_with p 0 IntrinsicGasTooLow
             else
               let p = p\<lparr>pt_gas := pt_gas p - gas\<rparr> in
               if msg_amount m > 0 \<and> \<not> CanTransfer E (pt_db p) (msg_from m) (msg_amount m)
               then Some (p, \<lparr>UsedGas = CallStipend, res_Err = Some InsufficientFundsForTransfer, ReturnData = []\<rparr>, None)
               else do {
                 p \<leftarrow> set_vm p (read_put E (pt_vm p) (msg_from m) (BalanceKey (eK E))
                        (VBig (db_GetBalance (eA E) (pt_db p) (msg_from m))));
                 p \<leftarrow> (if contractCreation then Some p
                      else set_vm p (write_put E (pt_vm p) (msg_from m) (NonceKey (eK E))
                             (VU64 (db_GetNonce (eA E) (pt_db p) (msg_from m) + 1)) (VBytes [])));
                 (p, ret, vmerr) \<leftarrow> run_message run E p;
                 p \<leftarrow> refundGas P E RefundQuotientEIP3529 p;
                 p \<leftarrow> pay_tip E (db_GetBalance (eA E) (pt_db p) (Coinbase E)) p;
                 Some (p, \<lparr>UsedGas = 1, res_Err = map_option VmErr vmerr, ReturnData = ret\<rparr>, None)
               }
   }"

definition ReTransitionDb :: "pool_ops \<Rightarrow> 's run_fn \<Rightarrow> 's env \<Rightarrow> 's pt \<Rightarrow> 's tx_result" where
  "ReTransitionDb P run E p = do {
     (p, e) \<leftarrow> buyGas P E p;
     case e of
       Some e \<Rightarrow> failed_with p (gasUsed p) e
     | None \<Rightarrow>
         let m = pt_msg p; contractCreation = (msg_to m = None) in
         case IntrinsicGas (pt_data p) (msg_accessList m) contractCreation of
           Inl e \<Rightarrow> failed_with p 0 e
         | Inr gas \<Rightarrow>
             if pt_gas p < gas then failed_with p 0 IntrinsicGasTooLow
             else do {
               let p = p\<lparr>pt_gas := pt_gas p - gas\<rparr>;
               canTransferFlag \<leftarrow> can_transfer E (pt_vm p) (msg_from m) (msg_amount m);
               if msg_amount m > 0 \<and> \<not> canTransferFlag then failed_with p 0 InsufficientFundsForTransfer
               else do {
                 p \<leftarrow> set_vm p (write_put E (pt_vm p) (msg_from m) (SubBalanceKey (eK E)) (VBig (msg_amount m)) (VBytes []));
                 p \<leftarrow> (if contractCreation then Some p
                      else do {
                        senderNonce \<leftarrow> (case GetAddressAndKey (vWriteSet (pt_vm p)) (msg_from m) (NonceKey (eK E)) of
                            None \<Rightarrow> Some (db_GetNonce (eA E) (pt_db p) (msg_from m) + 1)
                          | Some v \<Rightarrow> as_u64 v);
                        set_vm p (write_put E (pt_vm p) (msg_from m) (NonceKey (eK E)) (VU64 senderNonce) (VBytes []))
                      });
                 (p, ret, vmerr) \<leftarrow> run_message run E p;
                 p \<leftarrow> refundGas P E RefundQuotientEIP3529 p;
                 base \<leftarrow> balance_of E (pt_vm p) (Coinbase E);
                 p \<leftarrow> pay_tip E base p;
                 Some (p, \<lparr>UsedGas = gasUsed p, res_Err = map_option VmErr vmerr, ReturnData = ret\<rparr>, None)
               }
             }
   }"

definition ApplyMessage :: "bool \<Rightarrow> pool_ops \<Rightarrow> 's run_fn \<Rightarrow> 's env \<Rightarrow> 's vm \<Rightarrow> message \<Rightarrow> u64 \<Rightarrow> 's tx_result" where
  "ApplyMessage noBaseFee P run E vm m gp = TransitionDb noBaseFee P run E (NewProcessTransition vm m gp)"

definition ReApplyMessage :: "pool_ops \<Rightarrow> 's run_fn \<Rightarrow> 's env \<Rightarrow> 's vm \<Rightarrow> message \<Rightarrow> u64 \<Rightarrow> 's tx_result" where
  "ReApplyMessage P run E vm m gp = ReTransitionDb P run E (NewProcessTransition vm m gp)"

definition res_Return :: "exec_result \<Rightarrow> bytes" where
  "res_Return r = (if res_Err r \<noteq> None then [] else ReturnData r)"

definition res_Revert :: "exec_result \<Rightarrow> bytes" where
  "res_Revert r = (if res_Err r \<noteq> Some (VmErr ErrExecutionReverted) then [] else ReturnData r)"

definition res_Failed :: "exec_result \<Rightarrow> bool" where
  "res_Failed r \<longleftrightarrow> res_Err r \<noteq> None"

end
