(* ===== verification/Linker.thy ===== *)
theory Linker
  imports VM
begin

text \<open>
  Signed wasm code (\<^verbatim>\<open>vm/ethvm/ewasm_linker.go\<close>): a transaction carries the code and its metered, signed form, one after the
  other, behind them four magic bytes and the length of the second. Signatures are those of \<^verbatim>\<open>ed25519\<close>, a parameter,
  and so is the metering module that wagon runs. The store of codes is a database that the package
  only puts to, gets from and deletes in; audits encode their tasks by RLP.
\<close>

section \<open>The data\<close>

definition wasmIdent :: bytes where
  "wasmIdent = [0, 0x61, 0x73, 0x6D]"

definition spub :: bytes where
  "spub = [78, 213, 66, 231, 2, 216, 32, 136, 71, 233, 64, 132, 125, 45, 77, 101,
     222, 209, 181, 20, 212, 62, 181, 43, 190, 87, 231, 13, 194, 112, 244, 183]"

definition magic :: bytes where
  "magic = [0, 80, 68, 88]"

definition auditLimit :: int where
  "auditLimit = 20"

datatype link_error = BadFormat | RejectJoin | CodeTooLong | BadCode

type_synonym verifier = "bytes \<Rightarrow> bytes \<Rightarrow> bytes \<Rightarrow> bool"

text \<open>A result may be a panic (\<open>None\<close>) or an error.\<close>

type_synonym 'a linked = "(link_error + 'a) option"

section \<open>Signed code\<close>

definition IsWASM :: "bytes \<Rightarrow> bool option" where
  "IsWASM code = do { h \<leftarrow> go_slice code 0 4; Some (h = wasmIdent) }"

definition IsFinalcode :: "bytes \<Rightarrow> bool option" where
  "IsFinalcode finalcode =
     (if length finalcode < 72 then Some False
      else do {
        w \<leftarrow> IsWASM finalcode;
        if \<not> w then Some False
        else do {
          tail \<leftarrow> go_slice finalcode (length finalcode - 8) (length finalcode);
          Some (magic = take 4 tail)
        }
      })"

definition ValidateCode :: "verifier \<Rightarrow> bytes \<Rightarrow> bytes linked" where
  "ValidateCode ver code =
     (if length code > 64 then do {
        w \<leftarrow> IsWASM code;
        if w then
          let sig = drop (length code - 64) code; msg = take (length code - 64) code
          in Some (if ver spub msg sig then Inr msg else Inl BadCode)
        else Some (Inl BadCode)
      } else Some (Inl BadCode))"

text \<open>The length is read from four bytes and may exceed the data: then the slices panic. The magic bytes are not looked at.\<close>

definition SplitTxdata :: "verifier \<Rightarrow> bytes \<Rightarrow> (bytes \<times> bytes) linked" where
  "SplitTxdata ver finalcode =
     (let size = length finalcode in
      if size < 73 then Some (Inl BadFormat)
      else do {
        let tail = drop (size - 8) finalcode;
        let l = be_nat (drop 4 tail);
        if size < l + 8 then None
        else do {
          code \<leftarrow> go_slice finalcode 0 (size - l - 8);
          final \<leftarrow> go_slice finalcode (size - l - 8) (size - 8);
          v \<leftarrow> ValidateCode ver final;
          case v of Inl e \<Rightarrow> Some (Inl e) | Inr _ \<Rightarrow> Some (Inr (code, final))
        }
      })"

definition JoinTxdata :: "verifier \<Rightarrow> bytes \<Rightarrow> bytes \<Rightarrow> bytes linked" where
  "JoinTxdata ver code final = do {
     a \<leftarrow> IsFinalcode code;
     b \<leftarrow> (if a then Some True else IsFinalcode final);
     if b then Some (Inl RejectJoin)
     else do {
       v \<leftarrow> ValidateCode ver final;
       case v of
         Inl e \<Rightarrow> Some (Inl e)
       | Inr _ \<Rightarrow>
           let finallen = length final in
           if finallen > 16777215 then Some (Inl CodeTooLong)
           else
             let b24 = min_bytes finallen;
                 bl = 4 - length b24;
                 b24 = (if bl > 0 then replicate bl 0 @ b24 else b24)
             in Some (Inr (code @ final @ magic @ b24))
     }
   }"

text \<open>\<^verbatim>\<open>Sentinel\<close>: \<open>meter\<close> is the run of the metering module, which answers with nothing on an error. The code is returned
  beside the error of its validation.\<close>

definition Sentinel :: "(bytes \<Rightarrow> bytes option) \<Rightarrow> verifier \<Rightarrow> bytes \<Rightarrow> (bytes \<times> bool) option" where
  "Sentinel meter ver code =
     (case meter code of
        None \<Rightarrow> Some ([], False)
      | Some final \<Rightarrow> do {
          v \<leftarrow> ValidateCode ver final;
          Some (final, case v of Inl _ \<Rightarrow> False | Inr _ \<Rightarrow> True)
        })"

section \<open>The store of codes and its audits\<close>

text \<open>\<open>None\<close> of a put is an error of the database.\<close>

record 'd kv_ops =
  kv_Get :: "'d \<Rightarrow> bytes \<Rightarrow> bytes option"
  kv_Put :: "'d \<Rightarrow> bytes \<Rightarrow> bytes \<Rightarrow> 'd option"
  kv_Delete :: "'d \<Rightarrow> bytes \<Rightarrow> 'd option"

record audit_task =
  at_Key :: "int option"
  at_Txhash :: hash
  at_Status :: "int option"
  at_BlockNumber :: "int option"

record rlp_ops =
  rlp_Encode :: "audit_task \<Rightarrow> bytes option"
  rlp_Decode :: "bytes \<Rightarrow> audit_task option"

definition DelCode :: "'d kv_ops \<Rightarrow> 'd \<Rightarrow> bytes \<Rightarrow> 'd" where
  "DelCode D d k = (case kv_Delete D d k of None \<Rightarrow> d | Some d \<Rightarrow> d)"

definition GetCode :: "'d kv_ops \<Rightarrow> 'd \<Rightarrow> bytes \<Rightarrow> bytes option" where
  "GetCode D d k = kv_Get D d k"

definition PutCode :: "'d kv_ops \<Rightarrow> 'd \<Rightarrow> bytes \<Rightarrow> bytes \<Rightarrow> 'd" where
  "PutCode D d k v = (case kv_Put D d k v of None \<Rightarrow> d | Some d \<Rightarrow> d)"

definition GenCodekey :: "geth_ops \<Rightarrow> bytes \<Rightarrow> bytes" where
  "GenCodekey G code = g_Keccak256 G code"

definition taskNumKey :: "geth_ops \<Rightarrow> bytes" where
  "taskNumKey G = g_Keccak256 G (map (of_nat \<circ> of_char) ''task-num'')"

definition taskPreKey :: "geth_ops \<Rightarrow> bytes" where
  "taskPreKey G = g_Keccak256 G (map (of_nat \<circ> of_char) ''task-pre'')"

definition statusKey :: "geth_ops \<Rightarrow> bytes \<Rightarrow> bytes" where
  "statusKey G final = g_Keccak256 G (final @ map (of_nat \<circ> of_char) ''status'')"

text \<open>With a number to save, \<^verbatim>\<open>newTask\<close> stores it; without one it reads the last. An error of a put panics. Go's \<^verbatim>\<open>Bytes\<close> drops the sign.\<close>

definition newTask :: "'d kv_ops \<Rightarrow> 'd \<Rightarrow> bytes \<Rightarrow> int option \<Rightarrow> (int \<times> 'd) option" where
  "newTask D d k save =
     (case save of
        Some n \<Rightarrow> do { d \<leftarrow> kv_Put D d k (min_bytes (nat \<bar>n\<bar>)); Some (n, d) }
      | None \<Rightarrow> Some (case kv_Get D d k of None \<Rightarrow> 0 | Some buf \<Rightarrow> int (be_nat buf), d))"

text \<open>\<open>tx\<close> is the transaction that the chain database has under the hash: its data and block. A task passes when the
  stored metered code is the one that metering gives again; its status is stored in either case.\<close>

definition audit_passes ::
  "geth_ops \<Rightarrow> (bytes \<Rightarrow> bytes option) \<Rightarrow> verifier \<Rightarrow> bytes \<Rightarrow> bytes \<Rightarrow> bool option" where
  "audit_passes G meter ver code final = do {
     (metered, ok) \<leftarrow> Sentinel meter ver code;
     if \<not> ok then Some False
     else do {
       v \<leftarrow> ValidateCode ver metered;
       Some (case v of Inl _ \<Rightarrow> False | Inr _ \<Rightarrow> g_Keccak256 G final = g_Keccak256 G metered)
     }
   }"

definition processAuditTask ::
  "geth_ops \<Rightarrow> rlp_ops \<Rightarrow> (bytes \<Rightarrow> bytes option) \<Rightarrow> verifier \<Rightarrow> (hash \<Rightarrow> (bytes \<times> u64) option) \<Rightarrow>
   'd kv_ops \<Rightarrow> audit_task \<Rightarrow> 'd \<Rightarrow> 'd option" where
  "processAuditTask G R meter ver tx D atask d =
     (case tx (at_Txhash atask) of
        None \<Rightarrow> Some d
      | Some (code, num) \<Rightarrow> do {
          let atask = atask\<lparr>at_BlockNumber := Some (sint num)\<rparr>;
          let final = GetCode D d (GenCodekey G code);
          let final' = (case final of
              Some f \<Rightarrow> if length f = 31 then GetCode D d f else Some f
            | None \<Rightarrow> None);
          let fin = (case final' of Some f \<Rightarrow> f | None \<Rightarrow> []);
          passed \<leftarrow> (if at_Key atask \<noteq> None \<and> final' \<noteq> None then audit_passes G meter ver code fin else Some False);
          let atask = (if passed then atask\<lparr>at_Status := Some 1\<rparr> else atask);
          val \<leftarrow> rlp_Encode R atask;
          d \<leftarrow> kv_Put D d (statusKey G fin) val;
          (case at_Key atask of
             None \<Rightarrow> Some d
           | Some k \<Rightarrow> do { (n, d) \<leftarrow> newTask D d (taskPreKey G) (Some k); Some d })
        })"

text \<open>\<^verbatim>\<open>GenAuditTask\<close> stores the next task and sends its key to the loop of audits; the answer is what it sends. While the node
  synchronises, the task is done at once.\<close>

definition GenAuditTask ::
  "geth_ops \<Rightarrow> rlp_ops \<Rightarrow> (bytes \<Rightarrow> bytes option) \<Rightarrow> verifier \<Rightarrow> (hash \<Rightarrow> (bytes \<times> u64) option) \<Rightarrow>
   'd kv_ops \<Rightarrow> bool \<Rightarrow> hash \<Rightarrow> 'd \<Rightarrow> (bytes option \<times> 'd) option" where
  "GenAuditTask G R meter ver tx D syncing txhash d =
     (if syncing then do {
        d \<leftarrow> processAuditTask G R meter ver tx D
          \<lparr>at_Key = None, at_Txhash = txhash, at_Status = Some 1, at_BlockNumber = None\<rparr> d;
        Some (None, d)
      } else do {
        (n, d) \<leftarrow> newTask D d (taskNumKey G) None;
        let tk = n + 1;
        atask \<leftarrow> rlp_Encode R \<lparr>at_Key = Some tk, at_Txhash = txhash, at_Status = Some 0, at_BlockNumber = None\<rparr>;
        d \<leftarrow> kv_Put D d (min_bytes (nat \<bar>tk\<bar>)) atask;
        (n, d) \<leftarrow> newTask D d (taskNumKey G) (Some tk);
        Some (Some (min_bytes (nat \<bar>n\<bar>)), d)
      })"

text \<open>A turn of the loop of audits: a task that cannot be decoded is dropped.\<close>

definition audit_turn ::
  "geth_ops \<Rightarrow> rlp_ops \<Rightarrow> (bytes \<Rightarrow> bytes option) \<Rightarrow> verifier \<Rightarrow> (hash \<Rightarrow> (bytes \<times> u64) option) \<Rightarrow>
   'd kv_ops \<Rightarrow> bytes \<Rightarrow> 'd \<Rightarrow> 'd option" where
  "audit_turn G R meter ver tx D tk d =
     (let tv = (case kv_Get D d tk of Some v \<Rightarrow> v | None \<Rightarrow> []) in
      case rlp_Decode R tv of
        Some task \<Rightarrow> processAuditTask G R meter ver tx D task d
      | None \<Rightarrow> Some d)"

text \<open>The tasks that the loop sends to itself when the node starts: the numbers from the last that was processed up to, but without,
  the last that was given. A negative capacity of the channel panics.\<close>

definition audit_reload :: "geth_ops \<Rightarrow> 'd kv_ops \<Rightarrow> 'd \<Rightarrow> bytes list option" where
  "audit_reload G D d = do {
     (preNum, d) \<leftarrow> newTask D d (taskPreKey G) None;
     (lastNum, d) \<leftarrow> newTask D d (taskNumKey G) None;
     let pre = (word_of_int preNum :: u64);
     let las = (word_of_int lastNum :: u64);
     if sint (las - pre + 100) < 0 then None
     else Some (map (\<lambda>i. min_bytes (nat \<bar>i\<bar>)) (filter (\<lambda>i. i \<noteq> 0) [sint pre..sint las - 1]))
   }"

definition getFinalStatus :: "geth_ops \<Rightarrow> rlp_ops \<Rightarrow> 'd kv_ops \<Rightarrow> 'd \<Rightarrow> bytes \<Rightarrow> audit_task option" where
  "getFinalStatus G R D d final = do {
     buf \<leftarrow> kv_Get D d (statusKey G final);
     rlp_Decode R buf
   }"

text \<open>The answer is whether the code may be used: its audit has passed and is more than twenty blocks old.\<close>

definition VerifyStatus :: "geth_ops \<Rightarrow> rlp_ops \<Rightarrow> 'd kv_ops \<Rightarrow> 'd \<Rightarrow> int \<Rightarrow> bytes \<Rightarrow> bool" where
  "VerifyStatus G R D d currentBlockNumber final =
     (case getFinalStatus G R D d final of
        None \<Rightarrow> False
      | Some atask \<Rightarrow>
          (case (at_Status atask, at_BlockNumber atask) of
             (Some st, Some b) \<Rightarrow> (word_of_int st :: u64) = 1 \<and> b + auditLimit < currentBlockNumber
           | _ \<Rightarrow> False))"

end
