(* ===== verification/Process.thy ===== *)
theory Process
  imports Transition Interpreter MarkCache Linker
begin

text \<open>
  The execution of a block in order: the context of a block and of a transaction (\<^verbatim>\<open>process/background.go\<close>), a fresh
  machine per transaction (\<^verbatim>\<open>NewVM\<close> of \<^verbatim>\<open>vm/ethvm/ethvm.go\<close>), the receipt, and the commit of the write set to the
  database (\<^verbatim>\<open>process/process.go\<close>). Headers and the chain belong to other repositories: \<open>header\<close> has the fields the
  code reads, \<open>chain\<close> the two lookups. Go walks a map in any order; the model walks its entries in order, and
  \<open>ProcessLaws\<close> shows that the order does not matter.
\<close>

section \<open>The context of a block\<close>

record header =
  hd_ParentHash :: hash
  hd_Number :: int
  hd_Time :: u64
  hd_Difficulty :: int
  hd_MixDigest :: hash
  hd_BaseFee :: "int option"
  hd_GasLimit :: u64

record chain =
  ch_Author :: "header \<Rightarrow> bytes"
  ch_GetHeader :: "hash \<Rightarrow> u64 \<Rightarrow> header option"

text \<open>\<^verbatim>\<open>GetHashFn\<close> is a closure over a slice of hashes that only grows; here the slice is an argument and part of the
  answer. The walk back through the headers has fuel.\<close>

definition parent_hash :: "geth_ops \<Rightarrow> header \<Rightarrow> hash" where
  "parent_hash G h = ByteToHash G (g_HashBytes G (hd_ParentHash h))"

fun hash_walk :: "geth_ops \<Rightarrow> chain \<Rightarrow> u64 \<Rightarrow> nat \<Rightarrow> hash list \<Rightarrow> hash \<Rightarrow> u64 \<Rightarrow> (hash \<times> hash list) option" where
  "hash_walk G ch n 0 cached lastKnownHash lastKnownNumber = None"
| "hash_walk G ch n (Suc fuel) cached lastKnownHash lastKnownNumber =
     (case ch_GetHeader ch lastKnownHash lastKnownNumber of
        None \<Rightarrow> Some (0, cached)
      | Some header \<Rightarrow>
          let cached = cached @ [parent_hash G header];
              lastKnownHash = parent_hash G header;
              lastKnownNumber = big_Uint64 (hd_Number header) - 1
          in if n = lastKnownNumber then Some (lastKnownHash, cached)
             else hash_walk G ch n fuel cached lastKnownHash lastKnownNumber)"

definition GetHashFn :: "geth_ops \<Rightarrow> header \<Rightarrow> chain \<Rightarrow> nat \<Rightarrow> hash list \<Rightarrow> u64 \<Rightarrow> (hash \<times> hash list) option" where
  "GetHashFn G ref ch fuel cached n =
     (let cached = (if length cached = 0 then [parent_hash G ref] else cached);
          idx = big_Uint64 (hd_Number ref) - n - 1
      in if unat idx < length cached then Some (cached ! unat idx, cached)
         else hash_walk G ch n fuel cached (last cached) (big_Uint64 (hd_Number ref) - of_nat (length cached)))"

text \<open>The hash that a fresh closure answers; one step of fuel per block back.\<close>

definition block_hash :: "geth_ops \<Rightarrow> header \<Rightarrow> chain \<Rightarrow> u64 \<Rightarrow> hash" where
  "block_hash G ref ch n =
     (case GetHashFn G ref ch (Suc (unat (big_Uint64 (hd_Number ref)))) [] n of Some (h, _) \<Rightarrow> h | None \<Rightarrow> 0)"

text \<open>\<^verbatim>\<open>CanTransfer\<close> and \<^verbatim>\<open>Transfer\<close> of the package; the machine never calls the second.\<close>

definition db_CanTransfer :: "'s account_ops \<Rightarrow> 's \<Rightarrow> address \<Rightarrow> int \<Rightarrow> bool" where
  "db_CanTransfer A s a amount \<longleftrightarrow> db_GetBalance A s a \<ge> amount"

definition db_Transfer :: "'s account_ops \<Rightarrow> 's \<Rightarrow> address \<Rightarrow> address \<Rightarrow> int \<Rightarrow> 's" where
  "db_Transfer A s sender recipient amount = db_AddBalance A (db_SubBalance A s sender amount) recipient amount"

text \<open>The environment \<open>E\<close> brings the libraries; the rest of it is the context that the code builds.\<close>

definition NewVMBlockContext :: "header \<Rightarrow> chain \<Rightarrow> address option \<Rightarrow> 's env \<Rightarrow> 's env" where
  "NewVMBlockContext header ch author E =
     (let beneficiary = (case author of None \<Rightarrow> g_BytesToAddress (eG E) (ch_Author ch header) | Some a \<Rightarrow> a);
          random = (if hd_Difficulty header = 0
                    then Some (ByteToHash (eG E) (g_HashBytes (eG E) (hd_MixDigest header))) else None)
      in E\<lparr>CanTransfer := db_CanTransfer (eA E), GetHash := block_hash (eG E) header ch,
           Coinbase := beneficiary, GasLimit := hd_GasLimit header, BlockNumber := hd_Number header,
           Time := uint (hd_Time header), Difficulty := hd_Difficulty header, BaseFee := hd_BaseFee header,
           Random := random\<rparr>)"

definition NewVMTxContext :: "message \<Rightarrow> 's env \<Rightarrow> 's env" where
  "NewVMTxContext m E = E\<lparr>Origin := msg_from m, TxGasPrice := msg_gasPrice m\<rparr>"

section \<open>A fresh machine\<close>

text \<open>The interpreter is chosen by the data of the transaction, and there is none without data: then a
  run dereferences nil. The wagon interpreter is the argument \<open>nd_wasm\<close>.\<close>

datatype interpreter = NoInterpreter | VMInterpreter | EWASMInterpreter

definition new_interpreter :: "bytes \<Rightarrow> interpreter option" where
  "new_interpreter TxData =
     (if length TxData > 0
      then do { w \<leftarrow> IsWASM TxData; Some (if w then EWASMInterpreter else VMInterpreter) }
      else Some NoInterpreter)"

definition NewVM :: "bytes \<Rightarrow> 's \<Rightarrow> ('s vm \<times> interpreter) option" where
  "NewVM TxData s = do {
     ip \<leftarrow> new_interpreter TxData;
     Some (\<lparr>vDB = s, vReadSet = NewReadSet, vWriteSet = NewWriteSet, vLogs = [], depth = 0, abort = False,
            callGasTemp = 0, readOnly = False, returnData = [], jdstore = []\<rparr>, ip)
   }"

definition vm_Reset :: "'s vm \<Rightarrow> 's \<Rightarrow> 's vm" where
  "vm_Reset vm s = vm\<lparr>vLogs := [], vDB := s\<rparr>"

record 's node =
  nd_noBaseFee :: bool
  nd_pool :: pool_ops
  nd_jt :: "'s jump_table"
  nd_wasm :: "'s env \<Rightarrow> 's run_fn"

definition run_with :: "'s node \<Rightarrow> 's env \<Rightarrow> interpreter \<Rightarrow> 's run_fn" where
  "run_with N E ip =
     (case ip of
        NoInterpreter \<Rightarrow> (\<lambda>vm c input ro. None)
      | VMInterpreter \<Rightarrow> Run 1025 (nd_jt N) E
      | EWASMInterpreter \<Rightarrow> nd_wasm N E)"

section \<open>One transaction\<close>

datatype process_type = ParallelProcessType | SerialProcessType | RelProcessType

record receipt =
  rc_Type :: u32
  rc_CumulativeGasUsed :: u64
  rc_Success :: bool
  rc_TxHash :: hash
  rc_GasUsed :: u64
  rc_ContractAddress :: "address option"
  rc_Logs :: "metalog list"
  rc_BlockNumber :: int
  rc_TxIndex :: u32

record outcome_rec =
  r_Receipt :: "receipt option"
  r_err :: "tx_error option"
  r_VmErr :: "tx_error option"
  r_level :: int
  r_ReadSet :: rwset
  r_WriteSet :: rwset
  r_Logs :: "metalog list"
  r_Tx :: meta_tx
  r_Msg :: message

definition failed_outcome :: "tx_error \<Rightarrow> int \<Rightarrow> meta_tx \<Rightarrow> message \<Rightarrow> outcome_rec" where
  "failed_outcome e leve tx m = \<lparr>r_Receipt = None, r_err = Some e, r_VmErr = None, r_level = leve,
     r_ReadSet = NewReadSet, r_WriteSet = NewWriteSet, r_Logs = [], r_Tx = tx, r_Msg = m\<rparr>"

text \<open>The answer has the result, the database, the gas used so far and the pool. \<^verbatim>\<open>orgRes\<close> is read for
  transactions that run again.\<close>

definition ApplyTransactionWithFlag ::
  "'s node \<Rightarrow> 's env \<Rightarrow> message \<Rightarrow> meta_tx \<Rightarrow> 's \<Rightarrow> 's vm \<times> interpreter \<Rightarrow> u64 \<Rightarrow> u64 \<Rightarrow> int \<Rightarrow> process_type \<Rightarrow>
   outcome_rec option \<Rightarrow> (outcome_rec \<times> 's \<times> u64 \<times> u64) option" where
  "ApplyTransactionWithFlag N E m tx s vmm usedGas gp leve processType orgRes = do {
     let (vm, ip) = vmm;
     let E = NewVMTxContext m E;
     let vm = vm_Reset vm s;
     let run = run_with N E ip;
     (p, result, err) \<leftarrow> (if processType = RelProcessType
        then do {
          org \<leftarrow> orgRes;
          rc \<leftarrow> r_Receipt org;
          ReApplyMessage (nd_pool N) run E vm m gp
        }
        else ApplyMessage (nd_noBaseFee N) (nd_pool N) run E vm m gp);
     case err of
       Some e \<Rightarrow> Some (failed_outcome e leve tx m, pt_db p, usedGas, pt_gp p)
     | None \<Rightarrow> do {
         txType \<leftarrow> map_option tx_TxType (Base tx);
         let vm = pt_vm p;
         Some (\<lparr>r_Receipt = Some \<lparr>rc_Type = txType, rc_CumulativeGasUsed = usedGas, rc_Success = \<not> res_Failed result,
                  rc_TxHash = tx_Hash tx, rc_GasUsed = UsedGas result,
                  rc_ContractAddress = (if msg_to m = None then Some (Origin E) else None), rc_Logs = vLogs vm,
                  rc_BlockNumber = BlockNumber E, rc_TxIndex = 0\<rparr>,
                r_err = None, r_VmErr = res_Err result, r_level = leve, r_ReadSet = vReadSet vm,
                r_WriteSet = vWriteSet vm, r_Logs = vLogs vm, r_Tx = tx, r_Msg = m\<rparr>,
               vDB vm, usedGas + UsedGas result, pt_gp p)
       }
   }"

section \<open>Commit\<close>

text \<open>One entry of the map of an account. The four reserved keys come first, then storage.\<close>

definition commit_entry :: "'s env \<Rightarrow> address \<Rightarrow> 's \<Rightarrow> hash \<times> goval \<Rightarrow> 's option" where
  "commit_entry E a s e =
     (let K = eK E; A = eA E; (k, v) = e in
      if k = BalanceKey K \<or> k = CreatAccountKey K \<or> k = SetCodeKey K then Some s
      else if k = NonceKey K then do { n \<leftarrow> as_u64 v; Some (db_SetNonce A s a n) }
      else if k = SubBalanceKey K then do { b \<leftarrow> as_big v; Some (db_SubBalance A s a b) }
      else do { b \<leftarrow> as_bytes v; Some (db_SetState A s a k (ByteToHash (eG E) b)) })"

primrec commit_entries :: "'s env \<Rightarrow> address \<Rightarrow> cachemap \<Rightarrow> 's \<Rightarrow> 's option" where
  "commit_entries E a [] s = Some s"
| "commit_entries E a (e # es) s = commit_entry E a s e \<bind> commit_entries E a es"

definition commit_account :: "'s env \<Rightarrow> address \<Rightarrow> cachemap \<Rightarrow> 's \<Rightarrow> 's option" where
  "commit_account E a m s = do {
     let K = eK E;
     let A = eA E;
     let s = (if lookup m (CreatAccountKey K) \<noteq> None
              then db_SetNonce A (db_CreateAccount A s a) a 1 else s);
     s \<leftarrow> (case lookup m (SetCodeKey K) of
         Some code \<Rightarrow> do { b \<leftarrow> as_bytes code; Some (db_SetCode A s a b) }
       | None \<Rightarrow> Some s);
     s \<leftarrow> (case lookup m (BalanceKey K) of
         Some v \<Rightarrow> do { b \<leftarrow> as_big v; Some (db_SetBalance A s a b) }
       | None \<Rightarrow> Some s);
     commit_entries E a m s
   }"

primrec commit_accounts :: "'s env \<Rightarrow> (address \<times> cachemap) list \<Rightarrow> 's \<Rightarrow> 's option" where
  "commit_accounts E [] s = Some s"
| "commit_accounts E (e # es) s = commit_account E (fst e) (snd e) s \<bind> commit_accounts E es"

definition UpdateWrittenCacheToDataBaseInOrder :: "'s env \<Rightarrow> outcome_rec \<Rightarrow> 's \<Rightarrow> 's option" where
  "UpdateWrittenCacheToDataBaseInOrder E res s = do {
     s \<leftarrow> commit_accounts E (cache (r_WriteSet res)) s;
     Some (fold (\<lambda>l s. db_AddLogWithTxHash (eJ E) s l (tx_Hash (r_Tx res))) (r_Logs res) s)
   }"

section \<open>A block in order\<close>

text \<open>After an error only the nonces of the write set stay.\<close>

definition keep_nonces :: "rw_keys \<Rightarrow> rwset \<Rightarrow> rwset" where
  "keep_nonces K w = w\<lparr>cache := map (\<lambda>(a, m). (a, filter (\<lambda>(k, v). k = NonceKey K) m)) (cache w)\<rparr>"

definition serial_tx ::
  "'s node \<Rightarrow> 's env \<Rightarrow> nat \<Rightarrow> meta_tx \<Rightarrow> 's \<times> u64 \<times> u64 \<Rightarrow> (outcome_rec \<times> 's \<times> u64 \<times> u64) option" where
  "serial_tx N E i tx st = do {
     let (s, usedGas, gp) = st;
     m \<leftarrow> AsMessage tx (BaseFee E);
     let s = db_Prepare (eJ E) s (tx_Hash tx) i;
     vmenv \<leftarrow> NewVM (msg_data m) s;
     (res, s, usedGas, gp) \<leftarrow> ApplyTransactionWithFlag N E m tx s vmenv usedGas gp 0 SerialProcessType None;
     let res = (if r_err res \<noteq> None \<or> r_VmErr res \<noteq> None
                then res\<lparr>r_WriteSet := keep_nonces (eK E) (r_WriteSet res)\<rparr> else res);
     s \<leftarrow> UpdateWrittenCacheToDataBaseInOrder E res s;
     Some (res, s, usedGas, gp)
   }"

fun serial_txs ::
  "'s node \<Rightarrow> 's env \<Rightarrow> nat \<Rightarrow> meta_tx list \<Rightarrow> 's \<times> u64 \<times> u64 \<Rightarrow> (outcome_rec list \<times> 's \<times> u64 \<times> u64) option" where
  "serial_txs N E i [] st = Some ([], st)"
| "serial_txs N E i (tx # txs) st = do {
     (res, st) \<leftarrow> serial_tx N E i tx st;
     (rs, st) \<leftarrow> serial_txs N E (Suc i) txs st;
     Some (res # rs, st)
   }"

definition ExecTxsInOrder ::
  "'s node \<Rightarrow> 's env \<Rightarrow> chain \<Rightarrow> header \<Rightarrow> 's \<Rightarrow> meta_tx list \<Rightarrow> (outcome_rec list \<times> u64 \<times> 's) option" where
  "ExecTxsInOrder N E ch header s txs = do {
     gp \<leftarrow> gp_AddGas (nd_pool N) 0 (hd_GasLimit header);
     let E = NewVMBlockContext header ch None E;
     (results, s, usedGas, gp) \<leftarrow> serial_txs N E 0 txs (s, 0, gp);
     Some (results, usedGas, db_Finalise (eJ E) s True)
   }"

section \<open>A call outside a block\<close>

datatype pre_error = ExecutionAborted | PreErr tx_error

text \<open>\<^verbatim>\<open>PreExecution\<close>: the transaction context has no data. \<open>cancelled\<close> says whether the timer has fired by the time the
  message is done.\<close>

definition PreExecution ::
  "'s node \<Rightarrow> 's env \<Rightarrow> chain \<Rightarrow> header \<Rightarrow> 's \<Rightarrow> tx_args \<Rightarrow> bool \<Rightarrow> (exec_result option \<times> pre_error option) option" where
  "PreExecution N E ch header s txargs cancelled = do {
     gp \<leftarrow> gp_AddGas (nd_pool N) 0 (hd_GasLimit header);
     let m = ToMessage txargs (hd_GasLimit header);
     let E = NewVMTxContext m (NewVMBlockContext header ch None E);
     (vm, ip) \<leftarrow> NewVM [] s;
     (p, result, err) \<leftarrow> ApplyMessage (nd_noBaseFee N) (nd_pool N) (run_with N E ip) E vm m gp;
     Some (if cancelled then (None, Some ExecutionAborted) else (Some result, map_option PreErr err))
   }"

end
