(* ===== verification/TransitionLaws.thy ===== *)
theory TransitionLaws
  imports Transition Calls
begin

text \<open>
  What the transition of a message guarantees: the intrinsic gas is exact, an accepted message has passed every check
  and its gas is settled with the pool; and what it does not: a plain message is paid for by the balance it is given.
\<close>

section \<open>Intrinsic gas\<close>

definition nonzero :: "bytes \<Rightarrow> nat" where
  "nonzero bs = length (filter (\<lambda>b. b \<noteq> 0) bs)"

lemma nonzero_le: "nonzero bs \<le> length bs"
  by (simp add: nonzero_def)

lemma count_nz_eq: "count_nz bs = of_nat (nonzero bs)"
  by (induction bs) (simp_all add: nonzero_def)

definition base_cost :: "bool \<Rightarrow> nat" where
  "base_cost creation = (if creation then 53000 else 21000)"

lemma room_iff:
  fixes g k n :: u64
  assumes "0 < k"
  shows "(max_u64 - g) div k < n \<longleftrightarrow> 2 ^ 64 \<le> unat g + unat n * unat k"
proof -
  have "g \<le> max_u64" by (rule word_n1_ge)
  then have "unat (max_u64 - g) = 2 ^ 64 - 1 - unat g"
    by (subst unat_sub_u64) (simp_all add: unsigned_minus_1_eq_mask mask_eq_exp_minus_1)
  moreover have "unat g < 2 ^ 64" using unsigned_less [of g] by simp
  moreover have "0 < unat k" using assms by (simp add: word_less_nat_alt)
  ultimately show ?thesis
    by (auto simp: word_less_nat_alt unat_div_distrib div_less_iff_less_mult)
qed

lemma unat_nonzero: "length bs < 2 ^ 64 \<Longrightarrow> unat (of_nat (nonzero bs) :: u64) = nonzero bs"
  using nonzero_le [of bs] by (simp add: unat_of_nat)

lemma unat_zeros:
  assumes "length bs < 2 ^ 64"
  shows "unat (of_nat (length bs) - of_nat (nonzero bs) :: u64) = length bs - nonzero bs"
proof -
  have "of_nat (length bs) - of_nat (nonzero bs) = (of_nat (length bs - nonzero bs) :: u64)"
    using nonzero_le by (simp add: of_nat_diff)
  then show ?thesis using assms by (simp add: unat_of_nat)
qed

text \<open>Two guarded charges in a row succeed exactly when the sum fits.\<close>

lemma two_charges:
  fixes g n z :: u64
  shows "(if (max_u64 - g) div 16 < n then Inl e
      else if (max_u64 - (g + n * 16)) div 4 < z then Inl e else Inr (g + n * 16 + z * 4)) =
    (if unat g + 16 * unat n + 4 * unat z < 2 ^ 64 then Inr (g + n * 16 + z * 4) else Inl e)"
proof (cases "unat g + 16 * unat n < 2 ^ 64")
  case True
  then have "unat (g + n * 16) = unat g + 16 * unat n"
    by (simp add: unat_add_u64_no_wrap unat_mult_u64_no_wrap mult.commute)
  with True show ?thesis
    using room_iff [of 16 g n] room_iff [of 4 "g + n * 16" z] by (auto simp: mult.commute)
next
  case False
  with room_iff [of 16 g n] show ?thesis by (simp add: mult.commute)
qed

text \<open>C27. The intrinsic gas is exact: 21000, or 53000 for a creation, and 16 for every byte of the data that is not zero
  and 4 for every other. A sum above the 64 bits is the overflow error. The gas of the access list, 2400
  for every address and 1900 for every key, is added after the check, so it may wrap.\<close>

theorem intrinsic_gas_exact:
  assumes "length data < 2 ^ 64"
  shows "IntrinsicGas data al creation =
    (let total = base_cost creation + 16 * nonzero data + 4 * (length data - nonzero data) in
     if total < 2 ^ 64 then Inr (of_nat (total + 2400 * length al + 1900 * StorageKeys al))
     else Inl TxGasUintOverflow)"
proof -
  let ?n = "nonzero data" and ?z = "length data - nonzero data"
  let ?g = "if creation then TxGasContractCreation else TxGas"
  have z: "of_nat (length data) - count_nz data = (of_nat ?z :: u64)"
    using nonzero_le [of data] by (simp add: count_nz_eq of_nat_diff)
  have u: "unat (count_nz data) = ?n" "unat (of_nat ?z :: u64) = ?z" "unat ?g = base_cost creation"
    using unat_nonzero assms by (simp_all add: count_nz_eq unat_of_nat base_cost_def)
  have sum: "of_nat (base_cost creation + 16 * ?n + 4 * ?z) = ?g + count_nz data * 16 + of_nat ?z * 4"
    by (simp add: count_nz_eq base_cost_def del: of_nat_diff)
  have "IntrinsicGas data al creation =
    (case (if length data > 0 then
       (if (max_u64 - ?g) div 16 < count_nz data then Inl TxGasUintOverflow
        else if (max_u64 - (?g + count_nz data * 16)) div 4 < of_nat ?z then Inl TxGasUintOverflow
        else Inr (?g + count_nz data * 16 + of_nat ?z * 4)) else Inr ?g) of
      Inl e \<Rightarrow> Inl e
    | Inr g \<Rightarrow> Inr (g + of_nat (length al) * 2400 + of_nat (StorageKeys al) * 1900))"
    unfolding IntrinsicGas_def Let_def z by simp
  also have "\<dots> = (let total = base_cost creation + 16 * ?n + 4 * ?z in
     if total < 2 ^ 64 then Inr (of_nat (total + 2400 * length al + 1900 * StorageKeys al))
     else Inl TxGasUintOverflow)"
  proof (cases "data = []")
    case True
    then show ?thesis by (simp add: nonzero_def base_cost_def)
  next
    case False
    have c: "of_nat (t + 2400 * length al + 1900 * StorageKeys al) =
        (of_nat t + of_nat (length al) * 2400 + of_nat (StorageKeys al) * 1900 :: u64)" for t
      by (simp add: mult.commute)
    show ?thesis
      unfolding two_charges u Let_def c sum using False by simp
  qed
  finally show ?thesis .
qed

theorem intrinsic_gas_exact_witness:
  "IntrinsicGas [1, 0, 2] [(5, [6, 7])] True = Inr (53000 + 36 + 2400 + 3800)"
  using intrinsic_gas_exact [of "[1, 0, 2]" "[(5, [6, 7])]" True]
  by (simp add: base_cost_def nonzero_def StorageKeys_def Let_def)

section \<open>Settling the gas\<close>

lemma pool_specD:
  assumes "pool_spec P"
  shows "gp_SubGas P g n = (if g < n then None else Some (g - n))"
    "gp_AddGas P g n = (if 2 ^ 64 \<le> unat g + unat n then None else Some (g + n))"
  using assms unfolding pool_spec_def by blast+

lemma buyGas_settles:
  assumes "buyGas P E p = Some (p', None)" and "pool_spec P"
  shows "msg_gasLimit (pt_msg p) \<le> pt_gp p" "pt_gp p' = pt_gp p - msg_gasLimit (pt_msg p)"
    "pt_gas p' = pt_gas p + msg_gasLimit (pt_msg p)" "pt_initialGas p' = msg_gasLimit (pt_msg p)"
    "pt_msg p' = pt_msg p" "pt_data p' = pt_data p" "pt_gasPrice p' = pt_gasPrice p"
    "pt_gasFeeCap p' = pt_gasFeeCap p" "pt_gasTipCap p' = pt_gasTipCap p" "pt_value p' = pt_value p"
  using assms
  by (auto simp: buyGas_def set_vm_def bind_Some_iff pool_specD [OF assms(2)] Let_def not_less split: option.splits if_splits)

text \<open>What \<^verbatim>\<open>buyGas\<close> compares with the fees and the value: the sender's balance of the write set or, if there is none, the one
  that \<^verbatim>\<open>buyGas\<close> reads after it has set it to twice the amount; and the database it leaves.\<close>

definition asked_funds :: "'s pt \<Rightarrow> int" where
  "asked_funds p = uint (msg_gasLimit (pt_msg p)) * pt_gasFeeCap p + pt_value p"

definition funded_db :: "'s env \<Rightarrow> 's pt \<Rightarrow> 's" where
  "funded_db E p =
     (case GetAddressAndKey (vWriteSet (pt_vm p)) (msg_from (pt_msg p)) (BalanceKey (eK E)) of
        None \<Rightarrow> db_SetBalance (eA E) (pt_db p) (msg_from (pt_msg p)) (asked_funds p + asked_funds p)
      | Some _ \<Rightarrow> pt_db p)"

definition checked_balance :: "'s env \<Rightarrow> 's pt \<Rightarrow> int option" where
  "checked_balance E p =
     (case GetAddressAndKey (vWriteSet (pt_vm p)) (msg_from (pt_msg p)) (BalanceKey (eK E)) of
        None \<Rightarrow> Some (db_GetBalance (eA E) (funded_db E p) (msg_from (pt_msg p)))
      | Some v \<Rightarrow> as_big v)"

lemma funds_cong:
  assumes "vWriteSet vm = vWriteSet (pt_vm p)" "vDB vm = vDB (pt_vm p)"
  shows "asked_funds (p\<lparr>pt_vm := vm\<rparr>) = asked_funds p" "funded_db E (p\<lparr>pt_vm := vm\<rparr>) = funded_db E p"
    "checked_balance E (p\<lparr>pt_vm := vm\<rparr>) = checked_balance E p"
  using assms by (simp_all add: asked_funds_def funded_db_def checked_balance_def pt_db_def cong: option.case_cong)

lemma read_put_db:
  assumes "read_put E vm a k v = Some vm'"
  shows "vWriteSet vm' = vWriteSet vm" "vDB vm' = vDB vm"
  using assms by (auto simp: read_put_def bind_Some_iff)

lemma write_put_db: "write_put E vm a k v b = Some vm' \<Longrightarrow> vDB vm' = vDB vm"
  by (auto simp: write_put_def bind_Some_iff)

lemma buyGas_funds:
  assumes "buyGas P E p = Some (p', None)"
  shows "\<exists>b. checked_balance E p = Some b \<and> asked_funds p \<le> b" "pt_db p' = funded_db E p"
  using assms
  by (auto simp: buyGas_def set_vm_def bind_Some_iff checked_balance_def funded_db_def asked_funds_def pt_db_def Let_def not_less
      dest!: read_put_db write_put_db split: option.splits if_splits)

definition sound_fees :: "bool \<Rightarrow> 's env \<Rightarrow> 's pt \<Rightarrow> bool" where
  "sound_fees noBaseFee E p \<longleftrightarrow>
     (noBaseFee \<and> pt_gasFeeCap p = 0 \<and> pt_gasTipCap p = 0) \<or>
     (pt_gasTipCap p \<le> pt_gasFeeCap p \<and> (\<exists>b. BaseFee E = Some b \<and> b \<le> pt_gasFeeCap p) \<and>
      \<bar>pt_gasFeeCap p\<bar> < 2 ^ 256 \<and> \<bar>pt_gasTipCap p\<bar> < 2 ^ 256)"

lemma big_BitLen_le: "big_BitLen x \<le> 256 \<Longrightarrow> \<bar>x\<bar> < 2 ^ 256"
proof -
  assume "big_BitLen x \<le> 256"
  then have "(2 :: nat) ^ big_BitLen x \<le> 2 ^ 256" by (rule power_increasing) simp
  with less_pow_nat_bitlen [of "nat \<bar>x\<bar>"] have "nat \<bar>x\<bar> < 2 ^ 256"
    unfolding big_BitLen_def by (rule less_le_trans)
  then show ?thesis by (simp add: nat_less_iff)
qed

lemma big_BitLen_0: "\<not> 0 < big_BitLen x \<Longrightarrow> x = 0"
  using less_pow_nat_bitlen [of "nat \<bar>x\<bar>"] by (simp add: big_BitLen_def)

lemma fee_checks_sound: "fee_checks nb E p = Some None \<Longrightarrow> sound_fees nb E p"
  unfolding fee_checks_def sound_fees_def using big_BitLen_le [of "pt_gasFeeCap p"] big_BitLen_le [of "pt_gasTipCap p"]
    big_BitLen_0 [of "pt_gasFeeCap p"] big_BitLen_0 [of "pt_gasTipCap p"]
  by (auto simp: bind_Some_iff not_less split: if_splits)

lemma sound_fees_vm [simp]: "sound_fees nb E (p\<lparr>pt_vm := vm\<rparr>) = sound_fees nb E p"
  by (simp add: sound_fees_def)

lemma preCheck_settles:
  assumes "preCheck nb P E p = Some (p', None)"
  shows "(\<not> msg_isFake (pt_msg p) \<longrightarrow> db_GetNonce (eA E) (pt_db p) (msg_from (pt_msg p)) = msg_nonce (pt_msg p)) \<and>
    sound_fees nb E p \<and> (\<exists>vm. vWriteSet vm = vWriteSet (pt_vm p) \<and> vDB vm = vDB (pt_vm p) \<and>
      buyGas P E (p\<lparr>pt_vm := vm\<rparr>) = Some (p', None))"
proof (cases "msg_isFake (pt_msg p)")
  case True
  with assms show ?thesis
    by (auto simp: preCheck_def bind_Some_iff Let_def intro: exI [of _ "pt_vm p"] fee_checks_sound split: option.splits)
next
  case False
  with assms obtain vm where "read_put E (pt_vm p) (msg_from (pt_msg p)) (NonceKey (eK E))
      (VU64 (db_GetNonce (eA E) (pt_db p) (msg_from (pt_msg p)))) = Some vm"
    and "db_GetNonce (eA E) (pt_db p) (msg_from (pt_msg p)) = msg_nonce (pt_msg p)"
    and "fee_checks nb E (p\<lparr>pt_vm := vm\<rparr>) = Some None" "buyGas P E (p\<lparr>pt_vm := vm\<rparr>) = Some (p', None)"
    by (auto simp: preCheck_def set_vm_def bind_Some_iff Let_def split: option.splits if_splits)
  with read_put_db [OF this(1)] show ?thesis by (auto dest!: fee_checks_sound)
qed

lemma run_message_keeps:
  assumes "run_message run E p = Some (p', ret, e)"
  shows "pt_gp p' = pt_gp p" "pt_initialGas p' = pt_initialGas p" "pt_msg p' = pt_msg p"
  using assms by (auto simp: run_message_def bind_Some_iff Let_def split: option.splits)

lemma refundGas_settles:
  assumes "refundGas P E q p = Some p'" and "pool_spec P"
  shows "unat (pt_gp p') = unat (pt_gp p) + unat (pt_gas p')"
  using assms
  by (auto simp: refundGas_def set_vm_def bind_Some_iff pool_specD [OF assms(2)] Let_def not_le unat_add_u64_no_wrap split: option.splits if_splits)

lemma pay_tip_keeps:
  assumes "pay_tip E base p = Some p'"
  shows "pt_gp p' = pt_gp p" "pt_gas p' = pt_gas p"
  using assms by (auto simp: pay_tip_def set_vm_def bind_Some_iff Let_def split: if_splits)

text \<open>C5. A message that reaches the machine has passed every check: the nonce of its sender unless it is fake; fees that are
  ordered, within 256 bits and at least the base fee; a balance, the one \<^verbatim>\<open>buyGas\<close> looks at, of at least the fees at the cap
  plus the value; a gas limit that the block's pool had; more gas than its intrinsic gas; and, in the database \<^verbatim>\<open>buyGas\<close>
  leaves, the funds of the transfer it asks for. Afterwards the pool has got back exactly the gas the transition is left with.\<close>

theorem accepted_message:
  assumes "TransitionDb nb P run E p = Some (p', r, None)" and "res_Err r \<noteq> Some InsufficientFundsForTransfer"
    and "pool_spec P"
  shows "(\<not> msg_isFake (pt_msg p) \<longrightarrow> db_GetNonce (eA E) (pt_db p) (msg_from (pt_msg p)) = msg_nonce (pt_msg p)) \<and>
    sound_fees nb E p \<and>
    (\<exists>b. checked_balance E p = Some b \<and> uint (msg_gasLimit (pt_msg p)) * pt_gasFeeCap p + pt_value p \<le> b) \<and>
    msg_gasLimit (pt_msg p) \<le> pt_gp p \<and>
    (\<exists>gas. IntrinsicGas (pt_data p) (msg_accessList (pt_msg p)) (msg_to (pt_msg p) = None) = Inr gas \<and>
       gas \<le> pt_gas p + msg_gasLimit (pt_msg p)) \<and>
    (0 < msg_amount (pt_msg p) \<longrightarrow> CanTransfer E (funded_db E p) (msg_from (pt_msg p)) (msg_amount (pt_msg p))) \<and>
    unat (pt_gp p') + unat (msg_gasLimit (pt_msg p)) = unat (pt_gp p) + unat (pt_gas p')"
proof -
  obtain p1 where pre: "preCheck nb P E p = Some (p1, None)"
    using assms(1) by (auto simp: TransitionDb_def failed_with_def bind_Some_iff split: option.splits)
  from preCheck_settles [OF this] obtain vm where check:
    "\<not> msg_isFake (pt_msg p) \<longrightarrow> db_GetNonce (eA E) (pt_db p) (msg_from (pt_msg p)) = msg_nonce (pt_msg p)"
    "sound_fees nb E p" and same: "vWriteSet vm = vWriteSet (pt_vm p)" "vDB vm = vDB (pt_vm p)"
    and buy: "buyGas P E (p\<lparr>pt_vm := vm\<rparr>) = Some (p1, None)" by blast
  note bought = buyGas_settles [OF buy assms(3), simplified]
  note funds = buyGas_funds [OF buy, unfolded funds_cong [OF same] asked_funds_def]
  obtain gas where gas: "IntrinsicGas (pt_data p) (msg_accessList (pt_msg p)) (msg_to (pt_msg p) = None) = Inr gas"
    "gas \<le> pt_gas p + msg_gasLimit (pt_msg p)"
    using assms(1) pre bought by (auto simp: TransitionDb_def failed_with_def Let_def not_less split: sum.splits if_splits)
  have pays: "0 < msg_amount (pt_msg p) \<longrightarrow> CanTransfer E (pt_db p1) (msg_from (pt_msg p)) (msg_amount (pt_msg p))"
    using assms(1,2) pre bought gas by (auto simp: TransitionDb_def failed_with_def Let_def pt_db_def split: if_splits)
  obtain p2 p3 ret e p4 base where run: "run_message run E p2 = Some (p3, ret, e)" "pt_gp p2 = pt_gp p1"
    and refund: "refundGas P E RefundQuotientEIP3529 p3 = Some p4" and tip: "pay_tip E base p4 = Some p'"
    using assms(1,2) pre bought gas
    by (auto simp: TransitionDb_def failed_with_def Let_def bind_Some_iff set_vm_def not_less split: if_splits)
  have "unat (pt_gp p') = unat (pt_gp p1) + unat (pt_gas p')"
    using refundGas_settles [OF refund assms(3)] run_message_keeps [OF run(1)] pay_tip_keeps [OF tip] run(2) by simp
  with check bought gas funds pays show ?thesis by (simp add: unat_sub_u64 word_le_nat_alt)
qed

section \<open>A plain message\<close>

text \<open>A message to \<open>a\<close> that carries neither value nor data.\<close>

definition plain_msg :: "address \<Rightarrow> address \<Rightarrow> u64 \<Rightarrow> u64 \<Rightarrow> int \<Rightarrow> int \<Rightarrow> int \<Rightarrow> bool \<Rightarrow> message" where
  "plain_msg sender a nonce limit price feeCap tipCap fake =
     NewMessage sender (Some a) nonce 0 limit price feeCap tipCap [] [] fake"

text \<open>Snapshots change nothing that can be read, and balances are not refunds.\<close>

definition quiet_spec :: "'s account_ops \<Rightarrow> 's journal_ops \<Rightarrow> bool" where
  "quiet_spec A J \<longleftrightarrow>
     (\<forall>s. db_GetBalance A (snd (db_Snapshot J s)) = db_GetBalance A s \<and>
        db_GetCode A (snd (db_Snapshot J s)) = db_GetCode A s \<and>
        db_GetRefund J (snd (db_Snapshot J s)) = db_GetRefund J s) \<and>
     (\<forall>s a v. db_GetRefund J (db_SetBalance A s a v) = db_GetRefund J s)"

lemma quiet_std: "quiet_spec std_accounts std_journal"
  by (simp add: quiet_spec_def std_accounts_def std_journal_def split: prod.splits)

lemma NewSets_empty:
  "GetAddressAndKey NewWriteSet a k = None" "GetAddressAndKey NewReadSet a k = None"
  by (simp_all add: GetAddressAndKey_def NewWriteSet_def NewReadSet_def)

lemma NewProcessTransition_simps [simp]:
  "pt_gp (NewProcessTransition vm m gp) = gp" "pt_msg (NewProcessTransition vm m gp) = m"
  "pt_gas (NewProcessTransition vm m gp) = 100000000" "pt_initialGas (NewProcessTransition vm m gp) = 0"
  "pt_gasPrice (NewProcessTransition vm m gp) = msg_gasPrice m" "pt_gasFeeCap (NewProcessTransition vm m gp) = msg_gasFeeCap m"
  "pt_gasTipCap (NewProcessTransition vm m gp) = msg_gasTipCap m" "pt_value (NewProcessTransition vm m gp) = msg_amount m"
  "pt_data (NewProcessTransition vm m gp) = msg_data m" "pt_vm (NewProcessTransition vm m gp) = vm"
  by (simp_all add: NewProcessTransition_def)

lemma fee_checks_vm [simp]: "fee_checks nb E (p\<lparr>pt_vm := vm\<rparr>) = fee_checks nb E p"
  by (simp add: fee_checks_def)

lemma keys_neq:
  assumes "keys_distinct K"
  shows "NonceKey K \<noteq> BalanceKey K" "BalanceKey K \<noteq> NonceKey K" "NonceKey K \<noteq> SubBalanceKey K"
    "SubBalanceKey K \<noteq> NonceKey K" "BalanceKey K \<noteq> SubBalanceKey K" "SubBalanceKey K \<noteq> BalanceKey K"
    "SetCodeKey K \<noteq> NonceKey K" "SetCodeKey K \<noteq> BalanceKey K" "SetCodeKey K \<noteq> SubBalanceKey K"
  using assms by (auto simp: keys_distinct_def)

lemma preCheck_funds:
  assumes "vWriteSet vm = NewWriteSet" "vReadSet vm = NewReadSet"
    and "db_GetNonce (eA E) (vDB vm) (msg_from m) = msg_nonce m" "\<not> msg_isFake m"
    and "fee_checks nb E (NewProcessTransition vm m gp) = Some None"
    and "pool_spec P" "msg_gasLimit m \<le> gp" "accounts_spec (eA E)" "keys_distinct (eK E)"
    and "check = uint (msg_gasLimit m) * msg_gasFeeCap m + msg_amount m" "0 \<le> check"
    and "rs = rw_put (rw_put NewReadSet (msg_from m) (NonceKey (eK E)) (VU64 (msg_nonce m))) (msg_from m)
      (BalanceKey (eK E)) (VBig (check + check))"
  shows "preCheck nb P E (NewProcessTransition vm m gp) =
    Some ((NewProcessTransition vm m gp)\<lparr>pt_gp := gp - msg_gasLimit m, pt_gas := 100000000 + msg_gasLimit m,
        pt_initialGas := msg_gasLimit m,
        pt_vm := vm\<lparr>vDB := db_SetBalance (eA E) (vDB vm) (msg_from m) (check + check), vReadSet := rs,
          vWriteSet := rw_put NewWriteSet (msg_from m) (SubBalanceKey (eK E)) (VBig (uint (msg_gasLimit m) * msg_gasPrice m))\<rparr>\<rparr>, None)"
proof -
  have bal: "db_GetBalance (eA E) (db_SetBalance (eA E) s a v) a = v" for s a v
    using assms(8) by (simp add: accounts_spec_def)
  show ?thesis
    using assms(1-7,11) unfolding assms(12)
    by (simp add: preCheck_def pt_db_def set_vm_def read_put_def write_put_def ReadSet_UpdateCache_eq buyGas_def
        WriteSet_UpdateCache_eq read_value_def write_value_def NewSets_empty GetAddressAndKey_put Let_def bal
        keys_neq [OF assms(9)] pool_specD assms(10) [symmetric])
qed

text \<open>A fake message whose fees are accepted buys its gas from a balance that is made for it.\<close>

lemma preCheck_fake:
  assumes "vWriteSet vm = NewWriteSet" "vReadSet vm = NewReadSet" "msg_isFake m"
    and "fee_checks nb E (NewProcessTransition vm m gp) = Some None"
    and "pool_spec P" "msg_gasLimit m \<le> gp" "accounts_spec (eA E)"
    and "check = uint (msg_gasLimit m) * msg_gasFeeCap m + msg_amount m" "0 \<le> check"
  shows "preCheck nb P E (NewProcessTransition vm m gp) =
    Some ((NewProcessTransition vm m gp)\<lparr>pt_gp := gp - msg_gasLimit m, pt_gas := 100000000 + msg_gasLimit m,
        pt_initialGas := msg_gasLimit m,
        pt_vm := vm\<lparr>vDB := db_SetBalance (eA E) (vDB vm) (msg_from m) (check + check),
          vReadSet := rw_put NewReadSet (msg_from m) (BalanceKey (eK E)) (VBig (check + check)),
          vWriteSet := rw_put NewWriteSet (msg_from m) (SubBalanceKey (eK E)) (VBig (uint (msg_gasLimit m) * msg_gasPrice m))\<rparr>\<rparr>, None)"
proof -
  have bal: "db_GetBalance (eA E) (db_SetBalance (eA E) s a v) a = v" for s a v
    using assms(7) by (simp add: accounts_spec_def)
  show ?thesis
    using assms(1-6,9)
    by (simp add: preCheck_def pt_db_def set_vm_def read_put_def write_put_def ReadSet_UpdateCache_eq buyGas_def
        WriteSet_UpdateCache_eq read_value_def write_value_def NewSets_empty Let_def bal pool_specD assms(8) [symmetric])
qed

text \<open>The call of a plain message ends at once, with all of its gas.\<close>

lemma plain_call:
  assumes "depth vm \<le> 1024" "ePre E a = None"
    and "GetAddressAndKey (vWriteSet vm) a (SetCodeKey (eK E)) = None"
    and "GetAddressAndKey (vWriteSet vm) (ref_Address cr) (BalanceKey (eK E)) = None"
    and "GetAddressAndKey (vReadSet vm) (ref_Address cr) (BalanceKey (eK E)) = Some (VBig b)"
    and "s = snd (db_Snapshot (eJ E) (vDB vm))" "db_GetCode (eA E) s a = []"
  shows "\<exists>vm'. Call run E vm cr a input gas 0 = Some (vm', [], gas, None) \<and> vDB vm' = s \<and> vWriteSet vm' = vWriteSet vm"
  using assms
  by (auto simp: Call_def can_transfer_def read_put_def ReadSet_UpdateCache_eq read_value_def take_snapshot_def Let_def
      new_contract_def NewContract_def load_code_def end_call_def big_Uint64_def split: prod.split contract_ref.split)

definition plain_setting :: "pool_ops \<Rightarrow> 's env \<Rightarrow> 's vm \<Rightarrow> address \<Rightarrow> address \<Rightarrow> bool" where
  "plain_setting P E vm sender a \<longleftrightarrow>
     pool_spec P \<and> accounts_spec (eA E) \<and> quiet_spec (eA E) (eJ E) \<and> keys_distinct (eK E) \<and>
     vWriteSet vm = NewWriteSet \<and> vReadSet vm = NewReadSet \<and> depth vm \<le> 1024 \<and>
     db_GetCode (eA E) (vDB vm) a = [] \<and> ePre E a = None \<and> db_GetRefund (eJ E) (vDB vm) = 0 \<and> Coinbase E \<noteq> sender"

definition fair_price :: "'s env \<Rightarrow> int \<Rightarrow> int \<Rightarrow> int \<Rightarrow> int \<Rightarrow> bool" where
  "fair_price E price feeCap tipCap tip \<longleftrightarrow>
     (\<exists>fee. BaseFee E = Some fee \<and> fee \<le> feeCap \<and> tip = min tipCap (feeCap - fee)) \<and>
     0 \<le> tipCap \<and> tipCap \<le> feeCap \<and> feeCap < 2 ^ 256 \<and> 0 < tip \<and> tip < 2 ^ 64 \<and> 0 < price"

lemma big_Uint64_pos: "0 < x \<Longrightarrow> x < 2 ^ 64 \<Longrightarrow> big_Uint64 x \<noteq> 0"
  using zdvd_not_zless [of x "2 ^ 64"] by (simp add: big_Uint64_def word_of_int_eq_0_iff)

lemma plain_message_runs:
  assumes m: "m = plain_msg sender a nonce limit price feeCap tipCap fake"
    and set: "plain_setting P E vm sender a" "fair_price E price feeCap tipCap tip" "fake \<or> db_GetNonce (eA E) (vDB vm) sender = nonce"
    and gas: "21000 \<le> limit" "limit \<le> gp" "unat limit + 100000000 < 2 ^ 64" "unat gp + 100000000 < 2 ^ 64"
      "(uint limit + 99979000) * price < 2 ^ 64"
  shows "\<exists>p'. ApplyMessage nb P run E vm m gp = Some (p', \<lparr>UsedGas = 1, res_Err = None, ReturnData = []\<rparr>, None) \<and>
    pt_gp p' = gp + 99979000 \<and> pt_db p' = snd (db_Snapshot (eJ E) (db_SetBalance (eA E) (vDB vm) sender (2 * (uint limit * feeCap)))) \<and>
    vWriteSet (pt_vm p') = rw_put (rw_put (rw_put (rw_put NewWriteSet sender (SubBalanceKey (eK E)) (VBig (uint limit * price)))
      sender (NonceKey (eK E)) (VU64 (db_GetNonce (eA E) (db_SetBalance (eA E) (vDB vm) sender (2 * (uint limit * feeCap))) sender + 1)))
      sender (BalanceKey (eK E)) (VBig (2 * (uint limit * feeCap) + (uint limit + 99979000) * price)))
      (Coinbase E) (BalanceKey (eK E)) (VBig (db_GetBalance (eA E) (vDB vm) (Coinbase E) + (2 ^ 64 - 99979000) * tip))"
proof -
  from set(2) obtain fee where fees: "BaseFee E = Some fee" "fee \<le> feeCap" "0 \<le> tipCap" "tipCap \<le> feeCap" "feeCap < 2 ^ 256"
      "tip = min tipCap (feeCap - fee)" "0 < tip" "tip < 2 ^ 64" and price: "0 < price"
    unfolding fair_price_def by blast
  from set(1) have specs: "pool_spec P" "accounts_spec (eA E)" "quiet_spec (eA E) (eJ E)" "keys_distinct (eK E)"
    and vm: "vWriteSet vm = NewWriteSet" "vReadSet vm = NewReadSet" "depth vm \<le> 1024"
    and db: "db_GetCode (eA E) (vDB vm) a = []" "ePre E a = None" "db_GetRefund (eJ E) (vDB vm) = 0"
    and coinbase: "Coinbase E \<noteq> sender"
    unfolding plain_setting_def by blast+
  note nonce = set(3)
  have msg: "msg_from m = sender" "msg_to m = Some a" "msg_nonce m = nonce" "msg_amount m = 0" "msg_gasLimit m = limit"
    "msg_gasPrice m = price" "msg_gasFeeCap m = feeCap" "msg_gasTipCap m = tipCap" "msg_data m = []" "msg_accessList m = []"
    "msg_isFake m = fake"
    by (simp_all add: m plain_msg_def NewMessage_def)
  have "nat feeCap < 2 ^ 256" "nat tipCap < 2 ^ 256" using fees by (simp_all add: nat_less_iff)
  then have ok: "fee_checks nb E (NewProcessTransition vm m gp) = Some None"
    using fees nat_bitlen_le [of "nat feeCap" 256] nat_bitlen_le [of "nat tipCap" 256]
    by (simp add: fee_checks_def big_BitLen_def msg)
  obtain p1 where pre: "preCheck nb P E (NewProcessTransition vm m gp) = Some (p1, None)"
    and p1: "pt_gp p1 = gp - limit" "pt_gas p1 = limit + 100000000" "pt_initialGas p1 = limit" "pt_msg p1 = m"
      "pt_data p1 = []" "pt_value p1 = 0" "pt_gasPrice p1 = price" "pt_gasFeeCap p1 = feeCap" "pt_gasTipCap p1 = tipCap"
      "depth (pt_vm p1) \<le> 1024" "vDB (pt_vm p1) = db_SetBalance (eA E) (vDB vm) sender (2 * (uint limit * feeCap))"
      "vWriteSet (pt_vm p1) = rw_put NewWriteSet sender (SubBalanceKey (eK E)) (VBig (uint limit * price))"
      "\<exists>b. GetAddressAndKey (vReadSet (pt_vm p1)) sender (BalanceKey (eK E)) = Some (VBig b)"
  proof (cases fake)
    case True
    then show thesis
      using that preCheck_fake [OF vm(1,2) _ ok specs(1) _ specs(2) refl] gas(2) vm(3) fees
      by (auto simp: msg GetAddressAndKey_put add.commute mult.commute)
  next
    case False
    then show thesis
      using that preCheck_funds [OF vm(1,2) _ _ ok specs(1) _ specs(2,4) refl _ refl] nonce gas(2) vm(3) fees
      by (auto simp: msg GetAddressAndKey_put add.commute mult.commute)
  qed
  let ?s1 = "db_SetBalance (eA E) (vDB vm) sender (2 * (uint limit * feeCap))"
  let ?s = "snd (db_Snapshot (eJ E) ?s1)"
  have s: "db_GetBalance (eA E) ?s = (db_GetBalance (eA E) (vDB vm))(sender := 2 * (uint limit * feeCap))"
    "db_GetCode (eA E) ?s a = []" "db_GetRefund (eJ E) ?s = 0"
    using specs(2,3) db by (simp_all add: accounts_spec_def quiet_spec_def same_but_balance_def)
  let ?W = "rw_put (vWriteSet (pt_vm p1)) sender (NonceKey (eK E)) (VU64 (db_GetNonce (eA E) ?s1 sender + 1))"
  obtain vm2 where vm2: "read_put E (pt_vm p1) sender (BalanceKey (eK E)) (VBig (db_GetBalance (eA E) ?s1 sender)) = Some vm2"
      "vDB vm2 = ?s1" "vWriteSet vm2 = vWriteSet (pt_vm p1)" "depth vm2 \<le> 1024"
      "\<exists>b. GetAddressAndKey (vReadSet vm2) sender (BalanceKey (eK E)) = Some (VBig b)"
    using p1 by (auto simp: read_put_def ReadSet_UpdateCache_eq read_value_def GetAddressAndKey_put)
  let ?p2 = "p1\<lparr>pt_gas := limit + 99979000, pt_vm := vm2\<lparr>vWriteSet := ?W\<rparr>\<rparr>"
  obtain vm3 where vm3: "Call run E (pt_vm ?p2) (AccountRef sender) a [] (limit + 99979000) 0 = Some (vm3, [], limit + 99979000, None)"
      "vDB vm3 = ?s" "vWriteSet vm3 = ?W"
    using vm2 p1 s(2) db(2) keys_neq [OF specs(4)] plain_call [of "pt_vm ?p2" E a "AccountRef sender" _ ?s run "[]" "limit + 99979000"]
    by (auto simp: GetAddressAndKey_put NewSets_empty)
  let ?p3 = "p1\<lparr>pt_gas := limit + 99979000, pt_vm := vm3\<rparr>"
  have run: "run_message run E ?p2 = Some (?p3, [], None)"
    using vm3(1) p1 by (simp add: run_message_def pt_to_def msg)
  let ?rem = "(uint limit + 99979000) * price"
  have un: "unat (limit + 99979000) = unat limit + 99979000" using gas(3) by (simp add: unat_add_u64_no_wrap)
  have ui: "uint (limit + 99979000) = uint limit + 99979000" using arg_cong [OF un, of int] by simp
  have "0 < ?rem" using price by (intro mult_pos_pos) (simp_all add: add_nonneg_pos)
  then have rem: "big_Uint64 ?rem \<noteq> 0" using gas(5) by (rule big_Uint64_pos)
  let ?W4 = "rw_put ?W sender (BalanceKey (eK E)) (VBig (2 * (uint limit * feeCap) + ?rem))"
  let ?p4 = "?p3\<lparr>pt_vm := vm3\<lparr>vWriteSet := ?W4\<rparr>, pt_gp := gp + 99979000\<rparr>"
  have room: "unat (gp - limit) + unat (limit + 99979000) < 2 ^ 64"
    using gas(1-4) unfolding un by (simp add: unat_sub_u64 word_le_nat_alt)
  have refund: "refundGas P E RefundQuotientEIP3529 ?p3 = Some ?p4"
    using rem room vm3 p1 s keys_neq [OF specs(4)]
    by (simp add: refundGas_def gasUsed_def pt_db_def Let_def ui set_vm_def write_put_def WriteSet_UpdateCache_eq
        write_value_def GetAddressAndKey_put NewSets_empty pool_specD [OF specs(1)] msg)
  have used: "uint (gasUsed ?p4) = 2 ^ 64 - 99979000"
    using p1 by (simp add: gasUsed_def)
  let ?W5 = "rw_put ?W4 (Coinbase E) (BalanceKey (eK E)) (VBig (db_GetBalance (eA E) ?s (Coinbase E) + (2 ^ 64 - 99979000) * tip))"
  have tip: "pay_tip E (db_GetBalance (eA E) ?s (Coinbase E)) ?p4 = Some (?p4\<lparr>pt_vm := vm3\<lparr>vWriteSet := ?W5\<rparr>\<rparr>)"
    using big_Uint64_pos [OF fees(7,8)] used p1 fees keys_neq [OF specs(4)] coinbase
    by (simp add: pay_tip_def set_vm_def write_put_def WriteSet_UpdateCache_eq write_value_def GetAddressAndKey_put NewSets_empty)
  have "\<not> limit + 100000000 < 21000" using gas(1,3) by (simp add: word_less_nat_alt unat_add_u64_no_wrap)
  then have "ApplyMessage nb P run E vm m gp =
      Some (?p4\<lparr>pt_vm := vm3\<lparr>vWriteSet := ?W5\<rparr>\<rparr>, \<lparr>UsedGas = 1, res_Err = None, ReturnData = []\<rparr>, None)"
    using pre p1 vm2 run refund tip vm3 keys_neq [OF specs(4)]
    by (simp add: ApplyMessage_def TransitionDb_def msg IntrinsicGas_def StorageKeys_def add.commute [of 99979000 limit] set_vm_def pt_db_def
        write_put_def WriteSet_UpdateCache_eq write_value_def)
  then show ?thesis using s p1 coinbase vm3 by (simp add: pt_db_def)
qed

text \<open>A message without value and data is run with 100 million units of gas that nobody bought. Whatever the
  balance of its sender was, it is set to twice what the message may cost; afterwards the sender is credited
  for 99979000 units more than the limit it is debited for, the block's pool has grown by as many, and
  the coinbase is credited for \<open>2 ^ 64 - 99979000\<close> units, as the gas used has wrapped.\<close>

theorem plain_message_pays_out:
  assumes "m = plain_msg sender a nonce limit price feeCap tipCap fake"
    and "plain_setting P E vm sender a" "fair_price E price feeCap tipCap tip" "fake \<or> db_GetNonce (eA E) (vDB vm) sender = nonce"
    and "21000 \<le> limit" "limit \<le> gp" "unat limit + 100000000 < 2 ^ 64" "unat gp + 100000000 < 2 ^ 64"
      "(uint limit + 99979000) * price < 2 ^ 64"
  shows "\<exists>p' r. ApplyMessage nb P run E vm m gp = Some (p', r, None) \<and> res_Err r = None \<and>
    pt_gp p' = gp + 99979000 \<and>
    GetAddressAndKey (vWriteSet (pt_vm p')) sender (SubBalanceKey (eK E)) = Some (VBig (uint limit * price)) \<and>
    GetAddressAndKey (vWriteSet (pt_vm p')) sender (BalanceKey (eK E)) =
      Some (VBig (2 * (uint limit * feeCap) + (uint limit + 99979000) * price)) \<and>
    GetAddressAndKey (vWriteSet (pt_vm p')) (Coinbase E) (BalanceKey (eK E)) =
      Some (VBig (db_GetBalance (eA E) (vDB vm) (Coinbase E) + (2 ^ 64 - 99979000) * tip))"
proof -
  have "Coinbase E \<noteq> sender" "keys_distinct (eK E)" using assms(2) by (auto simp: plain_setting_def)
  then show ?thesis
    using plain_message_runs [OF assms, of nb run] keys_neq [of "eK E"]
    by (fastforce simp: GetAddressAndKey_put NewSets_empty)
qed

text \<open>A sender without any balance sends a message with a limit of 50000.\<close>

abbreviation poor_vm :: "std_db vm" where
  "poor_vm \<equiv> std_vm std_core_empty"

abbreviation poor_msg :: message where
  "poor_msg \<equiv> plain_msg 0xA0 0xB0 0 50000 15 30 5 False"

lemma poor_setting:
  "plain_setting pool_std std_env poor_vm 0xA0 0xB0" "fair_price std_env 15 30 5 5"
  "False \<or> db_GetNonce (eA std_env) (vDB poor_vm) 0xA0 = 0"
  by (simp_all add: plain_setting_def fair_price_def pool_std_spec std_accounts_spec quiet_std keys_std_distinct
      std_vm_def std_core_empty_def std_env_ePre) (simp_all add: std_env_def std_accounts_def std_journal_def)

theorem plain_message_pays_out_witness:
  "\<exists>p' r. ApplyMessage False pool_std (Run 0 (fill_table frontier) std_env) std_env poor_vm poor_msg 30000000 =
      Some (p', r, None) \<and> res_Err r = None \<and> pt_gp p' = 129979000 \<and>
    GetAddressAndKey (vWriteSet (pt_vm p')) 0xA0 (SubBalanceKey keys_std) = Some (VBig 750000) \<and>
    GetAddressAndKey (vWriteSet (pt_vm p')) 0xA0 (BalanceKey keys_std) = Some (VBig 1503435000)"
  using plain_message_pays_out [OF refl poor_setting, of 50000 30000000 False "Run 0 (fill_table frontier) std_env"]
  by (auto simp: word_le_nat_alt)

theorem accepted_message_witness:
  "\<exists>p' r. TransitionDb False pool_std (Run 0 (fill_table frontier) std_env) std_env
      (NewProcessTransition poor_vm poor_msg 30000000) = Some (p', r, None) \<and>
    unat (pt_gp p') + 50000 = 30000000 + unat (pt_gas p')"
proof -
  obtain p' r where r: "TransitionDb False pool_std (Run 0 (fill_table frontier) std_env) std_env
      (NewProcessTransition poor_vm poor_msg 30000000) = Some (p', r, None)" "res_Err r = None"
    using plain_message_runs [OF refl poor_setting, of 50000 30000000 False "Run 0 (fill_table frontier) std_env"]
    by (auto simp: word_le_nat_alt ApplyMessage_def)
  with accepted_message [OF r(1) _ pool_std_spec] show ?thesis
    by (auto simp: plain_msg_def NewMessage_def)
qed

end
