(* ===== verification/Commits.thy ===== *)
theory Commits
  imports Process TransitionLaws
begin

text \<open>
  The commit of a write set refines a function on accounts: \<open>view\<close> is what the database shows of an account, \<open>committed\<close>
  what a commit makes of it. The function looks keys up, so the order in which Go walks the maps does not matter.
\<close>

section \<open>The view of an account\<close>

record acct =
  ac_balance :: int
  ac_nonce :: u64
  ac_code :: bytes
  ac_slots :: "hash \<Rightarrow> hash"

definition view :: "'s account_ops \<Rightarrow> 's \<Rightarrow> address \<Rightarrow> acct" where
  "view A s a = \<lparr>ac_balance = db_GetBalance A s a, ac_nonce = db_GetNonce A s a, ac_code = db_GetCode A s a,
     ac_slots = db_GetState A s a\<rparr>"

text \<open>\<^verbatim>\<open>CreateAccount\<close> touches one account and carries its balance over; what else the new account shows is the
  parameter \<open>fresh\<close>.\<close>

definition creation_spec :: "'s account_ops \<Rightarrow> (acct \<Rightarrow> acct) \<Rightarrow> bool" where
  "creation_spec A fresh \<longleftrightarrow>
     (\<forall>x. ac_balance (fresh x) = ac_balance x) \<and>
     (\<forall>s a. view A (db_CreateAccount A s a) = (view A s)(a := fresh (view A s a)))"

text \<open>Logs are kept apart from the accounts.\<close>

definition logs_spec :: "'s account_ops \<Rightarrow> 's journal_ops \<Rightarrow> bool" where
  "logs_spec A J \<longleftrightarrow> (\<forall>s l h. view A (db_AddLogWithTxHash J s l h) = view A s)"

lemma view_add_logs: "logs_spec A J \<Longrightarrow> view A (fold (\<lambda>l s. db_AddLogWithTxHash J s l h) ls s) = view A s"
  by (induction ls arbitrary: s) (simp_all add: logs_spec_def)

lemma std_logs_spec: "logs_spec std_accounts std_journal"
  by (simp add: logs_spec_def std_journal_def)

lemma std_creation_spec: "creation_spec std_accounts id"
  by (auto simp: creation_spec_def view_def std_accounts_def fun_eq_iff split: prod.splits)

lemma view_writes:
  assumes "accounts_spec A"
  shows "view A (db_SetBalance A s a v) = (view A s)(a := (view A s a)\<lparr>ac_balance := v\<rparr>)"
    "view A (db_SubBalance A s a v) = (view A s)(a := (view A s a)\<lparr>ac_balance := ac_balance (view A s a) - v\<rparr>)"
    "view A (db_SetNonce A s a n) = (view A s)(a := (view A s a)\<lparr>ac_nonce := n\<rparr>)"
    "view A (db_SetCode A s a c) = (view A s)(a := (view A s a)\<lparr>ac_code := c\<rparr>)"
    "view A (db_SetState A s a k h) = (view A s)(a := (view A s a)\<lparr>ac_slots := (ac_slots (view A s a))(k := h)\<rparr>)"
  using assms by (auto simp: accounts_spec_def same_but_balance_def view_def fun_eq_iff)

section \<open>The abstract commit\<close>

definition plain_slot :: "rw_keys \<Rightarrow> hash \<Rightarrow> bool" where
  "plain_slot K k \<longleftrightarrow> k \<notin> {NonceKey K, BalanceKey K, SubBalanceKey K, SetCodeKey K, CreatAccountKey K}"

fun typed_entry :: "rw_keys \<Rightarrow> hash \<times> goval \<Rightarrow> bool" where
  "typed_entry K (k, v) \<longleftrightarrow>
     (if k = BalanceKey K \<or> k = SubBalanceKey K then \<exists>b. v = VBig b
      else if k = NonceKey K then \<exists>n. v = VU64 n
      else k = CreatAccountKey K \<or> (\<exists>b. v = VBytes b))"

definition typed_map :: "rw_keys \<Rightarrow> cachemap \<Rightarrow> bool" where
  "typed_map K m \<longleftrightarrow> (\<forall>e \<in> set m. typed_entry K e)"

definition debit :: "rw_keys \<Rightarrow> cachemap \<Rightarrow> int" where
  "debit K m = (case lookup m (SubBalanceKey K) of Some (VBig b) \<Rightarrow> b | _ \<Rightarrow> 0)"

definition new_nonce :: "rw_keys \<Rightarrow> cachemap \<Rightarrow> u64 \<Rightarrow> u64" where
  "new_nonce K m old = (case lookup m (NonceKey K) of Some (VU64 n) \<Rightarrow> n | _ \<Rightarrow> old)"

definition new_slot :: "rw_keys \<Rightarrow> geth_ops \<Rightarrow> cachemap \<Rightarrow> (hash \<Rightarrow> hash) \<Rightarrow> hash \<Rightarrow> hash" where
  "new_slot K G m old k =
     (if plain_slot K k then (case lookup m k of Some (VBytes b) \<Rightarrow> ByteToHash G b | _ \<Rightarrow> old k) else old k)"

definition after_entries :: "rw_keys \<Rightarrow> geth_ops \<Rightarrow> cachemap \<Rightarrow> acct \<Rightarrow> acct" where
  "after_entries K G m x = x\<lparr>ac_balance := ac_balance x - debit K m, ac_nonce := new_nonce K m (ac_nonce x),
     ac_slots := new_slot K G m (ac_slots x)\<rparr>"

definition committed :: "(acct \<Rightarrow> acct) \<Rightarrow> rw_keys \<Rightarrow> geth_ops \<Rightarrow> cachemap \<Rightarrow> acct \<Rightarrow> acct" where
  "committed fresh K G m x =
     (let x = (if lookup m (CreatAccountKey K) = None then x else (fresh x)\<lparr>ac_nonce := 1\<rparr>) in
      \<lparr>ac_balance = (case lookup m (BalanceKey K) of Some (VBig b) \<Rightarrow> b | _ \<Rightarrow> ac_balance x) - debit K m,
       ac_nonce = new_nonce K m (ac_nonce x),
       ac_code = (case lookup m (SetCodeKey K) of Some (VBytes c) \<Rightarrow> c | _ \<Rightarrow> ac_code x),
       ac_slots = new_slot K G m (ac_slots x)\<rparr>)"

section \<open>Refinement\<close>

lemma after_entries_Nil: "after_entries K G [] x = x"
  by (simp add: after_entries_def debit_def new_nonce_def new_slot_def fun_eq_iff)

lemma after_entries_Cons:
  assumes "k \<notin> fst ` set m" and "keys_distinct K"
  shows "after_entries K G ((k, v) # m) x = after_entries K G m (after_entries K G [(k, v)] x)"
proof -
  have "lookup m k = None" using assms(1) by (simp add: map_of_eq_None_iff)
  then show ?thesis
    using assms(2)
    by (auto simp: after_entries_def debit_def new_nonce_def new_slot_def keys_distinct_def fun_eq_iff
        split: option.splits goval.splits)
qed

lemma commit_entry_view:
  assumes "accounts_spec (eA E)" and "keys_distinct (eK E)" and "typed_entry (eK E) e"
  shows "\<exists>s'. commit_entry E a s e = Some s' \<and>
    view (eA E) s' = (view (eA E) s)(a := after_entries (eK E) (eG E) [e] (view (eA E) s a))"
  using assms(2,3)
  by (cases e) (auto simp: commit_entry_def Let_def view_writes [OF assms(1)] after_entries_def debit_def new_nonce_def new_slot_def
      plain_slot_def keys_distinct_def fun_eq_iff split: if_splits)

text \<open>Entries one after the other, for any writer of single entries: the commit in order and the one through state
  objects both are instances.\<close>

lemma entries_view:
  assumes "\<And>s e. typed_entry K e \<Longrightarrow> \<exists>s'. entry s e = Some s' \<and> V s' = (V s)(a := after_entries K G [e] (V s a))"
    and "\<And>s. entries [] s = Some s" and "\<And>e es s. entries (e # es) s = entry s e \<bind> entries es"
    and "keys_distinct K" and "typed_map K m" and "wf_map m"
  shows "\<exists>s'. entries m s = Some s' \<and> V s' = (V s)(a := after_entries K G m (V s a))"
  using assms(5,6)
proof (induction m arbitrary: s)
  case Nil
  then show ?case by (simp add: assms(2) after_entries_Nil)
next
  case (Cons e m)
  obtain k v where e: "e = (k, v)" by fastforce
  from Cons.prems have m: "typed_map K m" "wf_map m" "k \<notin> fst ` set m" and te: "typed_entry K e"
    by (auto simp: typed_map_def wf_map_def e)
  obtain s1 where s1: "entry s e = Some s1" "V s1 = (V s)(a := after_entries K G [e] (V s a))"
    using assms(1) [OF te] by blast
  from Cons.IH [OF m(1,2), of s1] s1 show ?case
    by (auto simp: e assms(3) after_entries_Cons [OF m(3) assms(4)] intro!: ext)
qed

lemma commit_entries_view:
  assumes "accounts_spec (eA E)" and "keys_distinct (eK E)" and "typed_map (eK E) m" and "wf_map m"
  shows "\<exists>s'. commit_entries E a m s = Some s' \<and>
    view (eA E) s' = (view (eA E) s)(a := after_entries (eK E) (eG E) m (view (eA E) s a))"
  by (rule entries_view [where entry = "commit_entry E a"]) (use assms commit_entry_view in simp_all)

lemma typed_map_lookup: "typed_map K m \<Longrightarrow> lookup m k = Some v \<Longrightarrow> typed_entry K (k, v)"
  using map_of_SomeD by (fastforce simp: typed_map_def)

lemma commit_account_view:
  assumes "accounts_spec (eA E)" and "creation_spec (eA E) fresh" and "keys_distinct (eK E)"
    and "typed_map (eK E) m" and "wf_map m"
  shows "\<exists>s'. commit_account E a m s = Some s' \<and>
    view (eA E) s' = (view (eA E) s)(a := committed fresh (eK E) (eG E) m (view (eA E) s a))"
proof -
  let ?K = "eK E" and ?A = "eA E"
  define s1 where "s1 = (if lookup m (CreatAccountKey ?K) \<noteq> None then db_SetNonce ?A (db_CreateAccount ?A s a) a 1 else s)"
  have v1: "view ?A s1 = (view ?A s)(a := (if lookup m (CreatAccountKey ?K) = None then view ?A s a
      else (fresh (view ?A s a))\<lparr>ac_nonce := 1\<rparr>))"
    using assms(2) by (auto simp: s1_def view_writes [OF assms(1)] creation_spec_def)
  obtain s2 where s2: "(case lookup m (SetCodeKey ?K) of Some code \<Rightarrow> do { b \<leftarrow> as_bytes code; Some (db_SetCode ?A s1 a b) }
      | None \<Rightarrow> Some s1) = Some s2"
    and v2: "view ?A s2 = (view ?A s1)(a := (view ?A s1 a)\<lparr>ac_code :=
      (case lookup m (SetCodeKey ?K) of Some (VBytes c) \<Rightarrow> c | _ \<Rightarrow> ac_code (view ?A s1 a))\<rparr>)"
    using typed_map_lookup [OF assms(4), of "SetCodeKey ?K"] assms(3)
    by (cases "lookup m (SetCodeKey ?K)") (auto simp: view_writes [OF assms(1)] keys_distinct_def)
  obtain s3 where s3: "(case lookup m (BalanceKey ?K) of Some v \<Rightarrow> do { b \<leftarrow> as_big v; Some (db_SetBalance ?A s2 a b) }
      | None \<Rightarrow> Some s2) = Some s3"
    and v3: "view ?A s3 = (view ?A s2)(a := (view ?A s2 a)\<lparr>ac_balance :=
      (case lookup m (BalanceKey ?K) of Some (VBig b) \<Rightarrow> b | _ \<Rightarrow> ac_balance (view ?A s2 a))\<rparr>)"
    using typed_map_lookup [OF assms(4), of "BalanceKey ?K"]
    by (cases "lookup m (BalanceKey ?K)") (auto simp: view_writes [OF assms(1)])
  obtain s4 where s4: "commit_entries E a m s3 = Some s4"
    "view ?A s4 = (view ?A s3)(a := after_entries ?K (eG E) m (view ?A s3 a))"
    using commit_entries_view [OF assms(1,3,4,5)] by blast
  have "commit_account E a m s = Some s4"
    using s2 s3 s4(1) unfolding commit_account_def s1_def Let_def by simp
  moreover have "view ?A s4 = (view ?A s)(a := committed fresh ?K (eG E) m (view ?A s a))"
    unfolding s4(2) v3 v2 v1 by (rule ext) (simp add: committed_def after_entries_def Let_def split: option.split goval.split)
  ultimately show ?thesis by blast
qed

lemma commit_accounts_view:
  assumes "accounts_spec (eA E)" and "creation_spec (eA E) fresh" and "keys_distinct (eK E)"
    and "wf_map c" and "\<forall>(a, m) \<in> set c. typed_map (eK E) m \<and> wf_map m"
  shows "\<exists>s'. commit_accounts E c s = Some s' \<and> (\<forall>a. view (eA E) s' a =
    (case lookup c a of None \<Rightarrow> view (eA E) s a | Some m \<Rightarrow> committed fresh (eK E) (eG E) m (view (eA E) s a)))"
  using assms(4,5)
proof (induction c arbitrary: s)
  case (Cons e c)
  obtain b m where e: "e = (b, m)" by fastforce
  from Cons.prems have c: "wf_map c" "\<forall>(a, m) \<in> set c. typed_map (eK E) m \<and> wf_map m" "lookup c b = None"
    and m: "typed_map (eK E) m" "wf_map m"
    by (auto simp: e wf_map_def map_of_eq_None_iff)
  obtain s1 where s1: "commit_account E b m s = Some s1"
    "view (eA E) s1 = (view (eA E) s)(b := committed fresh (eK E) (eG E) m (view (eA E) s b))"
    using commit_account_view [OF assms(1-3) m] by blast
  obtain s' where "commit_accounts E c s1 = Some s'" "\<forall>a. view (eA E) s' a =
      (case lookup c a of None \<Rightarrow> view (eA E) s1 a | Some m \<Rightarrow> committed fresh (eK E) (eG E) m (view (eA E) s1 a))"
    using Cons.IH [OF c(1,2)] by blast
  moreover have "view (eA E) s1 a = (if a = b then committed fresh (eK E) (eG E) m (view (eA E) s b) else view (eA E) s a)" for a
    using s1(2) by simp
  ultimately show ?case using s1(1) c(3) by (auto simp: e split: option.splits)
qed simp

section \<open>Properties\<close>

definition committable :: "rw_keys \<Rightarrow> rwset \<Rightarrow> bool" where
  "committable K w \<longleftrightarrow> wf_map (cache w) \<and> (\<forall>(a, m) \<in> set (cache w). typed_map K m \<and> wf_map m)"

text \<open>C4. The commit refines a function on accounts, whatever the order of the entries: an account that is not in
  the write set stays as it is; the others get the balance written, or the old one, less the debits, the
  nonce and code written, 1 as the nonce of an account that was created without one, and in every slot
  written the hash of the bytes, not the bytes.\<close>

theorem commit_refines:
  assumes "accounts_spec (eA E)" and "creation_spec (eA E) fresh" and "logs_spec (eA E) (eJ E)"
    and "keys_distinct (eK E)" and "committable (eK E) (r_WriteSet res)"
  shows "\<exists>s'. UpdateWrittenCacheToDataBaseInOrder E res s = Some s' \<and> (\<forall>a. view (eA E) s' a =
    (case rw_Get (r_WriteSet res) a of
       None \<Rightarrow> view (eA E) s a
     | Some m \<Rightarrow> committed fresh (eK E) (eG E) m (view (eA E) s a)))"
  using commit_accounts_view [OF assms(1,2,4), of "cache (r_WriteSet res)" s] assms(5)
  by (auto simp: UpdateWrittenCacheToDataBaseInOrder_def committable_def rw_Get_def view_add_logs [OF assms(3)])

definition std_outcome :: "rwset \<Rightarrow> metalog list \<Rightarrow> outcome_rec" where
  "std_outcome w logs = \<lparr>r_Receipt = None, r_err = None, r_VmErr = None, r_level = 0, r_ReadSet = NewReadSet,
     r_WriteSet = w, r_Logs = logs, r_Tx = example_tx 0xA0 (Some 0xB0), r_Msg = plain_msg 0xA0 0xB0 0 21000 1 1 1 False\<rparr>"

abbreviation pay_set :: rwset where
  "pay_set \<equiv> rw_put (rw_put NewWriteSet 0xA0 (SubBalanceKey keys_std) (VBig 7)) 0xB0 (BalanceKey keys_std) (VBig 107)"

theorem commit_refines_witness:
  "\<exists>s'. UpdateWrittenCacheToDataBaseInOrder std_env (std_outcome pay_set []) (rich_core, []) = Some s' \<and>
    ac_balance (view std_accounts s' 0xA0) = 93 \<and> ac_balance (view std_accounts s' 0xB0) = 107 \<and>
    ac_balance (view std_accounts s' 0xC0) = 100"
proof -
  have c: "committable keys_std (r_WriteSet (std_outcome pay_set []))"
    by (simp add: committable_def std_outcome_def rw_put_def inner_def NewWriteSet_def typed_map_def wf_map_def keys_std_def)
  obtain s' where s': "UpdateWrittenCacheToDataBaseInOrder std_env (std_outcome pay_set []) (rich_core, []) = Some s'"
    "\<forall>a. view std_accounts s' a = (case rw_Get pay_set a of None \<Rightarrow> view std_accounts (rich_core, []) a
       | Some m \<Rightarrow> committed id keys_std geth_std m (view std_accounts (rich_core, []) a))"
    using commit_refines [where E = std_env, unfolded std_env_simps,
      OF std_accounts_spec std_creation_spec std_logs_spec keys_std_distinct c, of "(rich_core, [])"]
    unfolding std_outcome_def by auto
  have get: "rw_Get pay_set 0xA0 = Some [(SubBalanceKey keys_std, VBig 7)]"
    "rw_Get pay_set 0xB0 = Some [(BalanceKey keys_std, VBig 107)]" "rw_Get pay_set 0xC0 = None"
    by (simp_all add: rw_Get_def rw_put_def inner_def NewWriteSet_def)
  have "ac_balance (view std_accounts (rich_core, []) a) = 100" for a
    by (simp add: view_def std_accounts_def rich_core_def)
  then show ?thesis
    using s'(1) s'(2) [rule_format, of "0xA0"] s'(2) [rule_format, of "0xB0"] s'(2) [rule_format, of "0xC0"]
    unfolding get by (intro exI [of _ s']) (simp add: committed_def debit_def keys_std_def Let_def)
qed

lemma commit_entry_bad: "keys_distinct (eK E) \<Longrightarrow> commit_entry E a s (NonceKey (eK E), VBytes b) = None"
  by (simp add: commit_entry_def keys_distinct_def)

lemma commit_entries_bad:
  assumes "(NonceKey (eK E), VBytes b) \<in> set m" and "keys_distinct (eK E)"
  shows "commit_entries E a m s = None"
  using assms(1)
proof (induction m arbitrary: s)
  case (Cons e m)
  then show ?case
    by (cases "e = (NonceKey (eK E), VBytes b)"; cases "commit_entry E a s e") (auto simp: commit_entry_bad [OF assms(2)])
qed simp

lemma commit_accounts_bad:
  assumes "(a, m) \<in> set c" and "(NonceKey (eK E), VBytes b) \<in> set m" and "keys_distinct (eK E)"
  shows "commit_accounts E c s = None"
  using assms(1)
proof (induction c arbitrary: s)
  case (Cons e c)
  have "commit_account E a m t = None" for t
    by (auto simp: commit_account_def Let_def bind_None_iff commit_entries_bad [OF assms(2,3)])
  with Cons show ?case by (cases "e = (a, m)") (auto simp: bind_None_iff)
qed simp

text \<open>C35. Storage slots share their map with the reserved keys, and the commit asserts the type behind the nonce
  key: a contract that stores anything in the slot whose number is that key makes the commit panic, and with
  it the execution of the block, even when the transaction fails and its write set is cut down to the nonces.\<close>

theorem sstore_at_nonce_key_crashes_commit:
  assumes "opSstore C E f = Some (f', ret, None)" and "f_stack f = st @ [val, loc]"
    and "u_Bytes32 (eU E) loc = NonceKey (eK E)" and "keys_distinct (eK E)"
    and "r_WriteSet res \<in> {vWriteSet (f_vm f'), keep_nonces (eK E) (vWriteSet (f_vm f'))}"
  shows "UpdateWrittenCacheToDataBaseInOrder E res s = None"
proof -
  let ?K = "eK E" and ?w = "vWriteSet (f_vm f')"
  have "GetAddressAndKey ?w (self (f_con f)) (NonceKey ?K) = Some (VBytes (u_Bytes (eU E) val))"
    using assms(1-3) keys_neq [OF assms(4)]
    by (auto simp: opSstore_def pop_def bind_Some_iff butlast_append WriteSet_UpdateCache_eq write_value_def GetAddressAndKey_put split: if_splits)
  then obtain m where m: "(self (f_con f), m) \<in> set (cache ?w)" "(NonceKey ?K, VBytes (u_Bytes (eU E) val)) \<in> set m"
    by (auto simp: GetAddressAndKey_def dest!: map_of_SomeD split: option.splits)
  let ?m = "filter (\<lambda>(k, v). k = NonceKey ?K) m"
  have "(self (f_con f), ?m) \<in> set (cache (keep_nonces ?K ?w))" "(NonceKey ?K, VBytes (u_Bytes (eU E) val)) \<in> set ?m"
    using m by (force simp: keep_nonces_def)+
  with m assms(5) have "commit_accounts E (cache (r_WriteSet res)) s = None"
    by (auto intro: commit_accounts_bad [OF _ _ assms(4)])
  then show ?thesis by (simp add: UpdateWrittenCacheToDataBaseInOrder_def)
qed

abbreviation std_calls :: "std_db calls" where
  "std_calls \<equiv> calls_of (Run 0 (fill_table frontier) std_env) std_env"

theorem sstore_at_nonce_key_crashes_commit_witness:
  "\<exists>f'. opSstore std_calls std_env (std_frame std_core_empty [1, 0x6e6f6e6365] [] 10) = Some (f', [], None) \<and>
    UpdateWrittenCacheToDataBaseInOrder std_env (std_outcome (vWriteSet (f_vm f')) []) (rich_core, []) = None"
proof -
  obtain f' where f': "opSstore std_calls std_env (std_frame std_core_empty [1, 0x6e6f6e6365] [] 10) = Some (f', [], None)"
    by (simp add: opSstore_def std_frame_def pop_def std_vm_def uint256_std_def WriteSet_UpdateCache_eq write_value_def keys_std_def)
  moreover have "UpdateWrittenCacheToDataBaseInOrder std_env (std_outcome (vWriteSet (f_vm f')) []) (rich_core, []) = None"
    by (rule sstore_at_nonce_key_crashes_commit [OF f', where st = "[]" and val = 1 and loc = "0x6e6f6e6365"])
      (simp_all add: std_frame_def uint256_std_def keys_std_def keys_std_distinct [unfolded keys_std_def] std_outcome_def)
  ultimately show ?thesis by blast
qed

section \<open>Failed transactions\<close>

lemma keep_nonces_lookup:
  "lookup (cache (keep_nonces K w)) a = map_option (filter (\<lambda>(k, v). k = NonceKey K)) (lookup (cache w) a)"
  by (simp add: keep_nonces_def map_of_map [unfolded comp_def])

lemma committed_nonce_only:
  assumes "keys_distinct K"
  shows "committed fresh K G (filter (\<lambda>(k, v). k = NonceKey K) m) x = x\<lparr>ac_nonce := new_nonce K m (ac_nonce x)\<rparr>"
proof -
  have "lookup (filter (\<lambda>(k, v). k = NonceKey K) m) k = (if k = NonceKey K then lookup m k else None)" for k
    by (induction m) auto
  then show ?thesis using assms
    by (auto simp: committed_def debit_def new_nonce_def new_slot_def plain_slot_def keys_distinct_def fun_eq_iff)
qed

text \<open>A transaction that fails leaves nothing of its write set but the nonces: the commit changes no balance, code
  or slot, so a failed transaction pays for none of its gas.\<close>

theorem failed_transaction_pays_nothing:
  assumes "accounts_spec (eA E)" and "creation_spec (eA E) fresh" and "logs_spec (eA E) (eJ E)" and "keys_distinct (eK E)"
    and "AsMessage tx (BaseFee E) = Some m" and "NewVM (msg_data m) (db_Prepare (eJ E) s (tx_Hash tx) i) = Some vmm"
    and "ApplyTransactionWithFlag N E m tx (db_Prepare (eJ E) s (tx_Hash tx) i) vmm used gp 0 SerialProcessType None =
      Some (res, s1, used1, gp1)"
    and "r_err res \<noteq> None \<or> r_VmErr res \<noteq> None" and "committable (eK E) (keep_nonces (eK E) (r_WriteSet res))"
  shows "\<exists>res' s'. serial_tx N E i tx (s, used, gp) = Some (res', s', used1, gp1) \<and> (\<forall>a. view (eA E) s' a =
    (case rw_Get (r_WriteSet res) a of
       None \<Rightarrow> view (eA E) s1 a
     | Some m \<Rightarrow> (view (eA E) s1 a)\<lparr>ac_nonce := new_nonce (eK E) m (ac_nonce (view (eA E) s1 a))\<rparr>))"
proof -
  let ?res = "res\<lparr>r_WriteSet := keep_nonces (eK E) (r_WriteSet res)\<rparr>"
  obtain s2 where s2: "commit_accounts E (cache (r_WriteSet ?res)) s1 = Some s2"
    "\<forall>a. view (eA E) s2 a = (case lookup (cache (r_WriteSet ?res)) a of
       None \<Rightarrow> view (eA E) s1 a | Some m \<Rightarrow> committed fresh (eK E) (eG E) m (view (eA E) s1 a))"
    using commit_accounts_view [OF assms(1,2,4), of "cache (r_WriteSet ?res)" s1] assms(9)
    by (auto simp: committable_def)
  show ?thesis
    using assms(5-8) s2
    by (auto simp: serial_tx_def UpdateWrittenCacheToDataBaseInOrder_def view_add_logs [OF assms(3)] keep_nonces_lookup
        rw_Get_def committed_nonce_only [OF assms(4)] split: option.splits)
qed

text \<open>The pool is empty, so the transaction fails before it runs; its sender keeps the balance it was given.\<close>

definition std_node :: "std_db node" where
  "std_node = \<lparr>nd_noBaseFee = False, nd_pool = pool_std, nd_jt = fill_table frontier, nd_wasm = (\<lambda>E vm c input ro. None)\<rparr>"

lemma std_AsMessage: "AsMessage (example_tx f (Some t)) (Some b) =
    Some (NewMessage f (Some t) 0 1 21000 (min (1000000000 + b) 1000000000) 1000000000 1000000000 [] [] True)"
  by (simp add: AsMessage_def example_tx_def GasPrice_def To_def From_def tx_nonce_def EthValue_def tx_gas_def tx_data_def Let_def)

lemma rejected_by_pool:
  assumes "vWriteSet vm = NewWriteSet" "vReadSet vm = NewReadSet" "msg_isFake m"
    and "fee_checks nb E (NewProcessTransition vm m gp) = Some None" "pool_spec P" "gp < msg_gasLimit m"
    and "accounts_spec (eA E)" "check = uint (msg_gasLimit m) * msg_gasFeeCap m + msg_amount m" "0 \<le> check"
  shows "\<exists>p' r. ApplyMessage nb P run E vm m gp = Some (p', r, Some GasLimitReached) \<and> pt_gp p' = gp \<and>
    pt_db p' = db_SetBalance (eA E) (vDB vm) (msg_from m) (check + check)"
proof -
  have bal: "db_GetBalance (eA E) (db_SetBalance (eA E) s a v) a = v" for s a v
    using assms(7) by (simp add: accounts_spec_def)
  show ?thesis
    using assms(1-6,9) unfolding ApplyMessage_def TransitionDb_def
    by (simp add: preCheck_def buyGas_def assms(8) [symmetric] pt_db_def set_vm_def read_put_def ReadSet_UpdateCache_eq
        read_value_def NewSets_empty Let_def bal pool_specD failed_with_def)
qed

abbreviation std_msg :: message where
  "std_msg \<equiv> NewMessage 0xA0 (Some 0xB0) 0 1 21000 1000000000 1000000000 1000000000 [] [] True"

lemma std_apply_fails:
  assumes "vWriteSet vm = NewWriteSet" and "vReadSet vm = NewReadSet"
  shows "\<exists>s1. ApplyTransactionWithFlag std_node std_env std_msg (example_tx 0xA0 (Some 0xB0)) (std_core_empty, [])
      (vm, NoInterpreter) 0 0 0 SerialProcessType None =
    Some (failed_outcome GasLimitReached 0 (example_tx 0xA0 (Some 0xB0)) std_msg, s1, 0, 0) \<and>
    ac_balance (view std_accounts s1 0xA0) = 42000000000002"
proof -
  let ?E = "NewVMTxContext std_msg std_env" and ?vm = "vm_Reset vm (std_core_empty, [])"
  have "big_BitLen 1000000000 \<le> 256" by (simp add: big_BitLen_def nat_bitlen_le)
  then have fees: "fee_checks False ?E (NewProcessTransition ?vm std_msg 0) = Some None"
    by (simp add: fee_checks_def NewVMTxContext_def NewMessage_def not_less) (simp add: std_env_def)
  have "vWriteSet ?vm = NewWriteSet" "vReadSet ?vm = NewReadSet" "msg_isFake std_msg" "0 < msg_gasLimit std_msg"
    "accounts_spec (eA ?E)" "eA ?E = std_accounts" "vDB ?vm = (std_core_empty, [])"
    using assms by (simp_all add: vm_Reset_def NewMessage_def NewVMTxContext_def std_accounts_spec)
  from rejected_by_pool [OF this(1-3) fees pool_std_spec this(4,5) refl, of "run_with std_node ?E NoInterpreter"] this(6,7)
  show ?thesis
    by (auto simp: ApplyTransactionWithFlag_def std_node_def NewMessage_def view_def std_accounts_def Let_def)
qed

theorem failed_transaction_pays_nothing_witness:
  "\<exists>res' s'. serial_tx std_node std_env 0 (example_tx 0xA0 (Some 0xB0)) ((std_core_empty, []), 0, 0) = Some (res', s', 0, 0) \<and>
    ac_balance (view std_accounts s' 0xA0) = 42000000000002"
proof -
  let ?tx = "example_tx 0xA0 (Some 0xB0)"
  obtain vm where vm: "NewVM (msg_data std_msg) (db_Prepare (eJ std_env) (std_core_empty, []) (tx_Hash ?tx) 0) = Some (vm, NoInterpreter)"
    "vWriteSet vm = NewWriteSet" "vReadSet vm = NewReadSet"
    by (simp add: NewVM_def new_interpreter_def NewMessage_def)
  have m: "AsMessage ?tx (BaseFee std_env) = Some std_msg"
    by (simp add: std_AsMessage std_env_def)
  have db: "db_Prepare (eJ std_env) (std_core_empty, []) (tx_Hash ?tx) 0 = (std_core_empty, [])"
    by (simp add: std_journal_def)
  obtain s1 where s1: "ApplyTransactionWithFlag std_node std_env std_msg ?tx (std_core_empty, []) (vm, NoInterpreter) 0 0 0
      SerialProcessType None = Some (failed_outcome GasLimitReached 0 ?tx std_msg, s1, 0, 0)"
    "ac_balance (view std_accounts s1 0xA0) = 42000000000002"
    using std_apply_fails [OF vm(2,3)] by blast
  have "committable (eK std_env) (keep_nonces (eK std_env) (r_WriteSet (failed_outcome GasLimitReached 0 ?tx std_msg)))"
    by (simp add: committable_def keep_nonces_def failed_outcome_def NewWriteSet_def)
  with failed_transaction_pays_nothing [OF _ _ _ _ m vm(1), unfolded db, where fresh = id and N = std_node and used = 0
      and gp = 0 and res = "failed_outcome GasLimitReached 0 ?tx std_msg" and ?s1.0 = s1 and ?used1.0 = 0 and ?gp1.0 = 0]
  obtain res' s' where "serial_tx std_node std_env 0 ?tx ((std_core_empty, []), 0, 0) = Some (res', s', 0, 0)"
    "view std_accounts s' 0xA0 = view std_accounts s1 0xA0"
    using s1(1) by (fastforce simp: std_accounts_spec std_creation_spec std_logs_spec keys_std_distinct failed_outcome_def
        rw_Get_def NewWriteSet_def)
  with s1(2) show ?thesis by auto
qed

end
