(* ===== verification/ProcessLaws.thy ===== *)
theory ProcessLaws
  imports Commits
begin

text \<open>
  What the processor does around a message: the machine without an interpreter, the hashes of past blocks, and the
  accounting of a block.
\<close>

section \<open>No interpreter\<close>

text \<open>A call of a contract in a machine without interpreter.\<close>

lemma call_without_interpreter:
  assumes "depth vm \<le> 1024" "ePre E a = None"
    and "s = snd (db_Snapshot (eJ E) (vDB vm))" "db_Exist (eA E) s a" "db_GetCode (eA E) s a \<noteq> []"
    and "GetAddressAndKey (vWriteSet vm) a (SetCodeKey (eK E)) = None"
    and "GetAddressAndKey (vWriteSet vm) (ref_Address cr) (BalanceKey (eK E)) = None"
  shows "Call (run_with N E' NoInterpreter) E vm cr a input gas 0 = None"
proof -
  obtain i where snap: "db_Snapshot (eJ E) (vDB vm) = (i, s)"
    using assms(3) by (cases "db_Snapshot (eJ E) (vDB vm)") simp
  have load: "load_code E vm' a = Some (db_GetCode (eA E) s a, db_GetCodeHash (eA E) s a)"
    if "vWriteSet vm' = vWriteSet vm" "vDB vm' = s" for vm'
    using that assms(6) by (simp add: load_code_def)
  show ?thesis
  proof (cases "ReadSet_UpdateCache (eK E) (vReadSet vm) (ref_Address cr) (BalanceKey (eK E)) (VBig 0)")
    case None
    then show ?thesis using assms by (simp add: Call_def can_transfer_def read_put_def)
  next
    case (Some rs)
    then show ?thesis using assms(1,2,4,5,7)
      by (cases cr) (simp add: Call_def can_transfer_def Let_def take_snapshot_def snap new_contract_def NewContract_def load read_put_def
        run_with_def run_contract_def big_Uint64_def)+
  qed
qed

text \<open>An account with code is not empty, so it exists.\<close>

definition exist_spec :: "'s account_ops \<Rightarrow> bool" where
  "exist_spec A \<longleftrightarrow> (\<forall>s a. db_GetCode A s a \<noteq> [] \<longrightarrow> db_Exist A s a)"

lemma exist_std: "exist_spec std_accounts"
  by (simp add: exist_spec_def std_accounts_def split: prod.splits)

lemma contract_message_panics:
  assumes "vWriteSet vm = NewWriteSet" "vReadSet vm = NewReadSet" "depth vm \<le> 1024" "msg_isFake m"
    and "fee_checks nb E (NewProcessTransition vm m gp) = Some None" "0 \<le> msg_gasFeeCap m"
    and "pool_spec P" "msg_gasLimit m \<le> gp" "accounts_spec (eA E)" "quiet_spec (eA E) (eJ E)" "exist_spec (eA E)"
    and "keys_distinct (eK E)" "msg_amount m = 0" "msg_to m = Some a" "ePre E a = None"
    and "db_GetCode (eA E) (vDB vm) a \<noteq> []"
    and "IntrinsicGas (msg_data m) (msg_accessList m) False = Inr g" "g \<le> 100000000 + msg_gasLimit m"
  shows "ApplyMessage nb P (run_with N E' NoInterpreter) E vm m gp = None"
proof -
  let ?check = "uint (msg_gasLimit m) * msg_gasFeeCap m + msg_amount m"
  let ?s = "db_SetBalance (eA E) (vDB vm) (msg_from m) (?check + ?check)"
  have pre: "\<exists>p1. preCheck nb P E (NewProcessTransition vm m gp) = Some (p1, None) \<and> pt_msg p1 = m \<and> pt_data p1 = msg_data m \<and>
      pt_gas p1 = 100000000 + msg_gasLimit m \<and> pt_value p1 = 0 \<and> vDB (pt_vm p1) = ?s \<and> depth (pt_vm p1) \<le> 1024 \<and>
      vWriteSet (pt_vm p1) = rw_put NewWriteSet (msg_from m) (SubBalanceKey (eK E)) (VBig (uint (msg_gasLimit m) * msg_gasPrice m)) \<and>
      vReadSet (pt_vm p1) = rw_put NewReadSet (msg_from m) (BalanceKey (eK E)) (VBig (?check + ?check))"
    using preCheck_fake [OF assms(1,2,4,5,7,8,9) refl] assms(3,6,13) by simp
  then obtain p1 where p1: "preCheck nb P E (NewProcessTransition vm m gp) = Some (p1, None)" "pt_msg p1 = m" "pt_data p1 = msg_data m"
      "pt_gas p1 = 100000000 + msg_gasLimit m" "pt_value p1 = 0" "vDB (pt_vm p1) = ?s" "depth (pt_vm p1) \<le> 1024"
      "vWriteSet (pt_vm p1) = rw_put NewWriteSet (msg_from m) (SubBalanceKey (eK E)) (VBig (uint (msg_gasLimit m) * msg_gasPrice m))"
      "vReadSet (pt_vm p1) = rw_put NewReadSet (msg_from m) (BalanceKey (eK E)) (VBig (?check + ?check))"
    by blast
  have s: "db_Exist (eA E) (snd (db_Snapshot (eJ E) ?s)) a" "db_GetCode (eA E) (snd (db_Snapshot (eJ E) ?s)) a \<noteq> []"
    using assms(9-11,16) by (simp_all add: exist_spec_def quiet_spec_def accounts_spec_def same_but_balance_def)
  have call: "Call (run_with N E' NoInterpreter) E vm' (AccountRef (msg_from m)) a inp gas 0 = None"
    if "vDB vm' = ?s" "depth vm' \<le> 1024" "vWriteSet vm' = rw_put (rw_put NewWriteSet (msg_from m) (SubBalanceKey (eK E)) (VBig b)) (msg_from m) (NonceKey (eK E)) v"
    for vm' b v inp gas
    by (rule call_without_interpreter [OF that(2) assms(15) refl])
      (use s that keys_neq [OF assms(12)] in \<open>simp_all add: GetAddressAndKey_put NewSets_empty\<close>)
  have "\<not> 100000000 + msg_gasLimit m < g" using assms(18) by simp
  then show ?thesis
    using p1 assms(13,14,17)
    by (simp add: ApplyMessage_def TransitionDb_def Let_def set_vm_def write_put_def read_put_def pt_db_def
        WriteSet_UpdateCache_eq write_value_def ReadSet_UpdateCache_eq read_value_def GetAddressAndKey_put
        run_message_def pt_to_def call keys_neq [OF assms(12)] bind_eq_None_conv)
qed

text \<open>\<^verbatim>\<open>PreExecution\<close> builds its machine without transaction data, so without an interpreter. A call without value
  to a contract then panics as soon as its fees are accepted and its gas covers the intrinsic gas.\<close>

theorem pre_execution_of_contract_panics:
  assumes "m = ToMessage args (hd_GasLimit header)" "E' = NewVMTxContext m (NewVMBlockContext header ch None E)"
    and "NewVM [] s = Some (vm, ip)" "fee_checks (nd_noBaseFee N) E' (NewProcessTransition vm m (hd_GasLimit header)) = Some None"
    and "0 \<le> msg_gasFeeCap m" "hd_GasLimit header \<noteq> 0" "msg_amount m = 0"
    and "IntrinsicGas (msg_data m) [] False = Inr g" "g \<le> 100000000 + msg_gasLimit m"
    and "msg_to m = Some a" "ePre E a = None" "db_GetCode (eA E) s a \<noteq> []"
    and "pool_spec (nd_pool N)" "accounts_spec (eA E)" "quiet_spec (eA E) (eJ E)" "exist_spec (eA E)" "keys_distinct (eK E)"
  shows "PreExecution N E ch header s args cancelled = None"
proof -
  have vm: "vWriteSet vm = NewWriteSet" "vReadSet vm = NewReadSet" "depth vm \<le> 1024" "vDB vm = s" "ip = NoInterpreter"
    using assms(3) by (auto simp: NewVM_def new_interpreter_def)
  have m: "msg_isFake m" "msg_accessList m = []" "msg_gasLimit m \<le> hd_GasLimit header"
    using assms(1,6) by (auto simp: ToMessage_def NewMessage_def Let_def not_less)
  have E': "eA E' = eA E" "eJ E' = eJ E" "eK E' = eK E" "ePre E' = ePre E"
    unfolding assms(2) by (simp_all add: NewVMTxContext_def NewVMBlockContext_def Let_def)
  have "ApplyMessage (nd_noBaseFee N) (nd_pool N) (run_with N E' NoInterpreter) E' vm m (hd_GasLimit header) = None"
    by (rule contract_message_panics [where g = g]) (use assms vm m E' in simp_all)
  then show ?thesis
    using assms(1-3,13) vm by (simp add: PreExecution_def pool_specD Let_def)
qed

section \<open>The hashes of past blocks\<close>

text \<open>What the closure takes for the hash of the \<open>i\<close>-th ancestor, without any cache. It is not that hash: \<^verbatim>\<open>ByteToHash\<close> hashes the
  parent hash of a header once more, and the next header is looked up under the result.\<close>

fun rehashed :: "geth_ops \<Rightarrow> header \<Rightarrow> chain \<Rightarrow> nat \<Rightarrow> hash option" where
  "rehashed G ref ch 0 = Some (parent_hash G ref)"
| "rehashed G ref ch (Suc i) = do {
     h \<leftarrow> rehashed G ref ch i;
     map_option (parent_hash G) (ch_GetHeader ch h (big_Uint64 (hd_Number ref) - 1 - of_nat i))
   }"

definition valid_cache :: "geth_ops \<Rightarrow> header \<Rightarrow> chain \<Rightarrow> hash list \<Rightarrow> bool" where
  "valid_cache G ref ch cached \<longleftrightarrow> map Some cached = map (rehashed G ref ch) [0..<length cached]"

definition chain_spec :: "chain \<Rightarrow> bool" where
  "chain_spec ch \<longleftrightarrow> (\<forall>h k hd. ch_GetHeader ch h k = Some hd \<longrightarrow> big_Uint64 (hd_Number hd) = k)"

lemma valid_cache_nth: "valid_cache G ref ch cached \<Longrightarrow> i < length cached \<Longrightarrow> rehashed G ref ch i = Some (cached ! i)"
  unfolding valid_cache_def by (metis add.left_neutral diff_zero length_upt nth_map nth_upt)

lemma valid_cache_Nil [simp]: "valid_cache G ref ch []"
  by (simp add: valid_cache_def)

lemma valid_cache_snoc: "valid_cache G ref ch (cached @ [h]) \<longleftrightarrow>
    valid_cache G ref ch cached \<and> rehashed G ref ch (length cached) = Some h"
  by (auto simp: valid_cache_def)

lemma rehashed_None_mono: "rehashed G ref ch i = None \<Longrightarrow> i \<le> j \<Longrightarrow> rehashed G ref ch j = None"
  by (induction j) (auto simp: le_Suc_eq)

lemma diff_left_cancel_u64: "(x :: u64) - a = x - b \<longleftrightarrow> a = b"
  by simp

lemma hash_walk_finds:
  assumes "chain_spec ch" "N = big_Uint64 (hd_Number ref)" "valid_cache G ref ch cached" "cached \<noteq> []"
    and "length cached \<le> d" "d < unat N" "n = N - 1 - of_nat d" "d < length cached + fuel"
  shows "\<exists>cached'. hash_walk G ch n fuel cached (last cached) (N - of_nat (length cached)) =
      Some (case rehashed G ref ch d of None \<Rightarrow> 0 | Some h \<Rightarrow> h, cached') \<and> valid_cache G ref ch cached'"
  using assms(3-5,8)
proof (induction fuel arbitrary: cached)
  case 0 then show ?case by simp
next
  case (Suc fuel)
  let ?l = "length cached"
  obtain i where i: "?l = Suc i" using Suc.prems(2) by (cases cached) auto
  have last: "rehashed G ref ch i = Some (last cached)"
    using valid_cache_nth [OF Suc.prems(1), of i] i Suc.prems(2) by (simp add: last_conv_nth)
  have num: "big_Uint64 (hd_Number ref) - 1 - of_nat i = N - of_nat ?l" using i assms(2) by (simp add: algebra_simps)
  show ?case
  proof (cases "ch_GetHeader ch (last cached) (N - of_nat ?l)")
    case None
    then have "rehashed G ref ch (Suc i) = None" using last by (simp add: num)
    then have "rehashed G ref ch d = None" using rehashed_None_mono Suc.prems(3) i by metis
    then show ?thesis using None Suc.prems(1) by simp
  next
    case (Some hd)
    then have next': "rehashed G ref ch ?l = Some (parent_hash G hd)" using last by (simp add: i num)
    have hd: "big_Uint64 (hd_Number hd) - 1 = N - of_nat (Suc ?l)"
      using Some assms(1) by (simp add: chain_spec_def)
    have valid: "valid_cache G ref ch (cached @ [parent_hash G hd])"
      using Suc.prems(1) next' by (simp add: valid_cache_snoc)
    have nat_lt: "unat N < 2 ^ 64" using uint_bounded [of N] by (simp add: nat_less_iff flip: nat_uint_eq)
    have small: "unat (of_nat k :: u64) = k" if "k \<le> d" for k
    proof -
      have "k < 2 ^ 64" using that assms(6) nat_lt by linarith
      then show ?thesis by (simp add: unat_of_nat)
    qed
    have "N - of_nat (Suc ?l) = N - 1 - of_nat ?l" by (simp add: diff_diff_eq)
    then have "n = N - of_nat (Suc ?l) \<longleftrightarrow> (of_nat d :: u64) = of_nat ?l"
      unfolding assms(7) by (simp only: diff_left_cancel_u64)
    then have eq: "n = N - of_nat (Suc ?l) \<longleftrightarrow> d = ?l"
      using small [of ?l] small [of d] Suc.prems(3) by fastforce
    show ?thesis
    proof (cases "d = ?l")
      case True
      then show ?thesis using Some eq next' valid by (simp add: Let_def hd)
    next
      case False
      then show ?thesis
        using Suc.IH [OF valid] Some eq Suc.prems(3,4) by (simp add: Let_def hd)
    qed
  qed
qed

text \<open>C31. What the closure answers for a past block does not depend on what was asked before: whatever valid slice of hashes it
  holds, one step of fuel per block is enough for it to end with the hash of the walk as coded, which hashes every
  parent hash again, or with zero where the walk finds no header, and it leaves a valid slice. When the
  chain has no header under the hash of the parent's hash, the answer for the parent is that twice hashed value, and
  for every block before it zero.\<close>

theorem block_hashes_settled:
  assumes "chain_spec ch" "valid_cache G ref ch cached" "n < big_Uint64 (hd_Number ref)"
  shows "\<exists>h cached'. GetHashFn G ref ch (Suc (unat (big_Uint64 (hd_Number ref)))) cached n = Some (h, cached') \<and>
    valid_cache G ref ch cached' \<and>
    h = (case rehashed G ref ch (unat (big_Uint64 (hd_Number ref)) - unat n - 1) of None \<Rightarrow> 0 | Some h \<Rightarrow> h) \<and>
    (ch_GetHeader ch (parent_hash G ref) (big_Uint64 (hd_Number ref) - 1) = None \<longrightarrow>
       h = (if n + 1 = big_Uint64 (hd_Number ref) then parent_hash G ref else 0))"
proof -
  let ?N = "big_Uint64 (hd_Number ref)" and ?c = "if length cached = 0 then [parent_hash G ref] else cached"
  let ?d = "unat ?N - unat n - 1"
  have lt: "unat n < unat ?N" using assms(3) by (simp add: word_less_nat_alt)
  have sub: "unat (?N - n) = unat ?N - unat n" using lt by (simp add: unat_sub_u64 word_le_nat_alt)
  with lt have idx: "unat (?N - n - 1) = ?d"
    using unat_sub_u64 [of 1 "?N - n"] by (simp add: word_le_nat_alt)
  have valid: "valid_cache G ref ch ?c" "?c \<noteq> []"
    using assms(2) valid_cache_snoc [of G ref ch "[]"] by auto
  have n: "n = ?N - 1 - of_nat ?d"
    unfolding idx [symmetric] by simp
  have "\<exists>cached'. GetHashFn G ref ch (Suc (unat ?N)) cached n =
      Some (case rehashed G ref ch ?d of None \<Rightarrow> 0 | Some h \<Rightarrow> h, cached') \<and> valid_cache G ref ch cached'"
  proof (cases "?d < length ?c")
    case True
    then show ?thesis using valid_cache_nth [OF valid(1) True] idx valid(1) by (simp add: GetHashFn_def Let_def)
  next
    case False
    then show ?thesis
      using hash_walk_finds [OF assms(1) refl valid, of ?d n "Suc (unat ?N)"] n lt idx by (simp add: GetHashFn_def Let_def)
  qed
  moreover have "(case rehashed G ref ch ?d of None \<Rightarrow> 0 | Some h \<Rightarrow> h) = (if n + 1 = ?N then parent_hash G ref else 0)"
    if "ch_GetHeader ch (parent_hash G ref) (?N - 1) = None"
  proof (cases "?d = 0")
    case True
    then show ?thesis using n by simp
  next
    case False
    have "rehashed G ref ch 1 = None" using that by simp
    then have "rehashed G ref ch ?d = None" using rehashed_None_mono [of G ref ch 1 ?d] False by simp
    moreover have "n + 1 \<noteq> ?N"
    proof
      assume "n + 1 = ?N"
      then have "?N - n = 1" by (simp flip: \<open>n + 1 = ?N\<close>)
      with sub False show False by simp
    qed
    ultimately show ?thesis by simp
  qed
  moreover define h where "h = (case rehashed G ref ch ?d of None \<Rightarrow> 0 | Some h \<Rightarrow> h)"
  ultimately show ?thesis by (intro exI [of _ h]) auto
qed

section \<open>The accounting of a block\<close>

definition gas_of :: "outcome_rec \<Rightarrow> u64" where
  "gas_of res = (case r_Receipt res of None \<Rightarrow> 0 | Some rc \<Rightarrow> rc_GasUsed rc)"

lemma TransitionDb_gas:
  "TransitionDb nb P run E p = Some (p', r, None) \<Longrightarrow> UsedGas r \<in> {1, CallStipend}"
  by (auto simp: TransitionDb_def failed_with_def bind_Some_iff Let_def split: option.splits sum.splits if_splits)

lemma ApplyTransaction_accounts:
  assumes "ApplyTransactionWithFlag N E m tx s vmm used gp 0 SerialProcessType None = Some (res, s', used', gp')"
  shows "r_Tx res = tx" "used' = used + gas_of res"
    "r_Receipt res = Some rc \<Longrightarrow> rc_CumulativeGasUsed rc = used \<and> rc_GasUsed rc \<in> {1, CallStipend}"
proof -
  obtain vm p r err where run: "ApplyMessage (nd_noBaseFee N) (nd_pool N) (run_with N (NewVMTxContext m E) (snd vmm))
      (NewVMTxContext m E) vm m gp = Some (p, r, err)"
    and cont: "(case err of Some e \<Rightarrow> Some (failed_outcome e 0 tx m, pt_db p, used, pt_gp p) | None \<Rightarrow> do {
         txType \<leftarrow> map_option tx_TxType (Base tx);
         Some (\<lparr>r_Receipt = Some \<lparr>rc_Type = txType, rc_CumulativeGasUsed = used, rc_Success = \<not> res_Failed r,
                  rc_TxHash = tx_Hash tx, rc_GasUsed = UsedGas r,
                  rc_ContractAddress = (if msg_to m = None then Some (Origin (NewVMTxContext m E)) else None),
                  rc_Logs = vLogs (pt_vm p), rc_BlockNumber = BlockNumber (NewVMTxContext m E), rc_TxIndex = 0\<rparr>,
                r_err = None, r_VmErr = res_Err r, r_level = 0, r_ReadSet = vReadSet (pt_vm p),
                r_WriteSet = vWriteSet (pt_vm p), r_Logs = vLogs (pt_vm p), r_Tx = tx, r_Msg = m\<rparr>,
               vDB (pt_vm p), used + UsedGas r, pt_gp p)
       }) = Some (res, s', used', gp')"
    using assms by (auto simp: ApplyTransactionWithFlag_def bind_Some_iff Let_def split: prod.splits)
  show "r_Tx res = tx" "used' = used + gas_of res"
    "r_Receipt res = Some rc \<Longrightarrow> rc_CumulativeGasUsed rc = used \<and> rc_GasUsed rc \<in> {1, CallStipend}"
    using cont run TransitionDb_gas [of "nd_noBaseFee N"]
    by (cases err; fastforce simp: failed_outcome_def gas_of_def bind_Some_iff ApplyMessage_def)+
qed

lemma serial_tx_accounts:
  assumes "serial_tx N E i tx (s, used, gp) = Some (res, s', used', gp')"
  shows "r_Tx res = tx" "used' = used + gas_of res"
    "r_Receipt res = Some rc \<Longrightarrow> rc_CumulativeGasUsed rc = used \<and> rc_GasUsed rc \<in> {1, CallStipend}"
proof -
  obtain m s0 vmm res1 s1 where r: "ApplyTransactionWithFlag N E m tx s0 vmm used gp 0 SerialProcessType None = Some (res1, s1, used', gp')"
    and res: "r_Tx res = r_Tx res1" "r_Receipt res = r_Receipt res1"
    using assms by (auto simp: serial_tx_def bind_Some_iff Let_def split: if_splits)
  show "r_Tx res = tx" "used' = used + gas_of res"
    "r_Receipt res = Some rc \<Longrightarrow> rc_CumulativeGasUsed rc = used \<and> rc_GasUsed rc \<in> {1, CallStipend}"
    using ApplyTransaction_accounts [OF r] res by (simp_all add: gas_of_def)
qed

definition accounts_up :: "u64 \<Rightarrow> outcome_rec list \<Rightarrow> bool" where
  "accounts_up used rs \<longleftrightarrow> (\<forall>k < length rs. case r_Receipt (rs ! k) of None \<Rightarrow> True
     | Some rc \<Rightarrow> rc_CumulativeGasUsed rc = used + sum_list (map gas_of (take k rs)) \<and> rc_GasUsed rc \<in> {1, CallStipend})"

lemma accounts_up_Cons:
  "accounts_up used (r # rs) \<longleftrightarrow>
    (case r_Receipt r of None \<Rightarrow> True | Some rc \<Rightarrow> rc_CumulativeGasUsed rc = used \<and> rc_GasUsed rc \<in> {1, CallStipend}) \<and>
    accounts_up (used + gas_of r) rs"
  by (simp add: accounts_up_def All_less_Suc2 add.assoc cong: option.case_cong)

lemma serial_txs_accounts:
  "serial_txs N E i txs (s, used, gp) = Some (rs, s', used', gp') \<Longrightarrow>
    map r_Tx rs = txs \<and> used' = used + sum_list (map gas_of rs) \<and> accounts_up used rs"
proof (induction txs arbitrary: i s used gp rs)
  case Nil then show ?case by (simp add: accounts_up_def)
next
  case (Cons tx txs)
  then obtain res s1 used1 gp1 rs1 where one: "serial_tx N E i tx (s, used, gp) = Some (res, s1, used1, gp1)"
    and rest: "serial_txs N E (Suc i) txs (s1, used1, gp1) = Some (rs1, s', used', gp')" and rs: "rs = res # rs1"
    by (auto simp: bind_Some_iff)
  show ?case
    using Cons.IH [OF rest] serial_tx_accounts [OF one] rs
    by (auto simp: accounts_up_Cons add.assoc split: option.split)
qed

text \<open>C32. A block that is executed in order has one result per transaction, in its order. The gas of the block is the sum
  of the receipts, each of which charges 1 or 2300, whatever the run has used; and the cumulative gas of a
  receipt is the sum over the earlier transactions only.\<close>

theorem block_accounting:
  assumes "ExecTxsInOrder N E ch header s txs = Some (rs, used, s')"
  shows "map r_Tx rs = txs \<and> used = sum_list (map gas_of rs) \<and> (\<forall>k < length rs. case r_Receipt (rs ! k) of None \<Rightarrow> True
     | Some rc \<Rightarrow> rc_CumulativeGasUsed rc = sum_list (map gas_of (take k rs)) \<and> rc_GasUsed rc \<in> {1, CallStipend})"
proof -
  obtain s1 gp gp1 where "serial_txs N (NewVMBlockContext header ch None E) 0 txs (s, 0, gp) = Some (rs, s1, used, gp1)"
    using assms by (auto simp: ExecTxsInOrder_def bind_Some_iff Let_def)
  from serial_txs_accounts [OF this] show ?thesis by (simp add: accounts_up_def cong: option.case_cong)
qed

section \<open>Typed write sets\<close>

lemma committable_put:
  assumes "committable K w" "typed_entry K (k, v)"
  shows "committable K (rw_put w a k v)"
proof -
  have wf: "wf_map (cache w)" and m: "\<forall>(a, m) \<in> set (cache w). typed_map K m \<and> wf_map m"
    using assms(1) by (auto simp: committable_def)
  have old: "typed_map K (inner w a)" "wf_map (inner w a)"
    using m by (fastforce simp: inner_def typed_map_def split: option.splits dest: map_of_SomeD)+
  have "typed_entry K e" if "e \<in> set (AList.update k v (inner w a))" for e
    using that assms(2) old(1) unfolding set_update_wf [OF old(2)] typed_map_def by metis
  then have new: "typed_map K (AList.update k v (inner w a))" "wf_map (AList.update k v (inner w a))"
    using old(2) by (simp_all add: typed_map_def)
  have "typed_map K m' \<and> wf_map m'" if "(b, m') \<in> set (AList.update a (AList.update k v (inner w a)) (cache w))" for b m'
    using that m new unfolding set_update_wf [OF wf] by auto
  then show ?thesis using wf by (auto simp: committable_def rw_put_def)
qed

lemma committable_New [simp]: "committable K NewWriteSet"
  by (simp add: committable_def NewWriteSet_def)

lemma committable_typed:
  assumes "committable K w" "GetAddressAndKey w a k = Some v"
  shows "typed_entry K (k, v)"
proof -
  obtain m where m: "lookup (cache w) a = Some m" "lookup m k = Some v"
    using assms(2) by (auto simp: GetAddressAndKey_def split: option.splits)
  then have "typed_map K m" using assms(1) map_of_SomeD [OF m(1)] by (auto simp: committable_def)
  then show ?thesis using m(2) by (rule typed_map_lookup)
qed

text \<open>C33. A write set in which every key holds values of its type stays one: an update with a value of the type of
  its key does not panic, and the set it gives can be committed.\<close>

theorem write_set_typed:
  assumes "committable K w" "typed_entry K (k, v)" "k = BalanceKey K \<Longrightarrow> \<exists>b. base = VBig b" "keys_distinct K"
  shows "\<exists>w'. WriteSet_UpdateCache K w a k v base = Some w' \<and> committable K w'"
proof (cases "k = BalanceKey K \<or> k = SubBalanceKey K")
  case True
  then obtain b where v: "v = VBig b" using assms(2) by auto
  have "\<exists>c. write_value K k (GetAddressAndKey w a k) v base = Some (VBig c)"
    using True committable_typed [OF assms(1), of a k] assms(3)
    by (cases "GetAddressAndKey w a k") (auto simp: write_value_def v)
  then show ?thesis using True committable_put [OF assms(1)] by (auto simp: WriteSet_UpdateCache_eq)
next
  case False
  then show ?thesis using committable_put [OF assms(1,2)] by (auto simp: WriteSet_UpdateCache_eq write_value_def)
qed

theorem write_set_typed_witness:
  "\<exists>w'. WriteSet_UpdateCache keys_std NewWriteSet 1 (BalanceKey keys_std) (VBig 5) (VBig 7) = Some w' \<and> committable keys_std w'"
  by (rule write_set_typed) (simp_all add: keys_std_distinct)

text \<open>The balance after a commit: what was credited on top of the old balance, less the debits.\<close>

lemma committed_balance:
  assumes "accounts_spec (eA E)" "creation_spec (eA E) fresh" "logs_spec (eA E) (eJ E)" "keys_distinct (eK E)"
    and "committable (eK E) (r_WriteSet res)"
  shows "\<exists>s'. UpdateWrittenCacheToDataBaseInOrder E res s = Some s' \<and> (\<forall>a. db_GetBalance (eA E) s' a =
    (case GetAddressAndKey (r_WriteSet res) a (BalanceKey (eK E)) of Some (VBig b) \<Rightarrow> b | _ \<Rightarrow> db_GetBalance (eA E) s a) -
    (case GetAddressAndKey (r_WriteSet res) a (SubBalanceKey (eK E)) of Some (VBig b) \<Rightarrow> b | _ \<Rightarrow> 0))"
proof -
  obtain s' where s': "commit_accounts E (cache (r_WriteSet res)) s = Some s'" "\<forall>a. view (eA E) s' a =
    (case lookup (cache (r_WriteSet res)) a of None \<Rightarrow> view (eA E) s a
     | Some m \<Rightarrow> committed fresh (eK E) (eG E) m (view (eA E) s a))"
    using commit_accounts_view [OF assms(1,2,4), of "cache (r_WriteSet res)" s] assms(5) by (auto simp: committable_def)
  have fresh: "ac_balance (fresh x) = ac_balance x" for x using assms(2) by (simp add: creation_spec_def)
  have bal: "db_GetBalance (eA E) t a = ac_balance (view (eA E) t a)" for t a by (simp add: view_def)
  obtain s'' where s'': "UpdateWrittenCacheToDataBaseInOrder E res s = Some s''" "view (eA E) s'' = view (eA E) s'"
    using s'(1) by (simp add: UpdateWrittenCacheToDataBaseInOrder_def view_add_logs [OF assms(3)])
  then show ?thesis
    using s'(2) by (auto simp: bal committed_def debit_def Let_def fresh GetAddressAndKey_def split: option.split goval.split)
qed

section \<open>A plain transaction\<close>

definition plain_tx :: "address \<Rightarrow> address \<Rightarrow> u64 \<Rightarrow> u64 \<Rightarrow> meta_tx" where
  "plain_tx sender a nonce limit = \<lparr>Base = Some \<lparr>tx_TxHash = 0, tx_TxType = 0, tx_From = Some sender, tx_To = Some a,
     tx_Value = [], tx_Nonce = nonce, tx_Gas = limit, tx_GasPrice = [], tx_Data = [], tx_ChainId = []\<rparr>\<rparr>"

lemma plain_tx_AsMessage:
  "0 \<le> fee \<Longrightarrow> AsMessage (plain_tx sender a nonce limit) (Some fee) =
    Some (plain_msg sender a nonce limit 1000000000 1000000000 1000000000 True)"
  by (simp add: AsMessage_def plain_tx_def plain_msg_def GasPrice_def To_def From_def tx_nonce_def EthValue_def tx_gas_def
      tx_data_def Let_def min_def)

definition plain_block :: "'s node \<Rightarrow> 's env \<Rightarrow> 's \<Rightarrow> int \<Rightarrow> address \<Rightarrow> address \<Rightarrow> bool" where
  "plain_block N E s fee sender a \<longleftrightarrow>
     pool_spec (nd_pool N) \<and> accounts_spec (eA E) \<and> quiet_spec (eA E) (eJ E) \<and> logs_spec (eA E) (eJ E) \<and>
     (\<exists>fresh. creation_spec (eA E) fresh) \<and> keys_distinct (eK E) \<and> BaseFee E = Some fee \<and> 0 \<le> fee \<and> fee < 1000000000 \<and>
     db_GetCode (eA E) s a = [] \<and> ePre E a = None \<and> db_GetRefund (eJ E) s = 0 \<and> Coinbase E \<noteq> sender"

lemma plain_transaction:
  assumes "plain_block N E s0 fee sender a" "s0 = db_Prepare (eJ E) s (tx_Hash (plain_tx sender a nonce limit)) i"
    and "21000 \<le> limit" "limit \<le> gp" "unat gp + 100000000 < 2 ^ 64" "unat limit < 18000000000"
  shows "\<exists>res s'. serial_tx N E i (plain_tx sender a nonce limit) (s, used, gp) = Some (res, s', used + 1, gp + 99979000) \<and>
    (\<exists>rc. r_Receipt res = Some rc) \<and>
    db_GetBalance (eA E) s' = (db_GetBalance (eA E) s0)(sender := (2 * uint limit + 99979000) * 1000000000,
      Coinbase E := db_GetBalance (eA E) s0 (Coinbase E) + (2 ^ 64 - 99979000) * (1000000000 - fee))"
proof -
  let ?m = "plain_msg sender a nonce limit 1000000000 1000000000 1000000000 True"
  let ?E = "NewVMTxContext ?m E" and ?tx = "plain_tx sender a nonce limit"
  from assms(1) obtain fresh where specs: "pool_spec (nd_pool N)" "accounts_spec (eA E)" "quiet_spec (eA E) (eJ E)"
      "logs_spec (eA E) (eJ E)" "creation_spec (eA E) fresh" "keys_distinct (eK E)"
    and fee: "BaseFee E = Some fee" "0 \<le> fee" "fee < 1000000000" and coinbase: "Coinbase E \<noteq> sender"
    unfolding plain_block_def by blast
  obtain vm where vm: "NewVM [] s0 = Some (vm, NoInterpreter)" "vm_Reset vm s0 = vm" "vWriteSet vm = NewWriteSet"
      "vReadSet vm = NewReadSet" "depth vm \<le> 1024" "vDB vm = s0"
    by (auto simp: NewVM_def new_interpreter_def vm_Reset_def)
  have E: "eA ?E = eA E" "eJ ?E = eJ E" "eK ?E = eK E" "ePre ?E = ePre E" "Coinbase ?E = Coinbase E" "BaseFee ?E = BaseFee E"
    by (simp_all add: NewVMTxContext_def)
  have "int (unat limit) < 18000000000" using assms(6) by linarith
  then have price: "(uint limit + 99979000) * 1000000000 < 2 ^ 64" by simp
  have small: "unat limit + 100000000 < 2 ^ 64" using assms(6) by simp
  have set: "plain_setting (nd_pool N) ?E vm sender a" "fair_price ?E 1000000000 1000000000 1000000000 (1000000000 - fee)"
    using assms(1) vm fee by (simp_all add: plain_setting_def fair_price_def E plain_block_def)
  obtain p' where run: "ApplyMessage (nd_noBaseFee N) (nd_pool N) (run_with N ?E NoInterpreter) ?E vm ?m gp =
      Some (p', \<lparr>UsedGas = 1, res_Err = None, ReturnData = []\<rparr>, None)" "pt_gp p' = gp + 99979000"
      "pt_db p' = snd (db_Snapshot (eJ E) (db_SetBalance (eA E) s0 sender (2 * (uint limit * 1000000000))))"
    and ws: "vWriteSet (pt_vm p') = rw_put (rw_put (rw_put (rw_put NewWriteSet sender (SubBalanceKey (eK E)) (VBig (uint limit * 1000000000)))
      sender (NonceKey (eK E)) (VU64 (db_GetNonce (eA E) (db_SetBalance (eA E) s0 sender (2 * (uint limit * 1000000000))) sender + 1)))
      sender (BalanceKey (eK E)) (VBig (2 * (uint limit * 1000000000) + (uint limit + 99979000) * 1000000000)))
      (Coinbase E) (BalanceKey (eK E)) (VBig (db_GetBalance (eA E) s0 (Coinbase E) + (2 ^ 64 - 99979000) * (1000000000 - fee)))"
    using plain_message_runs [OF refl set disjI1 [OF TrueI] assms(3,4) _ assms(5) price, where nonce = nonce, unfolded E vm(6), OF small] by blast
  obtain res where res: "ApplyTransactionWithFlag N E ?m ?tx s0 (vm, NoInterpreter) used gp 0 SerialProcessType None =
      Some (res, pt_db p', used + 1, gp + 99979000)" "r_err res = None" "r_VmErr res = None" "r_WriteSet res = vWriteSet (pt_vm p')"
      "\<exists>rc. r_Receipt res = Some rc"
    using run vm(2) by (simp add: ApplyTransactionWithFlag_def Let_def plain_tx_def pt_db_def)
  have ok: "committable (eK E) (r_WriteSet res)"
    using specs(6) unfolding res(4) ws by (intro committable_put) (auto simp: keys_distinct_def)
  obtain s' where s': "UpdateWrittenCacheToDataBaseInOrder E res (pt_db p') = Some s'"
      "\<And>b. db_GetBalance (eA E) s' b =
        (case GetAddressAndKey (r_WriteSet res) b (BalanceKey (eK E)) of Some (VBig x) \<Rightarrow> x | _ \<Rightarrow> db_GetBalance (eA E) (pt_db p') b) -
        (case GetAddressAndKey (r_WriteSet res) b (SubBalanceKey (eK E)) of Some (VBig x) \<Rightarrow> x | _ \<Rightarrow> 0)"
    using committed_balance [OF specs(2,5,4,6) ok] by blast
  have base: "db_GetBalance (eA E) (pt_db p') = (db_GetBalance (eA E) s0)(sender := 2 * (uint limit * 1000000000))"
    using specs(2,3) unfolding run(3) by (simp add: accounts_spec_def quiet_spec_def)
  have "db_GetBalance (eA E) s' = (db_GetBalance (eA E) s0)(sender := (2 * uint limit + 99979000) * 1000000000,
      Coinbase E := db_GetBalance (eA E) s0 (Coinbase E) + (2 ^ 64 - 99979000) * (1000000000 - fee))"
    using coinbase keys_neq [OF specs(6)] unfolding res(4) ws
    by (intro ext) (auto simp: s'(2) res(4) ws base GetAddressAndKey_put NewSets_empty algebra_simps)
  then show ?thesis
    using res s'(1) vm(1) plain_tx_AsMessage [OF fee(2)] fee(1) assms(2)
    by (simp add: serial_tx_def plain_msg_def NewMessage_def)
qed

text \<open>C36. A transaction without value and data leaves its sender with a balance that does not depend on the old
  one, the price of twice its gas limit and of 99979000 units more, and pays the coinbase for \<open>2 ^ 64 - 99979000\<close> units of
  gas; the block counts one unit of gas for it, and has more gas left than before.\<close>

theorem plain_transaction_mints:
  assumes "plain_block N E s0 fee sender a" "s0 = db_Prepare (eJ E) s (tx_Hash (plain_tx sender a nonce limit)) i"
    and "21000 \<le> limit" "limit \<le> gp" "unat gp + 100000000 < 2 ^ 64" "unat limit < 18000000000"
  shows "\<exists>res s'. serial_tx N E i (plain_tx sender a nonce limit) (s, used, gp) = Some (res, s', used + 1, gp + 99979000) \<and>
    db_GetBalance (eA E) s' = (db_GetBalance (eA E) s0)(sender := (2 * uint limit + 99979000) * 1000000000,
      Coinbase E := db_GetBalance (eA E) s0 (Coinbase E) + (2 ^ 64 - 99979000) * (1000000000 - fee))"
  using plain_transaction [OF assms] by blast

definition std_header :: header where
  "std_header = \<lparr>hd_ParentHash = 1, hd_Number = 5, hd_Time = 1700000000, hd_Difficulty = 0, hd_MixDigest = 0,
     hd_BaseFee = Some 10, hd_GasLimit = 30000000\<rparr>"

definition std_chain :: chain where
  "std_chain = \<lparr>ch_Author = (\<lambda>_. []),
     ch_GetHeader = (\<lambda>h k. if k < 5 then Some (std_header\<lparr>hd_Number := uint k, hd_ParentHash := ucast k\<rparr>) else None)\<rparr>"

lemma std_chain_spec: "chain_spec std_chain"
  by (auto simp: chain_spec_def std_chain_def big_Uint64_def split: if_splits)

abbreviation std_block_env :: "std_db env" where
  "std_block_env \<equiv> NewVMBlockContext std_header std_chain None std_env"

lemma std_plain_block: "plain_block std_node std_block_env (std_core_empty, []) 10 0xA0 0xB0"
  using std_creation_spec
  by (auto simp: plain_block_def std_node_def pool_std_spec std_accounts_spec quiet_std std_logs_spec keys_std_distinct
      NewVMBlockContext_def Let_def std_header_def std_chain_def std_env_ePre geth_std_def)
    (simp_all add: std_accounts_def std_journal_def std_core_empty_def)

theorem plain_transaction_mints_witness:
  "\<exists>res s'. serial_tx std_node std_block_env 0 (plain_tx 0xA0 0xB0 0 21000) ((std_core_empty, []), 0, 30000000) =
      Some (res, s', 1, 129979000) \<and>
    db_GetBalance std_accounts (std_core_empty, []) 0xA0 = 0 \<and> db_GetBalance std_accounts s' 0xA0 = 100021000000000000"
proof -
  have E: "eA std_block_env = std_accounts" "Coinbase std_block_env = 0" "eJ std_block_env = std_journal"
    by (simp_all add: NewVMBlockContext_def Let_def std_chain_def geth_std_def)
  have db: "db_Prepare std_journal (std_core_empty, []) h i = (std_core_empty, [])"
    "db_GetBalance std_accounts (std_core_empty, []) 0xA0 = 0" for h i
    by (simp_all add: std_journal_def std_accounts_def std_core_empty_def)
  show ?thesis
    using plain_transaction_mints [OF std_plain_block, of "(std_core_empty, [])" 0 21000 0 30000000 0] db
    by (auto simp: E word_le_nat_alt)
qed

theorem block_accounting_witness:
  "\<exists>res s'. ExecTxsInOrder std_node std_env std_chain std_header (std_core_empty, []) [plain_tx 0xA0 0xB0 0 21000] =
      Some ([res], 1, s') \<and> r_Tx res = plain_tx 0xA0 0xB0 0 21000 \<and> gas_of res = 1"
proof -
  have "\<exists>res s'. serial_tx std_node std_block_env 0 (plain_tx 0xA0 0xB0 0 21000) ((std_core_empty, []), 0, 30000000) =
      Some (res, s', 1, 129979000)"
    using plain_transaction [OF std_plain_block, of "(std_core_empty, [])" 0 21000 0 30000000 0]
    by (auto simp: NewVMBlockContext_def std_journal_def word_le_nat_alt)
  then obtain res s1 where one: "serial_tx std_node std_block_env 0 (plain_tx 0xA0 0xB0 0 21000) ((std_core_empty, []), 0, 30000000) =
      Some (res, s1, 1, 129979000)" by blast
  have "gp_AddGas (nd_pool std_node) 0 (hd_GasLimit std_header) = Some 30000000"
    by (simp add: std_node_def pool_std_def std_header_def)
  with one have "ExecTxsInOrder std_node std_env std_chain std_header (std_core_empty, []) [plain_tx 0xA0 0xB0 0 21000] =
      Some ([res], 1, db_Finalise (eJ std_block_env) s1 True)"
    by (simp add: ExecTxsInOrder_def)
  with block_accounting [OF this] show ?thesis by auto
qed

text \<open>Block 4 is in the chain under its hash, 1, which is hashed to 2 once more: it gets the hash 2 and block 2 the hash 0.\<close>

abbreviation shifting :: geth_ops where
  "shifting \<equiv> geth_std\<lparr>g_Keccak256 := (\<lambda>bs. be_bytes 32 (Suc (be_nat bs)))\<rparr>"

abbreviation short_chain :: chain where
  "short_chain \<equiv> std_chain\<lparr>ch_GetHeader := (\<lambda>h k. if h = 1 \<and> k = 4 then Some (std_header\<lparr>hd_Number := 4\<rparr>) else None)\<rparr>"

theorem block_hashes_settled_witness:
  "hd_ParentHash std_header = 1 \<and> ch_GetHeader short_chain 1 4 \<noteq> None \<and>
   (\<exists>cached. GetHashFn shifting std_header short_chain 6 [] 4 = Some (2, cached)) \<and>
   (\<exists>cached. GetHashFn shifting std_header short_chain 6 [] 2 = Some (0, cached))"
proof -
  have chain: "chain_spec short_chain" by (simp add: chain_spec_def big_Uint64_def)
  have num: "big_Uint64 (hd_Number std_header) = 5" by (simp add: std_header_def big_Uint64_def)
  have parent: "parent_hash shifting std_header = 2"
    by (simp add: parent_hash_def ByteToHash_def std_header_def geth_std_def be_nat_be_bytes)
  have "\<exists>cached. GetHashFn shifting std_header short_chain 6 [] n = Some (if n = 4 then 2 else 0, cached)" if "n < 5" for n
    using block_hashes_settled [OF chain valid_cache_Nil [of shifting std_header short_chain], of n] that
    by (auto simp: num parent eq_diff_eq [symmetric])
  from this [of 4] this [of 2] show ?thesis by (simp add: std_header_def)
qed

theorem pre_execution_of_contract_panics_witness:
  "PreExecution std_node std_env std_chain std_header (bad_core, [])
     \<lparr>arg_From = Some 0xA0, arg_To = Some 0xC0, arg_Gas = None, arg_GasPrice = Some 1000000000, arg_Value = None,
      arg_Nonce = None, arg_Data = None, arg_Input = None, arg_ChainID = None\<rparr> False = None"
proof -
  let ?args = "\<lparr>arg_From = Some 0xA0, arg_To = Some 0xC0, arg_Gas = None, arg_GasPrice = Some 1000000000, arg_Value = None,
      arg_Nonce = None, arg_Data = None, arg_Input = None, arg_ChainID = None\<rparr>"
  let ?m = "ToMessage ?args (hd_GasLimit std_header)"
  have m: "?m = NewMessage 0xA0 (Some 0xC0) 0 0 30000000 1000000000 1000000000 1000000000 [] [] True"
    by (simp add: ToMessage_def std_header_def args_from_def args_data_def)
  obtain vm :: "std_db vm" where vm: "NewVM [] (bad_core, []) = Some (vm, NoInterpreter)"
    using that [of "\<lparr>vDB = (bad_core, []), vReadSet = NewReadSet, vWriteSet = NewWriteSet, vLogs = [], depth = 0, abort = False,
      callGasTemp = 0, readOnly = False, returnData = [], jdstore = []\<rparr>"] by (simp add: NewVM_def new_interpreter_def)
  have "big_BitLen 1000000000 \<le> 256" by (simp add: big_BitLen_def nat_bitlen_le)
  then have fees: "fee_checks (nd_noBaseFee std_node) (NewVMTxContext ?m std_block_env)
      (NewProcessTransition vm ?m (hd_GasLimit std_header)) = Some None"
    unfolding m by (simp add: fee_checks_def NewVMTxContext_def NewMessage_def not_less NewVMBlockContext_def Let_def)
      (simp add: std_header_def)
  have code: "db_GetCode std_accounts (bad_core, []) 0xC0 \<noteq> []"
    by (simp add: std_accounts_def bad_core_def)
  show ?thesis
    by (rule pre_execution_of_contract_panics [OF refl refl vm fees, where g = 21000 and a = "0xC0"])
      (simp_all only: m, simp_all add: NewMessage_def std_header_def IntrinsicGas_def StorageKeys_def std_env_ePre std_node_def
        pool_std_spec std_accounts_spec quiet_std exist_std keys_std_distinct code)
qed

end
