(* ===== verification/Parallel.thy ===== *)
theory Parallel
  imports Process
begin

text \<open>
  The execution of a block level by level (\<^verbatim>\<open>ExecBenchTxs\<close> of \<^verbatim>\<open>process/process.go\<close>, \<^verbatim>\<open>process/cacheSet.go\<close>,
  \<^verbatim>\<open>process/execpool.go\<close>): the transactions of a level run on one copy of the database, their records are sorted,
  conflicts between them are detected, the write sets that are left are merged and committed, and the
  transactions in conflict run again. Of the schedules of the goroutines of a level the model has those in which
  transactions do not overlap, in an order that is an argument (\<open>Pool\<close> lets them interleave); another argument is the
  order in which \<^verbatim>\<open>sort.Sort\<close> leaves the records, as its outcome depends on the algorithm when \<^verbatim>\<open>Less\<close> is no order. \<open>None\<close> is a panic or a wait that never ends.
\<close>

section \<open>Records and their cache\<close>

record rw_record =
  rr_Res :: outcome_rec
  rr_level :: int
  rr_Tx :: meta_tx
  rr_error :: "tx_error option"
  rr_vmError :: "tx_error option"
  rr_message :: message
  rr_TxIndex :: u32
  rr_Logs :: "metalog list"

definition record_of :: "outcome_rec \<Rightarrow> rw_record" where
  "record_of res = \<lparr>rr_Res = res, rr_level = r_level res, rr_Tx = r_Tx res, rr_error = r_err res,
     rr_vmError = r_VmErr res, rr_message = r_Msg res, rr_TxIndex = 0, rr_Logs = r_Logs res\<rparr>"

definition GetValueByKey :: "rw_record \<Rightarrow> address \<Rightarrow> hash \<Rightarrow> goval option" where
  "GetValueByKey rw addr key =
     (case rw_Get (r_WriteSet (rr_Res rw)) addr of
        None \<Rightarrow> (case rw_Get (r_ReadSet (rr_Res rw)) addr of
            None \<Rightarrow> None
          | Some r \<Rightarrow> lookup r key)
      | Some r \<Rightarrow> lookup r key)"

record cache_set =
  cs_cache :: "(hash, rw_record) gomap"
  Order :: "hash list"

definition NewCacheSet :: cache_set where
  "NewCacheSet = \<lparr>cs_cache = [], Order = []\<rparr>"

definition SetCache :: "cache_set \<Rightarrow> hash \<Rightarrow> rw_record \<Rightarrow> cache_set" where
  "SetCache c txHash r =
     (if lookup (cs_cache c) txHash = None
      then c\<lparr>cs_cache := AList.update txHash r (cs_cache c), Order := Order c @ [txHash]\<rparr> else c)"

definition GetRecordWithTxHash :: "cache_set \<Rightarrow> hash \<Rightarrow> rw_record option" where
  "GetRecordWithTxHash c txHash = lookup (cs_cache c) txHash"

definition GetTxAndMsgFromCache :: "cache_set \<Rightarrow> hash \<Rightarrow> (meta_tx \<times> message) option" where
  "GetTxAndMsgFromCache c txHash = map_option (\<lambda>v. (rr_Tx v, rr_message v)) (lookup (cs_cache c) txHash)"

definition DelRecordWithTxHash :: "cache_set \<Rightarrow> hash \<Rightarrow> cache_set" where
  "DelRecordWithTxHash c txHash = c\<lparr>cs_cache := AList.delete txHash (cs_cache c)\<rparr>"

text \<open>The loop returns in its first turn, so only one record is asked.\<close>

definition GetValueByAddressAndKey :: "cache_set \<Rightarrow> address \<Rightarrow> hash \<Rightarrow> goval option" where
  "GetValueByAddressAndKey c a key = (case cs_cache c of [] \<Rightarrow> None | (_, r) # _ \<Rightarrow> GetValueByKey r a key)"

definition cs_Len :: "cache_set \<Rightarrow> nat" where
  "cs_Len c = length (Order c)"

text \<open>\<open>cmp\<close> is the comparison of hashes of another repository.\<close>

definition Less :: "(hash \<Rightarrow> hash \<Rightarrow> int) \<Rightarrow> cache_set \<Rightarrow> nat \<Rightarrow> nat \<Rightarrow> bool option" where
  "Less cmp c i j = do {
     itemIKey \<leftarrow> go_index (Order c) i;
     irecord \<leftarrow> lookup (cs_cache c) itemIKey;
     let iW = rw_Len (r_WriteSet (rr_Res irecord));
     let iR = rw_Len (r_ReadSet (rr_Res irecord));
     itemJkey \<leftarrow> go_index (Order c) j;
     jrecord \<leftarrow> lookup (cs_cache c) itemJkey;
     let jW = rw_Len (r_WriteSet (rr_Res jrecord));
     let jR = rw_Len (r_ReadSet (rr_Res jrecord));
     Some (if jW < iW then True
           else if jW = iW \<and> jR > iR then True
           else if jW = iW \<and> jR = iR then
             let jw = detailKeyCount (r_WriteSet (rr_Res jrecord)); iw = detailKeyCount (r_WriteSet (rr_Res irecord));
                 jr = detailKeyCount (r_ReadSet (rr_Res jrecord)); ir = detailKeyCount (r_ReadSet (rr_Res irecord))
             in if jw < iw then True
                else if jr < ir then True
                else if jr = ir \<and> jw = iw then cmp itemIKey itemJkey = 1
                else False
           else False)
   }"

definition cs_Swap :: "cache_set \<Rightarrow> nat \<Rightarrow> nat \<Rightarrow> cache_set option" where
  "cs_Swap c i j = do {
     a \<leftarrow> go_index (Order c) i;
     b \<leftarrow> go_index (Order c) j;
     ord \<leftarrow> go_update (Order c) i b;
     ord \<leftarrow> go_update ord j a;
     Some (c\<lparr>Order := ord\<rparr>)
   }"

section \<open>The parallel commit\<close>

text \<open>State objects belong to another repository. All are fetched before the first write.\<close>

record ('s, 'o) object_ops =
  ob_Get :: "'s \<Rightarrow> address \<Rightarrow> 'o"
  ob_GetBalance :: "'s \<Rightarrow> 'o \<Rightarrow> int"
  ob_SetBalance :: "'s \<Rightarrow> 'o \<Rightarrow> int \<Rightarrow> 's"
  ob_SetNonce :: "'s \<Rightarrow> 'o \<Rightarrow> u64 \<Rightarrow> 's"
  ob_SetState :: "'s \<Rightarrow> 'o \<Rightarrow> hash \<Rightarrow> hash \<Rightarrow> 's"

record written_before =
  Written :: "(address, cachemap) gomap"
  wb_Logs :: "(hash, metalog list) gomap"

definition NewWrittenBefore :: written_before where
  "NewWrittenBefore = \<lparr>Written = [], wb_Logs = []\<rparr>"

definition object_entry :: "('s, 'o) object_ops \<Rightarrow> 's env \<Rightarrow> 'o \<Rightarrow> 's \<Rightarrow> hash \<times> goval \<Rightarrow> 's option" where
  "object_entry B E obj s e =
     (let K = eK E; (k, v) = e in
      if k = BalanceKey K \<or> k = CreatAccountKey K \<or> k = SetCodeKey K then Some s
      else if k = NonceKey K then do { n \<leftarrow> as_u64 v; Some (ob_SetNonce B s obj n) }
      else if k = SubBalanceKey K then do { b \<leftarrow> as_big v; Some (ob_SetBalance B s obj (ob_GetBalance B s obj - b)) }
      else do { b \<leftarrow> as_bytes v; Some (ob_SetState B s obj k (ByteToHash (eG E) b)) })"

primrec object_entries :: "('s, 'o) object_ops \<Rightarrow> 's env \<Rightarrow> 'o \<Rightarrow> cachemap \<Rightarrow> 's \<Rightarrow> 's option" where
  "object_entries B E obj [] s = Some s"
| "object_entries B E obj (e # es) s = object_entry B E obj s e \<bind> object_entries B E obj es"

definition commit_object :: "('s, 'o) object_ops \<Rightarrow> 's env \<Rightarrow> address \<Rightarrow> 'o \<Rightarrow> cachemap \<Rightarrow> 's \<Rightarrow> 's option" where
  "commit_object B E a obj m s = do {
     let s = (if lookup m (CreatAccountKey (eK E)) \<noteq> None
              then db_SetNonce (eA E) (db_CreateAccount (eA E) s a) a 1 else s);
     s \<leftarrow> (case lookup m (BalanceKey (eK E)) of
         Some v \<Rightarrow> do { b \<leftarrow> as_big v; Some (ob_SetBalance B s obj b) }
       | None \<Rightarrow> Some s);
     object_entries B E obj m s
   }"

primrec commit_objects :: "('s, 'o) object_ops \<Rightarrow> 's env \<Rightarrow> (address \<times> 'o \<times> cachemap) list \<Rightarrow> 's \<Rightarrow> 's option" where
  "commit_objects B E [] s = Some s"
| "commit_objects B E (e # es) s = commit_object B E (fst e) (fst (snd e)) (snd (snd e)) s \<bind> commit_objects B E es"

text \<open>The loop over the channel waits for a first object even when there is none to come.\<close>

definition UpdateWrittenCacheToDataBase :: "('s, 'o) object_ops \<Rightarrow> 's env \<Rightarrow> written_before \<Rightarrow> 's \<Rightarrow> 's option" where
  "UpdateWrittenCacheToDataBase B E w s =
     (if Written w = [] then None
      else do {
        let objs = map (\<lambda>(a, m). (a, ob_Get B s a, m)) (Written w);
        s \<leftarrow> commit_objects B E objs s;
        Some (fold (\<lambda>(h, logs) s. fold (\<lambda>l s. db_AddLogWithTxHash (eJ E) s l h) logs s) (wb_Logs w) s)
      })"

section \<open>Conflicts\<close>

text \<open>A record is in conflict when it has read a key that is written already.\<close>

definition in_conflict :: "(address, cachemap) gomap \<Rightarrow> rwset \<Rightarrow> bool" where
  "in_conflict written rset \<longleftrightarrow>
     (\<exists>(a, rrecord) \<in> set (cache rset).
        case lookup written a of None \<Rightarrow> False | Some keyMap \<Rightarrow> \<exists>(key, _) \<in> set rrecord. lookup keyMap key \<noteq> None)"

text \<open>The map of an address that was not written yet is that of the record itself, so later records of the
  level write into the write set of the first: \<open>owner\<close> says whose map an entry is. On an error the entry
  becomes a new map with only the nonce, when there is one.\<close>

record detect_state =
  ds_set :: cache_set
  ds_owner :: "(address, hash option) gomap"
  ds_written :: written_before
  ds_reses :: "hash list"
  ds_conflicts :: "hash list"

definition alias_write :: "cache_set \<Rightarrow> hash option \<Rightarrow> address \<Rightarrow> cachemap \<Rightarrow> cache_set" where
  "alias_write c owner a m =
     (case owner of
        None \<Rightarrow> c
      | Some h \<Rightarrow> (case lookup (cs_cache c) h of
            None \<Rightarrow> c
          | Some r \<Rightarrow> c\<lparr>cs_cache := AList.update h
              (r\<lparr>rr_Res := (rr_Res r)\<lparr>r_WriteSet := rw_Set (r_WriteSet (rr_Res r)) a m\<rparr>\<rparr>) (cs_cache c)\<rparr>))"

definition merge_address :: "rw_keys \<Rightarrow> hash \<Rightarrow> rw_record \<Rightarrow> address \<times> cachemap \<Rightarrow> detect_state \<Rightarrow> detect_state" where
  "merge_address K txHash r e d =
     (let (addr, wrecord) = e;
          w = ds_written d;
          (own, cacheValue, c) = (case lookup (Written w) addr of
              None \<Rightarrow> (Some txHash, wrecord, ds_set d)
            | Some cv \<Rightarrow>
                let cv = fold (\<lambda>(key, v) m. AList.update key v m) wrecord cv;
                    own = (case lookup (ds_owner d) addr of None \<Rightarrow> None | Some own \<Rightarrow> own)
                in (own, cv, alias_write (ds_set d) own addr cv));
          (own, cacheValue) =
            (if rr_vmError r \<noteq> None \<or> rr_error r \<noteq> None
             then (case lookup wrecord (NonceKey K) of
                Some onceValue \<Rightarrow> (None, [(NonceKey K, onceValue)])
              | None \<Rightarrow> (own, cacheValue))
             else (own, cacheValue))
      in \<lparr>ds_set = c, ds_owner = AList.update addr own (ds_owner d),
          ds_written = \<lparr>Written = AList.update addr cacheValue (Written w),
            wb_Logs = AList.update txHash (rr_Logs r) (wb_Logs w)\<rparr>,
          ds_reses = ds_reses d @ [txHash], ds_conflicts = ds_conflicts d\<rparr>)"

definition set_TxIndex :: "cache_set \<Rightarrow> hash \<Rightarrow> u32 \<Rightarrow> cache_set" where
  "set_TxIndex c h i =
     (case lookup (cs_cache c) h of
        None \<Rightarrow> c
      | Some r \<Rightarrow> c\<lparr>cs_cache := AList.update h (r\<lparr>rr_TxIndex := i\<rparr>) (cs_cache c)\<rparr>)"

definition detect_tx :: "rw_keys \<Rightarrow> nat \<times> hash \<Rightarrow> detect_state \<Rightarrow> detect_state" where
  "detect_tx K ix d =
     (let (txIndex, txHash) = ix in
      case GetRecordWithTxHash (ds_set d) txHash of
        None \<Rightarrow> d
      | Some r \<Rightarrow>
          if in_conflict (Written (ds_written d)) (r_ReadSet (rr_Res r))
          then d\<lparr>ds_conflicts := ds_conflicts d @ [txHash]\<rparr>
          else fold (merge_address K txHash r) (cache (r_WriteSet (rr_Res r)))
                 (d\<lparr>ds_set := set_TxIndex (ds_set d) txHash (of_nat txIndex)\<rparr>))"

definition detect_all :: "rw_keys \<Rightarrow> cache_set \<Rightarrow> written_before \<Rightarrow> detect_state" where
  "detect_all K c w = fold (detect_tx K) (enumerate 0 (Order c))
     \<lparr>ds_set = c, ds_owner = [], ds_written = w, ds_reses = [], ds_conflicts = []\<rparr>"

section \<open>Running again\<close>

text \<open>On an error the maps with a nonce are cut down to it; the others stay.\<close>

definition cut_to_nonces :: "rw_keys \<Rightarrow> rwset \<Rightarrow> rwset" where
  "cut_to_nonces K w = w\<lparr>cache := map (\<lambda>(a, m).
     (a, case lookup m (NonceKey K) of Some v \<Rightarrow> [(NonceKey K, v)] | None \<Rightarrow> m)) (cache w)\<rparr>"

text \<open>The field \<^verbatim>\<open>index\<close> of a conflict is never set, so the original result is always the first one. The machine has
  no interpreter, as the context has no data.\<close>

definition rel_exec_tx ::
  "('s, 'o) object_ops \<Rightarrow> 's node \<Rightarrow> 's env \<Rightarrow> cache_set \<Rightarrow> int \<Rightarrow> u32 \<Rightarrow> nat \<times> hash \<Rightarrow>
   outcome_rec list \<times> written_before \<times> 's \<times> u64 \<times> u64 \<Rightarrow> (outcome_rec list \<times> written_before \<times> 's \<times> u64 \<times> u64) option"
where
  "rel_exec_tx B N E c level baseIndex ix st =
     (let (index, txHash) = ix; (reses, w, s, usedGas, gp) = st in
      case GetTxAndMsgFromCache c txHash of
        None \<Rightarrow> Some st
      | Some (tx, m) \<Rightarrow> do {
          vm \<leftarrow> NewVM [] s;
          orgRes \<leftarrow> go_index reses 0;
          org \<leftarrow> r_Receipt orgRes;
          gp \<leftarrow> gp_AddGas (nd_pool N) gp (rc_GasUsed org);
          let usedGas = usedGas - rc_GasUsed org;
          (result, s, usedGas, gp) \<leftarrow> ApplyTransactionWithFlag N E m tx s vm usedGas gp level RelProcessType (Some orgRes);
          rc \<leftarrow> r_Receipt result;
          let ws = (if r_VmErr result \<noteq> None \<or> r_err result \<noteq> None
                    then cut_to_nonces (eK E) (r_WriteSet result) else r_WriteSet result);
          let res = result\<lparr>r_Receipt := Some (rc\<lparr>rc_GasUsed := rc_GasUsed org, rc_TxIndex := baseIndex + of_nat index\<rparr>),
                r_level := 0, r_Logs := [], r_Tx := tx, r_Msg := m, r_WriteSet := ws\<rparr>;
          let w = \<lparr>Written = cache ws, wb_Logs = AList.update txHash (r_Logs result) (wb_Logs w)\<rparr>;
          s \<leftarrow> UpdateWrittenCacheToDataBase B E w s;
          Some (reses @ [res], w, s, usedGas, gp)
        })"

primrec RelExecTx ::
  "('s, 'o) object_ops \<Rightarrow> 's node \<Rightarrow> 's env \<Rightarrow> cache_set \<Rightarrow> int \<Rightarrow> u32 \<Rightarrow> (nat \<times> hash) list \<Rightarrow>
   outcome_rec list \<times> written_before \<times> 's \<times> u64 \<times> u64 \<Rightarrow> (outcome_rec list \<times> written_before \<times> 's \<times> u64 \<times> u64) option"
where
  "RelExecTx B N E c level baseIndex [] st = Some st"
| "RelExecTx B N E c level baseIndex (ix # ixs) st =
     rel_exec_tx B N E c level baseIndex ix st \<bind> RelExecTx B N E c level baseIndex ixs"

text \<open>For a level above 0 the code counts the items of all levels below, to no use, and leaves the level at -1.\<close>

definition count_levels :: "mark_cache \<Rightarrow> int \<Rightarrow> int option" where
  "count_levels mc level =
     (if level > 0
      then (if \<forall>l \<le> nat level. GetLevelItemWithMark mc (of_nat l) \<noteq> None then Some (- 1) else None)
      else Some level)"

definition DetectConflicts ::
  "('s, 'o) object_ops \<Rightarrow> 's node \<Rightarrow> 's env \<Rightarrow> cache_set \<Rightarrow> mark_cache \<Rightarrow> written_before \<Rightarrow> outcome_rec list \<Rightarrow> 's \<Rightarrow>
   u64 \<Rightarrow> u64 \<Rightarrow> int \<Rightarrow> (outcome_rec list \<times> 's) option" where
  "DetectConflicts B N E rwSet mc wCache reses s gp usedGas level = do {
     level \<leftarrow> count_levels mc level;
     let d = detect_all (eK E) rwSet wCache;
     let new = List.map_filter (\<lambda>h. map_option rr_Res (lookup (cs_cache (ds_set d)) h)) (ds_reses d);
     s \<leftarrow> UpdateWrittenCacheToDataBase B E (ds_written d) s;
     (reses, w, s, usedGas, gp) \<leftarrow> RelExecTx B N E (ds_set d) level (of_nat (length (Order rwSet)))
        (enumerate 0 (ds_conflicts d)) (reses @ new, ds_written d, s, usedGas, gp);
     Some (reses, s)
   }"

section \<open>A block level by level\<close>

text \<open>One goroutine: a fresh pool, a fresh machine, and the copy of the database that the level shares.\<close>

definition level_tx :: "'s node \<Rightarrow> 's env \<Rightarrow> header \<Rightarrow> nat \<Rightarrow> item \<Rightarrow> 's \<times> u64 \<times> u64 \<Rightarrow> (outcome_rec \<times> 's \<times> u64 \<times> u64) option" where
  "level_tx N E header i it st = do {
     let (s, usedGas, _) = st;
     gp \<leftarrow> gp_AddGas (nd_pool N) 0 (hd_GasLimit header);
     d \<leftarrow> tx_data (txInfo it);
     vm \<leftarrow> NewVM d s;
     ApplyTransactionWithFlag N E (item_msg it) (txInfo it) s vm usedGas gp (int i) ParallelProcessType None
   }"

primrec level_txs ::
  "'s node \<Rightarrow> 's env \<Rightarrow> header \<Rightarrow> nat \<Rightarrow> item list \<Rightarrow> 's \<times> u64 \<times> u64 \<Rightarrow> (outcome_rec list \<times> 's \<times> u64 \<times> u64) option" where
  "level_txs N E header i [] st = Some ([], st)"
| "level_txs N E header i (it # its) st = do {
     (res, st) \<leftarrow> level_tx N E header i it st;
     (rs, st) \<leftarrow> level_txs N E header i its st;
     Some (res # rs, st)
   }"

text \<open>\<open>run_order\<close> and \<open>sort_order\<close> stand for the scheduler and for \<^verbatim>\<open>sort.Sort\<close>. A level without items waits for a
  result for ever.\<close>

record schedule =
  run_order :: "nat \<Rightarrow> item list \<Rightarrow> item list"
  sort_order :: "cache_set \<Rightarrow> hash list"

definition exec_level ::
  "schedule \<Rightarrow> ('s, 'o) object_ops \<Rightarrow> 's node \<Rightarrow> 's env \<Rightarrow> header \<Rightarrow> mark_cache \<Rightarrow> nat \<Rightarrow>
   outcome_rec list \<times> 's \<times> u64 \<times> u64 \<Rightarrow> (outcome_rec list \<times> 's \<times> u64 \<times> u64) option" where
  "exec_level S B N E header mc i st = do {
     let (results, s, usedGas, gp) = st;
     items \<leftarrow> GetLevelItemWithMark mc (of_nat i);
     if items = [] then None
     else do {
       (tepRes, copied, usedGas, gp) \<leftarrow> level_txs N E header i (run_order S i items) (s, usedGas, gp);
       let rwSet = fold (\<lambda>res c. SetCache c (tx_Hash (r_Tx res)) (record_of res)) tepRes NewCacheSet;
       let rwSet = rwSet\<lparr>Order := sort_order S rwSet\<rparr>;
       (results, s) \<leftarrow> DetectConflicts B N E rwSet mc NewWrittenBefore results s gp usedGas (int i);
       Some (results, s, usedGas, gp)
     }
   }"

primrec exec_levels ::
  "schedule \<Rightarrow> ('s, 'o) object_ops \<Rightarrow> 's node \<Rightarrow> 's env \<Rightarrow> header \<Rightarrow> mark_cache \<Rightarrow> nat list \<Rightarrow>
   outcome_rec list \<times> 's \<times> u64 \<times> u64 \<Rightarrow> (outcome_rec list \<times> 's \<times> u64 \<times> u64) option" where
  "exec_levels S B N E header mc [] st = Some st"
| "exec_levels S B N E header mc (i # is) st =
     exec_level S B N E header mc i st \<bind> exec_levels S B N E header mc is"

definition ExecBenchTxs ::
  "schedule \<Rightarrow> ('s, 'o) object_ops \<Rightarrow> 's node \<Rightarrow> 's env \<Rightarrow> chain \<Rightarrow> header \<Rightarrow> 's \<Rightarrow> meta_tx list \<Rightarrow>
   (outcome_rec list \<times> u64 \<times> 's) option" where
  "ExecBenchTxs S B N E ch header s txs = do {
     gp \<leftarrow> gp_AddGas (nd_pool N) 0 (hd_GasLimit header);
     mc \<leftarrow> fill_all (hd_BaseFee header) txs NewMarkCache;
     let level = GetMaxLevel mc;
     let E = NewVMBlockContext header ch None E;
     (results, s, usedGas, gp) \<leftarrow> exec_levels S B N E header mc [0..<unat level] ([], s, 0, gp);
     Some (results, usedGas, s)
   }"

section \<open>The pool of workers\<close>

text \<open>\<^verbatim>\<open>FillUpPoolWithTask\<close> cuts the items of a level into one slice per worker; the last one takes the rest.\<close>

definition part_items :: "nat \<Rightarrow> 'a list \<Rightarrow> 'a list list option" where
  "part_items count items =
     (if count = 0 then None
      else let num = length items div count; elsNum = length items mod count in
        those (map (\<lambda>i. go_slice items (i * num) (if i = count - 1 then num * (i + 1) + elsNum else num * (i + 1)))
          [0..<count]))"

end
