(* ===== verification/Pool.thy ===== *)
theory Pool
  imports Parallel "HOL-Library.Multiset"
begin

text \<open>
  The pool of workers (\<^verbatim>\<open>process/execpool.go\<close>): the driver \<^verbatim>\<open>FillUpPoolWithTask\<close> sends the slices of a level through a channel
  to workers, closes it, waits for them and collects their results from a second channel. A state of the pool holds
  what the driver and each worker have still to do, the buffers of the channels and the state that the transactions share;
  \<open>pool_step\<close> is one step of one of them, so the runs of the scheduler are its paths. The workers share the database, the gas used and
  the gas of the block without a lock: a transaction is the \<open>code\<close> of its accesses to them, and between two of them the other
  workers go on. Of its laws this theory has the invariant, the measure, and progress.
\<close>

section \<open>Transactions that interleave\<close>

text \<open>What a worker does with an item, up to the shared state: it ends with a result, or makes an access, which reads and
  changes the state and tells how to go on, or panics.\<close>

datatype ('r, 's) code = Ends 'r | Access "'s \<Rightarrow> (('r, 's) code \<times> 's) option"

type_synonym ('i, 'r, 's) handler = "'i \<Rightarrow> ('r, 's) code"

text \<open>At most so many accesses, whatever they read.\<close>

fun within :: "nat \<Rightarrow> ('r, 's) code \<Rightarrow> bool" where
  "within b (Ends r) = True"
| "within 0 (Access f) = False"
| "within (Suc b) (Access f) = (\<forall>s. case f s of None \<Rightarrow> True | Some (c, s') \<Rightarrow> within b c)"

text \<open>The free interleaving of transactions: one of them makes its next access. An item goes with its code, as far as it has got.\<close>

inductive access_step ::
  "('i \<times> ('r, 's) code) multiset \<times> 's \<Rightarrow> ('i \<times> ('r, 's) code) multiset \<times> 's \<Rightarrow> bool" where
  access: "f s = Some (c, s') \<Longrightarrow> access_step (add_mset (x, Access f) M, s) (add_mset (x, c) M, s')"

definition threads :: "('i, 'r, 's) handler \<Rightarrow> 'i multiset \<Rightarrow> ('i \<times> ('r, 's) code) multiset" where
  "threads handler xs = image_mset (\<lambda>x. (x, handler x)) xs"

definition finished_with :: "('i \<times> 'r) multiset \<Rightarrow> ('i \<times> ('r, 's) code) multiset" where
  "finished_with D = image_mset (\<lambda>(x, r). (x, Ends r)) D"

section \<open>Driver and workers\<close>

datatype ('i, 'r) driver = Adding "'i list list" | Joining | Collecting "'r list" | Returned "'r list" | Panicked

datatype ('i, 'r, 's) worker = Idle | Working "'i list" | Running 'i "('r, 's) code" "'i list" | Stopped

record ('i, 'r, 's) pool =
  pl_driver :: "('i, 'r) driver"
  pl_queue :: "'i list list"
  pl_closed :: bool
  pl_workers :: "('i, 'r, 's) worker list"
  pl_results :: "'r list"
  pl_shared :: 's

text \<open>The state when \<^verbatim>\<open>Run\<close> has started the workers.\<close>

definition NewExecPool :: "nat \<Rightarrow> 'i list list \<Rightarrow> 's \<Rightarrow> ('i, 'r, 's) pool" where
  "NewExecPool routine parts s = \<lparr>pl_driver = Adding parts, pl_queue = [], pl_closed = False,
     pl_workers = replicate routine Idle, pl_results = [], pl_shared = s\<rparr>"

definition set_worker :: "nat \<Rightarrow> ('i, 'r, 's) worker \<Rightarrow> ('i, 'r, 's) pool \<Rightarrow> ('i, 'r, 's) pool" where
  "set_worker i w p = p\<lparr>pl_workers := (pl_workers p)[i := w]\<rparr>"

definition worker_at :: "('i, 'r, 's) pool \<Rightarrow> nat \<Rightarrow> ('i, 'r, 's) worker \<Rightarrow> bool" where
  "worker_at p i w \<longleftrightarrow> i < length (pl_workers p) \<and> pl_workers p ! i = w \<and> pl_driver p \<noteq> Panicked"

text \<open>Both channels have room for \<open>n\<close> values; \<open>hand\<close> is a send to a worker that waits, which needs no buffer. A panic
  of a transaction ends the program.\<close>

inductive pool_step :: "('i, 'r, 's) handler \<Rightarrow> nat \<Rightarrow> ('i, 'r, 's) pool \<Rightarrow> ('i, 'r, 's) pool \<Rightarrow> bool"
  for handler :: "('i, 'r, 's) handler" and n :: nat where
  add: "pl_driver p = Adding (t # ts) \<Longrightarrow> length (pl_queue p) < n \<Longrightarrow>
    pool_step handler n p (p\<lparr>pl_driver := Adding ts, pl_queue := pl_queue p @ [t]\<rparr>)"
| hand: "pl_driver p = Adding (t # ts) \<Longrightarrow> pl_queue p = [] \<Longrightarrow> worker_at p i Idle \<Longrightarrow>
    pool_step handler n p (set_worker i (Working t) (p\<lparr>pl_driver := Adding ts\<rparr>))"
| close: "pl_driver p = Adding [] \<Longrightarrow> pool_step handler n p (p\<lparr>pl_driver := Joining, pl_closed := True\<rparr>)"
| take: "worker_at p i Idle \<Longrightarrow> pl_queue p = t # q \<Longrightarrow>
    pool_step handler n p (set_worker i (Working t) (p\<lparr>pl_queue := q\<rparr>))"
| start: "worker_at p i (Working (x # xs)) \<Longrightarrow> pool_step handler n p (set_worker i (Running x (handler x) xs) p)"
| access: "worker_at p i (Running x (Access f) xs) \<Longrightarrow> f (pl_shared p) = Some (c, s) \<Longrightarrow>
    pool_step handler n p (set_worker i (Running x c xs) (p\<lparr>pl_shared := s\<rparr>))"
| crash: "worker_at p i (Running x (Access f) xs) \<Longrightarrow> f (pl_shared p) = None \<Longrightarrow>
    pool_step handler n p (p\<lparr>pl_driver := Panicked\<rparr>)"
| send: "worker_at p i (Running x (Ends r) xs) \<Longrightarrow> length (pl_results p) < n \<Longrightarrow>
    pool_step handler n p (set_worker i (Working xs) (p\<lparr>pl_results := pl_results p @ [r]\<rparr>))"
| idle: "worker_at p i (Working []) \<Longrightarrow> pool_step handler n p (set_worker i Idle p)"
| stop: "worker_at p i Idle \<Longrightarrow> pl_queue p = [] \<Longrightarrow> pl_closed p \<Longrightarrow> pool_step handler n p (set_worker i Stopped p)"
| join: "pl_driver p = Joining \<Longrightarrow> set (pl_workers p) \<subseteq> {Stopped} \<Longrightarrow>
    pool_step handler n p (p\<lparr>pl_driver := Collecting []\<rparr>)"
| collect: "pl_driver p = Collecting rs \<Longrightarrow> pl_results p = r # rest \<Longrightarrow>
    pool_step handler n p (p\<lparr>pl_driver := (if length (rs @ [r]) = n then Returned (rs @ [r]) else Collecting (rs @ [r])),
      pl_results := rest\<rparr>)"

text \<open>The pool that \<^verbatim>\<open>FillUpPoolWithTask\<close> sets up.\<close>

definition FillUpPoolWithTask :: "nat \<Rightarrow> 'i list \<Rightarrow> 's \<Rightarrow> ('i, 'r, 's) pool option" where
  "FillUpPoolWithTask routine items s = do { parts \<leftarrow> part_items routine items; Some (NewExecPool routine parts s) }"

section \<open>Invariant\<close>

text \<open>What is still to be begun, what is being executed, and the results that are on their way.\<close>

fun driver_items :: "('i, 'r) driver \<Rightarrow> 'i multiset" where
  "driver_items (Adding ts) = mset (concat ts)"
| "driver_items _ = {#}"

fun worker_items :: "('i, 'r, 's) worker \<Rightarrow> 'i multiset" where
  "worker_items (Working xs) = mset xs"
| "worker_items (Running x c xs) = mset xs"
| "worker_items _ = {#}"

fun worker_code :: "('i, 'r, 's) worker \<Rightarrow> ('i \<times> ('r, 's) code) multiset" where
  "worker_code (Running x c xs) = {#(x, c)#}"
| "worker_code _ = {#}"

fun driver_results :: "('i, 'r) driver \<Rightarrow> 'r multiset" where
  "driver_results (Collecting rs) = mset rs"
| "driver_results (Returned rs) = mset rs"
| "driver_results _ = {#}"

definition pending :: "('i, 'r, 's) pool \<Rightarrow> 'i multiset" where
  "pending p = driver_items (pl_driver p) + mset (concat (pl_queue p)) + (\<Sum>w \<in># mset (pl_workers p). worker_items w)"

definition executing :: "('i, 'r, 's) pool \<Rightarrow> ('i \<times> ('r, 's) code) multiset" where
  "executing p = (\<Sum>w \<in># mset (pl_workers p). worker_code w)"

definition produced :: "('i, 'r, 's) pool \<Rightarrow> 'r multiset" where
  "produced p = driver_results (pl_driver p) + mset (pl_results p)"

definition driver_ok :: "nat \<Rightarrow> ('i, 'r, 's) pool \<Rightarrow> bool" where
  "driver_ok n p = (case pl_driver p of
     Adding ts \<Rightarrow> \<not> pl_closed p
   | Joining \<Rightarrow> pl_closed p
   | Collecting rs \<Rightarrow> pl_closed p \<and> set (pl_workers p) \<subseteq> {Stopped} \<and> (length rs < n \<or> rs = [])
   | Returned rs \<Rightarrow> pl_closed p \<and> set (pl_workers p) \<subseteq> {Stopped} \<and> length rs = n \<and> 0 < n
   | Panicked \<Rightarrow> 0 < n)"

definition pool_shape :: "nat \<Rightarrow> nat \<Rightarrow> ('i, 'r, 's) pool \<Rightarrow> bool" where
  "pool_shape routine n p \<longleftrightarrow> length (pl_workers p) = routine \<and> driver_ok n p \<and>
     (Stopped \<in> set (pl_workers p) \<longrightarrow> pl_closed p \<and> pl_queue p = [])"

text \<open>An interleaving of the items explains the shared state, what is executing, and the results produced.\<close>

definition ledger :: "('i, 'r, 's) handler \<Rightarrow> 'i list \<Rightarrow> 's \<Rightarrow> ('i, 'r, 's) pool \<Rightarrow> bool" where
  "ledger handler items s p \<longleftrightarrow> (\<exists>D.
     access_step\<^sup>*\<^sup>* (threads handler (mset items), s)
       (threads handler (pending p) + executing p + finished_with D, pl_shared p) \<and>
     mset items = pending p + image_mset fst (executing p) + image_mset fst D \<and> image_mset snd D = produced p)"

definition pool_inv :: "('i, 'r, 's) handler \<Rightarrow> nat \<Rightarrow> 'i list \<Rightarrow> 's \<Rightarrow> ('i, 'r, 's) pool \<Rightarrow> bool" where
  "pool_inv handler routine items s p \<longleftrightarrow>
     pool_shape routine (length items) p \<and> (pl_driver p \<noteq> Panicked \<longrightarrow> ledger handler items s p)"

lemma update_worker:
  assumes "i < length ws"
  shows "(\<Sum>w \<in># mset (ws[i := w']). f w) + f (ws ! i) = (\<Sum>w \<in># mset ws. f w) + (f w' :: 'a multiset)"
proof -
  have "mset (ws[i := w']) + {#ws ! i#} = mset ws + {#w'#}" using assms by (simp add: mset_update)
  then have "(\<Sum>w \<in># mset (ws[i := w']) + {#ws ! i#}. f w) = (\<Sum>w \<in># mset ws + {#w'#}. f w)" by (rule arg_cong)
  then show ?thesis by (simp add: add.commute)
qed

lemma set_worker_keeps [simp]:
  "pl_driver (set_worker i w p) = pl_driver p" "pl_queue (set_worker i w p) = pl_queue p"
  "pl_closed (set_worker i w p) = pl_closed p" "pl_results (set_worker i w p) = pl_results p"
  "pl_shared (set_worker i w p) = pl_shared p" "pl_workers (set_worker i w p) = (pl_workers p)[i := w]"
  "produced (set_worker i w p) = produced p"
  by (simp_all add: set_worker_def produced_def)

lemma replaced:
  assumes "worker_at p i w0" "pl_workers p' = pl_workers p" "pl_driver p' = pl_driver p"
  shows "pending (set_worker i w p') + worker_items w0 = pending p' + worker_items w"
    and "executing (set_worker i w p') + worker_code w0 = executing p' + worker_code w"
proof -
  have i: "i < length (pl_workers p')" "pl_workers p' ! i = w0" using assms by (simp_all add: worker_at_def)
  from update_worker [OF i(1), where w' = w and f = worker_items] update_worker [OF i(1), where w' = w and f = worker_code] i(2)
  show "pending (set_worker i w p') + worker_items w0 = pending p' + worker_items w"
    "executing (set_worker i w p') + worker_code w0 = executing p' + worker_code w"
    by (simp_all add: pending_def executing_def ac_simps)
qed

lemma ledger_same:
  "ledger handler items s p \<Longrightarrow> pl_shared p' = pl_shared p \<Longrightarrow> pending p' = pending p \<Longrightarrow> executing p' = executing p \<Longrightarrow>
    produced p' = produced p \<Longrightarrow> ledger handler items s p'"
  by (simp add: ledger_def)

lemma ledger_start:
  assumes "ledger handler items s p" "worker_at p i (Working (x # xs))"
  shows "ledger handler items s (set_worker i (Running x (handler x) xs) p)"
proof -
  let ?p = "set_worker i (Running x (handler x) xs) p"
  have "pending p = add_mset x (pending ?p)" "executing ?p = add_mset (x, handler x) (executing p)"
    using replaced [OF assms(2), of p "Running x (handler x) xs"] by simp_all
  with assms(1) show ?thesis by (auto simp: ledger_def threads_def)
qed

lemma ledger_access:
  assumes "ledger handler items s p" "worker_at p i (Running x (Access f) xs)" "f (pl_shared p) = Some (c, s')"
  shows "ledger handler items s (set_worker i (Running x c xs) (p\<lparr>pl_shared := s'\<rparr>))"
proof -
  let ?p = "set_worker i (Running x c xs) (p\<lparr>pl_shared := s'\<rparr>)"
  obtain D where D: "access_step\<^sup>*\<^sup>* (threads handler (mset items), s)
      (threads handler (pending p) + executing p + finished_with D, pl_shared p)"
    "mset items = pending p + image_mset fst (executing p) + image_mset fst D" "image_mset snd D = produced p"
    using assms(1) by (auto simp: ledger_def)
  have same: "pending (p\<lparr>pl_shared := s'\<rparr>) = pending p" "executing (p\<lparr>pl_shared := s'\<rparr>) = executing p"
    "produced (p\<lparr>pl_shared := s'\<rparr>) = produced p"
    by (simp_all add: pending_def executing_def produced_def)
  have p: "pending ?p = pending p" "executing ?p + {#(x, Access f)#} = add_mset (x, c) (executing p)"
    using replaced [OF assms(2), of "p\<lparr>pl_shared := s'\<rparr>" "Running x c xs"] by (simp_all add: same)
  have "(x, Access f) \<in># executing p"
    using assms(2) by (force simp: executing_def worker_at_def in_set_conv_nth intro: exI [of _ "Running x (Access f) xs"])
  then obtain M where M: "executing p = add_mset (x, Access f) M" by (blast dest: multi_member_split)
  with p(2) have M': "executing ?p = add_mset (x, c) M" by simp
  have "access_step (threads handler (pending p) + executing p + finished_with D, pl_shared p)
      (threads handler (pending ?p) + executing ?p + finished_with D, pl_shared ?p)"
    using access_step.access [where f = f and c = c, OF assms(3), of x "threads handler (pending p) + M + finished_with D"] by (simp add: M M' p(1))
  with D(1) have "access_step\<^sup>*\<^sup>* (threads handler (mset items), s)
      (threads handler (pending ?p) + executing ?p + finished_with D, pl_shared ?p)" by (rule rtranclp.rtrancl_into_rtrancl)
  with D(2,3) show ?thesis unfolding ledger_def by (auto intro!: exI [of _ D] simp: M M' p(1) same)
qed

lemma ledger_send:
  assumes "ledger handler items s p" "worker_at p i (Running x (Ends r) xs)"
  shows "ledger handler items s (set_worker i (Working xs) (p\<lparr>pl_results := pl_results p @ [r]\<rparr>))"
proof -
  let ?q = "p\<lparr>pl_results := pl_results p @ [r]\<rparr>"
  let ?p = "set_worker i (Working xs) ?q"
  obtain D where D: "access_step\<^sup>*\<^sup>* (threads handler (mset items), s)
      (threads handler (pending p) + executing p + finished_with D, pl_shared p)"
    "mset items = pending p + image_mset fst (executing p) + image_mset fst D" "image_mset snd D = produced p"
    using assms(1) by (auto simp: ledger_def)
  have same: "pending ?q = pending p" "executing ?q = executing p" "produced ?q = add_mset r (produced p)"
    by (simp_all add: pending_def executing_def produced_def)
  have "pending ?p = pending p" "executing p = add_mset (x, Ends r) (executing ?p)"
    using replaced [OF assms(2), of ?q "Working xs"] by (simp_all add: same)
  with D same(3) show ?thesis
    unfolding ledger_def by (intro exI [of _ "add_mset (x, r) D"]) (simp add: finished_with_def)
qed

lemma ledger_size:
  assumes "ledger handler items s p"
  shows "size (produced p) + size (executing p) + size (pending p) = length items"
proof -
  obtain D where D: "mset items = pending p + image_mset fst (executing p) + image_mset fst D" "image_mset snd D = produced p"
    using assms by (auto simp: ledger_def)
  have "length items = size (pending p) + size (executing p) + size D" using arg_cong [OF D(1), of size] by simp
  moreover have "size (produced p) = size D" using arg_cong [OF D(2), of size] by simp
  ultimately show ?thesis by simp
qed

section \<open>Steps keep the invariant\<close>

lemma shape_worker:
  assumes "pool_shape routine n p" "worker_at p i w0" "w0 \<noteq> Stopped" "w = Stopped \<longrightarrow> pl_closed p' \<and> pl_queue p' = []"
    and "pl_workers p' = pl_workers p" "pl_driver p' = pl_driver p" "pl_closed p' = pl_closed p" "pl_queue p = [] \<longrightarrow> pl_queue p' = []"
  shows "pool_shape routine n (set_worker i w p')"
proof -
  have "w0 \<in> set (pl_workers p)" using assms(2) by (auto simp: worker_at_def)
  moreover have "set ((pl_workers p)[i := w]) \<subseteq> insert w (set (pl_workers p))" by (rule set_update_subset_insert)
  ultimately show ?thesis using assms by (auto simp: pool_shape_def driver_ok_def split: driver.splits)
qed

lemma worker_moves:
  assumes "pool_inv handler routine items s p" "worker_at p i w0" "w0 \<noteq> Stopped" "w = Stopped \<longrightarrow> pl_closed p' \<and> pl_queue p' = []"
    and "pl_workers p' = pl_workers p" "pl_driver p' = pl_driver p" "pl_closed p' = pl_closed p" "pl_shared p' = pl_shared p"
    and "pl_queue p = [] \<longrightarrow> pl_queue p' = []"
    and "pending p' + worker_items w = pending p + worker_items w0" "executing p' + worker_code w = executing p + worker_code w0"
    and "produced p' = produced p"
  shows "pool_inv handler routine items s (set_worker i w p')"
proof -
  have "pending (set_worker i w p') = pending p" "executing (set_worker i w p') = executing p"
    using replaced [OF assms(2,5,6), of w] assms(10,11) by simp_all
  moreover have "pool_shape routine (length items) (set_worker i w p')"
    using assms(1) by (intro shape_worker [OF _ assms(2-7,9)]) (simp add: pool_inv_def)
  ultimately show ?thesis using assms(1,6,8,12) by (auto simp: pool_inv_def elim!: ledger_same)
qed

lemma ledger_items:
  assumes "ledger handler items s p" "worker_at p i (Running x c xs)"
  shows "items \<noteq> []"
proof -
  have "Running x c xs \<in># mset (pl_workers p)" using assms(2) by (auto simp: worker_at_def dest: nth_mem)
  then obtain M where "mset (pl_workers p) = add_mset (Running x c xs) M" by (blast dest: multi_member_split)
  then show ?thesis using ledger_size [OF assms(1)] by (auto simp: executing_def)
qed

lemma pool_step_inv:
  assumes "pool_step handler (length items) p p'" "pool_inv handler routine items s p"
  shows "pool_inv handler routine items s p'"
  using assms
proof (cases rule: pool_step.cases)
  case (add t ts)
  with assms(2) show ?thesis
    by (auto simp: pool_inv_def pool_shape_def driver_ok_def pending_def executing_def produced_def elim!: ledger_same)
next
  case (close)
  with assms(2) show ?thesis
    by (auto simp: pool_inv_def pool_shape_def driver_ok_def pending_def executing_def produced_def elim!: ledger_same)
next
  case (join)
  with assms(2) show ?thesis
    by (auto simp: pool_inv_def pool_shape_def driver_ok_def pending_def executing_def produced_def elim!: ledger_same)
next
  case (crash i x f xs)
  with assms(2) have "ledger handler items s p" by (simp add: pool_inv_def worker_at_def)
  from ledger_items [OF this crash(2)] crash assms(2) show ?thesis by (auto simp: pool_inv_def pool_shape_def driver_ok_def)
next
  case (start i x xs)
  with assms(2) show ?thesis by (auto simp: pool_inv_def worker_at_def intro!: ledger_start shape_worker)
next
  case (access i x f xs c s')
  with assms(2) show ?thesis
    by (auto simp: pool_inv_def worker_at_def intro!: ledger_access shape_worker)
next
  case (hand t ts i)
  let ?q = "p\<lparr>pl_driver := Adding ts, pl_queue := [t]\<rparr>" and ?p = "p\<lparr>pl_driver := Adding ts\<rparr>"
  have "pool_inv handler routine items s ?q"
    using assms(2) hand by (auto simp: pool_inv_def pool_shape_def driver_ok_def pending_def executing_def produced_def elim!: ledger_same)
  moreover have "worker_at ?q i Idle" using hand by (simp add: worker_at_def)
  ultimately have "pool_inv handler routine items s (set_worker i (Working t) ?p)"
    by (rule worker_moves) (use hand in \<open>simp_all add: pending_def executing_def produced_def\<close>)
  with hand show ?thesis by simp
next
  case (take i t q)
  with assms(2) show ?thesis
    by (auto intro!: worker_moves [where p = p and ?w0.0 = Idle] simp: pending_def executing_def produced_def)
next
  case (send i x r xs)
  with assms(2) have "ledger handler items s p" by (simp add: pool_inv_def worker_at_def)
  from ledger_send [OF this send(2)] send assms(2) show ?thesis by (auto simp: pool_inv_def intro!: shape_worker)
next
  case (idle i)
  with assms(2) show ?thesis by (auto intro!: worker_moves [where p = p and ?w0.0 = "Working []"])
next
  case (stop i)
  with assms(2) show ?thesis by (auto intro!: worker_moves [where p = p and ?w0.0 = Idle])
next
  case (collect rs r rest)
  with assms(2) have l: "ledger handler items s p" and d: "pool_shape routine (length items) p" by (simp_all add: pool_inv_def)
  have "length rs + 1 \<le> length items" using ledger_size [OF l] collect by (simp add: produced_def)
  with collect l d show ?thesis
    by (auto simp: pool_inv_def pool_shape_def driver_ok_def pending_def executing_def produced_def elim!: ledger_same)
qed

lemma no_items: "\<Sum>\<^sub># (replicate_mset k ({#} :: 'a multiset)) = {#}"
  by (induction k) simp_all

lemma NewExecPool_inv:
  assumes "concat parts = items"
  shows "pool_inv handler routine items s (NewExecPool routine parts s)"
proof -
  have "ledger handler items s (NewExecPool routine parts s)" unfolding ledger_def
    by (intro exI [of _ "{#}"])
      (use assms in \<open>auto simp: NewExecPool_def pending_def executing_def produced_def finished_with_def no_items\<close>)
  then show ?thesis by (simp add: pool_inv_def pool_shape_def driver_ok_def NewExecPool_def)
qed

lemma pool_steps_inv:
  assumes "(pool_step handler (length items))\<^sup>*\<^sup>* p p'" "pool_inv handler routine items s p"
  shows "pool_inv handler routine items s p'"
  using assms by (induction rule: rtranclp_induct) (auto intro: pool_step_inv)

section \<open>Every run ends\<close>

text \<open>\<open>accesses_left\<close>: the fewest accesses that are enough for the rest of a transaction.\<close>

definition accesses_left :: "('r, 's) code \<Rightarrow> nat" where
  "accesses_left c = (LEAST b. within b c)"

lemma within_accesses_left: "within b c \<Longrightarrow> within (accesses_left c) c \<and> accesses_left c \<le> b"
  unfolding accesses_left_def using LeastI [of "\<lambda>b. within b c" b] Least_le [of "\<lambda>b. within b c" b] by simp

lemma accesses_left_Ends [simp]: "accesses_left (Ends r) = 0"
  by (simp add: accesses_left_def Least_eq_0)

lemma within_access:
  assumes "within b (Access f)" "f s = Some (c, s')"
  shows "within (b - 1) c \<and> accesses_left c < accesses_left (Access f)"
proof -
  have less: "within (d - 1) c \<and> 0 < d" if "within d (Access f)" for d
    using that assms(2) by (cases d) (auto dest: spec [of _ s])
  from less [of "accesses_left (Access f)"] within_accesses_left [OF assms(1)]
  have "within (accesses_left (Access f) - 1) c" "0 < accesses_left (Access f)" by auto
  then show ?thesis using less [OF assms(1)] within_accesses_left [of "accesses_left (Access f) - 1" c] by linarith
qed

lemma within_mono: "within b c \<Longrightarrow> b \<le> d \<Longrightarrow> within d c"
proof (induction b c arbitrary: d rule: within.induct)
  case (3 b f)
  then obtain e where "d = Suc e" "b \<le> e" by (cases d) auto
  with 3 show ?case by (fastforce split: option.splits)
qed simp_all

text \<open>The items that are left and the transactions that run need at most \<open>B\<close> accesses each.\<close>

definition bounded :: "('i, 'r, 's) handler \<Rightarrow> nat \<Rightarrow> ('i, 'r, 's) pool \<Rightarrow> bool" where
  "bounded handler B p \<longleftrightarrow> (\<forall>x \<in># pending p. within B (handler x)) \<and> (\<forall>(x, c) \<in># executing p. within B c)"

lemma bounded_running:
  assumes "bounded handler B p" "worker_at p i (Running x c xs)"
  shows "within B c"
  using assms by (force simp: bounded_def executing_def worker_at_def in_set_conv_nth)

lemma pool_step_bounded:
  assumes "pool_step handler n p p'" "bounded handler B p"
  shows "bounded handler B p'"
  using assms(1)
proof (cases rule: pool_step.cases)
  case (hand t ts i)
  then have "pending p' = pending p" "executing p' = executing p"
    using replaced [of p i Idle] replaced [of "p\<lparr>pl_driver := Adding ts\<rparr>" i Idle "p\<lparr>pl_driver := Adding ts\<rparr>" "Working t"]
    by (auto simp: worker_at_def pending_def executing_def)
  with assms(2) show ?thesis by (simp add: bounded_def)
next
  case (take i t q)
  with replaced [of "p\<lparr>pl_queue := q\<rparr>" i Idle "p\<lparr>pl_queue := q\<rparr>" "Working t"]
  have "pending p' = pending p" "executing p' = executing p" by (auto simp: worker_at_def pending_def executing_def)
  with assms(2) show ?thesis by (simp add: bounded_def)
next
  case (start i x xs)
  with replaced [of p i "Working (x # xs)" p "Running x (handler x) xs"]
  have "pending p = add_mset x (pending p')" "executing p' = add_mset (x, handler x) (executing p)" by simp_all
  with assms(2) show ?thesis by (simp add: bounded_def)
next
  case (access i x f xs c s)
  have w: "within B c" using within_access [OF bounded_running [OF assms(2) access(2)] access(3)] within_mono by fastforce
  have "pending p' = pending p" and "add_mset (x, Access f) (executing p') = add_mset (x, c) (executing p)"
    using replaced [of p i "Running x (Access f) xs" "p\<lparr>pl_shared := s\<rparr>" "Running x c xs"] access
    by (simp_all add: pending_def executing_def)
  moreover from this(2) have "set_mset (executing p') \<subseteq> insert (x, c) (set_mset (executing p))"
    by (metis set_mset_add_mset_insert subset_insertI)
  ultimately show ?thesis using assms(2) w by (auto simp: bounded_def)
next
  case (send i x r xs)
  let ?q = "p\<lparr>pl_results := pl_results p @ [r]\<rparr>"
  from send replaced [of p i "Running x (Ends r) xs" ?q "Working xs"]
  have "pending p' = pending p" "executing p = add_mset (x, Ends r) (executing p')"
    by (simp_all add: pending_def executing_def)
  with assms(2) show ?thesis by (simp add: bounded_def)
next
  case (idle i)
  with replaced [of p i "Working []" p Idle] assms(2) show ?thesis by (simp add: bounded_def)
next
  case (stop i)
  with replaced [of p i Idle p Stopped] assms(2) show ?thesis by (simp add: bounded_def)
qed (use assms(2) in \<open>auto simp: bounded_def pending_def executing_def\<close>)

text \<open>Each step takes at least one from the weight of a pool.\<close>

fun driver_weight :: "nat \<Rightarrow> nat \<Rightarrow> ('i, 'r) driver \<Rightarrow> nat" where
  "driver_weight B n (Adding ts) = n + 3 + (\<Sum>t \<leftarrow> ts. (B + 2) * length t + 3)"
| "driver_weight B n Joining = n + 2"
| "driver_weight B n (Collecting rs) = n + 1 - length rs"
| "driver_weight B n _ = 0"

fun worker_weight :: "nat \<Rightarrow> ('i, 'r, 's) worker \<Rightarrow> nat" where
  "worker_weight B Idle = 1"
| "worker_weight B (Working xs) = (B + 2) * length xs + 2"
| "worker_weight B (Running x c xs) = (B + 2) * length xs + accesses_left c + 3"
| "worker_weight B Stopped = 0"

definition weight :: "nat \<Rightarrow> nat \<Rightarrow> ('i, 'r, 's) pool \<Rightarrow> nat" where
  "weight B n p = driver_weight B n (pl_driver p) + (\<Sum>t \<leftarrow> pl_queue p. (B + 2) * length t + 2) +
     (\<Sum>w \<leftarrow> pl_workers p. worker_weight B w)"

lemma workers_weight:
  assumes "worker_at p i w0"
  shows "(\<Sum>w \<leftarrow> (pl_workers p)[i := w]. worker_weight B w) + worker_weight B w0 =
    (\<Sum>w \<leftarrow> pl_workers p. worker_weight B w) + worker_weight B w"
proof -
  let ?ws = "map (worker_weight B) (pl_workers p)"
  have i: "i < length ?ws" "?ws ! i = worker_weight B w0" using assms by (auto simp: worker_at_def)
  then have "?ws ! i \<le> sum_list ?ws" using elem_le_sum_list by blast
  with i show ?thesis by (simp add: map_update sum_list_update)
qed

lemma pool_step_weight:
  assumes "pool_step handler n p p'" "pool_shape routine n p" "bounded handler B p"
  shows "weight B n p' < weight B n p"
  using assms(1)
proof (cases rule: pool_step.cases)
  case (crash i x f xs)
  with assms(2) have "driver_weight B n (pl_driver p) > 0"
    by (cases "pl_driver p") (auto simp: worker_at_def pool_shape_def driver_ok_def dest: nth_mem)
  with crash show ?thesis by (simp add: weight_def)
next
  case (collect rs r rest)
  with assms(2) show ?thesis by (auto simp: weight_def pool_shape_def driver_ok_def)
next
  case (hand t ts i)
  then show ?thesis using workers_weight [of p i Idle B "Working t"] by (simp add: weight_def)
next
  case (take i t q)
  then show ?thesis using workers_weight [of p i Idle B "Working t"] by (simp add: weight_def)
next
  case (start i x xs)
  have "Working (x # xs) \<in># mset (pl_workers p)" using start by (auto simp: worker_at_def dest: nth_mem)
  then have "x \<in># pending p" by (force simp: pending_def intro: bexI [of _ "Working (x # xs)"])
  then have "accesses_left (handler x) \<le> B" using assms(3) within_accesses_left by (auto simp: bounded_def)
  with start show ?thesis using workers_weight [of p i "Working (x # xs)" B "Running x (handler x) xs"] by (simp add: weight_def)
next
  case (access i x f xs c s)
  have "accesses_left c < accesses_left (Access f)" using within_access [OF bounded_running [OF assms(3) access(2)] access(3)] by simp
  with access show ?thesis using workers_weight [of p i "Running x (Access f) xs" B "Running x c xs"] by (simp add: weight_def)
next
  case (send i x r xs)
  then show ?thesis using workers_weight [of p i "Running x (Ends r) xs" B "Working xs"] by (simp add: weight_def)
next
  case (idle i)
  then show ?thesis using workers_weight [of p i "Working []" B Idle] by (simp add: weight_def)
next
  case (stop i)
  then show ?thesis using workers_weight [of p i Idle B Stopped] by (simp add: weight_def)
qed (auto simp: weight_def)

lemma pool_steps_weight:
  assumes "((pool_step handler (length items)) ^^ k) p p'" "pool_inv handler routine items s p" "bounded handler B p"
  shows "bounded handler B p' \<and> weight B (length items) p' + k \<le> weight B (length items) p"
  using assms
proof (induction k arbitrary: p')
  case (Suc k)
  then obtain q where q: "((pool_step handler (length items)) ^^ k) p q" "pool_step handler (length items) q p'" by auto
  have "pool_inv handler routine items s q"
    using pool_steps_inv [OF relpowp_imp_rtranclp [OF q(1)] Suc.prems(2)] .
  moreover have b: "bounded handler B q" using Suc.IH [OF q(1) Suc.prems(2,3)] by blast
  ultimately have "weight B (length items) p' < weight B (length items) q"
    using pool_step_weight [OF q(2)] by (auto simp: pool_inv_def)
  with Suc.IH [OF q(1) Suc.prems(2,3)] pool_step_bounded [OF q(2) b] show ?case by simp
qed simp

lemma NewExecPool_weight:
  assumes "concat parts = items" "length parts = routine"
  shows "weight B (length items) (NewExecPool routine parts s) = (B + 3) * length items + 4 * routine + 3"
proof -
  have "(\<Sum>t \<leftarrow> parts. (B + 2) * length t + 3) = (B + 2) * length (concat parts) + 3 * length parts"
    by (induction parts) (simp_all add: algebra_simps)
  with assms show ?thesis by (simp add: weight_def NewExecPool_def sum_list_replicate algebra_simps)
qed

lemma NewExecPool_bounded:
  assumes "concat parts = items" "\<forall>x \<in> set items. within B (handler x)"
  shows "bounded handler B (NewExecPool routine parts s)"
  using assms by (auto simp: bounded_def pending_def executing_def NewExecPool_def no_items)

section \<open>Progress\<close>

text \<open>A pool that cannot go on has returned, has panicked, or waits for results that never come.\<close>

lemma pool_progress:
  assumes "pool_inv handler routine items s p" "0 < routine" "\<And>p'. \<not> pool_step handler (length items) p p'"
  shows "items \<noteq> [] \<and> (\<exists>rs. pl_driver p = Returned rs) \<or> items \<noteq> [] \<and> pl_driver p = Panicked \<or> items = [] \<and> pl_driver p = Collecting []"
proof (rule ccontr)
  assume c: "\<not> ?thesis"
  let ?n = "length items"
  have d: "driver_ok ?n p" and len: "length (pl_workers p) = routine"
    and st: "Stopped \<in> set (pl_workers p) \<longrightarrow> pl_closed p \<and> pl_queue p = []"
    using assms(1) by (simp_all add: pool_inv_def pool_shape_def)
  have np: "pl_driver p \<noteq> Panicked" using c d by (auto simp: driver_ok_def)
  then have l: "ledger handler items s p" using assms(1) by (simp add: pool_inv_def)
  have at: "worker_at p i w" if "i < routine" "pl_workers p ! i = w" for i w
    using that np len by (simp add: worker_at_def)
  have w: "pl_workers p ! i \<in> {Idle, Stopped}" if i: "i < routine" for i
  proof (cases "pl_workers p ! i")
    case (Working xs)
    then show ?thesis using at [OF i Working] assms(3) by (cases xs) (auto intro: pool_step.idle pool_step.start)
  next
    case (Running x c xs)
    note run = at [OF i Running]
    show ?thesis
    proof (cases c)
      case (Access f)
      with run assms(3) show ?thesis
        by (cases "f (pl_shared p)") (auto intro: pool_step.crash, blast intro: pool_step.access)
    next
      case (Ends r)
      have "Running x c xs \<in># mset (pl_workers p)" using i len Running by (auto dest: nth_mem)
      then obtain M where "mset (pl_workers p) = add_mset (Running x c xs) M" by (blast dest: multi_member_split)
      then have "0 < size (executing p)" by (simp add: executing_def)
      then have "length (pl_results p) < ?n" using ledger_size [OF l] by (simp add: produced_def)
      then show ?thesis using run Ends assms(3) by (blast intro: pool_step.send)
    qed
  qed auto
  show False
  proof (cases "pl_driver p")
    case (Adding ts)
    then have "Stopped \<notin> set (pl_workers p)" using d st by (auto simp: driver_ok_def)
    then have "pl_workers p ! 0 = Idle" using w [OF assms(2)] assms(2) len by (metis empty_iff insert_iff nth_mem)
    then have "worker_at p 0 Idle" by (rule at [OF assms(2)])
    then show ?thesis using Adding assms(3)
      by (cases ts; cases "pl_queue p") (blast intro: pool_step.close pool_step.hand pool_step.take)+
  next
    case Joining
    show ?thesis
    proof (cases "\<exists>i < routine. pl_workers p ! i = Idle")
      case True
      then obtain i where "worker_at p i Idle" using at by blast
      then show ?thesis using Joining d assms(3)
        by (cases "pl_queue p") (auto simp: driver_ok_def intro: pool_step.stop pool_step.take)
    next
      case False
      then have "set (pl_workers p) \<subseteq> {Stopped}" using w len by (auto simp: in_set_conv_nth)
      with Joining assms(3) show ?thesis by (blast intro: pool_step.join)
    qed
  next
    case (Collecting rs)
    then have all: "set (pl_workers p) \<subseteq> {Stopped}" and rs: "length rs < ?n \<or> rs = []" using d by (simp_all add: driver_ok_def)
    have "Stopped \<in> set (pl_workers p)" using all assms(2) len by (cases "pl_workers p") auto
    then have q: "pl_queue p = []" using st by blast
    have "pl_workers p = replicate routine Stopped" using all len by (simp add: replicate_eqI subset_iff)
    then have "pending p = {#}" "executing p = {#}" "size (produced p) = length rs + length (pl_results p)"
      using Collecting q by (simp_all add: pending_def produced_def executing_def no_items)
    then have "length rs + length (pl_results p) = ?n" using ledger_size [OF l] by simp
    then have "pl_results p \<noteq> []" using rs c Collecting by auto
    then obtain r rest where "pl_results p = r # rest" by (cases "pl_results p") simp_all
    with Collecting assms(3) show ?thesis by (blast intro: pool_step.collect)
  qed (use c d in \<open>auto simp: driver_ok_def\<close>)
qed

text \<open>When the driver returns, nothing is left to do.\<close>

lemma returned_all:
  assumes "pool_inv handler routine items s p" "0 < routine" "pl_driver p = Returned rs"
  shows "\<exists>D. access_step\<^sup>*\<^sup>* (threads handler (mset items), s) (finished_with D, pl_shared p) \<and>
    image_mset fst D = mset items \<and> image_mset snd D = mset rs"
proof -
  have l: "ledger handler items s p" and all: "set (pl_workers p) \<subseteq> {Stopped}" and n: "length rs = length items"
    and len: "length (pl_workers p) = routine" and st: "Stopped \<in> set (pl_workers p) \<longrightarrow> pl_queue p = []"
    using assms by (auto simp: pool_inv_def pool_shape_def driver_ok_def)
  have "Stopped \<in> set (pl_workers p)" using all assms(2) len by (cases "pl_workers p") auto
  then have q: "pl_queue p = []" using st by blast
  have "pl_workers p = replicate routine Stopped" using all len by (simp add: replicate_eqI subset_iff)
  then have pend: "pending p = {#}" "executing p = {#}" and prod: "produced p = mset rs + mset (pl_results p)"
    using assms(3) q by (simp_all add: pending_def produced_def executing_def no_items)
  have "pl_results p = []" using ledger_size [OF l] pend prod n by simp
  with l pend prod show ?thesis by (auto simp: ledger_def threads_def)
qed

end
