(* ===== verification/ParallelLaws.thy ===== *)
theory ParallelLaws
  imports Parallel Commits
begin

text \<open>
  What the execution by levels does: the slices of the workers, the order of the records, the detection of conflicts as a
  refinement of an overlay of write sets, and the commit through state objects.
\<close>

section \<open>Slices of the items\<close>

lemma those_Some: "(\<And>x. x \<in> set xs \<Longrightarrow> f x = Some (g x)) \<Longrightarrow> those (map f xs) = Some (map g xs)"
  by (induction xs) auto

lemma concat_slices: "concat (map (\<lambda>i. take num (drop (i * num) xs)) [0..<k]) = take (k * num) xs"
proof (induction k)
  case (Suc k)
  have "take (k * num) xs @ take num (drop (k * num) xs) = take (k * num + num) xs" by (simp add: take_add)
  with Suc show ?case by (simp add: add.commute)
qed simp

text \<open>The slices that the workers get, one for each, are a partition of the items of the level in their order.\<close>

lemma slices_partition_items:
  assumes "0 < count"
  shows "\<exists>ps. part_items count items = Some ps \<and> length ps = count \<and> concat ps = items"
proof -
  let ?n = "length items" and ?num = "length items div count" and ?els = "length items mod count"
  define g where "g i = (if i = count - 1 then drop (i * ?num) items else take ?num (drop (i * ?num) items))" for i
  have total: "?num * count + ?els = ?n" by simp
  have le: "?num * (i + 1) \<le> ?n" if "i < count" for i
  proof -
    have "?num * (i + 1) \<le> ?num * count" using that by (intro mult_le_mono) simp_all
    then show ?thesis using total by linarith
  qed
  have "go_slice items (i * ?num) (if i = count - 1 then ?num * (i + 1) + ?els else ?num * (i + 1)) = Some (g i)"
    if "i < count" for i
    using le [OF that] that total by (auto simp: g_def go_slice_def mult.commute add.commute Suc_diff_le)
  then have "those (map (\<lambda>i. go_slice items (i * ?num) (if i = count - 1 then ?num * (i + 1) + ?els else ?num * (i + 1)))
      [0..<count]) = Some (map g [0..<count])"
    by (intro those_Some) (simp only: set_upt atLeastLessThan_iff)
  then have "part_items count items = Some (map g [0..<count])"
    using assms by (simp add: part_items_def Let_def)
  moreover have "concat (map g [0..<count]) = items"
  proof -
    obtain k where k: "count = Suc k" using assms by (cases count) auto
    have "map g [0..<k] = map (\<lambda>i. take ?num (drop (i * ?num) items)) [0..<k]"
      by (rule map_cong) (simp_all add: g_def k)
    then have "concat (map g [0..<k]) = take (k * ?num) items" by (simp only: concat_slices)
    moreover have "g k = drop (k * ?num) items" by (simp add: g_def k)
    ultimately show ?thesis by (simp add: k)
  qed
  ultimately show ?thesis by simp
qed

section \<open>The order of records\<close>

text \<open>\<^verbatim>\<open>Less\<close> is not asymmetric, so it is no order to sort by: of two records that touch as many accounts, one with fewer keys
  written and more keys read than the other, each is less than the other.\<close>

theorem less_is_no_order:
  assumes "i < length (Order c)" "lookup (cs_cache c) (Order c ! i) = Some ri"
    and "j < length (Order c)" "lookup (cs_cache c) (Order c ! j) = Some rj"
    and "rw_Len (r_WriteSet (rr_Res ri)) = rw_Len (r_WriteSet (rr_Res rj))"
    and "rw_Len (r_ReadSet (rr_Res ri)) = rw_Len (r_ReadSet (rr_Res rj))"
    and "detailKeyCount (r_WriteSet (rr_Res rj)) < detailKeyCount (r_WriteSet (rr_Res ri))"
    and "detailKeyCount (r_ReadSet (rr_Res ri)) < detailKeyCount (r_ReadSet (rr_Res rj))"
  shows "Less cmp c i j = Some True \<and> Less cmp c j i = Some True"
  using assms by (simp add: Less_def Let_def go_index_def)

abbreviation rich_writer :: outcome_rec where
  "rich_writer \<equiv> (std_outcome (rw_put (rw_put NewWriteSet 1 5 (VBytes [1])) 1 6 (VBytes [1])) [])\<lparr>r_ReadSet := rw_put NewReadSet 1 5 (VU64 0)\<rparr>"

abbreviation rich_reader :: outcome_rec where
  "rich_reader \<equiv> (std_outcome (rw_put NewWriteSet 1 5 (VBytes [1])) [])\<lparr>r_ReadSet := rw_put (rw_put NewReadSet 1 5 (VU64 0)) 1 6 (VU64 0)\<rparr>"

theorem less_is_no_order_witness:
  "let c = SetCache (SetCache NewCacheSet 1 (record_of rich_writer)) 2 (record_of rich_reader) in
    Less (\<lambda>_ _. 0) c 0 1 = Some True \<and> Less (\<lambda>_ _. 0) c 1 0 = Some True"
  unfolding Let_def
  by (rule less_is_no_order [where ri = "record_of rich_writer" and rj = "record_of rich_reader"])
    (simp_all add: SetCache_def NewCacheSet_def record_of_def std_outcome_def rw_put_def inner_def NewWriteSet_def
      NewReadSet_def rw_Len_def)

section \<open>Conflicts\<close>

text \<open>The specification: what is written is a map of keys, a write set is laid over it, and a record
  that reads a written key is in conflict.\<close>

type_synonym overlay = "address \<Rightarrow> hash \<Rightarrow> goval option"

definition lay_over :: "rwset \<Rightarrow> overlay \<Rightarrow> overlay" where
  "lay_over w m a k = (case GetAddressAndKey w a k of Some v \<Rightarrow> Some v | None \<Rightarrow> m a k)"

definition reads_written :: "overlay \<Rightarrow> rwset \<Rightarrow> bool" where
  "reads_written m r \<longleftrightarrow> (\<exists>a k. GetAddressAndKey r a k \<noteq> None \<and> m a k \<noteq> None)"

primrec detect_spec :: "(hash \<times> outcome_rec) list \<Rightarrow> overlay \<Rightarrow> hash list \<times> overlay" where
  "detect_spec [] m = ([], m)"
| "detect_spec (x # xs) m =
     (if reads_written m (r_ReadSet (snd x)) then (let (c, m') = detect_spec xs m in (fst x # c, m'))
      else detect_spec xs (lay_over (r_WriteSet (snd x)) m))"

definition written_at :: "(address, cachemap) gomap \<Rightarrow> overlay" where
  "written_at W a k = (case lookup W a of None \<Rightarrow> None | Some m \<Rightarrow> lookup m k)"

lemma written_at_Nil [simp]: "written_at [] = (\<lambda>_ _. None)"
  by (simp add: written_at_def fun_eq_iff)

definition wf_set :: "rwset \<Rightarrow> bool" where
  "wf_set r \<longleftrightarrow> wf_map (cache r) \<and> (\<forall>(a, m) \<in> set (cache r). wf_map m)"

lemma wf_set_lookup: "wf_set r \<Longrightarrow> (a, m) \<in> set (cache r) \<longleftrightarrow> lookup (cache r) a = Some m"
  by (auto simp: wf_set_def wf_map_def)

lemma in_conflict_iff:
  assumes "wf_set r"
  shows "in_conflict W r \<longleftrightarrow> reads_written (written_at W) r"
proof -
  have inner: "(\<exists>(key, _) \<in> set m. P key) \<longleftrightarrow> (\<exists>key. lookup m key \<noteq> None \<and> P key)" for m :: cachemap and P
    unfolding in_keys_iff_lookup [symmetric] by (force simp: image_iff)
  have outer: "(\<exists>(a, m) \<in> set (cache r). P a m) \<longleftrightarrow> (\<exists>a m. lookup (cache r) a = Some m \<and> P a m)" for P
    using wf_set_lookup [OF assms] by fastforce
  have "in_conflict W r \<longleftrightarrow> (\<exists>a m. lookup (cache r) a = Some m \<and>
      (case lookup W a of None \<Rightarrow> False | Some keyMap \<Rightarrow> \<exists>key. lookup m key \<noteq> None \<and> lookup keyMap key \<noteq> None))"
    unfolding in_conflict_def outer inner ..
  also have "\<dots> \<longleftrightarrow> reads_written (written_at W) r"
  proof -
    have "(\<exists>m. lookup (cache r) a = Some m \<and>
        (case lookup W a of None \<Rightarrow> False | Some keyMap \<Rightarrow> \<exists>key. lookup m key \<noteq> None \<and> lookup keyMap key \<noteq> None)) \<longleftrightarrow>
      (\<exists>k. GetAddressAndKey r a k \<noteq> None \<and> written_at W a k \<noteq> None)" for a
      by (cases "lookup (cache r) a"; cases "lookup W a") (auto simp: GetAddressAndKey_def written_at_def split: option.split)
    then show ?thesis by (simp only: reads_written_def)
  qed
  finally show ?thesis .
qed

lemma lookup_fold_update:
  "wf_map m \<Longrightarrow> lookup (fold (\<lambda>(key, v) m. AList.update key v m) m n) k = (case lookup m k of Some v \<Rightarrow> Some v | None \<Rightarrow> lookup n k)"
proof (induction m arbitrary: n)
  case (Cons e m)
  then have "wf_map m" "lookup m (fst e) = None" by (auto simp: wf_map_def map_of_eq_None_iff)
  with Cons.IH [OF this(1)] show ?case
    by (cases e; cases "k = fst e") (simp_all split: option.split)
qed simp

text \<open>While records are merged, the ones that are still to come stay as they are: maps are shared with earlier ones only.\<close>

definition untouched :: "hash set \<Rightarrow> cache_set \<Rightarrow> detect_state \<Rightarrow> bool" where
  "untouched P c d \<longleftrightarrow> (\<forall>a h. lookup (ds_owner d) a = Some (Some h) \<longrightarrow> h \<in> P) \<and>
     (\<forall>h. h \<notin> P \<longrightarrow> lookup (cs_cache (ds_set d)) h = lookup (cs_cache c) h)"

lemma untouched_mono: "untouched P c d \<Longrightarrow> P \<subseteq> Q \<Longrightarrow> untouched Q c d"
  by (auto simp: untouched_def)

lemma untouched_conflicts [simp]: "untouched P c (d\<lparr>ds_conflicts := hs\<rparr>) = untouched P c d"
  by (simp add: untouched_def)

lemma alias_write_lookup:
  "own \<noteq> Some h \<Longrightarrow> lookup (cs_cache (alias_write c own a m)) h = lookup (cs_cache c) h"
  by (auto simp: alias_write_def split: option.split)

lemma merge_address_step:
  assumes "wf_map m" and "rr_vmError r = None" and "rr_error r = None"
    and "d' = merge_address K h r (a, m) d"
  shows "written_at (Written (ds_written d')) = (\<lambda>b k. if b = a
      then (case lookup m k of Some v \<Rightarrow> Some v | None \<Rightarrow> written_at (Written (ds_written d)) a k)
      else written_at (Written (ds_written d)) b k)"
    and "ds_conflicts d' = ds_conflicts d"
    and "untouched P c d \<Longrightarrow> h \<in> P \<Longrightarrow> untouched P c d'"
proof -
  show "written_at (Written (ds_written d')) = (\<lambda>b k. if b = a
      then (case lookup m k of Some v \<Rightarrow> Some v | None \<Rightarrow> written_at (Written (ds_written d)) a k)
      else written_at (Written (ds_written d)) b k)"
    using assms by (auto simp: merge_address_def Let_def written_at_def lookup_fold_update fun_eq_iff split: option.split)
  show "ds_conflicts d' = ds_conflicts d"
    using assms by (simp add: merge_address_def Let_def split: option.split)
  show "untouched P c d'" if "untouched P c d" "h \<in> P"
  proof (cases "lookup (Written (ds_written d)) a")
    case None
    then show ?thesis using assms that by (auto simp: merge_address_def Let_def untouched_def)
  next
    case (Some cv)
    define own where "own = (case lookup (ds_owner d) a of None \<Rightarrow> None | Some own \<Rightarrow> own)"
    have "own \<noteq> Some x" if "x \<notin> P" for x
      using \<open>untouched P c d\<close> that by (auto simp: own_def untouched_def split: option.splits)
    moreover have "ds_set d' = alias_write (ds_set d) own a (fold (\<lambda>(key, v) m. AList.update key v m) m cv)"
      "ds_owner d' = AList.update a own (ds_owner d)"
      using assms Some by (simp_all add: merge_address_def Let_def own_def)
    ultimately show ?thesis using that(1) by (auto simp: untouched_def alias_write_lookup)
  qed
qed

lemma merge_record:
  assumes "wf_map es" and "\<forall>(a, m) \<in> set es. wf_map m" and "rr_vmError r = None" and "rr_error r = None"
    and "untouched P c d" and "h \<in> P" and "d' = fold (merge_address K h r) es d"
  shows "written_at (Written (ds_written d')) = (\<lambda>a k. case (case lookup es a of None \<Rightarrow> None | Some m \<Rightarrow> lookup m k) of
      Some v \<Rightarrow> Some v | None \<Rightarrow> written_at (Written (ds_written d)) a k) \<and>
    ds_conflicts d' = ds_conflicts d \<and> untouched P c d'"
  using assms(1,2,5,7)
proof (induction es arbitrary: d)
  case Nil
  then show ?case by (simp add: fun_eq_iff)
next
  case (Cons e es)
  obtain a m where e: "e = (a, m)" by fastforce
  let ?d1 = "merge_address K h r (a, m) d"
  from Cons.prems have es: "wf_map es" "\<forall>(a, m) \<in> set es. wf_map m" "lookup es a = None" "wf_map m"
    by (auto simp: e wf_map_def map_of_eq_None_iff)
  note step = merge_address_step [OF es(4) assms(3,4) refl, where K = K and h = h and a = a and d = d]
  from Cons.IH [OF es(1,2) step(3) [OF Cons.prems(3) assms(6)]] Cons.prems(4) step(1,2) es(3)
  show ?case by (auto simp: e fun_eq_iff split: option.splits)
qed

lemma detect_tx_refines:
  assumes "untouched P c d" and "h \<notin> P" and "lookup (cs_cache c) h = Some r"
    and "wf_set (r_ReadSet (rr_Res r))" and "wf_set (r_WriteSet (rr_Res r))"
    and "rr_vmError r = None" and "rr_error r = None" and "d' = detect_tx K (i, h) d"
  shows "untouched (insert h P) c d' \<and>
    (if reads_written (written_at (Written (ds_written d))) (r_ReadSet (rr_Res r))
     then ds_conflicts d' = ds_conflicts d @ [h] \<and> written_at (Written (ds_written d')) = written_at (Written (ds_written d))
     else ds_conflicts d' = ds_conflicts d \<and>
       written_at (Written (ds_written d')) = lay_over (r_WriteSet (rr_Res r)) (written_at (Written (ds_written d))))"
proof -
  have get: "GetRecordWithTxHash (ds_set d) h = Some r"
    using assms(1-3) by (simp add: untouched_def GetRecordWithTxHash_def)
  let ?d = "d\<lparr>ds_set := set_TxIndex (ds_set d) h (of_nat i)\<rparr>"
  have u: "untouched (insert h P) c ?d"
    using assms(1) by (auto simp: untouched_def set_TxIndex_def split: option.split)
  have ws: "wf_map (cache (r_WriteSet (rr_Res r)))" "\<forall>(a, m) \<in> set (cache (r_WriteSet (rr_Res r))). wf_map m"
    using assms(5) by (auto simp: wf_set_def)
  from merge_record [OF ws assms(6,7) u insertI1 refl, of K] show ?thesis
    using get assms(1,8) in_conflict_iff [OF assms(4), of "Written (ds_written d)"]
    by (auto simp: detect_tx_def lay_over_def GetAddressAndKey_def fun_eq_iff intro: untouched_mono split: option.split)
qed

definition clean_record :: "rw_record \<Rightarrow> bool" where
  "clean_record r \<longleftrightarrow> wf_set (r_ReadSet (rr_Res r)) \<and> wf_set (r_WriteSet (rr_Res r)) \<and> rr_vmError r = None \<and> rr_error r = None"

definition results_in_order :: "cache_set \<Rightarrow> hash list \<Rightarrow> (hash \<times> outcome_rec) list" where
  "results_in_order c hs = List.map_filter (\<lambda>h. map_option (\<lambda>r. (h, rr_Res r)) (lookup (cs_cache c) h)) hs"

lemma detect_list_refines:
  assumes "untouched P c d" and "distinct hs" and "set hs \<inter> P = {}"
    and "\<forall>h \<in> set hs. \<exists>r. lookup (cs_cache c) h = Some r \<and> clean_record r"
    and "d' = fold (detect_tx K) (enumerate n hs) d"
  shows "(ds_conflicts d', written_at (Written (ds_written d'))) =
    (let (cs, m) = detect_spec (results_in_order c hs) (written_at (Written (ds_written d))) in (ds_conflicts d @ cs, m))"
  using assms
proof (induction hs arbitrary: P d n)
  case Nil
  then show ?case by (simp add: results_in_order_def map_filter_simps)
next
  case (Cons h hs)
  obtain r where r: "lookup (cs_cache c) h = Some r" "clean_record r" using Cons.prems(4) by auto
  let ?d1 = "detect_tx K (n, h) d"
  have step: "untouched (insert h P) c ?d1 \<and>
    (if reads_written (written_at (Written (ds_written d))) (r_ReadSet (rr_Res r))
     then ds_conflicts ?d1 = ds_conflicts d @ [h] \<and> written_at (Written (ds_written ?d1)) = written_at (Written (ds_written d))
     else ds_conflicts ?d1 = ds_conflicts d \<and>
       written_at (Written (ds_written ?d1)) = lay_over (r_WriteSet (rr_Res r)) (written_at (Written (ds_written d))))"
    using Cons.prems(1,3) r by (intro detect_tx_refines) (auto simp: clean_record_def)
  have "results_in_order c (h # hs) = (h, rr_Res r) # results_in_order c hs"
    by (simp add: results_in_order_def map_filter_simps r(1))
  with Cons.IH [OF conjunct1 [OF step], of "Suc n"] Cons.prems step show ?case
    by (auto split: prod.splits if_splits)
qed

text \<open>C11. The detection of conflicts refines its specification: going through the records in their order, a record that has
  read a key which an earlier record without conflict has written is put off, the write set of every other
  is laid over what is written, and nothing else decides. Here no record has an error.\<close>

theorem detection_refines:
  assumes "distinct (Order c)"
    and "\<forall>h \<in> set (Order c). \<exists>r. lookup (cs_cache c) h = Some r \<and> clean_record r"
  shows "(ds_conflicts (detect_all K c NewWrittenBefore), written_at (Written (ds_written (detect_all K c NewWrittenBefore)))) =
    detect_spec (results_in_order c (Order c)) (\<lambda>_ _. None)"
proof -
  let ?d = "\<lparr>ds_set = c, ds_owner = [], ds_written = NewWrittenBefore, ds_reses = [], ds_conflicts = []\<rparr>"
  have "untouched {} c ?d" by (simp add: untouched_def)
  from detect_list_refines [OF this assms(1) _ assms(2) refl, of K 0] show ?thesis
    by (simp add: detect_all_def NewWrittenBefore_def split: prod.splits)
qed

text \<open>The second of two records reads the key that the first writes.\<close>

abbreviation reader_of_5 :: outcome_rec where
  "reader_of_5 \<equiv> (std_outcome (rw_put NewWriteSet 1 6 (VBytes [2])) [])\<lparr>r_ReadSet := rw_put NewReadSet 1 5 (VU64 0)\<rparr>"

abbreviation two_records :: cache_set where
  "two_records \<equiv> SetCache (SetCache NewCacheSet 10 (record_of (std_outcome (rw_put NewWriteSet 1 5 (VBytes [1])) []))) 11
    (record_of reader_of_5)"

theorem detection_refines_witness: "ds_conflicts (detect_all keys_std two_records NewWrittenBefore) = [11]"
proof -
  have "Order two_records = [10, 11]" and
    l: "lookup (cs_cache two_records) 10 = Some (record_of (std_outcome (rw_put NewWriteSet 1 5 (VBytes [1])) []))"
      "lookup (cs_cache two_records) 11 = Some (record_of reader_of_5)"
    by (simp_all add: SetCache_def NewCacheSet_def)
  moreover have "wf_set NewReadSet" "wf_set (rw_put NewWriteSet 1 k v)" "wf_set (rw_put NewReadSet 1 k v)" for k v
    by (simp_all add: wf_set_def rw_put_def inner_def NewReadSet_def NewWriteSet_def wf_map_def)
  moreover have "reads_written (lay_over (rw_put NewWriteSet 1 5 (VBytes [1])) (\<lambda>_ _. None)) (rw_put NewReadSet 1 5 (VU64 0))"
    unfolding reads_written_def by (intro exI [of _ 1] exI [of _ 5]) (simp add: lay_over_def GetAddressAndKey_put)
  moreover have "\<not> reads_written (\<lambda>_ _. None) NewReadSet" by (simp add: reads_written_def)
  ultimately show ?thesis
    using detection_refines [of two_records keys_std]
    by (simp add: clean_record_def record_of_def std_outcome_def results_in_order_def map_filter_simps)
qed

section \<open>Errors and empty write sets\<close>

lemma merge_written_other:
  "a \<notin> fst ` set es \<Longrightarrow> lookup (Written (ds_written (fold (merge_address K h r) es d))) a = lookup (Written (ds_written d)) a"
proof (induction es arbitrary: d)
  case (Cons e es)
  have "lookup (Written (ds_written (merge_address K h r e d))) a = lookup (Written (ds_written d)) a"
    using Cons.prems by (cases e) (auto simp: merge_address_def Let_def split: option.splits)
  with Cons show ?case by simp
qed simp

text \<open>A failed transaction that has written its nonce for an account erases what the level has written to that account
  before it: afterwards the nonce is all that is left to commit there.\<close>

theorem failed_transaction_erases_writes:
  assumes "lookup (cs_cache (ds_set d)) h = Some r" and "rr_vmError r \<noteq> None \<or> rr_error r \<noteq> None"
    and "\<not> in_conflict (Written (ds_written d)) (r_ReadSet (rr_Res r))" and "wf_map (cache (r_WriteSet (rr_Res r)))"
    and "GetAddressAndKey (r_WriteSet (rr_Res r)) a (NonceKey K) = Some v"
  shows "lookup (Written (ds_written (detect_tx K (i, h) d))) a = Some [(NonceKey K, v)]"
proof -
  obtain m where m: "lookup (cache (r_WriteSet (rr_Res r))) a = Some m" "lookup m (NonceKey K) = Some v"
    using assms(5) by (auto simp: GetAddressAndKey_def split: option.splits)
  then obtain es fs where es: "cache (r_WriteSet (rr_Res r)) = es @ (a, m) # fs"
    by (meson map_of_SomeD split_list)
  with assms(4) have fs: "a \<notin> fst ` set fs" by (auto simp: wf_map_def)
  have "lookup (Written (ds_written (merge_address K h r (a, m) d'))) a = Some [(NonceKey K, v)]" for d'
    using assms(2) m(2) by (auto simp: merge_address_def Let_def split: option.split)
  then show ?thesis
    using assms(1,3) by (simp add: detect_tx_def GetRecordWithTxHash_def es merge_written_other [OF fs])
qed

text \<open>The account 1 has a slot written when a failed transaction with a nonce for it comes.\<close>

abbreviation failing :: outcome_rec where
  "failing \<equiv> (std_outcome (rw_put NewWriteSet 1 (NonceKey keys_std) (VU64 7)) [])\<lparr>r_VmErr := Some GasLimitReached\<rparr>"

abbreviation busy_state :: detect_state where
  "busy_state \<equiv> \<lparr>ds_set = SetCache NewCacheSet 11 (record_of failing), ds_owner = [(1, Some 10)],
     ds_written = \<lparr>Written = [(1, [(5, VBytes [1])])], wb_Logs = []\<rparr>, ds_reses = [10], ds_conflicts = []\<rparr>"

theorem failed_transaction_erases_writes_witness:
  "lookup (Written (ds_written busy_state)) 1 = Some [(5, VBytes [1])] \<and>
   lookup (Written (ds_written (detect_tx keys_std (1, 11) busy_state))) 1 = Some [(NonceKey keys_std, VU64 7)]"
proof -
  have "lookup (Written (ds_written (detect_tx keys_std (1, 11) busy_state))) 1 = Some [(NonceKey keys_std, VU64 7)]"
    by (rule failed_transaction_erases_writes [where r = "record_of failing"])
      (simp_all add: SetCache_def NewCacheSet_def record_of_def std_outcome_def in_conflict_def NewReadSet_def GetAddressAndKey_put
        rw_put_def inner_def NewWriteSet_def wf_map_def GetAddressAndKey_def)
  then show ?thesis by simp
qed

lemma detect_nothing:
  assumes "Written (ds_written d) = []"
    and "\<forall>h \<in> set hs. \<forall>r. lookup (cs_cache (ds_set d)) h = Some r \<longrightarrow> cache (r_WriteSet (rr_Res r)) = []"
  shows "Written (ds_written (fold (detect_tx K) (enumerate n hs) d)) = []"
  using assms
proof (induction hs arbitrary: d n)
  case (Cons h hs)
  let ?d = "detect_tx K (n, h) d"
  have "Written (ds_written ?d) = []"
    "\<forall>g \<in> set hs. \<forall>r. lookup (cs_cache (ds_set ?d)) g = Some r \<longrightarrow> cache (r_WriteSet (rr_Res r)) = []"
    using Cons.prems
    by (auto simp: detect_tx_def GetRecordWithTxHash_def in_conflict_def set_TxIndex_def split: option.splits)
  with Cons.IH [of ?d "Suc n"] show ?case by simp
qed simp

text \<open>State objects of the concrete database are addresses.\<close>

definition std_objects :: "(std_db, address) object_ops" where
  "std_objects = \<lparr>ob_Get = (\<lambda>s a. a), ob_GetBalance = db_GetBalance std_accounts, ob_SetBalance = db_SetBalance std_accounts,
     ob_SetNonce = db_SetNonce std_accounts, ob_SetState = db_SetState std_accounts\<rparr>"

text \<open>When no record of a level has written anything, as when every transaction of it was rejected, the commit waits for
  an object that never comes: the block is never done.\<close>

theorem empty_level_waits_for_ever:
  assumes "\<forall>h \<in> set (Order c). \<forall>r. lookup (cs_cache c) h = Some r \<longrightarrow> cache (r_WriteSet (rr_Res r)) = []"
  shows "DetectConflicts B N E c mc NewWrittenBefore reses s gp used level = None"
proof -
  have "Written (ds_written (detect_all (eK E) c NewWrittenBefore)) = []"
    unfolding detect_all_def by (rule detect_nothing) (use assms in \<open>simp_all add: NewWrittenBefore_def\<close>)
  then show ?thesis
    by (cases "count_levels mc level") (simp_all add: DetectConflicts_def UpdateWrittenCacheToDataBase_def Let_def)
qed

theorem empty_level_waits_for_ever_witness:
  "DetectConflicts std_objects std_node std_env
     (SetCache NewCacheSet 11 (record_of (failed_outcome GasLimitReached 0 (example_tx 0xA0 (Some 0xB0)) std_msg)))
     NewMarkCache NewWrittenBefore [] (std_core_empty, []) 0 0 0 = None"
  by (rule empty_level_waits_for_ever) (simp add: SetCache_def NewCacheSet_def record_of_def failed_outcome_def NewWriteSet_def)

section \<open>The commit through state objects\<close>

text \<open>What the commit relies on in state objects: an object stands for one account, its writes touch no other account and no
  code. What is written through it is seen in the database while the object is \<open>current\<close>: from when it is fetched
  until its account is created anew, which leaves the object behind.\<close>

definition object_writes :: "('s, 'o) object_ops \<Rightarrow> 's \<Rightarrow> 'o \<Rightarrow> 's set" where
  "object_writes B s ob = range (ob_SetBalance B s ob) \<union> range (ob_SetNonce B s ob) \<union> (\<Union>k. range (ob_SetState B s ob k))"

definition keeps_others :: "'s account_ops \<Rightarrow> address \<Rightarrow> 's \<Rightarrow> 's \<Rightarrow> bool" where
  "keeps_others A a s s' \<longleftrightarrow> (\<forall>b. b \<noteq> a \<longrightarrow> view A s' b = view A s b) \<and> ac_code (view A s' a) = ac_code (view A s a)"

definition objects_spec :: "'s account_ops \<Rightarrow> ('s, 'o) object_ops \<Rightarrow> ('o \<Rightarrow> address) \<Rightarrow> ('s \<Rightarrow> 'o \<Rightarrow> bool) \<Rightarrow> bool" where
  "objects_spec A B account current \<longleftrightarrow>
     (\<forall>s a. account (ob_Get B s a) = a \<and> current s (ob_Get B s a)) \<and>
     (\<forall>s ob. \<forall>s' \<in> object_writes B s ob. keeps_others A (account ob) s s' \<and> (\<forall>ob'. current s ob' \<longrightarrow> current s' ob')) \<and>
     (\<forall>s ob a. current s ob \<and> account ob \<noteq> a \<longrightarrow> current (db_CreateAccount A s a) ob) \<and>
     (\<forall>s ob a n. current s ob \<longrightarrow> current (db_SetNonce A s a n) ob) \<and>
     (\<forall>s ob a. current s ob \<and> account ob = a \<longrightarrow>
        ob_GetBalance B s ob = ac_balance (view A s a) \<and>
        (\<forall>v. view A (ob_SetBalance B s ob v) = (view A s)(a := (view A s a)\<lparr>ac_balance := v\<rparr>)) \<and>
        (\<forall>n. view A (ob_SetNonce B s ob n) = (view A s)(a := (view A s a)\<lparr>ac_nonce := n\<rparr>)) \<and>
        (\<forall>k h. view A (ob_SetState B s ob k h) =
           (view A s)(a := (view A s a)\<lparr>ac_slots := (ac_slots (view A s a))(k := h)\<rparr>)))"

lemma std_objects_spec: "objects_spec std_accounts std_objects id (\<lambda>_ _. True)"
  by (auto simp: objects_spec_def std_objects_def object_writes_def keeps_others_def view_writes [OF std_accounts_spec])
    (simp add: view_def)

lemma objects_specD:
  assumes "objects_spec A B account current" and "current s ob" and "account ob = a"
  shows "ob_GetBalance B s ob = ac_balance (view A s a)"
    "view A (ob_SetBalance B s ob v) = (view A s)(a := (view A s a)\<lparr>ac_balance := v\<rparr>)"
    "view A (ob_SetNonce B s ob n) = (view A s)(a := (view A s a)\<lparr>ac_nonce := n\<rparr>)"
    "view A (ob_SetState B s ob k h) = (view A s)(a := (view A s a)\<lparr>ac_slots := (ac_slots (view A s a))(k := h)\<rparr>)"
  using assms by (simp_all add: objects_spec_def)

lemma objects_spec_writes:
  assumes "objects_spec A B account current" and "s' \<in> object_writes B s ob"
  shows "keeps_others A (account ob) s s'" "current s ob' \<Longrightarrow> current s' ob'"
  using assms by (simp_all add: objects_spec_def)

text \<open>A chain of object writes, whatever the object is worth.\<close>

inductive object_chain :: "('s, 'o) object_ops \<Rightarrow> 'o \<Rightarrow> 's \<Rightarrow> 's \<Rightarrow> bool" for B ob where
  chain_refl: "object_chain B ob s s"
| chain_step: "s' \<in> object_writes B s ob \<Longrightarrow> object_chain B ob s' s'' \<Longrightarrow> object_chain B ob s s''"

lemma chain_one:
  "object_chain B ob s (ob_SetBalance B s ob v)" "object_chain B ob s (ob_SetNonce B s ob n)"
  "object_chain B ob s (ob_SetState B s ob k h)"
  by (rule chain_step [OF _ chain_refl], unfold object_writes_def, blast)+

lemma object_chain_trans: "object_chain B ob s s' \<Longrightarrow> object_chain B ob s' s'' \<Longrightarrow> object_chain B ob s s''"
  by (induction rule: object_chain.induct) (auto intro: chain_step)

lemma object_chain_keeps:
  assumes "object_chain B ob s s'" and "objects_spec A B account current"
  shows "keeps_others A (account ob) s s' \<and> (\<forall>ob'. current s ob' \<longrightarrow> current s' ob')"
  using assms(1)
  by (induction rule: object_chain.induct) (use objects_spec_writes [OF assms(2)] in \<open>fastforce simp: keeps_others_def\<close>)+

lemma object_entry_chain:
  assumes "keys_distinct (eK E)" and "typed_entry (eK E) e"
  shows "\<exists>s'. object_entry B E ob s e = Some s' \<and> object_chain B ob s s'"
  using assms
  by (cases e) (auto simp: object_entry_def Let_def keys_distinct_def intro: chain_refl chain_one split: if_splits)

lemma object_entries_chain:
  assumes "keys_distinct (eK E)" and "typed_map (eK E) m"
  shows "\<exists>s'. object_entries B E ob m s = Some s' \<and> object_chain B ob s s'"
  using assms(2)
proof (induction m arbitrary: s)
  case (Cons e m)
  then obtain s1 where s1: "object_entry B E ob s e = Some s1" "object_chain B ob s s1"
    using object_entry_chain [OF assms(1)] by (fastforce simp: typed_map_def)
  with Cons.IH [of s1] Cons.prems show ?case by (auto simp: typed_map_def intro: object_chain_trans)
qed (simp add: chain_refl)

lemma object_entry_view:
  assumes "objects_spec (eA E) B account current" and "current s ob" and "account ob = a"
    and "keys_distinct (eK E)" and "typed_entry (eK E) e"
  shows "\<exists>s'. object_entry B E ob s e = Some s' \<and>
    view (eA E) s' = (view (eA E) s)(a := after_entries (eK E) (eG E) [e] (view (eA E) s a))"
  using assms(4,5)
  by (cases e) (auto simp: object_entry_def Let_def objects_specD [OF assms(1-3)] after_entries_def debit_def new_nonce_def
      new_slot_def plain_slot_def keys_distinct_def fun_eq_iff split: if_splits)

lemma object_entries_view:
  assumes "objects_spec (eA E) B account current" and "current s ob" and "account ob = a"
    and "keys_distinct (eK E)" and "typed_map (eK E) m" and "wf_map m"
  shows "\<exists>s'. object_entries B E ob m s = Some s' \<and>
    view (eA E) s' = (view (eA E) s)(a := after_entries (eK E) (eG E) m (view (eA E) s a))"
  using assms(2,5,6)
proof (induction m arbitrary: s)
  case Nil
  then show ?case by (simp add: after_entries_Nil)
next
  case (Cons e m)
  obtain k v where e: "e = (k, v)" by fastforce
  from Cons.prems have m: "typed_map (eK E) m" "wf_map m" "k \<notin> fst ` set m" and te: "typed_entry (eK E) e"
    by (auto simp: typed_map_def wf_map_def e)
  obtain s1 where s1: "object_entry B E ob s e = Some s1"
      "view (eA E) s1 = (view (eA E) s)(a := after_entries (eK E) (eG E) [e] (view (eA E) s a))"
    using object_entry_view [OF assms(1) Cons.prems(1) assms(3,4) te] by blast
  have "current s1 ob"
    using object_entry_chain [OF assms(4) te, of B ob s] object_chain_keeps [OF _ assms(1)] s1(1) Cons.prems(1) by fastforce
  from Cons.IH [OF this m(1,2)] s1 show ?case
    by (auto simp: e after_entries_Cons [OF m(3) assms(4)] intro!: ext)
qed

text \<open>What the commit through objects makes of an account: of one that is not new all but the code; of a new one only
  the code is known, the one that \<^verbatim>\<open>CreateAccount\<close> left, for what is written there goes to an object that is left behind.\<close>

definition code_kept :: "acct \<Rightarrow> acct \<Rightarrow> acct" where
  "code_kept old new = new\<lparr>ac_code := ac_code old\<rparr>"

definition object_committed :: "(acct \<Rightarrow> acct) \<Rightarrow> rw_keys \<Rightarrow> geth_ops \<Rightarrow> cachemap \<Rightarrow> acct \<Rightarrow> acct \<Rightarrow> bool" where
  "object_committed fresh K G m x y \<longleftrightarrow>
     (if lookup m (CreatAccountKey K) = None then y = code_kept x (committed fresh K G m x)
      else ac_code y = ac_code (fresh x))"

lemma commit_object_old:
  assumes "objects_spec (eA E) B account current" and "current s ob" and "account ob = a"
    and "keys_distinct (eK E)" and "typed_map (eK E) m" and "wf_map m" and "lookup m (CreatAccountKey (eK E)) = None"
  shows "\<exists>s'. commit_object B E a ob m s = Some s' \<and> object_chain B ob s s' \<and> view (eA E) s' =
    (view (eA E) s)(a := code_kept (view (eA E) s a) (committed fresh (eK E) (eG E) m (view (eA E) s a)))"
proof -
  let ?K = "eK E" and ?A = "eA E"
  obtain s1 where s1: "(case lookup m (BalanceKey ?K) of Some v \<Rightarrow> do { b \<leftarrow> as_big v; Some (ob_SetBalance B s ob b) }
      | None \<Rightarrow> Some s) = Some s1" "object_chain B ob s s1"
    and v1: "view ?A s1 = (view ?A s)(a := (view ?A s a)\<lparr>ac_balance :=
      (case lookup m (BalanceKey ?K) of Some (VBig b) \<Rightarrow> b | _ \<Rightarrow> ac_balance (view ?A s a))\<rparr>)"
    using typed_map_lookup [OF assms(5), of "BalanceKey ?K"]
    by (cases "lookup m (BalanceKey ?K)")
      (auto simp: objects_specD [OF assms(1-3)] chain_refl chain_one)
  have "current s1 ob" using object_chain_keeps [OF s1(2) assms(1)] assms(2) by blast
  from object_entries_view [OF assms(1) this assms(3-6)] obtain s2 where s2: "object_entries B E ob m s1 = Some s2"
    "view ?A s2 = (view ?A s1)(a := after_entries ?K (eG E) m (view ?A s1 a))" by blast
  have "object_chain B ob s1 s2" using object_entries_chain [OF assms(4,5), of B ob s1] s2(1) by auto
  moreover have "commit_object B E a ob m s = Some s2" using s1(1) s2(1) assms(7) by (simp add: commit_object_def)
  moreover have "view ?A s2 = (view ?A s)(a := code_kept (view ?A s a) (committed fresh ?K (eG E) m (view ?A s a)))"
    unfolding s2(2) v1 using assms(7)
    by (intro ext) (simp add: committed_def after_entries_def code_kept_def Let_def split: option.split goval.split)
  ultimately show ?thesis using object_chain_trans [OF s1(2)] by blast
qed

lemma commit_object_new:
  assumes "accounts_spec (eA E)" and "creation_spec (eA E) fresh"
    and "keys_distinct (eK E)" and "typed_map (eK E) m" and "lookup m (CreatAccountKey (eK E)) \<noteq> None"
  shows "\<exists>s1 s'. commit_object B E a ob m s = Some s' \<and> s1 = db_SetNonce (eA E) (db_CreateAccount (eA E) s a) a 1 \<and>
    object_chain B ob s1 s' \<and> view (eA E) s1 = (view (eA E) s)(a := (fresh (view (eA E) s a))\<lparr>ac_nonce := 1\<rparr>)"
proof -
  define s1 where "s1 = db_SetNonce (eA E) (db_CreateAccount (eA E) s a) a 1"
  have v: "view (eA E) s1 = (view (eA E) s)(a := (fresh (view (eA E) s a))\<lparr>ac_nonce := 1\<rparr>)"
    using assms(2) by (auto simp: s1_def view_writes [OF assms(1)] creation_spec_def)
  obtain s2 where s2: "(case lookup m (BalanceKey (eK E)) of Some v \<Rightarrow> do { b \<leftarrow> as_big v; Some (ob_SetBalance B s1 ob b) }
      | None \<Rightarrow> Some s1) = Some s2" "object_chain B ob s1 s2"
    using typed_map_lookup [OF assms(4), of "BalanceKey (eK E)"]
    by (cases "lookup m (BalanceKey (eK E))") (auto simp: chain_refl chain_one)
  obtain s' where s': "object_entries B E ob m s2 = Some s'" "object_chain B ob s2 s'"
    using object_entries_chain [OF assms(3,4), where B = B and s = s2 and ob = ob] by blast
  have "commit_object B E a ob m s = Some s'"
    using s2(1) s'(1) assms(5) by (simp add: commit_object_def Let_def flip: s1_def)
  then show ?thesis using s1_def v object_chain_trans [OF s2(2) s'(2)] by blast
qed

lemma commit_object_view:
  assumes "accounts_spec (eA E)" and "creation_spec (eA E) fresh" and "objects_spec (eA E) B account current"
    and "current s ob" and "account ob = a" and "keys_distinct (eK E)" and "typed_map (eK E) m" and "wf_map m"
  shows "\<exists>s'. commit_object B E a ob m s = Some s' \<and>
    object_committed fresh (eK E) (eG E) m (view (eA E) s a) (view (eA E) s' a) \<and>
    (\<forall>b. b \<noteq> a \<longrightarrow> view (eA E) s' b = view (eA E) s b) \<and>
    (\<forall>ob'. current s ob' \<and> account ob' \<noteq> a \<longrightarrow> current s' ob')"
proof (cases "lookup m (CreatAccountKey (eK E)) = None")
  case True
  from commit_object_old [OF assms(3-8) True, of fresh] obtain s' where s': "commit_object B E a ob m s = Some s'"
    "object_chain B ob s s'"
    "view (eA E) s' = (view (eA E) s)(a := code_kept (view (eA E) s a) (committed fresh (eK E) (eG E) m (view (eA E) s a)))"
    by blast
  then show ?thesis using object_chain_keeps [OF s'(2) assms(3)] True by (auto simp: object_committed_def)
next
  case False
  from commit_object_new [OF assms(1,2,6,7) False, of B a ob s] obtain s1 s' where s':
    "commit_object B E a ob m s = Some s'" "s1 = db_SetNonce (eA E) (db_CreateAccount (eA E) s a) a 1"
    "object_chain B ob s1 s'" "view (eA E) s1 = (view (eA E) s)(a := (fresh (view (eA E) s a))\<lparr>ac_nonce := 1\<rparr>)"
    by blast
  have "current s1 ob'" if "current s ob'" "account ob' \<noteq> a" for ob'
    using assms(3) that unfolding objects_spec_def s'(2) by blast
  with object_chain_keeps [OF s'(3) assms(3)] s'(1,4) False assms(5) show ?thesis
    by (auto simp: object_committed_def keeps_others_def)
qed

lemma commit_objects_view:
  assumes "accounts_spec (eA E)" and "creation_spec (eA E) fresh" and "objects_spec (eA E) B account current"
    and "keys_distinct (eK E)" and "wf_map c" and "\<forall>(a, m) \<in> set c. typed_map (eK E) m \<and> wf_map m"
    and "\<forall>(a, m) \<in> set c. current s (ob_Get B s0 a)"
  shows "\<exists>s'. commit_objects B E (map (\<lambda>(a, m). (a, ob_Get B s0 a, m)) c) s = Some s' \<and> (\<forall>a.
    case lookup c a of None \<Rightarrow> view (eA E) s' a = view (eA E) s a
     | Some m \<Rightarrow> object_committed fresh (eK E) (eG E) m (view (eA E) s a) (view (eA E) s' a))"
  using assms(5-7)
proof (induction c arbitrary: s)
  case (Cons e c)
  obtain b m where e: "e = (b, m)" by fastforce
  from Cons.prems have c: "wf_map c" "\<forall>(a, m) \<in> set c. typed_map (eK E) m \<and> wf_map m" "lookup c b = None"
    and m: "typed_map (eK E) m" "wf_map m" and cur: "current s (ob_Get B s0 b)"
    by (auto simp: e wf_map_def map_of_eq_None_iff)
  have acc: "account (ob_Get B s0 a) = a" for a using assms(3) by (simp add: objects_spec_def)
  obtain s1 where s1: "commit_object B E b (ob_Get B s0 b) m s = Some s1"
      "object_committed fresh (eK E) (eG E) m (view (eA E) s b) (view (eA E) s1 b)"
    and o1: "\<forall>a. a \<noteq> b \<longrightarrow> view (eA E) s1 a = view (eA E) s a"
      "\<forall>ob'. current s ob' \<and> account ob' \<noteq> b \<longrightarrow> current s1 ob'"
    using commit_object_view [OF assms(1-3) cur acc assms(4) m] by blast
  have "\<forall>(a, m) \<in> set c. current s1 (ob_Get B s0 a)"
    using Cons.prems(1,3) o1(2) acc by (force simp: e wf_map_def)
  from Cons.IH [OF c(1,2) this] obtain s' where
    "commit_objects B E (map (\<lambda>(a, m). (a, ob_Get B s0 a, m)) c) s1 = Some s'"
    and *: "case lookup c a of None \<Rightarrow> view (eA E) s' a = view (eA E) s1 a
       | Some m \<Rightarrow> object_committed fresh (eK E) (eG E) m (view (eA E) s1 a) (view (eA E) s' a)" for a by blast
  moreover have "case lookup (e # c) a of None \<Rightarrow> view (eA E) s' a = view (eA E) s a
       | Some m \<Rightarrow> object_committed fresh (eK E) (eG E) m (view (eA E) s a) (view (eA E) s' a)" for a
    using * [of a] s1(2) c(3) o1(1) by (cases "a = b") (auto simp: e split: option.splits)
  ultimately show ?case using s1(1) by (auto simp: e)
qed simp

text \<open>C28. The parallel commit forgets deployed code. On a write set with one entry of code for a new account, as a
  successful creation leaves it, both commits end; the commit in order gives the account the code written, the
  parallel one leaves it with what \<^verbatim>\<open>CreateAccount\<close> left. On every account that is not new the two commits agree
  on balance, nonce and slots, and the parallel one keeps the old code.\<close>

theorem commits_agree_but_for_code:
  assumes "accounts_spec (eA E)" and "creation_spec (eA E) fresh" and "logs_spec (eA E) (eJ E)"
    and "objects_spec (eA E) B account current"
    and "keys_distinct (eK E)" and "committable (eK E) w" and "cache w \<noteq> []" and "r_WriteSet res = w"
  shows "\<exists>s1 s2. UpdateWrittenCacheToDataBaseInOrder E res s = Some s1 \<and>
    UpdateWrittenCacheToDataBase B E \<lparr>Written = cache w, wb_Logs = [(tx_Hash (r_Tx res), r_Logs res)]\<rparr> s = Some s2 \<and>
    (\<forall>a. if GetAddressAndKey w a (CreatAccountKey (eK E)) = None
       then view (eA E) s2 a = (view (eA E) s1 a)\<lparr>ac_code := ac_code (view (eA E) s a)\<rparr>
       else ac_code (view (eA E) s2 a) = ac_code (fresh (view (eA E) s a))) \<and>
    (\<forall>a code. GetAddressAndKey w a (SetCodeKey (eK E)) = Some (VBytes code) \<longrightarrow> ac_code (view (eA E) s1 a) = code)"
proof -
  let ?K = "eK E" and ?A = "eA E"
  obtain s1 where s1: "commit_accounts E (cache w) s = Some s1"
    "\<forall>a. view ?A s1 a = (case lookup (cache w) a of None \<Rightarrow> view ?A s a
       | Some m \<Rightarrow> committed fresh ?K (eG E) m (view ?A s a))"
    using commit_accounts_view [OF assms(1,2,5)] assms(6) by (fastforce simp: committable_def)
  have "\<forall>(a, m) \<in> set (cache w). current s (ob_Get B s a)" using assms(4) by (auto simp: objects_spec_def)
  from commit_objects_view [OF assms(1,2,4,5) _ _ this] obtain s2 where
    s2: "commit_objects B E (map (\<lambda>(a, m). (a, ob_Get B s a, m)) (cache w)) s = Some s2"
    and v2: "case lookup (cache w) a of None \<Rightarrow> view ?A s2 a = view ?A s a
       | Some m \<Rightarrow> object_committed fresh ?K (eG E) m (view ?A s a) (view ?A s2 a)" for a
    using assms(6) unfolding committable_def by blast
  have "if GetAddressAndKey w a (CreatAccountKey ?K) = None
       then view ?A s2 a = (view ?A s1 a)\<lparr>ac_code := ac_code (view ?A s a)\<rparr>
       else ac_code (view ?A s2 a) = ac_code (fresh (view ?A s a))" for a
    using v2 [of a] s1(2) by (auto simp: GetAddressAndKey_def object_committed_def code_kept_def split: option.splits if_splits)
  moreover have "ac_code (view ?A s1 a) = code" if "GetAddressAndKey w a (SetCodeKey ?K) = Some (VBytes code)" for a code
    using that s1(2) by (auto simp: GetAddressAndKey_def committed_def Let_def split: option.splits)
  ultimately show ?thesis
    using s1(1) s2 assms(7,8) view_add_logs [OF assms(3)]
    by (simp add: UpdateWrittenCacheToDataBaseInOrder_def UpdateWrittenCacheToDataBase_def)
qed

text \<open>What a successful creation of the account \<open>0xC5\<close> by \<open>0xA0\<close> has written: the nonce of the creator, the mark of the
  new account, its code.\<close>

abbreviation deploy_set :: rwset where
  "deploy_set \<equiv> rw_put (rw_put (rw_put NewWriteSet 0xA0 (NonceKey keys_std) (VU64 1)) 0xC5 (CreatAccountKey keys_std)
     (VBytes (g_AddrBytes geth_std 0xC5))) 0xC5 (SetCodeKey keys_std) (VBytes [0x60])"

lemma deployment_writes:
  "\<exists>vm'. create (\<lambda>vm c input ro. Some (vm, c, [0x60], None)) std_env (std_vm std_core_empty) (AccountRef 0xA0) [] 0 1000 0 0xC5 =
    Some (vm', [0x60], 0xC5, 800, None) \<and> vWriteSet vm' = deploy_set"
proof -
  have new: "GetAddressAndKey NewWriteSet b k = None" "GetAddressAndKey NewReadSet b k = None" for b k
    by (simp_all add: GetAddressAndKey_def NewWriteSet_def NewReadSet_def)
  show ?thesis
    by (simp add: create_def Let_def can_transfer_def nonce_of_def read_put_def write_put_def ReadSet_UpdateCache_eq
        WriteSet_UpdateCache_eq read_value_def write_value_def std_vm_def new take_snapshot_def new_contract_def
        NewContract_def SetCodeOptionalHash_def store_code_def UseGas_def keys_std_def std_journal_def std_accounts_def
        std_core_empty_def GetAddressAndKey_put) (simp add: std_env_def std_core_empty_def)
qed

theorem commits_agree_but_for_code_witness:
  "\<exists>vm'. create (\<lambda>vm c input ro. Some (vm, c, [0x60], None)) std_env (std_vm std_core_empty) (AccountRef 0xA0) [] 0 1000 0 0xC5 =
      Some (vm', [0x60], 0xC5, 800, None) \<and>
    (\<exists>s1 s2. UpdateWrittenCacheToDataBaseInOrder std_env (std_outcome (vWriteSet vm') []) (std_core_empty, []) = Some s1 \<and>
      UpdateWrittenCacheToDataBase std_objects std_env \<lparr>Written = cache (vWriteSet vm'),
        wb_Logs = [(tx_Hash (r_Tx (std_outcome (vWriteSet vm') [])), r_Logs (std_outcome (vWriteSet vm') []))]\<rparr>
        (std_core_empty, []) = Some s2 \<and>
      ac_code (view std_accounts s1 0xC5) = [0x60] \<and> ac_code (view std_accounts s2 0xC5) = [])"
proof -
  have c: "committable keys_std deploy_set" "cache deploy_set \<noteq> []" "r_WriteSet (std_outcome deploy_set []) = deploy_set"
    by (simp_all add: committable_def std_outcome_def rw_put_def inner_def NewWriteSet_def typed_map_def wf_map_def keys_std_def)
  have g: "GetAddressAndKey deploy_set 0xC5 (SetCodeKey keys_std) = Some (VBytes [0x60])"
    "GetAddressAndKey deploy_set 0xC5 (CreatAccountKey keys_std) \<noteq> None"
    by (simp_all add: GetAddressAndKey_put keys_std_def)
  have "ac_code (view std_accounts (std_core_empty, []) 0xC5) = []"
    by (simp add: view_def std_accounts_def std_core_empty_def)
  with commits_agree_but_for_code [where E = std_env, unfolded std_env_simps, OF std_accounts_spec std_creation_spec std_logs_spec
      std_objects_spec keys_std_distinct c, of "(std_core_empty, [])"] deployment_writes g
  show ?thesis by (smt (verit) id_apply)
qed

end
