(* ===== verification/PoolLaws.thy ===== *)
theory PoolLaws
  imports Pool ParallelLaws
begin

text \<open>
  What the pool of workers guarantees: a level that is returned was executed as an interleaving of its transactions, each from
  its beginning to its end and once, and every run of the pool ends; but a level without items hangs.
\<close>

lemma FillUpPool_parts:
  assumes "FillUpPoolWithTask routine items s = Some p0"
  obtains parts where "p0 = NewExecPool routine parts s" "concat parts = items" "length parts = routine" "0 < routine"
proof -
  have r: "0 < routine" using assms by (auto simp: FillUpPoolWithTask_def part_items_def split: if_splits)
  obtain parts where "part_items routine items = Some parts" "length parts = routine" "concat parts = items"
    using slices_partition_items [OF r, of items] by blast
  with assms r show ?thesis by (intro that [of parts]) (simp_all add: FillUpPoolWithTask_def)
qed

lemma pool_run:
  assumes "p0 = NewExecPool routine parts st" "concat parts = items" "length parts = routine"
    and "\<forall>x \<in> set items. within B (handler x)" and "((pool_step handler (length items)) ^^ k) p0 p"
  shows "pool_inv handler routine items st p" "weight B (length items) p + k \<le> (B + 3) * length items + 4 * routine + 3"
proof -
  have inv: "pool_inv handler routine items st p0" unfolding assms(1) by (rule NewExecPool_inv [OF assms(2)])
  show "pool_inv handler routine items st p" using pool_steps_inv [OF relpowp_imp_rtranclp [OF assms(5)] inv] .
  have "bounded handler B p0" unfolding assms(1) by (rule NewExecPool_bounded [OF assms(2,4)])
  from pool_steps_weight [OF assms(5) inv this]
  show "weight B (length items) p + k \<le> (B + 3) * length items + 4 * routine + 3"
    unfolding assms(1) NewExecPool_weight [OF assms(2,3)] by blast
qed

text \<open>C12. However the workers are scheduled, what a returned level has done is an interleaving of its transactions, access by access,
  from the state it began with to the state that is left: each item of the level was executed once, from the beginning of its
  handler to its end, nothing else has touched the state, and the results returned are theirs, one each.\<close>

theorem pool_interleaves:
  assumes "FillUpPoolWithTask routine items st = Some p0" "(pool_step handler (length items))\<^sup>*\<^sup>* p0 p"
    and "pl_driver p = Returned rs"
  shows "\<exists>D. access_step\<^sup>*\<^sup>* (threads handler (mset items), st) (finished_with D, pl_shared p) \<and>
    image_mset fst D = mset items \<and> image_mset snd D = mset rs"
proof -
  obtain parts where p: "p0 = NewExecPool routine parts st" "concat parts = items" "length parts = routine" "0 < routine"
    using FillUpPool_parts [OF assms(1)] by blast
  have "pool_inv handler routine items st p0" unfolding p(1) by (rule NewExecPool_inv [OF p(2)])
  from returned_all [OF pool_steps_inv [OF assms(2) this] p(4) assms(3)] show ?thesis .
qed

text \<open>C13. Every run of the pool ends: if no transaction of the level makes more than \<open>B\<close> accesses, after at most \<open>B + 3\<close> steps for
  each item, four for each worker and three more no step is left, and where none is left, the driver has returned a result for
  every item, or a transaction has panicked.\<close>

theorem pool_ends:
  assumes "FillUpPoolWithTask routine items st = Some p0" "items \<noteq> []" "\<forall>x \<in> set items. within B (handler x)"
    and "((pool_step handler (length items)) ^^ k) p0 p"
  shows "k \<le> (B + 3) * length items + 4 * routine + 3 \<and>
    ((\<exists>p'. pool_step handler (length items) p p') \<or> (\<exists>rs. pl_driver p = Returned rs \<and> length rs = length items) \<or> pl_driver p = Panicked)"
proof -
  obtain parts where p: "p0 = NewExecPool routine parts st" "concat parts = items" "length parts = routine" "0 < routine"
    using FillUpPool_parts [OF assms(1)] by blast
  have inv: "pool_inv handler routine items st p" "weight B (length items) p + k \<le> (B + 3) * length items + 4 * routine + 3"
    using pool_run [OF p(1-3) assms(3,4)] .
  have "length rs = length items" if "pl_driver p = Returned rs" for rs
    using inv(1) that by (simp add: pool_inv_def pool_shape_def driver_ok_def)
  with pool_progress [OF inv(1) p(4)] inv(2) assms(2) show ?thesis by (meson add_leE)
qed

text \<open>C39. A level without items is never returned: the runs of its pool, which end all the same, end with a driver that waits for a
  result that never comes.\<close>

theorem empty_pool_hangs:
  assumes "FillUpPoolWithTask routine [] st = Some p0" "((pool_step handler 0) ^^ k) p0 p"
  shows "k \<le> 4 * routine + 3 \<and> ((\<exists>p'. pool_step handler 0 p p') \<or> pl_driver p = Collecting [])"
proof -
  obtain parts where p: "p0 = NewExecPool routine parts st" "concat parts = []" "length parts = routine" "0 < routine"
    using FillUpPool_parts [OF assms(1)] by blast
  have inv: "pool_inv handler routine [] st p" "weight 0 0 p + k \<le> 4 * routine + 3"
    using pool_run [OF p(1-3), where B = 0 and handler = handler and k = k and p = p] assms(2) by simp_all
  from pool_progress [OF inv(1) p(4)] inv(2) show ?thesis by auto
qed

section \<open>Witnesses\<close>

text \<open>A transaction that doubles its item and counts it in two accesses, a load and a store, between which others may come.\<close>

definition counting :: "nat \<Rightarrow> (nat, nat) code" where
  "counting x = Access (\<lambda>c. Some (Access (\<lambda>d. Some (Ends (2 * x), c + 1)), c))"

abbreviation counted :: "nat \<Rightarrow> nat \<Rightarrow> (nat, nat) code" where
  "counted x c \<equiv> Access (\<lambda>d. Some (Ends (2 * x), c + 1))"

lemma counting_within: "within 2 (counting x)"
  by (simp add: counting_def numeral_2_eq_2)

abbreviation one :: "(nat, nat) driver \<Rightarrow> nat list list \<Rightarrow> bool \<Rightarrow> (nat, nat, nat) worker \<Rightarrow> nat list \<Rightarrow> nat \<Rightarrow> (nat, nat, nat) pool" where
  "one d q c w rs s \<equiv> \<lparr>pl_driver = d, pl_queue = q, pl_closed = c, pl_workers = [w], pl_results = rs, pl_shared = s\<rparr>"

lemma one_start: "FillUpPoolWithTask 1 xs s = Some (one (Adding [xs]) [] False Idle [] s)"
  by (simp add: FillUpPoolWithTask_def part_items_def go_slice_def NewExecPool_def)

lemma one_worker: "worker_at (one d q c w rs s) 0 w \<longleftrightarrow> d \<noteq> Panicked"
  by (simp add: worker_at_def)

lemma one_steps:
  "pool_step h n (one (Adding [xs]) [] False Idle [] s) (one (Adding []) [] False (Working xs) [] s)"
  "pool_step counting n (one (Adding []) [] False (Working [3]) [] 0) (one (Adding []) [] False (Running 3 (counting 3) []) [] 0)"
  "pool_step h n (one (Adding []) [] False (Running 3 (counting 3) []) [] 0)
     (one (Adding []) [] False (Running 3 (counted 3 0) []) [] 0)"
  "pool_step h n (one (Adding []) [] False (Running 3 (counted 3 0) []) [] 0)
     (one (Adding []) [] False (Running 3 (Ends 6) []) [] 1)"
  "pool_step h 1 (one (Adding []) [] False (Running 3 (Ends 6) []) [] 1) (one (Adding []) [] False (Working []) [6] 1)"
  "pool_step h n (one (Adding []) [] False (Working []) rs s) (one (Adding []) [] False Idle rs s)"
  "pool_step h n (one (Adding []) [] False Idle rs s) (one Joining [] True Idle rs s)"
  "pool_step h n (one Joining [] True Idle rs s) (one Joining [] True Stopped rs s)"
  "pool_step h n (one Joining [] True Stopped rs s) (one (Collecting []) [] True Stopped rs s)"
  "pool_step h 1 (one (Collecting []) [] True Stopped [6] 1) (one (Returned [6]) [] True Stopped [] 1)"
proof -
  show "pool_step h n (one (Adding [xs]) [] False Idle [] s) (one (Adding []) [] False (Working xs) [] s)"
    using pool_step.hand [of "one (Adding [xs]) [] False Idle [] s" xs "[]" 0 h n] by (simp add: one_worker set_worker_def)
  show "pool_step counting n (one (Adding []) [] False (Working [3]) [] 0) (one (Adding []) [] False (Running 3 (counting 3) []) [] 0)"
    using pool_step.start [of "one (Adding []) [] False (Working [3]) [] 0" 0 3 "[]" counting n] by (simp add: one_worker set_worker_def)
  show "pool_step h n (one (Adding []) [] False (Running 3 (counting 3) []) [] 0)
     (one (Adding []) [] False (Running 3 (counted 3 0) []) [] 0)"
    using pool_step.access [of "one (Adding []) [] False (Running 3 (counting 3) []) [] 0" 0 3 "\<lambda>c. Some (counted 3 c, c)" "[]" "counted 3 0" 0 h n]
    by (simp add: one_worker set_worker_def counting_def)
  show "pool_step h n (one (Adding []) [] False (Running 3 (counted 3 0) []) [] 0)
     (one (Adding []) [] False (Running 3 (Ends 6) []) [] 1)"
    using pool_step.access [of "one (Adding []) [] False (Running 3 (counted 3 0) []) [] 0" 0 3 "\<lambda>d. Some (Ends 6, 1)" "[]" "Ends 6" 1 h n]
    by (simp add: one_worker set_worker_def)
  show "pool_step h 1 (one (Adding []) [] False (Running 3 (Ends 6) []) [] 1) (one (Adding []) [] False (Working []) [6] 1)"
    using pool_step.send [of "one (Adding []) [] False (Running 3 (Ends 6) []) [] 1" 0 3 6 "[]" 1 h] by (simp add: one_worker set_worker_def)
  show "pool_step h n (one (Adding []) [] False (Working []) rs s) (one (Adding []) [] False Idle rs s)"
    using pool_step.idle [of "one (Adding []) [] False (Working []) rs s" 0 h n] by (simp add: one_worker set_worker_def)
  show "pool_step h n (one (Adding []) [] False Idle rs s) (one Joining [] True Idle rs s)"
    using pool_step.close [of "one (Adding []) [] False Idle rs s" h n] by simp
  show "pool_step h n (one Joining [] True Idle rs s) (one Joining [] True Stopped rs s)"
    using pool_step.stop [of "one Joining [] True Idle rs s" 0 h n] by (simp add: one_worker set_worker_def)
  show "pool_step h n (one Joining [] True Stopped rs s) (one (Collecting []) [] True Stopped rs s)"
    using pool_step.join [of "one Joining [] True Stopped rs s" h n] by simp
  show "pool_step h 1 (one (Collecting []) [] True Stopped [6] 1) (one (Returned [6]) [] True Stopped [] 1)"
    using pool_step.collect [of "one (Collecting []) [] True Stopped [6] 1" "[]" 6 "[]" h 1] by simp
qed

lemma one_end:
  "(pool_step h n)\<^sup>*\<^sup>* (one (Adding []) [] False (Working []) rs s) (one (Collecting []) [] True Stopped rs s)"
  by (rule one_steps(6-9) rtranclp.rtrancl_refl converse_rtranclp_into_rtranclp)+

lemma one_run:
  "(pool_step counting (length [3::nat]))\<^sup>*\<^sup>* (one (Adding [[3]]) [] False Idle [] 0) (one (Returned [6]) [] True Stopped [] 1)"
proof -
  have "(pool_step counting 1)\<^sup>*\<^sup>* (one (Adding [[3]]) [] False Idle [] 0) (one (Adding []) [] False (Working []) [6] 1)"
    by (rule one_steps(1-5) rtranclp.rtrancl_refl converse_rtranclp_into_rtranclp)+
  also note one_end
  finally show ?thesis using one_steps(10) by (simp add: rtranclp.rtrancl_into_rtrancl)
qed

theorem pool_interleaves_witness:
  "FillUpPoolWithTask 1 [3] 0 = Some (one (Adding [[3]]) [] False Idle [] 0) \<and>
    (\<exists>D. access_step\<^sup>*\<^sup>* (threads counting {#3#}, 0) (finished_with D, 1) \<and> image_mset fst D = {#3#} \<and> image_mset snd D = {#6#})"
  using pool_interleaves [OF one_start one_run] one_start by simp

theorem pool_ends_witness:
  "\<exists>k. (pool_step counting 1 ^^ k) (one (Adding [[3]]) [] False Idle [] 0) (one (Returned [6]) [] True Stopped [] 1) \<and> k \<le> 12"
proof -
  obtain k where k: "(pool_step counting (length [3::nat]) ^^ k) (one (Adding [[3]]) [] False Idle [] 0) (one (Returned [6]) [] True Stopped [] 1)"
    using rtranclp_imp_relpowp [OF one_run] by blast
  from pool_ends [OF one_start _ _ k, of 2] k counting_within show ?thesis by auto
qed

theorem empty_pool_hangs_witness:
  "\<exists>k. (pool_step counting 0 ^^ k) (one (Adding [[]]) [] False Idle [] 0) (one (Collecting []) [] True Stopped [] 0) \<and> k \<le> 7 \<and>
    (\<nexists>p'. pool_step counting 0 (one (Collecting []) [] True Stopped [] 0) p')"
proof -
  have "(pool_step counting 0)\<^sup>*\<^sup>* (one (Adding [[]]) [] False Idle [] 0) (one (Collecting []) [] True Stopped [] 0)"
    using one_steps(1) one_end by (rule converse_rtranclp_into_rtranclp)
  then obtain k where k: "(pool_step counting 0 ^^ k) (one (Adding [[]]) [] False Idle [] 0) (one (Collecting []) [] True Stopped [] 0)"
    using rtranclp_imp_relpowp by metis
  have "\<not> pool_step counting 0 (one (Collecting []) [] True Stopped [] 0) p'" for p'
    by (auto simp: worker_at_def elim!: pool_step.cases)
  with empty_pool_hangs [OF one_start k] k show ?thesis by auto
qed

end
