(* ===== verification/Rlp.thy ===== *)
theory Rlp
  imports Linker
begin

text \<open>
  What the audits rely on in RLP, the encoding of go-ethereum: a task that was encoded is decoded to the same task, except
  that big integers that were missing come back as zero. \<open>rlp_std\<close> is that encoding for tasks, with all its headers.
\<close>

section \<open>The law\<close>

definition zero_nils :: "audit_task \<Rightarrow> audit_task" where
  "zero_nils t =
     (let z = (\<lambda>v. Some (case v of None \<Rightarrow> 0 | Some i \<Rightarrow> i)) in
      t\<lparr>at_Key := z (at_Key t), at_Status := z (at_Status t), at_BlockNumber := z (at_BlockNumber t)\<rparr>)"

definition rlp_spec :: "rlp_ops \<Rightarrow> bool" where
  "rlp_spec R \<longleftrightarrow> (\<forall>t b. rlp_Encode R t = Some b \<longrightarrow> rlp_Decode R b = Some (zero_nils t))"

section \<open>The encoding\<close>

text \<open>A header says whether a string or a list follows and how long it is; a byte below \<open>0x80\<close> stands for itself. A negative integer
  cannot be encoded, a missing one is the empty string.\<close>

definition rlp_head :: "nat \<Rightarrow> nat \<Rightarrow> bytes" where
  "rlp_head off n =
     (if n < 56 then [of_nat (off + n)] else of_nat (off + 55 + length (min_bytes n)) # min_bytes n)"

definition rlp_string :: "bytes \<Rightarrow> bytes" where
  "rlp_string bs = (if length bs = 1 \<and> unat (hd bs) < 0x80 then bs else rlp_head 0x80 (length bs) @ bs)"

definition rlp_int :: "int option \<Rightarrow> bytes option" where
  "rlp_int v = (case v of None \<Rightarrow> Some [] | Some i \<Rightarrow> if i < 0 then None else Some (min_bytes (nat i)))"

definition rlp_encode :: "audit_task \<Rightarrow> bytes option" where
  "rlp_encode t = do {
     k \<leftarrow> rlp_int (at_Key t);
     s \<leftarrow> rlp_int (at_Status t);
     n \<leftarrow> rlp_int (at_BlockNumber t);
     let body = rlp_string k @ rlp_string (be_bytes 32 (unat (at_Txhash t))) @ rlp_string s @ rlp_string n;
     if length body < 2 ^ 64 then Some (rlp_head 0xc0 (length body) @ body) else None
   }"

definition cut :: "nat \<Rightarrow> bytes \<Rightarrow> (bytes \<times> bytes) option" where
  "cut n bs = (if n \<le> length bs then Some (take n bs, drop n bs) else None)"

definition rlp_split :: "nat \<Rightarrow> bytes \<Rightarrow> (bytes \<times> bytes) option" where
  "rlp_split off bs =
     (case bs of
        [] \<Rightarrow> None
      | h # r \<Rightarrow>
          if unat h < off then None
          else if unat h < off + 56 then cut (unat h - off) r
          else do {
            (len, r) \<leftarrow> cut (unat h - off - 55) r;
            cut (be_nat len) r
          })"

definition rlp_next :: "bytes \<Rightarrow> (bytes \<times> bytes) option" where
  "rlp_next bs = (case bs of [] \<Rightarrow> None | h # r \<Rightarrow> if unat h < 0x80 then Some ([h], r) else rlp_split 0x80 bs)"

text \<open>Bytes are decoded only when they are what the task is encoded to: no other length, no leading zero.\<close>

definition rlp_decode :: "bytes \<Rightarrow> audit_task option" where
  "rlp_decode b = do {
     (body, _) \<leftarrow> rlp_split 0xc0 b;
     (k, r) \<leftarrow> rlp_next body;
     (h, r) \<leftarrow> rlp_next r;
     (s, r) \<leftarrow> rlp_next r;
     (n, r) \<leftarrow> rlp_next r;
     let t = \<lparr>at_Key = Some (int (be_nat k)), at_Txhash = of_nat (be_nat h), at_Status = Some (int (be_nat s)),
       at_BlockNumber = Some (int (be_nat n))\<rparr>;
     if rlp_encode t = Some b then Some t else None
   }"

definition rlp_std :: rlp_ops where
  "rlp_std = \<lparr>rlp_Encode = rlp_encode, rlp_Decode = rlp_decode\<rparr>"

section \<open>The law holds of it\<close>

lemma min_bytes_length: "n < 256 ^ k \<Longrightarrow> length (min_bytes n) \<le> k"
  by (induction k arbitrary: n) (auto simp: min_bytes.simps [of 0] min_bytes.simps less_mult_imp_div_less)

lemma cut_append: "cut (length xs) (xs @ ys) = Some (xs, ys)"
  by (simp add: cut_def)

lemma unat_u8: "n < 256 \<Longrightarrow> unat (of_nat n :: u8) = n"
  by (simp add: unat_of_nat)

lemma rlp_split_head:
  assumes "length bs < 2 ^ 64" and "off = 0x80 \<or> off = 0xc0"
  shows "rlp_split off (rlp_head off (length bs) @ bs @ rest) = Some (bs, rest)"
proof (cases "length bs < 56")
  case True
  then have "unat (of_nat (off + length bs) :: u8) = off + length bs" using assms(2) by (intro unat_u8) auto
  with True show ?thesis by (simp add: rlp_split_def rlp_head_def cut_append del: of_nat_add)
next
  case False
  let ?l = "length (min_bytes (length bs))"
  have "?l \<le> 8" using assms(1) by (intro min_bytes_length) simp
  moreover have "0 < ?l" using False by (subst min_bytes.simps) auto
  ultimately have "off + 55 + ?l < 256" "0 < ?l" using assms(2) by auto
  then have "unat (of_nat (off + 55 + ?l) :: u8) = off + 55 + ?l" "0 < ?l" by (simp_all only: unat_u8)
  with False show ?thesis by (simp add: rlp_split_def rlp_head_def cut_append be_nat_min_bytes del: of_nat_add)
qed

lemma rlp_next_string:
  assumes "length bs < 2 ^ 64"
  shows "rlp_next (rlp_string bs @ rest) = Some (bs, rest)"
proof (cases "length bs = 1 \<and> unat (hd bs) < 0x80")
  case True
  then obtain b where "bs = [b]" by (cases bs) auto
  with True show ?thesis by (simp add: rlp_next_def rlp_string_def)
next
  case False
  have "\<exists>h r. rlp_head 0x80 (length bs) = h # r \<and> 0x80 \<le> unat h"
  proof (cases "length bs < 56")
    case False
    then show ?thesis using min_bytes_length [of "length bs" 8] assms by (simp add: rlp_head_def unat_u8 del: of_nat_add)
  qed (simp add: rlp_head_def unat_u8 del: of_nat_add)
  then obtain h r where "rlp_head 0x80 (length bs) = h # r" "0x80 \<le> unat h" by blast
  then have "rlp_next (rlp_head 0x80 (length bs) @ bs @ rest) = rlp_split 0x80 (rlp_head 0x80 (length bs) @ bs @ rest)"
    by (simp add: rlp_next_def)
  moreover have "rlp_string bs = rlp_head 0x80 (length bs) @ bs" using False by (simp only: rlp_string_def if_False)
  ultimately show ?thesis using rlp_split_head [OF assms, where off = "0x80" and rest = rest] by simp
qed

lemma length_rlp_string: "length bs \<le> length (rlp_string bs)"
  by (simp add: rlp_string_def)

lemma rlp_int_back:
  assumes "rlp_int v = Some bs"
  shows "int (be_nat bs) = (case v of None \<Rightarrow> 0 | Some i \<Rightarrow> i)"
    "rlp_int (Some (case v of None \<Rightarrow> 0 | Some i \<Rightarrow> i)) = Some bs"
  using assms by (auto simp: rlp_int_def be_nat_min_bytes min_bytes.simps [of 0] split: option.splits if_splits)

lemma rlp_std_spec: "rlp_spec rlp_std"
  unfolding rlp_spec_def
proof (intro allI impI)
  fix t b
  assume "rlp_Encode rlp_std t = Some b"
  then have enc: "rlp_encode t = Some b" by (simp add: rlp_std_def)
  let ?h = "be_bytes 32 (unat (at_Txhash t))"
  define body where "body k s n = rlp_string k @ rlp_string ?h @ rlp_string s @ rlp_string n" for k s n
  obtain k s n where v: "rlp_int (at_Key t) = Some k" "rlp_int (at_Status t) = Some s" "rlp_int (at_BlockNumber t) = Some n"
    and len: "length (body k s n) < 2 ^ 64"
    and b: "b = rlp_head 0xc0 (length (body k s n)) @ body k s n @ []"
    using enc by (auto simp: body_def rlp_encode_def bind_Some_iff Let_def split: if_splits)
  have short: "length k < 2 ^ 64" "length ?h < 2 ^ 64" "length s < 2 ^ 64" "length n < 2 ^ 64"
    using len [unfolded body_def] length_rlp_string [of k] length_rlp_string [of s] length_rlp_string [of n] by auto
  have h: "of_nat (be_nat ?h) = at_Txhash t"
  proof -
    have "unat (at_Txhash t) < 2 ^ LENGTH(256)" by (rule unsigned_less)
    then have "unat (at_Txhash t) < 256 ^ 32" by simp
    then show ?thesis by (simp only: be_nat_be_bytes mod_less of_nat_unat ucast_id)
  qed
  have zn: "zero_nils t = \<lparr>at_Key = Some (int (be_nat k)), at_Txhash = of_nat (be_nat ?h), at_Status = Some (int (be_nat s)),
      at_BlockNumber = Some (int (be_nat n))\<rparr>"
    using v by (simp add: zero_nils_def rlp_int_back(1) h del: be_bytes.simps)
  have "rlp_encode (zero_nils t) = rlp_encode t"
    using v by (simp add: rlp_encode_def zero_nils_def rlp_int_back(2))
  moreover have "rlp_split 0xc0 b = Some (body k s n, [])" unfolding b using len by (intro rlp_split_head) simp_all
  ultimately show "rlp_Decode rlp_std b = Some (zero_nils t)"
    using enc rlp_next_string [OF short(1)] rlp_next_string [OF short(2)] rlp_next_string [OF short(3)]
      rlp_next_string [OF short(4), of "[]"]
    by (simp add: rlp_std_def rlp_decode_def zn body_def Let_def del: be_bytes.simps)
qed

end
