(* ===== verification/LinkerLaws.thy ===== *)
theory LinkerLaws
  imports Rlp
begin

text \<open>
  Joined code can be split again, and an audit decides when code may be used.
\<close>

section \<open>Laws of signed code\<close>

lemma min_bytes_length3:
  assumes "n \<le> 16777215"
  shows "length (min_bytes n) \<le> 3"
proof -
  from min_bytes_length [of n 3] assms show ?thesis by simp
qed

lemma be_nat_zeros: "be_nat (replicate k 0 @ bs) = be_nat bs"
  by (induction k) simp_all

lemma ValidateCode_total: "\<exists>v. ValidateCode ver code = Some v"
  by (auto simp: ValidateCode_def IsWASM_def Let_def go_slice_def)

lemma ValidateCode_long: "ValidateCode ver code = Some (Inr msg) \<Longrightarrow> 64 < length code"
  by (auto simp: ValidateCode_def split: if_splits)

text \<open>C29. What was joined is split again into the same two parts, whose lengths add up to that of the whole less eight; a joined
  code that is wasm is recognised as such, and is not joined a second time.\<close>

theorem join_split_roundtrip:
  assumes "JoinTxdata ver code final = Some (Inr fc)"
  shows "SplitTxdata ver fc = Some (Inr (code, final)) \<and> length fc = length code + length final + 8 \<and>
    IsFinalcode fc = Some (take 4 fc = wasmIdent) \<and>
    (take 4 fc = wasmIdent \<longrightarrow> (\<forall>f. JoinTxdata ver fc f = Some (Inl RejectJoin)))"
proof -
  let ?n = "length final" and ?b = "min_bytes (length final)"
  let ?tail = "if 4 - length ?b > 0 then replicate (4 - length ?b) 0 @ ?b else ?b"
  obtain msg where v: "ValidateCode ver final = Some (Inr msg)" and n: "?n \<le> 16777215" and fc: "fc = code @ final @ magic @ ?tail"
  proof -
    obtain v where v: "ValidateCode ver final = Some v" using ValidateCode_total by blast
    then show thesis
      using that assms by (cases v) (auto simp: JoinTxdata_def bind_Some_iff Let_def split: if_splits)
  qed
  have big: "64 < ?n" using v by (rule ValidateCode_long)
  have t: "length ?tail = 4" "be_nat ?tail = ?n"
    using min_bytes_length3 [OF n] by (auto simp: be_nat_zeros be_nat_min_bytes)
  have len: "length fc = length code + ?n + 8" using t(1) by (simp add: fc magic_def)
  have tl: "drop (length fc - 8) fc = magic @ ?tail" "drop 4 (magic @ ?tail) = ?tail"
    unfolding len by (simp_all add: fc magic_def)
  have parts: "take (length fc - ?n - 8) fc = code" "take ?n (drop (length fc - ?n - 8) fc) = final"
    unfolding len by (simp_all add: fc)
  have "SplitTxdata ver fc = Some (Inr (code, final))"
    using big parts unfolding SplitTxdata_def tl tl(2) t(2) Let_def
    by (simp add: len go_slice_def v)
  moreover have fin: "IsFinalcode fc = Some (take 4 fc = wasmIdent)"
    using big tl by (simp add: IsFinalcode_def IsWASM_def len go_slice_def) (simp add: magic_def)
  ultimately show ?thesis using len by (simp add: JoinTxdata_def)
qed

text \<open>A verifier that accepts everything, and the smallest wasm code with a signature.\<close>

theorem join_split_roundtrip_witness:
  "\<exists>fc. JoinTxdata (\<lambda>_ _ _. True) [1, 2] (wasmIdent @ replicate 61 7) = Some (Inr fc) \<and>
    SplitTxdata (\<lambda>_ _ _. True) fc = Some (Inr ([1, 2], wasmIdent @ replicate 61 7))"
proof -
  obtain fc where fc: "JoinTxdata (\<lambda>_ _ _. True) [1, 2] (wasmIdent @ replicate 61 7) = Some (Inr fc)"
    by (simp add: JoinTxdata_def IsFinalcode_def ValidateCode_def IsWASM_def wasmIdent_def go_slice_def Let_def)
  with join_split_roundtrip [OF this] show ?thesis by blast
qed

section \<open>Laws of audits\<close>

definition kv_spec :: "'d kv_ops \<Rightarrow> bool" where
  "kv_spec D \<longleftrightarrow> (\<forall>d d' k v. kv_Put D d k v = Some d' \<longrightarrow> kv_Get D d' = (kv_Get D d)(k := Some v))"

text \<open>C30. Once the audit of a transaction is done, the metered code that the store has for it may be used if and only if metering
  gives the same code again, with a valid signature, and the block of the transaction is more than twenty
  blocks back. The task has a key and is not done yet, as those that the loop of audits decodes.\<close>

theorem audit_unlocks_code:
  assumes "processAuditTask G R meter ver tx D atask d = Some d'"
    and "tx (at_Txhash atask) = Some (code, num)" "at_Key atask = Some k" "at_Status atask = Some 0"
    and "kv_spec D" "rlp_spec R" "GetCode D d (GenCodekey G code) = Some final" "length final \<noteq> 31"
    and "statusKey G final \<noteq> taskPreKey G"
  shows "VerifyStatus G R D d' cur final \<longleftrightarrow> audit_passes G meter ver code final = Some True \<and> sint num + 20 < cur"
proof -
  have key: "at_Key (if c then atask\<lparr>at_BlockNumber := b, at_Status := s\<rparr> else atask\<lparr>at_BlockNumber := b\<rparr>) = Some k" for c b s
    using assms(3) by simp
  obtain passed d1 val where p: "audit_passes G meter ver code final = Some passed"
    and val: "rlp_Encode R (if passed then atask\<lparr>at_BlockNumber := Some (sint num), at_Status := Some 1\<rparr>
      else atask\<lparr>at_BlockNumber := Some (sint num)\<rparr>) = Some val"
    and d1: "kv_Put D d (statusKey G final) val = Some d1"
    and d': "kv_Put D d1 (taskPreKey G) (min_bytes (nat \<bar>k\<bar>)) = Some d'"
    using assms(1-4,7,8) by (auto simp: processAuditTask_def newTask_def bind_Some_iff Let_def key)
  have "kv_Get D d' (statusKey G final) = Some val"
    using assms(5,9) d1 d' unfolding kv_spec_def by (metis fun_upd_apply)
  then show ?thesis
    using val assms(4,6) p unfolding rlp_spec_def
    by (fastforce simp: VerifyStatus_def getFinalStatus_def auditLimit_def zero_nils_def split: if_splits)
qed

lemma be_bytes_last: "last (be_bytes (Suc n) (be_nat (xs @ [b]))) = b"
proof -
  have "unat b < 256" using unsigned_less [of b] by simp
  then show ?thesis by simp
qed

lemma std_hash_last: "last (g_Keccak256 geth_std (xs @ [b])) = b" "length (g_Keccak256 geth_std xs) = 32"
  using be_bytes_last [of 31 xs b] by (simp_all add: geth_std_def del: be_bytes.simps be_nat_snoc)

lemma std_keys_last:
  "last (GenCodekey geth_std [b]) = b" "last (taskNumKey geth_std) = 109" "last (taskPreKey geth_std) = 101"
  "last (statusKey geth_std final) = 115"
  using std_hash_last(1) [of "[]" b] std_hash_last(1) [of "[116, 97, 115, 107, 45, 110, 117]" 109]
    std_hash_last(1) [of "[116, 97, 115, 107, 45, 112, 114]" 101] std_hash_last(1) [of "final @ [115, 116, 97, 116, 117]" 115]
  by (simp_all add: GenCodekey_def taskNumKey_def taskPreKey_def statusKey_def)

text \<open>A store that is a map.\<close>

definition kv_std :: "(bytes \<Rightarrow> bytes option) kv_ops" where
  "kv_std = \<lparr>kv_Get = id, kv_Put = (\<lambda>d k v. Some (d(k := Some v))), kv_Delete = (\<lambda>d k. Some (d(k := None)))\<rparr>"

lemma small_bytes: "min_bytes 0 = []" "min_bytes (Suc 0) = [1]" "min_bytes 100 = [100]"
  by (simp_all add: min_bytes.simps)

lemma small_task_encoded:
  assumes "st \<in> {0, 1}" and "bn \<in> {None, Some 100}"
  shows "\<exists>b. rlp_encode \<lparr>at_Key = Some 1, at_Txhash = h, at_Status = Some st, at_BlockNumber = bn\<rparr> = Some b"
  using assms
  by (auto simp: rlp_encode_def rlp_int_def small_bytes rlp_string_def rlp_head_def Let_def simp del: be_bytes.simps)

text \<open>From the transaction to the answer: the task is given, stored without a block number, decoded with the number zero
  by the loop of audits and done.\<close>

theorem audit_unlocks_code_witness:
  "let code = [9]; final = wasmIdent @ replicate 61 7; meter = \<lambda>_. Some final; ver = \<lambda>_ _ _. True; tx = \<lambda>h. Some (code, 100);
     d = [GenCodekey geth_std code \<mapsto> final]
   in \<exists>d1 d2. GenAuditTask geth_std rlp_std meter ver tx kv_std False 5 d = Some (Some [1], d1) \<and>
     audit_turn geth_std rlp_std meter ver tx kv_std [1] d1 = Some d2 \<and>
     VerifyStatus geth_std rlp_std kv_std d2 121 final \<and> \<not> VerifyStatus geth_std rlp_std kv_std d2 120 final"
proof -
  let ?code = "[9] :: bytes" and ?final = "wasmIdent @ replicate 61 7 :: bytes"
  let ?meter = "\<lambda>_ :: bytes. Some ?final" and ?ver = "(\<lambda>_ _ _. True) :: verifier" and ?tx = "\<lambda>h :: hash. Some (?code, 100 :: u64)"
  let ?new = "\<lparr>at_Key = Some 1, at_Txhash = 5, at_Status = Some 0, at_BlockNumber = None\<rparr>"
  let ?task = "\<lparr>at_Key = Some 1, at_Txhash = 5, at_Status = Some 0, at_BlockNumber = Some 0\<rparr>"
  let ?d = "[GenCodekey geth_std ?code \<mapsto> ?final]"
  have pass: "audit_passes geth_std ?meter ?ver ?code ?final = Some True"
    by (simp add: audit_passes_def Sentinel_def ValidateCode_def IsWASM_def wasmIdent_def go_slice_def Let_def)
  have keys: "GenCodekey geth_std ?code \<noteq> [1]" "taskNumKey geth_std \<noteq> [1]" "GenCodekey geth_std ?code \<noteq> taskNumKey geth_std"
    "statusKey geth_std ?final \<noteq> taskPreKey geth_std"
    using std_keys_last(1) [of 9] std_keys_last(2,3) std_keys_last(4) [of ?final] by auto
  obtain b where b: "rlp_encode ?new = Some b" using small_task_encoded [of 0 None 5] by blast
  obtain d1 where gen: "GenAuditTask geth_std rlp_std ?meter ?ver ?tx kv_std False 5 ?d = Some (Some [1], d1)"
    and d1: "kv_Get kv_std d1 [1] = Some b" "GetCode kv_std d1 (GenCodekey geth_std ?code) = Some ?final"
    using b keys
    by (simp add: GenAuditTask_def newTask_def rlp_std_def small_bytes Let_def GetCode_def) (simp add: kv_std_def small_bytes)
  have dec: "rlp_Decode rlp_std b = Some ?task"
    using rlp_std_spec b by (simp add: rlp_spec_def rlp_std_def zero_nils_def)
  obtain d2 where proc: "processAuditTask geth_std rlp_std ?meter ?ver ?tx kv_std ?task d1 = Some d2"
    using pass d1(2) small_task_encoded [of 1 "Some 100" 5]
    by (auto simp: processAuditTask_def Let_def newTask_def wasmIdent_def rlp_std_def kv_std_def)
  have "audit_turn geth_std rlp_std ?meter ?ver ?tx kv_std [1] d1 = Some d2"
    using d1(1) dec proc by (simp add: audit_turn_def)
  moreover have "kv_spec kv_std" by (auto simp: kv_spec_def kv_std_def)
  then have "VerifyStatus geth_std rlp_std kv_std d2 cur ?final \<longleftrightarrow> 120 < cur" for cur
    using audit_unlocks_code [OF proc _ _ _ _ rlp_std_spec d1(2) _ keys(4), where num = 100 and cur = cur and k = 1] pass
    by (simp add: wasmIdent_def)
  ultimately show ?thesis using gen unfolding Let_def by (intro exI [of _ d1] exI [of _ d2]) simp
qed

section \<open>Tasks after a restart\<close>

lemma min_bytes_inj: "min_bytes m = min_bytes n \<longleftrightarrow> m = n"
  by (metis be_nat_min_bytes)

lemma GenAuditTask_number:
  assumes "GenAuditTask G R meter ver tx D False h d = Some (Some tk, d')" "kv_spec D"
  shows "\<exists>n. tk = min_bytes n \<and> newTask D d' (taskNumKey G) None = Some (int n, d')"
proof -
  obtain n d1 where "newTask D d (taskNumKey G) None = Some (n, d1)" by (simp add: newTask_def)
  then have n: "0 \<le> n" "newTask D d (taskNumKey G) None = Some (n, d)" by (auto simp: newTask_def split: option.splits)
  then have "do {
      atask \<leftarrow> rlp_Encode R \<lparr>at_Key = Some (n + 1), at_Txhash = h, at_Status = Some 0, at_BlockNumber = None\<rparr>;
      d \<leftarrow> kv_Put D d (min_bytes (nat \<bar>n + 1\<bar>)) atask;
      (n, d) \<leftarrow> newTask D d (taskNumKey G) (Some (n + 1));
      Some (Some (min_bytes (nat \<bar>n\<bar>)), d)
    } = Some (Some tk, d')" using assms(1) by (simp add: GenAuditTask_def Let_def)
  then obtain d2 where "kv_Put D d2 (taskNumKey G) (min_bytes (nat \<bar>n + 1\<bar>)) = Some d'" "tk = min_bytes (nat \<bar>n + 1\<bar>)"
    by (auto simp: newTask_def bind_Some_iff)
  moreover from this(1) have "kv_Get D d' (taskNumKey G) = Some (min_bytes (nat \<bar>n + 1\<bar>))"
    using assms(2) unfolding kv_spec_def by (metis fun_upd_same)
  then have "newTask D d' (taskNumKey G) None = Some (int (nat \<bar>n + 1\<bar>), d')" by (simp add: newTask_def be_nat_min_bytes)
  ultimately show ?thesis by blast
qed

text \<open>C40. A restart of the node sends every task again whose number lies between that of the last processed and that of the newest,
  but never the newest: a task that was given and not processed before the restart is forgotten.\<close>

theorem restart_misses_newest:
  assumes "GenAuditTask G R meter ver tx D False h d = Some (Some tk, d')" "kv_spec D"
    and "newTask D d' (taskPreKey G) None = Some (int pre, d')" "pre \<le> be_nat tk" "be_nat tk < 2 ^ 62"
  shows "\<exists>keys. audit_reload G D d' = Some keys \<and> tk \<notin> set keys \<and>
    (\<forall>i. 0 < i \<and> pre \<le> i \<and> i < be_nat tk \<longrightarrow> min_bytes i \<in> set keys)"
proof -
  obtain n where n: "tk = min_bytes n" "newTask D d' (taskNumKey G) None = Some (int n, d')"
    using GenAuditTask_number [OF assms(1,2)] by blast
  have le: "pre \<le> n" "n < 2 ^ 62" using assms(4,5) by (simp_all add: n(1) be_nat_min_bytes)
  have s: "sint (word_of_int (int k) :: u64) = int k" if "k < 2 ^ 63" for k
    using that by (simp add: signed_of_nat signed_take_bit_int_eq_self)
  have "sint (word_of_int (int n) - word_of_int (int pre) + 100 :: u64) = int (n - pre + 100)"
  proof -
    have "word_of_int (int n) - word_of_int (int pre) + 100 = (word_of_int (int (n - pre + 100)) :: u64)"
      using le(1) by (simp add: of_nat_diff)
    moreover have "n - pre + 100 < 2 ^ 63" using le(2) by simp
    ultimately show ?thesis using s by metis
  qed
  then have "audit_reload G D d' = Some (map (\<lambda>i. min_bytes (nat \<bar>i\<bar>)) (filter (\<lambda>i. i \<noteq> 0) [int pre..int n - 1]))"
    using s [of n] s [of pre] le assms(3) n(2) by (simp add: audit_reload_def Let_def)
  moreover have "min_bytes i \<in> (\<lambda>i. min_bytes (nat \<bar>i\<bar>)) ` {x \<in> {int pre..int n - 1}. x \<noteq> 0}" if "0 < i" "pre \<le> i" "i < n" for i
    using that by (intro image_eqI [of _ _ "int i"]) simp_all
  ultimately show ?thesis by (auto simp: n(1) be_nat_min_bytes min_bytes_inj)
qed

abbreviation rlp_any :: rlp_ops where
  "rlp_any \<equiv> \<lparr>rlp_Encode = (\<lambda>t. Some [1]), rlp_Decode = (\<lambda>b. None)\<rparr>"

lemma task_keys_differ: "taskPreKey geth_std \<noteq> taskNumKey geth_std" "taskPreKey geth_std \<noteq> [b]"
proof -
  have "length (taskPreKey geth_std) = 32" by (simp only: taskPreKey_def std_hash_last)
  then show "taskPreKey geth_std \<noteq> [b]" by auto
  show "taskPreKey geth_std \<noteq> taskNumKey geth_std" using std_keys_last(2,3) by auto
qed

text \<open>Five tasks were given and none was processed: the sixth is forgotten.\<close>

theorem restart_misses_newest_witness:
  "let d = [taskNumKey geth_std \<mapsto> [5]] in \<exists>d' keys.
     GenAuditTask geth_std rlp_any (\<lambda>_. None) (\<lambda>_ _ _. True) (\<lambda>h. None) kv_std False 7 d = Some (Some [6], d') \<and>
     audit_reload geth_std kv_std d' = Some keys \<and> [6] \<notin> set keys \<and> [5] \<in> set keys"
proof -
  let ?d = "[taskNumKey geth_std \<mapsto> [5]]" and ?gen = "GenAuditTask geth_std rlp_any (\<lambda>_. None) (\<lambda>_ _ _. True) (\<lambda>h. None) kv_std False 7"
  have b: "min_bytes 6 = [6]" "min_bytes 5 = [5]" "be_nat [6] = 6" by (simp_all add: min_bytes.simps)
  obtain d' where d': "?gen ?d = Some (Some [6], d')" "d' (taskPreKey geth_std) = None"
    using task_keys_differ by (simp add: GenAuditTask_def newTask_def kv_std_def b)
  have kv: "kv_spec kv_std" by (auto simp: kv_spec_def kv_std_def)
  have "newTask kv_std d' (taskPreKey geth_std) None = Some (int 0, d')" using d'(2) by (simp add: newTask_def kv_std_def)
  from restart_misses_newest [OF d'(1) kv this] obtain keys where "audit_reload geth_std kv_std d' = Some keys" "[6] \<notin> set keys"
    "\<forall>i. 0 < i \<and> 0 \<le> i \<and> i < be_nat [6] \<longrightarrow> min_bytes i \<in> set keys" by (auto simp: b)
  moreover from this(3) have "[5] \<in> set keys" unfolding b(3) by (elim allE [of _ 5]) (simp add: b)
  ultimately show ?thesis using d'(1) by (simp only: Let_def) blast
qed

end
