(* ===== verification/Eei.thy ===== *)
theory Eei
  imports EthVM Linker
begin

text \<open>
  The host functions of the wasm interpreter (\<^verbatim>\<open>vm/ethvm/ewasm_eei.go\<close>). The interpreter object \<^verbatim>\<open>EWASMInterpreter\<close>
  is shared by all runs of a machine and holds pointers: to the running contract and to the wagon VM. The
  model keeps the object beside the database, as the second part of \<^verbatim>\<open>vDB\<close>, with a store of contracts and one of
  VMs, and the pointers are positions in them. Wagon is a parameter: how a process reads and writes its memory here,
  modules and their execution in \<open>Wasm\<close>. \<open>None\<close> is a panic.
\<close>

section \<open>The interpreter object\<close>

type_synonym i32 = u32
type_synonym i64 = u64

datatype terminationType = TerminateFinish | TerminateRevert | TerminateSuicide | TerminateInvalid

text \<open>A wagon VM with its memory; \<^verbatim>\<open>Terminate\<close> makes it stop after the host function that runs.\<close>

record proc =
  pr_mem :: bytes
  pr_done :: bool

record wasm_in =
  in_vm :: nat
  in_contract :: nat
  in_returnData :: bytes
  in_term :: terminationType
  in_static :: bool
  in_contracts :: "contract list"
  in_procs :: "proc list"

type_synonym 's wvm = "('s \<times> wasm_in) vm"

text \<open>\<^verbatim>\<open>ReadAt\<close> fills a buffer of the size given, \<^verbatim>\<open>WriteAt\<close> gives the changed memory.\<close>

record wagon_ops =
  w_ReadAt :: "bytes \<Rightarrow> nat \<Rightarrow> int \<Rightarrow> bytes option"
  w_WriteAt :: "bytes \<Rightarrow> bytes \<Rightarrow> int \<Rightarrow> bytes option"

record 's host =
  h_E :: "('s \<times> wasm_in) env"
  h_W :: wagon_ops
  h_run :: "('s \<times> wasm_in) run_fn"
  h_AddLog :: "'s \<Rightarrow> metalog \<Rightarrow> 's"
  h_Sentinel :: "bytes \<Rightarrow> (bytes \<times> bool) option"

definition win :: "'s wvm \<Rightarrow> wasm_in" where
  "win v = snd (vDB v)"

definition set_win :: "(wasm_in \<Rightarrow> wasm_in) \<Rightarrow> 's wvm \<Rightarrow> 's wvm" where
  "set_win f v = v\<lparr>vDB := (fst (vDB v), f (snd (vDB v)))\<rparr>"

definition set_term :: "terminationType \<Rightarrow> 's wvm \<Rightarrow> 's wvm" where
  "set_term t = set_win (\<lambda>w. w\<lparr>in_term := t\<rparr>)"

definition contract_at :: "'s wvm \<Rightarrow> nat \<Rightarrow> contract option" where
  "contract_at v i = go_index (in_contracts (win v)) i"

definition cur :: "'s wvm \<Rightarrow> contract option" where
  "cur v = contract_at v (in_contract (win v))"

definition set_contract :: "nat \<Rightarrow> contract \<Rightarrow> 's wvm \<Rightarrow> 's wvm option" where
  "set_contract i c v = do {
     cs \<leftarrow> go_update (in_contracts (win v)) i c;
     Some (set_win (\<lambda>w. w\<lparr>in_contracts := cs\<rparr>) v)
   }"

definition add_gas :: "nat \<Rightarrow> u64 \<Rightarrow> 's wvm \<Rightarrow> 's wvm option" where
  "add_gas i g v = do { c \<leftarrow> contract_at v i; set_contract i (c\<lparr>Gas := Gas c + g\<rparr>) v }"

definition use_gas :: "nat \<Rightarrow> u64 \<Rightarrow> 's wvm \<Rightarrow> 's wvm option" where
  "use_gas i g v = do { c \<leftarrow> contract_at v i; set_contract i (snd (UseGas c g)) v }"

definition set_proc :: "nat \<Rightarrow> proc \<Rightarrow> 's wvm \<Rightarrow> 's wvm option" where
  "set_proc p pr v = do {
     ps \<leftarrow> go_update (in_procs (win v)) p pr;
     Some (set_win (\<lambda>w. w\<lparr>in_procs := ps\<rparr>) v)
   }"

definition terminate :: "nat \<Rightarrow> 's wvm \<Rightarrow> 's wvm option" where
  "terminate p v = do { pr \<leftarrow> go_index (in_procs (win v)) p; set_proc p (pr\<lparr>pr_done := True\<rparr>) v }"

text \<open>\<^verbatim>\<open>in.vm.Memory\<close>.\<close>

definition vm_memory :: "'s wvm \<Rightarrow> bytes option" where
  "vm_memory v = do { pr \<leftarrow> go_index (in_procs (win v)) (in_vm (win v)); Some (pr_mem pr) }"

definition write_at :: "'s host \<Rightarrow> nat \<Rightarrow> bytes \<Rightarrow> i32 \<Rightarrow> 's wvm \<Rightarrow> 's wvm option" where
  "write_at H p bs off v = do {
     pr \<leftarrow> go_index (in_procs (win v)) p;
     mem \<leftarrow> w_WriteAt (h_W H) (pr_mem pr) bs (sint off);
     set_proc p (pr\<lparr>pr_mem := mem\<rparr>) v
   }"

section \<open>Gas\<close>

definition EEICallSuccess :: i32 where [simp]: "EEICallSuccess = 0"
definition ErrEEICallFailure :: i32 where [simp]: "ErrEEICallFailure = 1"
definition ErrEEICallRevert :: i32 where [simp]: "ErrEEICallRevert = 2"

definition GasCostBase :: u64 where [simp]: "GasCostBase = 2"
definition GasCostVeryLow :: u64 where [simp]: "GasCostVeryLow = 3"
definition GasCostBalance :: u64 where [simp]: "GasCostBalance = 400"
definition GasCostSSet :: u64 where [simp]: "GasCostSSet = 20000"
definition GasCostSReset :: u64 where [simp]: "GasCostSReset = 5000"
definition GasCostCreate :: u64 where [simp]: "GasCostCreate = 32000"
definition GasCostCall :: u64 where [simp]: "GasCostCall = 700"
definition GasCostCallValue :: u64 where [simp]: "GasCostCallValue = 9000"
definition GasCostCallStipend :: u64 where [simp]: "GasCostCallStipend = 2300"
definition GasCostNewAccount :: u64 where [simp]: "GasCostNewAccount = 25000"
definition GasCostLog :: u64 where [simp]: "GasCostLog = 375"
definition GasCostLogData :: u64 where [simp]: "GasCostLogData = 8"
definition GasCostLogTopic :: u64 where [simp]: "GasCostLogTopic = 375"
definition GasCostCopy :: u64 where [simp]: "GasCostCopy = 3"
definition GasCostBlockHash :: u64 where [simp]: "GasCostBlockHash = 800"

definition maxCallDepth :: int where [simp]: "maxCallDepth = 1024"
definition u256Len :: int where [simp]: "u256Len = 32"
definition u128Len :: int where [simp]: "u128Len = 16"

text \<open>A contract that cannot pay is terminated, but the host function that asked for the gas goes on.\<close>

definition gasAccounting :: "nat \<Rightarrow> u64 \<Rightarrow> 's wvm \<Rightarrow> 's wvm option" where
  "gasAccounting p cost v = do {
     c \<leftarrow> cur v;
     if cost > Gas c then terminate p (set_term TerminateInvalid v)
     else set_contract (in_contract (win v)) (c\<lparr>Gas := Gas c - cost\<rparr>) v
   }"

text \<open>The price of a copy, from a length of 32 bits with its sign.\<close>

definition copy_cost :: "i32 \<Rightarrow> u64" where
  "copy_cost len = GasCostCopy * drop_bit 5 (scast (len + 31) :: u64)"

section \<open>Memory\<close>

definition swapEndian :: "bytes \<Rightarrow> bytes" where
  "swapEndian src = rev src"

definition readSize :: "'s host \<Rightarrow> nat \<Rightarrow> i32 \<Rightarrow> int \<Rightarrow> 's wvm \<Rightarrow> bytes option" where
  "readSize H p off sz v =
     (if sz < 0 then None
      else do {
        pr \<leftarrow> go_index (in_procs (win v)) p;
        w_ReadAt (h_W H) (pr_mem pr) (nat sz) (sint off)
      })"

definition slice32 :: "bytes \<Rightarrow> i32 \<Rightarrow> i32 \<Rightarrow> bytes option" where
  "slice32 bs a b = (if sint a < 0 \<or> sint b < 0 then None else go_slice bs (nat (sint a)) (nat (sint b)))"

definition big_Bytes :: "int \<Rightarrow> bytes" where
  "big_Bytes x = min_bytes (nat \<bar>x\<bar>)"

definition read_address :: "'s host \<Rightarrow> nat \<Rightarrow> i32 \<Rightarrow> 's wvm \<Rightarrow> address option" where
  "read_address H p off v = do { b \<leftarrow> readSize H p off 20 v; Some (g_BytesToAddress (eG (h_E H)) b) }"

definition read_hash :: "'s host \<Rightarrow> nat \<Rightarrow> i32 \<Rightarrow> 's wvm \<Rightarrow> hash option" where
  "read_hash H p off v = do { b \<leftarrow> readSize H p off u256Len v; Some (g_BytesToHash (eG (h_E H)) b) }"

section \<open>Functions that answer from the context\<close>

text \<open>All of them take the gas first; \<open>paid\<close> is that, followed by a write of bytes to the memory.\<close>

definition paid_write :: "'s host \<Rightarrow> nat \<Rightarrow> u64 \<Rightarrow> bytes \<Rightarrow> i32 \<Rightarrow> 's wvm \<Rightarrow> 's wvm option" where
  "paid_write H p cost bs off v = do { v \<leftarrow> gasAccounting p cost v; write_at H p bs off v }"

definition eei_useGas :: "'s host \<Rightarrow> nat \<Rightarrow> i64 \<Rightarrow> 's wvm \<Rightarrow> 's wvm option" where
  "eei_useGas H p amount v = gasAccounting p amount v"

definition eei_getAddress :: "'s host \<Rightarrow> nat \<Rightarrow> i32 \<Rightarrow> 's wvm \<Rightarrow> 's wvm option" where
  "eei_getAddress H p resultOffset v = do {
     v \<leftarrow> gasAccounting p GasCostBase v;
     c \<leftarrow> cur v;
     a \<leftarrow> CodeAddr c;
     write_at H p (g_AddrBytes (eG (h_E H)) a) resultOffset v
   }"

definition eei_getExternalBalance :: "'s host \<Rightarrow> nat \<Rightarrow> i32 \<Rightarrow> i32 \<Rightarrow> 's wvm \<Rightarrow> 's wvm option" where
  "eei_getExternalBalance H p addressOffset resultOffset v = do {
     v \<leftarrow> gasAccounting p GasCostBalance v;
     addr \<leftarrow> read_address H p addressOffset v;
     let balance = db_GetBalance (eA (h_E H)) (vDB v) addr;
     v \<leftarrow> write_at H p (swapEndian (big_Bytes balance)) resultOffset v;
     read_put (h_E H) v addr (BalanceKey (eK (h_E H))) (VBig balance)
   }"

definition eei_getBlockHash :: "'s host \<Rightarrow> nat \<Rightarrow> i64 \<Rightarrow> i32 \<Rightarrow> 's wvm \<Rightarrow> ('s wvm \<times> i32) option" where
  "eei_getBlockHash H p number resultOffset v = do {
     v \<leftarrow> gasAccounting p GasCostBlockHash v;
     let n = BlockNumber (h_E H) - sint number;
     if n > 256 \<or> n \<le> 0 then Some (v, 1)
     else do {
       v \<leftarrow> write_at H p (g_HashBytes (eG (h_E H)) (GetHash (h_E H) number)) resultOffset v;
       Some (v, 0)
     }
   }"

definition eei_callDataCopy :: "'s host \<Rightarrow> nat \<Rightarrow> i32 \<Rightarrow> i32 \<Rightarrow> i32 \<Rightarrow> 's wvm \<Rightarrow> 's wvm option" where
  "eei_callDataCopy H p resultOffset dataOffset len v = do {
     v \<leftarrow> gasAccounting p (GasCostVeryLow + copy_cost len) v;
     c \<leftarrow> cur v;
     dat \<leftarrow> slice32 (Input c) dataOffset (dataOffset + len);
     write_at H p dat resultOffset v
   }"

definition eei_getCallDataSize :: "'s host \<Rightarrow> nat \<Rightarrow> 's wvm \<Rightarrow> ('s wvm \<times> i32) option" where
  "eei_getCallDataSize H p v = do {
     v \<leftarrow> gasAccounting p GasCostBase v;
     c \<leftarrow> cur v;
     Some (v, of_nat (length (Input c)))
   }"

definition eei_getCaller :: "'s host \<Rightarrow> nat \<Rightarrow> i32 \<Rightarrow> 's wvm \<Rightarrow> 's wvm option" where
  "eei_getCaller H p resultOffset v = do {
     c \<leftarrow> cur v;
     paid_write H p GasCostBase (g_AddrBytes (eG (h_E H)) (CallerAddress c)) resultOffset v
   }"

definition eei_getCallValue :: "'s host \<Rightarrow> nat \<Rightarrow> i32 \<Rightarrow> 's wvm \<Rightarrow> 's wvm option" where
  "eei_getCallValue H p resultOffset v = do {
     v \<leftarrow> gasAccounting p GasCostBase v;
     c \<leftarrow> cur v;
     x \<leftarrow> c_value c;
     write_at H p (swapEndian (big_Bytes x)) resultOffset v
   }"

definition eei_codeCopy :: "'s host \<Rightarrow> nat \<Rightarrow> i32 \<Rightarrow> i32 \<Rightarrow> i32 \<Rightarrow> 's wvm \<Rightarrow> 's wvm option" where
  "eei_codeCopy H p resultOffset codeOffset len v = do {
     v \<leftarrow> gasAccounting p (GasCostVeryLow + copy_cost len) v;
     c \<leftarrow> cur v;
     code \<leftarrow> slice32 (Code c) codeOffset (codeOffset + len);
     write_at H p code resultOffset v
   }"

definition eei_getCodeSize :: "'s host \<Rightarrow> nat \<Rightarrow> 's wvm \<Rightarrow> ('s wvm \<times> i32) option" where
  "eei_getCodeSize H p v = do {
     v \<leftarrow> gasAccounting p GasCostBase v;
     c \<leftarrow> cur v;
     a \<leftarrow> CodeAddr c;
     Some (v, of_nat (length (db_GetCode (eA (h_E H)) (vDB v) a)))
   }"

definition eei_getBlockCoinbase :: "'s host \<Rightarrow> nat \<Rightarrow> i32 \<Rightarrow> 's wvm \<Rightarrow> 's wvm option" where
  "eei_getBlockCoinbase H p resultOffset v =
     paid_write H p GasCostBase (g_AddrBytes (eG (h_E H)) (Coinbase (h_E H))) resultOffset v"

definition eei_getBlockDifficulty :: "'s host \<Rightarrow> nat \<Rightarrow> i32 \<Rightarrow> 's wvm \<Rightarrow> 's wvm option" where
  "eei_getBlockDifficulty H p resultOffset v =
     paid_write H p GasCostBase (swapEndian (big_Bytes (Difficulty (h_E H)))) resultOffset v"

definition eei_externalCodeCopy :: "'s host \<Rightarrow> nat \<Rightarrow> i32 \<Rightarrow> i32 \<Rightarrow> i32 \<Rightarrow> i32 \<Rightarrow> 's wvm \<Rightarrow> 's wvm option" where
  "eei_externalCodeCopy H p addressOffset resultOffset codeOffset len v = do {
     v \<leftarrow> gasAccounting p (ExtcodeCopyBaseEIP150 + copy_cost len) v;
     addr \<leftarrow> read_address H p addressOffset v;
     code \<leftarrow> slice32 (db_GetCode (eA (h_E H)) (vDB v) addr) codeOffset (codeOffset + len);
     write_at H p code resultOffset v
   }"

definition eei_getExternalCodeSize :: "'s host \<Rightarrow> nat \<Rightarrow> i32 \<Rightarrow> 's wvm \<Rightarrow> ('s wvm \<times> i32) option" where
  "eei_getExternalCodeSize H p addressOffset v = do {
     v \<leftarrow> gasAccounting p ExtcodeSizeGasEIP150 v;
     addr \<leftarrow> read_address H p addressOffset v;
     Some (v, of_nat (length (db_GetCode (eA (h_E H)) (vDB v) addr)))
   }"

definition eei_getGasLeft :: "'s host \<Rightarrow> nat \<Rightarrow> 's wvm \<Rightarrow> ('s wvm \<times> i64) option" where
  "eei_getGasLeft H p v = do { v \<leftarrow> gasAccounting p GasCostBase v; c \<leftarrow> cur v; Some (v, Gas c) }"

definition eei_getBlockGasLimit :: "'s host \<Rightarrow> nat \<Rightarrow> 's wvm \<Rightarrow> ('s wvm \<times> i64) option" where
  "eei_getBlockGasLimit H p v = do { v \<leftarrow> gasAccounting p GasCostBase v; Some (v, GasLimit (h_E H)) }"

definition eei_getTxGasPrice :: "'s host \<Rightarrow> nat \<Rightarrow> i32 \<Rightarrow> 's wvm \<Rightarrow> 's wvm option" where
  "eei_getTxGasPrice H p valueOffset v = paid_write H p GasCostBase (big_Bytes (TxGasPrice (h_E H))) valueOffset v"

definition eei_getBlockNumber :: "'s host \<Rightarrow> nat \<Rightarrow> 's wvm \<Rightarrow> ('s wvm \<times> i64) option" where
  "eei_getBlockNumber H p v = do { v \<leftarrow> gasAccounting p GasCostBase v; Some (v, word_of_int (BlockNumber (h_E H))) }"

definition eei_getTxOrigin :: "'s host \<Rightarrow> nat \<Rightarrow> i32 \<Rightarrow> 's wvm \<Rightarrow> 's wvm option" where
  "eei_getTxOrigin H p resultOffset v =
     paid_write H p GasCostBase (g_AddrBytes (eG (h_E H)) (Origin (h_E H))) resultOffset v"

definition eei_getReturnDataSize :: "'s host \<Rightarrow> nat \<Rightarrow> 's wvm \<Rightarrow> ('s wvm \<times> i32) option" where
  "eei_getReturnDataSize H p v = do {
     v \<leftarrow> gasAccounting p GasCostBase v;
     Some (v, of_nat (length (in_returnData (win v))))
   }"

definition eei_returnDataCopy :: "'s host \<Rightarrow> nat \<Rightarrow> i32 \<Rightarrow> i32 \<Rightarrow> i32 \<Rightarrow> 's wvm \<Rightarrow> 's wvm option" where
  "eei_returnDataCopy H p resultOffset dataOffset len v = do {
     v \<leftarrow> gasAccounting p (GasCostVeryLow + copy_cost len) v;
     dat \<leftarrow> slice32 (in_returnData (win v)) dataOffset (dataOffset + len);
     write_at H p dat resultOffset v
   }"

definition eei_getBlockTimestamp :: "'s host \<Rightarrow> nat \<Rightarrow> 's wvm \<Rightarrow> ('s wvm \<times> i64) option" where
  "eei_getBlockTimestamp H p v = do { v \<leftarrow> gasAccounting p GasCostBase v; Some (v, word_of_int (Time (h_E H))) }"

section \<open>The end of a run\<close>

definition unWindContract :: "'s host \<Rightarrow> nat \<Rightarrow> i32 \<Rightarrow> i32 \<Rightarrow> 's wvm \<Rightarrow> 's wvm option" where
  "unWindContract H p dataOffset len v = do {
     b \<leftarrow> readSize H p dataOffset (sint len) v;
     Some (set_win (\<lambda>w. w\<lparr>in_returnData := b\<rparr>) v)
   }"

definition eei_finish :: "'s host \<Rightarrow> nat \<Rightarrow> i32 \<Rightarrow> i32 \<Rightarrow> 's wvm \<Rightarrow> 's wvm option" where
  "eei_finish H p dataOffset len v = do {
     v \<leftarrow> unWindContract H p dataOffset len v;
     terminate p (set_term TerminateFinish v)
   }"

definition eei_revert :: "'s host \<Rightarrow> nat \<Rightarrow> i32 \<Rightarrow> i32 \<Rightarrow> 's wvm \<Rightarrow> 's wvm option" where
  "eei_revert H p dataOffset len v = do {
     v \<leftarrow> unWindContract H p dataOffset len v;
     terminate p (set_term TerminateRevert v)
   }"

text \<open>The balance is credited to the beneficiary; nothing is taken from the contract.\<close>

definition eei_selfDestruct :: "'s host \<Rightarrow> nat \<Rightarrow> i32 \<Rightarrow> 's wvm \<Rightarrow> 's wvm option" where
  "eei_selfDestruct H p addressOffset v = do {
     let E = h_E H;
     c \<leftarrow> cur v;
     mem \<leftarrow> vm_memory v;
     balance \<leftarrow> balance_of E v (self c);
     ab \<leftarrow> slice32 mem addressOffset (addressOffset + 20);
     let addr = g_BytesToAddress (eG E) ab;
     let totalGas = SelfdestructGasEIP150 +
       (if db_Empty (eA E) (vDB v) addr \<and> balance \<noteq> 0 then CreateBySelfdestructGas else 0);
     v \<leftarrow> gasAccounting p totalGas v;
     orgBalance \<leftarrow> balance_of E v addr;
     v \<leftarrow> write_put E v addr (BalanceKey (eK E)) (VBig balance) (VBig orgBalance);
     let v = v\<lparr>vDB := db_Suicide (eA E) (vDB v) (self c)\<rparr>;
     terminate p (set_term TerminateSuicide v)
   }"

section \<open>Storage\<close>

definition nonzero_bytes :: "bytes \<Rightarrow> nat" where
  "nonzero_bytes bs = length (filter (\<lambda>b. b \<noteq> 0) bs)"

text \<open>The price of a word of storage compares how many bytes are not zero.\<close>

definition store_cost :: "nat \<Rightarrow> nat \<Rightarrow> u64" where
  "store_cost nonZeroBytes oldNonZeroBytes =
     (if (nonZeroBytes > 0 \<and> oldNonZeroBytes \<noteq> nonZeroBytes) \<or> (oldNonZeroBytes \<noteq> 0 \<and> nonZeroBytes = 0)
      then GasCostSSet else GasCostSReset)"

definition stored_hash :: "'s host \<Rightarrow> 's wvm \<Rightarrow> address \<Rightarrow> hash \<Rightarrow> hash option" where
  "stored_hash H v a k =
     (case GetAddressAndKey (vWriteSet v) a k of
        None \<Rightarrow> Some (db_GetState (eA (h_E H)) (vDB v) a k)
      | Some d \<Rightarrow> do { b \<leftarrow> as_bytes d; Some (g_BytesToHash (eG (h_E H)) b) })"

definition eei_storageStore :: "'s host \<Rightarrow> nat \<Rightarrow> i32 \<Rightarrow> i32 \<Rightarrow> 's wvm \<Rightarrow> 's wvm option" where
  "eei_storageStore H p pathOffset valueOffset v =
     (if in_static (win v) then None
      else do {
        let G = eG (h_E H);
        loc \<leftarrow> read_hash H p pathOffset v;
        val \<leftarrow> read_hash H p valueOffset v;
        c \<leftarrow> cur v;
        oldValue \<leftarrow> stored_hash H v (self c) loc;
        v \<leftarrow> gasAccounting p (store_cost (nonzero_bytes (g_HashBytes G val)) (nonzero_bytes (g_HashBytes G oldValue))) v;
        write_put (h_E H) v (self c) loc (VBytes (g_HashBytes G val)) (VBytes [])
      })"

definition eei_storageLoad :: "'s host \<Rightarrow> nat \<Rightarrow> i32 \<Rightarrow> i32 \<Rightarrow> 's wvm \<Rightarrow> 's wvm option" where
  "eei_storageLoad H p pathOffset resultOffset v = do {
     v \<leftarrow> gasAccounting p 200 v;
     loc \<leftarrow> read_hash H p pathOffset v;
     c \<leftarrow> cur v;
     valBytes \<leftarrow> (case GetAddressAndKey (vWriteSet v) (self c) loc of
         None \<Rightarrow> Some (g_HashBytes (eG (h_E H)) (db_GetState (eA (h_E H)) (vDB v) (self c) loc))
       | Some d \<Rightarrow> as_bytes d);
     v \<leftarrow> write_at H p valBytes resultOffset v;
     read_put (h_E H) v (self c) loc (VBytes valBytes)
   }"

definition path_key :: "'s host \<Rightarrow> bytes \<Rightarrow> hash" where
  "path_key H loc = g_BytesToHash (eG (h_E H)) (g_Keccak256 (eG (h_E H)) loc)"

text \<open>The second kind of storage has keys of any length. A hash has 32 bytes, so the length and the number of words
  that the code computes are constant.\<close>

definition eei_storageLoad2 :: "'s host \<Rightarrow> nat \<Rightarrow> i32 \<Rightarrow> i32 \<Rightarrow> i32 \<Rightarrow> i32 \<Rightarrow> 's wvm \<Rightarrow> 's wvm option" where
  "eei_storageLoad2 H p pathOffset pathLen resultOffset resultType v = do {
     loc \<leftarrow> readSize H p pathOffset (sint pathLen) v;
     c \<leftarrow> cur v;
     let key = path_key H loc;
     val \<leftarrow> stored_hash H v (self c) key;
     v \<leftarrow> gasAccounting p (SloadGasEIP2200 * 1) v;
     let bb = (if resultType = 1 then be_bytes 32 32 else g_HashBytes (eG (h_E H)) val);
     v \<leftarrow> read_put (h_E H) v (self c) key (VBytes bb);
     write_at H p bb resultOffset v
   }"

definition eei_storageStore2 :: "'s host \<Rightarrow> nat \<Rightarrow> i32 \<Rightarrow> i32 \<Rightarrow> i32 \<Rightarrow> i32 \<Rightarrow> 's wvm \<Rightarrow> 's wvm option" where
  "eei_storageStore2 H p pathOffset pathLen valueOffset valueLen v =
     (if in_static (win v) then None
      else do {
        loc \<leftarrow> readSize H p pathOffset (sint pathLen) v;
        let key = path_key H loc;
        val \<leftarrow> readSize H p valueOffset (sint valueLen) v;
        c \<leftarrow> cur v;
        oldValue \<leftarrow> stored_hash H v (self c) key;
        let b = of_nat ((length val + 31) div 32);
        v \<leftarrow> gasAccounting p (store_cost (nonzero_bytes val) (nonzero_bytes (g_HashBytes (eG (h_E H)) oldValue)) * b) v;
        write_put (h_E H) v (self c) key (VBytes val) (VBytes [])
      })"

section \<open>Logs\<close>

text \<open>The third bound is checked for the fourth topic, too. Too many topics terminate the run, but the log is written.\<close>

definition check_bound :: "'s wvm \<Rightarrow> i32 \<Rightarrow> unit option" where
  "check_bound v topic = do {
     mem \<leftarrow> vm_memory v;
     if (of_nat (length mem) :: u64) \<le> scast topic then None else Some ()
   }"

definition read_topic :: "'s host \<Rightarrow> nat \<Rightarrow> i32 \<Rightarrow> i32 \<Rightarrow> 's wvm \<Rightarrow> hash option" where
  "read_topic H p bound topic v = do {
     _ \<leftarrow> check_bound v bound;
     b \<leftarrow> readSize H p topic u256Len v;
     let t = g_BytesToHash (eG (h_E H)) (big_Bytes (int (be_nat b)));
     Some (g_BytesToHash (eG (h_E H)) (g_HashBytes (eG (h_E H)) t))
   }"

definition read_topics :: "'s host \<Rightarrow> nat \<Rightarrow> (i32 \<times> i32) list \<Rightarrow> 's wvm \<Rightarrow> hash list option" where
  "read_topics H p ts v = those (map (\<lambda>(bound, t). read_topic H p bound t v) ts)"

definition eei_log ::
  "'s host \<Rightarrow> nat \<Rightarrow> i32 \<Rightarrow> i32 \<Rightarrow> i32 \<Rightarrow> i32 \<Rightarrow> i32 \<Rightarrow> i32 \<Rightarrow> i32 \<Rightarrow> 's wvm \<Rightarrow> 's wvm option" where
  "eei_log H p dataOffset len numberOfTopics topic1 topic2 topic3 topic4 v = do {
     v \<leftarrow> gasAccounting p (GasCostLog + GasCostLogData * scast len + scast numberOfTopics * GasCostLogTopic) v;
     mem \<leftarrow> vm_memory v;
     if (of_nat (length mem) :: u64) \<le> scast len + scast dataOffset then None
     else do {
       dat \<leftarrow> readSize H p dataOffset (uint len) v;
       let n = sint numberOfTopics;
       if n < 0 then None
       else do {
         v \<leftarrow> (if n > 4 then terminate p (set_term TerminateInvalid v) else Some v);
         ts \<leftarrow> read_topics H p (take (nat n) [(topic1, topic1), (topic2, topic2), (topic3, topic3), (topic3, topic4)]) v;
         c \<leftarrow> cur v;
         let metaLog = \<lparr>log_Address = self c, log_Topics = ts @ replicate (nat n - 4) 0, log_Data = dat,
                        log_BlockNumber = big_Uint64 (BlockNumber (h_E H))\<rparr>;
         Some (v\<lparr>vDB := (h_AddLog H (fst (vDB v)) metaLog, snd (vDB v))\<rparr>)
       }
     }
   }"

end
