(* ===== verification/EeiCalls.thy ===== *)
theory EeiCalls
  imports Eei
begin

text \<open>
  Calls and creations from wasm (\<^verbatim>\<open>call\<close>, \<^verbatim>\<open>callCode\<close>, \<^verbatim>\<open>callDelegate\<close>, \<^verbatim>\<open>callStatic\<close> and \<^verbatim>\<open>create\<close> of \<^verbatim>\<open>vm/ethvm/ewasm_eei.go\<close>). Wasm code
  is run by the interpreter object itself, other code by \<^verbatim>\<open>Call\<close> of the machine, whose interpreter is that same
  object. The local \<^verbatim>\<open>contract\<close> is the position \<open>ci\<close> in the store.
\<close>

section \<open>Parts the calls share\<close>

definition callee_code :: "'s host \<Rightarrow> 's wvm \<Rightarrow> address \<Rightarrow> bytes option" where
  "callee_code H v a =
     (case GetAddressAndKey (vWriteSet v) a (SetCodeKey (eK (h_E H))) of
        None \<Rightarrow> Some (db_GetCode (eA (h_E H)) (vDB v) a)
      | Some d \<Rightarrow> as_bytes d)"

definition run_wasm ::
  "'s host \<Rightarrow> nat \<Rightarrow> contract \<Rightarrow> bytes \<Rightarrow> bool \<Rightarrow> 's wvm \<Rightarrow> ('s wvm \<times> contract) option" where
  "run_wasm H ci target input ro v = do {
     let savedVM = in_vm (win v);
     (v, target, ret, err) \<leftarrow> h_run H v target input ro;
     Some (set_win (\<lambda>w. w\<lparr>in_vm := savedVM, in_contract := ci\<rparr>) v, target)
   }"

text \<open>The branch for a revert comes after the one for any error, so it is never taken.\<close>

definition run_other ::
  "'s host \<Rightarrow> nat \<Rightarrow> address \<Rightarrow> bytes \<Rightarrow> u64 \<Rightarrow> int \<Rightarrow> 's wvm \<Rightarrow> 's wvm option" where
  "run_other H ci addr input gas value v = do {
     c \<leftarrow> contract_at v ci;
     (v, ret, returnGas, err) \<leftarrow> Call (h_run H) (h_E H) v (as_ref c) addr input gas value;
     let v = (if err \<noteq> None then set_term TerminateInvalid v
              else if err = Some ErrExecutionReverted
              then set_win (\<lambda>w. w\<lparr>in_term := TerminateRevert, in_returnData := ret\<rparr>) v
              else set_win (\<lambda>w. w\<lparr>in_term := TerminateFinish, in_returnData := ret\<rparr>) v);
     add_gas ci returnGas v
   }"

definition revert_to :: "'s host \<Rightarrow> nat \<Rightarrow> 's wvm \<Rightarrow> 's wvm" where
  "revert_to H snapshot v = v\<lparr>vDB := db_RevertToSnapshot (eJ (h_E H)) (vDB v) snapshot\<rparr>"

text \<open>The end of a call, by the reason for which the interpreter object says the last run has ended.\<close>

definition finish_call :: "'s host \<Rightarrow> nat \<Rightarrow> nat \<Rightarrow> u64 \<Rightarrow> 's wvm \<Rightarrow> ('s wvm \<times> i32) option" where
  "finish_call H snapshot ci left v =
     (case in_term (win v) of
        TerminateFinish \<Rightarrow> Some (v, EEICallSuccess)
      | TerminateRevert \<Rightarrow> Some (revert_to H snapshot v, ErrEEICallRevert)
      | _ \<Rightarrow> do { v \<leftarrow> use_gas ci left (revert_to H snapshot v); Some (v, ErrEEICallFailure) })"

definition pay_value :: "nat \<Rightarrow> int \<Rightarrow> 's wvm \<Rightarrow> 's wvm option" where
  "pay_value p value v = (if value \<noteq> 0 then gasAccounting p GasCostCallValue v else Some v)"

text \<open>A call gives away at most 63 of 64 parts of the gas.\<close>

definition callee_gas :: "u64 \<Rightarrow> i64 \<Rightarrow> u64" where
  "callee_gas own gas = (if gas > (63 * own) div 64 then own - own div 64 else gas)"

section \<open>Calls\<close>

definition eei_call ::
  "'s host \<Rightarrow> nat \<Rightarrow> i64 \<Rightarrow> i32 \<Rightarrow> i32 \<Rightarrow> i32 \<Rightarrow> i32 \<Rightarrow> 's wvm \<Rightarrow> ('s wvm \<times> i32) option" where
  "eei_call H p gas addressOffset valueOffset dataOffset dataLength v = do {
     let E = h_E H;
     let ci = in_contract (win v);
     c \<leftarrow> cur v;
     addr \<leftarrow> read_address H p addressOffset v;
     v0 \<leftarrow> readSize H p valueOffset u128Len v;
     let value = int (be_nat (swapEndian v0));
     if value > 2 ^ 128 then Some (v, ErrEEICallFailure)
     else do {
       balance \<leftarrow> balance_of E v (self c);
       if balance > 2 ^ 128 then do { v \<leftarrow> gasAccounting p (Gas c) v; Some (v, ErrEEICallRevert) }
       else if in_static (win v) \<and> value \<noteq> 0 then do { v \<leftarrow> gasAccounting p (Gas c) v; Some (v, ErrEEICallFailure) }
       else do {
         v \<leftarrow> gasAccounting p GasCostCall v;
         if depth v > maxCallDepth then Some (v, ErrEEICallFailure)
         else do {
           v \<leftarrow> pay_value p value v;
           input \<leftarrow> readSize H p dataOffset (sint dataLength) v;
           let (snapshot, v) = take_snapshot E v;
           if balance < value then Some (v, ErrEEICallFailure)
           else do {
             v \<leftarrow> (if \<not> db_Exist (eA E) (vDB v) addr then do {
                      v \<leftarrow> gasAccounting p GasCostNewAccount v;
                      write_put E v addr (CreatAccountKey (eK E)) (VBytes (g_AddrBytes (eG E) addr)) (VBytes [])
                    } else Some v);
             c \<leftarrow> contract_at v ci;
             let calleeGas = callee_gas (Gas c) gas;
             v \<leftarrow> gasAccounting p calleeGas v;
             let calleeGas = (if value \<noteq> 0 then calleeGas + GasCostCallStipend else calleeGas);
             code \<leftarrow> callee_code H v addr;
             let (target, v) = new_contract v (as_ref c) addr (Some value) calleeGas;
             if length code = 0 then do {
               v \<leftarrow> add_gas (in_contract (win v)) calleeGas v;
               Some (v, EEICallSuccess)
             }
             else do {
               let target = SetCallCode target addr (db_GetCodeHash (eA E) (vDB v) addr) code;
               wasm \<leftarrow> IsWASM code;
               (v, target) \<leftarrow> (if wasm then do {
                    (v, target) \<leftarrow> run_wasm H ci target input False v;
                    v \<leftarrow> add_gas ci (Gas target) v;
                    Some (v, target)
                  } else do { v \<leftarrow> run_other H ci addr input calleeGas value v; Some (v, target) });
               (v, r) \<leftarrow> finish_call H snapshot ci (Gas target) v;
               Some (set_term TerminateFinish v, r)
             }
           }
         }
       }
     }
   }"

text \<open>\<^verbatim>\<open>callCommon\<close> looks at the code of the caller, and takes the gas that the callee has used only after the run.\<close>

definition callCommon ::
  "'s host \<Rightarrow> nat \<Rightarrow> nat \<Rightarrow> contract \<Rightarrow> bytes \<Rightarrow> int \<Rightarrow> nat \<Rightarrow> i64 \<Rightarrow> bool \<Rightarrow> 's wvm \<Rightarrow> ('s wvm \<times> i32) option" where
  "callCommon H p ci target input value snapshot gas ro v =
     (if depth v > maxCallDepth then Some (v, ErrEEICallFailure)
      else do {
        c \<leftarrow> contract_at v ci;
        wasm \<leftarrow> IsWASM (Code c);
        (v, target) \<leftarrow> (if wasm then do {
             (v, target) \<leftarrow> run_wasm H ci target input ro v;
             v \<leftarrow> gasAccounting p (gas - Gas target - (if value \<noteq> 0 then GasCostCallStipend else 0)) v;
             Some (v, target)
           } else do { v \<leftarrow> run_other H ci (self target) input gas value v; Some (v, target) });
        finish_call H snapshot ci (Gas target) v
      })"

text \<open>The value is read without swapping its bytes, and it is the balance of the callee that has to cover it.\<close>

definition eei_callCode ::
  "'s host \<Rightarrow> nat \<Rightarrow> i64 \<Rightarrow> i32 \<Rightarrow> i32 \<Rightarrow> i32 \<Rightarrow> i32 \<Rightarrow> 's wvm \<Rightarrow> ('s wvm \<times> i32) option" where
  "eei_callCode H p gas addressOffset valueOffset dataOffset dataLength v = do {
     let E = h_E H;
     v \<leftarrow> gasAccounting p GasCostCall v;
     let ci = in_contract (win v);
     addr \<leftarrow> read_address H p addressOffset v;
     vb \<leftarrow> readSize H p valueOffset u128Len v;
     let value = int (be_nat vb);
     v \<leftarrow> pay_value p value v;
     let gas = (if value \<noteq> 0 then gas + GasCostCallStipend else gas);
     input \<leftarrow> readSize H p dataOffset (sint dataLength) v;
     let (snapshot, v) = take_snapshot E v;
     balance \<leftarrow> balance_of E v addr;
     if balance < value then Some (v, ErrEEICallFailure)
     else do {
       c \<leftarrow> contract_at v ci;
       let (target, v) = new_contract v (as_ref c) (self c) (Some value) gas;
       code \<leftarrow> callee_code H v addr;
       let target = SetCallCode target addr (g_Keccak256Hash (eG E) code) code;
       callCommon H p ci target input value snapshot gas False v
     }
   }"

definition eei_callDelegate ::
  "'s host \<Rightarrow> nat \<Rightarrow> i64 \<Rightarrow> i32 \<Rightarrow> i32 \<Rightarrow> i32 \<Rightarrow> 's wvm \<Rightarrow> ('s wvm \<times> i32) option" where
  "eei_callDelegate H p gas addressOffset dataOffset dataLength v = do {
     let E = h_E H;
     v \<leftarrow> gasAccounting p GasCostCall v;
     let ci = in_contract (win v);
     addr \<leftarrow> read_address H p addressOffset v;
     c \<leftarrow> contract_at v ci;
     value \<leftarrow> c_value c;
     v \<leftarrow> pay_value p value v;
     let gas = (if value \<noteq> 0 then gas + GasCostCallStipend else gas);
     input \<leftarrow> readSize H p dataOffset (sint dataLength) v;
     let (snapshot, v) = take_snapshot E v;
     balance \<leftarrow> balance_of E v addr;
     if balance < value then Some (v, ErrEEICallFailure)
     else do {
       let (target, v) = new_contract v (AccountRef (self c)) (self c) (Some value) gas;
       code \<leftarrow> callee_code H v addr;
       let target = SetCallCode target (self c) (g_Keccak256Hash (eG E) code) code;
       callCommon H p ci target input value snapshot gas False v
     }
   }"

text \<open>\<^verbatim>\<open>callStatic\<close> does not take the gas of the callee, and adds what is left of it.\<close>

definition eei_callStatic ::
  "'s host \<Rightarrow> nat \<Rightarrow> i64 \<Rightarrow> i32 \<Rightarrow> i32 \<Rightarrow> i32 \<Rightarrow> 's wvm \<Rightarrow> ('s wvm \<times> i32) option" where
  "eei_callStatic H p gas addressOffset dataOffset dataLength v = do {
     let E = h_E H;
     let ci = in_contract (win v);
     addr \<leftarrow> read_address H p addressOffset v;
     input \<leftarrow> readSize H p dataOffset (sint dataLength) v;
     let (snapshot, v) = take_snapshot E v;
     v \<leftarrow> gasAccounting p GasCostCall v;
     if depth v > maxCallDepth then Some (v, ErrEEICallFailure)
     else do {
       v \<leftarrow> (if \<not> db_Exist (eA E) (vDB v) addr then do {
                v \<leftarrow> gasAccounting p GasCostNewAccount v;
                Some (v\<lparr>vDB := db_CreateAccount (eA E) (vDB v) addr\<rparr>)
              } else Some v);
       c \<leftarrow> contract_at v ci;
       let (target, v) = new_contract v (as_ref c) addr (Some 0) gas;
       let code = db_GetCode (eA E) (vDB v) addr;
       if length code = 0 then do {
         v \<leftarrow> add_gas (in_contract (win v)) gas v;
         Some (v, EEICallSuccess)
       }
       else do {
         let target = SetCallCode target addr (db_GetCodeHash (eA E) (vDB v) addr) code;
         wasm \<leftarrow> IsWASM code;
         if wasm then do {
           let saveStatic = in_static (win v);
           (v, target) \<leftarrow> run_wasm H ci target input False (set_win (\<lambda>w. w\<lparr>in_static := True\<rparr>) v);
           v \<leftarrow> add_gas ci (Gas target) v;
           (v, r) \<leftarrow> finish_call H snapshot ci (Gas target) v;
           Some (set_win (\<lambda>w. w\<lparr>in_static := saveStatic\<rparr>) v, r)
         } else do {
           v \<leftarrow> run_other H ci (self target) input gas 0 v;
           finish_call H snapshot ci (Gas target) v
         }
       }
     }
   }"

section \<open>Creation\<close>

text \<open>The part after the code was read; the interpreter object is put back in any case.\<close>

definition create_body ::
  "'s host \<Rightarrow> nat \<Rightarrow> nat \<Rightarrow> bytes \<Rightarrow> bytes \<Rightarrow> i32 \<Rightarrow> 's wvm \<Rightarrow> ('s wvm \<times> i32) option" where
  "create_body H p ci input value resultOffset v = do {
     c \<leftarrow> cur v;
     let gas = Gas c - Gas c div 64;
     v \<leftarrow> gasAccounting p gas v;
     (code, ok) \<leftarrow> h_Sentinel H input;
     if \<not> ok then Some (v, ErrEEICallFailure)
     else if length code < 5 then Some (v, ErrEEICallFailure)
     else do {
       c \<leftarrow> cur v;
       (v, ret, addr, gasLeft, err) \<leftarrow> Create (h_run H) (h_E H) v (as_ref c) code gas (int (be_nat value));
       case in_term (win v) of
         TerminateFinish \<Rightarrow> do {
           v \<leftarrow> add_gas ci gasLeft v;
           v \<leftarrow> write_at H p (g_AddrBytes (eG (h_E H)) addr) resultOffset v;
           Some (v, EEICallSuccess)
         }
       | TerminateRevert \<Rightarrow> do { v \<leftarrow> add_gas ci gas v; Some (v, ErrEEICallRevert) }
       | _ \<Rightarrow> do { v \<leftarrow> add_gas ci gasLeft v; Some (v, ErrEEICallFailure) }
     }
   }"

definition eei_create ::
  "'s host \<Rightarrow> nat \<Rightarrow> i32 \<Rightarrow> i32 \<Rightarrow> i32 \<Rightarrow> i32 \<Rightarrow> 's wvm \<Rightarrow> ('s wvm \<times> i32) option" where
  "eei_create H p valueOffset codeOffset len resultOffset v = do {
     v \<leftarrow> gasAccounting p GasCostCreate v;
     let savedVM = in_vm (win v);
     let ci = in_contract (win v);
     let v = set_term TerminateInvalid v;
     mem \<leftarrow> vm_memory v;
     if unat codeOffset + unat len > length mem then Some (v, ErrEEICallFailure)
     else do {
       input \<leftarrow> readSize H p codeOffset (uint len) v;
       if unat valueOffset + 16 > length mem then Some (v, ErrEEICallFailure)
       else do {
         vb \<leftarrow> readSize H p valueOffset u128Len v;
         (v, r) \<leftarrow> create_body H p ci input (swapEndian vb) resultOffset (set_term TerminateFinish v);
         Some (set_win (\<lambda>w. w\<lparr>in_vm := savedVM, in_contract := ci\<rparr>) v, r)
       }
     }
   }"

end
