(* ===== verification/Wasm.thy ===== *)
theory Wasm
  imports EeiCalls
begin

text \<open>
  The wasm interpreter (\<^verbatim>\<open>vm/ethvm/ewasm.go\<close>), the check of its modules, and the table by which wagon finds the host
  functions (\<^verbatim>\<open>eeiTypes\<close> and \<^verbatim>\<open>eeiFuncs\<close> of \<^verbatim>\<open>ewasm_eei.go\<close>, \<^verbatim>\<open>ModuleResolver\<close> of \<^verbatim>\<open>ewasm_linker.go\<close>). Wagon itself, which decodes and
  executes modules, is the record \<open>wagon_vm\<close>; arguments and results of host functions are 64-bit words there.
\<close>

section \<open>The table of host functions\<close>

datatype value_type = ValueTypeI32 | ValueTypeI64

type_synonym func_sig = "value_type list \<times> value_type list"

definition eeiTypes :: "func_sig list" where
  "eeiTypes = (let i = ValueTypeI32; l = ValueTypeI64 in
     [([l], []), ([i], []), ([i, i], []), ([l, i], [i]), ([l, i, i, i, i], [i]), ([i], [i]), ([i, i, i], []),
      ([], [i]), ([l, i, i, i], [i]), ([l, i, i, i, i], [i]), ([i, i, i, i], [i]), ([i, i, i, i], []), ([], [l]),
      ([i, i, i, i, i, i, i], [])])"

type_synonym 's host_fn = "nat \<Rightarrow> u64 list \<Rightarrow> 's wvm \<Rightarrow> ('s wvm \<times> u64 list) option"

definition no_result :: "'s wvm option \<Rightarrow> ('s wvm \<times> u64 list) option" where
  "no_result r = map_option (\<lambda>v. (v, [])) r"

definition one_i32 :: "('s wvm \<times> i32) option \<Rightarrow> ('s wvm \<times> u64 list) option" where
  "one_i32 r = map_option (\<lambda>(v, x). (v, [ucast x])) r"

definition one_i64 :: "('s wvm \<times> i64) option \<Rightarrow> ('s wvm \<times> u64 list) option" where
  "one_i64 r = map_option (\<lambda>(v, x). (v, [x])) r"

definition arg32 :: "u64 list \<Rightarrow> nat \<Rightarrow> i32" where
  "arg32 as i = ucast (as ! i)"

definition arg64 :: "u64 list \<Rightarrow> nat \<Rightarrow> i64" where
  "arg64 as i = as ! i"

definition host_func :: "func_sig \<Rightarrow> 's host_fn \<Rightarrow> func_sig \<times> 's host_fn" where
  "host_func sig f = (sig, \<lambda>p as v. if length as = length (fst sig) then f p as v else None)"

definition eeiFuncs :: "'s host \<Rightarrow> (func_sig \<times> 's host_fn) list" where
  "eeiFuncs H = [
     host_func (eeiTypes ! 0) (\<lambda>p as v. no_result (eei_useGas H p (arg64 as 0) v)),
     host_func (eeiTypes ! 1) (\<lambda>p as v. no_result (eei_getAddress H p (arg32 as 0) v)),
     host_func (eeiTypes ! 2) (\<lambda>p as v. no_result (eei_getExternalBalance H p (arg32 as 0) (arg32 as 1) v)),
     host_func (eeiTypes ! 3) (\<lambda>p as v. one_i32 (eei_getBlockHash H p (arg64 as 0) (arg32 as 1) v)),
     host_func (eeiTypes ! 4) (\<lambda>p as v. one_i32 (eei_call H p (arg64 as 0) (arg32 as 1) (arg32 as 2) (arg32 as 3) (arg32 as 4) v)),
     host_func (eeiTypes ! 6) (\<lambda>p as v. no_result (eei_callDataCopy H p (arg32 as 0) (arg32 as 1) (arg32 as 2) v)),
     host_func (eeiTypes ! 7) (\<lambda>p as v. one_i32 (eei_getCallDataSize H p v)),
     host_func (eeiTypes ! 9) (\<lambda>p as v. one_i32 (eei_callCode H p (arg64 as 0) (arg32 as 1) (arg32 as 2) (arg32 as 3) (arg32 as 4) v)),
     host_func (eeiTypes ! 8) (\<lambda>p as v. one_i32 (eei_callDelegate H p (arg64 as 0) (arg32 as 1) (arg32 as 2) (arg32 as 3) v)),
     host_func (eeiTypes ! 8) (\<lambda>p as v. one_i32 (eei_callStatic H p (arg64 as 0) (arg32 as 1) (arg32 as 2) (arg32 as 3) v)),
     host_func (eeiTypes ! 2) (\<lambda>p as v. no_result (eei_storageStore H p (arg32 as 0) (arg32 as 1) v)),
     host_func (eeiTypes ! 2) (\<lambda>p as v. no_result (eei_storageLoad H p (arg32 as 0) (arg32 as 1) v)),
     host_func (eeiTypes ! 1) (\<lambda>p as v. no_result (eei_getCaller H p (arg32 as 0) v)),
     host_func (eeiTypes ! 1) (\<lambda>p as v. no_result (eei_getCallValue H p (arg32 as 0) v)),
     host_func (eeiTypes ! 6) (\<lambda>p as v. no_result (eei_codeCopy H p (arg32 as 0) (arg32 as 1) (arg32 as 2) v)),
     host_func (eeiTypes ! 7) (\<lambda>p as v. one_i32 (eei_getCodeSize H p v)),
     host_func (eeiTypes ! 1) (\<lambda>p as v. no_result (eei_getBlockCoinbase H p (arg32 as 0) v)),
     host_func (eeiTypes ! 10) (\<lambda>p as v. one_i32 (eei_create H p (arg32 as 0) (arg32 as 1) (arg32 as 2) (arg32 as 3) v)),
     host_func (eeiTypes ! 1) (\<lambda>p as v. no_result (eei_getBlockDifficulty H p (arg32 as 0) v)),
     host_func (eeiTypes ! 11) (\<lambda>p as v. no_result (eei_externalCodeCopy H p (arg32 as 0) (arg32 as 1) (arg32 as 2) (arg32 as 3) v)),
     host_func (eeiTypes ! 5) (\<lambda>p as v. one_i32 (eei_getExternalCodeSize H p (arg32 as 0) v)),
     host_func (eeiTypes ! 12) (\<lambda>p as v. one_i64 (eei_getGasLeft H p v)),
     host_func (eeiTypes ! 12) (\<lambda>p as v. one_i64 (eei_getBlockGasLimit H p v)),
     host_func (eeiTypes ! 1) (\<lambda>p as v. no_result (eei_getTxGasPrice H p (arg32 as 0) v)),
     host_func (eeiTypes ! 13) (\<lambda>p as v. no_result (eei_log H p (arg32 as 0) (arg32 as 1) (arg32 as 2) (arg32 as 3) (arg32 as 4)
       (arg32 as 5) (arg32 as 6) v)),
     host_func (eeiTypes ! 12) (\<lambda>p as v. one_i64 (eei_getBlockNumber H p v)),
     host_func (eeiTypes ! 1) (\<lambda>p as v. no_result (eei_getTxOrigin H p (arg32 as 0) v)),
     host_func (eeiTypes ! 2) (\<lambda>p as v. no_result (eei_finish H p (arg32 as 0) (arg32 as 1) v)),
     host_func (eeiTypes ! 2) (\<lambda>p as v. no_result (eei_revert H p (arg32 as 0) (arg32 as 1) v)),
     host_func (eeiTypes ! 7) (\<lambda>p as v. one_i32 (eei_getReturnDataSize H p v)),
     host_func (eeiTypes ! 6) (\<lambda>p as v. no_result (eei_returnDataCopy H p (arg32 as 0) (arg32 as 1) (arg32 as 2) v)),
     host_func (eeiTypes ! 1) (\<lambda>p as v. no_result (eei_selfDestruct H p (arg32 as 0) v)),
     host_func (eeiTypes ! 12) (\<lambda>p as v. one_i64 (eei_getBlockTimestamp H p v)),
     host_func (replicate 4 ValueTypeI32, []) (\<lambda>p as v. no_result (eei_storageStore2 H p (arg32 as 0) (arg32 as 1) (arg32 as 2) (arg32 as 3) v)),
     host_func (replicate 4 ValueTypeI32, []) (\<lambda>p as v. no_result (eei_storageLoad2 H p (arg32 as 0) (arg32 as 1) (arg32 as 2) (arg32 as 3) v))]"

definition eeiFunctionList :: "string list" where
  "eeiFunctionList = [''useGas'', ''getAddress'', ''getExternalBalance'', ''getBlockHash'', ''call'', ''callDataCopy'',
     ''getCallDataSize'', ''callCode'', ''callDelegate'', ''callStatic'', ''storageStore'', ''storageLoad'', ''getCaller'',
     ''getCallValue'', ''codeCopy'', ''getCodeSize'', ''getBlockCoinbase'', ''create'', ''getBlockDifficulty'',
     ''externalCodeCopy'', ''getExternalCodeSize'', ''getGasLeft'', ''getBlockGasLimit'', ''getTxGasPrice'', ''log'',
     ''getBlockNumber'', ''getTxOrigin'', ''finish'', ''revert'', ''getReturnDataSize'', ''returnDataCopy'', ''selfDestruct'',
     ''getBlockTimestamp'', ''storageStore2'', ''storageLoad2'']"

definition debugFunctionList :: "string list" where
  "debugFunctionList = [''printMemHex'', ''printStorageHex'']"

text \<open>The functions for debugging print; they may panic, but change nothing.\<close>

definition printMemHex :: "'s host \<Rightarrow> nat \<Rightarrow> i32 \<Rightarrow> i32 \<Rightarrow> 's wvm \<Rightarrow> 's wvm option" where
  "printMemHex H p off len v = do { b \<leftarrow> readSize H p off (sint len) v; Some v }"

definition printStorageHex :: "'s host \<Rightarrow> nat \<Rightarrow> i32 \<Rightarrow> 's wvm \<Rightarrow> 's wvm option" where
  "printStorageHex H p pathOffset v = do { path \<leftarrow> read_hash H p pathOffset v; c \<leftarrow> cur v; Some v }"

definition getDebugFuncs :: "'s host \<Rightarrow> (func_sig \<times> 's host_fn) list" where
  "getDebugFuncs H = [
     host_func (eeiTypes ! 2) (\<lambda>p as v. no_result (printMemHex H p (arg32 as 0) (arg32 as 1) v)),
     host_func (eeiTypes ! 1) (\<lambda>p as v. no_result (printStorageHex H p (arg32 as 0) v))]"

text \<open>The module behind an import: its functions, and the index under which each name is exported.\<close>

definition ModuleResolver :: "'s host \<Rightarrow> string \<Rightarrow> ((func_sig \<times> 's host_fn) list \<times> (string, nat) gomap) option" where
  "ModuleResolver H name =
     (if name = ''debug'' then Some (getDebugFuncs H, zip debugFunctionList [0..<length debugFunctionList])
      else if name \<noteq> ''ethereum'' then None
      else Some (eeiFuncs H, zip eeiFunctionList [0..<length eeiFunctionList]))"

section \<open>Modules\<close>

datatype external_kind = ExternalFunction | ExternalTable | ExternalMemory | ExternalGlobal

record wmodule =
  m_Start :: bool
  m_Export :: "(string, external_kind \<times> nat) gomap option"
  m_Import :: "(string \<times> string \<times> external_kind) list option"
  m_Funcs :: "func_sig list"

definition export_ok :: "string \<times> external_kind \<times> nat \<Rightarrow> bool" where
  "export_ok e = (case e of (name, kind, i) \<Rightarrow>
     if name = ''main'' then kind = ExternalFunction
     else if name = ''memory'' then kind = ExternalMemory else False)"

definition import_ok :: "string \<times> string \<times> external_kind \<Rightarrow> bool" where
  "import_ok e = (case e of (moduleName, fieldName, kind) \<Rightarrow>
     moduleName = ''ethereum'' \<and> kind = ExternalFunction \<longrightarrow> fieldName \<in> set eeiFunctionList)"

text \<open>The index of main, or an error. An export of two names that are allowed has a main.\<close>

definition validateModule :: "wmodule \<Rightarrow> nat option" where
  "validateModule m =
     (if m_Start m then None
      else do {
        entries \<leftarrow> m_Export m;
        if length entries \<noteq> 2 then None
        else if \<not> list_all export_ok entries then None
        else if \<not> (case m_Import m of None \<Rightarrow> True | Some is \<Rightarrow> list_all import_ok is) then None
        else do { (kind, i) \<leftarrow> lookup entries ''main''; Some i }
      })"

section \<open>Runs\<close>

text \<open>\<open>x_Exec\<close> runs a function of a module as the VM at a position, with the host functions by module and name, and answers with an error.\<close>

datatype exec_error = ExecReverted | ExecFailed

record 's wagon_vm =
  x_ReadModule :: "bytes \<Rightarrow> wmodule option"
  x_NewVM :: "wmodule \<Rightarrow> bytes option"
  x_Exec :: "(string \<Rightarrow> ((func_sig \<times> 's host_fn) list \<times> (string, nat) gomap) option) \<Rightarrow> wmodule \<Rightarrow> nat \<Rightarrow> nat \<Rightarrow> 's wvm \<Rightarrow>
    ('s wvm \<times> exec_error option) option"

definition wasm_error :: "string \<Rightarrow> vm_error option" where
  "wasm_error msg = Some (ErrPrecompile msg)"

text \<open>The run of main, after the module was checked; \<open>n\<close> is the position of the contract.\<close>

definition exec_main ::
  "'s host \<Rightarrow> 's wagon_vm \<Rightarrow> wmodule \<Rightarrow> nat \<Rightarrow> nat \<Rightarrow> address \<Rightarrow> 's wvm \<Rightarrow> ('s wvm \<times> bytes \<times> vm_error option) option" where
  "exec_main H X m mainIndex p a v = do {
     (v, e) \<leftarrow> x_Exec X (ModuleResolver H) m mainIndex p v;
     let v = (if e = Some ExecFailed then set_term TerminateInvalid v else v);
     let suicided = db_HasSuicided (eA (h_E H)) (vDB v) a;
     let v = (if suicided then v\<lparr>vDB := db_AddRefund (eJ (h_E H)) (vDB v) SelfdestructRefundGas\<rparr> else v);
     let e = (if suicided then None else e);
     if in_term (win v) = TerminateInvalid then Some (v, [], wasm_error ''wasm_exec_fail : may be out of gas'')
     else Some (v, in_returnData (win v),
       (case e of None \<Rightarrow> None | Some ExecReverted \<Rightarrow> Some ErrExecutionReverted | Some ExecFailed \<Rightarrow> wasm_error ''exec''))
   }"

definition wasm_module ::
  "'s host \<Rightarrow> 's wagon_vm \<Rightarrow> contract \<Rightarrow> 's wvm \<Rightarrow> ('s wvm \<times> bytes \<times> vm_error option) option" where
  "wasm_module H X c v =
     (if length (Code c) < 65 then Some (v, [], wasm_error ''wasm_code_error'')
      else case x_ReadModule X (take (length (Code c) - 64) (Code c)) of
        None \<Rightarrow> Some (set_term TerminateInvalid v, [], wasm_error ''Error decoding module'')
      | Some m \<Rightarrow> do {
          mem \<leftarrow> x_NewVM X m;
          let p = length (in_procs (win v));
          let v = set_win (\<lambda>w. w\<lparr>in_procs := in_procs w @ [\<lparr>pr_mem = mem, pr_done = False\<rparr>], in_vm := p\<rparr>) v;
          mainIndex \<leftarrow> validateModule m;
          (params, results) \<leftarrow> go_index (m_Funcs m) mainIndex;
          if params = [] \<and> results = [] then exec_main H X m mainIndex p (self c) v
          else Some (set_term TerminateInvalid v, [], wasm_error ''Could not find a suitable main function'')
        })"

text \<open>\<^verbatim>\<open>Run\<close> makes the contract the current one and leaves it so. The flag for static runs is not used.\<close>

definition wasm_body :: "'s host \<Rightarrow> 's wagon_vm \<Rightarrow> ('s \<times> wasm_in) run_fn" where
  "wasm_body H X v c input ro = do {
     let v = v\<lparr>depth := depth v + 1\<rparr>;
     let n = length (in_contracts (win v));
     let c = c\<lparr>Input := input\<rparr>;
     let v = set_win (\<lambda>w. w\<lparr>in_contracts := in_contracts w @ [c], in_contract := n\<rparr>) v;
     (v, ret, err) \<leftarrow> wasm_module H X c v;
     c \<leftarrow> contract_at v n;
     Some (v\<lparr>depth := depth v - 1\<rparr>, c, ret, err)
   }"

primrec wasm_Run :: "nat \<Rightarrow> 's host \<Rightarrow> 's wagon_vm \<Rightarrow> ('s \<times> wasm_in) run_fn" where
  "wasm_Run 0 H X v c input ro = None"
| "wasm_Run (Suc d) H X v c input ro = wasm_body (H\<lparr>h_run := wasm_Run d H X\<rparr>) X v c input ro"

definition NewEWASMInterpreter :: wasm_in where
  "NewEWASMInterpreter = \<lparr>in_vm = 0, in_contract = 0, in_returnData = [], in_term = TerminateFinish, in_static = False,
     in_contracts = [], in_procs = []\<rparr>"

definition CanRun :: "bytes \<Rightarrow> bool option" where
  "CanRun file = IsWASM file"

section \<open>The database of the pair\<close>

text \<open>A database stays a database when the interpreter object is put beside it.\<close>

definition lift_accounts :: "'s account_ops \<Rightarrow> ('s \<times> 'w) account_ops" where
  "lift_accounts A = \<lparr>
     db_CreateAccount = (\<lambda>(s, w) a. (db_CreateAccount A s a, w)),
     db_SubBalance = (\<lambda>(s, w) a x. (db_SubBalance A s a x, w)),
     db_AddBalance = (\<lambda>(s, w) a x. (db_AddBalance A s a x, w)),
     db_GetBalance = (\<lambda>(s, w). db_GetBalance A s),
     db_SetBalance = (\<lambda>(s, w) a x. (db_SetBalance A s a x, w)),
     db_GetNonce = (\<lambda>(s, w). db_GetNonce A s),
     db_SetNonce = (\<lambda>(s, w) a n. (db_SetNonce A s a n, w)),
     db_GetCodeHash = (\<lambda>(s, w). db_GetCodeHash A s),
     db_GetCode = (\<lambda>(s, w). db_GetCode A s),
     db_SetCode = (\<lambda>(s, w) a c. (db_SetCode A s a c, w)),
     db_GetCodeSize = (\<lambda>(s, w). db_GetCodeSize A s),
     db_GetCommittedState = (\<lambda>(s, w). db_GetCommittedState A s),
     db_GetState = (\<lambda>(s, w). db_GetState A s),
     db_SetState = (\<lambda>(s, w) a k x. (db_SetState A s a k x, w)),
     db_Suicide = (\<lambda>(s, w) a. (db_Suicide A s a, w)),
     db_HasSuicided = (\<lambda>(s, w). db_HasSuicided A s),
     db_Exist = (\<lambda>(s, w). db_Exist A s),
     db_Empty = (\<lambda>(s, w). db_Empty A s)\<rparr>"

definition lift_journal :: "'s journal_ops \<Rightarrow> ('s \<times> 'w) journal_ops" where
  "lift_journal J = \<lparr>
     db_AddRefund = (\<lambda>(s, w) n. (db_AddRefund J s n, w)),
     db_SubRefund = (\<lambda>(s, w) n. map_option (\<lambda>s. (s, w)) (db_SubRefund J s n)),
     db_GetRefund = (\<lambda>(s, w). db_GetRefund J s),
     db_AddressInAccessList = (\<lambda>(s, w). db_AddressInAccessList J s),
     db_SlotInAccessList = (\<lambda>(s, w). db_SlotInAccessList J s),
     db_AddAddressToAccessList = (\<lambda>(s, w) a. (db_AddAddressToAccessList J s a, w)),
     db_AddSlotToAccessList = (\<lambda>(s, w) a k. (db_AddSlotToAccessList J s a k, w)),
     db_Snapshot = (\<lambda>(s, w). case db_Snapshot J s of (i, s) \<Rightarrow> (i, (s, w))),
     db_RevertToSnapshot = (\<lambda>(s, w) i. (db_RevertToSnapshot J s i, w)),
     db_AddLogWithTxHash = (\<lambda>(s, w) l h. (db_AddLogWithTxHash J s l h, w)),
     db_AddPreimage = (\<lambda>(s, w) h d. (db_AddPreimage J s h d, w)),
     db_Prepare = (\<lambda>(s, w) h i. (db_Prepare J s h i, w)),
     db_Finalise = (\<lambda>(s, w) b. (db_Finalise J s b, w))\<rparr>"

definition lift_env :: "'s env \<Rightarrow> ('s \<times> 'w) env" where
  "lift_env E = \<lparr>eU = eU E, eG = eG E, eA = lift_accounts (eA E), eJ = lift_journal (eJ E), eK = eK E, ePre = ePre E,
     CanTransfer = (\<lambda>(s, w). CanTransfer E s), GetHash = GetHash E, Coinbase = Coinbase E, GasLimit = GasLimit E,
     BlockNumber = BlockNumber E, Time = Time E, Difficulty = Difficulty E, BaseFee = BaseFee E, Random = Random E,
     Origin = Origin E, TxGasPrice = TxGasPrice E, ChainID = ChainID E, EnablePreimageRecording = EnablePreimageRecording E\<rparr>"

end
