(* ===== verification/EeiLaws.thy ===== *)
theory EeiLaws
  imports Wasm
begin

text \<open>
  What the host functions guarantee: the table by which wagon finds them is typed, those that only look at the context take exactly
  their price, and what a contract has stored it loads again.
\<close>

section \<open>The interpreter object\<close>

lemma win_set_win [simp]: "win (set_win f v) = f (win v)"
  by (simp add: win_def set_win_def)

lemma set_win_keeps [simp]:
  "vWriteSet (set_win f v) = vWriteSet v" "vReadSet (set_win f v) = vReadSet v" "depth (set_win f v) = depth v"
  "jdstore (set_win f v) = jdstore v" "fst (vDB (set_win f v)) = fst (vDB v)"
  by (simp_all add: set_win_def)

lemma win_updates [simp]:
  "win (v\<lparr>vWriteSet := ws\<rparr>) = win v" "win (v\<lparr>vReadSet := rs\<rparr>) = win v" "win (v\<lparr>jdstore := jd\<rparr>) = win v"
  "win (v\<lparr>vDB := d\<rparr>) = snd d"
  by (simp_all add: win_def)

text \<open>The VM at a position was told to stop.\<close>

definition stopped :: "nat \<Rightarrow> 's wvm \<Rightarrow> bool" where
  "stopped p v \<longleftrightarrow> pr_done (in_procs (win v) ! p)"

text \<open>What the functions of the context leave as it is.\<close>

definition keeps :: "nat \<Rightarrow> 's wvm \<Rightarrow> 's wvm \<Rightarrow> bool" where
  "keeps p v v' \<longleftrightarrow> cur v' = cur v \<and> in_term (win v') = in_term (win v) \<and> stopped p v' = stopped p v \<and>
     vWriteSet v' = vWriteSet v \<and> fst (vDB v') = fst (vDB v)"

lemma keeps_refl [simp]: "keeps p v v"
  by (simp add: keeps_def)

lemma keeps_trans [trans]: "keeps p u v \<Longrightarrow> keeps p v w \<Longrightarrow> keeps p u w"
  by (simp add: keeps_def)

lemma write_at_keeps: "write_at H p bs off v = Some v' \<Longrightarrow> keeps p v v'"
  by (auto simp: write_at_def set_proc_def bind_Some_iff keeps_def cur_def contract_at_def stopped_def)

lemma read_put_keeps: "read_put E v a k x = Some v' \<Longrightarrow> keeps p v v'"
  by (auto simp: read_put_def bind_Some_iff keeps_def cur_def contract_at_def stopped_def)

text \<open>A price is paid exactly, or the run is stopped and the gas stays.\<close>

definition pays :: "nat \<Rightarrow> u64 \<Rightarrow> 's wvm \<Rightarrow> 's wvm \<Rightarrow> bool" where
  "pays p cost v v' \<longleftrightarrow> vWriteSet v' = vWriteSet v \<and> fst (vDB v') = fst (vDB v) \<and>
     (\<exists>c. cur v = Some c \<and>
       (if cost \<le> Gas c
        then cur v' = Some (c\<lparr>Gas := Gas c - cost\<rparr>) \<and> in_term (win v') = in_term (win v) \<and> stopped p v' = stopped p v
        else cur v' = Some c \<and> in_term (win v') = TerminateInvalid \<and> stopped p v'))"

lemma gasAccounting_eq:
  assumes "cur v = Some c"
  shows "gasAccounting p cost v =
    (if cost \<le> Gas c
     then Some (set_win (\<lambda>w. w\<lparr>in_contracts := (in_contracts w)[in_contract w := c\<lparr>Gas := Gas c - cost\<rparr>]\<rparr>) v)
     else if p < length (in_procs (win v))
     then Some (set_win (\<lambda>w. w\<lparr>in_term := TerminateInvalid, in_procs := (in_procs w)[p := (in_procs w ! p)\<lparr>pr_done := True\<rparr>]\<rparr>) v)
     else None)"
  using assms
  by (auto simp: gasAccounting_def cur_def contract_at_def set_contract_def terminate_def set_proc_def set_term_def go_update_def
      go_index_def set_win_def win_def not_less)

lemma gasAccounting_pays: "gasAccounting p cost v = Some v' \<Longrightarrow> pays p cost v v'"
proof -
  assume g: "gasAccounting p cost v = Some v'"
  then obtain c where c: "cur v = Some c" by (auto simp: gasAccounting_def bind_Some_iff)
  with g show "pays p cost v v'"
    by (auto simp: gasAccounting_eq pays_def cur_def contract_at_def stopped_def split: if_splits)
qed

lemma pays_keeps: "pays p cost v v1 \<Longrightarrow> keeps p v1 v' \<Longrightarrow> pays p cost v v'"
  by (auto simp: pays_def keeps_def split: if_splits)

lemma paid_then: "gasAccounting p cost v = Some v1 \<Longrightarrow> keeps p v1 v' \<Longrightarrow> pays p cost v v'"
  using gasAccounting_pays pays_keeps by blast

lemmas paying = bind_Some_iff paid_write_def Let_def
lemmas paid = paid_then paid_then [OF _ write_at_keeps] paid_then [OF _ keeps_trans [OF write_at_keeps read_put_keeps]]
  paid_then [OF _ keeps_trans [OF read_put_keeps write_at_keeps]]

section \<open>Prices\<close>

text \<open>Every function that answers from the context takes exactly its price from the running contract and touches
  neither the database nor the write set, or, when the contract cannot pay, leaves the gas as it is,
  stops the VM and marks the run as invalid.\<close>

theorem host_functions_pay:
  "(eei_useGas H p g v = Some v' \<longrightarrow> pays p g v v') \<and>
   (eei_getAddress H p a v = Some v' \<longrightarrow> pays p 2 v v') \<and>
   (eei_getExternalBalance H p a b v = Some v' \<longrightarrow> pays p 400 v v') \<and>
   (eei_getBlockHash H p g a v = Some (v', r) \<longrightarrow> pays p 800 v v') \<and>
   (eei_callDataCopy H p a b n v = Some v' \<longrightarrow> pays p (3 + copy_cost n) v v') \<and>
   (eei_getCallDataSize H p v = Some (v', r) \<longrightarrow> pays p 2 v v') \<and>
   (eei_getCaller H p a v = Some v' \<longrightarrow> pays p 2 v v') \<and>
   (eei_getCallValue H p a v = Some v' \<longrightarrow> pays p 2 v v') \<and>
   (eei_codeCopy H p a b n v = Some v' \<longrightarrow> pays p (3 + copy_cost n) v v') \<and>
   (eei_getCodeSize H p v = Some (v', r) \<longrightarrow> pays p 2 v v') \<and>
   (eei_getBlockCoinbase H p a v = Some v' \<longrightarrow> pays p 2 v v') \<and>
   (eei_getBlockDifficulty H p a v = Some v' \<longrightarrow> pays p 2 v v') \<and>
   (eei_externalCodeCopy H p a b c n v = Some v' \<longrightarrow> pays p (700 + copy_cost n) v v') \<and>
   (eei_getExternalCodeSize H p a v = Some (v', r) \<longrightarrow> pays p 700 v v') \<and>
   (eei_getGasLeft H p v = Some (v', g) \<longrightarrow> pays p 2 v v') \<and>
   (eei_getBlockGasLimit H p v = Some (v', g) \<longrightarrow> pays p 2 v v') \<and>
   (eei_getTxGasPrice H p a v = Some v' \<longrightarrow> pays p 2 v v') \<and>
   (eei_getBlockNumber H p v = Some (v', g) \<longrightarrow> pays p 2 v v') \<and>
   (eei_getTxOrigin H p a v = Some v' \<longrightarrow> pays p 2 v v') \<and>
   (eei_getReturnDataSize H p v = Some (v', r) \<longrightarrow> pays p 2 v v') \<and>
   (eei_returnDataCopy H p a b n v = Some v' \<longrightarrow> pays p (3 + copy_cost n) v v') \<and>
   (eei_getBlockTimestamp H p v = Some (v', g) \<longrightarrow> pays p 2 v v') \<and>
   (eei_storageLoad H p a b v = Some v' \<longrightarrow> pays p 200 v v') \<and>
   (eei_storageLoad2 H p a b c d v = Some v' \<longrightarrow> pays p 800 v v')"
proof (intro conjI impI)
  show "eei_useGas H p g v = Some v' \<Longrightarrow> pays p g v v'" by (simp add: eei_useGas_def gasAccounting_pays)
  show "eei_getAddress H p a v = Some v' \<Longrightarrow> pays p 2 v v'" by (auto simp: eei_getAddress_def paying intro: paid)
  show "eei_getExternalBalance H p a b v = Some v' \<Longrightarrow> pays p 400 v v'" by (auto simp: eei_getExternalBalance_def paying intro: paid)
  show "eei_getBlockHash H p g a v = Some (v', r) \<Longrightarrow> pays p 800 v v'"
    by (auto simp: eei_getBlockHash_def paying gasAccounting_pays intro: paid split: if_splits)
  show "eei_callDataCopy H p a b n v = Some v' \<Longrightarrow> pays p (3 + copy_cost n) v v'" by (auto simp: eei_callDataCopy_def paying intro: paid)
  show "eei_getCallDataSize H p v = Some (v', r) \<Longrightarrow> pays p 2 v v'" by (auto simp: eei_getCallDataSize_def paying gasAccounting_pays)
  show "eei_getCaller H p a v = Some v' \<Longrightarrow> pays p 2 v v'" by (auto simp: eei_getCaller_def paying intro: paid)
  show "eei_getCallValue H p a v = Some v' \<Longrightarrow> pays p 2 v v'" by (auto simp: eei_getCallValue_def paying intro: paid)
  show "eei_codeCopy H p a b n v = Some v' \<Longrightarrow> pays p (3 + copy_cost n) v v'" by (auto simp: eei_codeCopy_def paying intro: paid)
  show "eei_getCodeSize H p v = Some (v', r) \<Longrightarrow> pays p 2 v v'" by (auto simp: eei_getCodeSize_def paying gasAccounting_pays)
  show "eei_getBlockCoinbase H p a v = Some v' \<Longrightarrow> pays p 2 v v'" by (auto simp: eei_getBlockCoinbase_def paying intro: paid)
  show "eei_getBlockDifficulty H p a v = Some v' \<Longrightarrow> pays p 2 v v'" by (auto simp: eei_getBlockDifficulty_def paying intro: paid)
  show "eei_externalCodeCopy H p a b c n v = Some v' \<Longrightarrow> pays p (700 + copy_cost n) v v'"
    by (auto simp: eei_externalCodeCopy_def paying intro: paid)
  show "eei_getExternalCodeSize H p a v = Some (v', r) \<Longrightarrow> pays p 700 v v'" by (auto simp: eei_getExternalCodeSize_def paying gasAccounting_pays)
  show "eei_getGasLeft H p v = Some (v', g) \<Longrightarrow> pays p 2 v v'" by (auto simp: eei_getGasLeft_def paying gasAccounting_pays)
  show "eei_getBlockGasLimit H p v = Some (v', g) \<Longrightarrow> pays p 2 v v'" by (auto simp: eei_getBlockGasLimit_def paying gasAccounting_pays)
  show "eei_getTxGasPrice H p a v = Some v' \<Longrightarrow> pays p 2 v v'" by (auto simp: eei_getTxGasPrice_def paying intro: paid)
  show "eei_getBlockNumber H p v = Some (v', g) \<Longrightarrow> pays p 2 v v'" by (auto simp: eei_getBlockNumber_def paying gasAccounting_pays)
  show "eei_getTxOrigin H p a v = Some v' \<Longrightarrow> pays p 2 v v'" by (auto simp: eei_getTxOrigin_def paying intro: paid)
  show "eei_getReturnDataSize H p v = Some (v', r) \<Longrightarrow> pays p 2 v v'" by (auto simp: eei_getReturnDataSize_def paying gasAccounting_pays)
  show "eei_returnDataCopy H p a b n v = Some v' \<Longrightarrow> pays p (3 + copy_cost n) v v'" by (auto simp: eei_returnDataCopy_def paying intro: paid)
  show "eei_getBlockTimestamp H p v = Some (v', g) \<Longrightarrow> pays p 2 v v'" by (auto simp: eei_getBlockTimestamp_def paying gasAccounting_pays)
  show "eei_storageLoad H p a b v = Some v' \<Longrightarrow> pays p 200 v v'" by (auto simp: eei_storageLoad_def paying intro: paid)
  show "eei_storageLoad2 H p a b c d v = Some v' \<Longrightarrow> pays p 800 v v'" by (auto simp: eei_storageLoad2_def paying intro: paid split: if_splits)
qed

section \<open>Wagon's memory\<close>

definition wagon_spec :: "wagon_ops \<Rightarrow> bool" where
  "wagon_spec W \<longleftrightarrow>
     (\<forall>mem n off. 0 \<le> off \<and> nat off + n \<le> length mem \<longrightarrow> w_ReadAt W mem n off = Some (take n (drop (nat off) mem))) \<and>
     (\<forall>mem bs off. 0 \<le> off \<and> nat off + length bs \<le> length mem \<longrightarrow>
        w_WriteAt W mem bs off = Some (take (nat off) mem @ bs @ drop (nat off + length bs) mem))"

definition wagon_std :: wagon_ops where
  "wagon_std = \<lparr>
     w_ReadAt = (\<lambda>mem n off. if 0 \<le> off \<and> nat off + n \<le> length mem then Some (take n (drop (nat off) mem)) else None),
     w_WriteAt = (\<lambda>mem bs off. if 0 \<le> off \<and> nat off + length bs \<le> length mem
        then Some (take (nat off) mem @ bs @ drop (nat off + length bs) mem) else None)\<rparr>"

lemma wagon_std_spec: "wagon_spec wagon_std"
  by (simp add: wagon_spec_def wagon_std_def)

definition mem_of :: "nat \<Rightarrow> 's wvm \<Rightarrow> bytes" where
  "mem_of p v = pr_mem (in_procs (win v) ! p)"

definition in_range :: "nat \<Rightarrow> 's wvm \<Rightarrow> i32 \<Rightarrow> nat \<Rightarrow> bool" where
  "in_range p v off n \<longleftrightarrow> p < length (in_procs (win v)) \<and> 0 \<le> sint off \<and> nat (sint off) + n \<le> length (mem_of p v)"

definition mem_slice :: "nat \<Rightarrow> 's wvm \<Rightarrow> i32 \<Rightarrow> nat \<Rightarrow> bytes" where
  "mem_slice p v off n = take n (drop (nat (sint off)) (mem_of p v))"

lemma length_mem_slice: "in_range p v off n \<Longrightarrow> length (mem_slice p v off n) = n"
  unfolding in_range_def mem_slice_def length_take length_drop by linarith

lemma readSize_in_range:
  "wagon_spec (h_W H) \<Longrightarrow> in_range p v off n \<Longrightarrow> readSize H p off (int n) v = Some (mem_slice p v off n)"
  by (simp add: readSize_def wagon_spec_def in_range_def mem_slice_def mem_of_def go_index_def)

lemma read_hash_in_range:
  "wagon_spec (h_W H) \<Longrightarrow> in_range p v off 32 \<Longrightarrow> read_hash H p off v = Some (g_BytesToHash (eG (h_E H)) (mem_slice p v off 32))"
  using readSize_in_range [of H p v off 32] by (simp add: read_hash_def)

lemma write_at_in_range:
  assumes "wagon_spec (h_W H)" "in_range p v off (length bs)" "write_at H p bs off v = Some v'"
  shows "mem_slice p v' off (length bs) = bs"
  using assms by (auto simp: write_at_def set_proc_def bind_Some_iff wagon_spec_def in_range_def mem_slice_def mem_of_def)

text \<open>The parts of the interpreter object that decide where memory and contracts are.\<close>

definition same_place :: "'s wvm \<Rightarrow> 's wvm \<Rightarrow> bool" where
  "same_place v v' \<longleftrightarrow> (\<forall>p. mem_of p v' = mem_of p v) \<and> length (in_procs (win v')) = length (in_procs (win v)) \<and>
     map_option self (cur v') = map_option self (cur v) \<and> vWriteSet v' = vWriteSet v"

lemma gasAccounting_same_place:
  assumes "gasAccounting p cost v = Some v'"
  shows "same_place v v'"
proof -
  obtain c where c: "cur v = Some c" using assms by (auto simp: gasAccounting_def bind_Some_iff)
  have mem: "pr_mem ((ps[p := (ps ! p)\<lparr>pr_done := True\<rparr>]) ! q) = pr_mem (ps ! q)" for ps q
    by (cases "q = p"; cases "p < length ps") (simp_all add: list_update_beyond)
  show ?thesis
    using assms c unfolding gasAccounting_eq [OF c]
    by (auto simp: same_place_def mem_of_def cur_def contract_at_def mem go_index_def split: if_splits)
qed

lemma same_place_slice: "same_place v v' \<Longrightarrow> mem_slice p v' off n = mem_slice p v off n"
  by (simp add: same_place_def mem_slice_def)

lemma same_place_in_range: "same_place v v' \<Longrightarrow> in_range p v' off n = in_range p v off n"
  by (simp add: same_place_def in_range_def)

lemma write_put_bytes:
  assumes "write_put E v a k (VBytes b) base = Some v'"
  shows "GetAddressAndKey (vWriteSet v') a k = Some (VBytes b) \<and> win v' = win v"
  using assms
  by (auto simp: write_put_def bind_Some_iff WriteSet_UpdateCache_eq write_value_def big_sum_def GetAddressAndKey_put split: if_splits option.splits)

lemma HashBytes_BytesToHash:
  assumes "geth_spec G" "length b = 32"
  shows "g_HashBytes G (g_BytesToHash G b) = b"
proof -
  have "be_nat b < 256 ^ 32" using be_nat_less [of b] assms(2) by simp
  then show ?thesis using be_bytes_be_nat [of b] assms(2) by (simp add: geth_specD [OF assms(1)] unat_of_nat take_bit_nat_eq_self)
qed

section \<open>Storage\<close>

text \<open>C22. What a contract stores under a path of 32 bytes it loads again: afterwards the 32 bytes at the place of the result are those
  that stood at the place of the value.\<close>

theorem storage_roundtrip:
  assumes "eei_storageStore H p path val v = Some v1" "eei_storageLoad H p path res v1 = Some v2"
    and "wagon_spec (h_W H)" "geth_spec (eG (h_E H))"
    and "in_range p v path 32" "in_range p v val 32" "in_range p v res 32"
  shows "readSize H p res 32 v2 = readSize H p val 32 v"
proof -
  let ?G = "eG (h_E H)" and ?loc = "g_BytesToHash (eG (h_E H)) (mem_slice p v path 32)" and ?b = "mem_slice p v val 32"
  have hash: "g_HashBytes ?G (g_BytesToHash ?G ?b) = ?b"
    using HashBytes_BytesToHash [OF assms(4)] length_mem_slice [OF assms(6)] by blast
  obtain c v0 cost where c: "cur v = Some c" and v0: "gasAccounting p cost v = Some v0"
    and put: "write_put (h_E H) v0 (self c) ?loc (VBytes ?b) (VBytes []) = Some v1"
    using assms(1) read_hash_in_range [OF assms(3,5)] read_hash_in_range [OF assms(3,6)] hash
    by (auto simp: eei_storageStore_def bind_Some_iff Let_def split: if_splits)
  note place = gasAccounting_same_place [OF v0] and written = write_put_bytes [OF put]
  obtain v3 where v3: "gasAccounting p 200 v1 = Some v3" using assms(2) by (auto simp: eei_storageLoad_def bind_Some_iff)
  have pos: "mem_of p v3 = mem_of p v" "length (in_procs (win v3)) = length (in_procs (win v))"
    "map_option self (cur v3) = Some (self c)" "vWriteSet v3 = vWriteSet v1"
    using gasAccounting_same_place [OF v3] place written c by (simp_all add: same_place_def mem_of_def cur_def contract_at_def)
  then have r3: "in_range p v3 path 32" "in_range p v3 res 32" "mem_slice p v3 path 32 = mem_slice p v path 32"
    using assms(5,7) by (simp_all add: in_range_def mem_slice_def)
  have loc: "read_hash H p path v3 = Some ?loc"
    using read_hash_in_range [OF assms(3) r3(1)] r3(3) by simp
  obtain v4 where v4: "write_at H p ?b res v3 = Some v4" and v2: "read_put (h_E H) v4 (self c) ?loc (VBytes ?b) = Some v2"
    using assms(2) v3 loc pos written by (auto simp: eei_storageLoad_def bind_Some_iff)
  have mem: "mem_slice p v4 res 32 = ?b"
    using write_at_in_range [OF assms(3) _ v4] r3(2) length_mem_slice [OF assms(6)] by simp
  have "win v2 = win v4" using v2 by (auto simp: read_put_def bind_Some_iff)
  moreover have "in_range p v4 res 32"
    using v4 r3(2) write_at_in_range [OF assms(3) _ v4] length_mem_slice [OF assms(6)] assms(3)
    by (auto simp: write_at_def set_proc_def bind_Some_iff in_range_def mem_of_def wagon_spec_def)
  ultimately have "in_range p v2 res 32" "mem_slice p v2 res 32 = ?b"
    using mem by (simp_all add: in_range_def mem_slice_def mem_of_def)
  then show ?thesis using readSize_in_range [OF assms(3), of p v2 res 32] readSize_in_range [OF assms(3), of p v val 32] assms(6) by simp
qed

text \<open>A contract that cannot pay for a word of storage stores it all the same: the run is stopped, but the value stands in the write
  set, which nothing takes back, and the gas is still there.\<close>

theorem unpaid_store_persists:
  assumes "eei_storageStore H p path val v = Some v'" "cur v = Some c" "Gas c < 5000"
    and "read_hash H p path v = Some loc" "read_hash H p val v = Some x"
  shows "GetAddressAndKey (vWriteSet v') (self c) loc = Some (VBytes (g_HashBytes (eG (h_E H)) x)) \<and>
    cur v' = Some c \<and> stopped p v' \<and> in_term (win v') = TerminateInvalid"
proof -
  obtain v0 a b where v0: "gasAccounting p (store_cost a b) v = Some v0"
    and put: "write_put (h_E H) v0 (self c) loc (VBytes (g_HashBytes (eG (h_E H)) x)) (VBytes []) = Some v'"
    using assms(1,2,4,5) by (auto simp: eei_storageStore_def bind_Some_iff Let_def split: if_splits)
  have "Gas c < store_cost a b" using assms(3) by (auto simp: store_cost_def word_less_nat_alt)
  then have "pays p (store_cost a b) v v0 \<Longrightarrow> cur v0 = Some c \<and> stopped p v0 \<and> in_term (win v0) = TerminateInvalid"
    using assms(2) by (auto simp: pays_def)
  then show ?thesis using write_put_bytes [OF put] gasAccounting_pays [OF v0] by (simp add: cur_def contract_at_def stopped_def)
qed

section \<open>The table\<close>









lemma length_eei [simp]: "length (eeiFuncs H) = 35" "length eeiFunctionList = 35"
  by (simp_all add: eeiFuncs_def eeiFunctionList_def)



lemma map_of_zip_mem:
  assumes "x \<in> set xs"
  shows "\<exists>i < length xs. map_of (zip xs [0..<length xs]) x = Some i"
proof -
  have "map_of (zip xs [0..<length xs]) x \<noteq> None" using assms by (simp add: map_of_zip_is_None)
  then obtain i where "map_of (zip xs [0..<length xs]) x = Some i" by blast
  moreover from this have "i \<in> set [0..<length xs]" using map_of_SomeD set_zip_rightD by metis
  then have "i < length xs" by simp
  ultimately show ?thesis by blast
qed


section \<open>Modules\<close>

text \<open>A module that passes the check has no start function, exports main as a function and a memory and nothing
  else, and whatever function it imports from the module of the host is one that wagon finds there.\<close>

theorem validated_modules:
  assumes "validateModule m = Some i" "m_Export m = Some es" "wf_map es"
  shows "\<not> m_Start m \<and> lookup es ''main'' = Some (ExternalFunction, i) \<and> (\<exists>j. lookup es ''memory'' = Some (ExternalMemory, j)) \<and>
    length es = 2 \<and> (\<forall>is. m_Import m = Some is \<longrightarrow> (\<forall>f. (''ethereum'', f, ExternalFunction) \<in> set is \<longrightarrow>
      (\<exists>fs names j. ModuleResolver H ''ethereum'' = Some (fs, names) \<and> lookup names f = Some j \<and> j < length fs)))"
proof -
  have ok: "\<not> m_Start m" "length es = 2" "list_all export_ok es"
    "\<And>is. m_Import m = Some is \<Longrightarrow> list_all import_ok is" and main: "\<exists>kind. lookup es ''main'' = Some (kind, i)"
    using assms(1,2) by (auto simp: validateModule_def bind_Some_iff split: if_splits)
  obtain x y where es: "es = [x, y]" using ok(2) by (auto simp: numeral_2_eq_2 length_Suc_conv)
  have exports: "lookup es ''main'' = Some (ExternalFunction, i)" "\<exists>j. lookup es ''memory'' = Some (ExternalMemory, j)"
    using main ok(3) assms(3) unfolding es
    by (auto simp: export_ok_def wf_map_def split: prod.splits if_splits)
  have "\<exists>j. lookup (zip eeiFunctionList [0..<length eeiFunctionList]) f = Some j \<and> j < length (eeiFuncs H)"
    if "m_Import m = Some is" "(''ethereum'', f, ExternalFunction) \<in> set is" for "is" f
  proof -
    have "f \<in> set eeiFunctionList" using ok(4) [OF that(1)] that(2) by (auto simp: list_all_iff import_ok_def)
    then show ?thesis using map_of_zip_mem by fastforce
  qed
  then show ?thesis using ok exports by (auto simp: ModuleResolver_def)
qed

abbreviation small_module :: wmodule where
  "small_module \<equiv> \<lparr>m_Start = False, m_Export = Some [(''memory'', ExternalMemory, 0), (''main'', ExternalFunction, 3)],
     m_Import = Some [(''ethereum'', ''finish'', ExternalFunction)], m_Funcs = []\<rparr>"

section \<open>A concrete host\<close>

definition std_host :: "std_db host" where
  "std_host = \<lparr>h_E = lift_env std_env, h_W = wagon_std, h_run = (\<lambda>v c input ro. None), h_AddLog = (\<lambda>s l. s),
     h_Sentinel = (\<lambda>code. None)\<rparr>"

text \<open>A machine in which a contract with the gas given runs as the VM 0 with the memory given.\<close>

definition std_wvm :: "std_core \<Rightarrow> u64 \<Rightarrow> bytes \<Rightarrow> std_db wvm" where
  "std_wvm core gas mem = \<lparr>vDB = ((core, []), NewEWASMInterpreter\<lparr>in_contracts := [std_contract [] gas],
       in_procs := [\<lparr>pr_mem = mem, pr_done = False\<rparr>]\<rparr>),
     vReadSet = NewReadSet, vWriteSet = NewWriteSet, vLogs = [], depth = 1, abort = False, callGasTemp = 0, readOnly = False,
     returnData = [], jdstore = [[]]\<rparr>"

lemma std_host_simps [simp]:
  "h_W std_host = wagon_std" "h_E std_host = lift_env std_env" "h_run std_host = (\<lambda>v c input ro. None)"
  by (simp_all add: std_host_def)

lemma lift_env_simps [simp]:
  "eU (lift_env E) = eU E" "eG (lift_env E) = eG E" "eA (lift_env E) = lift_accounts (eA E)"
  "eJ (lift_env E) = lift_journal (eJ E)" "eK (lift_env E) = eK E" "ePre (lift_env E) = ePre E" "GasLimit (lift_env E) = GasLimit E"
  by (simp_all add: lift_env_def)

lemma std_wvm_simps [simp]:
  "cur (std_wvm core gas mem) = Some (std_contract [] gas)" "in_contract (win (std_wvm core gas mem)) = 0"
  "in_contracts (win (std_wvm core gas mem)) = [std_contract [] gas]"
  "in_procs (win (std_wvm core gas mem)) = [\<lparr>pr_mem = mem, pr_done = False\<rparr>]" "\<not> in_static (win (std_wvm core gas mem))"
  "vWriteSet (std_wvm core gas mem) = NewWriteSet" "vReadSet (std_wvm core gas mem) = NewReadSet"
  "depth (std_wvm core gas mem) = 1" "mem_of 0 (std_wvm core gas mem) = mem" "vDB (std_wvm core gas mem) = ((core, []), win (std_wvm core gas mem))"
  by (simp_all add: std_wvm_def cur_def contract_at_def win_def NewEWASMInterpreter_def mem_of_def)

theorem validated_modules_witness:
  "validateModule small_module = Some 3 \<and> (\<exists>fs names j. ModuleResolver std_host ''ethereum'' = Some (fs, names) \<and>
     lookup names ''finish'' = Some j \<and> j < length fs)"
proof -
  have "validateModule small_module = Some 3"
    by (simp add: validateModule_def export_ok_def import_ok_def eeiFunctionList_def)
  with validated_modules [OF this, of "[(''memory'', ExternalMemory, 0), (''main'', ExternalFunction, 3)]" std_host] show ?thesis
    by (simp add: wf_map_def)
qed

theorem host_functions_pay_witness:
  "\<exists>v. eei_getBlockGasLimit std_host 0 (std_wvm std_core_empty 10 []) = Some (v, 30000000) \<and> (\<exists>c. cur v = Some c \<and> Gas c = 8)"
proof -
  obtain v where v: "eei_getBlockGasLimit std_host 0 (std_wvm std_core_empty 10 []) = Some (v, 30000000)"
    by (simp add: eei_getBlockGasLimit_def gasAccounting_eq std_contract_def) (simp add: std_env_def)
  with host_functions_pay [where H = std_host and p = 0 and v = "std_wvm std_core_empty 10 []" and v' = v and g = 30000000]
  have "pays 0 2 (std_wvm std_core_empty 10 []) v" by blast
  with v show ?thesis by (auto simp: pays_def std_contract_def)
qed

text \<open>A memory of 96 bytes: the path, the value, and room for the result.\<close>

abbreviation rt_mem :: bytes where
  "rt_mem \<equiv> replicate 32 0 @ replicate 32 2 @ replicate 32 0"

lemma be_nat_replicate: "be_nat (replicate k 0) = 0"
  by (induction k) simp_all

lemma rt_reads:
  assumes "mem_of 0 v = rt_mem" "length (in_procs (win v)) = 1"
  shows "in_range 0 v 0 32" "in_range 0 v 32 32" "in_range 0 v 64 32" "read_hash std_host 0 0 v = Some 0"
    "read_hash std_host 0 32 v = Some (g_BytesToHash geth_std (replicate 32 2))"
    "readSize std_host 0 32 32 v = Some (replicate 32 2)"
proof -
  show r: "in_range 0 v 0 32" "in_range 0 v 32 32" "in_range 0 v 64 32" using assms by (simp_all add: in_range_def)
  have "mem_slice 0 v 0 32 = replicate 32 0" "mem_slice 0 v 32 32 = replicate 32 2" using assms by (simp_all add: mem_slice_def)
  then show "read_hash std_host 0 0 v = Some 0" "read_hash std_host 0 32 v = Some (g_BytesToHash geth_std (replicate 32 2))"
    "readSize std_host 0 32 32 v = Some (replicate 32 2)"
    using read_hash_in_range [of std_host, OF _ r(1)] read_hash_in_range [of std_host, OF _ r(2)] readSize_in_range [of std_host, OF _ r(2)]
      wagon_std_spec by (simp_all add: geth_std_def be_nat_replicate)
qed

lemma gasAccounting_total:
  assumes "cur v = Some c" "p < length (in_procs (win v))"
  shows "\<exists>v' c'. gasAccounting p cost v = Some v' \<and> cur v' = Some c' \<and> self c' = self c \<and> vReadSet v' = vReadSet v \<and>
    fst (vDB v') = fst (vDB v) \<and> same_place v v'"
proof -
  obtain v' where v': "gasAccounting p cost v = Some v'" "vReadSet v' = vReadSet v" "fst (vDB v') = fst (vDB v)"
    using assms by (simp add: gasAccounting_eq split: if_splits) (metis set_win_keeps(2,5))
  with gasAccounting_same_place [OF v'(1)] assms(1) show ?thesis by (auto simp: same_place_def)
qed

lemma rt_store:
  "\<exists>v1. eei_storageStore std_host 0 0 32 (std_wvm std_core_empty gas rt_mem) = Some v1 \<and>
    cur v1 \<noteq> None \<and> map_option self (cur v1) = Some 0xC0 \<and> vReadSet v1 = NewReadSet \<and> mem_of 0 v1 = rt_mem \<and>
    length (in_procs (win v1)) = 1"
proof -
  let ?v = "std_wvm std_core_empty gas rt_mem"
  let ?cost = "store_cost (nonzero_bytes (g_HashBytes geth_std (g_BytesToHash geth_std (replicate 32 2))))
      (nonzero_bytes (g_HashBytes geth_std 0))"
  obtain v0 c0 where v0: "gasAccounting 0 ?cost ?v = Some v0" "cur v0 = Some c0" "self c0 = 0xC0" "vReadSet v0 = NewReadSet" "same_place ?v v0"
    using gasAccounting_total [of ?v "std_contract [] gas" 0 ?cost] by (auto simp: std_contract_def)
  have "stored_hash std_host ?v 0xC0 0 = Some 0"
    by (simp add: stored_hash_def GetAddressAndKey_def NewWriteSet_def lift_accounts_def) (simp add: std_accounts_def std_core_empty_def)
  moreover obtain v1 where v1: "write_put (lift_env std_env) v0 0xC0 0 (VBytes (g_HashBytes geth_std (g_BytesToHash geth_std (replicate 32 2))))
      (VBytes []) = Some v1" "win v1 = win v0" "vReadSet v1 = vReadSet v0"
    by (auto simp: write_put_def WriteSet_UpdateCache_eq write_value_def keys_std_def)
  moreover have "0xC0 = self (std_contract [] gas)" by (simp add: std_contract_def)
  ultimately have "eei_storageStore std_host 0 0 32 ?v = Some v1"
    using v0(1) rt_reads [of ?v] by (simp add: eei_storageStore_def)
  then show ?thesis using v0 v1 by (auto simp: cur_def contract_at_def same_place_def mem_of_def)
qed

theorem storage_roundtrip_witness:
  "\<exists>v1 v2. eei_storageStore std_host 0 0 32 (std_wvm std_core_empty 100000 rt_mem) = Some v1 \<and>
    eei_storageLoad std_host 0 0 64 v1 = Some v2 \<and> readSize std_host 0 64 32 v2 = Some (replicate 32 2)"
proof -
  let ?v = "std_wvm std_core_empty 100000 rt_mem"
  obtain v1 where v1: "eei_storageStore std_host 0 0 32 ?v = Some v1" "map_option self (cur v1) = Some 0xC0" "vReadSet v1 = NewReadSet"
      "mem_of 0 v1 = rt_mem" "length (in_procs (win v1)) = 1" using rt_store by blast
  then obtain c1 where c1: "cur v1 = Some c1" "self c1 = 0xC0" by auto
  obtain v2 c2 where v2: "gasAccounting 0 200 v1 = Some v2" "cur v2 = Some c2" "self c2 = 0xC0" "vReadSet v2 = NewReadSet" "same_place v1 v2"
    using gasAccounting_total [OF c1(1), of 0 200] v1 c1(2) by auto
  have m2: "mem_of 0 v2 = rt_mem" "length (in_procs (win v2)) = 1" using v2(5) v1 by (simp_all add: same_place_def)
  have "GetAddressAndKey (vWriteSet v1) 0xC0 0 = Some (VBytes (g_HashBytes geth_std (g_BytesToHash geth_std (replicate 32 2))))"
    using v1(1) rt_reads [of ?v] by (auto simp: eei_storageStore_def bind_Some_iff Let_def std_contract_def dest!: write_put_bytes split: if_splits)
  then have w: "GetAddressAndKey (vWriteSet v2) 0xC0 0 = Some (VBytes (replicate 32 2))"
    using v2(5) HashBytes_BytesToHash [OF geth_std_spec, of "replicate 32 2"] by (simp add: same_place_def)
  obtain v3 where v3: "write_at std_host 0 (replicate 32 2) 64 v2 = Some v3" "vReadSet v3 = vReadSet v2"
    using m2 by (auto simp: write_at_def mem_of_def wagon_std_def set_proc_def go_index_def go_update_def)
  obtain v4 where "read_put (lift_env std_env) v3 0xC0 0 (VBytes (replicate 32 2)) = Some v4"
    using v3(2) v2(4) by (auto simp: read_put_def ReadSet_UpdateCache_eq read_value_def NewReadSet_def GetAddressAndKey_def keys_std_def)
  then have load: "eei_storageLoad std_host 0 0 64 v1 = Some v4"
    using v2 w v3 rt_reads [OF m2] by (simp add: eei_storageLoad_def)
  have "readSize std_host 0 64 32 v4 = readSize std_host 0 32 32 ?v"
    by (rule storage_roundtrip [OF v1(1) load]) (simp_all add: wagon_std_spec geth_std_spec rt_reads [of ?v])
  then show ?thesis using v1(1) load rt_reads [of ?v] by auto
qed

theorem unpaid_store_persists_witness:
  "\<exists>v1. eei_storageStore std_host 0 0 32 (std_wvm std_core_empty 100 rt_mem) = Some v1 \<and>
    GetAddressAndKey (vWriteSet v1) 0xC0 0 \<noteq> None \<and> stopped 0 v1"
proof -
  obtain v1 where v1: "eei_storageStore std_host 0 0 32 (std_wvm std_core_empty 100 rt_mem) = Some v1" using rt_store by blast
  with unpaid_store_persists [OF v1, of "std_contract [] 100" 0] rt_reads [of "std_wvm std_core_empty 100 rt_mem"] show ?thesis
    by (auto simp: std_contract_def)
qed

end
