(* ===== verification/EeiCallLaws.thy ===== *)
theory EeiCallLaws
  imports EeiLaws
begin

text \<open>
  What calls from wasm do to gas, value and the interpreter object.
\<close>

section \<open>Steps of a call\<close>

lemma cur_snapshot: "cur (v\<lparr>vDB := (s, win v)\<rparr>) = cur v"
  by (simp add: cur_def contract_at_def)

lemma take_snapshot_lift:
  assumes "h_E H = lift_env E" "s = snd (db_Snapshot (eJ E) (fst (vDB v)))"
  shows "\<exists>i. take_snapshot (h_E H) v = (i, v\<lparr>vDB := (s, win v)\<rparr>)"
proof -
  obtain d w where d: "vDB v = (d, w)" by (cases "vDB v")
  obtain i where "db_Snapshot (eJ E) d = (i, s)" using assms(2) d by (cases "db_Snapshot (eJ E) d") simp
  then show ?thesis using assms(1) d by (simp add: take_snapshot_def lift_journal_def win_def)
qed

lemma cur_bounds: "cur v = Some c \<Longrightarrow> in_contract (win v) < length (in_contracts (win v)) \<and> c = in_contracts (win v) ! in_contract (win v)"
  by (simp add: cur_def contract_at_def)

lemma gas_paid:
  assumes "cur v = Some c" "cost \<le> Gas c"
  shows "gasAccounting p cost v = set_contract (in_contract (win v)) (c\<lparr>Gas := Gas c - cost\<rparr>) v"
  using assms cur_bounds [OF assms(1)]
  by (simp add: gasAccounting_eq set_contract_def go_update_def set_win_def win_def)

text \<open>Setting the current contract.\<close>

definition with_cur :: "contract \<Rightarrow> 's wvm \<Rightarrow> 's wvm" where
  "with_cur c v = set_win (\<lambda>w. w\<lparr>in_contracts := (in_contracts w)[in_contract w := c]\<rparr>) v"

lemma with_cur_simps [simp]:
  "in_contract (win (with_cur c v)) = in_contract (win v)" "in_procs (win (with_cur c v)) = in_procs (win v)"
  "in_static (win (with_cur c v)) = in_static (win v)" "in_term (win (with_cur c v)) = in_term (win v)"
  "length (in_contracts (win (with_cur c v))) = length (in_contracts (win v))"
  "depth (with_cur c v) = depth v" "vWriteSet (with_cur c v) = vWriteSet v" "vReadSet (with_cur c v) = vReadSet v"
  "fst (vDB (with_cur c v)) = fst (vDB v)" "jdstore (with_cur c v) = jdstore v"
  "with_cur c (with_cur c' v) = with_cur c v"
  by (simp_all add: with_cur_def) (simp add: set_win_def)

lemma cur_with_cur: "cur v = Some c' \<Longrightarrow> cur (with_cur c v) = Some c"
  by (simp add: with_cur_def cur_def contract_at_def)

lemma pay_step:
  assumes "cur v = Some c" "cost \<le> Gas c"
  shows "gasAccounting p cost v = Some (with_cur (c\<lparr>Gas := Gas c - cost\<rparr>) v)"
  using assms by (simp add: gasAccounting_eq with_cur_def)

lemma earn_step:
  assumes "cur v = Some c"
  shows "add_gas (in_contract (win v)) g v = Some (with_cur (c\<lparr>Gas := Gas c + g\<rparr>) v)"
  using assms cur_bounds [OF assms]
  by (simp add: add_gas_def cur_def set_contract_def go_update_def with_cur_def set_win_def win_def)

lemma cur_keeps [simp]:
  "cur (v\<lparr>jdstore := jd\<rparr>) = cur v" "cur (v\<lparr>vReadSet := rs\<rparr>) = cur v" "cur (v\<lparr>vWriteSet := ws\<rparr>) = cur v"
  by (simp_all add: cur_def contract_at_def)

lemma with_cur_keeps:
  "cur v = Some c' \<Longrightarrow> contract_at (with_cur c v) (in_contract (win v)) = Some c"
  using cur_with_cur [of v c' c] by (simp add: cur_def)

text \<open>C37. A static call to an account without code, for which the contract pays 700 units, gives it all the gas it
  names, which nobody has taken from it.\<close>

theorem static_call_mints_gas:
  assumes "h_E H = lift_env E" "cur v = Some c" "700 \<le> Gas c" "depth v \<le> 1024"
    and "read_address H p a v = Some addr" "readSize H p d (sint l) v = Some input"
    and "s = snd (db_Snapshot (eJ E) (fst (vDB v)))" "db_Exist (eA E) s addr" "db_GetCode (eA E) s addr = []"
  shows "\<exists>v'. eei_callStatic H p gas a d l v = Some (v', EEICallSuccess) \<and> cur v' = Some (c\<lparr>Gas := Gas c - 700 + gas\<rparr>)"
proof -
  obtain i where snap: "take_snapshot (h_E H) v = (i, v\<lparr>vDB := (s, win v)\<rparr>)" using take_snapshot_lift [OF assms(1,7)] by blast
  let ?v1 = "v\<lparr>vDB := (s, win v)\<rparr>" and ?c1 = "c\<lparr>Gas := Gas c - 700\<rparr>"
  let ?v2 = "with_cur ?c1 ?v1"
  have c1: "cur ?v1 = Some c" by (simp add: cur_snapshot assms(2))
  have pay: "gasAccounting p 700 ?v1 = Some ?v2" using pay_step [OF c1, of 700 p] assms(3) by simp
  have c2: "contract_at ?v2 (in_contract (win v)) = Some ?c1" "cur ?v2 = Some ?c1"
    using with_cur_keeps [OF c1, of ?c1] cur_with_cur [OF c1] by simp_all
  have db: "vDB ?v2 = (s, win ?v2)" by (simp add: with_cur_def set_win_def win_def)
  obtain t jds where t: "NewContract (jdstore v) (as_ref ?c1) addr (Some 0) gas = (t, jds)" by fastforce
  let ?v3 = "?v2\<lparr>jdstore := jds\<rparr>"
  have new: "new_contract ?v2 (as_ref ?c1) addr (Some 0) gas = (t, ?v3)" using t by (simp add: new_contract_def)
  have c3: "cur ?v3 = Some ?c1" using c2(2) by simp
  have earn: "add_gas (in_contract (win ?v3)) gas ?v3 = Some (with_cur (?c1\<lparr>Gas := Gas ?c1 + gas\<rparr>) ?v3)"
    by (rule earn_step [OF c3])
  have fin: "cur (with_cur (?c1\<lparr>Gas := Gas ?c1 + gas\<rparr>) ?v3) = Some (c\<lparr>Gas := Gas c - 700 + gas\<rparr>)"
    using cur_with_cur [OF c3] by simp
  have ex: "db_Exist (lift_accounts (eA E)) (vDB ?v2) addr" "db_GetCode (lift_accounts (eA E)) (vDB ?v2) addr = []"
    "db_GetCode (lift_accounts (eA E)) (vDB ?v3) addr = []"
    using assms(8,9) by (simp_all add: db lift_accounts_def)
  have "eei_callStatic H p gas a d l v = Some (with_cur (?c1\<lparr>Gas := Gas ?c1 + gas\<rparr>) ?v3, EEICallSuccess)"
    using assms(4) earn
    by (simp add: eei_callStatic_def Let_def assms(5,6) snap [unfolded assms(1)] pay assms(1) ex c2 new)
  with fin show ?thesis by blast
qed

text \<open>What the payments leave as it is.\<close>

lemma with_cur_readers [simp]:
  "readSize H p off n (with_cur c v) = readSize H p off n v" "read_address H p off (with_cur c v) = read_address H p off v"
  by (simp_all add: read_address_def readSize_def with_cur_def)

lemma callee_gas_le:
  "callee_gas G gas \<le> G"
proof (cases "gas > (63 * G) div 64")
  case True
  have "G div 64 \<le> G" by (simp add: word_le_nat_alt unat_div)
  with True show ?thesis using word_sub_le [of "G div 64" G] by (simp add: callee_gas_def)
next
  case False
  have "unat (63 * G) \<le> 63 * unat G" by (simp add: unat_word_ariths)
  then have "(63 * G) div 64 \<le> G" by (simp add: word_le_nat_alt unat_div)
  with False show ?thesis by (simp add: callee_gas_def)
qed

text \<open>C38. A call from wasm with a value for an account that exists and has no code succeeds and takes the prices of a call and of a
  transfer, less the stipend, but moves no value: nothing is recorded in the write set and the database stays as the
  snapshot left it.\<close>

theorem plain_call_moves_no_value:
  assumes "h_E H = lift_env E" "cur v = Some c" "9700 \<le> Gas c" "depth v \<le> 1024" "\<not> in_static (win v)"
    and "read_address H p a v = Some addr" "readSize H p x 16 v = Some vb" "readSize H p d (sint l) v = Some input"
    and "value = int (be_nat (swapEndian vb))" "value \<noteq> 0" "value \<le> b" "b \<le> 2 ^ 128" "balance_of (h_E H) v (self c) = Some b"
    and "s = snd (db_Snapshot (eJ E) (fst (vDB v)))" "db_Exist (eA E) s addr" "db_GetCode (eA E) s addr = []"
    and "GetAddressAndKey (vWriteSet v) addr (SetCodeKey (eK E)) = None"
  shows "\<exists>v'. eei_call H p gas a x d l v = Some (v', EEICallSuccess) \<and> cur v' = Some (c\<lparr>Gas := Gas c - 7400\<rparr>) \<and>
    vWriteSet v' = vWriteSet v \<and> fst (vDB v') = s"
proof -
  let ?c1 = "c\<lparr>Gas := Gas c - 700\<rparr>" and ?c2 = "c\<lparr>Gas := Gas c - 9700\<rparr>"
  let ?v1 = "with_cur ?c1 v" let ?v2 = "with_cur ?c2 v" let ?v3 = "?v2\<lparr>vDB := (s, win ?v2)\<rparr>"
  define cg where "cg = callee_gas (Gas c - 9700) gas"
  let ?c4 = "c\<lparr>Gas := Gas c - 9700 - cg\<rparr>" let ?v4 = "with_cur ?c4 ?v3"
  have c1: "cur ?v1 = Some ?c1" and c2: "cur ?v2 = Some ?c2" using cur_with_cur [OF assms(2)] by simp_all
  have le: "700 \<le> Gas c" "9000 \<le> Gas c - 700" using assms(3) by unat_arith+
  have pay1: "gasAccounting p 700 v = Some ?v1" using pay_step [OF assms(2) le(1)] .
  have pay2: "pay_value p value ?v1 = Some ?v2" using pay_step [OF c1, of 9000 p] le(2) assms(10) by (simp add: pay_value_def)
  have db2: "fst (vDB ?v2) = fst (vDB v)" by simp
  obtain i where snap: "take_snapshot (lift_env E) ?v2 = (i, ?v3)"
    using take_snapshot_lift [OF assms(1), of s ?v2, unfolded assms(1) db2] assms(14) by blast
  have c3: "cur ?v3 = Some ?c2" by (simp add: cur_snapshot c2)
  have pay3: "gasAccounting p cg ?v3 = Some ?v4" using pay_step [OF c3, of cg p] callee_gas_le [of "Gas ?c2" gas] by (simp add: cg_def)
  have c4: "cur ?v4 = Some ?c4" "contract_at ?v4 (in_contract (win v)) = Some ?c4" "contract_at ?v3 (in_contract (win v)) = Some ?c2"
    using cur_with_cur [OF c3] with_cur_keeps [OF c3, of ?c4] c3 by (simp_all add: cur_def)
  obtain t jds where t: "NewContract (jdstore v) (as_ref ?c2) addr (Some value) (cg + 2300) = (t, jds)" by fastforce
  let ?v5 = "?v4\<lparr>jdstore := jds\<rparr>"
  have new: "new_contract ?v4 (as_ref ?c2) addr (Some value) (cg + 2300) = (t, ?v5)" using t by (simp add: new_contract_def)
  have c5: "cur ?v5 = Some ?c4" using c4(1) by simp
  have earn: "add_gas (in_contract (win ?v5)) (cg + 2300) ?v5 = Some (with_cur (?c4\<lparr>Gas := Gas ?c4 + (cg + 2300)\<rparr>) ?v5)"
    by (rule earn_step [OF c5])
  have fin: "cur (with_cur (?c4\<lparr>Gas := Gas ?c4 + (cg + 2300)\<rparr>) ?v5) = Some (c\<lparr>Gas := Gas c - 7400\<rparr>)"
    using cur_with_cur [OF c5] by (simp add: algebra_simps)
  have code: "callee_code H ?v4 addr = Some []" "db_Exist (lift_accounts (eA E)) (vDB ?v3) addr"
    using assms(1,15-17) by (simp_all add: callee_code_def lift_accounts_def prod.case_eq_if)
  have val: "int (be_nat (swapEndian vb)) = value" "\<not> be_nat (swapEndian vb) > 2 ^ 128" using assms(9,11,12) by simp_all
  have "eei_call H p gas a x d l v = Some (with_cur (?c4\<lparr>Gas := Gas ?c4 + (cg + 2300)\<rparr>) ?v5, EEICallSuccess)"
    using assms(4,5,10-13) pay1 pay2 earn code c4(3) val(2)
    by (simp add: eei_call_def Let_def assms(1,2,6-8) val(1) snap cg_def [symmetric] pay3 c4(2) new)
  with fin show ?thesis by auto
qed

section \<open>Witnesses\<close>

text \<open>Every account has a balance of 1000 and none has code; the memory holds the address 0 at 0 and the value 7 at 32.\<close>

abbreviation rich_core :: std_core where
  "rich_core \<equiv> std_core_empty\<lparr>sc_balance := (\<lambda>a. 1000)\<rparr>"

abbreviation call_mem :: bytes where
  "call_mem \<equiv> replicate 32 0 @ 7 # replicate 31 0"

abbreviation call_vm :: "u64 \<Rightarrow> std_db wvm" where
  "call_vm gas \<equiv> std_wvm rich_core gas call_mem"

lemma call_reads:
  "read_address std_host 0 0 (call_vm gas) = Some 0" "readSize std_host 0 32 16 (call_vm gas) = Some (7 # replicate 15 0)"
  "readSize std_host 0 0 (sint (0 :: i32)) (call_vm gas) = Some []"
proof -
  have r: "in_range 0 (call_vm gas) 0 20" "in_range 0 (call_vm gas) 32 16" "in_range 0 (call_vm gas) 0 0"
    by (simp_all add: in_range_def)
  have m: "mem_slice 0 (call_vm gas) 0 20 = replicate 20 0" "mem_slice 0 (call_vm gas) 32 16 = 7 # replicate 15 0"
    "mem_slice 0 (call_vm gas) 0 0 = []"
    by (simp_all add: mem_slice_def take_Cons' drop_Cons')
  show "readSize std_host 0 32 16 (call_vm gas) = Some (7 # replicate 15 0)" "readSize std_host 0 0 (sint (0 :: i32)) (call_vm gas) = Some []"
    using readSize_in_range [of std_host, OF _ r(2)] readSize_in_range [of std_host, OF _ r(3)] wagon_std_spec m by simp_all
  show "read_address std_host 0 0 (call_vm gas) = Some 0"
    using readSize_in_range [of std_host, OF _ r(1)] wagon_std_spec m
    by (simp add: read_address_def geth_std_def be_nat_replicate)
qed

lemma rich_core_accounts:
  "db_Exist (eA std_env) (snd (db_Snapshot (eJ std_env) (rich_core, []))) a"
  "db_GetCode (eA std_env) (snd (db_Snapshot (eJ std_env) (rich_core, []))) a = []"
  by (simp_all add: std_env_def std_accounts_def std_journal_def std_core_empty_def)

theorem static_call_mints_gas_witness:
  "\<exists>v'. eei_callStatic std_host 0 5000 0 0 0 (call_vm 1000) = Some (v', EEICallSuccess) \<and>
    cur v' = Some (std_contract [] 5300)"
  using static_call_mints_gas [of std_host std_env "call_vm 1000" "std_contract [] 1000" 0 0 0 0 0 "[]" _ 5000]
    call_reads rich_core_accounts by (simp add: std_contract_def)

theorem plain_call_moves_no_value_witness:
  "\<exists>v'. eei_call std_host 0 5000 0 32 0 0 (call_vm 20000) = Some (v', EEICallSuccess) \<and>
    cur v' = Some (std_contract [] 12600) \<and> vWriteSet v' = NewWriteSet"
proof -
  have b: "balance_of (h_E std_host) (call_vm 20000) (self (std_contract [] 20000)) = Some 1000"
    by (simp add: balance_of_def GetAddressAndKey_def NewWriteSet_def lift_accounts_def)
      (simp add: std_env_def std_accounts_def)
  have k: "GetAddressAndKey (vWriteSet (call_vm 20000)) 0 (SetCodeKey (eK std_env)) = None"
    by (simp add: GetAddressAndKey_def NewWriteSet_def)
  have x: "(7::int) = int (be_nat (swapEndian (7 # replicate 15 0)))"
    by (simp add: swapEndian_def be_nat_append be_nat_replicate)
  have db: "fst (vDB (call_vm 20000)) = (rich_core, [])" by (simp only: std_wvm_simps fst_conv)
  have "\<exists>v'. eei_call std_host 0 5000 0 32 0 0 (call_vm 20000) = Some (v', EEICallSuccess) \<and>
    cur v' = Some ((std_contract [] 20000)\<lparr>Gas := Gas (std_contract [] 20000) - 7400\<rparr>) \<and>
    vWriteSet v' = vWriteSet (call_vm 20000) \<and> fst (vDB v') = snd (db_Snapshot (eJ std_env) (fst (vDB (call_vm 20000))))"
    by (rule plain_call_moves_no_value [OF _ _ _ _ _ call_reads x _ _ _ b refl _ _ k])
      (use rich_core_accounts in \<open>simp_all add: std_contract_def db del: std_wvm_simps(10)\<close>)
  then show ?thesis by (simp add: std_contract_def) blast
qed

end
