(* ===== verification/EeiSnapshots.thy ===== *)
theory EeiSnapshots
  imports EeiCallLaws Snapshots
begin

text \<open>
  The snapshots of the database through runs of wasm. Every host function keeps the snapshots that are open, so, if
  wagon changes the machine only through host functions, every run does, at any depth of calls, into byte code and back;
  and a call from wasm that does not succeed leaves the database as it was.
\<close>

section \<open>The database beside the interpreter object\<close>

abbreviation kept_db :: "('s \<Rightarrow> nat \<Rightarrow> 'c option) \<Rightarrow> 's wvm \<Rightarrow> 's wvm \<Rightarrow> bool" where
  "kept_db snap \<equiv> kept (snap \<circ> fst)"

lemma lift_journal_spec:
  assumes "journal_spec A J core snap"
  shows "journal_spec (lift_accounts A) (lift_journal J) (core \<circ> fst) (snap \<circ> fst)"
proof -
  note s = assms [unfolded journal_spec_def keeps_snaps_def]
  show ?thesis unfolding journal_spec_def keeps_snaps_def
    by (intro conjI) (use s in \<open>auto simp: lift_accounts_def lift_journal_def split: prod.splits\<close>)
qed

text \<open>Most steps of a host function leave the database alone.\<close>

definition same_db :: "'s wvm \<Rightarrow> 's wvm \<Rightarrow> bool" where
  "same_db v v' \<longleftrightarrow> fst (vDB v') = fst (vDB v)"

lemma same_db_simps [simp]:
  "same_db v v" "same_db v (set_win f v') = same_db v v'" "same_db v (set_term t v') = same_db v v'"
  "same_db (set_win f v) v' = same_db v v'" "same_db (set_term t v) v' = same_db v v'"
  by (simp_all add: same_db_def set_term_def)

lemma same_db_trans: "same_db u v \<Longrightarrow> same_db v w \<Longrightarrow> same_db u w"
  by (simp add: same_db_def)

lemma same_db_kept: "same_db v v' \<Longrightarrow> kept_db snap v v'"
  by (simp add: same_db_def keeps_snaps_def)

lemma small_steps:
  "yields (same_db v) (set_contract i c v)" "yields (same_db v) (add_gas i g v)" "yields (same_db v) (use_gas i g v)"
  "yields (same_db v) (set_proc p pr v)" "yields (same_db v) (terminate p v)" "yields (same_db v) (write_at H p bs off v)"
  "yields (same_db v) (gasAccounting p cost v)" "yields (same_db v) (read_put E v a k x)" "yields (same_db v) (write_put E v a k x y)"
  "yields (same_db v) (pay_value p value v)" "yields (same_db v) (paid_write H p cost bs off v)"
proof -
  show c: "yields (same_db v) (set_contract i c v)" for v :: "'a wvm" and i c by (simp add: set_contract_def yields_any)
  show "yields (same_db v) (add_gas i g v)" "yields (same_db v) (use_gas i g v)" by (simp_all add: add_gas_def use_gas_def c yields_any)
  show p: "yields (same_db v) (set_proc p pr v)" for v :: "'a wvm" and p pr by (simp add: set_proc_def yields_any)
  then show t: "yields (same_db v) (terminate p v)" for v :: "'a wvm" and p by (simp add: terminate_def yields_any)
  show w: "yields (same_db v) (write_at H p bs off v)" for v :: "'a wvm" and H p bs off by (simp add: write_at_def p yields_any)
  have "yields (same_db v) (terminate p (set_term TerminateInvalid v))" for v :: "'a wvm" and p
    by (rule yields_mono [OF t]) simp
  then show g: "yields (same_db v) (gasAccounting p cost v)" for v :: "'a wvm" and p cost by (simp add: gasAccounting_def c yields_any)
  show "yields (same_db v) (read_put E v a k x)" "yields (same_db v) (write_put E v a k x y)"
    by (simp_all add: read_put_def write_put_def same_db_def yields_any)
  show "yields (same_db v) (pay_value p value v)" by (simp add: pay_value_def g)
  show "yields (same_db v) (paid_write H p cost bs off v)" unfolding paid_write_def yields_bind
    by (rule yields_mono [OF g], rule yields_mono [OF w]) (rule same_db_trans)
qed

text \<open>Reads change nothing.\<close>

lemmas host_reads =
  yields_any [of _ "readSize H p off n v" for H p off n v] yields_any [of _ "cur v" for v] yields_any [of _ "contract_at v i" for v i]
  yields_any [of _ "vm_memory v" for v] yields_any [of _ "slice32 b i j" for b i j] yields_any [of _ "read_address H p off v" for H p off v]
  yields_any [of _ "read_hash H p off v" for H p off v] yields_any [of _ "stored_hash H v a k" for H v a k]
  yields_any [of _ "balance_of E v a" for E v a] yields_any [of _ "callee_code H v a" for H v a] yields_any [of _ "IsWASM c" for c]
  yields_any [of _ "c_value c" for c] yields_any [of _ "CodeAddr c" for c] yields_any [of _ "as_bytes x" for x]
  yields_any [of _ "read_topics H p ts v" for H p ts v] yields_any [of _ "h_Sentinel H b" for H b]

lemmas host_steps = small_steps [THEN yields_mono]

text \<open>What a host function leaves of the database, with its result left out.\<close>

abbreviation keeps_db :: "('s \<Rightarrow> nat \<Rightarrow> 'c option) \<Rightarrow> 's wvm \<Rightarrow> ('s wvm \<times> 'r) option \<Rightarrow> bool" where
  "keeps_db snap v m \<equiv> yields (\<lambda>(v', r). kept_db snap v v') m"

lemma results_keep [simp]:
  "keeps_db snap v (no_result m) = yields (kept_db snap v) m" "keeps_db snap v (one_i32 n) = keeps_db snap v n"
  "keeps_db snap v (one_i64 n') = keeps_db snap v n'"
  by (auto simp: no_result_def one_i32_def one_i64_def yields_def)

lemma context_functions_same:
  "yields (same_db v) (eei_useGas H p g v)" "yields (same_db v) (eei_getAddress H p o1 v)"
  "yields (same_db v) (eei_getExternalBalance H p o1 o2 v)" "yields (same_db v) (eei_callDataCopy H p o1 o2 l v)"
  "yields (same_db v) (eei_getCaller H p o1 v)" "yields (same_db v) (eei_getCallValue H p o1 v)"
  "yields (same_db v) (eei_codeCopy H p o1 o2 l v)" "yields (same_db v) (eei_getBlockCoinbase H p o1 v)"
  "yields (same_db v) (eei_getBlockDifficulty H p o1 v)" "yields (same_db v) (eei_externalCodeCopy H p o1 o2 o3 l v)"
  "yields (same_db v) (eei_getTxGasPrice H p o1 v)" "yields (same_db v) (eei_getTxOrigin H p o1 v)"
  "yields (same_db v) (eei_returnDataCopy H p o1 o2 l v)"
  by (auto simp: eei_useGas_def eei_getAddress_def eei_getExternalBalance_def eei_callDataCopy_def eei_getCaller_def
      eei_getCallValue_def eei_codeCopy_def eei_getBlockCoinbase_def eei_getBlockDifficulty_def eei_externalCodeCopy_def
      eei_getTxGasPrice_def eei_getTxOrigin_def eei_returnDataCopy_def Let_def
      intro!: host_reads host_steps intro: same_db_trans)

lemma storage_functions_same:
  "yields (same_db v) (eei_storageStore H p o1 o2 v)" "yields (same_db v) (eei_storageLoad H p o1 o2 v)"
  "yields (same_db v) (eei_storageStore2 H p o1 o2 o3 o4 v)" "yields (same_db v) (eei_storageLoad2 H p o1 o2 o3 o4 v)"
  "yields (same_db v) (eei_finish H p o1 l v)" "yields (same_db v) (eei_revert H p o1 l v)"
  by (auto simp: eei_storageStore_def eei_storageLoad_def eei_storageStore2_def eei_storageLoad2_def eei_finish_def eei_revert_def
      unWindContract_def Let_def split: option.split intro!: host_reads host_steps intro: same_db_trans)

abbreviation answers_same :: "'s wvm \<Rightarrow> ('s wvm \<times> 'r) option \<Rightarrow> bool" where
  "answers_same v m \<equiv> yields (\<lambda>(v', r). same_db v v') m"

lemma answers_same:
  "answers_same v (eei_getBlockHash H p n o1 v)" "answers_same v (eei_getCallDataSize H p v)" "answers_same v (eei_getCodeSize H p v)"
  "answers_same v (eei_getExternalCodeSize H p o1 v)" "answers_same v (eei_getGasLeft H p v)" "answers_same v (eei_getBlockGasLimit H p v)"
  "answers_same v (eei_getBlockNumber H p v)" "answers_same v (eei_getReturnDataSize H p v)" "answers_same v (eei_getBlockTimestamp H p v)"
  by (auto simp: eei_getBlockHash_def eei_getCallDataSize_def eei_getCodeSize_def eei_getExternalCodeSize_def eei_getGasLeft_def
      eei_getBlockGasLimit_def eei_getBlockNumber_def eei_getReturnDataSize_def eei_getBlockTimestamp_def Let_def
      intro!: host_reads host_steps intro: same_db_trans)

section \<open>Functions that change the database\<close>

text \<open>What the host relies on: the database answers for its snapshots, a log is no reason to lose one, and neither is a run.\<close>

definition host_spec :: "'s env \<Rightarrow> ('s \<Rightarrow> 'c) \<Rightarrow> ('s \<Rightarrow> nat \<Rightarrow> 'c option) \<Rightarrow> 's host \<Rightarrow> bool" where
  "host_spec E core snap H \<longleftrightarrow> h_E H = lift_env E \<and> journal_spec (eA E) (eJ E) core snap \<and>
     (\<forall>s l. keeps_snaps snap s (h_AddLog H s l))"

lemma host_specD:
  assumes "host_spec E core snap H"
  shows "journal_spec (eA (h_E H)) (eJ (h_E H)) (core \<circ> fst) (snap \<circ> fst)" "h_E H = lift_env E"
    "keeps_snaps snap s (h_AddLog H s l)"
  using assms lift_journal_spec by (auto simp: host_spec_def)

lemma kept_step: "same_db u v \<Longrightarrow> kept_db snap v w \<Longrightarrow> kept_db snap u w"
  by (simp add: same_db_def keeps_snaps_def)

lemma kept_then: "kept_db snap u v \<Longrightarrow> same_db v w \<Longrightarrow> kept_db snap u w"
  by (simp add: same_db_def keeps_snaps_def)

lemma kept_trans: "kept_db snap u v \<Longrightarrow> kept_db snap v w \<Longrightarrow> kept_db snap u w"
  by (rule keeps_snaps_trans)

lemma log_keeps:
  assumes "host_spec E core snap H"
  shows "yields (kept_db snap v) (eei_log H p o1 l n t1 t2 t3 t4 v)"
proof -
  have k: "keeps_snaps (snap \<circ> fst) (vDB v) (h_AddLog H (fst (vDB w)) m, x)" if "same_db v w" for w m x
    using host_specD(3) [OF assms, of "fst (vDB w)" m] that by (simp add: same_db_def keeps_snaps_def)
  show ?thesis by (auto simp: eei_log_def Let_def intro!: host_reads host_steps k intro: same_db_trans)
qed

lemma selfDestruct_keeps:
  assumes "host_spec E core snap H"
  shows "yields (kept_db snap v) (eei_selfDestruct H p o1 v)"
proof -
  have k: "kept_db snap v (w\<lparr>vDB := db_Suicide (eA (h_E H)) (vDB w) a\<rparr>)" if "same_db v w" for w a
    using journal_specD(7) [OF host_specD(1) [OF assms], of "vDB w" a] that by (simp add: same_db_def keeps_snaps_def)
  show ?thesis unfolding eei_selfDestruct_def Let_def yields_bind
    by (intro host_reads host_steps) (auto intro: kept_then [OF k] same_db_trans)
qed

section \<open>Calls\<close>

text \<open>A call keeps the snapshots that are open, and when it does not succeed, the core of the database is as before.\<close>

definition undoes :: "('s \<Rightarrow> 'c) \<Rightarrow> ('s \<Rightarrow> nat \<Rightarrow> 'c option) \<Rightarrow> 's wvm \<Rightarrow> 's wvm \<times> i32 \<Rightarrow> bool" where
  "undoes core snap v r = (case r of (v', e) \<Rightarrow> kept_db snap v v' \<and>
     (e \<noteq> EEICallSuccess \<longrightarrow> core (fst (vDB v')) = core (fst (vDB v))))"

lemma undoes_same [intro]: "same_db v v' \<Longrightarrow> undoes core snap v (v', e)"
  by (simp add: undoes_def same_db_def keeps_snaps_def)

lemma undoes_step: "same_db u v \<Longrightarrow> undoes core snap v r \<Longrightarrow> undoes core snap u r"
  by (auto simp: undoes_def same_db_def keeps_snaps_def split: prod.splits)

text \<open>The snapshot that a call takes, at \<open>v1\<close>, and what follows it.\<close>

definition snapshot_of :: "'s host \<Rightarrow> 's wvm \<Rightarrow> nat \<Rightarrow> 's wvm \<Rightarrow> bool" where
  "snapshot_of H v i v1 \<longleftrightarrow> (\<exists>v0. same_db v v0 \<and> take_snapshot (h_E H) v0 = (i, v1))"

lemma snapshot_of_taken:
  assumes "host_spec E core snap H" "snapshot_of H v i v1"
  shows "undoes core snap v (v1, e)"
    and "kept_db snap v1 w \<Longrightarrow> kept_db snap v w"
    and "kept_db snap v1 w \<Longrightarrow> undoes core snap v (revert_to H i w, e)"
proof -
  obtain v0 where v0: "same_db v v0" "take_snapshot (h_E H) v0 = (i, v1)" using assms(2) by (auto simp: snapshot_of_def)
  then have db: "db_Snapshot (eJ (h_E H)) (vDB v0) = (i, vDB v1)" by (auto simp: take_snapshot_def split: prod.splits)
  note J = host_specD(1) [OF assms(1)]
  have c: "(core \<circ> fst) (vDB v1) = (core \<circ> fst) (vDB v0)" and k: "kept_db snap v0 v1"
    using J db unfolding journal_spec_def by metis+
  then show "undoes core snap v (v1, e)" using v0(1) by (auto simp: undoes_def same_db_def intro: kept_step [unfolded same_db_def])
  show w: "kept_db snap v w" if "kept_db snap v1 w" for w using kept_step [OF v0(1) kept_trans [OF k that]] .
  show "undoes core snap v (revert_to H i w, e)" if "kept_db snap v1 w"
  proof -
    have "(core \<circ> fst) (vDB (revert_to H i w)) = (core \<circ> fst) (vDB v0)" "kept_db snap v0 (revert_to H i w)"
      using snapshot_reverted [OF J db that] by (simp_all add: revert_to_def)
    then show ?thesis using v0(1) by (auto simp: undoes_def same_db_def intro: kept_step [unfolded same_db_def])
  qed
qed

lemma undoes_then: "undoes core snap v (w, e) \<Longrightarrow> same_db w w' \<Longrightarrow> undoes core snap v (w', e)"
  by (auto simp: undoes_def same_db_def keeps_snaps_def)

lemma finish_call_undoes:
  assumes "host_spec E core snap H" "snapshot_of H v i v1" "kept_db snap v1 w"
  shows "yields (undoes core snap v) (finish_call H i ci left w)"
proof -
  have undo: "undoes core snap v (x, e)" if "same_db (revert_to H i w) x" for x e
    using undoes_then [OF snapshot_of_taken(3) [OF assms] that] .
  have "undoes core snap v (w, EEICallSuccess)" using snapshot_of_taken(2) [OF assms] by (simp add: undoes_def)
  with undo show ?thesis by (auto simp: finish_call_def intro!: host_steps split: terminationType.split)
qed

lemma runs_keep:
  assumes "host_spec E core snap H" "run_keeps (snap \<circ> fst) (h_run H)"
  shows "keeps_db snap v (run_wasm H ci t input ro v)" "yields (kept_db snap v) (run_other H ci a input g x v)"
proof -
  show "keeps_db snap v (run_wasm H ci t input ro v)" unfolding run_wasm_def Let_def yields_bind
    by (rule yields_mono [OF assms(2) [unfolded run_keeps_def, rule_format]]) (auto simp: set_win_def keeps_snaps_def)
  have "yields (kept_db snap v) (add_gas ci l (f w))" if "kept_db snap v w" "\<And>w. same_db w (f w)" for w l f
    by (rule yields_mono [OF small_steps(2)]) (use that in \<open>blast intro: kept_then same_db_trans\<close>)
  then show "yields (kept_db snap v) (run_other H ci a input g x v)"
    unfolding run_other_def Let_def yields_bind
    by (intro host_reads yields_mono [OF run_calls_undone(1) [OF host_specD(1) [OF assms(1)] assms(2)]])
      (auto simp: undone_def split: prod.splits)
qed

lemma callCommon_undoes:
  assumes "host_spec E core snap H" "run_keeps (snap \<circ> fst) (h_run H)" "snapshot_of H v i v1" "same_db v1 w"
  shows "yields (undoes core snap v) (callCommon H p ci t input val i g ro w)"
proof -
  note wasm = yields_mono [OF runs_keep(1) [OF assms(1,2)]] and other = yields_mono [OF runs_keep(2) [OF assms(1,2)]]
  note finish = finish_call_undoes [OF assms(1,3)]
  have early: "undoes core snap v (w, e)" for e by (rule undoes_then [OF snapshot_of_taken(1) [OF assms(1,3)] assms(4)])
  have k: "kept_db snap v1 x" if "kept_db snap w x" for x using kept_step [OF assms(4) that] .
  show ?thesis
    by (auto simp: callCommon_def Let_def early intro!: host_reads wasm other host_steps finish intro: k kept_then split: prod.splits)
qed

lemma calls_undo:
  assumes "host_spec E core snap H" "run_keeps (snap \<circ> fst) (h_run H)"
  shows "yields (undoes core snap v) (eei_callCode H p g a x d l v)" "yields (undoes core snap v) (eei_callDelegate H p g a d l v)"
proof -
  have snap: "snapshot_of H v i v1" if "take_snapshot (h_E H) v0 = (i, v1)" "same_db v v0" for i v0 v1
    using that by (auto simp: snapshot_of_def)
  have new: "same_db v v'" if "new_contract v cr b y z = (t, v')" for v v' :: "'a wvm" and cr b y z t
    using put_db(3) [OF that] by (simp add: same_db_def)
  note common = callCommon_undoes [OF assms]
  have early: "undoes core snap v (v1, e)" if "take_snapshot (h_E H) v0 = (i, v1)" "same_db v v0" for i v0 v1 e
    using snapshot_of_taken(1) [OF assms(1) snap [OF that]] .
  show "yields (undoes core snap v) (eei_callCode H p g a x d l v)" "yields (undoes core snap v) (eei_callDelegate H p g a d l v)"
    by (auto simp: eei_callCode_def eei_callDelegate_def Let_def
        intro!: host_reads host_steps common intro: early snap new same_db_trans split: prod.splits)
qed

text \<open>A place behind the snapshot, with the database as it was or with the snapshots kept.\<close>

definition behind :: "'s host \<Rightarrow> ('s \<Rightarrow> nat \<Rightarrow> 'c option) \<Rightarrow> 's wvm \<Rightarrow> nat \<Rightarrow> 's wvm \<Rightarrow> bool" where
  "behind H snap v i w \<longleftrightarrow> (\<exists>v1. snapshot_of H v i v1 \<and> kept_db snap v1 w)"

definition unmoved :: "'s host \<Rightarrow> 's wvm \<Rightarrow> nat \<Rightarrow> 's wvm \<Rightarrow> bool" where
  "unmoved H v i w \<longleftrightarrow> (\<exists>v1. snapshot_of H v i v1 \<and> same_db v1 w)"

lemma same_db_back: "same_db w x \<Longrightarrow> same_db v w \<Longrightarrow> same_db v x"
  by (rule same_db_trans)

lemma unmoved_taken: "take_snapshot (h_E H) v0 = (i, x) \<Longrightarrow> same_db v v0 \<Longrightarrow> unmoved H v i x"
  by (auto simp: unmoved_def snapshot_of_def intro: exI [of _ x])

lemma unmoved_same: "same_db w x \<Longrightarrow> unmoved H v i w \<Longrightarrow> unmoved H v i x"
  by (auto simp: unmoved_def intro: same_db_trans)

lemma unmoved_new: "new_contract w cr b y z = (t, x) \<Longrightarrow> unmoved H v i w \<Longrightarrow> unmoved H v i x"
  by (rule unmoved_same [of w]) (simp_all add: same_db_def put_db(3))

lemma unmoved_behind: "unmoved H v i w \<Longrightarrow> behind H snap v i w"
  by (auto simp: unmoved_def behind_def intro: same_db_kept)

lemma behind_kept: "kept_db snap w x \<Longrightarrow> behind H snap v i w \<Longrightarrow> behind H snap v i x"
  by (auto simp: behind_def intro: kept_trans)

lemma behind_same: "same_db w x \<Longrightarrow> behind H snap v i w \<Longrightarrow> behind H snap v i x"
  by (rule behind_kept [OF same_db_kept])

lemma behind_new: "new_contract w cr b y z = (t, x) \<Longrightarrow> behind H snap v i w \<Longrightarrow> behind H snap v i x"
  by (rule behind_same [of w]) (simp_all add: same_db_def put_db(3))

lemma behind_flag: "behind H snap v i w \<Longrightarrow> behind H snap v i (set_win f w)"
  by (rule behind_same [of w]) simp_all

lemmas places = same_db_back unmoved_taken unmoved_same unmoved_new
lemmas later_places = places behind_kept behind_same behind_new

lemma undoes_unmoved: "host_spec E core snap H \<Longrightarrow> unmoved H v i w \<Longrightarrow> undoes core snap v (w, e)"
  by (auto simp: unmoved_def intro: undoes_then snapshot_of_taken(1))

lemma undoes_behind: "host_spec E core snap H \<Longrightarrow> behind H snap v i w \<Longrightarrow> undoes core snap v (w, EEICallSuccess)"
  by (auto simp: behind_def undoes_def snapshot_of_taken(2))

lemma finish_call_behind:
  assumes "host_spec E core snap H" "behind H snap v i w" "\<And>r. undoes core snap v r \<Longrightarrow> P r"
  shows "yields P (finish_call H i ci left w)"
proof -
  obtain v1 where "snapshot_of H v i v1" "kept_db snap v1 w" using assms(2) by (auto simp: behind_def)
  from yields_mono [OF finish_call_undoes [OF assms(1) this] assms(3)] show ?thesis .
qed

text \<open>The two calls that do the work themselves.\<close>

lemma direct_calls_undo:
  assumes "host_spec E core snap H" "run_keeps (snap \<circ> fst) (h_run H)"
  shows "yields (undoes core snap v) (eei_call H p g a x d l v)" "yields (undoes core snap v) (eei_callStatic H p g a d l v)"
proof -
  note wasm = yields_mono [OF runs_keep(1) [OF assms(1,2)]] and other = yields_mono [OF runs_keep(2) [OF assms(1,2)]]
  note finish = finish_call_behind [OF assms(1), where v = v]
  note ends = undoes_unmoved [OF assms(1)] undoes_behind [OF assms(1), unfolded EEICallSuccess_def]
  have after_finish: "undoes core snap v (set_win f w, e)" if "undoes core snap v (w, e)" for f w e
    by (rule undoes_then [OF that]) simp
  have made: "behind H snap v i (w\<lparr>vDB := db_CreateAccount (eA (h_E H)) (vDB w) b\<rparr>)" if "behind H snap v i w" for i w b
    by (rule behind_kept [OF _ that]) (use journal_specD(8) [OF host_specD(1) [OF assms(1)]] in simp)
  show "yields (undoes core snap v) (eei_call H p g a x d l v)"
    unfolding eei_call_def Let_def yields_bind
    by (auto simp: Let_def set_term_def intro!: host_reads host_steps wasm other finish after_finish split: prod.splits)
      (assumption | rule ends | erule later_places | rule unmoved_behind)+
  show "yields (undoes core snap v) (eei_callStatic H p g a d l v)"
    unfolding eei_callStatic_def Let_def yields_bind
    by (auto simp: Let_def set_term_def intro!: host_reads host_steps wasm other finish after_finish split: prod.splits)
      (assumption | rule ends made same_db_simps(1) behind_flag | erule later_places | rule unmoved_behind)+
qed

section \<open>Creations\<close>

lemma creation_keeps:
  assumes "host_spec E core snap H" "run_keeps (snap \<circ> fst) (h_run H)"
  shows "yields (\<lambda>(v', ret, a, left, e). kept_db snap v v') (Create (h_run H) (h_E H) v cr code g x)"
  by (auto simp: Create_def Let_def intro!: yields_reads creation_kept [OF host_specD(1) [OF assms(1)] assms(2)])

lemma create_body_keeps:
  assumes "host_spec E core snap H" "run_keeps (snap \<circ> fst) (h_run H)"
  shows "keeps_db snap v (create_body H p ci input value x v)"
proof -
  note new = yields_mono [OF creation_keeps [OF assms]]
  show ?thesis
    by (auto simp: create_body_def Let_def intro!: host_reads host_steps new split: prod.split terminationType.split)
      (blast intro: same_db_kept kept_then kept_step)+
qed

lemma eei_create_keeps:
  assumes "host_spec E core snap H" "run_keeps (snap \<circ> fst) (h_run H)"
  shows "keeps_db snap v (eei_create H p a1 a2 a3 a4 v)"
proof -
  have body: "yields P (create_body H p ci input val x (set_term TerminateFinish (set_term TerminateInvalid w)))"
    if "same_db v w" "\<And>v' r. kept_db snap v v' \<Longrightarrow> P (v', r)" for P ci input val x w
    by (rule yields_mono [OF create_body_keeps [OF assms]])
      (use that in \<open>auto simp: set_term_def set_win_def same_db_def keeps_snaps_def\<close>)
  have restored: "kept_db snap v (set_win f v')" if "kept_db snap v v'" for f v' by (rule kept_then [OF that]) simp
  show ?thesis
    by (auto simp: eei_create_def Let_def intro!: host_reads host_steps body restored intro: same_db_kept split: prod.split)
qed

section \<open>Every host function, and every run\<close>

lemma same_results_keep:
  "yields (same_db v) m \<Longrightarrow> yields (kept_db snap v) m" "answers_same v n \<Longrightarrow> keeps_db snap v n"
  "yields (undoes core snap v) n' \<Longrightarrow> keeps_db snap v n'"
  by (auto simp: yields_def undoes_def intro: same_db_kept)

lemma debug_same: "yields (same_db v) (printMemHex H p x l v)" "yields (same_db v) (printStorageHex H p x v)"
  by (auto simp: printMemHex_def printStorageHex_def yields_any)

definition fn_keeps :: "('s \<Rightarrow> nat \<Rightarrow> 'c option) \<Rightarrow> func_sig \<times> 's host_fn \<Rightarrow> bool" where
  "fn_keeps snap f \<longleftrightarrow> (\<forall>p as v. keeps_db snap v (snd f p as v))"

lemma fn_keeps_host: "(\<And>p as v. keeps_db snap v (f p as v)) \<Longrightarrow> fn_keeps snap (host_func sig f)"
  by (simp add: fn_keeps_def host_func_def)

lemma host_functions_keep:
  assumes "host_spec E core snap H" "run_keeps (snap \<circ> fst) (h_run H)"
  shows "list_all (fn_keeps snap) (eeiFuncs H)" "list_all (fn_keeps snap) (getDebugFuncs H)"
proof -
  show "list_all (fn_keeps snap) (eeiFuncs H)"
    unfolding eeiFuncs_def list.pred_inject
    by (intro conjI list.pred_inject(1) fn_keeps_host)
      (unfold results_keep, (rule context_functions_same [THEN same_results_keep(1)] storage_functions_same [THEN same_results_keep(1)]
        answers_same [THEN same_results_keep(2)] direct_calls_undo [OF assms, THEN same_results_keep(3)]
        calls_undo [OF assms, THEN same_results_keep(3)] eei_create_keeps [OF assms] log_keeps [OF assms(1)]
        selfDestruct_keeps [OF assms(1)])+)
  show "list_all (fn_keeps snap) (getDebugFuncs H)"
    unfolding getDebugFuncs_def list.pred_inject
    by (intro conjI list.pred_inject(1) fn_keeps_host) (unfold results_keep, (rule debug_same [THEN same_results_keep(1)])+)
qed

text \<open>What is asked of wagon: it changes the machine through host functions only.\<close>

definition exec_spec :: "('s \<Rightarrow> nat \<Rightarrow> 'c option) \<Rightarrow> 's wagon_vm \<Rightarrow> bool" where
  "exec_spec snap X \<longleftrightarrow> (\<forall>F. (\<forall>name fs ns. F name = Some (fs, ns) \<longrightarrow> list_all (fn_keeps snap) fs) \<longrightarrow>
     (\<forall>m i p v. keeps_db snap v (x_Exec X F m i p v)))"

lemma modules_keep:
  assumes "host_spec E core snap H" "run_keeps (snap \<circ> fst) (h_run H)" "ModuleResolver H name = Some (fs, ns)"
  shows "list_all (fn_keeps snap) fs"
  using host_functions_keep [OF assms(1,2)] assms(3) by (auto simp: ModuleResolver_def split: if_splits)

lemma wasm_body_keeps:
  assumes "host_spec E core snap H" "run_keeps (snap \<circ> fst) (h_run H)" "exec_spec snap X"
  shows "run_keeps (snap \<circ> fst) (wasm_body H X)"
proof -
  have exec: "keeps_db snap v (x_Exec X (ModuleResolver H) m i p v)" for m i p v
    using assms(3) modules_keep [OF assms(1,2)] unfolding exec_spec_def by blast
  have refund: "keeps_snaps (snap \<circ> fst) t (db_AddRefund (eJ (h_E H)) s n)" if "keeps_snaps (snap \<circ> fst) t s" for s t n
    by (rule keeps_snaps_trans [OF that journal_specD(1) [OF host_specD(1) [OF assms(1)]]])
  have set_steps: "kept_db snap v (set_term t w)" "kept_db snap v (set_win f w)" if "kept_db snap v w" for v w t f
    by (rule kept_then [OF that], simp)+
  have main: "yields (\<lambda>(v', ret, e). kept_db snap u v') (exec_main H X m i p a v)" if "same_db u v" for u m i p a v
    unfolding exec_main_def Let_def yields_bind
    by (rule yields_mono [OF exec]) (auto simp del: SelfdestructRefundGas_def intro!: refund set_steps kept_step [OF that])
  have module: "yields (\<lambda>(v', ret, e). kept_db snap u v') (wasm_module H X c v)" if "same_db u v" for u c v
    using that by (auto simp: wasm_module_def Let_def split: option.split intro!: yields_any [of _ "x_NewVM X m" for m]
      yields_any [of _ "validateModule m" for m] yields_any [of _ "go_index xs i" for xs i] main set_steps intro: same_db_kept)
  show ?thesis
    unfolding run_keeps_def wasm_body_def Let_def yields_bind
  proof (intro allI yields_mono [OF module])
    fix vm :: "'a wvm" and c input
    show "same_db vm (set_win (\<lambda>w. w\<lparr>in_contracts := in_contracts w @ [c\<lparr>Input := input\<rparr>], in_contract := length (in_contracts (win (vm\<lparr>depth := depth vm + 1\<rparr>)))\<rparr>) (vm\<lparr>depth := depth vm + 1\<rparr>))"
      by (simp add: same_db_def)
  qed (auto intro: yields_any)
qed

lemma wasm_Run_keeps:
  assumes "host_spec E core snap H" "exec_spec snap X"
  shows "run_keeps (snap \<circ> fst) (wasm_Run d H X)"
proof (induction d)
  case (Suc d)
  have "host_spec E core snap (H\<lparr>h_run := wasm_Run d H X\<rparr>)" using assms(1) by (simp add: host_spec_def)
  from wasm_body_keeps [OF this _ assms(2)] Suc.IH have "run_keeps (snap \<circ> fst) (wasm_body (H\<lparr>h_run := wasm_Run d H X\<rparr>) X)"
    by simp
  then show ?case by (simp only: run_keeps_def wasm_Run.simps simp_thms)
qed (simp add: run_keeps_def)

text \<open>C3. A call from wasm that answers with failure or with revert leaves the core of the database as it found it, whatever
  the callee has done: wasm, which calls back through any host function, or byte code, at any depth of nesting.\<close>

theorem wasm_failed_call_is_undone:
  assumes "host_spec E core snap H" "exec_spec snap X" "G = H\<lparr>h_run := wasm_Run d H X\<rparr>"
    and "r \<in> {eei_call G p gas a x dat l v, eei_callCode G p gas a x dat l v, eei_callDelegate G p gas a dat l v,
      eei_callStatic G p gas a dat l v}"
    and "r = Some (v', e)" "e \<noteq> EEICallSuccess"
  shows "core (fst (vDB v')) = core (fst (vDB v))"
proof -
  have G: "host_spec E core snap G" "run_keeps (snap \<circ> fst) (h_run G)"
    using assms(1,3) wasm_Run_keeps [OF assms(1,2)] by (simp_all add: host_spec_def)
  have "yields (undoes core snap v) r" using assms(4) direct_calls_undo [OF G] calls_undo [OF G] by auto
  from yieldsD [OF this assms(5)] assms(6) show ?thesis by (simp add: undoes_def)
qed

section \<open>Witnesses\<close>

text \<open>A wagon on which every module is one that reverts, and a callee with code for it.\<close>

abbreviation rev_module :: wmodule where
  "rev_module \<equiv> \<lparr>m_Start = False, m_Export = Some [(''main'', ExternalFunction, 0), (''memory'', ExternalMemory, 0)],
     m_Import = None, m_Funcs = [([], [])]\<rparr>"

definition reverting :: "std_db wagon_vm" where
  "reverting = \<lparr>x_ReadModule = (\<lambda>b. Some rev_module), x_NewVM = (\<lambda>m. Some []),
     x_Exec = (\<lambda>F m i p v. do {
       (fs, names) \<leftarrow> F ''ethereum'';
       j \<leftarrow> lookup names ''revert'';
       f \<leftarrow> go_index fs j;
       (v, r) \<leftarrow> snd f p [0, 0] v;
       Some (v, Some ExecReverted)
     })\<rparr>"

abbreviation wasm_core :: std_core where
  "wasm_core \<equiv> rich_core\<lparr>sc_code := (\<lambda>a. wasmIdent @ replicate 64 0)\<rparr>"

lemma reverting_spec: "exec_spec snap reverting"
proof -
  have index: "yields (\<lambda>f. fn_keeps snap f) (go_index fs j)" if "list_all (fn_keeps snap) fs"
    for fs :: "(func_sig \<times> std_db host_fn) list" and j
    using that by (auto simp: yields_def go_index_def list_all_length split: if_splits)
  have "keeps_db snap v (x_Exec reverting F m i p v)"
    if "\<forall>name fs ns. F name = Some (fs, ns) \<longrightarrow> list_all (fn_keeps snap) fs" for F m i p v
    using that index by (fastforce simp: reverting_def yields_def bind_Some_iff fn_keeps_def split: prod.splits)
  then show ?thesis by (simp add: exec_spec_def)
qed

lemma std_host_spec: "host_spec std_env fst std_snap std_host"
  by (auto simp: host_spec_def std_env_def std_host_def std_journal_spec keeps_snaps_def)


lemma reverting_exec:
  assumes "p < length (in_procs (win v))"
  shows "x_Exec reverting (ModuleResolver (std_host\<lparr>h_run := r\<rparr>)) m i p v =
    Some (set_win (\<lambda>w. w\<lparr>in_returnData := [], in_term := TerminateRevert, in_procs := (in_procs w)[p := (in_procs w ! p)\<lparr>pr_done := True\<rparr>]\<rparr>) v,
      Some ExecReverted)"
proof -
  have m: "ModuleResolver (std_host\<lparr>h_run := r\<rparr>) ''ethereum'' =
      Some (eeiFuncs (std_host\<lparr>h_run := r\<rparr>), zip eeiFunctionList [0..<length eeiFunctionList])"
    by (simp add: ModuleResolver_def)
  have n: "lookup (zip eeiFunctionList [0..<35]) ''revert'' = Some 28"
    by (simp add: eeiFunctionList_def upt_rec)
  have f: "go_index (eeiFuncs (std_host\<lparr>h_run := r\<rparr>)) 28 = Some (host_func (eeiTypes ! 2)
      (\<lambda>p as v. no_result (eei_revert (std_host\<lparr>h_run := r\<rparr>) p (arg32 as 0) (arg32 as 1) v)))"
    by (simp add: eeiFuncs_def go_index_def)
  have e: "eei_revert (std_host\<lparr>h_run := r\<rparr>) p 0 0 v =
    Some (set_win (\<lambda>w. w\<lparr>in_returnData := [], in_term := TerminateRevert, in_procs := (in_procs w)[p := (in_procs w ! p)\<lparr>pr_done := True\<rparr>]\<rparr>) v)"
    using assms by (simp add: eei_revert_def unWindContract_def readSize_def go_index_def wagon_std_def terminate_def
        set_proc_def go_update_def set_term_def set_win_def win_def)
  show ?thesis by (simp add: reverting_def m n f e host_func_def eeiTypes_def Let_def no_result_def arg32_def)
qed

lemma rev_module_ok:
  "x_ReadModule reverting b = Some rev_module" "x_NewVM reverting m = Some []" "validateModule rev_module = Some 0"
  "go_index [([], [])] 0 = Some ([], [])"
  by (simp_all add: reverting_def validateModule_def export_ok_def go_index_def)

lemma callee_reverts:
  assumes "Code c = wasmIdent @ replicate 64 0" "vDB v = ((c0, j), w)" "sc_suicided c0 = []"
  shows "\<exists>v' c' ret. wasm_Run (Suc d) std_host reverting v c input ro = Some (v', c', ret, Some ErrExecutionReverted) \<and>
    in_term (win v') = TerminateRevert \<and> fst (vDB v') = fst (vDB v) \<and>
    in_contracts (win v') = in_contracts (win v) @ [c\<lparr>Input := input\<rparr>]"
proof -
  let ?G = "std_host\<lparr>h_run := wasm_Run d std_host reverting\<rparr>"
  have d: "win (x\<lparr>depth := n\<rparr>) = win x" for x :: "std_db wvm" and n by (simp add: win_def)
  have code: "\<not> length (Code (c\<lparr>Input := input\<rparr>)) < 65" using assms(1) by (simp add: wasmIdent_def)
  have gone: "\<not> db_HasSuicided (lift_accounts std_accounts) (vDB x) a" if "fst (vDB x) = (c0, j)" for a and x :: "std_db wvm"
    using that assms(3) by (cases "vDB x") (simp add: lift_accounts_def std_accounts_def)
  have "\<exists>v'. wasm_module ?G reverting (c\<lparr>Input := input\<rparr>) u = Some (v', [], Some ErrExecutionReverted) \<and>
      in_term (win v') = TerminateRevert \<and> fst (vDB v') = fst (vDB u) \<and> in_contracts (win v') = in_contracts (win u)"
    if "fst (vDB u) = (c0, j)" for u
    using code that
    by (simp add: wasm_module_def Let_def rev_module_ok exec_main_def reverting_exec gone)
  from this [of "set_win (\<lambda>w. w\<lparr>in_contracts := in_contracts w @ [c\<lparr>Input := input\<rparr>], in_contract := length (in_contracts (win v))\<rparr>) (v\<lparr>depth := depth v + 1\<rparr>)"]
  obtain v' where "wasm_module ?G reverting (c\<lparr>Input := input\<rparr>) (set_win (\<lambda>w. w\<lparr>in_contracts := in_contracts w @ [c\<lparr>Input := input\<rparr>],
      in_contract := length (in_contracts (win v))\<rparr>) (v\<lparr>depth := depth v + 1\<rparr>)) = Some (v', [], Some ErrExecutionReverted)"
      "in_term (win v') = TerminateRevert" "fst (vDB v') = fst (vDB v)" "in_contracts (win v') = in_contracts (win v) @ [c\<lparr>Input := input\<rparr>]"
    using assms(2) d by auto
  then show ?thesis by (simp add: wasm_body_def Let_def contract_at_def go_index_def d)
qed

lemma static_call_to_wasm:
  assumes "read_address H p a v = Some addr" "readSize H p dat (sint l) v = Some input" "take_snapshot (h_E H) v = (i, v1)"
    and "gasAccounting p 700 v1 = Some v2" "depth v2 \<le> 1024" "db_Exist (eA (h_E H)) (vDB v2) addr"
    and "contract_at v2 (in_contract (win v)) = Some c" "new_contract v2 (as_ref c) addr (Some 0) g = (t, v3)"
    and "db_GetCode (eA (h_E H)) (vDB v3) addr = code" "code \<noteq> []" "IsWASM code = Some True"
    and "run_wasm H (in_contract (win v)) (SetCallCode t addr (db_GetCodeHash (eA (h_E H)) (vDB v3) addr) code) input False
      (set_win (\<lambda>w. w\<lparr>in_static := True\<rparr>) v3) = Some (v4, t')"
    and "add_gas (in_contract (win v)) (Gas t') v4 = Some v5" "in_term (win v5) = TerminateRevert"
  shows "\<exists>v'. eei_callStatic H p g a dat l v = Some (v', ErrEEICallRevert)"
  using assms by (simp add: eei_callStatic_def Let_def finish_call_def)

theorem wasm_failed_call_is_undone_witness:
  "\<exists>v'. eei_callStatic (std_host\<lparr>h_run := wasm_Run 1 std_host reverting\<rparr>) 0 5000 0 0 0 (std_wvm wasm_core 1000 (replicate 32 0)) =
     Some (v', ErrEEICallRevert) \<and> fst (fst (vDB v')) = wasm_core"
proof -
  let ?G = "std_host\<lparr>h_run := wasm_Run 1 std_host reverting\<rparr>" and ?v = "std_wvm wasm_core 1000 (replicate 32 0)"
  have r: "readSize ?G 0 0 20 ?v = Some (replicate 20 0)" "readSize ?G 0 0 0 ?v = Some []"
    by (simp_all add: readSize_def go_index_def wagon_std_def)
  have a: "read_address ?G 0 0 ?v = Some 0" using r(1) by (simp add: read_address_def geth_std_def be_nat_replicate)
  define s1 where "s1 = snd (db_Snapshot (eJ std_env) (fst (vDB ?v)))"
  have s1: "s1 = (wasm_core, [(0, wasm_core)])" by (simp add: s1_def std_wvm_def std_env_def std_journal_def)
  obtain i where snap: "take_snapshot (h_E ?G) ?v = (i, ?v\<lparr>vDB := (s1, win ?v)\<rparr>)"
    using take_snapshot_lift [of ?G std_env s1 ?v] s1_def by auto
  let ?c = "std_contract [] 1000" and ?c1 = "std_contract [] 300" and ?v1 = "?v\<lparr>vDB := (s1, win ?v)\<rparr>"
  let ?v2 = "with_cur ?c1 ?v1"
  have c1: "cur ?v1 = Some ?c" by (simp add: cur_snapshot)
  have pay: "gasAccounting 0 700 ?v1 = Some ?v2" using pay_step [OF c1, of 700 0] by (simp add: std_contract_def)
  have c2: "contract_at ?v2 0 = Some ?c1" using with_cur_keeps [OF c1, of ?c1] by simp
  obtain t jds where t: "NewContract (jdstore ?v) (as_ref ?c1) 0 (Some 0) 5000 = (t, jds)" by fastforce
  let ?v3 = "?v2\<lparr>jdstore := jds\<rparr>"
  have new: "new_contract ?v2 (as_ref ?c1) 0 (Some 0) 5000 = (t, ?v3)" using t by (simp add: new_contract_def)
  have db: "vDB ?v2 = (s1, win ?v2)" "vDB ?v3 = (s1, win ?v2)" by (simp_all add: with_cur_def set_win_def win_def del: std_wvm_simps(10))
  have code: "db_Exist (lift_accounts (eA std_env)) (vDB ?v2) 0" "db_GetCode (lift_accounts (eA std_env)) (vDB ?v3) 0 = wasmIdent @ replicate 64 0"
    unfolding db by (simp_all add: s1 lift_accounts_def) (simp_all add: std_env_def std_accounts_def)
  define u where "u = set_win (\<lambda>w. w\<lparr>in_static := True\<rparr>) ?v3"
  define target where "target = SetCallCode t 0 (db_GetCodeHash (lift_accounts (eA std_env)) (vDB ?v3) 0) (wasmIdent @ replicate 64 0)"
  have u: "vDB u = ((wasm_core, [(0, wasm_core)]), win u)" "in_contracts (win u) = [?c1]" "in_vm (win u) = 0" "in_contract (win u) = 0"
    by (simp_all add: u_def win_def set_win_def db s1 with_cur_def del: std_wvm_simps(10)) (simp_all add: std_wvm_def NewEWASMInterpreter_def)
  have z: "sc_suicided wasm_core = []" by (simp add: std_core_empty_def)
  have tc: "Code target = wasmIdent @ replicate 64 0" by (simp add: target_def SetCallCode_def)
  obtain w c' ret where w: "wasm_Run 1 std_host reverting u target [] False = Some (w, c', ret, Some ErrExecutionReverted)"
      "in_term (win w) = TerminateRevert" "in_contracts (win w) = [?c1, target\<lparr>Input := []\<rparr>]"
    using callee_reverts [OF tc u(1) z, of 0 "[]" False] unfolding One_nat_def u(2) append.simps by blast
  obtain x where x: "add_gas 0 (Gas c') (set_win (\<lambda>w. w\<lparr>in_vm := 0, in_contract := 0\<rparr>) w) = Some x" "in_term (win x) = TerminateRevert"
    using w(2,3) by (simp add: add_gas_def contract_at_def go_index_def set_contract_def go_update_def)
  have run: "run_wasm ?G 0 target [] False u = Some (set_win (\<lambda>w. w\<lparr>in_vm := 0, in_contract := 0\<rparr>) w, c')"
    using w(1) u(3,4) by (simp add: run_wasm_def Let_def)
  have ci: "in_contract (win ?v) = 0" by simp
  have code2: "db_Exist (eA (h_E ?G)) (vDB ?v2) 0" "db_GetCode (eA (h_E ?G)) (vDB ?v3) 0 = wasmIdent @ replicate 64 0"
    using code by simp_all
  have run2: "run_wasm ?G 0 (SetCallCode t 0 (db_GetCodeHash (eA (h_E ?G)) (vDB ?v3) 0) (wasmIdent @ replicate 64 0)) [] False
      (set_win (\<lambda>w. w\<lparr>in_static := True\<rparr>) ?v3) = Some (set_win (\<lambda>w. w\<lparr>in_vm := 0, in_contract := 0\<rparr>) w, c')"
    using run by (simp add: target_def u_def)
  have r2: "readSize ?G 0 0 (sint (0 :: i32)) ?v = Some []" using r(2) by simp
  have wasm: "wasmIdent @ replicate 64 0 \<noteq> []" "IsWASM (wasmIdent @ replicate 64 0) = Some True" "depth ?v2 \<le> 1024"
    by (simp_all add: IsWASM_def wasmIdent_def go_slice_def)
  have "\<exists>v'. eei_callStatic ?G 0 5000 0 0 0 ?v = Some (v', ErrEEICallRevert)"
    using static_call_to_wasm [OF a r2 snap pay wasm(3) code2(1), unfolded ci, OF c2 new code2(2) wasm(1,2) run2 x] .
  then obtain v' where v': "eei_callStatic ?G 0 5000 0 0 0 ?v = Some (v', ErrEEICallRevert)" by blast
  have "fst (fst (vDB v')) = fst (fst (vDB ?v))"
    by (rule wasm_failed_call_is_undone [where d = 1 and x = 0 and p = 0 and gas = 5000 and a = 0 and dat = 0 and l = 0, OF std_host_spec reverting_spec refl _ v']) simp_all
  with v' show ?thesis by (simp add: std_wvm_def)
qed

end
