(* ===== verification/WasmDepth.thy ===== *)
theory WasmDepth
  imports EeiSnapshots
begin

text \<open>
  The depth of calls through runs of wasm. Every host function leaves the depth of the machine as it was, and above the limit of the code
  no call starts a run. So the fuel of \<open>wasm_Run\<close> that the depth limit calls for is enough: more does not change a run.
\<close>

section \<open>The depth is kept\<close>

abbreviation level :: "'s vm \<Rightarrow> 's vm option \<Rightarrow> bool" where
  "level v m \<equiv> yields (\<lambda>v'. depth v' = depth v) m"

lemma level_puts:
  "level v (read_put E v a k x)" "level v (write_put E v a k x y)"
  by (simp_all add: read_put_def write_put_def yields_any)

lemma level_steps:
  "level v (set_contract i c v)" "level v (add_gas i g v)" "level v (use_gas i g v)" "level v (set_proc p pr v)" "level v (terminate p v)"
  "level v (write_at H p bs off v)" "level v (gasAccounting p cost v)" "level v (pay_value p x v)" "level v (paid_write H p cost bs off v)"
proof -
  show c: "level v (set_contract i c v)" for v :: "'a wvm" and i c by (simp add: set_contract_def yields_any)
  show "level v (add_gas i g v)" "level v (use_gas i g v)" by (simp_all add: add_gas_def use_gas_def c yields_any)
  show p: "level v (set_proc p pr v)" for v :: "'a wvm" and p pr by (simp add: set_proc_def yields_any)
  then show t: "level v (terminate p v)" for v :: "'a wvm" and p by (simp add: terminate_def yields_any)
  show w: "level v (write_at H p bs off v)" for v :: "'a wvm" and H p bs off by (simp add: write_at_def p yields_any)
  have "level v (terminate p (set_term TerminateInvalid v))" for v :: "'a wvm" and p
    by (rule yields_mono [OF t]) (simp add: set_term_def)
  then show g: "level v (gasAccounting p cost v)" for v :: "'a wvm" and p cost by (simp add: gasAccounting_def c yields_any)
  show "level v (pay_value p x v)" by (simp add: pay_value_def g)
  show "level v (paid_write H p cost bs off v)" unfolding paid_write_def yields_bind
    by (rule yields_mono [OF g], rule yields_mono [OF w]) simp
qed

lemmas host_levels = level_steps [THEN yields_mono] level_puts [THEN yields_mono]

lemma depth_set [simp]: "depth (set_term t v) = depth v" "depth (revert_to H i v) = depth v"
  by (simp_all add: set_term_def revert_to_def)

lemma context_functions_level:
  "level v (eei_useGas H p g v)" "level v (eei_getAddress H p o1 v)"
  "level v (eei_getExternalBalance H p o1 o2 v)" "level v (eei_callDataCopy H p o1 o2 l v)"
  "level v (eei_getCaller H p o1 v)" "level v (eei_getCallValue H p o1 v)"
  "level v (eei_codeCopy H p o1 o2 l v)" "level v (eei_getBlockCoinbase H p o1 v)"
  "level v (eei_getBlockDifficulty H p o1 v)" "level v (eei_externalCodeCopy H p o1 o2 o3 l v)"
  "level v (eei_getTxGasPrice H p o1 v)" "level v (eei_getTxOrigin H p o1 v)"
  "level v (eei_returnDataCopy H p o1 o2 l v)"
  by (auto simp: eei_useGas_def eei_getAddress_def eei_getExternalBalance_def eei_callDataCopy_def eei_getCaller_def
      eei_getCallValue_def eei_codeCopy_def eei_getBlockCoinbase_def eei_getBlockDifficulty_def eei_externalCodeCopy_def
      eei_getTxGasPrice_def eei_getTxOrigin_def eei_returnDataCopy_def Let_def intro!: host_reads host_levels)

lemma storage_functions_level:
  "level v (eei_storageStore H p o1 o2 v)" "level v (eei_storageLoad H p o1 o2 v)"
  "level v (eei_storageStore2 H p o1 o2 o3 o4 v)" "level v (eei_storageLoad2 H p o1 o2 o3 o4 v)"
  "level v (eei_finish H p o1 l v)" "level v (eei_revert H p o1 l v)" "level v (eei_selfDestruct H p o1 v)"
  "level v (eei_log H p o1 l n t1 t2 t3 t4 v)" "level v (printMemHex H p o1 l v)" "level v (printStorageHex H p o1 v)"
  by (auto simp: eei_storageStore_def eei_storageLoad_def eei_storageStore2_def eei_storageLoad2_def eei_finish_def eei_revert_def
      eei_selfDestruct_def eei_log_def printMemHex_def printStorageHex_def unWindContract_def Let_def split: option.split intro!: host_reads host_levels)

abbreviation levels :: "'s wvm \<Rightarrow> ('s wvm \<times> 'r) option \<Rightarrow> bool" where
  "levels v m \<equiv> yields (\<lambda>(v', r). depth v' = depth v) m"

lemma answers_level:
  "levels v (eei_getBlockHash H p n o1 v)" "levels v (eei_getCallDataSize H p v)" "levels v (eei_getCodeSize H p v)"
  "levels v (eei_getExternalCodeSize H p o1 v)" "levels v (eei_getGasLeft H p v)" "levels v (eei_getBlockGasLimit H p v)"
  "levels v (eei_getBlockNumber H p v)" "levels v (eei_getReturnDataSize H p v)" "levels v (eei_getBlockTimestamp H p v)"
  by (auto simp: eei_getBlockHash_def eei_getCallDataSize_def eei_getCodeSize_def eei_getExternalCodeSize_def eei_getGasLeft_def
      eei_getBlockGasLimit_def eei_getBlockNumber_def eei_getReturnDataSize_def eei_getBlockTimestamp_def Let_def
      intro!: host_reads host_levels)

section \<open>Calls\<close>

definition run_level :: "'s run_fn \<Rightarrow> bool" where
  "run_level run \<longleftrightarrow> (\<forall>v c input ro. yields (\<lambda>(v', c', ret, e). depth v' = depth v) (run v c input ro))"

lemma Call_level:
  assumes "run_level run"
  shows "yields (\<lambda>(v', ret, left, e). depth v' = depth v) (Call run E v cr a input g x)"
proof -
  have run: "yields (\<lambda>(v', ret, left, e). depth v' = depth v) (run_contract run v c input ro)" for v c ro
    unfolding run_contract_def yields_bind
    by (rule yields_mono [OF assms [unfolded run_level_def, rule_format]]) auto
  have pre: "yields (\<lambda>(v', ret, left, e). depth v' = depth v) (run_precompile v q input g)" for v q
    by (auto simp: run_precompile_def yields_any)
  show ?thesis
    by (auto simp: Call_def Let_def end_call_def dest!: depth_puts(3,4) split: prod.split option.split
      intro!: yields_reads level_puts [THEN yields_mono] yields_mono [OF run] yields_mono [OF pre])
qed

lemma Create_level:
  assumes "run_level run"
  shows "yields (\<lambda>(v', ret, a, left, e). depth v' = depth v) (Create run E v cr code g x)"
proof -
  note run = assms [unfolded run_level_def, rule_format]
  have store: "yields (\<lambda>(v', c', e). depth v' = depth v) (store_code E a v c ret err)" for v a c ret err
    by (auto simp: store_code_def Let_def split: prod.split intro!: level_puts [THEN yields_mono])
  show ?thesis
    by (auto simp: Create_def create_def Let_def dest!: depth_puts(3,4) split: prod.split option.split
      intro!: yields_reads level_puts [THEN yields_mono] yields_mono [OF run] yields_mono [OF store])
qed

lemma runs_level:
  assumes "run_level (h_run H)"
  shows "levels v (run_wasm H ci t input ro v)" "level v (run_other H ci a input g x v)"
proof -
  show "levels v (run_wasm H ci t input ro v)" unfolding run_wasm_def Let_def yields_bind
    by (rule yields_mono [OF assms [unfolded run_level_def, rule_format]]) auto
  show "level v (run_other H ci a input g x v)" unfolding run_other_def Let_def yields_bind
    by (intro host_reads yields_mono [OF Call_level [OF assms]]) (auto intro!: host_levels)
qed

lemma finish_call_level: "levels v (finish_call H i ci left v)"
  by (auto simp: finish_call_def intro!: host_levels split: terminationType.split)

lemma calls_level:
  assumes "run_level (h_run H)"
  shows "levels v (eei_call H p g a x d l v)" "levels v (eei_callCode H p g a x d l v)" "levels v (eei_callDelegate H p g a d l v)"
    "levels v (eei_callStatic H p g a d l v)" "levels v (eei_create H p a x d l v)"
proof -
  note wasm = yields_mono [OF runs_level(1) [OF assms]] and other = yields_mono [OF runs_level(2) [OF assms]]
  note finish = yields_mono [OF finish_call_level] and new = yields_mono [OF Create_level [OF assms]]
  have common: "levels v (callCommon H p ci t input val i g ro v)" for v :: "'a wvm" and ci t input val i g ro
    by (auto simp: callCommon_def Let_def intro!: host_reads wasm other host_levels finish split: prod.splits)
  have body: "levels v (create_body H p ci input val x v)" for v :: "'a wvm" and ci input val x
    by (auto simp: create_body_def Let_def intro!: host_reads host_levels new split: prod.split terminationType.split)
  show "levels v (eei_call H p g a x d l v)"
    by (auto simp: eei_call_def Let_def dest!: depth_puts(3,4) intro!: host_reads host_levels wasm other finish split: prod.splits)
  show "levels v (eei_callCode H p g a x d l v)" "levels v (eei_callDelegate H p g a d l v)"
    by (auto simp: eei_callCode_def eei_callDelegate_def Let_def dest!: depth_puts(3,4)
      intro!: host_reads host_levels yields_mono [OF common] split: prod.splits)
  show "levels v (eei_callStatic H p g a d l v)"
    by (auto simp: eei_callStatic_def Let_def dest!: depth_puts(3,4) intro!: host_reads host_levels wasm other finish split: prod.splits)
  show "levels v (eei_create H p a x d l v)"
    by (auto simp: eei_create_def Let_def intro!: host_reads host_levels yields_mono [OF body] split: prod.splits)
qed

section \<open>Hosts that agree at a depth\<close>

text \<open>Functions other than calls do not use the interpreter that the host gives them.\<close>

lemma host_part [simp]:
  "readSize (H\<lparr>h_run := r\<rparr>) = readSize H" "read_address (H\<lparr>h_run := r\<rparr>) = read_address H" "read_hash (H\<lparr>h_run := r\<rparr>) = read_hash H"
  "write_at (H\<lparr>h_run := r\<rparr>) = write_at H" "callee_code (H\<lparr>h_run := r\<rparr>) = callee_code H" "finish_call (H\<lparr>h_run := r\<rparr>) = finish_call H"
  "stored_hash (H\<lparr>h_run := r\<rparr>) = stored_hash H" "paid_write (H\<lparr>h_run := r\<rparr>) = paid_write H" "path_key (H\<lparr>h_run := r\<rparr>) = path_key H"
  "unWindContract (H\<lparr>h_run := r\<rparr>) = unWindContract H" "read_topic (H\<lparr>h_run := r\<rparr>) = read_topic H" 
proof -
  show [simp]: "readSize (H\<lparr>h_run := r\<rparr>) = readSize H" by (simp add: fun_eq_iff readSize_def)
  show [simp]: "read_address (H\<lparr>h_run := r\<rparr>) = read_address H" "read_hash (H\<lparr>h_run := r\<rparr>) = read_hash H"
    by (simp_all add: fun_eq_iff read_address_def read_hash_def)
  show [simp]: "write_at (H\<lparr>h_run := r\<rparr>) = write_at H" by (simp add: fun_eq_iff write_at_def)
  show "callee_code (H\<lparr>h_run := r\<rparr>) = callee_code H" by (simp add: fun_eq_iff callee_code_def cong: option.case_cong)
  show "finish_call (H\<lparr>h_run := r\<rparr>) = finish_call H" by (simp add: fun_eq_iff finish_call_def revert_to_def cong: terminationType.case_cong)
  show "stored_hash (H\<lparr>h_run := r\<rparr>) = stored_hash H" by (simp add: fun_eq_iff stored_hash_def cong: option.case_cong)
  show "paid_write (H\<lparr>h_run := r\<rparr>) = paid_write H" by (simp add: fun_eq_iff paid_write_def)
  show "path_key (H\<lparr>h_run := r\<rparr>) = path_key H" by (simp add: fun_eq_iff path_key_def)
  show "unWindContract (H\<lparr>h_run := r\<rparr>) = unWindContract H" by (simp add: fun_eq_iff unWindContract_def)
  show "read_topic (H\<lparr>h_run := r\<rparr>) = read_topic H" by (simp add: fun_eq_iff read_topic_def)
qed

lemma read_topics_host [simp]: "read_topics (H\<lparr>h_run := r\<rparr>) = read_topics H"
  by (simp add: fun_eq_iff read_topics_def)

lemma other_functions [simp]:
  "eei_useGas (H\<lparr>h_run := r\<rparr>) = eei_useGas H" "eei_getAddress (H\<lparr>h_run := r\<rparr>) = eei_getAddress H"
  "eei_getExternalBalance (H\<lparr>h_run := r\<rparr>) = eei_getExternalBalance H" "eei_callDataCopy (H\<lparr>h_run := r\<rparr>) = eei_callDataCopy H"
  "eei_getCaller (H\<lparr>h_run := r\<rparr>) = eei_getCaller H" "eei_getCallValue (H\<lparr>h_run := r\<rparr>) = eei_getCallValue H"
  "eei_codeCopy (H\<lparr>h_run := r\<rparr>) = eei_codeCopy H" "eei_getBlockCoinbase (H\<lparr>h_run := r\<rparr>) = eei_getBlockCoinbase H"
  "eei_getBlockDifficulty (H\<lparr>h_run := r\<rparr>) = eei_getBlockDifficulty H" "eei_externalCodeCopy (H\<lparr>h_run := r\<rparr>) = eei_externalCodeCopy H"
  "eei_getTxGasPrice (H\<lparr>h_run := r\<rparr>) = eei_getTxGasPrice H" "eei_getTxOrigin (H\<lparr>h_run := r\<rparr>) = eei_getTxOrigin H"
  "eei_returnDataCopy (H\<lparr>h_run := r\<rparr>) = eei_returnDataCopy H" "eei_getBlockHash (H\<lparr>h_run := r\<rparr>) = eei_getBlockHash H"
  "eei_getCallDataSize (H\<lparr>h_run := r\<rparr>) = eei_getCallDataSize H" "eei_getCodeSize (H\<lparr>h_run := r\<rparr>) = eei_getCodeSize H"
  "eei_getExternalCodeSize (H\<lparr>h_run := r\<rparr>) = eei_getExternalCodeSize H" "eei_getGasLeft (H\<lparr>h_run := r\<rparr>) = eei_getGasLeft H"
  "eei_getBlockGasLimit (H\<lparr>h_run := r\<rparr>) = eei_getBlockGasLimit H" "eei_getBlockNumber (H\<lparr>h_run := r\<rparr>) = eei_getBlockNumber H"
  "eei_getReturnDataSize (H\<lparr>h_run := r\<rparr>) = eei_getReturnDataSize H" "eei_getBlockTimestamp (H\<lparr>h_run := r\<rparr>) = eei_getBlockTimestamp H"
  by (simp_all add: fun_eq_iff eei_useGas_def eei_getAddress_def eei_getExternalBalance_def eei_callDataCopy_def eei_getCaller_def
      eei_getCallValue_def eei_codeCopy_def eei_getBlockCoinbase_def eei_getBlockDifficulty_def eei_externalCodeCopy_def
      eei_getTxGasPrice_def eei_getTxOrigin_def eei_returnDataCopy_def eei_getBlockHash_def eei_getCallDataSize_def eei_getCodeSize_def
      eei_getExternalCodeSize_def eei_getGasLeft_def eei_getBlockGasLimit_def eei_getBlockNumber_def eei_getReturnDataSize_def
      eei_getBlockTimestamp_def cong: if_cong)

lemma effect_functions [simp]:
  "eei_storageStore (H\<lparr>h_run := r\<rparr>) = eei_storageStore H" "eei_storageLoad (H\<lparr>h_run := r\<rparr>) = eei_storageLoad H"
  "eei_storageStore2 (H\<lparr>h_run := r\<rparr>) = eei_storageStore2 H" "eei_storageLoad2 (H\<lparr>h_run := r\<rparr>) = eei_storageLoad2 H"
  "eei_finish (H\<lparr>h_run := r\<rparr>) = eei_finish H" "eei_revert (H\<lparr>h_run := r\<rparr>) = eei_revert H"
  "eei_selfDestruct (H\<lparr>h_run := r\<rparr>) = eei_selfDestruct H" "eei_log (H\<lparr>h_run := r\<rparr>) = eei_log H"
  "printMemHex (H\<lparr>h_run := r\<rparr>) = printMemHex H" "printStorageHex (H\<lparr>h_run := r\<rparr>) = printStorageHex H"
  by (simp_all add: fun_eq_iff eei_storageStore_def eei_storageLoad_def eei_storageStore2_def eei_storageLoad2_def eei_finish_def
      eei_revert_def eei_selfDestruct_def eei_log_def printMemHex_def printStorageHex_def cong: if_cong option.case_cong)

text \<open>Two interpreters agree at a depth if the limit of the code does not forbid it anyway.\<close>

definition runs_agree :: "int \<Rightarrow> 's run_fn \<Rightarrow> 's run_fn \<Rightarrow> bool" where
  "runs_agree k r r' \<longleftrightarrow> (k \<le> 1024 \<longrightarrow> (\<forall>v. depth v = k \<longrightarrow> r v = r' v))"

lemma machine_calls_agree:
  assumes "runs_agree k r r'" "depth v = k"
  shows "Call r E v = Call r' E v" "Create r E v = Create r' E v"
  using calls_agree [of k r r' E] assms by (simp_all add: runs_agree_def agree_def calls_of_def)

lemma wasm_runs_agree:
  assumes "runs_agree k r r'" "depth v = k" "k \<le> 1024"
  shows "run_wasm (H\<lparr>h_run := r\<rparr>) ci t input ro v = run_wasm (H\<lparr>h_run := r'\<rparr>) ci t input ro v"
    and "run_other (H\<lparr>h_run := r\<rparr>) ci a input g x v = run_other (H\<lparr>h_run := r'\<rparr>) ci a input g x v"
proof -
  have "r v = r' v" using assms by (simp add: runs_agree_def)
  then show "run_wasm (H\<lparr>h_run := r\<rparr>) ci t input ro v = run_wasm (H\<lparr>h_run := r'\<rparr>) ci t input ro v" by (simp add: run_wasm_def)
  show "run_other (H\<lparr>h_run := r\<rparr>) ci a input g x v = run_other (H\<lparr>h_run := r'\<rparr>) ci a input g x v"
    using machine_calls_agree(1) [OF assms(1,2)] by (simp add: run_other_def)
qed

lemmas depth_of = level_steps [THEN yieldsD] level_puts [THEN yieldsD]

lemma host_calls_agree:
  assumes "runs_agree k r r'" "depth v = k"
  shows "eei_call (H\<lparr>h_run := r\<rparr>) p g a x d l v = eei_call (H\<lparr>h_run := r'\<rparr>) p g a x d l v"
    "eei_callCode (H\<lparr>h_run := r\<rparr>) p g a x d l v = eei_callCode (H\<lparr>h_run := r'\<rparr>) p g a x d l v"
    "eei_callDelegate (H\<lparr>h_run := r\<rparr>) p g a d l v = eei_callDelegate (H\<lparr>h_run := r'\<rparr>) p g a d l v"
    "eei_callStatic (H\<lparr>h_run := r\<rparr>) p g a d l v = eei_callStatic (H\<lparr>h_run := r'\<rparr>) p g a d l v"
    "eei_create (H\<lparr>h_run := r\<rparr>) p a x d l v = eei_create (H\<lparr>h_run := r'\<rparr>) p a x d l v"
proof -
  note agree = wasm_runs_agree [OF assms(1)]
  have common: "callCommon (H\<lparr>h_run := r\<rparr>) p ci t input val i g ro w = callCommon (H\<lparr>h_run := r'\<rparr>) p ci t input val i g ro w"
    if "depth w = k" for ci t input val i g ro w
    using that by (auto simp: callCommon_def agree cong: if_cong)
  have body: "create_body (H\<lparr>h_run := r\<rparr>) p ci input val x w = create_body (H\<lparr>h_run := r'\<rparr>) p ci input val x w"
    if "depth w = k" for ci input val x w
    using that machine_calls_agree(2) [OF assms(1)]
    by (auto simp: create_body_def Let_def dest!: depth_of intro!: Option.bind_cong split: prod.split terminationType.split)
  show "eei_call (H\<lparr>h_run := r\<rparr>) p g a x d l v = eei_call (H\<lparr>h_run := r'\<rparr>) p g a x d l v"
    using assms(2)
    by (auto simp: eei_call_def Let_def agree dest!: depth_of depth_puts(3,4) intro!: Option.bind_cong split: prod.split)
  show "eei_callCode (H\<lparr>h_run := r\<rparr>) p g a x d l v = eei_callCode (H\<lparr>h_run := r'\<rparr>) p g a x d l v"
    "eei_callDelegate (H\<lparr>h_run := r\<rparr>) p g a d l v = eei_callDelegate (H\<lparr>h_run := r'\<rparr>) p g a d l v"
    using assms(2)
    by (auto simp: eei_callCode_def eei_callDelegate_def Let_def common dest!: depth_of depth_puts(3,4) intro!: Option.bind_cong split: prod.split)
  show "eei_callStatic (H\<lparr>h_run := r\<rparr>) p g a d l v = eei_callStatic (H\<lparr>h_run := r'\<rparr>) p g a d l v"
    using assms(2)
    by (auto simp: eei_callStatic_def Let_def agree dest!: depth_of depth_puts(3,4) intro!: Option.bind_cong split: prod.split)
  show "eei_create (H\<lparr>h_run := r\<rparr>) p a x d l v = eei_create (H\<lparr>h_run := r'\<rparr>) p a x d l v"
    using assms(2) by (auto simp: eei_create_def Let_def body dest!: depth_of intro!: Option.bind_cong)
qed

section \<open>Tables of host functions\<close>

definition fns_agree :: "int \<Rightarrow> func_sig \<times> 's host_fn \<Rightarrow> func_sig \<times> 's host_fn \<Rightarrow> bool" where
  "fns_agree k f f' \<longleftrightarrow> fst f = fst f' \<and>
     (\<forall>p as v. depth v = k \<longrightarrow> snd f p as v = snd f' p as v \<and> levels v (snd f p as v))"

lemma fns_agree_host:
  assumes "\<And>p as v. depth v = k \<Longrightarrow> f p as v = f' p as v" "\<And>p as v. levels v (f p as v)"
  shows "fns_agree k (host_func sig f) (host_func sig f')"
proof -
  have "levels v (f' p as v)" if "depth v = k" for p as v using assms(1) [OF that] assms(2) by metis
  then show ?thesis using assms(1) by (simp add: fns_agree_def host_func_def)
qed

lemma results_level:
  "levels v (no_result m) = level v m" "levels v (one_i32 n) = levels v n" "levels v (one_i64 n') = levels v n'"
  by (auto simp: no_result_def one_i32_def one_i64_def yields_def)

lemma tables_agree:
  assumes "runs_agree k r r'" "run_level r"
  shows "list_all2 (fns_agree k) (eeiFuncs (H\<lparr>h_run := r\<rparr>)) (eeiFuncs (H\<lparr>h_run := r'\<rparr>))"
    "list_all2 (fns_agree k) (getDebugFuncs (H\<lparr>h_run := r\<rparr>)) (getDebugFuncs (H\<lparr>h_run := r'\<rparr>))"
proof -
  have r: "run_level (h_run (H\<lparr>h_run := r\<rparr>))" using assms(2) by simp
  show "list_all2 (fns_agree k) (eeiFuncs (H\<lparr>h_run := r\<rparr>)) (eeiFuncs (H\<lparr>h_run := r'\<rparr>))"
    unfolding eeiFuncs_def
    by (intro list.rel_intros fns_agree_host)
      (simp_all only: results_level other_functions effect_functions host_calls_agree [OF assms(1)] calls_level [OF r]
        context_functions_level storage_functions_level answers_level simp_thms)
  show "list_all2 (fns_agree k) (getDebugFuncs (H\<lparr>h_run := r\<rparr>)) (getDebugFuncs (H\<lparr>h_run := r'\<rparr>))"
    unfolding getDebugFuncs_def
    by (intro list.rel_intros fns_agree_host)
      (simp_all only: results_level effect_functions storage_functions_level simp_thms)
qed

text \<open>What is asked of wagon: a run can tell two tables of host functions apart only by calling a function in which they differ, and changes
  the machine only by calls.\<close>

definition exec_local :: "'s wagon_vm \<Rightarrow> bool" where
  "exec_local X \<longleftrightarrow> (\<forall>k F F'. (\<forall>name. rel_option (rel_prod (list_all2 (fns_agree k)) (=)) (F name) (F' name)) \<longrightarrow>
     (\<forall>m i p v. depth v = k \<longrightarrow> x_Exec X F m i p v = x_Exec X F' m i p v \<and> levels v (x_Exec X F m i p v)))"

lemma exec_agree:
  assumes "exec_local X" "runs_agree (depth v) r r'" "run_level r"
  shows "x_Exec X (ModuleResolver (H\<lparr>h_run := r\<rparr>)) m i p v = x_Exec X (ModuleResolver (H\<lparr>h_run := r'\<rparr>)) m i p v"
    and "levels v (x_Exec X (ModuleResolver (H\<lparr>h_run := r\<rparr>)) m i p v)"
proof -
  have "rel_option (rel_prod (list_all2 (fns_agree (depth v))) (=)) (ModuleResolver (H\<lparr>h_run := r\<rparr>) name)
      (ModuleResolver (H\<lparr>h_run := r'\<rparr>) name)" for name
    using tables_agree [OF assms(2,3)] by (simp add: ModuleResolver_def)
  with assms(1) show "x_Exec X (ModuleResolver (H\<lparr>h_run := r\<rparr>)) m i p v = x_Exec X (ModuleResolver (H\<lparr>h_run := r'\<rparr>)) m i p v"
    "levels v (x_Exec X (ModuleResolver (H\<lparr>h_run := r\<rparr>)) m i p v)" unfolding exec_local_def by blast+
qed

section \<open>Runs\<close>

lemma wasm_body_level:
  assumes "exec_local X" "run_level r"
  shows "run_level (wasm_body (H\<lparr>h_run := r\<rparr>) X)"
proof -
  have exec: "levels v (x_Exec X (ModuleResolver (H\<lparr>h_run := r\<rparr>)) m i p v)" for v m i p
    by (rule exec_agree(2) [OF assms(1) _ assms(2), of _ r]) (simp add: runs_agree_def)
  have main: "yields (\<lambda>(v', ret, e). depth v' = depth v) (exec_main (H\<lparr>h_run := r\<rparr>) X m i p a v)" for v m i p a
    unfolding exec_main_def Let_def yields_bind by (rule yields_mono [OF exec]) auto
  have module: "yields (\<lambda>(v', ret, e). depth v' = depth v) (wasm_module (H\<lparr>h_run := r\<rparr>) X c v)" for v c
    by (auto simp: wasm_module_def Let_def split: option.split intro!: yields_any [of _ "x_NewVM X m" for m]
      yields_any [of _ "validateModule m" for m] yields_any [of _ "go_index xs i" for xs i] yields_mono [OF main])
  show ?thesis by (auto simp: run_level_def wasm_body_def Let_def intro!: yields_mono [OF module] host_reads)
qed

lemma wasm_Run_level:
  assumes "exec_local X"
  shows "run_level (wasm_Run d H X)"
proof (induction d)
  case (Suc d)
  have "wasm_Run (Suc d) H X = wasm_body (H\<lparr>h_run := wasm_Run d H X\<rparr>) X" by (intro ext) simp
  with wasm_body_level [OF assms Suc.IH] show ?case by metis
qed (simp add: run_level_def)

lemma wasm_body_agree:
  assumes "exec_local X" "runs_agree (depth v + 1) r r'" "run_level r"
  shows "wasm_body (H\<lparr>h_run := r\<rparr>) X v c input ro = wasm_body (H\<lparr>h_run := r'\<rparr>) X v c input ro"
proof -
  have main: "exec_main (H\<lparr>h_run := r\<rparr>) X m i p a w = exec_main (H\<lparr>h_run := r'\<rparr>) X m i p a w" if "depth w = depth v + 1" for m i p a w
    using exec_agree(1) [OF assms(1) _ assms(3), of w r' H] assms(2) that by (simp add: exec_main_def cong: if_cong)
  have "wasm_module (H\<lparr>h_run := r\<rparr>) X c w = wasm_module (H\<lparr>h_run := r'\<rparr>) X c w" if "depth w = depth v + 1" for c w
    using that by (auto simp: wasm_module_def Let_def main intro!: Option.bind_cong split: option.split)
  then show ?thesis by (simp add: wasm_body_def Let_def)
qed

text \<open>C9. The depth limit of the code bounds the nesting of runs of wasm as well: fuel for the calls up to the limit gives the same answer as
  any greater fuel.\<close>

theorem wasm_depth_fuel_enough:
  assumes "exec_local X" "1024 \<le> depth v + int d" "d \<le> d'"
  shows "wasm_Run (Suc d) H X v c input ro = wasm_Run (Suc d') H X v c input ro"
  using assms(2,3)
proof (induction d arbitrary: d' v c input ro)
  case 0
  then have "runs_agree (depth v + 1) (wasm_Run 0 H X) (wasm_Run d' H X)" by (simp add: runs_agree_def)
  from wasm_body_agree [OF assms(1) this wasm_Run_level [OF assms(1)]] show ?case by simp
next
  case (Suc d)
  then obtain e where e: "d' = Suc e" "d \<le> e" by (cases d') auto
  have "runs_agree (depth v + 1) (wasm_Run (Suc d) H X) (wasm_Run (Suc e) H X)"
    using Suc.IH [OF _ e(2)] Suc.prems(1) by (auto simp: runs_agree_def fun_eq_iff simp del: wasm_Run.simps)
  from wasm_body_agree [OF assms(1) this wasm_Run_level [OF assms(1)]] show ?case by (simp add: e(1))
qed

lemma reverting_local: "exec_local reverting"
proof -
  have "x_Exec reverting F m i p v = x_Exec reverting F' m i p v \<and> levels v (x_Exec reverting F m i p v)"
    if "rel_option (rel_prod (list_all2 (fns_agree (depth v))) (=)) (F ''ethereum'') (F' ''ethereum'')" for F F' m i p v
    using that
  proof (cases rule: option.rel_cases)
    case (Some x y)
    then obtain fs fs' ns where t: "F ''ethereum'' = Some (fs, ns)" "F' ''ethereum'' = Some (fs', ns)" "list_all2 (fns_agree (depth v)) fs fs'"
      by (cases x, cases y) auto
    have "snd (fs ! j) p as v = snd (fs' ! j) p as v \<and> levels v (snd (fs ! j) p as v)" if "j < length fs" for j as
      using list_all2_nthD [OF t(3) that] unfolding fns_agree_def by blast
    then show ?thesis
      using t(1,2) list_all2_lengthD [OF t(3)]
      by (cases "lookup ns ''revert''") (fastforce simp: reverting_def go_index_def yields_def bind_Some_iff split: prod.splits)+
  qed (simp add: reverting_def)
  then show ?thesis unfolding exec_local_def by blast
qed

theorem wasm_depth_fuel_enough_witness:
  "\<forall>c input ro. wasm_Run 1024 std_host reverting (std_wvm wasm_core 1000 []) c input ro =
   wasm_Run 5000 std_host reverting (std_wvm wasm_core 1000 []) c input ro"
proof -
  have "1024 \<le> depth (std_wvm wasm_core 1000 []) + int 1023" by simp
  from wasm_depth_fuel_enough [OF reverting_local this, of 4999] show ?thesis by simp
qed

end
