(* ===== verification/Config.thy ===== *)
theory Config
  imports Prelude
begin

text \<open>
  The configuration of the chain (\<^verbatim>\<open>params/config.go\<close>): its id, the end of proof of work, and the error for a configuration that
  does not fit the blocks that are stored. The consensus engines carry no behaviour here, and printing is left out.
\<close>

record chain_config =
  cc_ChainID :: "int option"
  cc_TerminalTotalDifficulty :: "int option"

text \<open>The rules hold the id of the chain, and no id is 0.\<close>

definition Rules :: "chain_config \<Rightarrow> int" where
  "Rules c = (case cc_ChainID c of None \<Rightarrow> 0 | Some i \<Rightarrow> i)"

definition IsTerminalPoWBlock :: "chain_config \<Rightarrow> int \<Rightarrow> int \<Rightarrow> bool" where
  "IsTerminalPoWBlock c parentTotalDiff totalDiff =
     (case cc_TerminalTotalDifficulty c of
        None \<Rightarrow> False
      | Some ttd \<Rightarrow> parentTotalDiff < ttd \<and> totalDiff \<ge> ttd)"

record compat_error =
  What :: string
  StoredConfig :: "int option"
  NewConfig :: "int option"
  RewindTo :: u64

definition newCompatError :: "string \<Rightarrow> int option \<Rightarrow> int option \<Rightarrow> compat_error" where
  "newCompatError what storedblock newblock =
     (let rew = (case storedblock of
            None \<Rightarrow> newblock
          | Some st \<Rightarrow> (case newblock of
                None \<Rightarrow> storedblock
              | Some nb \<Rightarrow> if st < nb then storedblock else newblock))
      in \<lparr>What = what, StoredConfig = storedblock, NewConfig = newblock,
          RewindTo = (case rew of Some r \<Rightarrow> if r > 0 then word_of_int r - 1 else 0 | None \<Rightarrow> 0)\<rparr>)"

section \<open>Laws\<close>

text \<open>The chain is rewound to the block before the earlier of the two forks.\<close>

lemma RewindTo_before_forks:
  assumes "0 < a" "a < 2 ^ 64" "0 < b" "b < 2 ^ 64"
  shows "uint (RewindTo (newCompatError w (Some a) (Some b))) = min a b - 1"
proof -
  have "uint (word_of_int r - 1 :: u64) = r - 1" if "0 < r" "r < 2 ^ 64" for r
    using that by (simp add: uint_word_ariths(2) uint_word_of_int mod_pos_pos_trivial)
  then show ?thesis using assms by (auto simp: newCompatError_def Let_def min_def)
qed

text \<open>While the difficulty grows, at most one block of a chain is the last of proof of work.\<close>

lemma terminal_block_unique:
  assumes "IsTerminalPoWBlock c p t" "t \<le> p'"
  shows "\<not> IsTerminalPoWBlock c p' t'"
  using assms by (auto simp: IsTerminalPoWBlock_def split: option.splits)

end
