(* ===== verification/Spec2Isabelle.thy ===== *)
theory Spec2Isabelle
  imports MarkCache Calls StaticDb StackFrames NativeLaws ProcessLaws PoolLaws LinkerLaws WasmDepth Config
begin

text \<open>
  A verification library for MetaVM: the virtual machine for byte code and for wasm (\<^verbatim>\<open>vm/ethvm\<close>) and the execution of
  transactions and blocks around it (\<^verbatim>\<open>process\<close>, \<^verbatim>\<open>transcut\<close>, \<^verbatim>\<open>core\<close>, \<^verbatim>\<open>common\<close>, \<^verbatim>\<open>params\<close>).

  \<^bold>\<open>The program.\<close> A block of transactions is split into levels (\<^verbatim>\<open>transcut\<close>). The processor executes it in order, or level
  by level by a pool of workers; then it looks for conflicts between the read and write sets of the transactions of a level,
  executes the losers again, and commits the write sets to the database. A transaction becomes a message; its transition
  checks it, buys gas, and calls or creates a contract in a machine, which records the changes of accounts in the write set and not in
  the database. The machine runs the interpreter of byte code, or that of wasm, and each can call the other.

  \<^bold>\<open>How Go is modelled.\<close> A function that may panic answers an option, and \<open>None\<close> is the panic. Errors are
  values. Fixed-width integers are words, a big integer is an \<open>int\<close>, a nil pointer is \<open>None\<close>. State is passed and
  returned. Where the code shares an object through pointers the model keeps a store and positions in it: the jump-destination
  analyses of a call chain, and the contracts and processes of the wasm interpreter.

  \<^bold>\<open>Theories of the model, with the files they translate.\<close>
  \<^item> \<open>Prelude\<close>: panics, bytes, slices, association lists for Go maps, \<open>yields\<close> for what a result satisfies if there is one.
  \<^item> \<open>Params\<close> (\<^verbatim>\<open>params/protocol_params.go\<close>), \<open>Config\<close> (\<^verbatim>\<open>params/config.go\<close>), \<open>Common\<close> (\<^verbatim>\<open>common/common.go\<close>, \<^verbatim>\<open>vm/ethvm/common.go\<close>),
    \<open>External\<close> (records of the library functions that are called, the laws they document, and an instance of each).
  \<^item> \<open>CoreTypes\<close> (\<^verbatim>\<open>core/types.go\<close>, \<^verbatim>\<open>process/transaction_args.go\<close>), \<open>MarkCache\<close> (\<^verbatim>\<open>transcut/transactionMark.go\<close>).
  \<^item> \<open>Stack\<close> (\<^verbatim>\<open>stack.go\<close>, \<^verbatim>\<open>stack_table.go\<close>), \<open>Memory\<close> (\<^verbatim>\<open>memory.go\<close>), \<open>Opcodes\<close> (\<^verbatim>\<open>opcodes.go\<close>), \<open>Bitvec\<close> (\<^verbatim>\<open>analysis.go\<close>),
    \<open>Errors\<close> (\<^verbatim>\<open>errors.go\<close>), \<open>RWSet\<close> (the read and write sets of \<^verbatim>\<open>ethvm.go\<close>), \<open>StateDB\<close> (\<^verbatim>\<open>interface.go\<close>).
  \<^item> \<open>VM\<close> (\<^verbatim>\<open>contract.go\<close> and the state of the machine), \<open>Precompiles\<close> and \<open>NativeContracts\<close> (\<^verbatim>\<open>contracts.go\<close>), \<open>GasTable\<close>
    (\<^verbatim>\<open>gas.go\<close>, \<^verbatim>\<open>gas_table.go\<close>, \<^verbatim>\<open>memory_table.go\<close>, \<^verbatim>\<open>operations_acl.go\<close>), \<open>Instructions\<close> (\<^verbatim>\<open>instructions.go\<close>, \<^verbatim>\<open>eips.go\<close>), \<open>JumpTable\<close>
    (\<^verbatim>\<open>jump_table.go\<close>), \<open>EthVM\<close> (calls and creations of \<^verbatim>\<open>ethvm.go\<close>), \<open>Interpreter\<close> (\<^verbatim>\<open>interpreter.go\<close>).
  \<^item> \<open>Transition\<close> (\<^verbatim>\<open>process_transition.go\<close>), \<open>Process\<close> (\<^verbatim>\<open>background.go\<close>, the execution in order of \<^verbatim>\<open>process.go\<close>), \<open>Parallel\<close>
    (\<^verbatim>\<open>cacheSet.go\<close>, the execution by levels of \<^verbatim>\<open>process.go\<close>), \<open>Pool\<close> (\<^verbatim>\<open>execpool.go\<close>).
  \<^item> \<open>Linker\<close> (\<^verbatim>\<open>ewasm_linker.go\<close>), \<open>Eei\<close> and \<open>EeiCalls\<close> (\<^verbatim>\<open>ewasm_eei.go\<close>), \<open>Wasm\<close> (\<^verbatim>\<open>ewasm.go\<close> and the table of host functions).
\<close>

text \<open>
  \<^bold>\<open>Theories of laws, and what they show.\<close> Laws of a small component stand beside its model; its interface is a locale that the
  model interprets (\<open>lifo\<close>, \<open>prefix_codec\<close>, \<open>code_analysis\<close>, \<open>kv_cache\<close>, \<open>call_calculator\<close>).
  \<^item> \<open>Bitvec\<close>: the analysis equals a one-pass reference, so a jump lands on a JUMPDEST outside push data. \<open>Memory\<close>: reads
    and writes refine an infinite memory. \<open>MarkCache\<close>: levels partition a block. \<open>RWSet\<close>: write sets are typed maps.
  \<^item> \<open>GasTable\<close>, \<open>GasLaws\<close>: memory fees depend on the final size only, storage prices, at most 63 of 64 parts for a callee.
  \<^item> \<open>Effects\<close>, \<open>ExecLaws\<close>, \<open>GasEffects\<close>: laws of every instruction and every gas function (stack effect, gas, memory), collected in
    \<open>named_theorems\<close> and lifted to all 256 slots of the table. \<open>Machine\<close>: with them the loop keeps its
    invariant and ends. \<open>Steady\<close>, \<open>Runs\<close>: whole runs at any nesting gain no gas, and write nothing to the write set
    in static mode. \<open>StackFrames\<close>: the lower bound of a slot covers every operand that is read, so what lies below does not matter.
  \<^item> \<open>Snapshots\<close>, \<open>Calls\<close>: a failed call restores the database at any nesting; what calls and creations do to the write set.
    \<open>StaticDb\<close>: in static mode the accounts of the database stay as they are, too.
  \<^item> \<open>EeiLaws\<close>, \<open>EeiCallLaws\<close>, \<open>EeiSnapshots\<close>: host functions are typed, pay, and store what they load; calls from wasm that do not
    succeed restore the database, through byte code and back, provided that wagon changes the machine only through host functions.
    \<open>WasmDepth\<close>: every host function keeps the depth of calls, and the limit of the code bounds the nesting.
  \<^item> \<open>NativeLaws\<close>: modular exponentiation is exact, no native contract panics, though its slices and indices are checked
    as Go checks them, against the length of the input. \<open>Rlp\<close>, \<open>LinkerLaws\<close>: signed code, its audit and the encoding of the tasks.
  \<^item> \<open>TransitionLaws\<close>, \<open>Commits\<close>, \<open>ProcessLaws\<close>: intrinsic gas, accepted messages, the commit as a function on account views whatever the
    order of the maps, the accounts of a block, and the hashes that the closure for past blocks answers, which hashes every parent hash
    again.
  \<^item> \<open>ParallelLaws\<close>, \<open>PoolLaws\<close>: detection of conflicts refines an overlay of write sets; the commit through state objects forgets deployed code;
    what the pool returns was executed as an interleaving of its transactions, access by access, and every run of it ends.

  Some theorems state what the code does where it is not what it means to do, among them \<open>plain_transaction_mints\<close>,
  \<open>failed_call_keeps_transfer\<close>, \<open>static_call_mints_gas\<close>, \<open>sstore_at_nonce_key_crashes_commit\<close>, \<open>empty_pool_hangs\<close> and \<open>restart_misses_newest\<close>.

  \<^bold>\<open>Fuel.\<close> The loop of the interpreter has one unit of fuel more than the contract has gas: every turn that goes on takes gas
  (\<open>loop_terminates\<close>). Nested calls have fuel for the depth limit of 1024, one more than that is enough and more changes nothing
  (\<open>depth_fuel_enough\<close>, and \<open>wasm_depth_fuel_enough\<close> for runs of wasm). The walk to a past block has one unit per block
  (\<open>block_hashes_settled\<close>).

  \<^bold>\<open>Parameters.\<close> The 256-bit integers, helpers of go-ethereum and MetaTypes, hashes and curves, the state database, wagon, the
  signatures and the rlp encoding of audits, the store of audits, the gas pool, sorting, and the order in which Go walks a map.
  Hypotheses about them state documented behaviour (\<open>geth_spec\<close>, \<open>uint256_spec\<close>, \<open>accounts_spec\<close>, \<open>journal_spec\<close>, \<open>wagon_spec\<close>, \<open>exec_spec\<close>,
  \<open>exec_local\<close> and others), and witnesses give concrete functions for them.

  \<^bold>\<open>Not modelled.\<close> \<^verbatim>\<open>vm/ewasm\<close> and \<^verbatim>\<open>vm/interface\<close> are copies of files of \<^verbatim>\<open>vm/ethvm\<close> that nothing imports; the former does not compile
  (its functions take a type it does not declare), so there is no behaviour to translate. The tracer, printing, logging and protobuf
  are calls of libraries without effect on the state that is modelled. In the pool a transaction is an arbitrary sequence of accesses to the state
  that the workers share, and they interleave; a level of a block (\<open>exec_level\<close>) executes its transactions one after the other, in any order,
  so schedules in which they overlap are covered by the theorems about the pool only. Panics recovered by wagon end a run here. \<^verbatim>\<open>ETHVM.Copy\<close>, the cancelling of a machine from outside,
  the written pool and the metering of code are not called by the code that is modelled. \<^verbatim>\<open>interfaces\<close> and \<^verbatim>\<open>vm/ethvm/ewasmtool.go\<close> declare types and addresses.
\<close>

end
